(* ===== verification/Prelude.thy ===== *)
theory Prelude
  imports Main "HOL-Library.Word" "HOL-Library.Char_ord" "HOL-Library.List_Lexorder"
begin

text \<open>
  Shared vocabulary of the development: the two shapes a Go error takes (a second result, or the
  only result), loops that stop at the first error, the width of Go's \<open>int\<close>, and the theorem
  collections the component theories feed and draw from.

  \<^item> A Go function returning \<open>(T, error)\<close> is modelled by a value of the sum type
    \<open>'e + 'a\<close>: \<open>Inl e\<close> is a non-nil error, \<open>Inr x\<close> the result with a nil error.
  \<^item> A Go function returning \<open>error\<close> alone is modelled by \<open>'e option\<close>: \<open>None\<close> is nil.
\<close>

named_theorems result_simps \<open>rewriting of results and of validations\<close>
named_theorems go_eval \<open>equations that evaluate the model on concrete inputs\<close>

subsection \<open>Results and validations\<close>

type_synonym ('e, 'a) result = "'e + 'a"

definition rbind :: "'e + 'a \<Rightarrow> ('a \<Rightarrow> 'e + 'b) \<Rightarrow> 'e + 'b" where
  "rbind m f = (case m of Inl e \<Rightarrow> Inl e | Inr x \<Rightarrow> f x)"

lemma rbind_Inl [simp]: "rbind (Inl e) f = Inl e"
  by (simp add: rbind_def)

lemma rbind_Inr [simp]: "rbind (Inr x) f = f x"
  by (simp add: rbind_def)

lemma rbind_eq_Inr_iff [result_simps]:
  "rbind m f = Inr y \<longleftrightarrow> (\<exists>x. m = Inr x \<and> f x = Inr y)"
  by (cases m) auto

lemma rbind_eq_Inl_iff [result_simps]:
  "rbind m f = Inl e \<longleftrightarrow> m = Inl e \<or> (\<exists>x. m = Inr x \<and> f x = Inl e)"
  by (cases m) auto

text \<open>\<open>if err := a; err != nil { return err }; return b\<close>\<close>

definition vthen :: "'e option \<Rightarrow> 'e option \<Rightarrow> 'e option" where
  "vthen a b = (case a of Some e \<Rightarrow> Some e | None \<Rightarrow> b)"

lemma vthen_Some [simp]: "vthen (Some e) b = Some e"
  by (simp add: vthen_def)

lemma vthen_None_left [simp]: "vthen None b = b"
  by (simp add: vthen_def)

lemma vthen_None_right [simp]: "vthen a None = a"
  by (cases a) (simp_all add: vthen_def)

lemma vthen_eq_None_iff [simp]: "vthen a b = None \<longleftrightarrow> a = None \<and> b = None"
  by (cases a) simp_all

lemma vthen_eq_Some_iff [result_simps]:
  "vthen a b = Some e \<longleftrightarrow> a = Some e \<or> (a = None \<and> b = Some e)"
  by (cases a) auto

lemma vthen_assoc: "vthen (vthen a b) c = vthen a (vthen b c)"
  by (cases a) simp_all

text \<open>\<open>if cond { return fmt.Errorf(...) }\<close>\<close>

definition fail_if :: "bool \<Rightarrow> 'e \<Rightarrow> 'e option" where
  "fail_if b e = (if b then Some e else None)"

lemma fail_if_simps [simp]: "fail_if True e = Some e" "fail_if False e = None"
  by (simp_all add: fail_if_def)

lemma fail_if_eq_None_iff [simp]: "fail_if b e = None \<longleftrightarrow> \<not> b"
  by (simp add: fail_if_def)

lemma fail_if_eq_Some_iff [simp]: "fail_if b e = Some e' \<longleftrightarrow> b \<and> e' = e"
  by (auto simp: fail_if_def)

text \<open>A \<open>for\<close> loop that returns the first error its body reports.\<close>

primrec first_error :: "('a \<Rightarrow> 'e option) \<Rightarrow> 'a list \<Rightarrow> 'e option" where
  "first_error f [] = None"
| "first_error f (x # xs) = vthen (f x) (first_error f xs)"

lemma first_error_eq_None_iff [simp]:
  "first_error f xs = None \<longleftrightarrow> (\<forall>x \<in> set xs. f x = None)"
  by (induction xs) auto

lemma first_error_eq_SomeD:
  "first_error f xs = Some e \<Longrightarrow> \<exists>x \<in> set xs. f x = Some e"
  by (induction xs) (auto simp: result_simps)

lemma first_error_append:
  "first_error f (xs @ ys) = vthen (first_error f xs) (first_error f ys)"
  by (induction xs) (simp_all add: vthen_assoc)

text \<open>
  The loop that rejects a key it has already seen: \<open>seen := map[string]bool{}\<close>, one check
  before the membership test and one after it.
\<close>

primrec check_unique ::
  "('a \<Rightarrow> 'k) \<Rightarrow> ('a \<Rightarrow> 'e option) \<Rightarrow> ('a \<Rightarrow> 'e) \<Rightarrow> ('a \<Rightarrow> 'e option) \<Rightarrow> 'k list \<Rightarrow> 'a list \<Rightarrow> 'e option"
where
  "check_unique key pre dup post seen [] = None"
| "check_unique key pre dup post seen (x # xs) =
     vthen (pre x)
      (vthen (fail_if (key x \<in> set seen) (dup x))
        (vthen (post x) (check_unique key pre dup post (key x # seen) xs)))"

lemma check_unique_eq_None_gen:
  "check_unique key pre dup post seen xs = None \<longleftrightarrow>
     (\<forall>x \<in> set xs. pre x = None \<and> post x = None) \<and> distinct (map key xs)
      \<and> set (map key xs) \<inter> set seen = {}"
  by (induction xs arbitrary: seen) auto

lemma check_unique_eq_None_iff [simp]:
  "check_unique key pre dup post [] xs = None \<longleftrightarrow>
     (\<forall>x \<in> set xs. pre x = None \<and> post x = None) \<and> distinct (map key xs)"
  by (simp add: check_unique_eq_None_gen)

text \<open>A loop over a slice that threads a state and stops at the first error.\<close>

primrec rfold :: "('s \<Rightarrow> 'a \<Rightarrow> 'e + 's) \<Rightarrow> 's \<Rightarrow> 'a list \<Rightarrow> 'e + 's" where
  "rfold f s [] = Inr s"
| "rfold f s (x # xs) = rbind (f s x) (\<lambda>s'. rfold f s' xs)"

lemma rfold_append:
  "rfold f s (xs @ ys) = rbind (rfold f s xs) (\<lambda>s'. rfold f s' ys)"
proof (induction xs arbitrary: s)
  case (Cons x xs)
  then show ?case by (cases "f s x") simp_all
qed simp

lemma rfold_invariant:
  assumes "rfold f s xs = Inr s'" and "P s"
    and "\<And>t x t'. x \<in> set xs \<Longrightarrow> P t \<Longrightarrow> f t x = Inr t' \<Longrightarrow> P t'"
  shows "P s'"
  using assms
proof (induction xs arbitrary: s)
  case (Cons x xs)
  from Cons.prems(1) obtain t where t: "f s x = Inr t" "rfold f t xs = Inr s'"
    by (auto simp: result_simps)
  show ?case
    by (rule Cons.IH [OF t(2)]) (use Cons.prems t(1) in auto)
qed simp

lemma rfold_total:
  assumes "P s" and "\<And>t x. x \<in> set xs \<Longrightarrow> P t \<Longrightarrow> \<exists>t'. f t x = Inr t' \<and> P t'"
  shows "\<exists>s'. rfold f s xs = Inr s' \<and> P s'"
  using assms
proof (induction xs arbitrary: s)
  case (Cons x xs)
  then obtain t where "f s x = Inr t" "P t" by fastforce
  with Cons show ?case by simp
qed simp

subsection \<open>Optional values, association by key\<close>

primrec is_none :: "'a option \<Rightarrow> bool" where
  "is_none None = True"
| "is_none (Some x) = False"

lemma is_none_iff [simp]: "is_none x \<longleftrightarrow> x = None"
  by (cases x) simp_all

text \<open>
  \<open>m := map[string]T{}; for _, x := range xs { m[x.ID] = x }\<close>: a later entry with the same
  key replaces an earlier one.
\<close>

definition index_by :: "('a \<Rightarrow> 'k) \<Rightarrow> 'a list \<Rightarrow> ('k \<rightharpoonup> 'a)" where
  "index_by key xs = map_of (rev (map (\<lambda>x. (key x, x)) xs))"

lemma index_by_SomeD: "index_by key xs k = Some x \<Longrightarrow> x \<in> set xs \<and> key x = k"
  by (auto simp: index_by_def dest!: map_of_SomeD)

lemma index_by_eq_None_iff: "index_by key xs k = None \<longleftrightarrow> k \<notin> key ` set xs"
  by (auto simp: index_by_def map_of_eq_None_iff image_image)

lemma index_by_distinct:
  "distinct (map key xs) \<Longrightarrow> x \<in> set xs \<Longrightarrow> index_by key xs (key x) = Some x"
  by (auto simp: index_by_def rev_map [symmetric] o_def
      intro!: map_of_is_SomeI)

subsection \<open>Machine integers\<close>

text \<open>Go's \<open>int\<close> on the supported 64-bit targets: two's complement, wrapping.\<close>

definition wrap64 :: "int \<Rightarrow> int" where
  "wrap64 x = (x + 2 ^ 63) mod 2 ^ 64 - 2 ^ 63"

lemma wrap64_id: "- (2 ^ 63) \<le> x \<Longrightarrow> x < 2 ^ 63 \<Longrightarrow> wrap64 x = x"
  by (simp add: wrap64_def)

lemma wrap64_range: "- (2 ^ 63) \<le> wrap64 x \<and> wrap64 x < 2 ^ 63"
proof -
  have "0 \<le> (x + 2 ^ 63) mod 2 ^ 64" "(x + 2 ^ 63) mod 2 ^ 64 < (2 ^ 64 :: int)"
    by simp_all
  then show ?thesis by (simp add: wrap64_def)
qed

lemma wrap64_mult_left: "wrap64 (wrap64 x * y) = wrap64 (x * y)"
proof -
  have "((x + 2 ^ 63) mod 2 ^ 64 - 2 ^ 63) mod 2 ^ 64 = x mod (2 ^ 64 :: int)"
    by (metis add_diff_cancel_right' mod_diff_left_eq)
  then have "wrap64 x mod 2 ^ 64 = x mod 2 ^ 64"
    by (simp only: wrap64_def)
  then have "wrap64 x * y mod 2 ^ 64 = x * y mod 2 ^ 64"
    by (metis mod_mult_left_eq)
  then have "(wrap64 x * y + 2 ^ 63) mod 2 ^ 64 = (x * y + 2 ^ 63) mod 2 ^ 64"
    by (metis mod_add_left_eq)
  then show ?thesis
    unfolding wrap64_def [of "wrap64 x * y"] wrap64_def [of "x * y"] by (simp only:)
qed

end
