(* ===== verification/GoStrings.thy ===== *)
theory GoStrings
  imports Prelude
begin

text \<open>
  The part of Go's \<open>strings\<close>, \<open>strconv\<close>, \<open>unicode\<close> and \<open>unicode/utf8\<close> packages the program
  uses. A Go string is a sequence of bytes, here a \<^typ>\<open>string\<close> whose characters are bytes;
  functions that work on runes decode UTF-8 the way \<open>utf8.DecodeRune\<close> does (an ill-formed byte
  is U+FFFD of width one). The case tables are the simple case mappings of Unicode 15.
\<close>

subsection \<open>Bytes\<close>

abbreviation byte_of :: "char \<Rightarrow> nat" where
  "byte_of c \<equiv> of_char c"

abbreviation chr_of :: "nat \<Rightarrow> char" where
  "chr_of n \<equiv> char_of n"

definition is_digit :: "char \<Rightarrow> bool" where
  "is_digit c \<longleftrightarrow> 48 \<le> byte_of c \<and> byte_of c \<le> 57"

definition is_upper_ascii :: "char \<Rightarrow> bool" where
  "is_upper_ascii c \<longleftrightarrow> 65 \<le> byte_of c \<and> byte_of c \<le> 90"

definition is_lower_ascii :: "char \<Rightarrow> bool" where
  "is_lower_ascii c \<longleftrightarrow> 97 \<le> byte_of c \<and> byte_of c \<le> 122"

definition is_letter_ascii :: "char \<Rightarrow> bool" where
  "is_letter_ascii c \<longleftrightarrow> is_upper_ascii c \<or> is_lower_ascii c"

definition is_ascii :: "char \<Rightarrow> bool" where
  "is_ascii c \<longleftrightarrow> byte_of c < 128"

subsection \<open>UTF-8\<close>

definition rune_error :: nat where
  "rune_error = 65533"

definition is_cont :: "char \<Rightarrow> bool" where
  "is_cont c \<longleftrightarrow> 128 \<le> byte_of c \<and> byte_of c \<le> 191"

text \<open>\<open>utf8.DecodeRuneInString\<close>: the first rune and its width.\<close>

definition decode_rune :: "string \<Rightarrow> nat \<times> nat" where
  "decode_rune s =
     (case s of
        [] \<Rightarrow> (rune_error, 0)
      | c # cs \<Rightarrow>
          (let b = byte_of c in
           if b < 128 then (b, 1)
           else if 194 \<le> b \<and> b \<le> 223 then
             (case cs of
                c1 # _ \<Rightarrow>
                  if is_cont c1 then ((b - 192) * 64 + (byte_of c1 - 128), 2)
                  else (rune_error, 1)
              | [] \<Rightarrow> (rune_error, 1))
           else if 224 \<le> b \<and> b \<le> 239 then
             (case cs of
                c1 # c2 # _ \<Rightarrow>
                  if is_cont c1 \<and> (b = 224 \<longrightarrow> 160 \<le> byte_of c1) \<and> (b = 237 \<longrightarrow> byte_of c1 \<le> 159)
                     \<and> is_cont c2
                  then ((b - 224) * 4096 + (byte_of c1 - 128) * 64 + (byte_of c2 - 128), 3)
                  else (rune_error, 1)
              | _ \<Rightarrow> (rune_error, 1))
           else if 240 \<le> b \<and> b \<le> 244 then
             (case cs of
                c1 # c2 # c3 # _ \<Rightarrow>
                  if is_cont c1 \<and> (b = 240 \<longrightarrow> 144 \<le> byte_of c1) \<and> (b = 244 \<longrightarrow> byte_of c1 \<le> 143)
                     \<and> is_cont c2 \<and> is_cont c3
                  then ((b - 240) * 262144 + (byte_of c1 - 128) * 4096
                          + (byte_of c2 - 128) * 64 + (byte_of c3 - 128), 4)
                  else (rune_error, 1)
              | _ \<Rightarrow> (rune_error, 1))
           else (rune_error, 1)))"

lemma decode_rune_width_pos: "s \<noteq> [] \<Longrightarrow> 0 < snd (decode_rune s)"
  by (auto simp: decode_rune_def Let_def split: list.splits)

text \<open>The runes a \<open>for _, r := range s\<close> loop visits.\<close>

function runes :: "string \<Rightarrow> nat list" where
  "runes s = (if s = [] then [] else fst (decode_rune s) # runes (drop (snd (decode_rune s)) s))"
  by pat_completeness auto
termination
proof (relation "measure length")
  fix s :: string
  assume "s \<noteq> []"
  then show "(drop (snd (decode_rune s)) s, s) \<in> measure length"
    using decode_rune_width_pos [of s] by (cases s) auto
qed auto

declare runes.simps [simp del]

lemma runes_Nil [simp]: "runes [] = []"
  by (simp add: runes.simps)

lemma runes_ascii_Cons [simp]: "is_ascii c \<Longrightarrow> runes (c # s) = byte_of c # runes s"
  by (simp add: runes.simps [of "c # s"] decode_rune_def is_ascii_def Let_def)

lemma runes_ascii: "list_all is_ascii s \<Longrightarrow> runes s = map byte_of s"
  by (induction s) simp_all

definition encode_rune :: "nat \<Rightarrow> string" where
  "encode_rune r =
     (if r < 128 then [chr_of r]
      else if r < 2048 then [chr_of (192 + r div 64), chr_of (128 + r mod 64)]
      else if r < 65536 then
        [chr_of (224 + r div 4096), chr_of (128 + r div 64 mod 64), chr_of (128 + r mod 64)]
      else
        [chr_of (240 + r div 262144), chr_of (128 + r div 4096 mod 64),
         chr_of (128 + r div 64 mod 64), chr_of (128 + r mod 64)])"

text \<open>\<open>unicode.IsControl\<close> (category Cc) and \<open>utf8.RuneCountInString\<close>.\<close>

definition is_control :: "nat \<Rightarrow> bool" where
  "is_control r \<longleftrightarrow> r < 32 \<or> (127 \<le> r \<and> r < 160)"

definition rune_count :: "string \<Rightarrow> nat" where
  "rune_count s = length (runes s)"

lemma rune_count_le_length: "rune_count s \<le> length s"
proof (induction s rule: runes.induct)
  case (1 s)
  show ?case
  proof (cases "s = []")
    case False
    from 1 [OF False] have
      "length (runes (drop (snd (decode_rune s)) s)) \<le> length s - snd (decode_rune s)"
      by (simp add: rune_count_def)
    moreover have "0 < snd (decode_rune s)"
      using False by (rule decode_rune_width_pos)
    moreover have "1 \<le> length s"
      using False by (cases s) auto
    moreover have "rune_count s = Suc (length (runes (drop (snd (decode_rune s)) s)))"
      using False by (simp add: rune_count_def runes.simps [of s])
    ultimately show ?thesis by linarith
  qed (simp add: rune_count_def)
qed

subsection \<open>White space\<close>

text \<open>
  \<open>unicode.IsSpace\<close> at the front of a string: the width of the white-space rune a string starts
  with, 0 when it starts with none. \<open>space_len_rev\<close> is the same for the last rune of a string,
  read from its reversal.
\<close>

definition is_space_ascii :: "char \<Rightarrow> bool" where
  "is_space_ascii c \<longleftrightarrow> byte_of c = 32 \<or> (9 \<le> byte_of c \<and> byte_of c \<le> 13)"

definition is_space2 :: "char \<Rightarrow> char \<Rightarrow> bool" where
  "is_space2 c d \<longleftrightarrow> byte_of c = 194 \<and> (byte_of d = 133 \<or> byte_of d = 160)"

definition is_space3 :: "char \<Rightarrow> char \<Rightarrow> char \<Rightarrow> bool" where
  "is_space3 c d e \<longleftrightarrow>
     (byte_of c = 225 \<and> byte_of d = 154 \<and> byte_of e = 128)
   \<or> (byte_of c = 226 \<and> byte_of d = 128
        \<and> ((128 \<le> byte_of e \<and> byte_of e \<le> 138) \<or> byte_of e = 168 \<or> byte_of e = 169 \<or> byte_of e = 175))
   \<or> (byte_of c = 226 \<and> byte_of d = 129 \<and> byte_of e = 159)
   \<or> (byte_of c = 227 \<and> byte_of d = 128 \<and> byte_of e = 128)"

definition space_len :: "string \<Rightarrow> nat" where
  "space_len s =
     (case s of
        [] \<Rightarrow> 0
      | c # cs \<Rightarrow>
          if is_space_ascii c then 1
          else (case cs of
                  [] \<Rightarrow> 0
                | d # ds \<Rightarrow>
                    if is_space2 c d then 2
                    else (case ds of [] \<Rightarrow> 0 | e # _ \<Rightarrow> if is_space3 c d e then 3 else 0)))"

definition space_len_rev :: "string \<Rightarrow> nat" where
  "space_len_rev s =
     (case s of
        [] \<Rightarrow> 0
      | c # cs \<Rightarrow>
          if is_space_ascii c then 1
          else (case cs of
                  [] \<Rightarrow> 0
                | d # ds \<Rightarrow>
                    if is_space2 d c then 2
                    else (case ds of [] \<Rightarrow> 0 | e # _ \<Rightarrow> if is_space3 e d c then 3 else 0)))"

lemma space_len_Nil [simp]: "space_len [] = 0" "space_len_rev [] = 0"
  by (simp_all add: space_len_def space_len_rev_def)

function trim_left :: "string \<Rightarrow> string" where
  "trim_left s = (if space_len s = 0 then s else trim_left (drop (space_len s) s))"
  by pat_completeness auto
termination
proof (relation "measure length")
  fix s assume "space_len s \<noteq> 0"
  then show "(drop (space_len s) s, s) \<in> measure length" by (cases s) auto
qed auto

function trim_left_rev :: "string \<Rightarrow> string" where
  "trim_left_rev s = (if space_len_rev s = 0 then s else trim_left_rev (drop (space_len_rev s) s))"
  by pat_completeness auto
termination
proof (relation "measure length")
  fix s assume "space_len_rev s \<noteq> 0"
  then show "(drop (space_len_rev s) s, s) \<in> measure length" by (cases s) auto
qed auto

declare trim_left.simps [simp del] trim_left_rev.simps [simp del]

text \<open>\<open>strings.TrimSpace\<close>\<close>

definition trim_space :: "string \<Rightarrow> string" where
  "trim_space s = rev (trim_left_rev (rev (trim_left s)))"

lemma trim_left_id: "space_len s = 0 \<Longrightarrow> trim_left s = s"
  by (simp add: trim_left.simps)

lemma trim_left_rev_id: "space_len_rev s = 0 \<Longrightarrow> trim_left_rev s = s"
  by (simp add: trim_left_rev.simps)

lemma trim_space_Nil [simp]: "trim_space [] = []"
  by (simp add: trim_space_def trim_left_id trim_left_rev_id)

lemma trim_space_id: "space_len s = 0 \<Longrightarrow> space_len_rev (rev s) = 0 \<Longrightarrow> trim_space s = s"
  by (simp add: trim_space_def trim_left_id trim_left_rev_id)

lemma space_len_trim_left [simp]: "space_len (trim_left s) = 0"
proof (induction s rule: trim_left.induct)
  case (1 s)
  then show ?case by (cases "space_len s = 0") (simp_all add: trim_left.simps [of s])
qed

lemma space_len_rev_trim_left_rev [simp]: "space_len_rev (trim_left_rev s) = 0"
proof (induction s rule: trim_left_rev.induct)
  case (1 s)
  then show ?case by (cases "space_len_rev s = 0") (simp_all add: trim_left_rev.simps [of s])
qed

lemma trim_left_rev_suffix: "\<exists>p. s = p @ trim_left_rev s"
proof (induction s rule: trim_left_rev.induct)
  case (1 s)
  show ?case
  proof (cases "space_len_rev s = 0")
    case False
    with 1 obtain p where "drop (space_len_rev s) s = p @ trim_left_rev (drop (space_len_rev s) s)"
      by blast
    then have "s = (take (space_len_rev s) s @ p) @ trim_left_rev (drop (space_len_rev s) s)"
      by (metis append.assoc append_take_drop_id)
    with False show ?thesis by (metis trim_left_rev.simps)
  qed (simp add: trim_left_rev.simps [of s])
qed

lemma space_len_prefix: "space_len (p @ q) = 0 \<Longrightarrow> space_len p = 0"
  by (auto simp: space_len_def split: list.splits if_splits)

text \<open>Trimming is idempotent: the results of \<open>TrimSpace\<close> are its fixed points.\<close>

lemma trim_space_idem [simp]: "trim_space (trim_space s) = trim_space s"
proof (rule trim_space_id)
  obtain p where "rev (trim_left s) = p @ trim_left_rev (rev (trim_left s))"
    using trim_left_rev_suffix by blast
  then have "trim_left s = trim_space s @ rev p"
    by (metis rev_append rev_rev_ident trim_space_def)
  then show "space_len (trim_space s) = 0"
    by (metis space_len_prefix space_len_trim_left)
  show "space_len_rev (rev (trim_space s)) = 0"
    by (simp add: trim_space_def)
qed

subsection \<open>Case mapping\<close>

text \<open>Ranges \<open>(first, last, stride, delta)\<close> of the simple lower- and upper-case mappings.\<close>

type_synonym case_range = "nat \<times> nat \<times> nat \<times> int"

definition lower_ranges :: "case_range list" where
  "lower_ranges = [
    (192, 214, 1, 32), (216, 222, 1, 32), (256, 302, 2, 1), (304, 304, 1, -199),
    (306, 310, 2, 1), (313, 327, 2, 1), (330, 374, 2, 1), (376, 376, 1, -121),
    (377, 381, 2, 1), (385, 385, 1, 210), (386, 388, 2, 1), (390, 390, 1, 206),
    (391, 391, 1, 1), (393, 394, 1, 205), (395, 395, 1, 1), (398, 398, 1, 79),
    (399, 399, 1, 202), (400, 400, 1, 203), (401, 401, 1, 1), (403, 403, 1, 205),
    (404, 404, 1, 207), (406, 406, 1, 211), (407, 407, 1, 209), (408, 408, 1, 1),
    (412, 412, 1, 211), (413, 413, 1, 213), (415, 415, 1, 214), (416, 420, 2, 1),
    (422, 422, 1, 218), (423, 423, 1, 1), (425, 425, 1, 218), (428, 428, 1, 1),
    (430, 430, 1, 218), (431, 431, 1, 1), (433, 434, 1, 217), (435, 437, 2, 1),
    (439, 439, 1, 219), (440, 440, 1, 1), (444, 444, 1, 1), (452, 452, 1, 2),
    (453, 453, 1, 1), (455, 455, 1, 2), (456, 456, 1, 1), (458, 458, 1, 2),
    (459, 475, 2, 1), (478, 494, 2, 1), (497, 497, 1, 2), (498, 500, 2, 1),
    (502, 502, 1, -97), (503, 503, 1, -56), (504, 542, 2, 1), (544, 544, 1, -130),
    (546, 562, 2, 1), (570, 570, 1, 10795), (571, 571, 1, 1), (573, 573, 1, -163),
    (574, 574, 1, 10792), (577, 577, 1, 1), (579, 579, 1, -195), (580, 580, 1, 69),
    (581, 581, 1, 71), (582, 590, 2, 1), (880, 882, 2, 1), (886, 886, 1, 1),
    (895, 895, 1, 116), (902, 902, 1, 38), (904, 906, 1, 37), (908, 908, 1, 64),
    (910, 911, 1, 63), (913, 929, 1, 32), (931, 939, 1, 32), (975, 975, 1, 8),
    (984, 1006, 2, 1), (1012, 1012, 1, -60), (1015, 1015, 1, 1), (1017, 1017, 1, -7),
    (1018, 1018, 1, 1), (1021, 1023, 1, -130), (1024, 1039, 1, 80), (1040, 1071, 1, 32),
    (1120, 1152, 2, 1), (1162, 1214, 2, 1), (1216, 1216, 1, 15), (1217, 1229, 2, 1),
    (1232, 1326, 2, 1), (1329, 1366, 1, 48), (4256, 4293, 1, 7264), (4295, 4295, 1, 7264),
    (4301, 4301, 1, 7264), (5024, 5103, 1, 38864), (5104, 5109, 1, 8), (7312, 7354, 1, -3008),
    (7357, 7359, 1, -3008), (7680, 7828, 2, 1), (7838, 7838, 1, -7615), (7840, 7934, 2, 1),
    (7944, 7951, 1, -8), (7960, 7965, 1, -8), (7976, 7983, 1, -8), (7992, 7999, 1, -8),
    (8008, 8013, 1, -8), (8025, 8031, 2, -8), (8040, 8047, 1, -8), (8072, 8079, 1, -8),
    (8088, 8095, 1, -8), (8104, 8111, 1, -8), (8120, 8121, 1, -8), (8122, 8123, 1, -74),
    (8124, 8124, 1, -9), (8136, 8139, 1, -86), (8140, 8140, 1, -9), (8152, 8153, 1, -8),
    (8154, 8155, 1, -100), (8168, 8169, 1, -8), (8170, 8171, 1, -112), (8172, 8172, 1, -7),
    (8184, 8185, 1, -128), (8186, 8187, 1, -126), (8188, 8188, 1, -9), (8486, 8486, 1, -7517),
    (8490, 8490, 1, -8383), (8491, 8491, 1, -8262), (8498, 8498, 1, 28), (8544, 8559, 1, 16),
    (8579, 8579, 1, 1), (9398, 9423, 1, 26), (11264, 11311, 1, 48), (11360, 11360, 1, 1),
    (11362, 11362, 1, -10743), (11363, 11363, 1, -3814), (11364, 11364, 1, -10727), (11367, 11371, 2, 1),
    (11373, 11373, 1, -10780), (11374, 11374, 1, -10749), (11375, 11375, 1, -10783), (11376, 11376, 1, -10782),
    (11378, 11378, 1, 1), (11381, 11381, 1, 1), (11390, 11391, 1, -10815), (11392, 11490, 2, 1),
    (11499, 11501, 2, 1), (11506, 11506, 1, 1), (42560, 42604, 2, 1), (42624, 42650, 2, 1),
    (42786, 42798, 2, 1), (42802, 42862, 2, 1), (42873, 42875, 2, 1), (42877, 42877, 1, -35332),
    (42878, 42886, 2, 1), (42891, 42891, 1, 1), (42893, 42893, 1, -42280), (42896, 42898, 2, 1),
    (42902, 42920, 2, 1), (42922, 42922, 1, -42308), (42923, 42923, 1, -42319), (42924, 42924, 1, -42315),
    (42925, 42925, 1, -42305), (42926, 42926, 1, -42308), (42928, 42928, 1, -42258), (42929, 42929, 1, -42282),
    (42930, 42930, 1, -42261), (42931, 42931, 1, 928), (42932, 42946, 2, 1), (42948, 42948, 1, -48),
    (42949, 42949, 1, -42307), (42950, 42950, 1, -35384), (42951, 42953, 2, 1), (42960, 42960, 1, 1),
    (42966, 42968, 2, 1), (42997, 42997, 1, 1), (65313, 65338, 1, 32), (66560, 66599, 1, 40),
    (66736, 66771, 1, 40), (66928, 66938, 1, 39), (66940, 66954, 1, 39), (66956, 66962, 1, 39),
    (66964, 66965, 1, 39), (68736, 68786, 1, 64), (71840, 71871, 1, 32), (93760, 93791, 1, 32),
    (125184, 125217, 1, 34)]"

definition upper_ranges :: "case_range list" where
  "upper_ranges = [
    (181, 181, 1, 743), (224, 246, 1, -32), (248, 254, 1, -32), (255, 255, 1, 121),
    (257, 303, 2, -1), (305, 305, 1, -232), (307, 311, 2, -1), (314, 328, 2, -1),
    (331, 375, 2, -1), (378, 382, 2, -1), (383, 383, 1, -300), (384, 384, 1, 195),
    (387, 389, 2, -1), (392, 392, 1, -1), (396, 396, 1, -1), (402, 402, 1, -1),
    (405, 405, 1, 97), (409, 409, 1, -1), (410, 410, 1, 163), (414, 414, 1, 130),
    (417, 421, 2, -1), (424, 424, 1, -1), (429, 429, 1, -1), (432, 432, 1, -1),
    (436, 438, 2, -1), (441, 441, 1, -1), (445, 445, 1, -1), (447, 447, 1, 56),
    (453, 453, 1, -1), (454, 454, 1, -2), (456, 456, 1, -1), (457, 457, 1, -2),
    (459, 459, 1, -1), (460, 460, 1, -2), (462, 476, 2, -1), (477, 477, 1, -79),
    (479, 495, 2, -1), (498, 498, 1, -1), (499, 499, 1, -2), (501, 501, 1, -1),
    (505, 543, 2, -1), (547, 563, 2, -1), (572, 572, 1, -1), (575, 576, 1, 10815),
    (578, 578, 1, -1), (583, 591, 2, -1), (592, 592, 1, 10783), (593, 593, 1, 10780),
    (594, 594, 1, 10782), (595, 595, 1, -210), (596, 596, 1, -206), (598, 599, 1, -205),
    (601, 601, 1, -202), (603, 603, 1, -203), (604, 604, 1, 42319), (608, 608, 1, -205),
    (609, 609, 1, 42315), (611, 611, 1, -207), (613, 613, 1, 42280), (614, 614, 1, 42308),
    (616, 616, 1, -209), (617, 617, 1, -211), (618, 618, 1, 42308), (619, 619, 1, 10743),
    (620, 620, 1, 42305), (623, 623, 1, -211), (625, 625, 1, 10749), (626, 626, 1, -213),
    (629, 629, 1, -214), (637, 637, 1, 10727), (640, 640, 1, -218), (642, 642, 1, 42307),
    (643, 643, 1, -218), (647, 647, 1, 42282), (648, 648, 1, -218), (649, 649, 1, -69),
    (650, 651, 1, -217), (652, 652, 1, -71), (658, 658, 1, -219), (669, 669, 1, 42261),
    (670, 670, 1, 42258), (837, 837, 1, 84), (881, 883, 2, -1), (887, 887, 1, -1),
    (891, 893, 1, 130), (940, 940, 1, -38), (941, 943, 1, -37), (945, 961, 1, -32),
    (962, 962, 1, -31), (963, 971, 1, -32), (972, 972, 1, -64), (973, 974, 1, -63),
    (976, 976, 1, -62), (977, 977, 1, -57), (981, 981, 1, -47), (982, 982, 1, -54),
    (983, 983, 1, -8), (985, 1007, 2, -1), (1008, 1008, 1, -86), (1009, 1009, 1, -80),
    (1010, 1010, 1, 7), (1011, 1011, 1, -116), (1013, 1013, 1, -96), (1016, 1016, 1, -1),
    (1019, 1019, 1, -1), (1072, 1103, 1, -32), (1104, 1119, 1, -80), (1121, 1153, 2, -1),
    (1163, 1215, 2, -1), (1218, 1230, 2, -1), (1231, 1231, 1, -15), (1233, 1327, 2, -1),
    (1377, 1414, 1, -48), (4304, 4346, 1, 3008), (4349, 4351, 1, 3008), (5112, 5117, 1, -8),
    (7296, 7296, 1, -6254), (7297, 7297, 1, -6253), (7298, 7298, 1, -6244), (7299, 7300, 1, -6242),
    (7301, 7301, 1, -6243), (7302, 7302, 1, -6236), (7303, 7303, 1, -6181), (7304, 7304, 1, 35266),
    (7545, 7545, 1, 35332), (7549, 7549, 1, 3814), (7566, 7566, 1, 35384), (7681, 7829, 2, -1),
    (7835, 7835, 1, -59), (7841, 7935, 2, -1), (7936, 7943, 1, 8), (7952, 7957, 1, 8),
    (7968, 7975, 1, 8), (7984, 7991, 1, 8), (8000, 8005, 1, 8), (8017, 8023, 2, 8),
    (8032, 8039, 1, 8), (8048, 8049, 1, 74), (8050, 8053, 1, 86), (8054, 8055, 1, 100),
    (8056, 8057, 1, 128), (8058, 8059, 1, 112), (8060, 8061, 1, 126), (8064, 8071, 1, 8),
    (8080, 8087, 1, 8), (8096, 8103, 1, 8), (8112, 8113, 1, 8), (8115, 8115, 1, 9),
    (8126, 8126, 1, -7205), (8131, 8131, 1, 9), (8144, 8145, 1, 8), (8160, 8161, 1, 8),
    (8165, 8165, 1, 7), (8179, 8179, 1, 9), (8526, 8526, 1, -28), (8560, 8575, 1, -16),
    (8580, 8580, 1, -1), (9424, 9449, 1, -26), (11312, 11359, 1, -48), (11361, 11361, 1, -1),
    (11365, 11365, 1, -10795), (11366, 11366, 1, -10792), (11368, 11372, 2, -1), (11379, 11379, 1, -1),
    (11382, 11382, 1, -1), (11393, 11491, 2, -1), (11500, 11502, 2, -1), (11507, 11507, 1, -1),
    (11520, 11557, 1, -7264), (11559, 11559, 1, -7264), (11565, 11565, 1, -7264), (42561, 42605, 2, -1),
    (42625, 42651, 2, -1), (42787, 42799, 2, -1), (42803, 42863, 2, -1), (42874, 42876, 2, -1),
    (42879, 42887, 2, -1), (42892, 42892, 1, -1), (42897, 42899, 2, -1), (42900, 42900, 1, 48),
    (42903, 42921, 2, -1), (42933, 42947, 2, -1), (42952, 42954, 2, -1), (42961, 42961, 1, -1),
    (42967, 42969, 2, -1), (42998, 42998, 1, -1), (43859, 43859, 1, -928), (43888, 43967, 1, -38864),
    (65345, 65370, 1, -32), (66600, 66639, 1, -40), (66776, 66811, 1, -40), (66967, 66977, 1, -39),
    (66979, 66993, 1, -39), (66995, 67001, 1, -39), (67003, 67004, 1, -39), (68800, 68850, 1, -64),
    (71872, 71903, 1, -32), (93792, 93823, 1, -32), (125218, 125251, 1, -34)]"

primrec map_rune :: "case_range list \<Rightarrow> nat \<Rightarrow> nat" where
  "map_rune [] r = r"
| "map_rune (x # xs) r =
     (case x of (a, b, s, d) \<Rightarrow>
        if a \<le> r \<and> r \<le> b \<and> (r - a) mod s = 0 then nat (int r + d) else map_rune xs r)"

definition lower_rune :: "nat \<Rightarrow> nat" where
  "lower_rune r =
     (if r < 128 then (if 65 \<le> r \<and> r \<le> 90 then r + 32 else r) else map_rune lower_ranges r)"

definition upper_rune :: "nat \<Rightarrow> nat" where
  "upper_rune r =
     (if r < 128 then (if 97 \<le> r \<and> r \<le> 122 then r - 32 else r) else map_rune upper_ranges r)"

definition lower_ascii :: "char \<Rightarrow> char" where
  "lower_ascii c = (if is_upper_ascii c then chr_of (byte_of c + 32) else c)"

definition upper_ascii :: "char \<Rightarrow> char" where
  "upper_ascii c = (if is_lower_ascii c then chr_of (byte_of c - 32) else c)"

text \<open>\<open>strings.ToLower\<close> and \<open>strings.ToUpper\<close>, with their ASCII fast path.\<close>

definition to_lower :: "string \<Rightarrow> string" where
  "to_lower s =
     (if list_all is_ascii s then map lower_ascii s
      else concat (map (\<lambda>r. encode_rune (lower_rune r)) (runes s)))"

definition to_upper :: "string \<Rightarrow> string" where
  "to_upper s =
     (if list_all is_ascii s then map upper_ascii s
      else concat (map (\<lambda>r. encode_rune (upper_rune r)) (runes s)))"

text \<open>
  \<open>strings.EqualFold\<close>: equality up to simple case folding. Two runes are in one folding orbit
  when their upper-then-lower images agree, except that the dotted and dotless Turkish i
  (U+0130, U+0131) fold to themselves only.
\<close>

definition fold_rune :: "nat \<Rightarrow> nat" where
  "fold_rune r = (if r = 304 \<or> r = 305 then r else lower_rune (upper_rune r))"

definition equal_fold :: "string \<Rightarrow> string \<Rightarrow> bool" where
  "equal_fold s t \<longleftrightarrow> map fold_rune (runes s) = map fold_rune (runes t)"

lemma equal_fold_refl [simp]: "equal_fold s s"
  by (simp add: equal_fold_def)

lemma equal_fold_sym: "equal_fold s t \<longleftrightarrow> equal_fold t s"
  by (auto simp: equal_fold_def)

lemma equal_fold_trans: "equal_fold s t \<Longrightarrow> equal_fold t u \<Longrightarrow> equal_fold s u"
  by (simp add: equal_fold_def)

lemma to_lower_Nil [simp]: "to_lower [] = []"
  by (simp add: to_lower_def)

lemma byte_of_lower_ascii:
  "byte_of (lower_ascii c) = (if is_upper_ascii c then byte_of c + 32 else byte_of c)"
  by (simp add: lower_ascii_def is_upper_ascii_def)

lemma lower_ascii_idem [simp]: "lower_ascii (lower_ascii c) = lower_ascii c"
  by (simp add: lower_ascii_def is_upper_ascii_def)

lemma is_ascii_lower_ascii [simp]: "is_ascii (lower_ascii c) \<longleftrightarrow> is_ascii c"
  by (auto simp: is_ascii_def byte_of_lower_ascii is_upper_ascii_def)

lemma to_lower_idem_ascii: "list_all is_ascii s \<Longrightarrow> to_lower (to_lower s) = to_lower s"
  by (simp add: to_lower_def list.pred_map o_def)

subsection \<open>Searching, splitting, joining\<close>

text \<open>\<open>strings.ContainsAny\<close> for a set of ASCII bytes.\<close>

definition contains_any :: "string \<Rightarrow> string \<Rightarrow> bool" where
  "contains_any s cs \<longleftrightarrow> list_ex (\<lambda>c. c \<in> set cs) s"

primrec has_prefix :: "string \<Rightarrow> string \<Rightarrow> bool" where
  "has_prefix s [] = True"
| "has_prefix s (p # ps) = (case s of [] \<Rightarrow> False | c # cs \<Rightarrow> c = p \<and> has_prefix cs ps)"

lemma has_prefix_iff: "has_prefix s p \<longleftrightarrow> (\<exists>r. s = p @ r)"
  by (induction p arbitrary: s) (auto split: list.splits)

definition has_suffix :: "string \<Rightarrow> string \<Rightarrow> bool" where
  "has_suffix s p \<longleftrightarrow> has_prefix (rev s) (rev p)"

lemma has_suffix_iff: "has_suffix s p \<longleftrightarrow> (\<exists>r. s = r @ p)"
proof
  assume "has_suffix s p"
  then obtain r where "rev s = rev p @ r"
    by (auto simp: has_suffix_def has_prefix_iff)
  then have "s = rev r @ p" by (metis rev_append rev_rev_ident)
  then show "\<exists>r. s = r @ p" by blast
qed (auto simp: has_suffix_def has_prefix_iff)

definition trim_prefix :: "string \<Rightarrow> string \<Rightarrow> string" where
  "trim_prefix s p = (if has_prefix s p then drop (length p) s else s)"

definition trim_suffix :: "string \<Rightarrow> string \<Rightarrow> string" where
  "trim_suffix s p = (if has_suffix s p then take (length s - length p) s else s)"

text \<open>\<open>strings.Contains\<close>\<close>

primrec contains_sub :: "string \<Rightarrow> string \<Rightarrow> bool" where
  "contains_sub [] p \<longleftrightarrow> p = []"
| "contains_sub (c # cs) p \<longleftrightarrow> has_prefix (c # cs) p \<or> contains_sub cs p"

lemma contains_sub_iff: "contains_sub s p \<longleftrightarrow> (\<exists>a b. s = a @ p @ b)"
proof (induction s)
  case (Cons c cs)
  show ?case
  proof
    assume "contains_sub (c # cs) p"
    then consider "has_prefix (c # cs) p" | "contains_sub cs p" by auto
    then show "\<exists>a b. c # cs = a @ p @ b"
    proof cases
      case 1
      then obtain b where "c # cs = [] @ p @ b" by (auto simp: has_prefix_iff)
      then show ?thesis by blast
    next
      case 2
      with Cons obtain a b where "c # cs = (c # a) @ p @ b" by auto
      then show ?thesis by blast
    qed
  next
    assume "\<exists>a b. c # cs = a @ p @ b"
    then obtain a b where ab: "c # cs = a @ p @ b" by blast
    show "contains_sub (c # cs) p"
    proof (cases a)
      case Nil
      with ab have "has_prefix (c # cs) p" by (simp add: has_prefix_iff)
      then show ?thesis by simp
    next
      case (Cons x a')
      with ab have "cs = a' @ p @ b" by simp
      with Cons.IH show ?thesis by auto
    qed
  qed
qed simp

text \<open>\<open>strings.Split\<close> and \<open>strings.Join\<close> with a one-byte separator.\<close>

primrec split_aux :: "char \<Rightarrow> string \<Rightarrow> string \<Rightarrow> string list" where
  "split_aux sep acc [] = [rev acc]"
| "split_aux sep acc (c # cs) =
     (if c = sep then rev acc # split_aux sep [] cs else split_aux sep (c # acc) cs)"

definition split_on :: "char \<Rightarrow> string \<Rightarrow> string list" where
  "split_on sep s = split_aux sep [] s"

fun join :: "string \<Rightarrow> string list \<Rightarrow> string" where
  "join sep [] = []"
| "join sep [x] = x"
| "join sep (x # y # ys) = x @ sep @ join sep (y # ys)"

lemma split_aux_nonempty: "split_aux sep acc s \<noteq> []"
  by (induction s arbitrary: acc) auto

lemma join_Cons: "xs \<noteq> [] \<Longrightarrow> join sep (x # xs) = x @ sep @ join sep xs"
  by (cases xs) auto

lemma join_split_aux: "join [sep] (split_aux sep acc s) = rev acc @ s"
  by (induction s arbitrary: acc) (auto simp: join_Cons split_aux_nonempty)

text \<open>Splitting loses nothing: joining the pieces with the separator gives the string back.\<close>

lemma join_split_on: "join [sep] (split_on sep s) = s"
  by (simp add: split_on_def join_split_aux)

lemma split_aux_append:
  "sep \<notin> set x \<Longrightarrow> split_aux sep acc (x @ sep # s) = (rev acc @ x) # split_aux sep [] s"
  by (induction x arbitrary: acc) auto

lemma split_aux_last: "sep \<notin> set x \<Longrightarrow> split_aux sep acc x = [rev acc @ x]"
  by (induction x arbitrary: acc) auto

lemma split_on_join:
  "xs \<noteq> [] \<Longrightarrow> \<forall>x \<in> set xs. sep \<notin> set x \<Longrightarrow> split_on sep (join [sep] xs) = xs"
  by (induction "[sep]" xs rule: join.induct)
    (auto simp: split_on_def split_aux_append split_aux_last)

text \<open>\<open>strings.Cut\<close> at the first occurrence of a byte.\<close>

primrec cut :: "char \<Rightarrow> string \<Rightarrow> (string \<times> string) option" where
  "cut sep [] = None"
| "cut sep (c # cs) =
     (if c = sep then Some ([], cs)
      else map_option (\<lambda>(a, b). (c # a, b)) (cut sep cs))"

lemma cut_SomeD: "cut sep s = Some (a, b) \<Longrightarrow> s = a @ sep # b \<and> sep \<notin> set a"
  by (induction s arbitrary: a) (auto split: if_splits)

lemma cut_append: "sep \<notin> set a \<Longrightarrow> cut sep (a @ sep # b) = Some (a, b)"
  by (induction a) auto

lemma cut_None_iff: "cut sep s = None \<longleftrightarrow> sep \<notin> set s"
  by (induction s) auto

subsection \<open>Numbers\<close>

text \<open>\<open>strconv.Atoi\<close>: an optional sign and decimal digits, within the range of \<open>int\<close>.\<close>

definition digit_val :: "char \<Rightarrow> nat" where
  "digit_val c = byte_of c - 48"

primrec digits_val :: "nat \<Rightarrow> string \<Rightarrow> nat option" where
  "digits_val acc [] = Some acc"
| "digits_val acc (c # cs) =
     (if is_digit c then digits_val (acc * 10 + digit_val c) cs else None)"

definition parse_digits :: "string \<Rightarrow> nat option" where
  "parse_digits s = (if s = [] then None else digits_val 0 s)"

definition atoi :: "string \<Rightarrow> int option" where
  "atoi s =
     (let (neg, ds) =
        (case s of
           c # cs \<Rightarrow> if c = CHR ''-'' then (True, cs) else if c = CHR ''+'' then (False, cs) else (False, s)
         | [] \<Rightarrow> (False, []))
      in case parse_digits ds of
           None \<Rightarrow> None
         | Some n \<Rightarrow>
             let v = (if neg then - int n else int n) in
             if - (9223372036854775808) \<le> v \<and> v < 9223372036854775808 then Some v else None)"

lemma atoi_range: "atoi s = Some v \<Longrightarrow> - (2 ^ 63) \<le> v \<and> v < 2 ^ 63"
  by (auto simp: atoi_def Let_def split: option.splits if_splits prod.splits)

text \<open>\<open>strconv.Itoa\<close> of a natural number.\<close>

fun itoa :: "nat \<Rightarrow> string" where
  "itoa n = (if n < 10 then [chr_of (48 + n)] else itoa (n div 10) @ [chr_of (48 + n mod 10)])"

declare itoa.simps [simp del]

lemma digits_val_append:
  "digits_val acc (s @ t) = Option.bind (digits_val acc s) (\<lambda>a. digits_val a t)"
  by (induction s arbitrary: acc) auto

lemma is_digit_chr: "d < 10 \<Longrightarrow> is_digit (chr_of (48 + d)) \<and> digit_val (chr_of (48 + d)) = d"
  by (simp add: is_digit_def digit_val_def)

lemma digits_val_itoa: "digits_val 0 (itoa n) = Some n"
proof (induction n rule: itoa.induct)
  case (1 n)
  show ?case
  proof (cases "n < 10")
    case True
    then show ?thesis using is_digit_chr [of n] by (simp add: itoa.simps [of n])
  next
    case False
    with 1 show ?thesis
      using is_digit_chr [of "n mod 10"] by (simp add: itoa.simps [of n] digits_val_append)
  qed
qed

lemma itoa_not_Nil: "itoa n \<noteq> []"
  by (subst itoa.simps) simp

lemma itoa_digits: "\<forall>c \<in> set (itoa n). is_digit c"
proof (induction n rule: itoa.induct)
  case (1 n)
  then show ?case
    using is_digit_chr [of "n mod 10"] is_digit_chr [of n]
    by (cases "n < 10") (auto simp: itoa.simps [of n])
qed

lemma parse_digits_itoa [simp]: "parse_digits (itoa n) = Some n"
  by (simp add: parse_digits_def digits_val_itoa itoa_not_Nil)

lemma itoa_inj: "itoa m = itoa n \<longleftrightarrow> m = n"
  by (metis digits_val_itoa option.inject)

subsection \<open>\<open>strings.Fields\<close>\<close>

function fields_from :: "string \<Rightarrow> string \<Rightarrow> string list" where
  "fields_from acc s =
     (case s of
        [] \<Rightarrow> (if acc = [] then [] else [rev acc])
      | c # cs \<Rightarrow>
          if space_len s = 0 then fields_from (c # acc) cs
          else (if acc = [] then [] else [rev acc]) @ fields_from [] (drop (space_len s) s))"
  by pat_completeness auto
termination
  by (relation "measure (length \<circ> snd)") auto

declare fields_from.simps [simp del]

definition split_fields :: "string \<Rightarrow> string list" where
  "split_fields s = fields_from [] s"

subsection \<open>Evaluation\<close>

lemmas go_char_eval [go_eval] =
  char_of_def bit_0 is_digit_def is_upper_ascii_def is_lower_ascii_def is_letter_ascii_def is_ascii_def
  digit_val_def lower_ascii_def upper_ascii_def is_control_def is_cont_def

lemmas go_string_eval [go_eval] =
  runes.simps decode_rune_def encode_rune_def rune_count_def rune_error_def
  space_len_def space_len_rev_def is_space_ascii_def is_space2_def is_space3_def
  trim_left.simps trim_left_rev.simps trim_space_def
  to_lower_def to_upper_def equal_fold_def fold_rune_def lower_rune_def upper_rune_def
  contains_any_def has_suffix_def trim_prefix_def trim_suffix_def split_on_def
  parse_digits_def atoi_def itoa.simps

lemma fields_from_eval [go_eval]:
  "fields_from acc [] = (if acc = [] then [] else [rev acc])"
  "fields_from acc (c # cs) =
     (if space_len (c # cs) = 0 then fields_from (c # acc) cs
      else (if acc = [] then [] else [rev acc]) @ fields_from [] (drop (space_len (c # cs)) (c # cs)))"
  by (simp_all add: fields_from.simps)

lemmas fields_eval [go_eval] = split_fields_def space_len_def

end
