(* ===== verification/GoNet.thy ===== *)
theory GoNet
  imports GoStrings
begin

unbundle bit_operations_syntax

text \<open>
  The part of Go's \<open>net\<close> package the program uses: textual IP addresses (\<open>net.ParseIP\<close>,
  which is \<open>netip.ParseAddr\<close> without zones), prefixes (\<open>net.ParseCIDR\<close>, \<open>net.CIDRMask\<close>,
  \<open>IPMask.Size\<close>, \<open>IPNet.Contains\<close>) and hardware addresses (\<open>net.ParseMAC\<close>). A
  \<open>net.IP\<close> or \<open>net.IPMask\<close> is its byte slice; the nil slice is \<open>[]\<close>.
\<close>

type_synonym byte = "8 word"
type_synonym ip = "byte list"

record ipnet =
  net_ip :: ip
  net_mask :: "byte list"

subsection \<open>Parsing addresses\<close>

text \<open>\<open>netip.parseIPv4Fields\<close>: value and digit count of the current octet, earlier octets reversed.\<close>

fun ipv4_fields :: "nat \<Rightarrow> nat \<Rightarrow> nat list \<Rightarrow> string \<Rightarrow> nat list option" where
  "ipv4_fields v d fs [] = (if length fs < 3 then None else Some (rev (v # fs)))"
| "ipv4_fields v d fs (c # cs) =
     (if is_digit c then
        (if d = 1 \<and> v = 0 then None
         else let v' = v * 10 + digit_val c in
              if v' > 255 then None else ipv4_fields v' (d + 1) fs cs)
      else if c = CHR ''.'' then
        (if d = 0 \<or> cs = [] \<or> length fs = 3 then None else ipv4_fields 0 0 (v # fs) cs)
      else None)"

definition is_hex :: "char \<Rightarrow> bool" where
  "is_hex c \<longleftrightarrow> is_digit c \<or> (97 \<le> byte_of c \<and> byte_of c \<le> 102) \<or> (65 \<le> byte_of c \<and> byte_of c \<le> 70)"

definition hex_val :: "char \<Rightarrow> nat" where
  "hex_val c = (if is_digit c then byte_of c - 48
                else if 97 \<le> byte_of c then byte_of c - 87 else byte_of c - 55)"

definition hex_num :: "string \<Rightarrow> nat" where
  "hex_num s = foldl (\<lambda>acc c. acc * 16 + hex_val c) 0 s"

text \<open>
  The loop of \<open>netip.parseIPv6\<close>: bytes so far (reversed), position of the ellipsis, rest of
  the string. The result is the state at the loop's exit, \<open>None\<close> where it returns an error.
\<close>

function ipv6_loop :: "nat list \<Rightarrow> nat option \<Rightarrow> string \<Rightarrow> (nat list \<times> nat option \<times> string) option" where
  "ipv6_loop bs el s =
     (if 16 \<le> length bs then Some (bs, el, s)
      else
        let h = takeWhile is_hex s; r = dropWhile is_hex s; acc = hex_num h in
        if h = [] \<or> length h > 4 then None
        else
          (case r of
             [] \<Rightarrow> Some (acc mod 256 # acc div 256 # bs, el, [])
           | c # r' \<Rightarrow>
               if c = CHR ''.'' then
                 (if el = None \<and> length bs \<noteq> 12 \<or> length bs + 4 > 16 then None
                  else (case ipv4_fields 0 0 [] s of
                          None \<Rightarrow> None
                        | Some f \<Rightarrow> Some (rev f @ bs, el, [])))
               else if c \<noteq> CHR '':'' \<or> r' = [] then None
               else if hd r' = CHR '':'' then
                 (if el \<noteq> None then None
                  else if tl r' = [] then
                    Some (acc mod 256 # acc div 256 # bs, Some (length bs + 2), [])
                  else ipv6_loop (acc mod 256 # acc div 256 # bs) (Some (length bs + 2)) (tl r'))
               else ipv6_loop (acc mod 256 # acc div 256 # bs) el r'))"
  by pat_completeness auto
termination
  by (relation "measure (\<lambda>(bs, el, s). 16 - length bs)") auto

declare ipv6_loop.simps [simp del]

definition ipv6_bytes :: "string \<Rightarrow> nat list option" where
  "ipv6_bytes s =
     (let lead = has_prefix s ''::''; s' = (if lead then drop 2 s else s) in
      if lead \<and> s' = [] then Some (replicate 16 0)
      else
        (case ipv6_loop [] (if lead then Some 0 else None) s' of
           None \<Rightarrow> None
         | Some (bs, el, rest) \<Rightarrow>
             if rest \<noteq> [] then None
             else if length bs < 16 then
               (case el of
                  None \<Rightarrow> None
                | Some e \<Rightarrow>
                    Some (take e (rev bs) @ replicate (16 - length bs) 0 @ drop e (rev bs)))
             else if el \<noteq> None then None
             else Some (rev bs)))"

text \<open>
  \<open>netip.ParseAddr\<close> restricted to addresses without a zone (the callers reject zones): the
  first of \<open>.\<close>, \<open>:\<close>, \<open>%\<close> decides the family. The result tells the bit length.
\<close>

datatype addr = Addr4 "nat list" | Addr6 "nat list"

definition parse_addr :: "string \<Rightarrow> addr option" where
  "parse_addr s =
     (case dropWhile (\<lambda>c. c \<noteq> CHR ''.'' \<and> c \<noteq> CHR '':'' \<and> c \<noteq> CHR ''%'') s of
        [] \<Rightarrow> None
      | c # _ \<Rightarrow>
          if c = CHR ''.'' then map_option Addr4 (ipv4_fields 0 0 [] s)
          else if c = CHR '':'' \<and> CHR ''%'' \<notin> set s then map_option Addr6 (ipv6_bytes s)
          else None)"

definition v4_in_v6_prefix :: "byte list" where
  "v4_in_v6_prefix = [0, 0, 0, 0, 0, 0, 0, 0, 0, 0, 255, 255]"

definition addr_bytes :: "addr \<Rightarrow> ip" where
  "addr_bytes a = (case a of Addr4 f \<Rightarrow> v4_in_v6_prefix @ map word_of_nat f
                           | Addr6 f \<Rightarrow> map word_of_nat f)"

definition addr_bits :: "addr \<Rightarrow> nat" where
  "addr_bits a = (case a of Addr4 _ \<Rightarrow> 32 | Addr6 _ \<Rightarrow> 128)"

text \<open>\<open>net.ParseIP\<close>: the 16-byte form, nil when the text is no address.\<close>

definition parse_ip :: "string \<Rightarrow> ip" where
  "parse_ip s = (case parse_addr s of None \<Rightarrow> [] | Some a \<Rightarrow> addr_bytes a)"

text \<open>\<open>IP.To4\<close>\<close>

definition to4 :: "ip \<Rightarrow> ip" where
  "to4 a = (if length a = 4 then a
            else if length a = 16 \<and> take 12 a = v4_in_v6_prefix then drop 12 a
            else [])"

lemma length_to4: "length (to4 a) = 0 \<or> length (to4 a) = 4"
  by (auto simp: to4_def)

lemma to4_nonempty_length: "to4 a \<noteq> [] \<longleftrightarrow> length (to4 a) = 4"
  by (auto simp: to4_def)

lemma to4_id: "length a = 4 \<Longrightarrow> to4 a = a"
  by (simp add: to4_def)

lemma to4_idem [simp]: "to4 (to4 a) = to4 a"
  by (auto simp: to4_def)

text \<open>\<open>IP.Equal\<close>: an IPv4 address equals its IPv4-mapped form.\<close>

definition ip_equal :: "ip \<Rightarrow> ip \<Rightarrow> bool" where
  "ip_equal a b \<longleftrightarrow>
     a = b
   \<or> (length a = 4 \<and> length b = 16 \<and> take 12 b = v4_in_v6_prefix \<and> a = drop 12 b)
   \<or> (length a = 16 \<and> length b = 4 \<and> take 12 a = v4_in_v6_prefix \<and> drop 12 a = b)"

lemma ip_equal_same_length: "length a = length b \<Longrightarrow> ip_equal a b \<longleftrightarrow> a = b"
  by (auto simp: ip_equal_def)

text \<open>\<open>IP.String\<close> of a four-byte address, dotted decimal.\<close>

definition ipv4_string :: "ip \<Rightarrow> string" where
  "ipv4_string a = join ''.'' (map (\<lambda>b. itoa (unat b)) a)"

subsection \<open>Masks and prefixes\<close>

text \<open>\<open>net.CIDRMask(ones, bits)\<close> for \<open>ones\<close> within range.\<close>

primrec mask_bytes :: "nat \<Rightarrow> nat \<Rightarrow> byte list" where
  "mask_bytes 0 n = []"
| "mask_bytes (Suc l) n =
     (if 8 \<le> n then 255 # mask_bytes l (n - 8) else NOT (drop_bit n 255) # mask_bytes l 0)"

definition cidr_mask :: "nat \<Rightarrow> nat \<Rightarrow> byte list" where
  "cidr_mask ones bits =
     (if (bits \<noteq> 32 \<and> bits \<noteq> 128) \<or> ones > bits then [] else mask_bytes (bits div 8) ones)"

text \<open>\<open>net.simpleMaskLength\<close> and \<open>IPMask.Size\<close> (\<open>(0, 0)\<close> for a mask that is not a prefix).\<close>

definition leading_ones :: "byte \<Rightarrow> nat" where
  "leading_ones b = length (takeWhile (\<lambda>i. bit b i) (rev [0..<8]))"

primrec simple_mask_len :: "byte list \<Rightarrow> nat option" where
  "simple_mask_len [] = Some 0"
| "simple_mask_len (v # vs) =
     (if v = 255 then map_option (\<lambda>n. n + 8) (simple_mask_len vs)
      else let k = leading_ones v in
           if push_bit k v \<noteq> 0 then None
           else if list_all (\<lambda>b. b = 0) vs then Some k else None)"

definition mask_size :: "byte list \<Rightarrow> nat \<times> nat" where
  "mask_size m = (case simple_mask_len m of None \<Rightarrow> (0, 0) | Some n \<Rightarrow> (n, length m * 8))"

text \<open>\<open>IP.Mask\<close>\<close>

definition ip_mask :: "ip \<Rightarrow> byte list \<Rightarrow> ip" where
  "ip_mask a m =
     (let m' = (if length m = 16 \<and> length a = 4 \<and> take 12 m = replicate 12 255 then drop 12 m else m);
          a' = (if length m' = 4 \<and> length a = 16 \<and> take 12 a = v4_in_v6_prefix then drop 12 a else a)
      in if length a' \<noteq> length m' then [] else map2 (AND) a' m')"

text \<open>\<open>net.networkNumberAndMask\<close> and \<open>IPNet.Contains\<close>\<close>

definition network_number_and_mask :: "ipnet \<Rightarrow> ip \<times> byte list" where
  "network_number_and_mask n =
     (let a = (if to4 (net_ip n) \<noteq> [] then to4 (net_ip n) else net_ip n); m = net_mask n in
      if to4 (net_ip n) = [] \<and> length a \<noteq> 16 then ([], [])
      else if length m = 4 then (if length a \<noteq> 4 then ([], []) else (a, m))
      else if length m = 16 then (if length a = 4 then (a, drop 12 m) else (a, m))
      else ([], []))"

definition net_contains :: "ipnet \<Rightarrow> ip \<Rightarrow> bool" where
  "net_contains n a =
     (let (nn, m) = network_number_and_mask n; x = (if to4 a \<noteq> [] then to4 a else a) in
      length x = length nn
      \<and> list_all (\<lambda>(p, q, r). p AND q = r AND q) (zip nn (zip m x)))"

text \<open>
  \<open>IPNet.String\<close> of an IPv4 network (\<open>ParseCIDR\<close> only yields prefix masks, so the branch that
  prints a mask in hexadecimal is not needed).
\<close>

definition ipnet_string :: "ipnet \<Rightarrow> string" where
  "ipnet_string n =
     (case network_number_and_mask n of
        (nn, m) \<Rightarrow>
          if nn = [] \<or> m = [] then ''<nil>''
          else ipv4_string nn @ ''/'' @ itoa (fst (mask_size m)))"

text \<open>\<open>net.dtoi\<close> on a whole string, then \<open>net.ParseCIDR\<close>: the address and its network.\<close>

definition dtoi :: "string \<Rightarrow> nat option" where
  "dtoi s = (case parse_digits s of None \<Rightarrow> None | Some n \<Rightarrow> if n \<ge> 16777215 then None else Some n)"

definition parse_cidr :: "string \<Rightarrow> (ip \<times> ipnet) option" where
  "parse_cidr s =
     (case cut (CHR ''/'') s of
        None \<Rightarrow> None
      | Some (a, m) \<Rightarrow>
          (case parse_addr a of
             None \<Rightarrow> None
           | Some ad \<Rightarrow>
               (case dtoi m of
                  None \<Rightarrow> None
                | Some n \<Rightarrow>
                    if n > addr_bits ad then None
                    else let mk = cidr_mask n (addr_bits ad); b = addr_bytes ad in
                         Some (b, \<lparr>net_ip = ip_mask b mk, net_mask = mk\<rparr>))))"

subsection \<open>Hardware addresses\<close>

text \<open>\<open>net.xtoi2\<close>: two hexadecimal digits, followed by the separator unless the string ends.\<close>

definition xtoi2 :: "string \<Rightarrow> char option \<Rightarrow> byte option" where
  "xtoi2 s sep =
     (case s of
        a # b # rest \<Rightarrow>
          if rest \<noteq> [] \<and> Some (hd rest) \<noteq> sep then None
          else if is_hex a \<and> is_hex b then Some (word_of_nat (hex_val a * 16 + hex_val b)) else None
      | _ \<Rightarrow> None)"

primrec mac_colon :: "nat \<Rightarrow> char \<Rightarrow> string \<Rightarrow> byte list option" where
  "mac_colon 0 sep s = Some []"
| "mac_colon (Suc n) sep s =
     (case xtoi2 s (Some sep) of
        None \<Rightarrow> None
      | Some b \<Rightarrow> map_option ((#) b) (mac_colon n sep (drop 3 s)))"

primrec mac_dot :: "nat \<Rightarrow> string \<Rightarrow> byte list option" where
  "mac_dot 0 s = Some []"
| "mac_dot (Suc n) s =
     (case (xtoi2 (take 2 s) None, xtoi2 (drop 2 s) (Some (CHR ''.''))) of
        (Some a, Some b) \<Rightarrow> map_option (\<lambda>r. a # b # r) (mac_dot n (drop 5 s))
      | _ \<Rightarrow> None)"

text \<open>\<open>net.ParseMAC\<close>: the colon, hyphen and dot forms of 6, 8 and 20 octets.\<close>

definition parse_mac :: "string \<Rightarrow> byte list option" where
  "parse_mac s =
     (let l = length s in
      if l < 14 then None
      else if s ! 2 = CHR '':'' \<or> s ! 2 = CHR ''-'' then
        (let n = (l + 1) div 3 in
         if (l + 1) mod 3 \<noteq> 0 \<or> n \<notin> {6, 8, 20} then None else mac_colon n (s ! 2) s)
      else if s ! 4 = CHR ''.'' then
        (let n = 2 * (l + 1) div 5 in
         if (l + 1) mod 5 \<noteq> 0 \<or> n \<notin> {6, 8, 20} then None else mac_dot (n div 2) s)
      else None)"

definition hex_digit :: "nat \<Rightarrow> char" where
  "hex_digit d = (if d < 10 then chr_of (48 + d) else chr_of (87 + d))"

text \<open>\<open>HardwareAddr.String\<close>\<close>

definition mac_string :: "byte list \<Rightarrow> string" where
  "mac_string m =
     join '':'' (map (\<lambda>b. [hex_digit (unat b div 16), hex_digit (unat b mod 16)]) m)"

subsection \<open>Facts\<close>

lemma ipv4_fields_bounds:
  "ipv4_fields v d fs s = Some r \<Longrightarrow> v \<le> 255 \<Longrightarrow> \<forall>x \<in> set fs. x \<le> 255 \<Longrightarrow> length fs \<le> 3 \<Longrightarrow>
     length r = 4 \<and> (\<forall>x \<in> set r. x \<le> 255)"
  by (induction v d fs s rule: ipv4_fields.induct)
    (auto simp: Let_def split: if_splits)

lemma parse_addr4_length: "parse_addr s = Some (Addr4 f) \<Longrightarrow> length f = 4"
  using ipv4_fields_bounds [of 0 0 "[]"]
  by (auto simp: parse_addr_def split: list.splits if_splits)

text \<open>Reading back a dotted-decimal address.\<close>

lemma ipv4_fields_digits:
  assumes "\<forall>c \<in> set s. is_digit c" and "digits_val v s = Some w" and "w \<le> 255"
    and "s \<noteq> [] \<longrightarrow> \<not> (d = 1 \<and> v = 0)"
    and "\<forall>k < length s. 0 < k \<longrightarrow> \<not> (d + k = 1 \<and> the (digits_val v (take k s)) = 0)"
  shows "ipv4_fields v d fs (s @ t) = ipv4_fields w (d + length s) fs t"
  using assms
proof (induction s arbitrary: v d)
  case (Cons c cs)
  let ?v = "v * 10 + digit_val c"
  have dv: "digits_val ?v cs = Some w" using Cons.prems by simp
  have mono: "digits_val a xs = Some b \<Longrightarrow> a \<le> b" for a b xs
    by (induction xs arbitrary: a) (force split: if_splits)+
  have le: "?v \<le> 255" using mono [OF dv] Cons.prems(3) by simp
  have "ipv4_fields v d fs ((c # cs) @ t) = ipv4_fields ?v (d + 1) fs (cs @ t)"
    using Cons.prems le by (auto simp: Let_def)
  also have "\<dots> = ipv4_fields w (d + 1 + length cs) fs t"
  proof (rule Cons.IH)
    show "cs \<noteq> [] \<longrightarrow> \<not> (d + 1 = 1 \<and> ?v = 0)"
      using Cons.prems(1,5) by (cases cs) (auto dest!: spec [of _ 1])
    show "\<forall>k < length cs. 0 < k \<longrightarrow> \<not> (d + 1 + k = 1 \<and> the (digits_val ?v (take k cs)) = 0)"
      by simp
  qed (use Cons.prems dv in auto)
  finally show ?case by simp
qed simp

lemma digits_val_mono: "digits_val a xs = Some b \<Longrightarrow> a \<le> b"
  by (induction xs arbitrary: a) (force split: if_splits)+

text \<open>A number of at least ten is not printed with a leading zero.\<close>

lemma itoa_first: "10 \<le> n \<Longrightarrow> \<exists>c cs. itoa n = c # cs \<and> cs \<noteq> [] \<and> is_digit c \<and> digit_val c \<noteq> 0"
proof (induction n rule: itoa.induct)
  case (1 n)
  show ?case
  proof (cases "n div 10 < 10")
    case True
    have "0 < n div 10" using 1(2) by simp
    with True 1(2) show ?thesis
      using is_digit_chr [of "n div 10"] by (simp add: itoa.simps [of n] itoa.simps [of "n div 10"])
  next
    case False
    with 1 obtain c cs where "itoa (n div 10) = c # cs" "is_digit c" "digit_val c \<noteq> 0"
      by fastforce
    with 1(2) show ?thesis by (simp add: itoa.simps [of n])
  qed
qed

lemma ipv4_fields_itoa:
  assumes "n \<le> 255"
  shows "ipv4_fields 0 0 fs (itoa n @ t) = ipv4_fields n (length (itoa n)) fs t"
proof -
  have lead: "\<not> (0 + k = 1 \<and> the (digits_val 0 (take k (itoa n))) = 0)"
    if k: "k < length (itoa n)" "0 < k" for k
  proof (cases "n < 10")
    case True
    with k show ?thesis by (simp add: itoa.simps)
  next
    case False
    then obtain c cs where "itoa n = c # cs" "is_digit c" "digit_val c \<noteq> 0"
      using itoa_first [of n] by auto
    then show ?thesis by (cases "k = 1") simp_all
  qed
  have "ipv4_fields 0 0 fs (itoa n @ t) = ipv4_fields n (0 + length (itoa n)) fs t"
    by (rule ipv4_fields_digits) (use assms lead itoa_digits digits_val_itoa in auto)
  then show ?thesis by simp
qed

lemma ipv4_fields_dot:
  "0 < d \<Longrightarrow> cs \<noteq> [] \<Longrightarrow> length fs \<noteq> 3 \<Longrightarrow>
     ipv4_fields v d fs (CHR ''.'' # cs) = ipv4_fields 0 0 (v # fs) cs"
  by (simp add: is_digit_def)

lemma dropWhile_itoa:
  "dropWhile (\<lambda>c. c \<noteq> CHR ''.'' \<and> c \<noteq> CHR '':'' \<and> c \<noteq> CHR ''%'') (itoa n @ CHR ''.'' # t)
     = CHR ''.'' # t"
proof -
  have "\<forall>c \<in> set (itoa n). c \<noteq> CHR ''.'' \<and> c \<noteq> CHR '':'' \<and> c \<noteq> CHR ''%''"
    using itoa_digits [of n] by (auto simp: is_digit_def)
  then show ?thesis by (subst dropWhile_append2) auto
qed

lemma unat_byte_le: "unat (b :: byte) \<le> 255"
proof -
  have "unat b < 2 ^ LENGTH(8)" by (rule unsigned_less)
  then show ?thesis by simp
qed

lemma itoa_length_pos: "0 < length (itoa n)"
  by (simp add: itoa_not_Nil)

lemma parse_addr_ipv4_string:
  "parse_addr (ipv4_string [a, b, c, d]) = Some (Addr4 [unat a, unat b, unat c, unat d])"
proof -
  let ?s = "ipv4_string [a, b, c, d]"
  have s: "?s = itoa (unat a) @ CHR ''.'' # itoa (unat b) @ CHR ''.'' # itoa (unat c) @
      CHR ''.'' # itoa (unat d) @ []"
    by (simp add: ipv4_string_def)
  have "ipv4_fields 0 0 [] ?s = Some [unat a, unat b, unat c, unat d]"
    unfolding s
    by (simp only: ipv4_fields_itoa unat_byte_le ipv4_fields_dot itoa_length_pos append_is_Nil_conv
        itoa_not_Nil list.size simp_thms list.simps) (simp add: numeral_eq_Suc)
  then show ?thesis
    by (simp add: parse_addr_def s dropWhile_itoa del: append_Nil2)
qed

text \<open>Printing a four-byte address and parsing it gives the address back.\<close>

lemma parse_ip_ipv4_string:
  assumes "length a = 4"
  shows "to4 (parse_ip (ipv4_string a)) = a"
proof -
  from assms obtain p q r s where a: "a = [p, q, r, s]"
    by (auto simp: length_Suc_conv numeral_eq_Suc)
  show ?thesis
    by (simp add: a parse_ip_def parse_addr_ipv4_string addr_bytes_def to4_def v4_in_v6_prefix_def)
qed

lemma ipv4_string_inj:
  assumes "length a = 4" "length b = 4" "ipv4_string a = ipv4_string b"
  shows "a = b"
  using parse_ip_ipv4_string assms by metis

lemma to4_parse_ip_cases: "to4 (parse_ip s) = [] \<or> length (to4 (parse_ip s)) = 4"
  by (auto simp: to4_def)

lemma length_mask_bytes [simp]: "length (mask_bytes l n) = l"
  by (induction l arbitrary: n) auto

lemma length_cidr_mask32: "n \<le> 32 \<Longrightarrow> length (cidr_mask n 32) = 4"
  by (simp add: cidr_mask_def)

lemma mac_colon_length: "mac_colon n sep s = Some m \<Longrightarrow> length m = n"
  by (induction n arbitrary: s m) (auto split: option.splits)

lemma hex_digit_facts:
  "d < 16 \<Longrightarrow> is_hex (hex_digit d) \<and> hex_val (hex_digit d) = d \<and> is_ascii (hex_digit d)
     \<and> \<not> is_upper_ascii (hex_digit d)"
  by (auto simp: is_hex_def hex_val_def hex_digit_def is_digit_def is_ascii_def is_upper_ascii_def)

lemma replicate_numeral_Cons [go_eval]:
  "replicate (numeral k) x = x # replicate (pred_numeral k) x"
  by (simp add: numeral_eq_Suc)

lemma mask_bytes_numeral [go_eval]:
  "mask_bytes (numeral k) n =
     (if 8 \<le> n then 255 # mask_bytes (pred_numeral k) (n - 8)
      else NOT (drop_bit n 255) # mask_bytes (pred_numeral k) 0)"
  by (simp add: numeral_eq_Suc)

lemma mac_colon_numeral [go_eval]:
  "mac_colon (numeral k) sep s =
     (case xtoi2 s (Some sep) of
        None \<Rightarrow> None
      | Some b \<Rightarrow> map_option ((#) b) (mac_colon (pred_numeral k) sep (drop 3 s)))"
  by (simp add: numeral_eq_Suc)

lemma mac_dot_numeral [go_eval]:
  "mac_dot (numeral k) s =
     (case (xtoi2 (take 2 s) None, xtoi2 (drop 2 s) (Some (CHR ''.''))) of
        (Some a, Some b) \<Rightarrow> map_option (\<lambda>r. a # b # r) (mac_dot (pred_numeral k) (drop 5 s))
      | _ \<Rightarrow> None)"
  by (simp add: numeral_eq_Suc)

lemmas go_net_eval [go_eval] =
  is_hex_def hex_val_def hex_num_def ipv6_loop.simps ipv6_bytes_def parse_addr_def
  v4_in_v6_prefix_def addr_bytes_def addr_bits_def parse_ip_def to4_def ip_equal_def ipv4_string_def
  cidr_mask_def leading_ones_def mask_size_def ip_mask_def network_number_and_mask_def
  net_contains_def ipnet_string_def dtoi_def parse_cidr_def xtoi2_def parse_mac_def
  hex_digit_def mac_string_def upt_rec

end
