(* ===== verification/Lan.thy ===== *)
theory Lan
  imports GoNet
begin

text \<open>
  \<open>internal/lan/lan.go\<close>: the IPv4 subnet the gateway serves. A scope is the gateway's address
  and its network; the code works on byte slices, the facts below read the same bytes as one
  32-bit word and show that membership, broadcast address, offsets and usable hosts are what
  prefix arithmetic on that word says.
\<close>

subsection \<open>The code\<close>

definition default_prefix_len :: int where "default_prefix_len = 24"
definition min_prefix_len :: int where "min_prefix_len = 8"
definition max_prefix_len :: int where "max_prefix_len = 30"

record scope =
  sc_gateway :: ip
  sc_network :: ipnet

datatype lan_error = LanAddressInvalid string | LanPrefixInvalid

definition prefix_len_or_default :: "int \<Rightarrow> int" where
  "prefix_len_or_default n = (if n = 0 then default_prefix_len else n)"

definition valid_prefix_len :: "int \<Rightarrow> bool" where
  "valid_prefix_len n \<longleftrightarrow> n \<ge> min_prefix_len \<and> n \<le> max_prefix_len"

definition new_scope :: "string \<Rightarrow> int \<Rightarrow> lan_error + scope" where
  "new_scope gateway_ip prefix_len =
     (let gateway = to4 (parse_ip gateway_ip) in
      if gateway = [] then Inl (LanAddressInvalid gateway_ip)
      else
        let len = prefix_len_or_default prefix_len in
        if \<not> valid_prefix_len len then Inl LanPrefixInvalid
        else
          let m = cidr_mask (nat len) 32 in
          Inr \<lparr>sc_gateway = gateway, sc_network = \<lparr>net_ip = ip_mask gateway m, net_mask = m\<rparr>\<rparr>)"

definition scope_string :: "scope \<Rightarrow> string" where
  "scope_string s = ipnet_string (sc_network s)"

definition scope_prefix_len :: "scope \<Rightarrow> nat" where
  "scope_prefix_len s = fst (mask_size (net_mask (sc_network s)))"

definition scope_contains :: "scope \<Rightarrow> ip \<Rightarrow> bool" where
  "scope_contains s a = (let v4 = to4 a in v4 \<noteq> [] \<and> net_contains (sc_network s) v4)"

text \<open>Indexing a nil slice would panic; a scope made by \<open>NewScope\<close> has four-byte slices.\<close>

definition scope_broadcast :: "scope \<Rightarrow> ip" where
  "scope_broadcast s =
     map2 (\<lambda>n m. n OR NOT m) (to4 (net_ip (sc_network s))) (to4 (net_mask (sc_network s)))"

definition usable_host :: "scope \<Rightarrow> ip \<Rightarrow> bool" where
  "usable_host s a =
     (let v4 = to4 a in
      if v4 = [] \<or> \<not> net_contains (sc_network s) v4 then False
      else \<not> ip_equal v4 (to4 (net_ip (sc_network s))) \<and> \<not> ip_equal v4 (scope_broadcast s))"

definition host_count :: "scope \<Rightarrow> int" where
  "host_count s = (case mask_size (net_mask (sc_network s)) of (ones, bits) \<Rightarrow> 2 ^ (bits - ones) - 2)"

definition to_uint32 :: "ip \<Rightarrow> 32 word" where
  "to_uint32 a =
     push_bit 24 (ucast (a ! 0)) OR push_bit 16 (ucast (a ! 1)) OR push_bit 8 (ucast (a ! 2)) OR ucast (a ! 3)"

definition from_uint32 :: "32 word \<Rightarrow> ip" where
  "from_uint32 v = [ucast (drop_bit 24 v), ucast (drop_bit 16 v), ucast (drop_bit 8 v), ucast v]"

definition scope_offset :: "scope \<Rightarrow> ip \<Rightarrow> int option" where
  "scope_offset s a =
     (let v4 = to4 a in
      if v4 = [] \<or> \<not> net_contains (sc_network s) v4 then None
      else Some (uint (to_uint32 v4 - to_uint32 (to4 (net_ip (sc_network s))))))"

definition host_at :: "scope \<Rightarrow> int \<Rightarrow> ip" where
  "host_at s off = from_uint32 (to_uint32 (to4 (net_ip (sc_network s))) + word_of_int off)"

subsection \<open>Bytes and words\<close>

lemma length4E:
  assumes "length a = 4"
  obtains p q r s where "a = [p, q, r, s]"
  using assms by (auto simp: length_Suc_conv numeral_eq_Suc)

lemma byte_bit_high [simp]: "\<not> bit (q :: byte) (8 + n)" "\<not> bit (q :: byte) (16 + n)" "\<not> bit (q :: byte) (24 + n)"
  using bit_imp_le_length [of q "8 + n"] bit_imp_le_length [of q "16 + n"]
    bit_imp_le_length [of q "24 + n"] by auto

lemma from_to_uint32 [simp]: "length a = 4 \<Longrightarrow> from_uint32 (to_uint32 a) = a"
  by (erule length4E)
    (auto simp: from_uint32_def to_uint32_def intro!: bit_word_eqI simp: bit_simps)

lemma to_from_uint32 [simp]: "to_uint32 (from_uint32 v) = v"
proof (rule bit_word_eqI)
  fix n assume "n < LENGTH(32)"
  then consider "n < 8" | "8 \<le> n \<and> n < 16" | "16 \<le> n \<and> n < 24" | "24 \<le> n \<and> n < 32"
    by fastforce
  then show "bit (to_uint32 (from_uint32 v)) n \<longleftrightarrow> bit v n"
    by cases (auto simp: from_uint32_def to_uint32_def bit_simps)
qed

lemma length_from_uint32 [simp]: "length (from_uint32 v) = 4"
  by (simp add: from_uint32_def)

lemma to_uint32_inj: "length a = 4 \<Longrightarrow> length b = 4 \<Longrightarrow> to_uint32 a = to_uint32 b \<longleftrightarrow> a = b"
  by (metis from_to_uint32)

lemma from_uint32_and: "from_uint32 (v AND w) = map2 (AND) (from_uint32 v) (from_uint32 w)"
  by (simp add: from_uint32_def unsigned_and_eq)

lemma ucast_or_not:
  "ucast (drop_bit k (v OR NOT w)) = (ucast (drop_bit k v) OR NOT (ucast (drop_bit k w)) :: 8 word)"
  if "k + 8 \<le> 32" for v w :: "32 word"
  by (rule bit_word_eqI) (use that in \<open>auto simp: bit_simps\<close>)

lemma from_uint32_or_not:
  "from_uint32 (v OR NOT w) = map2 (\<lambda>n m. n OR NOT m) (from_uint32 v) (from_uint32 w)"
  using ucast_or_not [of 0 v w] by (simp add: from_uint32_def ucast_or_not del: drop_bit_or)

lemma to_uint32_and:
  "length a = 4 \<Longrightarrow> length b = 4 \<Longrightarrow> to_uint32 (map2 (AND) a b) = to_uint32 a AND to_uint32 b"
  by (metis from_to_uint32 from_uint32_and to_from_uint32)

lemma to_uint32_or_not:
  "length a = 4 \<Longrightarrow> length b = 4 \<Longrightarrow>
     to_uint32 (map2 (\<lambda>n m. n OR NOT m) a b) = to_uint32 a OR NOT (to_uint32 b)"
  by (metis from_to_uint32 from_uint32_or_not to_from_uint32)

lemma prefix_len_in_upt: "8 \<le> n \<Longrightarrow> n \<le> 30 \<Longrightarrow> n \<in> set [8..<31]"
  by (simp only: set_upt atLeastLessThan_iff) auto

lemma cidr_mask_uint32:
  assumes "8 \<le> n" "n \<le> 30"
  shows "to_uint32 (cidr_mask n 32) = NOT (mask (32 - n))"
proof -
  have "\<forall>n \<in> set [8..<31]. to_uint32 (cidr_mask n 32) = NOT (mask (32 - n))"
    by (simp add: upt_rec cidr_mask_def mask_bytes_numeral to_uint32_def mask_eq_decr_exp)
  with prefix_len_in_upt [OF assms] show ?thesis by blast
qed

lemma mask_size_cidr_mask:
  assumes "8 \<le> n" "n \<le> 30"
  shows "mask_size (cidr_mask n 32) = (n, 32)"
proof -
  have "\<forall>n \<in> set [8..<31]. mask_size (cidr_mask n 32) = (n, 32)"
    by (simp add: upt_rec cidr_mask_def mask_bytes_numeral mask_size_def leading_ones_def)
  with prefix_len_in_upt [OF assms] show ?thesis by blast
qed

subsection \<open>Well-formed scopes\<close>

text \<open>What \<open>NewScope\<close> produces: a four-byte gateway and its network for a length in range.\<close>

definition wf_scope :: "nat \<Rightarrow> scope \<Rightarrow> bool" where
  "wf_scope n s \<longleftrightarrow>
     8 \<le> n \<and> n \<le> 30 \<and> length (sc_gateway s) = 4
     \<and> sc_network s = \<lparr>net_ip = map2 (AND) (sc_gateway s) (cidr_mask n 32), net_mask = cidr_mask n 32\<rparr>"

lemma new_scope_wf:
  assumes "new_scope g n = Inr s"
  shows "wf_scope (nat (prefix_len_or_default n)) s \<and> sc_gateway s = to4 (parse_ip g)"
proof -
  let ?k = "nat (prefix_len_or_default n)"
  from assms have ne: "to4 (parse_ip g) \<noteq> []" and k: "8 \<le> ?k" "?k \<le> 30"
    and s: "s = \<lparr>sc_gateway = to4 (parse_ip g),
      sc_network = \<lparr>net_ip = ip_mask (to4 (parse_ip g)) (cidr_mask ?k 32), net_mask = cidr_mask ?k 32\<rparr>\<rparr>"
    by (auto simp: new_scope_def Let_def valid_prefix_len_def min_prefix_len_def max_prefix_len_def
        split: if_splits)
  have len: "length (to4 (parse_ip g)) = 4"
    using ne by (simp add: to4_nonempty_length)
  have "length (cidr_mask ?k 32) = 4"
    using k by (simp add: length_cidr_mask32)
  with len have "ip_mask (to4 (parse_ip g)) (cidr_mask ?k 32)
      = map2 (AND) (to4 (parse_ip g)) (cidr_mask ?k 32)"
    by (simp add: ip_mask_def)
  with s k len show ?thesis by (simp add: wf_scope_def)
qed

text \<open>The network number of a scope, as a word, and its parts.\<close>

definition net_word :: "scope \<Rightarrow> 32 word" where
  "net_word s = to_uint32 (net_ip (sc_network s))"

lemma wf_scope_facts:
  assumes "wf_scope n s"
  shows "length (net_ip (sc_network s)) = 4" "net_mask (sc_network s) = cidr_mask n 32"
    "length (cidr_mask n 32) = 4" "to4 (net_ip (sc_network s)) = net_ip (sc_network s)"
    "network_number_and_mask (sc_network s) = (net_ip (sc_network s), cidr_mask n 32)"
    "net_word s = to_uint32 (sc_gateway s) AND NOT (mask (32 - n))"
proof -
  from assms have n: "8 \<le> n" "n \<le> 30" and g: "length (sc_gateway s) = 4"
    and net: "sc_network s
      = \<lparr>net_ip = map2 (AND) (sc_gateway s) (cidr_mask n 32), net_mask = cidr_mask n 32\<rparr>"
    by (auto simp: wf_scope_def)
  show m: "length (cidr_mask n 32) = 4" using n by (simp add: length_cidr_mask32)
  show l: "length (net_ip (sc_network s)) = 4" using net g m by simp
  show "net_mask (sc_network s) = cidr_mask n 32" using net by simp
  show t: "to4 (net_ip (sc_network s)) = net_ip (sc_network s)" using l by (rule to4_id)
  have "net_ip (sc_network s) \<noteq> []" using l by auto
  with l m t net show "network_number_and_mask (sc_network s) = (net_ip (sc_network s), cidr_mask n 32)"
    by (auto simp: network_number_and_mask_def Let_def)
  show "net_word s = to_uint32 (sc_gateway s) AND NOT (mask (32 - n))"
    using net g m n by (simp add: net_word_def to_uint32_and cidr_mask_uint32)
qed

text \<open>Membership of a four-byte address, bytewise in the code, is equality of the network parts.\<close>

lemma zip3_and_iff:
  "length a = length m \<Longrightarrow> length b = length m \<Longrightarrow>
     list_all (\<lambda>(p, q, r). p AND q = r AND q) (zip a (zip m b)) \<longleftrightarrow> map2 (AND) a m = map2 (AND) b m"
proof (induction m arbitrary: a b)
  case (Cons x m)
  then show ?case by (cases a; cases b) auto
qed simp

lemma net_contains_word:
  assumes "wf_scope n s" and "length a = 4"
  shows "net_contains (sc_network s) a \<longleftrightarrow> to_uint32 a AND NOT (mask (32 - n)) = net_word s"
proof -
  note f = wf_scope_facts [OF assms(1)]
  have n: "8 \<le> n" "n \<le> 30" using assms(1) by (auto simp: wf_scope_def)
  have a: "to4 a = a" "a \<noteq> []" using assms(2) by (auto simp: to4_id)
  have "net_contains (sc_network s) a
      \<longleftrightarrow> map2 (AND) (net_ip (sc_network s)) (cidr_mask n 32) = map2 (AND) a (cidr_mask n 32)"
    using f assms(2) a by (simp add: net_contains_def zip3_and_iff Let_def)
  also have "\<dots> \<longleftrightarrow> net_word s AND NOT (mask (32 - n)) = to_uint32 a AND NOT (mask (32 - n))"
    using f(1,3) assms(2) n
    by (subst to_uint32_inj [symmetric]) (simp_all add: to_uint32_and cidr_mask_uint32 net_word_def)
  also have "net_word s AND NOT (mask (32 - n)) = net_word s"
    using f(6) by (simp add: and.assoc)
  finally show ?thesis by auto
qed

lemma scope_contains_word:
  assumes "wf_scope n s" and "to4 a \<noteq> []"
  shows "scope_contains s a \<longleftrightarrow> to_uint32 (to4 a) AND NOT (mask (32 - n)) = net_word s"
  using assms net_contains_word [OF assms(1), of "to4 a"]
  by (simp add: scope_contains_def to4_nonempty_length)

lemma broadcast_word:
  assumes "wf_scope n s"
  shows "length (scope_broadcast s) = 4"
    and "to_uint32 (scope_broadcast s) = net_word s OR mask (32 - n)"
proof -
  note f = wf_scope_facts [OF assms]
  have n: "8 \<le> n" "n \<le> 30" using assms by (auto simp: wf_scope_def)
  have b: "scope_broadcast s = map2 (\<lambda>n m. n OR NOT m) (net_ip (sc_network s)) (cidr_mask n 32)"
    using f by (simp add: scope_broadcast_def to4_id)
  then show "length (scope_broadcast s) = 4" using f by simp
  show "to_uint32 (scope_broadcast s) = net_word s OR mask (32 - n)"
    using b f n by (simp add: to_uint32_or_not cidr_mask_uint32 net_word_def)
qed

text \<open>A word is the sum of its network part and its host part.\<close>

definition host_part :: "nat \<Rightarrow> 32 word \<Rightarrow> nat" where
  "host_part n v = unat (v AND mask (32 - n))"

lemma word_split: "(v :: 32 word) AND NOT (mask k) OR v AND mask k = v"
  by (rule bit_word_eqI) (auto simp: bit_simps)

lemma word_split_add: "(v AND NOT (mask k)) + (v AND mask k) = (v :: 32 word)"
proof -
  have "(v AND NOT (mask k)) AND (v AND mask k) = 0"
    by (rule bit_word_eqI) (auto simp: bit_simps)
  then show ?thesis by (simp add: disjunctive_add_eq_or word_split)
qed

lemma host_part_less: "8 \<le> n \<Longrightarrow> n \<le> 30 \<Longrightarrow> host_part n v < 2 ^ (32 - n)"
  by (simp add: host_part_def unsigned_take_bit_eq flip: take_bit_eq_mask)

lemma word_eq_net_plus_host:
  assumes "v AND NOT (mask (32 - n)) = w"
  shows "v = w + word_of_nat (host_part n v)"
  using word_split_add [of v "32 - n"] assms by (simp add: host_part_def)

lemma host_part_unique:
  assumes "w = w AND NOT (mask k)" and "h < 2 ^ k" and "k \<le> 24"
  shows "(w + word_of_nat h) AND NOT (mask k) = (w :: 32 word)"
    and "(w + word_of_nat h) AND mask k = word_of_nat h"
proof -
  have h: "word_of_nat h = (word_of_nat h AND mask k :: 32 word)"
  proof -
    have "take_bit k (word_of_nat h :: 32 word) = word_of_nat (take_bit k h)"
      by (simp add: take_bit_of_nat)
    then show ?thesis using assms(2) by (simp add: take_bit_nat_eq_self flip: take_bit_eq_mask)
  qed
  have wb: "\<not> i < k" if "bit w i" for i
    using that by (subst (asm) assms(1)) (simp add: bit_simps)
  have hb: "i < k" if "bit (word_of_nat h :: 32 word) i" for i
    using that by (subst (asm) h) (simp add: bit_simps)
  have "w AND word_of_nat h = 0"
    by (rule bit_word_eqI) (auto simp: bit_and_iff dest: wb hb)
  then have sum: "w + word_of_nat h = w OR word_of_nat h"
    by (rule disjunctive_add_eq_or)
  show "(w + word_of_nat h) AND NOT (mask k) = (w :: 32 word)"
    unfolding sum
    by (rule bit_word_eqI) (auto simp: bit_and_iff bit_or_iff bit_not_iff bit_mask_iff dest: wb hb)
  show "(w + word_of_nat h) AND mask k = word_of_nat h"
    unfolding sum
    by (rule bit_word_eqI) (auto simp: bit_and_iff bit_or_iff bit_mask_iff dest: wb hb)
qed

lemma net_word_aligned:
  "wf_scope n s \<Longrightarrow> net_word s = net_word s AND NOT (mask (32 - n))"
  by (simp add: wf_scope_facts(6) and.assoc)

lemma unat_word_of_host: "k \<le> 24 \<Longrightarrow> h < 2 ^ k \<Longrightarrow> unat (word_of_nat h :: 32 word) = h"
proof -
  assume "k \<le> 24" "h < 2 ^ k"
  then have "h < 2 ^ 24" by (meson less_le_trans one_le_numeral power_increasing)
  then show ?thesis by (simp add: unsigned_of_nat take_bit_nat_eq_self)
qed

text \<open>Two words have the same network part when they agree above the host bits.\<close>

lemma net_part_iff_drop_bit:
  fixes v w :: "32 word"
  shows "drop_bit k v = drop_bit k w \<longleftrightarrow> v AND NOT (mask k) = w AND NOT (mask k)"
proof
  assume d: "drop_bit k v = drop_bit k w"
  have "bit v i = bit w i" if "k \<le> i" for i
    using that arg_cong [OF d, of "\<lambda>x. bit x (i - k)"] by (simp add: bit_drop_bit_eq)
  then show "v AND NOT (mask k) = w AND NOT (mask k)"
    by (intro bit_word_eqI) (auto simp: bit_and_iff bit_not_iff bit_mask_iff)
next
  assume d: "v AND NOT (mask k) = w AND NOT (mask k)"
  have "bit v i = bit w i" if "k \<le> i" for i
  proof (cases "i < 32")
    case True
    then show ?thesis
      using that arg_cong [OF d, of "\<lambda>x. bit x i"]
      by (simp add: bit_and_iff bit_not_iff bit_mask_iff)
  next
    case False
    then show ?thesis using bit_imp_le_length [of v i] bit_imp_le_length [of w i] by auto
  qed
  then show "drop_bit k v = drop_bit k w"
    by (intro bit_word_eqI) (simp add: bit_drop_bit_eq)
qed

subsection \<open>Offsets and hosts\<close>

lemma scope_offset_host_part:
  assumes "wf_scope n s" and "scope_contains s a"
  shows "scope_offset s a = Some (int (host_part n (to_uint32 (to4 a))))"
proof -
  note f = wf_scope_facts [OF assms(1)]
  let ?v = "to_uint32 (to4 a)"
  have ne: "to4 a \<noteq> []" using assms(2) by (simp add: scope_contains_def Let_def)
  have v: "?v AND NOT (mask (32 - n)) = net_word s"
    using assms scope_contains_word [OF assms(1) ne] by simp
  have "?v - net_word s = ?v AND mask (32 - n)"
    using word_split_add [of ?v "32 - n"] v by (metis add_diff_cancel_left')
  then show ?thesis
    using assms(2) ne f(4)
    by (simp add: scope_offset_def scope_contains_def host_part_def net_word_def Let_def)
qed

lemma scope_offset_None_iff: "scope_offset s a = None \<longleftrightarrow> \<not> scope_contains s a"
  by (simp add: scope_offset_def scope_contains_def Let_def)

lemma host_at_word:
  assumes "wf_scope n s" and "h < 2 ^ (32 - n)"
  shows "length (host_at s (int h)) = 4"
    and "to_uint32 (host_at s (int h)) = net_word s + word_of_nat h"
  using wf_scope_facts(4) [OF assms(1)] by (simp_all add: host_at_def net_word_def)

lemma host_at_contains:
  assumes "wf_scope n s" and "h < 2 ^ (32 - n)"
  shows "scope_contains s (host_at s (int h))"
    and "host_part n (to_uint32 (host_at s (int h))) = h"
proof -
  note w = host_at_word [OF assms]
  have k: "32 - n \<le> 24" using assms(1) by (auto simp: wf_scope_def)
  note u = host_part_unique [OF net_word_aligned [OF assms(1)] assms(2) k]
  have "to4 (host_at s (int h)) = host_at s (int h)" "host_at s (int h) \<noteq> []"
    using w(1) by (auto simp: to4_id)
  then show "scope_contains s (host_at s (int h))"
    using scope_contains_word [OF assms(1), of "host_at s (int h)"] w u(1) by simp
  show "host_part n (to_uint32 (host_at s (int h))) = h"
    using w(2) u(2) unat_word_of_host [OF k assms(2)] by (simp add: host_part_def)
qed

lemma host_count_wf: "wf_scope n s \<Longrightarrow> host_count s = 2 ^ (32 - n) - 2"
  using wf_scope_facts(2) [of n s] mask_size_cidr_mask [of n]
  by (auto simp: host_count_def wf_scope_def)

lemma usable_host_word:
  assumes "wf_scope n s" and "to4 a \<noteq> []"
  shows "usable_host s a \<longleftrightarrow> scope_contains s a
    \<and> host_part n (to_uint32 (to4 a)) \<noteq> 0 \<and> host_part n (to_uint32 (to4 a)) \<noteq> 2 ^ (32 - n) - 1"
proof (cases "scope_contains s a")
  case True
  note f = wf_scope_facts [OF assms(1)] and b = broadcast_word [OF assms(1)]
  let ?v = "to_uint32 (to4 a)" and ?m = "mask (32 - n) :: 32 word"
  have n: "8 \<le> n" "n \<le> 30" using assms(1) by (auto simp: wf_scope_def)
  have l: "length (to4 a) = 4" using assms(2) by (simp add: to4_nonempty_length)
  have v: "?v AND NOT ?m = net_word s"
    using True scope_contains_word [OF assms] by simp
  have m0: "net_word s AND ?m = 0"
    by (subst net_word_aligned [OF assms(1)]) (auto intro!: bit_word_eqI simp: bit_simps)
  have "?v = net_word s \<longleftrightarrow> ?v AND ?m = 0"
    using v word_split [of ?v "32 - n"] m0 by (metis or.right_neutral)
  then have zero: "to4 a = net_ip (sc_network s) \<longleftrightarrow> host_part n ?v = 0"
    using to_uint32_inj [OF l f(1)] by (simp add: net_word_def host_part_def unat_eq_zero)
  have "?v = net_word s OR ?m \<longleftrightarrow> ?v AND ?m = ?m"
  proof
    assume "?v = net_word s OR ?m"
    then have "?v AND ?m = (net_word s OR ?m) AND ?m" by (rule arg_cong)
    also have "\<dots> = ?m" by (rule bit_word_eqI) (auto simp: bit_simps)
    finally show "?v AND ?m = ?m" .
  next
    assume "?v AND ?m = ?m"
    then show "?v = net_word s OR ?m"
      using v word_split [of ?v "32 - n"] by simp
  qed
  moreover have "unat ?m = 2 ^ (32 - n) - 1"
  proof -
    have "32 - n \<le> 24" "mask (32 - n) < (2 :: nat) ^ (32 - n)"
      using n by (auto simp: mask_eq_exp_minus_1)
    then have "unat (word_of_nat (mask (32 - n)) :: 32 word) = mask (32 - n)"
      by (rule unat_word_of_host)
    then show ?thesis by (simp add: of_nat_mask_eq mask_eq_exp_minus_1)
  qed
  ultimately have ones: "to4 a = scope_broadcast s \<longleftrightarrow> host_part n ?v = 2 ^ (32 - n) - 1"
    using to_uint32_inj [OF l b(1)] b(2) by (metis host_part_def word_unat_eq_iff)
  show ?thesis
    using True assms(2) f(1,4) b(1) l zero ones
    by (simp add: usable_host_def scope_contains_def ip_equal_same_length Let_def)
next
  case False
  then show ?thesis
    using assms(2) by (simp add: usable_host_def scope_contains_def Let_def)
qed

text \<open>
  The usable hosts are the offsets from 1 to \<open>HostCount\<close>: exactly what the DHCP range and the
  device policy may hand out.
\<close>

lemma usable_host_iff_offset:
  assumes "wf_scope n s"
  shows "usable_host s a \<longleftrightarrow> (\<exists>k. scope_offset s a = Some k \<and> 1 \<le> k \<and> k \<le> host_count s)"
proof (cases "scope_contains s a")
  case True
  then have ne: "to4 a \<noteq> []" by (simp add: scope_contains_def Let_def)
  let ?h = "host_part n (to_uint32 (to4 a))"
  have n: "8 \<le> n" "n \<le> 30" using assms by (auto simp: wf_scope_def)
  define P :: nat where "P = 2 ^ (32 - n)"
  have lt: "?h < P" using n by (simp add: P_def host_part_less)
  have hc: "host_count s = int P - 2" using host_count_wf [OF assms] by (simp add: P_def)
  have "usable_host s a \<longleftrightarrow> ?h \<noteq> 0 \<and> ?h \<noteq> P - 1"
    using True usable_host_word [OF assms ne] by (simp add: P_def)
  also have "\<dots> \<longleftrightarrow> 1 \<le> int ?h \<and> int ?h \<le> int P - 2"
    using lt by auto
  finally show ?thesis
    using scope_offset_host_part [OF assms True] hc by simp
next
  case False
  then have "\<not> usable_host s a"
    by (auto simp: usable_host_def scope_contains_def Let_def)
  with False show ?thesis using scope_offset_None_iff [of s a] by auto
qed

lemma host_at_offset:
  assumes "wf_scope n s" and "scope_contains s a" and "scope_offset s a = Some k"
  shows "host_at s k = to4 a"
proof -
  let ?v = "to_uint32 (to4 a)" and ?h = "host_part n (to_uint32 (to4 a))"
  have ne: "to4 a \<noteq> []" using assms(2) by (simp add: scope_contains_def Let_def)
  have n: "8 \<le> n" "n \<le> 30" using assms(1) by (auto simp: wf_scope_def)
  have k: "k = int ?h" using scope_offset_host_part [OF assms(1,2)] assms(3) by simp
  have "?v = net_word s + word_of_nat ?h"
    using word_eq_net_plus_host assms scope_contains_word [OF assms(1) ne] by blast
  then have "to_uint32 (host_at s k) = ?v"
    using host_at_word(2) [OF assms(1) host_part_less [OF n]] k by simp
  moreover have "length (host_at s k) = 4" by (simp add: host_at_def)
  moreover have "length (to4 a) = 4" using ne by (simp add: to4_nonempty_length)
  ultimately show ?thesis by (metis to_uint32_inj)
qed

subsection \<open>Properties\<close>

text \<open>Membership in the gateway LAN is prefix equality: a scope built from a gateway address and
  a prefix length contains an address exactly when the address is IPv4 and its first n bits, read as
  a big-endian 32-bit number, are those of the gateway.\<close>

theorem scope_contains_iff_prefix:
  assumes "new_scope g n = Inr s"
  shows "scope_contains s a \<longleftrightarrow>
    to4 a \<noteq> [] \<and>
    drop_bit (32 - nat (prefix_len_or_default n)) (to_uint32 (to4 a))
      = drop_bit (32 - nat (prefix_len_or_default n)) (to_uint32 (sc_gateway s))"
proof (cases "to4 a = []")
  case True
  then show ?thesis by (simp add: scope_contains_def)
next
  case False
  let ?k = "32 - nat (prefix_len_or_default n)"
  have wf: "wf_scope (nat (prefix_len_or_default n)) s"
    using new_scope_wf [OF assms] by simp
  then show ?thesis
    using False scope_contains_word [OF wf False] wf_scope_facts(6) [OF wf] by (simp add: net_part_iff_drop_bit)
qed

text \<open>The scope of the documentation's example network.\<close>

lemma scope_example:
  "new_scope ''192.168.2.241'' 0 = Inr \<lparr>sc_gateway = [192, 168, 2, 241],
     sc_network = \<lparr>net_ip = [192, 168, 2, 0], net_mask = [255, 255, 255, 0]\<rparr>\<rparr>"
  by (simp add: new_scope_def prefix_len_or_default_def default_prefix_len_def valid_prefix_len_def
      min_prefix_len_def max_prefix_len_def go_eval)

theorem scope_contains_iff_prefix_witness:
  "scope_contains \<lparr>sc_gateway = [192, 168, 2, 241],
     sc_network = \<lparr>net_ip = [192, 168, 2, 0], net_mask = [255, 255, 255, 0]\<rparr>\<rparr> [192, 168, 2, 77]"
  by (simp add: scope_contains_iff_prefix [OF scope_example] to4_def prefix_len_or_default_def
      default_prefix_len_def to_uint32_def)

text \<open>The addresses a LAN may hand out are the offsets 1 to HostCount: \<open>UsableHost\<close> accepts an
  address exactly when \<open>Offset\<close> places it there, so neither the network nor the broadcast address
  nor anything outside the subnet is ever accepted.\<close>

theorem usable_hosts_are_offsets:
  assumes "new_scope g n = Inr s"
  shows "usable_host s a \<longleftrightarrow> (\<exists>k. scope_offset s a = Some k \<and> 1 \<le> k \<and> k \<le> host_count s)"
  using new_scope_wf [OF assms] usable_host_iff_offset by blast

theorem usable_hosts_are_offsets_witness:
  "\<not> usable_host \<lparr>sc_gateway = [192, 168, 2, 241],
     sc_network = \<lparr>net_ip = [192, 168, 2, 0], net_mask = [255, 255, 255, 0]\<rparr>\<rparr> [192, 168, 2, 255]
   \<and> usable_host \<lparr>sc_gateway = [192, 168, 2, 241],
     sc_network = \<lparr>net_ip = [192, 168, 2, 0], net_mask = [255, 255, 255, 0]\<rparr>\<rparr> [192, 168, 2, 254]"
  by (simp add: usable_hosts_are_offsets [OF scope_example] scope_offset_def host_count_def
      to_uint32_def go_eval)

text \<open>\<open>HostAt\<close> and \<open>Offset\<close> are inverse on the subnet: every offset within the subnet comes
  back from the address it denotes, and every member address comes back from its offset.\<close>

theorem host_at_offset_roundtrip:
  assumes "new_scope g n = Inr s" and "0 \<le> k" and "k \<le> host_count s + 1"
  shows "scope_offset s (host_at s k) = Some k
    \<and> (\<forall>a. scope_offset s a = Some k \<longrightarrow> to4 a = host_at s k)"
proof -
  let ?n = "nat (prefix_len_or_default n)"
  have wf: "wf_scope ?n s" using new_scope_wf [OF assms(1)] by simp
  have "int (nat k) < 2 ^ (32 - ?n)" using assms(2,3) host_count_wf [OF wf] by simp
  then have lt: "nat k < 2 ^ (32 - ?n)" by (metis of_nat_less_iff of_nat_numeral of_nat_power)
  note h = host_at_contains [OF wf lt]
  have four: "to4 (host_at s k) = host_at s k"
    by (rule to4_id) (simp add: host_at_def)
  have "scope_offset s (host_at s k) = Some k"
    using scope_offset_host_part [OF wf h(1)] h(2) four assms(2) by simp
  moreover have "to4 a = host_at s k" if "scope_offset s a = Some k" for a
    using that host_at_offset [OF wf] scope_offset_None_iff [of s a] by fastforce
  ultimately show ?thesis by blast
qed

theorem host_at_offset_roundtrip_witness:
  "host_at \<lparr>sc_gateway = [192, 168, 2, 241],
     sc_network = \<lparr>net_ip = [192, 168, 2, 0], net_mask = [255, 255, 255, 0]\<rparr>\<rparr> 77 = [192, 168, 2, 77]
   \<and> scope_offset \<lparr>sc_gateway = [192, 168, 2, 241],
     sc_network = \<lparr>net_ip = [192, 168, 2, 0], net_mask = [255, 255, 255, 0]\<rparr>\<rparr>
       [192, 168, 2, 77] = Some 77"
proof -
  have "host_at \<lparr>sc_gateway = [192, 168, 2, 241],
     sc_network = \<lparr>net_ip = [192, 168, 2, 0], net_mask = [255, 255, 255, 0]\<rparr>\<rparr> 77 = [192, 168, 2, 77]"
    by (simp add: host_at_def from_uint32_def to_uint32_def to4_def)
  then show ?thesis
    using host_at_offset_roundtrip [OF scope_example, of 77]
    by (simp add: host_count_def go_eval)
qed

end
