(* ===== verification/PolicyModel.thy ===== *)
theory PolicyModel
  imports Lan
begin

text \<open>
  \<open>internal/device/policy.go\<close>, the data and its validation: the declarative policy document
  (devices, profiles, templates, rule sets), the compiled policy the gateway runs, and
  \<open>ValidatePolicySet\<close> with every check in the order the code makes it. Each error message of the
  code is a constructor carrying what the message quotes. \<open>url.Parse\<close> is a parameter: a function
  giving the scheme and host of a URL, or \<open>None\<close> where it reports an error.
\<close>

subsection \<open>Data\<close>

record managed_device =
  md_id :: string
  md_name :: string
  md_mac :: string
  md_ipv4 :: string
  md_profile :: string
  md_gateway_target :: string
  md_dns_view :: string
  md_egress_mode :: string

definition egress_inherit_global :: string where "egress_inherit_global = ''inherit_global''"
definition egress_dedicated :: string where "egress_dedicated = ''dedicated''"
definition egress_legacy_fallback :: string where "egress_legacy_fallback = ''legacy_fallback''"
definition target_opensurge :: string where "target_opensurge = ''opensurge''"
definition target_upstream_router :: string where "target_upstream_router = ''upstream_router''"
definition dns_view_auto :: string where "dns_view_auto = ''auto''"
definition dns_view_gateway :: string where "dns_view_gateway = ''gateway''"
definition dns_view_resolver :: string where "dns_view_resolver = ''resolver''"

record rule_match =
  rm_domains :: "string list"
  rm_ip_cidrs :: "string list"
  rm_protocols :: "string list"
  rm_ports :: "string list"
  rm_rule_sets :: "string list"
  rm_template :: string

record rule =
  ru_id :: string
  ru_match :: rule_match
  ru_action :: string
  ru_policies :: "string list"
  ru_on_unsupported :: string

record profile =
  pf_id :: string
  pf_template :: string
  pf_default_policies :: "string list"
  pf_on_unsupported :: string
  pf_rules :: "rule list"

record policy_template =
  tp_id :: string
  tp_default_policies :: "string list"
  tp_on_unsupported :: string
  tp_rules :: "rule list"
  tp_rule_sets :: "string list"

record rule_set =
  rs_id :: string
  rs_type :: string
  rs_behavior :: string
  rs_format :: string
  rs_url :: string
  rs_interval :: int
  rs_payload :: "string list"

record policy_set =
  ps_devices :: "managed_device list"
  ps_profiles :: "profile list"
  ps_rule_sets :: "rule_set list"
  ps_templates :: "policy_template list"

record reservation =
  rv_id :: string
  rv_mac :: string
  rv_ipv4 :: string
  rv_gateway_target :: string

record selector_group =
  sg_name :: string
  sg_policies :: "string list"

record rule_provider =
  rp_name :: string
  rp_type :: string
  rp_behavior :: string
  rp_format :: string
  rp_url :: string
  rp_interval :: int
  rp_payload :: "string list"

record policy_adjustment =
  pa_slot :: string
  pa_effect :: string
  pa_missing_targets :: "string list"
  pa_selected :: string

record compiled_device =
  cd_id :: string
  cd_mac :: string
  cd_ipv4 :: string
  cd_profile :: string
  cd_gateway_target :: string
  cd_dns_view :: string
  cd_egress_mode :: string
  cd_configured_egress_mode :: string
  cd_policy_adjustments :: "policy_adjustment list"
  cd_ipv6_blocked :: bool
  cd_groups :: "string \<rightharpoonup> string"

record compiled_policy =
  cp_reservations :: "reservation list"
  cp_selector_groups :: "selector_group list"
  cp_rule_providers :: "rule_provider list"
  cp_override_rules :: "string list"
  cp_dedicated_rules :: "string list"
  cp_default_rules :: "string list"
  cp_devices :: "compiled_device list"
  cp_selector_targets :: "string list"
  cp_action_targets :: "string list"

definition empty_compiled :: compiled_policy where
  "empty_compiled = \<lparr>cp_reservations = [], cp_selector_groups = [], cp_rule_providers = [],
     cp_override_rules = [], cp_dedicated_rules = [], cp_default_rules = [], cp_devices = [],
     cp_selector_targets = [], cp_action_targets = []\<rparr>"

type_synonym url_parser = "string \<Rightarrow> (string \<times> string) option"

subsection \<open>Errors\<close>

datatype match_error =
    TemplateCombined
  | MatchUnknownTemplate string
  | MatchTemplateEmpty string
  | MatchEmpty
  | DomainInvalid string
  | IPCIDRInvalid string
  | ProtocolInvalid string
  | PortInvalid string
  | MatchUnknownRuleSet string
  | MatchTooLarge

datatype list_error =
    PolicyListEmpty
  | PolicyListInvalid string
  | PolicyListDuplicate string

datatype rule_error =
    RuleIDInvalid
  | RuleDuplicate
  | RuleMatchInvalid match_error
  | RuleOnUnsupportedInvalid
  | RuleActionWithPolicies
  | RulePoliciesInvalid list_error
  | RuleNoAction

datatype rule_set_error =
    RuleSetIDInvalid
  | RuleSetDuplicate
  | RuleSetInlineNoPayload
  | RuleSetInlineURL
  | RuleSetURLInvalid
  | RuleSetHTTPPayload
  | RuleSetTypeInvalid
  | RuleSetBehaviorInvalid
  | RuleSetFormatInvalid
  | RuleSetMRSClassical
  | RuleSetIntervalNegative

datatype profile_error =
    ProfileIDInvalid
  | ProfileDuplicate
  | ProfileUnknownTemplate string
  | ProfileNoDefaultPolicies
  | DefaultPoliciesInvalid list_error
  | OnUnsupportedInvalid
  | TemplateUnknownRuleSet string

datatype device_field_error =
    DeviceIDInvalid
  | DeviceNameWhitespace
  | DeviceNameTooLong
  | DeviceNameControl
  | DeviceDuplicate
  | DeviceMACInvalid
  | DeviceMACDuplicate string
  | DeviceIPv4Invalid
  | DeviceIPv4Duplicate string

datatype device_mode_error =
    DeviceUnknownProfile string
  | DeviceEgressInvalid
  | DeviceGatewayTargetInvalid
  | DeviceDNSViewInvalid
  | DeviceBypassDNSGateway
  | DeviceBypassNoMAC

datatype lan_device_error =
    DeviceNotUsableHost string
  | DeviceIsGateway
  | DeviceProtected string

datatype policy_error =
    ProfileError string profile_error
  | TemplateError string profile_error
  | RuleSetError string rule_set_error
  | RuleError string string rule_error
  | DeviceFieldError string device_field_error
  | DeviceModeError string device_mode_error
  | DeviceLANError string lan_device_error
  | ProtectedIPInvalid string
  | CompileRuleError string string match_error
  | CompileEmptyMatch string string
  | DeviceNoSlot string string
  | DeviceUnknown string

subsection \<open>Lexical checks\<close>

definition valid_id :: "string \<Rightarrow> bool" where
  "valid_id value \<longleftrightarrow> value \<noteq> [] \<and>
     list_all (\<lambda>c. is_letter_ascii c \<or> is_digit c \<or> c = CHR ''_'' \<or> c = CHR ''-'') value"

definition valid_policy :: "string \<Rightarrow> bool" where
  "valid_policy value \<longleftrightarrow>
     value \<noteq> [] \<and> trim_space value = value
     \<and> \<not> contains_any value [CHR '','', CHR 0x09, CHR 0x0D, CHR 0x0A]"

definition valid_domain :: "string \<Rightarrow> bool" where
  "valid_domain value \<longleftrightarrow>
     value \<noteq> [] \<and> trim_space value = value
     \<and> \<not> contains_any value [CHR '','', CHR 0x09, CHR 0x0D, CHR 0x0A, CHR ''/'', CHR '':'', CHR '' '']"

definition valid_port_range :: "string \<Rightarrow> bool" where
  "valid_port_range value =
     (let parts = split_on (CHR ''-'') value in
      if length parts > 2 \<or> value = [] then False
      else
        (case atoi (parts ! 0) of
           None \<Rightarrow> False
         | Some first \<Rightarrow>
             if first < 1 \<or> first > 65535 then False
             else if length parts = 1 then True
             else (case atoi (parts ! 1) of
                     None \<Rightarrow> False
                   | Some final \<Rightarrow> final \<ge> first \<and> final \<le> 65535)))"

text \<open>The \<open>label\<close> these two functions put in front of their message is the error the caller passes.\<close>

definition validate_unsupported :: "string \<Rightarrow> 'e \<Rightarrow> 'e option" where
  "validate_unsupported value label =
     (if value = '''' \<or> value = ''reject'' \<or> value = ''fallthrough'' then None
      else Some label)"

definition validate_policy_list :: "string list \<Rightarrow> (list_error \<Rightarrow> 'e) \<Rightarrow> 'e option" where
  "validate_policy_list policies label =
     map_option label
       (vthen (fail_if (policies = []) PolicyListEmpty)
         (check_unique (\<lambda>p. p) (\<lambda>p. fail_if (\<not> valid_policy p) (PolicyListInvalid p))
            PolicyListDuplicate (\<lambda>p. None) [] policies))"

text \<open>\<open>normalizedMAC\<close>: an IEEE 802 address of six bytes in lower-case colon form.\<close>

definition normalized_mac :: "string \<Rightarrow> string option" where
  "normalized_mac value =
     (case parse_mac value of
        None \<Rightarrow> None
      | Some m \<Rightarrow> if length m \<noteq> 6 then None else Some (to_lower (mac_string m)))"

definition validate_device_name :: "string \<Rightarrow> string \<Rightarrow> policy_error option" where
  "validate_device_name did name =
     (if name = [] then None
      else vthen (fail_if (trim_space name \<noteq> name) (DeviceFieldError did DeviceNameWhitespace))
            (vthen (fail_if (rune_count name > 80) (DeviceFieldError did DeviceNameTooLong))
              (first_error (\<lambda>r. fail_if (is_control r) (DeviceFieldError did DeviceNameControl)) (runes name))))"

subsection \<open>Effective values\<close>

definition effective_egress_mode :: "string \<Rightarrow> string" where
  "effective_egress_mode mode = (if mode = [] then egress_legacy_fallback else mode)"

definition effective_gateway_target :: "string \<Rightarrow> string" where
  "effective_gateway_target target = (if target = [] then target_opensurge else target)"

definition effective_dns_view :: "string \<Rightarrow> string" where
  "effective_dns_view view = (if view = [] then dns_view_auto else view)"

definition uses_upstream_router :: "policy_set \<Rightarrow> bool" where
  "uses_upstream_router ps =
     list_ex (\<lambda>md. effective_gateway_target (md_gateway_target md) = target_upstream_router) (ps_devices ps)"

definition display_name :: "managed_device \<Rightarrow> string" where
  "display_name md = (if md_name md \<noteq> [] then md_name md else md_id md)"

subsection \<open>Rule sets and matches\<close>

definition normalized_rule_set :: "rule_set \<Rightarrow> rule_set" where
  "normalized_rule_set rs =
     (let ty = to_lower (trim_space (rs_type rs)); fm = to_lower (trim_space (rs_format rs)) in
      rs\<lparr>rs_type := (if ty = [] then ''inline'' else ty),
         rs_behavior := to_lower (trim_space (rs_behavior rs)),
         rs_format := (if fm = [] then ''yaml'' else fm)\<rparr>)"

definition validate_rule_set :: "url_parser \<Rightarrow> rule_set \<Rightarrow> policy_error option" where
  "validate_rule_set url_parse rs0 =
     (let rs = normalized_rule_set rs0; i = rs_id rs in
      vthen
        (if rs_type rs = ''inline'' then
           vthen (fail_if (rs_payload rs = []) (RuleSetError i RuleSetInlineNoPayload))
             (fail_if (rs_url rs \<noteq> []) (RuleSetError i RuleSetInlineURL))
         else if rs_type rs = ''http'' then
           vthen
             (case url_parse (rs_url rs) of
                None \<Rightarrow> Some (RuleSetError i RuleSetURLInvalid)
              | Some (scheme, host) \<Rightarrow>
                  fail_if ((scheme \<noteq> ''http'' \<and> scheme \<noteq> ''https'') \<or> host = []) (RuleSetError i RuleSetURLInvalid))
             (fail_if (rs_payload rs \<noteq> []) (RuleSetError i RuleSetHTTPPayload))
         else Some (RuleSetError i RuleSetTypeInvalid))
      (vthen
        (fail_if (rs_behavior rs \<notin> {''domain'', ''ipcidr'', ''classical''}) (RuleSetError i RuleSetBehaviorInvalid))
      (vthen
        (if rs_type rs = ''http'' then
           vthen (fail_if (rs_format rs \<notin> {''yaml'', ''text'', ''mrs''}) (RuleSetError i RuleSetFormatInvalid))
             (fail_if (rs_format rs = ''mrs'' \<and> rs_behavior rs = ''classical'') (RuleSetError i RuleSetMRSClassical))
         else None)
        (fail_if (rs_interval rs < 0) (RuleSetError i RuleSetIntervalNegative)))))"

text \<open>The number of rules a match expands to, computed in Go's \<open>int\<close>.\<close>

definition combination_count :: "(string \<rightharpoonup> policy_template) \<Rightarrow> rule_match \<Rightarrow> int" where
  "combination_count templates m =
     (if rm_template m \<noteq> [] then
        (case templates (rm_template m) of None \<Rightarrow> 0 | Some t \<Rightarrow> int (length (tp_rule_sets t)))
      else
        foldl (\<lambda>count dimension.
            if length dimension > 0 then wrap64 (count * int (length dimension)) else count)
          1 [rm_domains m, rm_ip_cidrs m, rm_protocols m, rm_ports m, rm_rule_sets m])"

definition direct_dimensions :: "rule_match \<Rightarrow> nat" where
  "direct_dimensions m = length (rm_domains m) + length (rm_ip_cidrs m) + length (rm_protocols m)
     + length (rm_ports m) + length (rm_rule_sets m)"

definition validate_match ::
  "(string \<rightharpoonup> rule_set) \<Rightarrow> (string \<rightharpoonup> policy_template) \<Rightarrow> rule_match \<Rightarrow> match_error option" where
  "validate_match rule_sets templates m =
     vthen
       (if rm_template m \<noteq> [] then
          vthen (fail_if (direct_dimensions m \<noteq> 0) TemplateCombined)
            (case templates (rm_template m) of
               None \<Rightarrow> Some (MatchUnknownTemplate (rm_template m))
             | Some t \<Rightarrow> fail_if (tp_rule_sets t = []) (MatchTemplateEmpty (rm_template m)))
        else fail_if (direct_dimensions m = 0) MatchEmpty)
     (vthen (first_error (\<lambda>d. fail_if (\<not> valid_domain d) (DomainInvalid d)) (rm_domains m))
     (vthen (first_error (\<lambda>c. fail_if (parse_cidr c = None) (IPCIDRInvalid c)) (rm_ip_cidrs m))
     (vthen (first_error (\<lambda>p. fail_if (to_lower p \<notin> {''tcp'', ''udp''}) (ProtocolInvalid p)) (rm_protocols m))
     (vthen (first_error (\<lambda>p. fail_if (\<not> valid_port_range p) (PortInvalid p)) (rm_ports m))
     (vthen (first_error (\<lambda>i. fail_if (rule_sets i = None) (MatchUnknownRuleSet i)) (rm_rule_sets m))
       (fail_if (combination_count templates m > 256) MatchTooLarge))))))"

definition validate_rules ::
  "string \<Rightarrow> rule list \<Rightarrow> (string \<rightharpoonup> rule_set) \<Rightarrow> (string \<rightharpoonup> policy_template) \<Rightarrow> policy_error option" where
  "validate_rules pid rules rule_sets templates =
     check_unique ru_id
       (\<lambda>r. fail_if (\<not> valid_id (ru_id r) \<or> ru_id r = ''default'') (RuleError pid (ru_id r) RuleIDInvalid))
       (\<lambda>r. RuleError pid (ru_id r) RuleDuplicate)
       (\<lambda>r. map_option (RuleError pid (ru_id r))
             (vthen (map_option RuleMatchInvalid (validate_match rule_sets templates (ru_match r)))
             (vthen (validate_unsupported (ru_on_unsupported r) RuleOnUnsupportedInvalid)
               (if ru_policies r \<noteq> [] then
                  vthen (fail_if (ru_action r \<noteq> []) RuleActionWithPolicies)
                    (validate_policy_list (ru_policies r) RulePoliciesInvalid)
                else fail_if (\<not> valid_policy (ru_action r)) RuleNoAction))))
       [] rules"

subsection \<open>Profiles\<close>

definition resolve_profile :: "profile \<Rightarrow> (string \<rightharpoonup> policy_template) \<Rightarrow> policy_error + profile" where
  "resolve_profile pf templates =
     (if pf_template pf = [] then
        Inr \<lparr>pf_id = pf_id pf, pf_template = [], pf_default_policies = pf_default_policies pf,
             pf_on_unsupported = pf_on_unsupported pf, pf_rules = pf_rules pf\<rparr>
      else
        (case templates (pf_template pf) of
           None \<Rightarrow> Inl (ProfileError (pf_id pf) (ProfileUnknownTemplate (pf_template pf)))
         | Some t \<Rightarrow>
             Inr \<lparr>pf_id = pf_id pf, pf_template = [],
               pf_default_policies =
                 (if pf_default_policies pf \<noteq> [] then pf_default_policies pf else tp_default_policies t),
               pf_on_unsupported =
                 (if pf_on_unsupported pf \<noteq> [] then pf_on_unsupported pf else tp_on_unsupported t),
               pf_rules = tp_rules t @ pf_rules pf\<rparr>))"

subsection \<open>\<open>ValidatePolicySet\<close>\<close>

definition validate_profile_ids :: "profile list \<Rightarrow> policy_error option" where
  "validate_profile_ids pfs =
     check_unique pf_id (\<lambda>p. fail_if (\<not> valid_id (pf_id p)) (ProfileError (pf_id p) ProfileIDInvalid))
       (\<lambda>p. ProfileError (pf_id p) ProfileDuplicate) (\<lambda>p. None) [] pfs"

definition validate_template_headers :: "policy_template list \<Rightarrow> policy_error option" where
  "validate_template_headers ts =
     check_unique tp_id (\<lambda>t. fail_if (\<not> valid_id (tp_id t)) (TemplateError (tp_id t) ProfileIDInvalid))
       (\<lambda>t. TemplateError (tp_id t) ProfileDuplicate)
       (\<lambda>t. vthen (if tp_default_policies t \<noteq> [] then
                     validate_policy_list (tp_default_policies t) (\<lambda>e. TemplateError (tp_id t) (DefaultPoliciesInvalid e))
                   else None)
             (validate_unsupported (tp_on_unsupported t) (TemplateError (tp_id t) OnUnsupportedInvalid)))
       [] ts"

definition validate_rule_sets :: "url_parser \<Rightarrow> rule_set list \<Rightarrow> policy_error option" where
  "validate_rule_sets url_parse rss =
     check_unique rs_id (\<lambda>r. fail_if (\<not> valid_id (rs_id r)) (RuleSetError (rs_id r) RuleSetIDInvalid))
       (\<lambda>r. RuleSetError (rs_id r) RuleSetDuplicate) (validate_rule_set url_parse) [] rss"

definition validate_template_body ::
  "(string \<rightharpoonup> rule_set) \<Rightarrow> (string \<rightharpoonup> policy_template) \<Rightarrow> policy_template \<Rightarrow> policy_error option" where
  "validate_template_body sets templates t =
     vthen (first_error (\<lambda>i. fail_if (sets i = None) (TemplateError (tp_id t) (TemplateUnknownRuleSet i))) (tp_rule_sets t))
       (validate_rules (''template '' @ tp_id t) (tp_rules t) sets templates)"

definition validate_profile_body ::
  "(string \<rightharpoonup> rule_set) \<Rightarrow> (string \<rightharpoonup> policy_template) \<Rightarrow> profile \<Rightarrow> policy_error option" where
  "validate_profile_body sets templates pf =
     vthen (fail_if (pf_template pf \<noteq> [] \<and> templates (pf_template pf) = None)
             (ProfileError (pf_id pf) (ProfileUnknownTemplate (pf_template pf))))
     (vthen (if pf_default_policies pf \<noteq> [] then
               validate_policy_list (pf_default_policies pf) (\<lambda>e. ProfileError (pf_id pf) (DefaultPoliciesInvalid e))
             else None)
     (vthen (validate_unsupported (pf_on_unsupported pf) (ProfileError (pf_id pf) OnUnsupportedInvalid))
       (case resolve_profile pf templates of
          Inl e \<Rightarrow> Some e
        | Inr resolved \<Rightarrow>
            vthen (fail_if (pf_default_policies resolved = []) (ProfileError (pf_id pf) ProfileNoDefaultPolicies))
              (validate_rules (pf_id pf) (pf_rules resolved) sets templates))))"

text \<open>The state of the device loop: identifiers, MAC addresses and IPv4 addresses seen so far.\<close>

record seen_devices =
  sd_ids :: "string list"
  sd_macs :: "string list"
  sd_ips :: "string list"

text \<open>The checks of one iteration, in order: identity, MAC address, IPv4 address, modes.\<close>

definition device_identity_error :: "seen_devices \<Rightarrow> managed_device \<Rightarrow> policy_error option" where
  "device_identity_error seen md =
     vthen (fail_if (\<not> valid_id (md_id md)) (DeviceFieldError (md_id md) DeviceIDInvalid))
      (vthen (validate_device_name (md_id md) (md_name md))
        (fail_if (md_id md \<in> set (sd_ids seen)) (DeviceFieldError (md_id md) DeviceDuplicate)))"

definition device_mac_error :: "seen_devices \<Rightarrow> managed_device \<Rightarrow> policy_error option" where
  "device_mac_error seen md =
     (if trim_space (md_mac md) \<noteq> [] then
        (case normalized_mac (md_mac md) of
           None \<Rightarrow> Some (DeviceFieldError (md_id md) DeviceMACInvalid)
         | Some mac \<Rightarrow> fail_if (mac \<in> set (sd_macs seen)) (DeviceFieldError (md_id md) (DeviceMACDuplicate mac)))
      else None)"

definition device_ip_error :: "seen_devices \<Rightarrow> managed_device \<Rightarrow> policy_error option" where
  "device_ip_error seen md =
     (let ip = to4 (parse_ip (md_ipv4 md)) in
      vthen (fail_if (ip = []) (DeviceFieldError (md_id md) DeviceIPv4Invalid))
        (fail_if (ipv4_string ip \<in> set (sd_ips seen)) (DeviceFieldError (md_id md) (DeviceIPv4Duplicate (ipv4_string ip)))))"

definition device_modes_error :: "(string \<rightharpoonup> profile) \<Rightarrow> managed_device \<Rightarrow> policy_error option" where
  "device_modes_error profiles md =
     (let i = md_id md; target = effective_gateway_target (md_gateway_target md) in
      vthen (fail_if (profiles (md_profile md) = None) (DeviceModeError i (DeviceUnknownProfile (md_profile md))))
     (vthen (fail_if (md_egress_mode md \<noteq> [] \<and> md_egress_mode md \<noteq> egress_inherit_global
                \<and> md_egress_mode md \<noteq> egress_dedicated) (DeviceModeError i DeviceEgressInvalid))
     (vthen (fail_if (md_gateway_target md \<noteq> [] \<and> md_gateway_target md \<noteq> target_opensurge
                \<and> md_gateway_target md \<noteq> target_upstream_router) (DeviceModeError i DeviceGatewayTargetInvalid))
     (vthen (fail_if (md_dns_view md \<noteq> [] \<and> md_dns_view md \<noteq> dns_view_auto
                \<and> md_dns_view md \<noteq> dns_view_gateway \<and> md_dns_view md \<noteq> dns_view_resolver)
              (DeviceModeError i DeviceDNSViewInvalid))
     (vthen (fail_if (target = target_upstream_router \<and> effective_dns_view (md_dns_view md) = dns_view_gateway)
              (DeviceModeError i DeviceBypassDNSGateway))
       (fail_if (target = target_upstream_router \<and> trim_space (md_mac md) = []) (DeviceModeError i DeviceBypassNoMAC)))))))"

definition validate_device ::
  "(string \<rightharpoonup> profile) \<Rightarrow> seen_devices \<Rightarrow> managed_device \<Rightarrow> policy_error + seen_devices" where
  "validate_device profiles seen md =
     (case vthen (device_identity_error seen md) (vthen (device_mac_error seen md)
             (vthen (device_ip_error seen md) (device_modes_error profiles md))) of
        Some e \<Rightarrow> Inl e
      | None \<Rightarrow>
          Inr \<lparr>sd_ids = md_id md # sd_ids seen,
               sd_macs = (if trim_space (md_mac md) \<noteq> [] then
                            (case normalized_mac (md_mac md) of
                               None \<Rightarrow> sd_macs seen | Some mac \<Rightarrow> mac # sd_macs seen)
                          else sd_macs seen),
               sd_ips = ipv4_string (to4 (parse_ip (md_ipv4 md))) # sd_ips seen\<rparr>)"

definition validate_devices :: "(string \<rightharpoonup> profile) \<Rightarrow> managed_device list \<Rightarrow> policy_error option" where
  "validate_devices profiles ds =
     (case rfold (validate_device profiles) \<lparr>sd_ids = [], sd_macs = [], sd_ips = []\<rparr> ds of
        Inl e \<Rightarrow> Some e
      | Inr _ \<Rightarrow> None)"

definition validate_policy_set :: "url_parser \<Rightarrow> policy_set \<Rightarrow> policy_error option" where
  "validate_policy_set url_parse ps =
     (let profiles = index_by pf_id (ps_profiles ps);
          templates = index_by tp_id (ps_templates ps);
          sets = index_by rs_id (ps_rule_sets ps)
      in vthen (validate_profile_ids (ps_profiles ps))
        (vthen (validate_template_headers (ps_templates ps))
        (vthen (validate_rule_sets url_parse (ps_rule_sets ps))
        (vthen (first_error (validate_template_body sets templates) (ps_templates ps))
        (vthen (first_error (validate_profile_body sets templates) (ps_profiles ps))
          (validate_devices profiles (ps_devices ps)))))))"

subsection \<open>Scoping to the gateway LAN\<close>

definition protected_ips :: "scope \<Rightarrow> string list \<Rightarrow> policy_error + string list" where
  "protected_ips s prot =
     rfold (\<lambda>acc value.
         let ip = to4 (parse_ip value) in
         if ip = [] then Inl (ProtectedIPInvalid value)
         else if \<not> scope_contains s ip then Inr acc
         else Inr (ipv4_string ip # acc))
       [] prot"

definition validate_device_for_lan ::
  "scope \<Rightarrow> string list \<Rightarrow> bool \<Rightarrow> managed_device \<Rightarrow> policy_error option" where
  "validate_device_for_lan s prot ip_only_active md =
     (let ip = to4 (parse_ip (md_ipv4 md)) in
      if (\<not> ip_only_active \<and> trim_space (md_mac md) = []) \<or> \<not> scope_contains s ip then None
      else vthen (fail_if (\<not> usable_host s ip) (DeviceLANError (md_id md) (DeviceNotUsableHost (ipv4_string ip))))
            (vthen (fail_if (ip_equal ip (sc_gateway s)) (DeviceLANError (md_id md) DeviceIsGateway))
              (fail_if (ipv4_string ip \<in> set prot) (DeviceLANError (md_id md) (DeviceProtected (ipv4_string ip))))))"

definition validate_policy_set_for_lan ::
  "url_parser \<Rightarrow> policy_set \<Rightarrow> scope \<Rightarrow> string list \<Rightarrow> bool \<Rightarrow> policy_error option" where
  "validate_policy_set_for_lan url_parse ps s prot ip_only_active =
     vthen (validate_policy_set url_parse ps)
       (case protected_ips s prot of
          Inl e \<Rightarrow> Some e
        | Inr ps' \<Rightarrow> first_error (validate_device_for_lan s ps' ip_only_active) (ps_devices ps))"

definition out_of_lan_devices :: "policy_set \<Rightarrow> scope \<Rightarrow> string list" where
  "out_of_lan_devices ps s =
     map md_id (filter (\<lambda>md. \<not> scope_contains s (parse_ip (md_ipv4 md))) (ps_devices ps))"

definition active_policy_set_for_network :: "policy_set \<Rightarrow> ipnet \<Rightarrow> policy_set" where
  "active_policy_set_for_network ps n =
     ps\<lparr>ps_devices := filter (\<lambda>md. net_contains n (parse_ip (md_ipv4 md))) (ps_devices ps)\<rparr>"

definition active_policy_set_for_lan :: "policy_set \<Rightarrow> scope \<Rightarrow> policy_set" where
  "active_policy_set_for_lan ps s = active_policy_set_for_network ps (sc_network s)"

end
