(* ===== verification/PolicyCompile.thy ===== *)
theory PolicyCompile
  imports PolicyModel
begin

text \<open>
  \<open>internal/device/policy.go\<close> (\<open>compilePolicySet\<close> and its helpers) and
  \<open>internal/device/resolution.go\<close>: how a validated policy becomes the rules, selector groups,
  rule providers and DHCP reservations one gateway run uses, and how a frozen inventory of proxy
  targets filters them. The loops over devices and rules thread the compiled policy and the set of
  referenced rule sets (a list of identifiers here); maps are read with \<open>index_by\<close>.
\<close>

subsection \<open>Names\<close>

definition device_group_name :: "string \<Rightarrow> string \<Rightarrow> string" where
  "device_group_name device_id slot = ''device/'' @ device_id @ ''/'' @ slot"

definition rule_set_provider_name :: "string \<Rightarrow> string" where
  "rule_set_provider_name i = ''open-surge-ruleset-'' @ i"

definition resolve_unsupported :: "string \<Rightarrow> string \<Rightarrow> string" where
  "resolve_unsupported rule_value profile_value =
     (if rule_value \<noteq> [] then rule_value else if profile_value \<noteq> [] then profile_value else ''reject'')"

definition builtin_targets :: "string set" where
  "builtin_targets = {''DIRECT'', ''REJECT'', ''REJECT-DROP'', ''REJECT-TINYGIF''}"

definition action_can_fall_through :: "string \<Rightarrow> bool" where
  "action_can_fall_through action \<longleftrightarrow> to_upper action \<notin> builtin_targets"

subsection \<open>Resolution against the frozen target inventory\<close>

definition effect_inherit_global :: string where "effect_inherit_global = ''inherit_global''"
definition effect_skip_rule :: string where "effect_skip_rule = ''skip_rule''"
definition effect_filter_candidates :: string where "effect_filter_candidates = ''filter_candidates''"

record policy_resolution =
  pr_available_targets :: "string list"
  pr_selections :: "string \<rightharpoonup> string"
  pr_selections_unavailable :: bool

definition target_available :: "policy_resolution option \<Rightarrow> string \<Rightarrow> bool" where
  "target_available r target =
     (case r of
        None \<Rightarrow> True
      | Some res \<Rightarrow> to_upper target \<in> builtin_targets \<or> target \<in> set (pr_available_targets res))"

text \<open>\<open>if index := slices.Index(available, selected); index > 0\<close>: the selected target first.\<close>

definition move_front :: "'a \<Rightarrow> 'a list \<Rightarrow> 'a list" where
  "move_front x xs =
     (let i = length (takeWhile (\<lambda>y. y \<noteq> x) xs) in
      if i < length xs \<and> 0 < i then x # take i xs @ drop (i + 1) xs else xs)"

definition resolve_selector ::
  "policy_resolution option \<Rightarrow> string \<Rightarrow> string \<Rightarrow> string list \<Rightarrow> string list \<times> policy_adjustment option"
where
  "resolve_selector r device_id slot candidates =
     (case r of
        None \<Rightarrow> (candidates, None)
      | Some res \<Rightarrow>
          let available = filter (target_available r) candidates;
              missing = filter (\<lambda>c. \<not> target_available r c) candidates
          in if missing = [] then (available, None)
          else
            let stored = (case pr_selections res (device_group_name device_id slot) of
                            None \<Rightarrow> [] | Some s \<Rightarrow> s);
                selection_unknown = (stored = [] \<and> pr_selections_unavailable res);
                selected = (if stored \<notin> set candidates \<and> candidates \<noteq> [] then hd candidates else stored)
            in if available = [] \<or> selection_unknown \<or> \<not> target_available r selected then
                 ([], Some \<lparr>pa_slot = slot,
                        pa_effect = (if slot = ''default'' then effect_inherit_global else effect_skip_rule),
                        pa_missing_targets = missing, pa_selected = selected\<rparr>)
               else
                 (move_front selected available,
                  Some \<lparr>pa_slot = slot, pa_effect = effect_filter_candidates,
                        pa_missing_targets = missing, pa_selected = selected\<rparr>))"

subsection \<open>Rule variants\<close>

definition append_condition_dimension :: "string list list \<Rightarrow> string list \<Rightarrow> string list list" where
  "append_condition_dimension existing conditions =
     (if conditions = [] then existing
      else concat (map (\<lambda>prior. map (\<lambda>condition. prior @ [condition]) conditions) existing))"

definition domain_conditions :: "string list \<Rightarrow> string list" where
  "domain_conditions domains = map (\<lambda>d. ''DOMAIN-SUFFIX,'' @ to_lower d) domains"

definition ip_cidr_conditions :: "string list \<Rightarrow> string list" where
  "ip_cidr_conditions cidrs = map (\<lambda>c. ''IP-CIDR,'' @ c) cidrs"

definition protocol_conditions :: "string list \<Rightarrow> string list" where
  "protocol_conditions protocols = map (\<lambda>p. ''NETWORK,'' @ to_lower p) protocols"

definition port_conditions :: "string list \<Rightarrow> string list" where
  "port_conditions ports = map (\<lambda>p. ''DST-PORT,'' @ p) ports"

definition rule_set_conditions :: "string list \<Rightarrow> string list" where
  "rule_set_conditions ids = map (\<lambda>i. ''RULE-SET,'' @ rule_set_provider_name i) ids"

definition rule_variants ::
  "(string \<rightharpoonup> policy_template) \<Rightarrow> rule_match \<Rightarrow> (match_error option) + (string list list \<times> string list)"
where
  "rule_variants templates m0 =
     rbind
       (if rm_template m0 \<noteq> [] then
          (case templates (rm_template m0) of
             None \<Rightarrow> Inl (Some (MatchUnknownTemplate (rm_template m0)))
           | Some t \<Rightarrow> Inr (m0\<lparr>rm_rule_sets := tp_rule_sets t, rm_template := []\<rparr>))
        else Inr m0)
       (\<lambda>m.
         let v1 = append_condition_dimension [[]] (domain_conditions (rm_domains m));
             v2 = append_condition_dimension v1 (ip_cidr_conditions (rm_ip_cidrs m));
             v3 = append_condition_dimension v2 (protocol_conditions (rm_protocols m));
             v4 = append_condition_dimension v3 (port_conditions (rm_ports m));
             v5 = append_condition_dimension v4 (rule_set_conditions (rm_rule_sets m))
         in if v5 = [] \<or> hd v5 = [] then Inl None else Inr (v5, rm_rule_sets m))"

definition compose_rule :: "string list \<Rightarrow> string \<Rightarrow> string" where
  "compose_rule payloads action =
     (if length payloads = 1 then hd payloads @ '','' @ action
      else ''AND,('' @ join '','' (map (\<lambda>p. ''('' @ p @ '')'') payloads) @ ''),'' @ action)"

subsection \<open>Compiling one rule of one device\<close>

type_synonym compile_state = "compiled_device \<times> compiled_policy \<times> string list"

definition source_payload :: "string \<Rightarrow> string" where
  "source_payload ip = ''SRC-IP-CIDR,'' @ ip @ ''/32''"

definition add_adjustment :: "policy_adjustment option \<Rightarrow> compiled_device \<Rightarrow> compiled_device" where
  "add_adjustment adj d =
     (case adj of None \<Rightarrow> d
      | Some a \<Rightarrow> d\<lparr>cd_policy_adjustments := cd_policy_adjustments d @ [a]\<rparr>)"

definition add_group :: "string \<Rightarrow> string list \<Rightarrow> compiled_policy \<Rightarrow> compiled_policy" where
  "add_group name policies c =
     c\<lparr>cp_selector_groups := cp_selector_groups c @ [\<lparr>sg_name = name, sg_policies = policies\<rparr>],
       cp_selector_targets := cp_selector_targets c @ policies\<rparr>"

definition override_rules_of :: "string \<Rightarrow> string list list \<Rightarrow> string \<Rightarrow> string \<Rightarrow> string list" where
  "override_rules_of ip variants action unsupported =
     concat (map (\<lambda>variant.
       let payloads = source_payload ip # variant in
       compose_rule payloads action
         # (if unsupported = ''reject'' \<and> action_can_fall_through action
            then [compose_rule payloads ''REJECT''] else [])) variants)"

text \<open>The body of the rule loop after the action is known: variants, references, override rules.\<close>

definition emit_rule ::
  "(string \<rightharpoonup> policy_template) \<Rightarrow> string \<Rightarrow> rule \<Rightarrow> string \<Rightarrow> compile_state \<Rightarrow> string \<Rightarrow> policy_error + compile_state"
where
  "emit_rule templates ip r unsupported st action =
     (case st of (d, c, used) \<Rightarrow>
        (case rule_variants templates (ru_match r) of
           Inl (Some e) \<Rightarrow> Inl (CompileRuleError (cd_id d) (ru_id r) e)
         | Inl None \<Rightarrow> Inl (CompileEmptyMatch (cd_id d) (ru_id r))
         | Inr (variants, referenced) \<Rightarrow>
             Inr (d, c\<lparr>cp_override_rules := cp_override_rules c @ override_rules_of ip variants action unsupported\<rparr>,
                  used @ referenced)))"

definition compile_rule ::
  "policy_resolution option \<Rightarrow> (string \<rightharpoonup> policy_template) \<Rightarrow> string \<Rightarrow> string \<Rightarrow> compile_state \<Rightarrow> rule
     \<Rightarrow> policy_error + compile_state"
where
  "compile_rule resolution templates ip profile_unsupported st r =
     (case st of (d, c, used) \<Rightarrow>
        let unsupported = resolve_unsupported (ru_on_unsupported r) profile_unsupported in
        if ru_policies r \<noteq> [] then
          (case resolve_selector resolution (cd_id d) (ru_id r) (ru_policies r) of
             (policies, adjustment) \<Rightarrow>
               let d1 = add_adjustment adjustment d in
               if policies = [] then Inr (d1, c, used)
               else
                 let grp = device_group_name (cd_id d) (ru_id r);
                     d2 = d1\<lparr>cd_groups := (cd_groups d1)(ru_id r \<mapsto> grp)\<rparr>
                 in emit_rule templates ip r unsupported (d2, add_group grp policies c, used) grp)
        else if \<not> target_available resolution (ru_action r) then
          Inr (add_adjustment (Some \<lparr>pa_slot = ru_id r, pa_effect = effect_skip_rule,
                 pa_missing_targets = [ru_action r], pa_selected = []\<rparr>) d, c, used)
        else
          emit_rule templates ip r unsupported
            (d, c\<lparr>cp_action_targets := cp_action_targets c @ [ru_action r]\<rparr>, used) (ru_action r))"

subsection \<open>Compiling one device\<close>

definition default_rules_of :: "string \<Rightarrow> string \<Rightarrow> string \<Rightarrow> string list" where
  "default_rules_of ip grp profile_unsupported =
     (source_payload ip @ '','' @ grp)
       # (if resolve_unsupported [] profile_unsupported = ''reject''
          then [source_payload ip @ '',REJECT''] else [])"

text \<open>The default selector of a device that does not inherit the global egress.\<close>

definition default_selector ::
  "policy_resolution option \<Rightarrow> profile \<Rightarrow> compiled_device \<Rightarrow> compiled_policy \<Rightarrow> compiled_device \<times> compiled_policy"
where
  "default_selector resolution pf d c =
     (if cd_egress_mode d = egress_inherit_global then (d, c)
      else
        (case resolve_selector resolution (cd_id d) ''default'' (pf_default_policies pf) of
           (policies, adjustment) \<Rightarrow>
             let d1 = add_adjustment adjustment d; grp = device_group_name (cd_id d) ''default'' in
             if policies = [] then
               (d1\<lparr>cd_configured_egress_mode := cd_egress_mode d1,
                   cd_egress_mode := egress_inherit_global\<rparr>, c)
             else (d1\<lparr>cd_groups := (cd_groups d1)(''default'' \<mapsto> grp)\<rparr>, add_group grp policies c)))"

definition new_device :: "managed_device \<Rightarrow> profile \<Rightarrow> string \<Rightarrow> string \<Rightarrow> compiled_device" where
  "new_device md pf mac ip =
     \<lparr>cd_id = md_id md, cd_mac = mac, cd_ipv4 = ip, cd_profile = pf_id pf,
      cd_gateway_target = effective_gateway_target (md_gateway_target md),
      cd_dns_view = effective_dns_view (md_dns_view md),
      cd_egress_mode = effective_egress_mode (md_egress_mode md),
      cd_configured_egress_mode = [], cd_policy_adjustments = [], cd_ipv6_blocked = False,
      cd_groups = Map.empty\<rparr>"

definition finish_device :: "profile \<Rightarrow> string \<Rightarrow> compiled_device \<Rightarrow> compiled_policy \<Rightarrow> compiled_policy" where
  "finish_device pf ip d c =
     (let rules = default_rules_of ip (device_group_name (cd_id d) ''default'') (pf_on_unsupported pf);
          c1 = (if cd_egress_mode d = egress_dedicated then
                  c\<lparr>cp_dedicated_rules := cp_dedicated_rules c @ rules\<rparr>
                else if cd_egress_mode d = egress_legacy_fallback then
                  c\<lparr>cp_default_rules := cp_default_rules c @ rules\<rparr>
                else c)
      in c1\<lparr>cp_devices := cp_devices c1 @ [d]\<rparr>)"

definition compile_device ::
  "policy_resolution option \<Rightarrow> (string \<rightharpoonup> profile) \<Rightarrow> (string \<rightharpoonup> policy_template) \<Rightarrow> bool
     \<Rightarrow> compiled_policy \<times> string list \<Rightarrow> managed_device \<Rightarrow> policy_error + (compiled_policy \<times> string list)"
where
  "compile_device resolution profiles templates ip_only_active st md =
     (case st of (c, used) \<Rightarrow>
        if \<not> ip_only_active \<and> trim_space (md_mac md) = [] then Inr (c, used)
        else
          rbind (resolve_profile
                  (case profiles (md_profile md) of
                     Some pf \<Rightarrow> pf
                   | None \<Rightarrow> \<lparr>pf_id = [], pf_template = [], pf_default_policies = [],
                              pf_on_unsupported = [], pf_rules = []\<rparr>) templates)
          (\<lambda>pf.
            let mac = (if trim_space (md_mac md) \<noteq> [] then
                         (case normalized_mac (md_mac md) of Some m \<Rightarrow> m | None \<Rightarrow> []) else []);
                ip = ipv4_string (to4 (parse_ip (md_ipv4 md)));
                d = new_device md pf mac ip;
                c1 = (if mac \<noteq> [] then
                        c\<lparr>cp_reservations := cp_reservations c @
                            [\<lparr>rv_id = cd_id d, rv_mac = mac, rv_ipv4 = ip,
                              rv_gateway_target = cd_gateway_target d\<rparr>]\<rparr>
                      else c)
            in if cd_gateway_target d = target_upstream_router then
                 Inr (c1\<lparr>cp_devices := cp_devices c1 @ [d]\<rparr>, used)
               else
                 (case default_selector resolution pf d c1 of
                    (d2, c2) \<Rightarrow>
                      rbind (rfold (compile_rule resolution templates ip (pf_on_unsupported pf))
                               (d2, c2, used) (pf_rules pf))
                        (\<lambda>(d3, c3, used'). Inr (finish_device pf ip d3 c3, used')))))"

subsection \<open>\<open>compilePolicySet\<close>\<close>

definition provider_of :: "(string \<rightharpoonup> rule_set) \<Rightarrow> string \<Rightarrow> rule_provider" where
  "provider_of rule_sets i =
     (let rs = (case rule_sets i of
                  Some r \<Rightarrow> r
                | None \<Rightarrow> \<lparr>rs_id = [], rs_type = [], rs_behavior = [], rs_format = [], rs_url = [],
                           rs_interval = 0, rs_payload = []\<rparr>)
      in \<lparr>rp_name = rule_set_provider_name (rs_id rs), rp_type = rs_type rs,
          rp_behavior = rs_behavior rs, rp_format = rs_format rs, rp_url = rs_url rs,
          rp_interval = rs_interval rs, rp_payload = rs_payload rs\<rparr>)"

definition sorted_keys :: "string list \<Rightarrow> string list" where
  "sorted_keys ks = sort (remdups ks)"

definition compile_policy_set ::
  "url_parser \<Rightarrow> policy_set \<Rightarrow> bool \<Rightarrow> policy_resolution option \<Rightarrow> policy_error + compiled_policy"
where
  "compile_policy_set url_parse ps ip_only_active resolution =
     (case validate_policy_set url_parse ps of
        Some e \<Rightarrow> Inl e
      | None \<Rightarrow>
          let profiles = index_by pf_id (ps_profiles ps);
              templates = index_by tp_id (ps_templates ps);
              rule_sets = index_by rs_id (map normalized_rule_set (ps_rule_sets ps))
          in rbind (rfold (compile_device resolution profiles templates ip_only_active)
                      (empty_compiled, []) (ps_devices ps))
               (\<lambda>(c, used).
                 Inr (c\<lparr>cp_rule_providers := cp_rule_providers c @
                         map (provider_of rule_sets) (sorted_keys used)\<rparr>)))"

definition compile_policy_set_for_ip_only_mode ::
  "url_parser \<Rightarrow> policy_set \<Rightarrow> bool \<Rightarrow> policy_error + compiled_policy" where
  "compile_policy_set_for_ip_only_mode url_parse ps ip_only_active =
     compile_policy_set url_parse ps ip_only_active None"

text \<open>\<open>DeviceGroupFromCompiled\<close> and \<open>DeviceGroup\<close>: the first device with the identifier decides.\<close>

definition device_group_from_compiled :: "compiled_policy \<Rightarrow> string \<Rightarrow> string \<Rightarrow> policy_error + string" where
  "device_group_from_compiled c device_id slot =
     (case find (\<lambda>d. cd_id d = device_id) (cp_devices c) of
        None \<Rightarrow> Inl (DeviceUnknown device_id)
      | Some d \<Rightarrow>
          (case cd_groups d slot of
             None \<Rightarrow> Inl (DeviceNoSlot device_id slot)
           | Some g \<Rightarrow> Inr g))"

definition device_group :: "url_parser \<Rightarrow> policy_set \<Rightarrow> string \<Rightarrow> string \<Rightarrow> policy_error + string" where
  "device_group url_parse ps device_id slot =
     rbind (compile_policy_set_for_ip_only_mode url_parse ps True)
       (\<lambda>c. device_group_from_compiled c device_id slot)"

end
