(* ===== verification/PolicyFacts.thy ===== *)
theory PolicyFacts
  imports PolicyCompile
begin

text \<open>
  What validation guarantees and what the compiler emits. The first part turns a successful
  \<open>ValidatePolicySet\<close> into facts about devices, profiles, templates and rules. The second part
  gives a reference description of the compiled policy, one comprehension per field over the active
  devices and their rules, and shows that the threaded loops of \<open>compilePolicySet\<close> compute it.
\<close>

subsection \<open>Consequences of validation\<close>

definition device_ip :: "managed_device \<Rightarrow> string" where
  "device_ip md = ipv4_string (to4 (parse_ip (md_ipv4 md)))"

definition device_mac :: "managed_device \<Rightarrow> string option" where
  "device_mac md = (if trim_space (md_mac md) = [] then None else normalized_mac (md_mac md))"

definition device_ok :: "(string \<rightharpoonup> profile) \<Rightarrow> managed_device \<Rightarrow> bool" where
  "device_ok profiles md \<longleftrightarrow>
     valid_id (md_id md) \<and> to4 (parse_ip (md_ipv4 md)) \<noteq> [] \<and> profiles (md_profile md) \<noteq> None
     \<and> (trim_space (md_mac md) \<noteq> [] \<longrightarrow> device_mac md \<noteq> None)
     \<and> md_egress_mode md \<in> {[], egress_inherit_global, egress_dedicated}
     \<and> md_gateway_target md \<in> {[], target_opensurge, target_upstream_router}
     \<and> md_dns_view md \<in> {[], dns_view_auto, dns_view_gateway, dns_view_resolver}
     \<and> (effective_gateway_target (md_gateway_target md) = target_upstream_router \<longrightarrow>
          device_mac md \<noteq> None \<and> effective_dns_view (md_dns_view md) \<noteq> dns_view_gateway)"

lemma validate_device_Inr:
  assumes "validate_device profiles seen md = Inr seen'"
  shows "device_ok profiles md" "md_id md \<notin> set (sd_ids seen)" "device_ip md \<notin> set (sd_ips seen)"
    "set_option (device_mac md) \<inter> set (sd_macs seen) = {}"
    "seen' = \<lparr>sd_ids = md_id md # sd_ids seen,
       sd_macs = (case device_mac md of None \<Rightarrow> sd_macs seen | Some m \<Rightarrow> m # sd_macs seen),
       sd_ips = device_ip md # sd_ips seen\<rparr>"
proof -
  from assms have "vthen (device_identity_error seen md) (vthen (device_mac_error seen md)
      (vthen (device_ip_error seen md) (device_modes_error profiles md))) = None"
    unfolding validate_device_def by (auto split: option.split_asm simp del: vthen_eq_None_iff)
  then have e: "device_identity_error seen md = None" "device_mac_error seen md = None"
    "device_ip_error seen md = None" "device_modes_error profiles md = None"
    by simp_all
  then have s: "seen' = \<lparr>sd_ids = md_id md # sd_ids seen,
       sd_macs = (if trim_space (md_mac md) \<noteq> [] then
                    (case normalized_mac (md_mac md) of None \<Rightarrow> sd_macs seen | Some m \<Rightarrow> m # sd_macs seen)
                  else sd_macs seen),
       sd_ips = device_ip md # sd_ips seen\<rparr>"
    using assms by (simp add: validate_device_def device_ip_def)
  show "md_id md \<notin> set (sd_ids seen)"
    using e(1) by (simp add: device_identity_error_def)
  show "device_ip md \<notin> set (sd_ips seen)"
    using e(3) by (simp add: device_ip_error_def device_ip_def Let_def)
  show "set_option (device_mac md) \<inter> set (sd_macs seen) = {}"
    using e(2) by (simp add: device_mac_error_def device_mac_def split: if_splits option.splits)
  show "seen' = \<lparr>sd_ids = md_id md # sd_ids seen,
       sd_macs = (case device_mac md of None \<Rightarrow> sd_macs seen | Some m \<Rightarrow> m # sd_macs seen),
       sd_ips = device_ip md # sd_ips seen\<rparr>"
    using s by (simp add: device_mac_def)
  have mac: "trim_space (md_mac md) \<noteq> [] \<longrightarrow> device_mac md \<noteq> None"
    using e(2) by (simp add: device_mac_error_def device_mac_def split: option.splits if_splits)
  have id_ip: "valid_id (md_id md)" "to4 (parse_ip (md_ipv4 md)) \<noteq> []"
    using e(1,3) by (simp_all add: device_identity_error_def device_ip_error_def Let_def)
  show "device_ok profiles md"
    using e(4) mac id_ip
    unfolding device_ok_def device_modes_error_def Let_def vthen_eq_None_iff fail_if_eq_None_iff
    by blast
qed

lemma validate_devices_Inr:
  assumes "rfold (validate_device profiles) seen ds = Inr seen'"
  shows "(\<forall>md \<in> set ds. device_ok profiles md)
    \<and> distinct (map md_id ds) \<and> set (map md_id ds) \<inter> set (sd_ids seen) = {}
    \<and> distinct (map device_ip ds) \<and> set (map device_ip ds) \<inter> set (sd_ips seen) = {}
    \<and> distinct (List.map_filter device_mac ds)
    \<and> set (List.map_filter device_mac ds) \<inter> set (sd_macs seen) = {}"
  using assms
proof (induction ds arbitrary: seen)
  case (Cons md ds)
  then obtain mid where m: "validate_device profiles seen md = Inr mid"
    and r: "rfold (validate_device profiles) mid ds = Inr seen'"
    by (auto simp: result_simps)
  note v = validate_device_Inr [OF m]
  from Cons.IH [OF r] v show ?case
    by (cases "device_mac md") (auto simp: map_filter_simps)
qed (simp add: map_filter_simps)

lemma validate_policy_set_None:
  assumes "validate_policy_set url_parse ps = None"
  defines "profiles \<equiv> index_by pf_id (ps_profiles ps)"
    and "templates \<equiv> index_by tp_id (ps_templates ps)"
    and "sets \<equiv> index_by rs_id (ps_rule_sets ps)"
  shows "distinct (map pf_id (ps_profiles ps))" "distinct (map tp_id (ps_templates ps))"
    "distinct (map rs_id (ps_rule_sets ps))"
    "\<forall>t \<in> set (ps_templates ps). validate_template_body sets templates t = None"
    "\<forall>p \<in> set (ps_profiles ps). validate_profile_body sets templates p = None"
    "\<forall>r \<in> set (ps_rule_sets ps). valid_id (rs_id r) \<and> validate_rule_set url_parse r = None"
    "\<forall>md \<in> set (ps_devices ps). device_ok profiles md"
    "distinct (map md_id (ps_devices ps))" "distinct (map device_ip (ps_devices ps))"
    "distinct (List.map_filter device_mac (ps_devices ps))"
proof -
  from assms have v: "validate_profile_ids (ps_profiles ps) = None"
    "validate_template_headers (ps_templates ps) = None"
    "validate_rule_sets url_parse (ps_rule_sets ps) = None"
    "first_error (validate_template_body sets templates) (ps_templates ps) = None"
    "first_error (validate_profile_body sets templates) (ps_profiles ps) = None"
    "validate_devices profiles (ps_devices ps) = None"
    by (simp_all add: validate_policy_set_def Let_def)
  show "distinct (map pf_id (ps_profiles ps))"
    using v(1) by (simp add: validate_profile_ids_def)
  show "distinct (map tp_id (ps_templates ps))"
    using v(2) by (simp add: validate_template_headers_def)
  show "distinct (map rs_id (ps_rule_sets ps))"
    using v(3) by (simp add: validate_rule_sets_def)
  show "\<forall>r \<in> set (ps_rule_sets ps). valid_id (rs_id r) \<and> validate_rule_set url_parse r = None"
    using v(3) by (simp add: validate_rule_sets_def)
  show "\<forall>t \<in> set (ps_templates ps). validate_template_body sets templates t = None"
    "\<forall>p \<in> set (ps_profiles ps). validate_profile_body sets templates p = None"
    using v(4,5) by simp_all
  obtain seen' where
    "rfold (validate_device profiles) \<lparr>sd_ids = [], sd_macs = [], sd_ips = []\<rparr> (ps_devices ps) = Inr seen'"
    using v(6) by (auto simp: validate_devices_def split: sum.splits)
  from validate_devices_Inr [OF this] show "\<forall>md \<in> set (ps_devices ps). device_ok profiles md"
    "distinct (map md_id (ps_devices ps))" "distinct (map device_ip (ps_devices ps))"
    "distinct (List.map_filter device_mac (ps_devices ps))"
    by simp_all
qed

lemma validate_rules_None:
  "validate_rules pid rules sets templates = None \<Longrightarrow>
     distinct (map ru_id rules) \<and>
     (\<forall>r \<in> set rules. valid_id (ru_id r) \<and> ru_id r \<noteq> ''default''
        \<and> validate_match sets templates (ru_match r) = None
        \<and> ru_on_unsupported r \<in> {[], ''reject'', ''fallthrough''})"
  by (auto simp: validate_rules_def validate_unsupported_def split: if_splits)

subsection \<open>Variants\<close>

lemma length_append_condition_dimension:
  "length (append_condition_dimension vs cs) = length vs * (if cs = [] then 1 else length cs)"
  by (simp add: append_condition_dimension_def length_concat o_def sum_list_triv)

lemma append_condition_dimension_nonempty:
  "vs \<noteq> [] \<Longrightarrow> append_condition_dimension vs cs \<noteq> []"
  by (cases vs; cases cs) (auto simp: append_condition_dimension_def)

lemma in_append_condition_dimension:
  "v \<in> set (append_condition_dimension vs cs) \<longleftrightarrow>
     (if cs = [] then v \<in> set vs else \<exists>p \<in> set vs. \<exists>c \<in> set cs. v = p @ [c])"
  by (auto simp: append_condition_dimension_def)

definition dim_size :: "'a list \<Rightarrow> nat" where
  "dim_size xs = (if xs = [] then 1 else length xs)"

lemma dim_size_pos [simp]: "0 < dim_size xs"
  by (cases xs) (simp_all add: dim_size_def)

text \<open>The match a rule expands: a referenced template stands for its rule sets.\<close>

definition effective_match :: "(string \<rightharpoonup> policy_template) \<Rightarrow> rule_match \<Rightarrow> rule_match" where
  "effective_match templates m =
     (if rm_template m = [] then m
      else (case templates (rm_template m) of
              None \<Rightarrow> m
            | Some t \<Rightarrow> m\<lparr>rm_rule_sets := tp_rule_sets t, rm_template := []\<rparr>))"

definition expansion_size :: "rule_match \<Rightarrow> nat" where
  "expansion_size m = dim_size (rm_domains m) * dim_size (rm_ip_cidrs m) * dim_size (rm_protocols m)
     * dim_size (rm_ports m) * dim_size (rm_rule_sets m)"

definition all_variants :: "rule_match \<Rightarrow> string list list" where
  "all_variants m =
     append_condition_dimension
       (append_condition_dimension
         (append_condition_dimension
           (append_condition_dimension
             (append_condition_dimension [[]] (domain_conditions (rm_domains m)))
             (ip_cidr_conditions (rm_ip_cidrs m)))
           (protocol_conditions (rm_protocols m)))
         (port_conditions (rm_ports m)))
       (rule_set_conditions (rm_rule_sets m))"

lemma conditions_simps [simp]:
  "domain_conditions xs = [] \<longleftrightarrow> xs = []" "length (domain_conditions xs) = length xs"
  "ip_cidr_conditions xs = [] \<longleftrightarrow> xs = []" "length (ip_cidr_conditions xs) = length xs"
  "protocol_conditions xs = [] \<longleftrightarrow> xs = []" "length (protocol_conditions xs) = length xs"
  "port_conditions xs = [] \<longleftrightarrow> xs = []" "length (port_conditions xs) = length xs"
  "rule_set_conditions xs = [] \<longleftrightarrow> xs = []" "length (rule_set_conditions xs) = length xs"
  by (simp_all add: domain_conditions_def ip_cidr_conditions_def protocol_conditions_def
      port_conditions_def rule_set_conditions_def)

lemma length_all_variants: "length (all_variants m) = expansion_size m"
  by (simp add: all_variants_def expansion_size_def length_append_condition_dimension dim_size_def)

lemma all_variants_nonempty: "all_variants m \<noteq> []"
  by (simp add: all_variants_def append_condition_dimension_nonempty)

lemma append_condition_dimension_length_mono:
  "\<forall>v \<in> set vs. k \<le> length v \<Longrightarrow> v \<in> set (append_condition_dimension vs cs) \<Longrightarrow>
     (if cs = [] then k else Suc k) \<le> length v"
  by (auto simp: in_append_condition_dimension split: if_splits)

lemma variant_nonempty:
  assumes "v \<in> set (all_variants m)" and "direct_dimensions m \<noteq> 0"
  shows "v \<noteq> []"
  using assms
  by (fastforce simp: all_variants_def in_append_condition_dimension direct_dimensions_def
      split: if_splits)

lemma rule_variants_valid:
  assumes "validate_match sets templates m = None"
  shows "rule_variants templates m
    = Inr (all_variants (effective_match templates m), rm_rule_sets (effective_match templates m))"
proof -
  let ?e = "effective_match templates m"
  have ne: "direct_dimensions ?e \<noteq> 0"
    using assms
    by (auto simp: validate_match_def effective_match_def direct_dimensions_def
        split: if_splits option.splits)
  have "hd (all_variants ?e) \<noteq> []"
    using ne all_variants_nonempty by (intro variant_nonempty [of _ ?e]) simp_all
  then show ?thesis
    using assms all_variants_nonempty [of ?e]
    by (auto simp: rule_variants_def validate_match_def effective_match_def all_variants_def
        Let_def split: if_splits option.splits)
qed

end
