(* ===== verification/PolicySpec.thy ===== *)
theory PolicySpec
  imports PolicyFacts
begin

text \<open>
  A reference description of the compiled policy. The loops of \<open>compilePolicySet\<close> mutate one
  compiled policy, one device and one set of referenced rule sets while they walk the devices and
  their rules; here every device has a contribution of its own, computed from that device and its
  profile alone, and the compiled policy is the concatenation of the contributions of the active
  devices. \<open>compile_policy_set_reference\<close> shows that the two agree.
\<close>

subsection \<open>The contribution of one rule\<close>

definition mk_group :: "string \<Rightarrow> string \<times> string list \<Rightarrow> selector_group" where
  "mk_group did slot = \<lparr>sg_name = device_group_name did (fst slot), sg_policies = snd slot\<rparr>"

definition option_list :: "'a option \<Rightarrow> 'a list" where
  "option_list x = (case x of None \<Rightarrow> [] | Some y \<Rightarrow> [y])"

lemma option_list_simps [simp]: "option_list None = []" "option_list (Some y) = [y]"
  by (simp_all add: option_list_def)

abbreviation rule_choice ::
  "policy_resolution option \<Rightarrow> string \<Rightarrow> rule \<Rightarrow> string list \<times> policy_adjustment option" where
  "rule_choice res did r \<equiv> resolve_selector res did (ru_id r) (ru_policies r)"

definition rule_slots :: "policy_resolution option \<Rightarrow> string \<Rightarrow> rule \<Rightarrow> (string \<times> string list) list" where
  "rule_slots res did r =
     (if ru_policies r = [] \<or> fst (rule_choice res did r) = [] then []
      else [(ru_id r, fst (rule_choice res did r))])"

definition rule_adjustments :: "policy_resolution option \<Rightarrow> string \<Rightarrow> rule \<Rightarrow> policy_adjustment list" where
  "rule_adjustments res did r =
     (if ru_policies r \<noteq> [] then option_list (snd (rule_choice res did r))
      else if target_available res (ru_action r) then []
      else [\<lparr>pa_slot = ru_id r, pa_effect = effect_skip_rule,
             pa_missing_targets = [ru_action r], pa_selected = []\<rparr>])"

text \<open>The target the rule sends traffic to, or \<open>None\<close> when this run skips the rule.\<close>

definition rule_target :: "policy_resolution option \<Rightarrow> string \<Rightarrow> rule \<Rightarrow> string option" where
  "rule_target res did r =
     (if ru_policies r \<noteq> [] then
        (if fst (rule_choice res did r) = [] then None else Some (device_group_name did (ru_id r)))
      else if target_available res (ru_action r) then Some (ru_action r) else None)"

definition rule_action_targets :: "policy_resolution option \<Rightarrow> rule \<Rightarrow> string list" where
  "rule_action_targets res r =
     (if ru_policies r = [] \<and> target_available res (ru_action r) then [ru_action r] else [])"

definition rule_output ::
  "policy_resolution option \<Rightarrow> (string \<rightharpoonup> policy_template) \<Rightarrow> string \<Rightarrow> string \<Rightarrow> string \<Rightarrow> rule \<Rightarrow> string list" where
  "rule_output res templates ip did unsupported r =
     (case rule_target res did r of
        None \<Rightarrow> []
      | Some target \<Rightarrow>
          override_rules_of ip (all_variants (effective_match templates (ru_match r))) target
            (resolve_unsupported (ru_on_unsupported r) unsupported))"

definition rule_references ::
  "policy_resolution option \<Rightarrow> (string \<rightharpoonup> policy_template) \<Rightarrow> string \<Rightarrow> rule \<Rightarrow> string list" where
  "rule_references res templates did r =
     (if rule_target res did r = None then [] else rm_rule_sets (effective_match templates (ru_match r)))"

definition grow_device ::
  "policy_adjustment list \<Rightarrow> (string \<times> string list) list \<Rightarrow> compiled_device \<Rightarrow> compiled_device" where
  "grow_device adjs slots d =
     d\<lparr>cd_policy_adjustments := cd_policy_adjustments d @ adjs,
       cd_groups := (\<lambda>s. if s \<in> fst ` set slots then Some (device_group_name (cd_id d) s)
                         else cd_groups d s)\<rparr>"

definition grow_policy ::
  "string \<Rightarrow> (string \<times> string list) list \<Rightarrow> string list \<Rightarrow> string list \<Rightarrow> compiled_policy \<Rightarrow> compiled_policy" where
  "grow_policy did slots actions outputs c =
     c\<lparr>cp_selector_groups := cp_selector_groups c @ map (mk_group did) slots,
       cp_selector_targets := cp_selector_targets c @ concat (map snd slots),
       cp_action_targets := cp_action_targets c @ actions,
       cp_override_rules := cp_override_rules c @ outputs\<rparr>"

lemma grow_device_compose:
  "grow_device a2 s2 (grow_device a1 s1 d) = grow_device (a1 @ a2) (s1 @ s2) d"
  by (rule compiled_device.equality) (auto simp: grow_device_def fun_eq_iff)

lemma grow_device_empty [simp]: "grow_device [] [] d = d"
  by (simp add: grow_device_def)

lemma grow_device_fields [simp]:
  "cd_id (grow_device a s d) = cd_id d" "cd_ipv4 (grow_device a s d) = cd_ipv4 d"
  "cd_egress_mode (grow_device a s d) = cd_egress_mode d"
  by (simp_all add: grow_device_def)

lemma grow_policy_compose:
  "grow_policy did s2 t2 o2 (grow_policy did s1 t1 o1 c)
    = grow_policy did (s1 @ s2) (t1 @ t2) (o1 @ o2) c"
  by (simp add: grow_policy_def)

lemma grow_policy_empty [simp]: "grow_policy did [] [] [] c = c"
  by (simp add: grow_policy_def)

lemma compile_rule_reference:
  assumes "validate_match sets templates (ru_match r) = None"
  shows "compile_rule res templates ip unsupported (d, c, used) r
    = Inr (grow_device (rule_adjustments res (cd_id d) r) (rule_slots res (cd_id d) r) d,
           grow_policy (cd_id d) (rule_slots res (cd_id d) r) (rule_action_targets res r)
             (rule_output res templates ip (cd_id d) unsupported r) c,
           used @ rule_references res templates (cd_id d) r)"
proof -
  note v = rule_variants_valid [OF assms]
  obtain p adj where p: "rule_choice res (cd_id d) r = (p, adj)"
    by (cases "rule_choice res (cd_id d) r")
  show ?thesis
    by (cases "ru_policies r = []"; cases "p = []"; cases adj;
        cases "target_available res (ru_action r)")
      (simp_all add: compile_rule_def emit_rule_def v p rule_slots_def rule_adjustments_def
        rule_action_targets_def rule_output_def rule_references_def rule_target_def
        grow_device_def grow_policy_def add_adjustment_def add_group_def mk_group_def
        Let_def fun_eq_iff)
qed

lemma compile_rules_reference:
  assumes "\<forall>r \<in> set rules. validate_match sets templates (ru_match r) = None"
  shows "rfold (compile_rule res templates ip unsupported) (d, c, used) rules
    = Inr (grow_device (concat (map (rule_adjustments res (cd_id d)) rules))
             (concat (map (rule_slots res (cd_id d)) rules)) d,
           grow_policy (cd_id d) (concat (map (rule_slots res (cd_id d)) rules))
             (concat (map (rule_action_targets res) rules))
             (concat (map (rule_output res templates ip (cd_id d) unsupported) rules)) c,
           used @ concat (map (rule_references res templates (cd_id d)) rules))"
  using assms
proof (induction rules arbitrary: d c used)
  case (Cons r rules)
  from Cons.prems have "validate_match sets templates (ru_match r) = None" by simp
  then show ?case
    using Cons by (simp add: compile_rule_reference [of sets] grow_device_compose grow_policy_compose)
qed simp

subsection \<open>The contribution of one device\<close>

definition device_active :: "bool \<Rightarrow> managed_device \<Rightarrow> bool" where
  "device_active ip_only_active md \<longleftrightarrow> ip_only_active \<or> trim_space (md_mac md) \<noteq> []"

definition routed :: "managed_device \<Rightarrow> bool" where
  "routed md \<longleftrightarrow> effective_gateway_target (md_gateway_target md) \<noteq> target_upstream_router"

definition mac_text :: "managed_device \<Rightarrow> string" where
  "mac_text md = (case device_mac md of None \<Rightarrow> [] | Some m \<Rightarrow> m)"

definition device_profile ::
  "(string \<rightharpoonup> profile) \<Rightarrow> (string \<rightharpoonup> policy_template) \<Rightarrow> managed_device \<Rightarrow> profile" where
  "device_profile profiles templates md =
     (case profiles (md_profile md) of
        None \<Rightarrow> \<lparr>pf_id = [], pf_template = [], pf_default_policies = [],
                 pf_on_unsupported = [], pf_rules = []\<rparr>
      | Some pf \<Rightarrow> (case resolve_profile pf templates of Inl _ \<Rightarrow> pf | Inr q \<Rightarrow> q))"

definition default_choice ::
  "policy_resolution option \<Rightarrow> profile \<Rightarrow> managed_device \<Rightarrow> string list \<times> policy_adjustment option" where
  "default_choice res pf md =
     (if effective_egress_mode (md_egress_mode md) = egress_inherit_global then ([], None)
      else resolve_selector res (md_id md) ''default'' (pf_default_policies pf))"

definition device_slots ::
  "policy_resolution option \<Rightarrow> profile \<Rightarrow> managed_device \<Rightarrow> (string \<times> string list) list" where
  "device_slots res pf md =
     (if fst (default_choice res pf md) = [] then [] else [(''default'', fst (default_choice res pf md))])
       @ concat (map (rule_slots res (md_id md)) (pf_rules pf))"

text \<open>The egress mode of the run: a device whose default selector is empty follows the gateway.\<close>

definition run_egress :: "policy_resolution option \<Rightarrow> profile \<Rightarrow> managed_device \<Rightarrow> string" where
  "run_egress res pf md =
     (if fst (default_choice res pf md) = [] then egress_inherit_global
      else effective_egress_mode (md_egress_mode md))"

definition default_output :: "string \<Rightarrow> policy_resolution option \<Rightarrow> profile \<Rightarrow> managed_device \<Rightarrow> string list" where
  "default_output mode res pf md =
     (if run_egress res pf md = mode then
        default_rules_of (device_ip md) (device_group_name (md_id md) ''default'') (pf_on_unsupported pf)
      else [])"

definition run_device :: "policy_resolution option \<Rightarrow> profile \<Rightarrow> managed_device \<Rightarrow> compiled_device" where
  "run_device res pf md =
     (let d = new_device md pf (mac_text md) (device_ip md) in
      if \<not> routed md then d
      else d\<lparr>cd_egress_mode := run_egress res pf md,
             cd_configured_egress_mode :=
               (if run_egress res pf md = cd_egress_mode d then [] else cd_egress_mode d),
             cd_policy_adjustments :=
               option_list (snd (default_choice res pf md))
                 @ concat (map (rule_adjustments res (md_id md)) (pf_rules pf)),
             cd_groups := (\<lambda>s. if s \<in> fst ` set (device_slots res pf md)
                                then Some (device_group_name (md_id md) s) else None)\<rparr>)"

definition device_part ::
  "policy_resolution option \<Rightarrow> (string \<rightharpoonup> policy_template) \<Rightarrow> profile \<Rightarrow> managed_device \<Rightarrow> compiled_policy" where
  "device_part res templates pf md =
     \<lparr>cp_reservations =
        (if mac_text md = [] then []
         else [\<lparr>rv_id = md_id md, rv_mac = mac_text md, rv_ipv4 = device_ip md,
                rv_gateway_target = effective_gateway_target (md_gateway_target md)\<rparr>]),
      cp_selector_groups = (if routed md then map (mk_group (md_id md)) (device_slots res pf md) else []),
      cp_rule_providers = [],
      cp_override_rules =
        (if routed md then
           concat (map (rule_output res templates (device_ip md) (md_id md) (pf_on_unsupported pf)) (pf_rules pf))
         else []),
      cp_dedicated_rules = (if routed md then default_output egress_dedicated res pf md else []),
      cp_default_rules = (if routed md then default_output egress_legacy_fallback res pf md else []),
      cp_devices = [run_device res pf md],
      cp_selector_targets = (if routed md then concat (map snd (device_slots res pf md)) else []),
      cp_action_targets = (if routed md then concat (map (rule_action_targets res) (pf_rules pf)) else [])\<rparr>"

definition device_references ::
  "policy_resolution option \<Rightarrow> (string \<rightharpoonup> policy_template) \<Rightarrow> profile \<Rightarrow> managed_device \<Rightarrow> string list" where
  "device_references res templates pf md =
     (if routed md then concat (map (rule_references res templates (md_id md)) (pf_rules pf)) else [])"

definition append_policy :: "compiled_policy \<Rightarrow> compiled_policy \<Rightarrow> compiled_policy" where
  "append_policy a b =
     \<lparr>cp_reservations = cp_reservations a @ cp_reservations b,
      cp_selector_groups = cp_selector_groups a @ cp_selector_groups b,
      cp_rule_providers = cp_rule_providers a @ cp_rule_providers b,
      cp_override_rules = cp_override_rules a @ cp_override_rules b,
      cp_dedicated_rules = cp_dedicated_rules a @ cp_dedicated_rules b,
      cp_default_rules = cp_default_rules a @ cp_default_rules b,
      cp_devices = cp_devices a @ cp_devices b,
      cp_selector_targets = cp_selector_targets a @ cp_selector_targets b,
      cp_action_targets = cp_action_targets a @ cp_action_targets b\<rparr>"

definition concat_policies :: "compiled_policy list \<Rightarrow> compiled_policy" where
  "concat_policies cs =
     \<lparr>cp_reservations = concat (map cp_reservations cs),
      cp_selector_groups = concat (map cp_selector_groups cs),
      cp_rule_providers = concat (map cp_rule_providers cs),
      cp_override_rules = concat (map cp_override_rules cs),
      cp_dedicated_rules = concat (map cp_dedicated_rules cs),
      cp_default_rules = concat (map cp_default_rules cs),
      cp_devices = concat (map cp_devices cs),
      cp_selector_targets = concat (map cp_selector_targets cs),
      cp_action_targets = concat (map cp_action_targets cs)\<rparr>"

lemma append_policy_assoc: "append_policy (append_policy a b) c = append_policy a (append_policy b c)"
  by (simp add: append_policy_def)

lemma concat_policies_Cons: "concat_policies (c # cs) = append_policy c (concat_policies cs)"
  by (simp add: append_policy_def concat_policies_def)

lemma concat_policies_Nil: "concat_policies [] = empty_compiled"
  by (simp add: empty_compiled_def concat_policies_def)

lemma append_policy_empty [simp]:
  "append_policy a empty_compiled = a" "append_policy empty_compiled a = a"
  by (simp_all add: append_policy_def empty_compiled_def)

text \<open>What a validated device finds in the maps: its profile resolves and its rules are valid.\<close>

definition profile_ready ::
  "(string \<rightharpoonup> rule_set) \<Rightarrow> (string \<rightharpoonup> policy_template) \<Rightarrow> (string \<rightharpoonup> profile) \<Rightarrow> managed_device \<Rightarrow> bool" where
  "profile_ready sets templates profiles md \<longleftrightarrow>
     (\<exists>pf. profiles (md_profile md) = Some pf \<and> resolve_profile pf templates = Inr (device_profile profiles templates md))
     \<and> (\<forall>r \<in> set (pf_rules (device_profile profiles templates md)).
          validate_match sets templates (ru_match r) = None)
     \<and> (trim_space (md_mac md) \<noteq> [] \<longrightarrow> device_mac md \<noteq> None)"

lemma default_selector_reference:
  fixes res pf md
  defines "slots \<equiv> (if fst (default_choice res pf md) = [] then []
      else [(''default'', fst (default_choice res pf md))])"
    and "d \<equiv> new_device md pf (mac_text md) (device_ip md)"
  shows "default_selector res pf d c
    = (grow_device (option_list (snd (default_choice res pf md))) slots
         (d\<lparr>cd_egress_mode := run_egress res pf md,
            cd_configured_egress_mode :=
              (if run_egress res pf md = cd_egress_mode d then [] else cd_egress_mode d)\<rparr>),
       grow_policy (md_id md) slots [] [] c)"
proof -
  obtain p adj where p: "resolve_selector res (md_id md) ''default'' (pf_default_policies pf) = (p, adj)"
    by (cases "resolve_selector res (md_id md) ''default'' (pf_default_policies pf)")
  show ?thesis
    by (cases "effective_egress_mode (md_egress_mode md) = egress_inherit_global"; cases "p = []"; cases adj)
      (simp_all add: default_selector_def default_choice_def run_egress_def p slots_def d_def new_device_def
        grow_device_def grow_policy_def add_adjustment_def add_group_def mk_group_def fun_eq_iff
        Let_def cong: if_cong)
qed

lemma finish_device_reference:
  "finish_device pf (device_ip md) d c =
     (let rules = default_rules_of (device_ip md) (device_group_name (cd_id d) ''default'') (pf_on_unsupported pf)
      in c\<lparr>cp_dedicated_rules := cp_dedicated_rules c @ (if cd_egress_mode d = egress_dedicated then rules else []),
           cp_default_rules := cp_default_rules c @ (if cd_egress_mode d = egress_legacy_fallback then rules else []),
           cp_devices := cp_devices c @ [d]\<rparr>)"
  by (simp add: finish_device_def Let_def egress_dedicated_def egress_legacy_fallback_def)

lemma compile_device_reference:
  assumes ready: "profile_ready sets templates profiles md" and act: "device_active ip_only md"
  defines "pf \<equiv> device_profile profiles templates md"
  shows "compile_device res profiles templates ip_only (c, used) md
    = Inr (append_policy c (device_part res templates pf md), used @ device_references res templates pf md)"
proof -
  obtain pf0 where pf0: "profiles (md_profile md) = Some pf0" "resolve_profile pf0 templates = Inr pf"
    and rules: "\<forall>r \<in> set (pf_rules pf). validate_match sets templates (ru_match r) = None"
    and mac: "trim_space (md_mac md) \<noteq> [] \<longrightarrow> device_mac md \<noteq> None"
    using ready unfolding profile_ready_def pf_def by blast
  have mactext: "(if trim_space (md_mac md) \<noteq> [] then (case normalized_mac (md_mac md) of None \<Rightarrow> [] | Some m \<Rightarrow> m) else [])
    = mac_text md"
    by (simp add: mac_text_def device_mac_def split: option.splits)
  have active: "\<not> (\<not> ip_only \<and> trim_space (md_mac md) = [])"
    using act by (auto simp: device_active_def)
  let ?d = "new_device md pf (mac_text md) (device_ip md)"
  let ?c = "if mac_text md \<noteq> [] then
      c\<lparr>cp_reservations := cp_reservations c @
          [\<lparr>rv_id = cd_id ?d, rv_mac = mac_text md, rv_ipv4 = device_ip md, rv_gateway_target = cd_gateway_target ?d\<rparr>]\<rparr>
    else c"
  have unfold: "compile_device res profiles templates ip_only (c, used) md
    = (if cd_gateway_target ?d = target_upstream_router then Inr (?c\<lparr>cp_devices := cp_devices ?c @ [?d]\<rparr>, used)
       else (case default_selector res pf ?d ?c of
          (d2, c2) \<Rightarrow>
            rbind (rfold (compile_rule res templates (device_ip md) (pf_on_unsupported pf)) (d2, c2, used) (pf_rules pf))
              (\<lambda>(d3, c3, used'). Inr (finish_device pf (device_ip md) d3 c3, used'))))"
    unfolding compile_device_def case_prod_conv if_not_P [OF active] pf0 option.case rbind_Inr Let_def
      mactext device_ip_def ..
  show ?thesis
    unfolding unfold default_selector_reference case_prod_conv
    by (simp add: compile_rules_reference [OF rules] finish_device_reference device_part_def
        append_policy_def device_references_def routed_def run_device_def new_device_def
        grow_device_def grow_policy_def default_output_def device_slots_def
        Let_def fun_eq_iff image_Un cong: if_cong)
qed

lemma device_part_providers [simp]: "cp_rule_providers (device_part res templates pf md) = []"
  by (simp add: device_part_def)

subsection \<open>The whole policy\<close>

definition set_index :: "policy_set \<Rightarrow> string \<rightharpoonup> rule_set" where
  "set_index ps = index_by rs_id (ps_rule_sets ps)"

definition template_index :: "policy_set \<Rightarrow> string \<rightharpoonup> policy_template" where
  "template_index ps = index_by tp_id (ps_templates ps)"

definition profile_index :: "policy_set \<Rightarrow> string \<rightharpoonup> profile" where
  "profile_index ps = index_by pf_id (ps_profiles ps)"

definition profile_of :: "policy_set \<Rightarrow> managed_device \<Rightarrow> profile" where
  "profile_of ps md = device_profile (profile_index ps) (template_index ps) md"

definition active_devices :: "bool \<Rightarrow> policy_set \<Rightarrow> managed_device list" where
  "active_devices ip_only ps = filter (device_active ip_only) (ps_devices ps)"

definition reference_policy :: "policy_resolution option \<Rightarrow> bool \<Rightarrow> policy_set \<Rightarrow> compiled_policy" where
  "reference_policy res ip_only ps =
     (concat_policies
        (map (\<lambda>md. device_part res (template_index ps) (profile_of ps md) md) (active_devices ip_only ps)))
     \<lparr>cp_rule_providers :=
        map (provider_of (index_by rs_id (map normalized_rule_set (ps_rule_sets ps))))
          (sorted_keys (concat (map (\<lambda>md. device_references res (template_index ps) (profile_of ps md) md)
             (active_devices ip_only ps))))\<rparr>"

lemma valid_profile_ready:
  assumes valid: "validate_policy_set url_parse ps = None" and md: "md \<in> set (ps_devices ps)"
  shows "profile_ready (set_index ps) (template_index ps) (profile_index ps) md"
proof -
  note v = validate_policy_set_None [OF valid, folded set_index_def template_index_def profile_index_def]
  from v(7) md have ok: "device_ok (profile_index ps) md" by blast
  then obtain pf where pf: "profile_index ps (md_profile md) = Some pf"
    by (auto simp: device_ok_def)
  then have "pf \<in> set (ps_profiles ps)"
    unfolding profile_index_def by (auto dest: index_by_SomeD)
  with v(5) have body: "validate_profile_body (set_index ps) (template_index ps) pf = None" by blast
  then obtain q where q: "resolve_profile pf (template_index ps) = Inr q"
    and rules: "validate_rules (pf_id pf) (pf_rules q) (set_index ps) (template_index ps) = None"
    by (auto simp: validate_profile_body_def split: sum.splits)
  have "device_profile (profile_index ps) (template_index ps) md = q"
    by (simp add: device_profile_def pf q)
  then show ?thesis
    using ok validate_rules_None [OF rules] pf q by (auto simp: profile_ready_def device_ok_def)
qed

lemma compile_device_inactive:
  "\<not> device_active ip_only md \<Longrightarrow> compile_device res profiles templates ip_only st md = Inr st"
  by (cases st) (simp add: compile_device_def device_active_def)

lemma compile_devices_reference:
  assumes "\<forall>md \<in> set ds. profile_ready sets templates profiles md"
  shows "rfold (compile_device res profiles templates ip_only) (c, used) ds
    = Inr (append_policy c (concat_policies
             (map (\<lambda>md. device_part res templates (device_profile profiles templates md) md)
               (filter (device_active ip_only) ds))),
           used @ concat (map (\<lambda>md. device_references res templates (device_profile profiles templates md) md)
               (filter (device_active ip_only) ds)))"
  using assms
proof (induction ds arbitrary: c used)
  case (Cons md ds)
  from Cons.prems have ready: "profile_ready sets templates profiles md" by simp
  show ?case
  proof (cases "device_active ip_only md")
    case True
    show ?thesis
      using Cons True
      by (simp add: compile_device_reference [OF ready True] concat_policies_Cons append_policy_assoc)
  next
    case False
    then show ?thesis
      using Cons by (simp add: compile_device_inactive)
  qed
qed (simp add: concat_policies_Nil)

lemma compile_reference:
  assumes valid: "validate_policy_set url_parse ps = None"
  shows "compile_policy_set url_parse ps ip_only res = Inr (reference_policy res ip_only ps)"
proof -
  have ready: "\<forall>md \<in> set (ps_devices ps). profile_ready (set_index ps) (template_index ps) (profile_index ps) md"
    using valid_profile_ready [OF valid] by blast
  show ?thesis
    unfolding compile_policy_set_def valid option.case Let_def
      compile_devices_reference [OF ready, unfolded template_index_def profile_index_def]
    by (simp add: reference_policy_def active_devices_def template_index_def profile_index_def
        profile_of_def concat_policies_def)
qed

lemma compile_Inr_iff:
  "compile_policy_set url_parse ps ip_only res = Inr c \<longleftrightarrow>
     validate_policy_set url_parse ps = None \<and> c = reference_policy res ip_only ps"
proof (cases "validate_policy_set url_parse ps")
  case None
  then show ?thesis by (auto simp: compile_reference)
next
  case (Some e)
  then show ?thesis by (simp add: compile_policy_set_def)
qed

lemma reference_policy_fields:
  fixes res ip_only ps
  defines "ds \<equiv> active_devices ip_only ps"
  shows "cp_reservations (reference_policy res ip_only ps)
      = concat (map (\<lambda>md. cp_reservations (device_part res (template_index ps) (profile_of ps md) md)) ds)"
    "cp_selector_groups (reference_policy res ip_only ps)
      = concat (map (\<lambda>md. cp_selector_groups (device_part res (template_index ps) (profile_of ps md) md)) ds)"
    "cp_override_rules (reference_policy res ip_only ps)
      = concat (map (\<lambda>md. cp_override_rules (device_part res (template_index ps) (profile_of ps md) md)) ds)"
    "cp_dedicated_rules (reference_policy res ip_only ps)
      = concat (map (\<lambda>md. cp_dedicated_rules (device_part res (template_index ps) (profile_of ps md) md)) ds)"
    "cp_default_rules (reference_policy res ip_only ps)
      = concat (map (\<lambda>md. cp_default_rules (device_part res (template_index ps) (profile_of ps md) md)) ds)"
    "cp_devices (reference_policy res ip_only ps) = map (\<lambda>md. run_device res (profile_of ps md) md) ds"
    "cp_selector_targets (reference_policy res ip_only ps)
      = concat (map (\<lambda>md. cp_selector_targets (device_part res (template_index ps) (profile_of ps md) md)) ds)"
    "cp_action_targets (reference_policy res ip_only ps)
      = concat (map (\<lambda>md. cp_action_targets (device_part res (template_index ps) (profile_of ps md) md)) ds)"
proof -
  have single: "concat (map (\<lambda>x. [f x]) xs) = map f xs" for f :: "managed_device \<Rightarrow> compiled_device" and xs
    by (induction xs) simp_all
  show "cp_devices (reference_policy res ip_only ps) = map (\<lambda>md. run_device res (profile_of ps md) md) ds"
    by (simp add: reference_policy_def concat_policies_def o_def ds_def device_part_def single)
qed (simp_all add: reference_policy_def concat_policies_def o_def ds_def)

end
