(* ===== verification/PolicyProps.thy ===== *)
theory PolicyProps
  imports PolicySpec "HOL-Library.Sublist" "HOL-Library.Multiset"
begin

text \<open>
  The properties of policy compilation: agreement with the reference description, isolation of
  devices by source address, the shape of reservations, selector groups and rule providers, the
  fail-closed rule for unsupported traffic, and what the frozen target inventory may change.
\<close>

subsection \<open>Agreement with the reference description\<close>

text \<open>C1: \<open>compilePolicySet\<close> computes the reference policy: it reports exactly the errors of
  \<open>ValidatePolicySet\<close>, it never fails on a validated policy (the unknown-template and empty-match
  branches of the compiler are unreachable), and its result is the concatenation, in document order,
  of contributions that each depend on one active device and its resolved profile only, followed by
  the referenced rule providers in sorted order.\<close>

theorem compile_policy_set_reference:
  "compile_policy_set url_parse ps ip_only_active resolution =
     (case validate_policy_set url_parse ps of
        Some e \<Rightarrow> Inl e
      | None \<Rightarrow> Inr (reference_policy resolution ip_only_active ps))"
proof (cases "validate_policy_set url_parse ps")
  case None
  then show ?thesis by (simp add: compile_reference)
next
  case (Some e)
  then show ?thesis by (simp add: compile_policy_set_def)
qed

subsection \<open>Rules are scoped to one source address\<close>

lemma itoa_no_slash: "CHR ''/'' \<notin> set (itoa n)"
  using itoa_digits [of n] by (auto simp: list_all_iff is_digit_def)

lemma join_set: "set (join sep xs) \<subseteq> set sep \<union> \<Union> (set (map set xs))"
  by (induction xs rule: induct_list012) auto

lemma ipv4_string_no_slash: "CHR ''/'' \<notin> set (ipv4_string a)"
  using join_set [of "''.''" "map (\<lambda>b. itoa (unat b)) a"] itoa_no_slash
  by (auto simp: ipv4_string_def)

definition scoped_to :: "string \<Rightarrow> string \<Rightarrow> bool" where
  "scoped_to ip r \<longleftrightarrow>
     has_prefix r (source_payload ip @ '','') \<or> has_prefix r (''AND,(('' @ source_payload ip @ '')'')"

lemma scoped_compose: "scoped_to ip (compose_rule (source_payload ip # conditions) target)"
proof (cases conditions)
  case Nil
  then show ?thesis
    by (auto simp: scoped_to_def compose_rule_def has_prefix_iff)
next
  case (Cons c cs)
  then show ?thesis
    by (auto simp: scoped_to_def compose_rule_def has_prefix_iff)
qed

lemma scoped_default: "r \<in> set (default_rules_of ip grp unsupported) \<Longrightarrow> scoped_to ip r"
  by (auto simp: default_rules_of_def scoped_to_def has_prefix_iff split: if_splits)

lemma scoped_override: "r \<in> set (override_rules_of ip vs target unsupported) \<Longrightarrow> scoped_to ip r"
  by (auto simp: override_rules_of_def scoped_compose Let_def split: if_splits)

lemma append_slash_unique:
  "CHR ''/'' \<notin> set a \<Longrightarrow> CHR ''/'' \<notin> set b \<Longrightarrow> a @ CHR ''/'' # r = b @ CHR ''/'' # q \<Longrightarrow> a = b"
proof (induction a arbitrary: b)
  case Nil
  then show ?case by (cases b) auto
next
  case (Cons c a)
  then show ?case by (cases b) auto
qed

lemma scoped_unique:
  assumes "scoped_to a r" "scoped_to b r" "CHR ''/'' \<notin> set a" "CHR ''/'' \<notin> set b"
  shows "a = b"
  using assms by (auto simp: scoped_to_def has_prefix_iff source_payload_def
      dest: append_slash_unique [OF assms(3,4)])

lemma valid_id_no_slash: "valid_id i \<Longrightarrow> CHR ''/'' \<notin> set i"
  by (auto simp: valid_id_def list_all_iff is_letter_ascii_def is_upper_ascii_def is_lower_ascii_def
      is_digit_def)

subsection \<open>What a compiled policy looks like\<close>

lemma normalized_mac_nonempty: "normalized_mac v = Some m \<Longrightarrow> m \<noteq> []"
proof -
  assume a: "normalized_mac v = Some m"
  then obtain b where b: "length b = 6" "m = to_lower (mac_string b)"
    by (auto simp: normalized_mac_def split: option.splits if_splits)
  then have "mac_string b \<noteq> []"
    by (cases b; cases "tl b") (auto simp: mac_string_def)
  then show "m \<noteq> []"
    by (auto simp: b(2) to_lower_def runes.simps [of "mac_string b"] encode_rune_def)
qed

lemma device_mac_nonempty [simp]: "device_mac md \<noteq> Some []"
  by (auto simp: device_mac_def dest: normalized_mac_nonempty)

lemma mac_text_empty_iff: "mac_text md = [] \<longleftrightarrow> device_mac md = None"
  by (auto simp: mac_text_def device_mac_def split: option.splits if_splits
      dest: normalized_mac_nonempty)

lemma run_device_fields [simp]:
  "cd_id (run_device res pf md) = md_id md" "cd_ipv4 (run_device res pf md) = device_ip md"
  "cd_mac (run_device res pf md) = mac_text md"
  "cd_gateway_target (run_device res pf md) = effective_gateway_target (md_gateway_target md)"
  by (simp_all add: run_device_def new_device_def Let_def)

lemma set_map_filter_option: "set (List.map_filter f xs) = {y. \<exists>x \<in> set xs. f x = Some y}"
  by (induction xs) (auto simp: map_filter_simps split: option.splits)

lemma concat_map_if: "concat (map (\<lambda>x. if P x then [] else [f x]) xs) = map f (filter (\<lambda>x. \<not> P x) xs)"
  by (induction xs) simp_all

lemma compiled_active:
  assumes "compile_policy_set url_parse ps ip_only res = Inr c"
  shows "validate_policy_set url_parse ps = None" "c = reference_policy res ip_only ps"
    "distinct (map md_id (active_devices ip_only ps))"
    "distinct (map device_ip (active_devices ip_only ps))"
    "distinct (List.map_filter device_mac (active_devices ip_only ps))"
    "\<And>md. md \<in> set (active_devices ip_only ps) \<Longrightarrow> md \<in> set (ps_devices ps)
       \<and> device_active ip_only md \<and> device_ok (profile_index ps) md"
proof -
  from assms show v: "validate_policy_set url_parse ps = None" and "c = reference_policy res ip_only ps"
    by (simp_all add: compile_Inr_iff)
  note w = validate_policy_set_None [OF v, folded profile_index_def]
  have mf: "distinct (List.map_filter f xs) \<Longrightarrow> distinct (List.map_filter f (filter P xs))"
    for f :: "managed_device \<Rightarrow> string option" and P xs
    by (induction xs) (auto simp: map_filter_simps set_map_filter_option split: option.splits)
  show "distinct (map md_id (active_devices ip_only ps))"
    "distinct (map device_ip (active_devices ip_only ps))"
    "distinct (List.map_filter device_mac (active_devices ip_only ps))"
    using w(8-10) by (simp_all add: active_devices_def distinct_map_filter mf)
  show "md \<in> set (ps_devices ps) \<and> device_active ip_only md \<and> device_ok (profile_index ps) md"
    if "md \<in> set (active_devices ip_only ps)" for md
    using that w(7) by (auto simp: active_devices_def)
qed

lemma routed_iff: "routed md \<longleftrightarrow> effective_gateway_target (md_gateway_target md) \<noteq> target_upstream_router"
  by (simp add: routed_def)

lemma device_part_scoped:
  assumes "r \<in> set (cp_override_rules (device_part res templates pf md)
      @ cp_dedicated_rules (device_part res templates pf md) @ cp_default_rules (device_part res templates pf md))"
  shows "routed md \<and> scoped_to (device_ip md) r"
  using assms
  by (auto simp: device_part_def rule_output_def default_output_def scoped_override scoped_default
      split: if_splits option.splits)

lemma device_ip_no_slash: "CHR ''/'' \<notin> set (device_ip md)"
  by (simp add: device_ip_def ipv4_string_no_slash)

text \<open>C2: Every rule the compiler emits, in any of the three rule lists, starts with the source
  address of exactly one compiled device, and that device is one that uses this gateway: no rule
  ever applies to another device, and devices sent to the upstream router get no rule at all.\<close>

theorem rules_scoped_to_one_device:
  assumes "compile_policy_set url_parse ps ip_only res = Inr c"
    and "r \<in> set (cp_override_rules c @ cp_dedicated_rules c @ cp_default_rules c)"
  shows "\<exists>d \<in> set (cp_devices c). cd_gateway_target d \<noteq> target_upstream_router \<and> scoped_to (cd_ipv4 d) r
    \<and> (\<forall>d' \<in> set (cp_devices c). scoped_to (cd_ipv4 d') r \<longrightarrow> d' = d)"
proof -
  note a = compiled_active [OF assms(1)]
  let ?run = "\<lambda>md. run_device res (profile_of ps md) md"
  let ?part = "\<lambda>md. device_part res (template_index ps) (profile_of ps md) md"
  from assms(2) have "\<exists>md \<in> set (active_devices ip_only ps). r \<in> set (cp_override_rules (?part md)
      @ cp_dedicated_rules (?part md) @ cp_default_rules (?part md))"
    unfolding a(2) reference_policy_fields by auto
  then obtain md where md: "md \<in> set (active_devices ip_only ps)"
    and r: "routed md" "scoped_to (device_ip md) r"
    by (blast dest: device_part_scoped)
  have "d' = ?run md" if d': "d' \<in> set (cp_devices c)" "scoped_to (cd_ipv4 d') r" for d'
  proof -
    from d'(1) obtain md' where md': "md' \<in> set (active_devices ip_only ps)" "d' = ?run md'"
      by (auto simp: a(2) reference_policy_fields)
    then have "device_ip md' = device_ip md"
      using scoped_unique [OF _ r(2)] d'(2) device_ip_no_slash by simp
    with a(4) md md' show ?thesis by (metis distinct_map inj_on_def)
  qed
  then show ?thesis
    using md r by (intro bexI [of _ "?run md"])
      (auto simp: a(2) reference_policy_fields routed_iff)
qed

text \<open>The DHCP reservations of a compiled policy are exactly its devices that have a MAC
  address, with distinct MAC and distinct IPv4 addresses; in the mode that activates only devices
  with a MAC address every compiled device has one.\<close>

theorem reservations_are_mac_devices:
  assumes "compile_policy_set url_parse ps ip_only res = Inr c"
  shows "cp_reservations c
      = map (\<lambda>d. \<lparr>rv_id = cd_id d, rv_mac = cd_mac d, rv_ipv4 = cd_ipv4 d, rv_gateway_target = cd_gateway_target d\<rparr>)
          (filter (\<lambda>d. cd_mac d \<noteq> []) (cp_devices c))
    \<and> distinct (map rv_mac (cp_reservations c)) \<and> distinct (map rv_ipv4 (cp_reservations c))
    \<and> (\<not> ip_only \<longrightarrow> (\<forall>d \<in> set (cp_devices c). cd_mac d \<noteq> []))"
proof -
  note a = compiled_active [OF assms]
  let ?ds = "active_devices ip_only ps"
  let ?res = "\<lambda>md. \<lparr>rv_id = md_id md, rv_mac = mac_text md, rv_ipv4 = device_ip md,
    rv_gateway_target = effective_gateway_target (md_gateway_target md)\<rparr>"
  have r: "cp_reservations c = map ?res (filter (\<lambda>md. mac_text md \<noteq> []) ?ds)"
    unfolding a(2) reference_policy_fields by (simp add: device_part_def concat_map_if)
  have mf: "map mac_text (filter (\<lambda>md. mac_text md \<noteq> []) xs) = List.map_filter device_mac xs" for xs
    by (induction xs) (auto simp: map_filter_simps mac_text_empty_iff mac_text_def split: option.splits)
  have "distinct (map rv_mac (cp_reservations c))"
    using a(5) by (simp add: r o_def mf)
  moreover have "distinct (map rv_ipv4 (cp_reservations c))"
    using a(4) by (simp add: r o_def distinct_map_filter)
  moreover have "mac_text md \<noteq> []" if "\<not> ip_only" "md \<in> set ?ds" for md
    using a(6) [OF that(2)] that(1) by (auto simp: device_active_def device_ok_def mac_text_empty_iff)
  moreover have dev: "cp_devices c = map (\<lambda>md. run_device res (profile_of ps md) md) ?ds"
    by (simp add: a(2) reference_policy_fields)
  moreover have "cp_reservations c
      = map (\<lambda>d. \<lparr>rv_id = cd_id d, rv_mac = cd_mac d, rv_ipv4 = cd_ipv4 d, rv_gateway_target = cd_gateway_target d\<rparr>)
          (filter (\<lambda>d. cd_mac d \<noteq> []) (cp_devices c))"
    unfolding r dev by (simp add: filter_map o_def)
  ultimately show ?thesis by simp
qed

lemma device_group_name_inj:
  assumes "valid_id a" "valid_id b"
  shows "device_group_name a s = device_group_name b t \<longleftrightarrow> a = b \<and> s = t"
  using append_slash_unique [of a b s t] valid_id_no_slash assms
  by (auto simp: device_group_name_def)

lemma selector_group_origin:
  assumes "g \<in> set (cp_selector_groups (reference_policy res ip_only ps))"
  shows "\<exists>md \<in> set (active_devices ip_only ps). routed md \<and>
    (\<exists>s \<in> set (device_slots res (profile_of ps md) md). g = mk_group (md_id md) s)"
  using assms by (auto simp: reference_policy_fields device_part_def split: if_splits)

text \<open>A device sent to the upstream router keeps its DHCP reservation and nothing else: it has a
  MAC address, no selector group, no adjustment and no default rule of its own.\<close>

theorem upstream_devices_only_reserved:
  assumes "compile_policy_set url_parse ps ip_only res = Inr c" and "d \<in> set (cp_devices c)"
    and "cd_gateway_target d = target_upstream_router"
  shows "cd_groups d = Map.empty \<and> cd_policy_adjustments d = [] \<and> cd_mac d \<noteq> []
    \<and> \<lparr>rv_id = cd_id d, rv_mac = cd_mac d, rv_ipv4 = cd_ipv4 d, rv_gateway_target = target_upstream_router\<rparr>
        \<in> set (cp_reservations c)
    \<and> (\<forall>g \<in> set (cp_selector_groups c). \<forall>slot. sg_name g \<noteq> device_group_name (cd_id d) slot)"
proof -
  note a = compiled_active [OF assms(1)]
  from assms(2) obtain md where md: "md \<in> set (active_devices ip_only ps)"
    and d: "d = run_device res (profile_of ps md) md"
    by (auto simp: a(2) reference_policy_fields)
  from assms(3) have up: "effective_gateway_target (md_gateway_target md) = target_upstream_router"
    by (simp add: d)
  then have nr: "\<not> routed md" by (simp add: routed_def)
  from a(6) [OF md] up have mac: "mac_text md \<noteq> []"
    by (simp add: device_ok_def mac_text_empty_iff)
  have "sg_name g \<noteq> device_group_name (md_id md) slot" if "g \<in> set (cp_selector_groups c)" for g slot
  proof
    assume name: "sg_name g = device_group_name (md_id md) slot"
    from that obtain md' where md': "md' \<in> set (active_devices ip_only ps)" "routed md'"
      and g: "\<exists>s. sg_name g = device_group_name (md_id md') s"
      unfolding a(2) using selector_group_origin by (fastforce simp: mk_group_def)
    then obtain s where "device_group_name (md_id md') s = device_group_name (md_id md) slot"
      using name by metis
    moreover have "valid_id (md_id md')" "valid_id (md_id md)"
      using a(6) [OF md'(1)] a(6) [OF md] by (simp_all add: device_ok_def)
    ultimately have "md_id md' = md_id md"
      using device_group_name_inj by blast
    then have "md' = md"
      using a(3) md md'(1) by (metis distinct_map inj_on_def)
    with nr md'(2) show False by simp
  qed
  moreover have "\<lparr>rv_id = cd_id d, rv_mac = cd_mac d, rv_ipv4 = cd_ipv4 d, rv_gateway_target = target_upstream_router\<rparr>
      \<in> set (cp_reservations c)"
    unfolding a(2) reference_policy_fields using md mac up by (auto simp: d device_part_def intro!: bexI [of _ md])
  ultimately show ?thesis
    using nr mac by (simp add: d run_device_def new_device_def Let_def)
qed

subsection \<open>Selector groups\<close>

lemma rule_slots_nonempty: "s \<in> set (rule_slots res did r) \<Longrightarrow> fst s = ru_id r \<and> snd s \<noteq> []"
  by (auto simp: rule_slots_def split: if_splits)

lemma device_slots_nonempty: "s \<in> set (device_slots res pf md) \<Longrightarrow> snd s \<noteq> []"
  by (auto simp: device_slots_def dest: rule_slots_nonempty split: if_splits)

lemma distinct_rule_slots:
  "distinct (map ru_id rs) \<Longrightarrow>
     distinct (map fst (concat (map (rule_slots res did) rs)))
     \<and> fst ` set (concat (map (rule_slots res did) rs)) \<subseteq> ru_id ` set rs"
proof (induction rs)
  case (Cons r rs)
  then have ih: "distinct (map fst (concat (map (rule_slots res did) rs)))"
    "fst ` set (concat (map (rule_slots res did) rs)) \<subseteq> ru_id ` set rs" "ru_id r \<notin> ru_id ` set rs"
    by simp_all
  show ?case
  proof (cases "rule_slots res did r = []")
    case True
    then show ?thesis using ih by auto
  next
    case False
    then obtain p where "rule_slots res did r = [(ru_id r, p)]"
      by (auto simp: rule_slots_def split: if_splits)
    then show ?thesis using ih by auto
  qed
qed simp

lemma distinct_device_slots:
  assumes "distinct (map ru_id (pf_rules pf))" and "\<forall>r \<in> set (pf_rules pf). ru_id r \<noteq> ''default''"
  shows "distinct (map fst (device_slots res pf md))"
  using distinct_rule_slots [OF assms(1), of res "md_id md"] assms(2)
  by (auto simp: device_slots_def dest!: rule_slots_nonempty)

lemma distinct_concat_map:
  assumes "distinct (map k xs)" and "\<And>x. x \<in> set xs \<Longrightarrow> distinct (f x)"
    and "\<And>x y e. x \<in> set xs \<Longrightarrow> y \<in> set xs \<Longrightarrow> e \<in> set (f x) \<Longrightarrow> e \<in> set (f y) \<Longrightarrow> k x = k y"
  shows "distinct (concat (map f xs))"
  using assms
proof (induction xs)
  case (Cons x xs)
  have "set (f x) \<inter> set (concat (map f xs)) = {}"
  proof (rule ccontr)
    assume "set (f x) \<inter> set (concat (map f xs)) \<noteq> {}"
    then obtain e y where "y \<in> set xs" "e \<in> set (f x)" "e \<in> set (f y)" by auto
    then have "k x = k y" using Cons.prems(3) by auto
    with \<open>y \<in> set xs\<close> Cons.prems(1) show False by auto
  qed
  then show ?case using Cons by auto
qed simp

lemma valid_profile_rules:
  assumes "validate_policy_set url_parse ps = None" and "md \<in> set (ps_devices ps)"
  shows "distinct (map ru_id (pf_rules (profile_of ps md)))
    \<and> (\<forall>r \<in> set (pf_rules (profile_of ps md)). valid_id (ru_id r) \<and> ru_id r \<noteq> ''default''
        \<and> validate_match (set_index ps) (template_index ps) (ru_match r) = None)
    \<and> pf_default_policies (profile_of ps md) \<noteq> []"
proof -
  note v = validate_policy_set_None [OF assms(1), folded set_index_def template_index_def profile_index_def]
  from v(7) assms(2) obtain pf where pf: "profile_index ps (md_profile md) = Some pf"
    by (auto simp: device_ok_def)
  then have "pf \<in> set (ps_profiles ps)"
    unfolding profile_index_def by (auto dest: index_by_SomeD)
  with v(5) have body: "validate_profile_body (set_index ps) (template_index ps) pf = None" by blast
  then obtain q where q: "resolve_profile pf (template_index ps) = Inr q" "pf_default_policies q \<noteq> []"
    and rules: "validate_rules (pf_id pf) (pf_rules q) (set_index ps) (template_index ps) = None"
    by (auto simp: validate_profile_body_def split: sum.splits)
  have "profile_of ps md = q"
    by (simp add: profile_of_def device_profile_def pf q)
  with validate_rules_None [OF rules] q(2) show ?thesis by simp
qed

text \<open>The selector groups of a compiled policy have distinct names and at least one candidate
  each, every group a device refers to exists, and every existing group is the one of exactly that
  device and slot: groups are never shared between devices.\<close>

theorem selector_groups_wellformed:
  assumes "compile_policy_set url_parse ps ip_only res = Inr c"
  shows "distinct (map sg_name (cp_selector_groups c)) \<and> (\<forall>g \<in> set (cp_selector_groups c). sg_policies g \<noteq> [])
    \<and> (\<forall>d \<in> set (cp_devices c). \<forall>slot name. cd_groups d slot = Some name \<longrightarrow>
          name = device_group_name (cd_id d) slot \<and> name \<in> sg_name ` set (cp_selector_groups c))
    \<and> (\<forall>g \<in> set (cp_selector_groups c). \<exists>d \<in> set (cp_devices c). \<exists>slot. cd_groups d slot = Some (sg_name g))"
proof -
  note a = compiled_active [OF assms]
  let ?pf = "profile_of ps"
  let ?names = "\<lambda>md. map (\<lambda>s. device_group_name (md_id md) (fst s)) (if routed md then device_slots res (?pf md) md else [])"
  have id: "valid_id (md_id md)" if "md \<in> set (active_devices ip_only ps)" for md
    using a(6) [OF that] by (simp add: device_ok_def)
  have names: "map sg_name (cp_selector_groups c) = concat (map ?names (active_devices ip_only ps))"
    unfolding a(2) reference_policy_fields
    by (simp add: map_concat o_def device_part_def mk_group_def if_distrib cong: if_cong)
      (rule arg_cong [where f = concat], rule map_cong, auto simp: mk_group_def)
  have "distinct (concat (map ?names (active_devices ip_only ps)))"
  proof (rule distinct_concat_map [OF a(3)])
    fix md assume md: "md \<in> set (active_devices ip_only ps)"
    then have "distinct (map fst (device_slots res (?pf md) md))"
      using valid_profile_rules [OF a(1)] a(6) [OF md] by (intro distinct_device_slots) auto
    then have "distinct (map (device_group_name (md_id md)) (map fst (device_slots res (?pf md) md)))"
      by (subst distinct_map) (auto simp: inj_on_def device_group_name_def)
    then show "distinct (?names md)" by (simp add: o_def)
  qed (auto simp: device_group_name_inj [OF id id] split: if_splits)
  then have 1: "distinct (map sg_name (cp_selector_groups c))" by (simp only: names)
  have 2: "\<forall>g \<in> set (cp_selector_groups c). sg_policies g \<noteq> []"
    unfolding a(2) reference_policy_fields
    by (auto simp: device_part_def mk_group_def dest: device_slots_nonempty split: if_splits)
  have 3: "name = device_group_name (cd_id d) slot \<and> name \<in> sg_name ` set (cp_selector_groups c)"
    if "d \<in> set (cp_devices c)" "cd_groups d slot = Some name" for d slot name
  proof -
    from that obtain md where md: "md \<in> set (active_devices ip_only ps)" "d = run_device res (?pf md) md"
      by (auto simp: a(2) reference_policy_fields)
    then have "routed md" "slot \<in> fst ` set (device_slots res (?pf md) md)" "name = device_group_name (md_id md) slot"
      using that(2) by (auto simp: run_device_def new_device_def Let_def split: if_splits)
    then have "name \<in> set (?names md)" by auto
    with md(1) have "name \<in> set (map sg_name (cp_selector_groups c))" unfolding names by auto
    then show ?thesis using md \<open>name = _\<close> by simp
  qed
  have 4: "\<exists>d \<in> set (cp_devices c). \<exists>slot. cd_groups d slot = Some (sg_name g)"
    if "g \<in> set (cp_selector_groups c)" for g
  proof -
    from that have "sg_name g \<in> set (map sg_name (cp_selector_groups c))" by simp
    then obtain md s where "md \<in> set (active_devices ip_only ps)" "routed md"
      "s \<in> set (device_slots res (?pf md) md)" "sg_name g = device_group_name (md_id md) (fst s)"
      unfolding names by (auto split: if_splits)
    then show ?thesis
      by (intro bexI [of _ "run_device res (?pf md) md"] exI [of _ "fst s"])
        (auto simp: a(2) reference_policy_fields run_device_def Let_def)
  qed
  show ?thesis using 1 2 3 4 by blast
qed

subsection \<open>Unsupported traffic fails closed\<close>

lemma sublist_concat_map: "x \<in> set xs \<Longrightarrow> sublist (f x) (concat (map f xs))"
  by (induction xs) (auto intro: sublist_order.order_trans simp: sublist_append)

text \<open>C3: When a rule's target can let traffic fall through (anything but the built-in targets) and
  the rule, or its profile, does not ask for fallthrough, every variant of the rule is immediately
  followed by the same conditions with \<open>REJECT\<close>: traffic the target cannot carry never reaches a
  later rule of the gateway.\<close>

theorem unsupported_traffic_rejected:
  assumes "compile_policy_set url_parse ps ip_only res = Inr c"
    and "md \<in> set (active_devices ip_only ps)" and "routed md" and "r \<in> set (pf_rules (profile_of ps md))"
    and "rule_target res (md_id md) r = Some target" and "action_can_fall_through target"
    and "resolve_unsupported (ru_on_unsupported r) (pf_on_unsupported (profile_of ps md)) = ''reject''"
    and "v \<in> set (all_variants (effective_match (template_index ps) (ru_match r)))"
  shows "sublist
    [compose_rule (source_payload (device_ip md) # v) target,
     compose_rule (source_payload (device_ip md) # v) ''REJECT''] (cp_override_rules c)"
proof -
  let ?out = "rule_output res (template_index ps) (device_ip md) (md_id md) (pf_on_unsupported (profile_of ps md))"
  let ?f = "\<lambda>v. let payloads = source_payload (device_ip md) # v in
       compose_rule payloads target # [compose_rule payloads ''REJECT'']"
  have "sublist (?f v) (?out r)"
    using sublist_concat_map [OF assms(8), of ?f] assms(5-7)
    by (simp add: rule_output_def override_rules_of_def)
  also have "sublist \<dots> (concat (map ?out (pf_rules (profile_of ps md))))"
    by (rule sublist_concat_map [OF assms(4)])
  also have "\<dots> = cp_override_rules (device_part res (template_index ps) (profile_of ps md) md)"
    using assms(3) by (simp add: device_part_def)
  also have "sublist \<dots> (cp_override_rules c)"
    unfolding compiled_active(2) [OF assms(1)] reference_policy_fields
    by (rule sublist_concat_map [OF assms(2)])
  finally show ?thesis by (simp add: Let_def)
qed

subsection \<open>Rule providers\<close>

lemma sorted_keys_facts: "set (sorted_keys ks) = set ks" "distinct (sorted_keys ks)" "sorted (sorted_keys ks)"
  by (simp_all add: sorted_keys_def)

definition emitted_references :: "policy_resolution option \<Rightarrow> bool \<Rightarrow> policy_set \<Rightarrow> string set" where
  "emitted_references res ip_only ps =
     (\<Union>md \<in> set (filter routed (active_devices ip_only ps)). \<Union>r \<in> set (pf_rules (profile_of ps md)).
        if rule_target res (md_id md) r = None then {}
        else set (rm_rule_sets (effective_match (template_index ps) (ru_match r))))"

lemma valid_template_rule_sets:
  assumes "validate_policy_set url_parse ps = None" and "template_index ps t = Some tp"
    and "i \<in> set (tp_rule_sets tp)"
  shows "set_index ps i \<noteq> None"
proof -
  note v = validate_policy_set_None [OF assms(1), folded set_index_def template_index_def profile_index_def]
  from assms(2) have "tp \<in> set (ps_templates ps)"
    unfolding template_index_def by (auto dest: index_by_SomeD)
  with v(4) assms(3) show ?thesis by (auto simp: validate_template_body_def)
qed

lemma valid_rule_references:
  assumes "validate_policy_set url_parse ps = None" and "md \<in> set (ps_devices ps)"
    and "r \<in> set (pf_rules (profile_of ps md))"
    and "i \<in> set (rm_rule_sets (effective_match (template_index ps) (ru_match r)))"
  shows "set_index ps i \<noteq> None"
proof -
  from valid_profile_rules [OF assms(1,2)] assms(3)
  have "validate_match (set_index ps) (template_index ps) (ru_match r) = None" by blast
  with assms(4) show ?thesis
    by (auto simp: validate_match_def effective_match_def split: if_splits option.splits
        dest: valid_template_rule_sets [OF assms(1)])
qed

lemma normalized_index:
  "index_by rs_id (map normalized_rule_set xs) i = map_option normalized_rule_set (index_by rs_id xs i)"
  by (induction xs rule: rev_induct) (simp_all add: index_by_def normalized_rule_set_def Let_def)

text \<open>The rule providers are exactly the rule sets that the rules of this run reference: distinct,
  in sorted order, each carrying the normalized definition of a rule set the document declares.\<close>

theorem providers_are_referenced_sets:
  assumes "compile_policy_set url_parse ps ip_only res = Inr c"
  shows "\<exists>ids. sorted ids \<and> distinct ids \<and> set ids = emitted_references res ip_only ps
    \<and> cp_rule_providers c = map (provider_of (map_option normalized_rule_set \<circ> set_index ps)) ids
    \<and> map rp_name (cp_rule_providers c) = map rule_set_provider_name ids"
proof -
  note a = compiled_active [OF assms]
  let ?refs = "concat (map (\<lambda>md. device_references res (template_index ps) (profile_of ps md) md)
             (active_devices ip_only ps))"
  have refs: "set ?refs = emitted_references res ip_only ps"
    by (auto simp: emitted_references_def device_references_def rule_references_def split: if_splits)
  have prov: "cp_rule_providers c
      = map (provider_of (map_option normalized_rule_set \<circ> set_index ps)) (sorted_keys ?refs)"
    by (simp add: a(2) reference_policy_def set_index_def normalized_index [abs_def] comp_def)
  have name: "rp_name (provider_of (map_option normalized_rule_set \<circ> set_index ps) i) = rule_set_provider_name i"
    if i: "i \<in> emitted_references res ip_only ps" for i
  proof -
    from i obtain md r where "md \<in> set (active_devices ip_only ps)" "r \<in> set (pf_rules (profile_of ps md))"
      "i \<in> set (rm_rule_sets (effective_match (template_index ps) (ru_match r)))"
      by (auto simp: emitted_references_def split: if_splits)
    then have "set_index ps i \<noteq> None"
      using valid_rule_references [OF a(1)] a(6) by blast
    then obtain rs where rs: "set_index ps i = Some rs" by blast
    then have "rs_id rs = i" by (auto simp: set_index_def dest: index_by_SomeD)
    then show ?thesis by (simp add: provider_of_def rs normalized_rule_set_def Let_def)
  qed
  then have "map rp_name (cp_rule_providers c) = map rule_set_provider_name (sorted_keys ?refs)"
    unfolding prov map_map
    by (intro map_cong refl) (simp only: o_def name refs [symmetric] sorted_keys_facts(1))
  then show ?thesis
    using prov refs sorted_keys_facts [of ?refs] by blast
qed

subsection \<open>The frozen target inventory\<close>

lemma move_front_facts:
  "mset (move_front x xs) = mset xs" "x \<in> set xs \<Longrightarrow> hd (move_front x xs) = x"
  "move_front x xs = [] \<longleftrightarrow> xs = []"
proof -
  let ?i = "length (takeWhile (\<lambda>y. y \<noteq> x) xs)"
  have split: "xs = take ?i xs @ x # drop (?i + 1) xs" if "?i < length xs"
    using that nth_length_takeWhile [of "\<lambda>y. y \<noteq> x" xs] by (metis Suc_eq_plus1 id_take_nth_drop)
  show "mset (move_front x xs) = mset xs"
    using split by (auto simp: move_front_def Let_def) (metis mset_append mset.simps(2) union_mset_add_mset_right)
  show "move_front x xs = [] \<longleftrightarrow> xs = []"
    by (auto simp: move_front_def Let_def)
  show "hd (move_front x xs) = x" if "x \<in> set xs"
  proof -
    from that have lt: "?i < length xs"
      by (induction xs) auto
    then show ?thesis
      using split by (cases "?i = 0") (auto simp: move_front_def Let_def hd_conv_nth takeWhile_eq_Nil_iff)
  qed
qed

text \<open>What \<open>resolveSelector\<close> returns when it keeps a selector: only candidates of the selector that
  exist on this run, each as often as it is listed, with the target in use (the stored selection, or
  the first candidate) in front when anything was missing. An adjustment is reported exactly when a
  candidate is missing, and it names the missing ones.\<close>

theorem resolve_selector_keeps_available:
  "case resolve_selector (Some res) did slot candidates of (kept, adj) \<Rightarrow>
     (kept \<noteq> [] \<longrightarrow> mset kept = mset (filter (target_available (Some res)) candidates)
        \<and> (\<forall>a. adj = Some a \<longrightarrow> hd kept = pa_selected a))
     \<and> (adj = None \<longleftrightarrow> list_all (target_available (Some res)) candidates)
     \<and> (\<forall>a. adj = Some a \<longrightarrow> pa_slot a = slot
          \<and> pa_missing_targets a = filter (\<lambda>c. \<not> target_available (Some res) c) candidates
          \<and> (pa_effect a = effect_filter_candidates \<longleftrightarrow> kept \<noteq> []))"
proof -
  let ?avail = "target_available (Some res)"
  let ?stored = "case pr_selections res (device_group_name did slot) of None \<Rightarrow> [] | Some s \<Rightarrow> s"
  let ?selected = "if ?stored \<notin> set candidates \<and> candidates \<noteq> [] then hd candidates else ?stored"
  show ?thesis
  proof (cases "list_all ?avail candidates")
    case True
    then have "filter (\<lambda>c. \<not> ?avail c) candidates = []" "filter ?avail candidates = candidates"
      by (auto simp: list_all_iff filter_empty_conv)
    then show ?thesis using True by (simp add: resolve_selector_def Let_def)
  next
    case False
    then have missing: "filter (\<lambda>c. \<not> ?avail c) candidates \<noteq> []" "candidates \<noteq> []"
      by (auto simp: list_all_iff filter_empty_conv)
    then have sel: "?selected \<in> set candidates" by simp
    show ?thesis
    proof (cases "filter ?avail candidates = [] \<or> (?stored = [] \<and> pr_selections_unavailable res) \<or> \<not> ?avail ?selected")
      case True
      then show ?thesis using missing False
        by (simp add: resolve_selector_def Let_def effect_inherit_global_def effect_skip_rule_def
            effect_filter_candidates_def cong: if_cong)
    next
      case keep: False
      then have "?selected \<in> set (filter ?avail candidates)" using sel by simp
      then show ?thesis using missing False keep
        by (simp add: resolve_selector_def Let_def move_front_facts effect_inherit_global_def
            effect_skip_rule_def effect_filter_candidates_def cong: if_cong)
    qed
  qed
qed

lemma resolve_selector_available:
  "set (fst (resolve_selector (Some res) did slot candidates)) \<subseteq> {t. target_available (Some res) t}"
proof -
  have sub: "set (move_front x (filter P xs)) \<subseteq> {t. P t}" for x P and xs :: "string list"
    using mset_eq_setD [OF move_front_facts(1) [of x "filter P xs"]] by auto
  show ?thesis
    unfolding resolve_selector_def option.case Let_def using sub by (auto split: if_splits)
qed

text \<open>Under a frozen inventory the compiled policy names no target that is not there: every
  candidate of every selector group and every direct action is a built-in target or one of the
  available targets.\<close>

theorem resolved_targets_available:
  assumes "compile_policy_set url_parse ps ip_only (Some res) = Inr c"
    and "t \<in> set (cp_selector_targets c @ cp_action_targets c)"
  shows "to_upper t \<in> builtin_targets \<or> t \<in> set (pr_available_targets res)"
proof -
  note sub = resolve_selector_available [THEN subsetD, simplified]
  have slots: "target_available (Some res) u" if "s \<in> set (device_slots (Some res) pf md)" "u \<in> set (snd s)" for s u pf md
    using that by (auto simp: device_slots_def rule_slots_def default_choice_def dest: sub split: if_splits)
  have "target_available (Some res) t"
    using assms(2) unfolding compiled_active(2) [OF assms(1)]
    by (auto simp: reference_policy_fields device_part_def rule_action_targets_def dest: slots split: if_splits)
  then show ?thesis by (simp add: target_available_def)
qed

lemma resolve_selector_full:
  "\<forall>t \<in> set candidates. target_available (Some res) t \<Longrightarrow>
     resolve_selector (Some res) did slot candidates = (candidates, None)"
  by (simp add: resolve_selector_def filter_empty_conv Let_def filter_id_conv)

lemma resolve_selector_None [simp]: "resolve_selector None did slot candidates = (candidates, None)"
  by (simp add: resolve_selector_def)

lemma target_available_None [simp]: "target_available None t"
  by (simp add: target_available_def)

text \<open>An inventory that holds every target of the policy changes nothing: compiling against it
  gives the very policy that compiling without an inventory gives.\<close>

theorem full_inventory_changes_nothing:
  assumes "compile_policy_set url_parse ps ip_only None = Inr c"
    and "\<forall>t \<in> set (cp_selector_targets c @ cp_action_targets c). target_available (Some res) t"
  shows "compile_policy_set url_parse ps ip_only (Some res) = Inr c"
proof -
  note a = compiled_active [OF assms(1)]
  let ?pf = "profile_of ps" and ?T = "template_index ps"
  have same: "device_part (Some res) ?T (?pf md) md = device_part None ?T (?pf md) md
      \<and> device_references (Some res) ?T (?pf md) md = device_references None ?T (?pf md) md"
    if md: "md \<in> set (active_devices ip_only ps)" for md
  proof (cases "routed md")
    case False
    then show ?thesis by (simp add: device_part_def device_references_def run_device_def Let_def)
  next
    case True
    have part: "\<forall>t \<in> set (cp_selector_targets (device_part None ?T (?pf md) md)
        @ cp_action_targets (device_part None ?T (?pf md) md)). target_available (Some res) t"
      using assms(2) md unfolding a(2) reference_policy_fields by auto
    have def: "default_choice (Some res) (?pf md) md = default_choice None (?pf md) md"
      using part True by (auto simp: default_choice_def device_part_def device_slots_def
          intro!: resolve_selector_full split: if_splits)
    have rule: "rule_slots (Some res) (md_id md) r = rule_slots None (md_id md) r
        \<and> rule_adjustments (Some res) (md_id md) r = rule_adjustments None (md_id md) r
        \<and> rule_target (Some res) (md_id md) r = rule_target None (md_id md) r
        \<and> rule_action_targets (Some res) r = rule_action_targets None r"
      if r: "r \<in> set (pf_rules (?pf md))" for r
    proof (cases "ru_policies r = []")
      case True
      then have "target_available (Some res) (ru_action r)"
        using part r \<open>routed md\<close> by (auto simp: device_part_def rule_action_targets_def)
      then show ?thesis
        using True by (simp add: rule_slots_def rule_adjustments_def rule_target_def rule_action_targets_def)
    next
      case False
      then have "\<forall>t \<in> set (ru_policies r). target_available (Some res) t"
        using part r \<open>routed md\<close> by (fastforce simp: device_part_def device_slots_def rule_slots_def)
      then show ?thesis
        using False by (simp add: rule_slots_def rule_adjustments_def rule_target_def
            rule_action_targets_def resolve_selector_full)
    qed
    then have maps: "map (rule_slots (Some res) (md_id md)) (pf_rules (?pf md)) = map (rule_slots None (md_id md)) (pf_rules (?pf md))"
      "map (rule_adjustments (Some res) (md_id md)) (pf_rules (?pf md)) = map (rule_adjustments None (md_id md)) (pf_rules (?pf md))"
      "map (rule_action_targets (Some res)) (pf_rules (?pf md)) = map (rule_action_targets None) (pf_rules (?pf md))"
      "map (rule_output (Some res) ?T ip (md_id md) u) (pf_rules (?pf md)) = map (rule_output None ?T ip (md_id md) u) (pf_rules (?pf md))"
      "map (rule_references (Some res) ?T (md_id md)) (pf_rules (?pf md)) = map (rule_references None ?T (md_id md)) (pf_rules (?pf md))"
      for ip u
      by (simp_all add: rule_output_def rule_references_def)
    show ?thesis
      by (simp add: device_part_def device_references_def run_device_def device_slots_def
          run_egress_def default_output_def def maps cong: if_cong)
  qed
  then have "reference_policy (Some res) ip_only ps = reference_policy None ip_only ps"
    unfolding reference_policy_def by (simp cong: map_cong)
  then show ?thesis
    by (simp add: compile_reference [OF a(1)] a(2))
qed

end
