(* ===== verification/PolicyLan.thy ===== *)
theory PolicyLan
  imports PolicyProps
begin

text \<open>
  Bounds and the LAN: the number of rules a match expands to, what validation against the gateway
  LAN adds, and the narrowing of a policy to the devices of one network.
\<close>

subsection \<open>The size of an expansion\<close>

lemmas policy_model_eval [go_eval] =
  validate_policy_set_def validate_profile_ids_def validate_template_headers_def validate_rule_sets_def
  validate_template_body_def validate_profile_body_def validate_devices_def validate_device_def
  device_identity_error_def device_mac_error_def device_ip_error_def device_modes_error_def
  validate_device_name_def validate_rules_def validate_match_def validate_rule_set_def
  validate_policy_list_def validate_unsupported_def resolve_profile_def combination_count_def
  direct_dimensions_def normalized_rule_set_def normalized_mac_def valid_id_def valid_policy_def
  valid_domain_def valid_port_range_def effective_egress_mode_def effective_gateway_target_def
  effective_dns_view_def index_by_def
  egress_inherit_global_def egress_dedicated_def egress_legacy_fallback_def target_opensurge_def
  target_upstream_router_def dns_view_auto_def dns_view_gateway_def dns_view_resolver_def wrap64_def

lemma wrap64_1 [simp]: "wrap64 1 = 1"
  by (simp add: wrap64_def)

lemma combination_count_expansion:
  assumes "rm_template m = []"
  shows "combination_count templates m = wrap64 (int (expansion_size m))"
proof -
  have step: "foldl (\<lambda>count dimension. if 0 < length dimension then wrap64 (count * int (length dimension)) else count)
      (wrap64 a) ds = wrap64 (a * int (prod_list (map dim_size ds)))" for a and ds :: "string list list"
  proof (induction ds arbitrary: a)
    case (Cons d ds)
    show ?case
      using Cons [of "a * int (length d)"] Cons [of a]
      by (simp add: dim_size_def wrap64_mult_left mult.assoc)
  qed simp
  show ?thesis
    using assms step [of 1 "[rm_domains m, rm_ip_cidrs m, rm_protocols m, rm_ports m, rm_rule_sets m]"]
    by (simp add: combination_count_def expansion_size_def mult.assoc)
qed

text \<open>The limit of 256 rules per match holds for every accepted match whose true number of
  combinations fits Go's \<open>int\<close>: the compiler then emits at most 256 variants for it.\<close>

theorem accepted_match_expands_within_limit:
  assumes "validate_match sets templates m = None"
    and "expansion_size (effective_match templates m) < 2 ^ 63"
  shows "\<exists>refs variants. rule_variants templates m = Inr (variants, refs)
    \<and> 1 \<le> length variants \<and> length variants \<le> 256"
proof -
  let ?e = "effective_match templates m"
  have "combination_count templates m = int (expansion_size ?e)"
  proof (cases "rm_template m = []")
    case True
    then show ?thesis
      using assms(2) by (simp add: combination_count_expansion effective_match_def wrap64_id)
  next
    case False
    with assms(1) obtain t where "templates (rm_template m) = Some t" "direct_dimensions m = 0" "tp_rule_sets t \<noteq> []"
      by (auto simp: validate_match_def split: option.splits)
    then show ?thesis
      using False
      by (simp add: combination_count_def effective_match_def expansion_size_def dim_size_def direct_dimensions_def)
  qed
  moreover have "combination_count templates m \<le> 256"
    using assms(1) by (simp add: validate_match_def)
  moreover have "length (all_variants ?e) \<noteq> 0"
    by (simp add: all_variants_nonempty)
  ultimately show ?thesis
    by (simp add: rule_variants_valid [OF assms(1)] length_all_variants Suc_le_eq
        all_variants_nonempty)
qed

definition overflow_match :: rule_match where
  "overflow_match = \<lparr>rm_domains = replicate 65536 ''a.io'', rm_ip_cidrs = replicate 65536 ''10.0.0.0/8'',
     rm_protocols = replicate 65536 ''tcp'', rm_ports = replicate 65536 ''53'', rm_rule_sets = [],
     rm_template = []\<rparr>"

text \<open>C38: The limit is not enforced beyond that width: the product of the dimensions is computed in a
  wrapping 64-bit integer, so a match with four dimensions of 65536 entries is accepted although it
  expands to 2^64 rules.\<close>

theorem match_limit_wraps_around:
  "validate_match Map.empty Map.empty overflow_match = None
   \<and> combination_count Map.empty overflow_match = 0
   \<and> length (all_variants (effective_match Map.empty overflow_match)) = 2 ^ 64"
proof -
  have tmpl: "rm_template overflow_match = []"
    by (simp add: overflow_match_def)
  have size: "expansion_size overflow_match = 2 ^ 64"
    by (simp add: expansion_size_def overflow_match_def dim_size_def)
  have cc: "combination_count Map.empty overflow_match = 0"
    using combination_count_expansion [OF tmpl, of Map.empty, unfolded size] by (simp add: wrap64_def)
  have "validate_match Map.empty Map.empty overflow_match = None"
    unfolding validate_match_def cc
    by (simp add: overflow_match_def direct_dimensions_def) (simp add: go_eval)
  then show ?thesis
    using cc size by (simp add: length_all_variants effective_match_def tmpl)
qed

subsection \<open>Validation against the LAN\<close>

lemma protected_ips_Inr:
  assumes "protected_ips s prot = Inr out"
  shows "set out = {ipv4_string (to4 (parse_ip v)) | v. v \<in> set prot \<and> scope_contains s (to4 (parse_ip v))}
    \<and> (\<forall>v \<in> set prot. to4 (parse_ip v) \<noteq> [])"
proof -
  have "rfold (\<lambda>acc value. let ip = to4 (parse_ip value) in
         if ip = [] then Inl (ProtectedIPInvalid value)
         else if \<not> scope_contains s ip then Inr acc else Inr (ipv4_string ip # acc)) acc prot = Inr out \<Longrightarrow>
     set out = set acc \<union> {ipv4_string (to4 (parse_ip v)) | v. v \<in> set prot \<and> scope_contains s (to4 (parse_ip v))}
     \<and> (\<forall>v \<in> set prot. to4 (parse_ip v) \<noteq> [])" for acc
  proof (induction prot arbitrary: acc)
    case (Cons v prot)
    then show ?case by (auto simp: Let_def split: if_splits)
  qed simp
  from this [of "[]"] assms show ?thesis by (simp add: protected_ips_def)
qed

text \<open>C39: A policy accepted for the gateway LAN assigns its active in-LAN devices addresses the LAN
  may hand out: each is a host offset of the subnet, none is the gateway itself, none is one of the
  protected addresses, and no two devices share one.\<close>

theorem lan_policy_addresses_usable:
  assumes "new_scope gateway n = Inr s"
    and "validate_policy_set_for_lan url_parse ps s prot ip_only = None"
    and "md \<in> set (active_devices ip_only ps)" and "scope_contains s (to4 (parse_ip (md_ipv4 md)))"
  shows "(\<exists>k. scope_offset s (to4 (parse_ip (md_ipv4 md))) = Some k \<and> 1 \<le> k \<and> k \<le> host_count s)
    \<and> to4 (parse_ip (md_ipv4 md)) \<noteq> sc_gateway s
    \<and> (\<forall>v \<in> set prot. to4 (parse_ip v) \<noteq> to4 (parse_ip (md_ipv4 md)))
    \<and> (\<forall>md' \<in> set (ps_devices ps). to4 (parse_ip (md_ipv4 md')) = to4 (parse_ip (md_ipv4 md)) \<longrightarrow> md' = md)"
proof -
  let ?ip = "to4 (parse_ip (md_ipv4 md))"
  from assms(2) obtain out where v: "validate_policy_set url_parse ps = None"
    and out: "protected_ips s prot = Inr out"
    and each: "\<forall>md \<in> set (ps_devices ps). validate_device_for_lan s out ip_only md = None"
    by (auto simp: validate_policy_set_for_lan_def split: sum.splits)
  have md: "md \<in> set (ps_devices ps)" "ip_only \<or> trim_space (md_mac md) \<noteq> []"
    using assms(3) by (auto simp: active_devices_def device_active_def)
  with each assms(4) have ok: "usable_host s ?ip" "\<not> ip_equal ?ip (sc_gateway s)" "ipv4_string ?ip \<notin> set out"
    by (auto simp: validate_device_for_lan_def Let_def)
  have ne: "?ip \<noteq> []"
    using validate_policy_set_None(7) [OF v] md(1) by (auto simp: device_ok_def)
  have gw: "?ip \<noteq> sc_gateway s"
    using ok(2) by (auto simp: ip_equal_same_length)
  have prot: "to4 (parse_ip v) \<noteq> ?ip" if "v \<in> set prot" for v
    using protected_ips_Inr [OF out] that assms(4) ok(3) by auto
  have uniq: "md' = md" if "md' \<in> set (ps_devices ps)" "to4 (parse_ip (md_ipv4 md')) = ?ip" for md'
    using validate_policy_set_None(9) [OF v] that md(1)
    by (auto simp: distinct_map inj_on_def device_ip_def)
  from new_scope_wf [OF assms(1)] ok(1)
  have "\<exists>k. scope_offset s ?ip = Some k \<and> 1 \<le> k \<and> k \<le> host_count s"
    using usable_host_iff_offset by blast
  with gw prot uniq show ?thesis by blast
qed

subsection \<open>Narrowing to a network\<close>

definition seen_within :: "seen_devices \<Rightarrow> seen_devices \<Rightarrow> bool" where
  "seen_within a b \<longleftrightarrow> set (sd_ids a) \<subseteq> set (sd_ids b) \<and> set (sd_macs a) \<subseteq> set (sd_macs b)
     \<and> set (sd_ips a) \<subseteq> set (sd_ips b)"

lemma validate_device_mono:
  assumes "validate_device profiles b md = Inr b'" and "seen_within a b"
  shows "\<exists>a'. validate_device profiles a md = Inr a' \<and> seen_within a' b'"
proof -
  note v = validate_device_Inr [OF assms(1)]
  have e: "device_identity_error b md = None" "device_mac_error b md = None"
    "device_ip_error b md = None" "device_modes_error profiles md = None"
    using assms(1) by (auto simp: validate_device_def split: option.splits)
  then have "device_identity_error a md = None" "device_mac_error a md = None" "device_ip_error a md = None"
    using assms(2)
    by (auto simp: device_identity_error_def device_mac_error_def device_ip_error_def seen_within_def Let_def
        split: if_splits option.splits)
  then obtain a' where a': "validate_device profiles a md = Inr a'"
    using e(4) by (simp add: validate_device_def)
  from validate_device_Inr(5) [OF a'] v(5) assms(2) have "seen_within a' b'"
    by (auto simp: seen_within_def split: option.splits)
  with a' show ?thesis by blast
qed

lemma validate_devices_filter:
  assumes "rfold (validate_device profiles) b ds = Inr b'" and "seen_within a b"
  shows "\<exists>a'. rfold (validate_device profiles) a (filter P ds) = Inr a'"
  using assms
proof (induction ds arbitrary: a b)
  case (Cons md ds)
  then obtain mid where mid: "validate_device profiles b md = Inr mid"
    "rfold (validate_device profiles) mid ds = Inr b'"
    by (auto simp: result_simps)
  obtain a1 where a1: "validate_device profiles a md = Inr a1" "seen_within a1 mid"
    using validate_device_mono [OF mid(1) Cons.prems(2)] by blast
  have "seen_within a mid"
    using Cons.prems(2) validate_device_Inr(5) [OF mid(1)]
    by (auto simp: seen_within_def split: option.splits)
  then show ?case
    using Cons.IH [OF mid(2)] a1 by auto
qed simp

lemma validate_policy_set_narrowed:
  assumes "validate_policy_set url_parse ps = None"
  shows "validate_policy_set url_parse (ps\<lparr>ps_devices := filter P (ps_devices ps)\<rparr>) = None"
proof -
  from assms have "validate_devices (index_by pf_id (ps_profiles ps)) (ps_devices ps) = None"
    by (simp add: validate_policy_set_def Let_def)
  then obtain b' where "rfold (validate_device (index_by pf_id (ps_profiles ps)))
      \<lparr>sd_ids = [], sd_macs = [], sd_ips = []\<rparr> (ps_devices ps) = Inr b'"
    by (auto simp: validate_devices_def split: sum.splits)
  from validate_devices_filter [OF this, of "\<lparr>sd_ids = [], sd_macs = [], sd_ips = []\<rparr>" P]
  obtain a' where "rfold (validate_device (index_by pf_id (ps_profiles ps)))
      \<lparr>sd_ids = [], sd_macs = [], sd_ips = []\<rparr> (filter P (ps_devices ps)) = Inr a'"
    by (auto simp: seen_within_def)
  then have "validate_devices (index_by pf_id (ps_profiles ps)) (filter P (ps_devices ps)) = None"
    by (simp add: validate_devices_def)
  then show ?thesis
    using assms by (simp add: validate_policy_set_def Let_def)
qed

lemma net_contains_device_ip:
  assumes "to4 (parse_ip (md_ipv4 md)) \<noteq> []"
  shows "net_contains n (parse_ip (device_ip md)) = net_contains n (parse_ip (md_ipv4 md))"
proof -
  have "to4 (parse_ip (device_ip md)) = to4 (parse_ip (md_ipv4 md))"
    using assms parse_ip_ipv4_string to4_parse_ip_cases device_ip_def by metis
  with assms show ?thesis by (simp add: net_contains_def)
qed

text \<open>Narrowing a valid policy to the devices of the gateway network keeps it valid, and compiling
  the narrowed policy keeps exactly the compiled devices inside the network, unchanged and in order:
  devices of other networks stay registered without influencing the run.\<close>

theorem active_policy_compiles_to_members:
  assumes "compile_policy_set url_parse ps ip_only res = Inr c"
  shows "\<exists>c'. compile_policy_set url_parse (active_policy_set_for_network ps n) ip_only res = Inr c'
    \<and> cp_devices c' = filter (\<lambda>d. net_contains n (parse_ip (cd_ipv4 d))) (cp_devices c)"
proof -
  note a = compiled_active [OF assms]
  let ?ps = "active_policy_set_for_network ps n"
  let ?in = "\<lambda>md. net_contains n (parse_ip (md_ipv4 md))"
  have valid: "validate_policy_set url_parse ?ps = None"
    unfolding active_policy_set_for_network_def by (rule validate_policy_set_narrowed [OF a(1)])
  have pf: "profile_of ?ps md = profile_of ps md" for md
    by (simp add: profile_of_def profile_index_def template_index_def active_policy_set_for_network_def)
  have ds: "active_devices ip_only ?ps = filter ?in (active_devices ip_only ps)"
    by (simp add: active_devices_def active_policy_set_for_network_def conj_commute)
  have mem: "net_contains n (parse_ip (device_ip md)) = ?in md" if "md \<in> set (active_devices ip_only ps)" for md
    using a(6) [OF that] by (intro net_contains_device_ip) (simp add: device_ok_def)
  have "cp_devices (reference_policy res ip_only ?ps)
      = filter (\<lambda>d. net_contains n (parse_ip (cd_ipv4 d))) (cp_devices c)"
    unfolding a(2) reference_policy_fields pf ds
    by (simp add: filter_map o_def mem cong: filter_cong)
  then show ?thesis
    using compile_reference [OF valid] by simp
qed

end
