(* ===== verification/PolicyRuns.thy ===== *)
theory PolicyRuns
  imports PolicyLan
begin

text \<open>
  One concrete policy (a television behind the gateway, a NAS sent to the upstream router, a camera
  without a MAC address) and the properties of the compiler applied to it.
\<close>

subsection \<open>A policy for concrete runs\<close>

definition sample_match :: rule_match where
  "sample_match = \<lparr>rm_domains = [''a.io'', ''b.io''], rm_ip_cidrs = [], rm_protocols = [''UDP''],
     rm_ports = [], rm_rule_sets = [''ads''], rm_template = []\<rparr>"

definition sample_profile :: profile where
  "sample_profile = \<lparr>pf_id = ''home'', pf_template = [], pf_default_policies = [''HK'', ''DIRECT''],
     pf_on_unsupported = [],
     pf_rules = [\<lparr>ru_id = ''r1'', ru_match = sample_match, ru_action = [],
                   ru_policies = [''HK'', ''JP''], ru_on_unsupported = []\<rparr>]\<rparr>"

definition sample_device :: "string \<Rightarrow> string \<Rightarrow> string \<Rightarrow> string \<Rightarrow> managed_device" where
  "sample_device i mac ip target =
     \<lparr>md_id = i, md_name = [], md_mac = mac, md_ipv4 = ip, md_profile = ''home'',
      md_gateway_target = target, md_dns_view = [], md_egress_mode = ''dedicated''\<rparr>"

definition sample_policy :: policy_set where
  "sample_policy = \<lparr>ps_devices = [sample_device ''tv'' ''02:00:00:00:00:01'' ''192.168.2.50'' [],
        sample_device ''nas'' ''02:00:00:00:00:02'' ''192.168.2.51'' ''upstream_router'',
        sample_device ''cam'' [] ''192.168.2.52'' []],
      ps_profiles = [sample_profile],
      ps_rule_sets = [\<lparr>rs_id = ''ads'', rs_type = [], rs_behavior = ''domain'', rs_format = [],
                        rs_url = [], rs_interval = 0, rs_payload = [''+.ad.io'']\<rparr>],
      ps_templates = []\<rparr>"

lemmas lan_eval [go_eval] =
  scope_contains_def usable_host_def scope_broadcast_def

lemmas sample_eval [go_eval] =
  sample_policy_def sample_device_def sample_profile_def sample_match_def

lemma sample_policy_valid: "validate_policy_set (\<lambda>_. None) sample_policy = None"
  by (simp add: go_eval)

lemma sample_compiles:
  "compile_policy_set (\<lambda>_. None) sample_policy ip_only res = Inr (reference_policy res ip_only sample_policy)"
  by (rule compile_reference [OF sample_policy_valid])

abbreviation tv :: managed_device where
  "tv \<equiv> sample_device ''tv'' ''02:00:00:00:00:01'' ''192.168.2.50'' []"

abbreviation nas :: managed_device where
  "nas \<equiv> sample_device ''nas'' ''02:00:00:00:00:02'' ''192.168.2.51'' ''upstream_router''"

definition sample_res :: policy_resolution where
  "sample_res = \<lparr>pr_available_targets = [''JP''],
     pr_selections = [''device/tv/r1'' \<mapsto> ''JP''], pr_selections_unavailable = False\<rparr>"

lemma sample_active: "active_devices False sample_policy = [tv, nas]"
  by (simp add: active_devices_def device_active_def sample_policy_def) (simp add: go_eval)

lemma sample_profile_of: "profile_of sample_policy (sample_device i m a g) = sample_profile"
  by (simp add: profile_of_def device_profile_def profile_index_def sample_policy_def sample_device_def
      sample_profile_def resolve_profile_def index_by_def)

lemma sample_text:
  "device_ip (sample_device i m ''192.168.2.50'' g) = ''192.168.2.50''"
  "device_ip (sample_device i m ''192.168.2.51'' g) = ''192.168.2.51''"
  "mac_text (sample_device i ''02:00:00:00:00:01'' a g) = ''02:00:00:00:00:01''"
  "mac_text (sample_device i ''02:00:00:00:00:02'' a g) = ''02:00:00:00:00:02''"
  by (simp_all add: device_ip_def mac_text_def device_mac_def go_eval)

lemma sample_routed: "routed tv" "\<not> routed nas"
  by (simp_all add: routed_def sample_device_def effective_gateway_target_def target_upstream_router_def
      target_opensurge_def)

lemma sample_variants:
  "all_variants (effective_match T sample_match) =
     [[''DOMAIN-SUFFIX,a.io'', ''NETWORK,udp'', ''RULE-SET,open-surge-ruleset-ads''],
      [''DOMAIN-SUFFIX,b.io'', ''NETWORK,udp'', ''RULE-SET,open-surge-ruleset-ads'']]"
  by (simp add: sample_match_def effective_match_def all_variants_def append_condition_dimension_def
      domain_conditions_def ip_cidr_conditions_def protocol_conditions_def port_conditions_def
      rule_set_conditions_def rule_set_provider_name_def) (simp add: go_eval)

lemmas sample_parts = reference_policy_fields sample_active sample_profile_of device_part_def sample_routed
  sample_text

lemmas sample_rules = sample_text [unfolded sample_device_def] sample_profile_def rule_slots_def rule_output_def rule_target_def rule_action_targets_def
  device_slots_def default_choice_def run_egress_def default_output_def default_rules_of_def
  override_rules_of_def resolve_unsupported_def action_can_fall_through_def device_group_name_def
  compose_rule_def source_payload_def

subsection \<open>The properties on the concrete policy\<close>

theorem rules_scoped_to_one_device_witness:
  "\<exists>d \<in> set (cp_devices (reference_policy None False sample_policy)).
     cd_gateway_target d \<noteq> target_upstream_router
     \<and> scoped_to (cd_ipv4 d) ''SRC-IP-CIDR,192.168.2.50/32,device/tv/default''"
proof -
  have "''SRC-IP-CIDR,192.168.2.50/32,device/tv/default''
      \<in> set (cp_dedicated_rules (reference_policy None False sample_policy))"
    by (simp add: sample_parts) (simp add: sample_rules sample_device_def effective_egress_mode_def
        egress_dedicated_def egress_inherit_global_def)
  then show ?thesis
    using rules_scoped_to_one_device [OF sample_compiles, where res = None and ip_only = False] by fastforce
qed

theorem reservations_are_mac_devices_witness:
  "map rv_ipv4 (cp_reservations (reference_policy None False sample_policy)) = [''192.168.2.50'', ''192.168.2.51'']
   \<and> list_all (\<lambda>d. cd_mac d \<noteq> []) (cp_devices (reference_policy None False sample_policy))"
  using reservations_are_mac_devices [OF sample_compiles, where res = None and ip_only = False]
  by (simp add: sample_parts list_all_iff)

theorem upstream_devices_only_reserved_witness:
  "cd_groups (run_device None sample_profile nas) = Map.empty
   \<and> run_device None sample_profile nas \<in> set (cp_devices (reference_policy None False sample_policy))"
proof -
  have "run_device None sample_profile nas \<in> set (cp_devices (reference_policy None False sample_policy))"
    by (simp add: sample_parts)
  moreover have "cd_gateway_target (run_device None sample_profile nas) = target_upstream_router"
    by (simp add: sample_device_def effective_gateway_target_def target_upstream_router_def)
  ultimately show ?thesis
    using upstream_devices_only_reserved [OF sample_compiles, where res = None and ip_only = False] by blast
qed

theorem selector_groups_wellformed_witness:
  "map sg_name (cp_selector_groups (reference_policy None False sample_policy))
     = [''device/tv/default'', ''device/tv/r1'']
   \<and> distinct (map sg_name (cp_selector_groups (reference_policy None False sample_policy)))"
  using selector_groups_wellformed [OF sample_compiles, where res = None and ip_only = False]
  by (simp add: sample_parts) (simp add: sample_rules sample_device_def effective_egress_mode_def
      egress_inherit_global_def mk_group_def)

theorem unsupported_traffic_rejected_witness:
  "sublist
     [''AND,((SRC-IP-CIDR,192.168.2.50/32),(DOMAIN-SUFFIX,b.io),(NETWORK,udp),(RULE-SET,open-surge-ruleset-ads)),device/tv/r1'',
      ''AND,((SRC-IP-CIDR,192.168.2.50/32),(DOMAIN-SUFFIX,b.io),(NETWORK,udp),(RULE-SET,open-surge-ruleset-ads)),REJECT'']
     (cp_override_rules (reference_policy None False sample_policy))"
proof -
  have "action_can_fall_through ''device/tv/r1''"
    by (simp add: action_can_fall_through_def builtin_targets_def) (simp add: go_eval)
  then show ?thesis
    using unsupported_traffic_rejected [OF sample_compiles, of tv False "hd (pf_rules sample_profile)" None
        "''device/tv/r1''" "[''DOMAIN-SUFFIX,b.io'', ''NETWORK,udp'', ''RULE-SET,open-surge-ruleset-ads'']"]
    by (simp add: sample_active sample_profile_of sample_routed sample_text)
      (simp add: sample_rules sample_variants sample_device_def)
qed

theorem providers_are_referenced_sets_witness:
  "\<exists>ids. sorted ids \<and> distinct ids \<and> set ids = {''ads''}
     \<and> map rp_name (cp_rule_providers (reference_policy None False sample_policy)) = map rule_set_provider_name ids"
proof -
  have "emitted_references None False sample_policy = {''ads''}"
    by (simp add: emitted_references_def sample_active sample_routed sample_profile_of)
      (simp add: sample_profile_def sample_match_def rule_target_def effective_match_def)
  then show ?thesis
    using providers_are_referenced_sets [OF sample_compiles, where res = None and ip_only = False] by auto
qed

theorem resolve_selector_keeps_available_witness:
  "mset (fst (resolve_selector (Some sample_res) ''tv'' ''r1'' [''HK'', ''JP''])) = {#''JP''#}"
proof -
  have a: "target_available (Some sample_res) ''JP''" "\<not> target_available (Some sample_res) ''HK''"
    by (simp_all add: target_available_def builtin_targets_def sample_res_def) (simp_all add: go_eval)
  moreover have "fst (resolve_selector (Some sample_res) ''tv'' ''r1'' [''HK'', ''JP'']) \<noteq> []"
    using a by (simp add: resolve_selector_def Let_def device_group_name_def move_front_facts)
      (simp add: sample_res_def)
  ultimately show ?thesis
    using resolve_selector_keeps_available [where res = sample_res and did = "''tv''"
        and slot = "''r1''" and candidates = "[''HK'', ''JP'']"]
    by (auto split: prod.splits)
qed

theorem resolved_targets_available_witness:
  "''JP'' \<in> set (cp_selector_targets (reference_policy (Some sample_res) False sample_policy))
   \<and> (to_upper ''JP'' \<in> builtin_targets \<or> ''JP'' \<in> set (pr_available_targets sample_res))"
proof -
  have a: "target_available (Some sample_res) ''JP''" "\<not> target_available (Some sample_res) ''HK''"
    by (simp_all add: target_available_def builtin_targets_def sample_res_def) (simp_all add: go_eval)
  have "rule_slots (Some sample_res) ''tv'' (hd (pf_rules sample_profile)) = [(''r1'', [''JP''])]"
    using a by (simp add: rule_slots_def sample_profile_def resolve_selector_def Let_def device_group_name_def)
      (simp add: sample_res_def move_front_def)
  then have "''JP'' \<in> set (cp_selector_targets (reference_policy (Some sample_res) False sample_policy))"
    by (simp add: sample_parts) (simp add: device_slots_def sample_profile_def sample_device_def)
  then show ?thesis
    using resolved_targets_available [OF sample_compiles, where t = "''JP''" and res = sample_res and ip_only = False] by simp
qed

theorem full_inventory_changes_nothing_witness:
  "compile_policy_set (\<lambda>_. None) sample_policy False
     (Some \<lparr>pr_available_targets = [''HK'', ''JP''], pr_selections = Map.empty, pr_selections_unavailable = False\<rparr>)
   = Inr (reference_policy None False sample_policy)"
proof (rule full_inventory_changes_nothing [OF sample_compiles])
  have "cp_selector_targets (reference_policy None False sample_policy) = [''HK'', ''DIRECT'', ''HK'', ''JP'']"
    "cp_action_targets (reference_policy None False sample_policy) = []"
    by (simp_all add: sample_parts) (simp_all add: sample_rules sample_device_def effective_egress_mode_def
        egress_inherit_global_def)
  then show "\<forall>t \<in> set (cp_selector_targets (reference_policy None False sample_policy)
      @ cp_action_targets (reference_policy None False sample_policy)).
     target_available (Some \<lparr>pr_available_targets = [''HK'', ''JP''], pr_selections = Map.empty,
       pr_selections_unavailable = False\<rparr>) t"
    by (simp add: target_available_def builtin_targets_def) (simp add: go_eval)
qed

theorem accepted_match_expands_within_limit_witness:
  "\<exists>refs variants. rule_variants Map.empty sample_match = Inr (variants, refs)
     \<and> 1 \<le> length variants \<and> length variants \<le> 256"
proof (rule accepted_match_expands_within_limit)
  show "validate_match (set_index sample_policy) Map.empty sample_match = None"
    by (simp add: set_index_def go_eval)
  show "expansion_size (effective_match Map.empty sample_match) < 2 ^ 63"
    by (simp add: effective_match_def expansion_size_def dim_size_def sample_match_def)
qed

theorem lan_policy_addresses_usable_witness:
  "\<exists>k. scope_offset \<lparr>sc_gateway = [192, 168, 2, 241],
      sc_network = \<lparr>net_ip = [192, 168, 2, 0], net_mask = [255, 255, 255, 0]\<rparr>\<rparr>
      (to4 (parse_ip ''192.168.2.50'')) = Some k \<and> 1 \<le> k"
proof -
  let ?s = "\<lparr>sc_gateway = [192, 168, 2, 241],
      sc_network = \<lparr>net_ip = [192, 168, 2, 0], net_mask = [255, 255, 255, 0]\<rparr>\<rparr>"
  have ips: "to4 (parse_ip ''192.168.2.50'') = [192, 168, 2, 50]" "to4 (parse_ip ''192.168.2.51'') = [192, 168, 2, 51]"
    "to4 (parse_ip ''192.168.2.1'') = [192, 168, 2, 1]" "to4 (parse_ip ''192.168.2.52'') = [192, 168, 2, 52]"
    by (simp_all add: go_eval)
  have "protected_ips ?s [''192.168.2.1''] = Inr [''192.168.2.1'']"
    by (simp add: protected_ips_def ips Let_def) (simp add: go_eval)
  moreover have "validate_device_for_lan ?s [''192.168.2.1''] False tv = None"
    "validate_device_for_lan ?s [''192.168.2.1''] False nas = None"
    "validate_device_for_lan ?s [''192.168.2.1''] False (sample_device ''cam'' [] ''192.168.2.52'' []) = None"
    by (simp_all add: validate_device_for_lan_def sample_device_def ips) (simp_all add: go_eval)
  ultimately have "validate_policy_set_for_lan (\<lambda>_. None) sample_policy ?s [''192.168.2.1''] False = None"
    by (simp add: validate_policy_set_for_lan_def sample_policy_valid) (simp add: sample_policy_def)
  moreover have "scope_contains ?s (to4 (parse_ip (md_ipv4 tv)))"
    by (simp add: sample_device_def ips) (simp add: go_eval)
  ultimately show ?thesis
    using lan_policy_addresses_usable [OF scope_example, of "\<lambda>_. None" sample_policy "[''192.168.2.1'']" False tv]
    by (auto simp: sample_active) (simp add: sample_device_def)
qed

theorem active_policy_compiles_to_members_witness:
  "\<exists>c. compile_policy_set (\<lambda>_. None)
       (active_policy_set_for_network sample_policy \<lparr>net_ip = [192, 168, 2, 50], net_mask = [255, 255, 255, 255]\<rparr>)
       False None = Inr c
     \<and> map cd_id (cp_devices c) = [''tv'']"
proof -
  let ?n = "\<lparr>net_ip = [192, 168, 2, 50], net_mask = [255, 255, 255, 255]\<rparr>"
  have "map cd_id (filter (\<lambda>d. net_contains ?n (parse_ip (cd_ipv4 d)))
      (cp_devices (reference_policy None False sample_policy))) = [''tv'']"
    by (simp add: sample_parts) (simp add: go_eval)
  then show ?thesis
    using active_policy_compiles_to_members [OF sample_compiles, where n = ?n and res = None and ip_only = False] by auto
qed

end
