(* ===== verification/PolicyBundle.thy ===== *)
theory PolicyBundle
  imports PolicyRuns
begin

text \<open>
  \<open>internal/device/bundle.go\<close> and \<open>ResolvePolicyBundle\<close>: the policy artifact one gateway run
  consumes, how it is made, and the checks a stored artifact passes before it is used again. JSON
  marshalling of the policy, JSON compaction and SHA-256 are parameters (\<open>bundle_lib\<close>).
\<close>

record policy_bundle =
  pb_schema_version :: int
  pb_digest :: string
  pb_canonical_json :: string
  pb_policy :: policy_set
  pb_compiled :: compiled_policy
  pb_ip_only_active :: bool
  pb_active_lan :: string
  pb_resolution :: "policy_resolution option"

record bundle_lib =
  bl_url_parse :: url_parser
  bl_marshal :: "policy_set \<Rightarrow> string option"
  bl_compact :: "string \<Rightarrow> string option"
  bl_sha256_hex :: "string \<Rightarrow> string"

datatype bundle_error =
    BundleInvalidPolicy policy_error
  | BundleMarshal
  | BundleCompile policy_error
  | BundleSchema int
  | BundleCompact
  | BundleCanonicalMismatch
  | BundleDigestMismatch
  | BundleActiveLAN string
  | BundleInvalid

subsection \<open>Compiling a bundle\<close>

definition compile_policy_bundle_for ::
  "bundle_lib \<Rightarrow> policy_set \<Rightarrow> policy_set \<Rightarrow> bool \<Rightarrow> string \<Rightarrow> bundle_error + policy_bundle" where
  "compile_policy_bundle_for lib ps active ip_only active_lan =
     (case validate_policy_set (bl_url_parse lib) ps of
        Some e \<Rightarrow> Inl (BundleInvalidPolicy e)
      | None \<Rightarrow>
          (case bl_marshal lib ps of
             None \<Rightarrow> Inl BundleMarshal
           | Some canonical \<Rightarrow>
               (case compile_policy_set_for_ip_only_mode (bl_url_parse lib) active ip_only of
                  Inl e \<Rightarrow> Inl (BundleCompile e)
                | Inr compiled \<Rightarrow>
                    Inr \<lparr>pb_schema_version = 1, pb_digest = bl_sha256_hex lib canonical,
                      pb_canonical_json = canonical, pb_policy = ps, pb_compiled = compiled,
                      pb_ip_only_active = ip_only, pb_active_lan = active_lan, pb_resolution = None\<rparr>)))"

definition compile_policy_bundle_for_ip_only_mode ::
  "bundle_lib \<Rightarrow> policy_set \<Rightarrow> bool \<Rightarrow> bundle_error + policy_bundle" where
  "compile_policy_bundle_for_ip_only_mode lib ps ip_only = compile_policy_bundle_for lib ps ps ip_only []"

definition compile_policy_bundle :: "bundle_lib \<Rightarrow> policy_set \<Rightarrow> bundle_error + policy_bundle" where
  "compile_policy_bundle lib ps = compile_policy_bundle_for_ip_only_mode lib ps True"

definition compile_policy_bundle_for_lan ::
  "bundle_lib \<Rightarrow> policy_set \<Rightarrow> scope \<Rightarrow> bool \<Rightarrow> bundle_error + policy_bundle" where
  "compile_policy_bundle_for_lan lib ps s ip_only =
     compile_policy_bundle_for lib ps (active_policy_set_for_lan ps s) ip_only (scope_string s)"

subsection \<open>Reading a stored bundle\<close>

text \<open>The network a non-empty \<open>active_lan\<close> names, checked as the code checks it.\<close>

definition active_network :: "string \<Rightarrow> ipnet option" where
  "active_network active_lan =
     (case parse_cidr active_lan of
        None \<Rightarrow> None
      | Some (_, network) \<Rightarrow>
          (case mask_size (net_mask network) of
             (prefix_len, bits) \<Rightarrow>
               if to4 (net_ip network) = [] \<or> bits \<noteq> 32 \<or> \<not> valid_prefix_len (int prefix_len)
                  \<or> ipnet_string network \<noteq> active_lan
               then None else Some network))"

definition active_policy_of :: "policy_set \<Rightarrow> string \<Rightarrow> bundle_error + policy_set" where
  "active_policy_of ps active_lan =
     (if active_lan = [] then Inr ps
      else (case active_network active_lan of
              None \<Rightarrow> Inl (BundleActiveLAN active_lan)
            | Some network \<Rightarrow> Inr (active_policy_set_for_network ps network)))"

text \<open>\<open>LoadPolicyBundleSnapshot\<close> on the decoded document.\<close>

definition check_bundle_snapshot :: "bundle_lib \<Rightarrow> policy_bundle \<Rightarrow> bundle_error + policy_bundle" where
  "check_bundle_snapshot lib b =
     (if pb_schema_version b \<noteq> 1 then Inl (BundleSchema (pb_schema_version b))
      else
        (case validate_policy_set (bl_url_parse lib) (pb_policy b) of
           Some e \<Rightarrow> Inl (BundleInvalidPolicy e)
         | None \<Rightarrow>
             (case bl_marshal lib (pb_policy b) of
                None \<Rightarrow> Inl BundleMarshal
              | Some canonical \<Rightarrow>
                  (case bl_compact lib (pb_canonical_json b) of
                     None \<Rightarrow> Inl BundleCompact
                   | Some compact \<Rightarrow>
                       if compact \<noteq> canonical then Inl BundleCanonicalMismatch
                       else if pb_digest b \<noteq> bl_sha256_hex lib canonical then Inl BundleDigestMismatch
                       else
                         rbind (active_policy_of (pb_policy b) (pb_active_lan b))
                           (\<lambda>active.
                             case compile_policy_set (bl_url_parse lib) active (pb_ip_only_active b)
                                    (pb_resolution b) of
                               Inl e \<Rightarrow> Inl (BundleCompile e)
                             | Inr compiled \<Rightarrow>
                                 Inr (b\<lparr>pb_compiled := compiled, pb_canonical_json := compact\<rparr>))))))"

text \<open>The guard of \<open>WritePolicyBundleSnapshot\<close>.\<close>

definition writable_bundle :: "policy_bundle \<Rightarrow> bundle_error option" where
  "writable_bundle b = fail_if (pb_schema_version b \<noteq> 1 \<or> pb_digest b = []) BundleInvalid"

subsection \<open>Resolving a bundle\<close>

text \<open>\<open>slices.Compact\<close> after \<open>slices.Sort\<close>.\<close>

definition sorted_targets :: "string list \<Rightarrow> string list" where
  "sorted_targets ts = remdups_adj (sort ts)"

definition resolve_policy_bundle ::
  "bundle_lib \<Rightarrow> policy_bundle \<Rightarrow> policy_resolution \<Rightarrow> bundle_error + policy_bundle" where
  "resolve_policy_bundle lib b r0 =
     (let r = r0\<lparr>pr_available_targets := sorted_targets (pr_available_targets r0)\<rparr> in
      rbind
        (if pb_active_lan b = [] then Inr (pb_policy b)
         else (case parse_cidr (pb_active_lan b) of
                 None \<Rightarrow> Inl (BundleActiveLAN (pb_active_lan b))
               | Some (_, network) \<Rightarrow> Inr (active_policy_set_for_network (pb_policy b) network)))
        (\<lambda>active.
          case compile_policy_set (bl_url_parse lib) active (pb_ip_only_active b) (Some r) of
            Inl e \<Rightarrow> Inl (BundleCompile e)
          | Inr compiled \<Rightarrow> Inr (b\<lparr>pb_compiled := compiled, pb_resolution := Some r\<rparr>)))"

subsection \<open>The textual form of a scope\<close>

lemma ip_mask_idem:
  assumes "length g = 4" "length m = 4"
  shows "map2 (AND) (map2 (AND) g m) m = map2 (AND) (g :: byte list) m"
  using assms by (intro nth_equalityI) (simp_all add: and.assoc)

lemma parse_cidr_scope_string:
  assumes "wf_scope n s"
  shows "parse_cidr (scope_string s) = Some (addr_bytes (Addr4 (map unat (net_ip (sc_network s)))), sc_network s)"
proof -
  note f = wf_scope_facts [OF assms]
  have n: "8 \<le> n" "n \<le> 30" and g: "length (sc_gateway s) = 4"
    and net: "sc_network s
      = \<lparr>net_ip = map2 (AND) (sc_gateway s) (cidr_mask n 32), net_mask = cidr_mask n 32\<rparr>"
    using assms by (auto simp: wf_scope_def)
  obtain p q r t where nn: "net_ip (sc_network s) = [p, q, r, t]"
    using f(1) by (auto simp: length_Suc_conv numeral_eq_Suc)
  have str: "scope_string s = ipv4_string [p, q, r, t] @ CHR ''/'' # itoa n"
    unfolding scope_string_def ipnet_string_def f(5) nn
    using n f(3) by (auto simp: mask_size_cidr_mask)
  have dt: "dtoi (itoa n) = Some n"
    using n by (simp add: dtoi_def)
  have mask: "ip_mask (addr_bytes (Addr4 (map unat [p, q, r, t]))) (cidr_mask n 32)
      = map2 (AND) [p, q, r, t] (cidr_mask n 32)"
    using f(3) by (simp add: ip_mask_def addr_bytes_def v4_in_v6_prefix_def)
  have "map2 (AND) [p, q, r, t] (cidr_mask n 32) = [p, q, r, t]"
    using ip_mask_idem [OF g f(3)] nn net by simp
  then show ?thesis
    unfolding parse_cidr_def str
    using n mask nn f(2) by (simp add: cut_append ipv4_string_no_slash parse_addr_ipv4_string dt addr_bits_def Let_def)
qed

lemma scope_string_nonempty: "wf_scope n s \<Longrightarrow> scope_string s \<noteq> []"
  using parse_cidr_scope_string by (force simp: parse_cidr_def)

lemma active_network_scope_string:
  assumes "wf_scope n s"
  shows "active_network (scope_string s) = Some (sc_network s)"
proof -
  note f = wf_scope_facts [OF assms]
  have n: "8 \<le> n" "n \<le> 30" using assms by (auto simp: wf_scope_def)
  have "to4 (net_ip (sc_network s)) \<noteq> []" using f(1,4) by auto
  then show ?thesis
    using n unfolding active_network_def parse_cidr_scope_string [OF assms]
    by (simp add: f(2) mask_size_cidr_mask valid_prefix_len_def min_prefix_len_def max_prefix_len_def
        scope_string_def)
qed

subsection \<open>Properties of bundles\<close>

text \<open>A bundle compiled for a LAN and stored with re-indented JSON is read back unchanged: whatever
  text the file holds, if it compacts to the canonical JSON the check accepts it and recomputes the
  same compiled policy from the policy document.\<close>

theorem bundle_snapshot_roundtrip:
  assumes "new_scope gateway n = Inr s"
    and "compile_policy_bundle_for_lan lib ps s ip_only = Inr b"
    and "bl_compact lib stored = Some (pb_canonical_json b)"
  shows "check_bundle_snapshot lib (b\<lparr>pb_canonical_json := stored, pb_compiled := forged\<rparr>) = Inr b"
proof -
  from new_scope_wf [OF assms(1)] have wf: "wf_scope (nat (prefix_len_or_default n)) s" by simp
  have ne: "scope_string s \<noteq> []"
    by (rule scope_string_nonempty [OF wf])
  from assms(2) obtain canonical compiled where
    v: "validate_policy_set (bl_url_parse lib) ps = None" "bl_marshal lib ps = Some canonical"
    "compile_policy_set (bl_url_parse lib) (active_policy_set_for_network ps (sc_network s)) ip_only None = Inr compiled"
    and b: "b = \<lparr>pb_schema_version = 1, pb_digest = bl_sha256_hex lib canonical,
              pb_canonical_json = canonical, pb_policy = ps, pb_compiled = compiled,
              pb_ip_only_active = ip_only, pb_active_lan = scope_string s, pb_resolution = None\<rparr>"
    by (auto simp: compile_policy_bundle_for_lan_def compile_policy_bundle_for_def active_policy_set_for_lan_def
        compile_policy_set_for_ip_only_mode_def split: option.splits sum.splits)
  show ?thesis
    using assms(3) v ne
    by (simp add: b check_bundle_snapshot_def active_policy_of_def active_network_scope_string [OF wf])
qed

definition toy_lib :: bundle_lib where
  "toy_lib = \<lparr>bl_url_parse = (\<lambda>_. None), bl_marshal = (\<lambda>_. Some ''{}''),
     bl_compact = (\<lambda>t. Some (filter (\<lambda>c. c \<noteq> CHR '' '') t)), bl_sha256_hex = (\<lambda>t. itoa (length t))\<rparr>"

lemma toy_bundle:
  "\<exists>b. compile_policy_bundle_for_lan toy_lib sample_policy
        \<lparr>sc_gateway = [192, 168, 2, 241], sc_network = \<lparr>net_ip = [192, 168, 2, 0], net_mask = [255, 255, 255, 0]\<rparr>\<rparr>
        False = Inr b \<and> pb_canonical_json b = ''{}''"
proof -
  have "validate_policy_set (\<lambda>_. None)
      (active_policy_set_for_network sample_policy \<lparr>net_ip = [192, 168, 2, 0], net_mask = [255, 255, 255, 0]\<rparr>) = None"
    unfolding active_policy_set_for_network_def by (rule validate_policy_set_narrowed [OF sample_policy_valid])
  from compile_reference [OF this] show ?thesis
    by (simp add: compile_policy_bundle_for_lan_def compile_policy_bundle_for_def toy_lib_def
        sample_policy_valid compile_policy_set_for_ip_only_mode_def active_policy_set_for_lan_def)
qed

theorem bundle_snapshot_roundtrip_witness:
  "\<exists>b. compile_policy_bundle_for_lan toy_lib sample_policy
        \<lparr>sc_gateway = [192, 168, 2, 241], sc_network = \<lparr>net_ip = [192, 168, 2, 0], net_mask = [255, 255, 255, 0]\<rparr>\<rparr>
        False = Inr b
     \<and> check_bundle_snapshot toy_lib (b\<lparr>pb_canonical_json := ''{ }'', pb_compiled := empty_compiled\<rparr>) = Inr b"
proof -
  obtain b where b: "compile_policy_bundle_for_lan toy_lib sample_policy
        \<lparr>sc_gateway = [192, 168, 2, 241], sc_network = \<lparr>net_ip = [192, 168, 2, 0], net_mask = [255, 255, 255, 0]\<rparr>\<rparr>
        False = Inr b" "pb_canonical_json b = ''{}''"
    using toy_bundle by blast
  have "bl_compact toy_lib ''{ }'' = Some (pb_canonical_json b)"
    by (simp add: toy_lib_def b(2))
  from bundle_snapshot_roundtrip [OF scope_example b(1) this] b(1) show ?thesis by blast
qed

text \<open>A stored bundle is never trusted: what the check returns has the digest of its own policy
  document, that document is valid, and its compiled part is what the compiler produces for the
  devices of the recorded network and the recorded resolution, whatever the file contained.\<close>

theorem bundle_snapshot_recomputed:
  assumes "check_bundle_snapshot lib stored = Inr b"
  shows "\<exists>canonical active. bl_marshal lib (pb_policy b) = Some canonical
    \<and> pb_digest b = bl_sha256_hex lib canonical \<and> pb_canonical_json b = canonical
    \<and> validate_policy_set (bl_url_parse lib) (pb_policy b) = None
    \<and> active_policy_of (pb_policy b) (pb_active_lan b) = Inr active
    \<and> pb_compiled b = reference_policy (pb_resolution b) (pb_ip_only_active b) active
    \<and> pb_policy b = pb_policy stored"
proof -
  let ?compile = "\<lambda>active. compile_policy_set (bl_url_parse lib) active (pb_ip_only_active stored) (pb_resolution stored)"
  from assms obtain canonical active where
    v: "validate_policy_set (bl_url_parse lib) (pb_policy stored) = None"
    "bl_marshal lib (pb_policy stored) = Some canonical" "pb_digest stored = bl_sha256_hex lib canonical"
    "active_policy_of (pb_policy stored) (pb_active_lan stored) = Inr active"
    and r: "(case ?compile active of Inl e \<Rightarrow> Inl (BundleCompile e)
      | Inr compiled \<Rightarrow> Inr (stored\<lparr>pb_compiled := compiled, pb_canonical_json := canonical\<rparr>)) = Inr b"
    by (auto simp: check_bundle_snapshot_def rbind_eq_Inr_iff split: if_splits option.splits)
  from r obtain compiled where c: "?compile active = Inr compiled"
    and "b = stored\<lparr>pb_compiled := compiled, pb_canonical_json := canonical\<rparr>"
    by (cases "?compile active") auto
  note this(2) v
  moreover from c have "compiled = reference_policy (pb_resolution stored) (pb_ip_only_active stored) active"
    by (simp add: compile_Inr_iff)
  ultimately show ?thesis by simp
qed

theorem bundle_snapshot_recomputed_witness:
  "\<exists>b canonical. check_bundle_snapshot toy_lib (b\<lparr>pb_canonical_json := ''{ }'', pb_compiled := empty_compiled\<rparr>) = Inr b
     \<and> bl_marshal toy_lib (pb_policy b) = Some canonical \<and> pb_digest b = bl_sha256_hex toy_lib canonical"
proof -
  obtain b where b: "compile_policy_bundle_for_lan toy_lib sample_policy
        \<lparr>sc_gateway = [192, 168, 2, 241], sc_network = \<lparr>net_ip = [192, 168, 2, 0], net_mask = [255, 255, 255, 0]\<rparr>\<rparr>
        False = Inr b" "pb_canonical_json b = ''{}''"
    using toy_bundle by blast
  note wf = conjunct1 [OF new_scope_wf [OF scope_example]]
  from b have "check_bundle_snapshot toy_lib (b\<lparr>pb_canonical_json := ''{ }'', pb_compiled := empty_compiled\<rparr>) = Inr b"
    by (auto simp: check_bundle_snapshot_def active_policy_of_def compile_policy_bundle_for_lan_def
        compile_policy_bundle_for_def compile_policy_set_for_ip_only_mode_def active_policy_set_for_lan_def
        toy_lib_def active_network_scope_string [OF wf] scope_string_nonempty [OF wf]
        split: option.splits sum.splits)
  with bundle_snapshot_recomputed [OF this] show ?thesis by blast
qed

end
