(* ===== verification/Leases.thy ===== *)
theory Leases
  imports PolicyModel
begin

text \<open>
  \<open>internal/dhcp/leases.go\<close> (\<open>ReconcilePolicyLeases\<close>) and \<open>internal/device/scanner.go\<close> (the parser of
  dnsmasq's lease file): a policy update removes the lease rows that contradict a reservation and
  leaves every other byte of the file alone.
\<close>

subsection \<open>Reconciling the leases\<close>

text \<open>\<open>expected\<close>: the reserved address of each MAC in lower case; a later reservation wins.\<close>

definition expected_addresses :: "reservation list \<Rightarrow> string \<rightharpoonup> string" where
  "expected_addresses rs = map_of (rev (map (\<lambda>r. (to_lower (rv_mac r), rv_ipv4 r)) rs))"

definition stale_lease :: "(string \<rightharpoonup> string) \<Rightarrow> string \<Rightarrow> bool" where
  "stale_lease expected line =
     (let fs = split_fields line in
      if length fs \<ge> 3 then
        (case parse_mac (fs ! 1) of
           None \<Rightarrow> False
         | Some mac \<Rightarrow>
             (case expected (to_lower (mac_string mac)) of
                None \<Rightarrow> False
              | Some want \<Rightarrow> fs ! 2 \<noteq> want))
      else False)"

text \<open>
  The bytes \<open>ReconcilePolicyLeases\<close> writes for the bytes it read; \<open>None\<close> when it writes nothing.
\<close>

definition reconcile_policy_leases :: "reservation list \<Rightarrow> string \<Rightarrow> string option" where
  "reconcile_policy_leases rs data =
     (if rs = [] then None
      else
        let ls = split_on (CHR 0x0A) (trim_suffix data [CHR 0x0A]);
            kept = filter (\<lambda>l. \<not> stale_lease (expected_addresses rs) l) ls
        in if kept = ls then None
           else
             let result = join [CHR 0x0A] kept in
             Some (if result \<noteq> [] then result @ [CHR 0x0A] else result))"

text \<open>The file after the call: unchanged, or the written bytes.\<close>

definition lease_lines :: "string \<Rightarrow> string list" where
  "lease_lines data = split_on (CHR 0x0A) (trim_suffix data [CHR 0x0A])"

lemma expected_addresses_lookup:
  assumes "distinct (map (\<lambda>r. to_lower (rv_mac r)) rs)" and "r \<in> set rs"
  shows "expected_addresses rs (to_lower (rv_mac r)) = Some (rv_ipv4 r)"
  using assms unfolding expected_addresses_def
  by (intro map_of_is_SomeI) (auto simp: rev_map [symmetric] o_def)

lemma trim_suffix_newline: "x \<noteq> [] \<Longrightarrow> trim_suffix (x @ [CHR 0x0A]) [CHR 0x0A] = x"
  by (simp add: trim_suffix_def has_suffix_def)

lemma split_on_no_sep: "l \<in> set (split_on sep s) \<Longrightarrow> sep \<notin> set l"
proof -
  have "l \<in> set (split_aux sep acc s) \<Longrightarrow> sep \<notin> set acc \<Longrightarrow> sep \<notin> set l" for acc
  proof (induction s arbitrary: acc)
    case (Cons c s)
    from Cons.prems Cons.IH [of "[]"] Cons.IH [of "c # acc"] show ?case by (auto split: if_splits)
  qed simp
  from this [of "[]"] show "l \<in> set (split_on sep s) \<Longrightarrow> sep \<notin> set l"
    by (simp add: split_on_def)
qed

lemma written_lines:
  assumes "reconcile_policy_leases rs data = Some out" and "out \<noteq> []"
  shows "lease_lines out = filter (\<lambda>l. \<not> stale_lease (expected_addresses rs) l) (lease_lines data)"
proof -
  let ?kept = "filter (\<lambda>l. \<not> stale_lease (expected_addresses rs) l) (lease_lines data)"
  from assms have j: "join [CHR 0x0A] ?kept \<noteq> []" and out: "out = join [CHR 0x0A] ?kept @ [CHR 0x0A]"
    by (auto simp: reconcile_policy_leases_def lease_lines_def Let_def split: if_splits)
  have "\<forall>l \<in> set ?kept. CHR 0x0A \<notin> set l"
    using split_on_no_sep by (auto simp: lease_lines_def)
  moreover have "?kept \<noteq> []" using j by auto
  ultimately show ?thesis
    unfolding out lease_lines_def [of "_ @ _"] trim_suffix_newline [OF j] by (rule split_on_join [rotated])
qed

text \<open>What it means for a row to contradict the reservations, in terms of the row's own fields: its second field is a
  MAC address for which a reservation exists, the last one for that address whatever the case of its letters,
  and its third field is not the reserved address.\<close>

definition contradicts :: "reservation list \<Rightarrow> string \<Rightarrow> bool" where
  "contradicts rs line \<longleftrightarrow>
     (\<exists>mac xs r ys. 3 \<le> length (split_fields line) \<and> parse_mac (split_fields line ! 1) = Some mac
        \<and> rs = xs @ r # ys \<and> to_lower (rv_mac r) = to_lower (mac_string mac)
        \<and> (\<forall>q \<in> set ys. to_lower (rv_mac q) \<noteq> to_lower (mac_string mac))
        \<and> split_fields line ! 2 \<noteq> rv_ipv4 r)"

lemma expected_addresses_last:
  "expected_addresses rs k = Some v \<longleftrightarrow>
     (\<exists>xs r ys. rs = xs @ r # ys \<and> to_lower (rv_mac r) = k \<and> (\<forall>q \<in> set ys. to_lower (rv_mac q) \<noteq> k) \<and> rv_ipv4 r = v)"
proof (induction rs rule: rev_induct)
  case (snoc q rs)
  show ?case
  proof (cases "to_lower (rv_mac q) = k")
    case True
    have "(\<exists>xs r ys. rs @ [q] = xs @ r # ys \<and> to_lower (rv_mac r) = k \<and> (\<forall>q \<in> set ys. to_lower (rv_mac q) \<noteq> k) \<and> rv_ipv4 r = v)
        \<longleftrightarrow> rv_ipv4 q = v"
    proof
      assume "\<exists>xs r ys. rs @ [q] = xs @ r # ys \<and> to_lower (rv_mac r) = k \<and> (\<forall>q \<in> set ys. to_lower (rv_mac q) \<noteq> k) \<and> rv_ipv4 r = v"
      then obtain xs r ys where at: "rs @ [q] = xs @ r # ys" "\<forall>q \<in> set ys. to_lower (rv_mac q) \<noteq> k" "rv_ipv4 r = v" by blast
      with True have "q \<notin> set ys" by blast
      with at(1) have "ys = []" by (cases ys rule: rev_cases) auto
      with at show "rv_ipv4 q = v" by simp
    qed (use True in \<open>intro exI [of _ rs] exI [of _ q] exI [of _ "[]"], simp\<close>)
    then show ?thesis using True by (simp add: expected_addresses_def)
  next
    case False
    then have "expected_addresses (rs @ [q]) k = expected_addresses rs k" by (simp add: expected_addresses_def)
    moreover have "(\<exists>xs r ys. rs @ [q] = xs @ r # ys \<and> to_lower (rv_mac r) = k \<and> (\<forall>q \<in> set ys. to_lower (rv_mac q) \<noteq> k) \<and> rv_ipv4 r = v)
        \<longleftrightarrow> (\<exists>xs r ys. rs = xs @ r # ys \<and> to_lower (rv_mac r) = k \<and> (\<forall>q \<in> set ys. to_lower (rv_mac q) \<noteq> k) \<and> rv_ipv4 r = v)"
    proof
      assume "\<exists>xs r ys. rs @ [q] = xs @ r # ys \<and> to_lower (rv_mac r) = k \<and> (\<forall>q \<in> set ys. to_lower (rv_mac q) \<noteq> k) \<and> rv_ipv4 r = v"
      then obtain xs r ys where at: "rs @ [q] = xs @ r # ys" "to_lower (rv_mac r) = k" "\<forall>q \<in> set ys. to_lower (rv_mac q) \<noteq> k"
        "rv_ipv4 r = v" by blast
      with False have "ys \<noteq> []" by auto
      then obtain zs where "ys = zs @ [q]" "rs = xs @ r # zs" using at(1) by (cases ys rule: rev_cases) auto
      with at show "\<exists>xs r ys. rs = xs @ r # ys \<and> to_lower (rv_mac r) = k \<and> (\<forall>q \<in> set ys. to_lower (rv_mac q) \<noteq> k) \<and> rv_ipv4 r = v"
        by auto
    next
      assume "\<exists>xs r ys. rs = xs @ r # ys \<and> to_lower (rv_mac r) = k \<and> (\<forall>q \<in> set ys. to_lower (rv_mac q) \<noteq> k) \<and> rv_ipv4 r = v"
      then obtain xs r ys where at: "rs = xs @ r # ys" "to_lower (rv_mac r) = k" "\<forall>q \<in> set ys. to_lower (rv_mac q) \<noteq> k"
        "rv_ipv4 r = v" by blast
      with False show "\<exists>xs r ys. rs @ [q] = xs @ r # ys \<and> to_lower (rv_mac r) = k \<and> (\<forall>q \<in> set ys. to_lower (rv_mac q) \<noteq> k) \<and> rv_ipv4 r = v"
        by (intro exI [of _ xs] exI [of _ r] exI [of _ "ys @ [q]"]) auto
    qed
    ultimately show ?thesis using snoc.IH by simp
  qed
qed (simp add: expected_addresses_def)

lemma stale_contradicts: "stale_lease (expected_addresses rs) l \<longleftrightarrow> contradicts rs l"
proof -
  have "stale_lease (expected_addresses rs) l \<longleftrightarrow>
      (\<exists>mac v. 3 \<le> length (split_fields l) \<and> parse_mac (split_fields l ! 1) = Some mac
        \<and> expected_addresses rs (to_lower (mac_string mac)) = Some v \<and> split_fields l ! 2 \<noteq> v)"
    by (auto simp: stale_lease_def Let_def split: option.splits)
  then show ?thesis unfolding expected_addresses_last contradicts_def by blast
qed

lemma blank_row: "\<not> contradicts rs []"
  by (simp add: contradicts_def split_fields_def fields_from.simps)

lemma nothing_written: "reconcile_policy_leases rs data = None \<longleftrightarrow> (\<forall>l \<in> set (lease_lines data). \<not> contradicts rs l)"
  by (auto simp: reconcile_policy_leases_def lease_lines_def stale_contradicts filter_id_conv Let_def contradicts_def [of "[]"])

lemma join_empty: "join sep ls = [] \<Longrightarrow> sep \<noteq> [] \<Longrightarrow> l \<in> set ls \<Longrightarrow> l = []"
  by (induction sep ls rule: join.induct) auto

text \<open>C40: reconciling the leases removes exactly the rows that contradict a reservation, that is the rows with the MAC
  address of a reservation (compared in lower case, the last reservation of an address counting) and another IPv4
  address. Nothing is written when there is no such row; otherwise the rows of the new file are the old rows in
  order without them, where a file of which no row but blank ones is left becomes empty; and a second run with the
  same reservations finds nothing to write.\<close>

theorem reconcile_removes_contradicting_leases:
  "(reconcile_policy_leases rs data = None \<longleftrightarrow> (\<forall>l \<in> set (lease_lines data). \<not> contradicts rs l))
   \<and> (\<forall>out. reconcile_policy_leases rs data = Some out \<longrightarrow>
        (out \<noteq> [] \<longrightarrow> lease_lines out = filter (\<lambda>l. \<not> contradicts rs l) (lease_lines data))
        \<and> (out = [] \<longrightarrow> (\<forall>l \<in> set (lease_lines data). contradicts rs l \<or> l = []))
        \<and> reconcile_policy_leases rs out = None)"
proof -
  have "(out \<noteq> [] \<longrightarrow> lease_lines out = filter (\<lambda>l. \<not> contradicts rs l) (lease_lines data))
      \<and> (out = [] \<longrightarrow> (\<forall>l \<in> set (lease_lines data). contradicts rs l \<or> l = []))
      \<and> reconcile_policy_leases rs out = None" if out: "reconcile_policy_leases rs data = Some out" for out
  proof (cases "out = []")
    case True
    then have "join [CHR 0x0A] (filter (\<lambda>l. \<not> contradicts rs l) (lease_lines data)) = []"
      using out by (auto simp: reconcile_policy_leases_def lease_lines_def stale_contradicts Let_def split: if_splits)
    from join_empty [OF this] have "\<forall>l \<in> set (lease_lines data). contradicts rs l \<or> l = []" by auto
    moreover have "lease_lines [] = [[]]" by (simp add: lease_lines_def trim_suffix_def has_suffix_def split_on_def)
    then have "reconcile_policy_leases rs [] = None" by (simp add: nothing_written blank_row)
    ultimately show ?thesis using True by simp
  next
    case False
    from written_lines [OF out this] have "lease_lines out = filter (\<lambda>l. \<not> contradicts rs l) (lease_lines data)"
      by (simp add: stale_contradicts)
    moreover from this have "reconcile_policy_leases rs out = None" by (simp add: nothing_written)
    ultimately show ?thesis using False by simp
  qed
  then show ?thesis using nothing_written by blast
qed

definition sample_leases :: string where
  "sample_leases = ''1 02:00:00:00:00:01 10.0.0.9 tv x'' @ [CHR 0x0A]
     @ ''1 02:00:00:00:00:07 10.0.0.7 pc x'' @ [CHR 0x0A]"

theorem reconcile_removes_contradicting_leases_witness:
  "reconcile_policy_leases [\<lparr>rv_id = ''tv'', rv_mac = ''02:00:00:00:00:01'', rv_ipv4 = ''10.0.0.2'', rv_gateway_target = []\<rparr>]
     sample_leases = Some (''1 02:00:00:00:00:07 10.0.0.7 pc x'' @ [CHR 0x0A])
   \<and> reconcile_policy_leases [\<lparr>rv_id = ''tv'', rv_mac = ''02:00:00:00:00:01'', rv_ipv4 = ''10.0.0.2'', rv_gateway_target = []\<rparr>]
       (''1 02:00:00:00:00:07 10.0.0.7 pc x'' @ [CHR 0x0A]) = None"
proof -
  let ?rs = "[\<lparr>rv_id = ''tv'', rv_mac = ''02:00:00:00:00:01'', rv_ipv4 = ''10.0.0.2'', rv_gateway_target = []\<rparr>]"
  have "reconcile_policy_leases ?rs sample_leases = Some (''1 02:00:00:00:00:07 10.0.0.7 pc x'' @ [CHR 0x0A])"
    by (simp add: reconcile_policy_leases_def sample_leases_def expected_addresses_def stale_lease_def go_eval)
  from reconcile_removes_contradicting_leases [of ?rs sample_leases] this show ?thesis by blast
qed

end
