(* ===== verification/Effects.thy ===== *)
theory Effects
  imports Prelude
begin

text \<open>
  Code with effects: a computation takes the world and returns an error or a value together with the
  world it leaves behind, as a Go function does that calls into its dependencies and returns
  \<open>(T, error)\<close>. \<open>triple P m Q E\<close> is the Hoare triple with a postcondition for a normal return
  and one for a returned error.
\<close>

named_theorems triple_intro \<open>rules for triples, applied by \<open>intro\<close>\<close>

type_synonym ('w, 'e, 'a) em = "'w \<Rightarrow> ('e + 'a) \<times> 'w"

definition eret :: "'a \<Rightarrow> ('w, 'e, 'a) em" where
  "eret x = (\<lambda>w. (Inr x, w))"

definition efail :: "'e \<Rightarrow> ('w, 'e, 'a) em" where
  "efail e = (\<lambda>w. (Inl e, w))"

text \<open>\<open>x, err := m(); if err != nil { return err }; f(x)\<close>\<close>

definition ebind :: "('w, 'e, 'a) em \<Rightarrow> ('a \<Rightarrow> ('w, 'e, 'b) em) \<Rightarrow> ('w, 'e, 'b) em" where
  "ebind m f = (\<lambda>w. case m w of (Inl e, w') \<Rightarrow> (Inl e, w') | (Inr x, w') \<Rightarrow> f x w')"

text \<open>\<open>if err := m(); err != nil { return h(err) }\<close>\<close>

definition ecatch :: "('w, 'e, 'a) em \<Rightarrow> ('e \<Rightarrow> ('w, 'e, 'a) em) \<Rightarrow> ('w, 'e, 'a) em" where
  "ecatch m h = (\<lambda>w. case m w of (Inl e, w') \<Rightarrow> h e w' | (Inr x, w') \<Rightarrow> (Inr x, w'))"

text \<open>The error of a call as a value (\<open>None\<close> is nil), for code that goes on after it.\<close>

definition eerr :: "('w, 'e, unit) em \<Rightarrow> ('w, 'e, 'e option) em" where
  "eerr m = (\<lambda>w. case m w of (Inl e, w') \<Rightarrow> (Inr (Some e), w') | (Inr _, w') \<Rightarrow> (Inr None, w'))"

definition eguard :: "bool \<Rightarrow> 'e \<Rightarrow> ('w, 'e, unit) em" where
  "eguard b e = (if b then eret () else efail e)"

definition eopt :: "'e option \<Rightarrow> ('w, 'e, unit) em" where
  "eopt x = (case x of None \<Rightarrow> eret () | Some e \<Rightarrow> efail e)"

definition elift :: "'e + 'a \<Rightarrow> ('w, 'e, 'a) em" where
  "elift r = (\<lambda>w. (r, w))"

definition ewhen :: "bool \<Rightarrow> ('w, 'e, unit) em \<Rightarrow> ('w, 'e, unit) em" where
  "ewhen b m = (if b then m else eret ())"

primrec eforeach :: "('a \<Rightarrow> ('w, 'e, unit) em) \<Rightarrow> 'a list \<Rightarrow> ('w, 'e, unit) em" where
  "eforeach f [] = eret ()"
| "eforeach f (x # xs) = ebind (f x) (\<lambda>_. eforeach f xs)"

text \<open>\<open>a && b\<close> and \<open>a || b\<close> on calls: the right one is made only when the left one does not decide.\<close>

definition eand :: "('w, 'e, bool) em \<Rightarrow> ('w, 'e, bool) em \<Rightarrow> ('w, 'e, bool) em" where
  "eand a b = ebind a (\<lambda>x. if x then b else eret False)"

definition eor :: "('w, 'e, bool) em \<Rightarrow> ('w, 'e, bool) em \<Rightarrow> ('w, 'e, bool) em" where
  "eor a b = ebind a (\<lambda>x. if x then eret True else b)"

definition enot :: "('w, 'e, bool) em \<Rightarrow> ('w, 'e, bool) em" where
  "enot a = ebind a (\<lambda>x. eret (\<not> x))"

text \<open>\<open>defer c()\<close> whose error is dropped.\<close>

definition efinally :: "('w, 'e, 'a) em \<Rightarrow> ('w, 'e, unit) em \<Rightarrow> ('w, 'e, 'a) em" where
  "efinally m c = (\<lambda>w. case m w of (r, w') \<Rightarrow> (r, snd (c w')))"

lemmas effect_defs = eret_def efail_def ebind_def ecatch_def eerr_def eguard_def eopt_def elift_def ewhen_def

lemma ebind_eret [simp]: "ebind (eret x) f = f x"
  by (simp add: ebind_def eret_def)

lemma ebind_efail [simp]: "ebind (efail e) f = efail e"
  by (simp add: ebind_def efail_def)

lemma ebind_assoc: "ebind (ebind m f) g = ebind m (\<lambda>x. ebind (f x) g)"
  by (auto simp: ebind_def fun_eq_iff split: prod.splits sum.splits)

text \<open>Running a computation on a concrete world, one call at a time: the congruence rules keep the
  continuation as it is until its turn comes.\<close>

lemma run_ebind: "ebind m f w = (case m w of (r, w') \<Rightarrow> (case r of Inl e \<Rightarrow> (Inl e, w') | Inr x \<Rightarrow> f x w'))"
  by (auto simp: ebind_def split: prod.split sum.split)

lemma run_ecatch: "ecatch m h w = (case m w of (r, w') \<Rightarrow> (case r of Inl e \<Rightarrow> h e w' | Inr x \<Rightarrow> (Inr x, w')))"
  by (auto simp: ecatch_def split: prod.split sum.split)

lemma run_eerr: "eerr m w = (case m w of (r, w') \<Rightarrow> (case r of Inl e \<Rightarrow> (Inr (Some e), w') | Inr _ \<Rightarrow> (Inr None, w')))"
  by (auto simp: eerr_def split: prod.split sum.split)

lemma run_basic:
  "eret x w = (Inr x, w)" "efail e w = (Inl e, w)" "elift r w = (r, w)"
  by (simp_all add: eret_def efail_def elift_def)

lemma run_ebind_cong: "w = w' \<Longrightarrow> ebind m f w = ebind m f w'"
  by simp

lemma run_ecatch_cong: "w = w' \<Longrightarrow> ecatch m h w = ecatch m h w'"
  by simp

lemma run_eerr_cong: "w = w' \<Longrightarrow> eerr m w = eerr m w'"
  by simp

lemmas run_simps = run_ebind run_ecatch run_eerr run_basic eguard_def eopt_def ewhen_def eand_def eor_def enot_def efinally_def
lemmas run_congs = run_ebind_cong run_ecatch_cong run_eerr_cong

text \<open>What a successful run went through.\<close>

lemma ebind_Inr_iff: "ebind m f w = (Inr y, w') \<longleftrightarrow> (\<exists>x w1. m w = (Inr x, w1) \<and> f x w1 = (Inr y, w'))"
  by (auto simp: ebind_def split: prod.splits sum.splits)

lemma ebind_InrE:
  assumes "ebind m f w = (Inr y, w')"
  obtains x w1 where "m w = (Inr x, w1)" "f x w1 = (Inr y, w')"
  using assms by (auto simp: ebind_Inr_iff)

lemma ebind_cases:
  assumes "ebind m f w = (r, w')"
  obtains e where "m w = (Inl e, w')" "r = Inl e" | x w1 where "m w = (Inr x, w1)" "f x w1 = (r, w')"
  using assms by (auto simp: ebind_def split: prod.splits sum.splits)

lemma eret_Inr_iff: "eret x w = (Inr y, w') \<longleftrightarrow> y = x \<and> w' = w"
  by (auto simp: eret_def)

lemma efail_Inr_iff [simp]: "\<not> efail e w = (Inr y, w')"
  by (simp add: efail_def)

lemma eguard_Inr_iff: "eguard b e w = (Inr y, w') \<longleftrightarrow> b \<and> w' = w"
  by (auto simp: eguard_def eret_def efail_def)

lemma ecatch_Inr_iff:
  "ecatch m h w = (Inr y, w') \<longleftrightarrow>
     m w = (Inr y, w') \<or> (\<exists>e w1. m w = (Inl e, w1) \<and> h e w1 = (Inr y, w'))"
  by (auto simp: ecatch_def split: prod.splits sum.splits)

lemma eerr_Inr_iff:
  "eerr m w = (Inr y, w') \<longleftrightarrow>
     y = None \<and> m w = (Inr (), w') \<or> (\<exists>e. y = Some e \<and> m w = (Inl e, w'))"
  by (auto simp: eerr_def split: prod.splits sum.splits)

lemma eerr_Inl [simp]: "eerr m w \<noteq> (Inl e, w')"
  by (auto simp: eerr_def split: prod.splits sum.splits)

lemma eopt_Inr_iff: "eopt x w = (Inr y, w') \<longleftrightarrow> x = None \<and> w' = w"
  by (auto simp: eopt_def eret_def efail_def split: option.splits)

lemmas success_iff = ebind_Inr_iff eret_Inr_iff eguard_Inr_iff ecatch_Inr_iff eerr_Inr_iff eopt_Inr_iff

subsection \<open>Triples\<close>

definition triple ::
  "('w \<Rightarrow> bool) \<Rightarrow> ('w, 'e, 'a) em \<Rightarrow> ('a \<Rightarrow> 'w \<Rightarrow> bool) \<Rightarrow> ('e \<Rightarrow> 'w \<Rightarrow> bool) \<Rightarrow> bool" where
  "triple P m Q E \<longleftrightarrow>
     (\<forall>w. P w \<longrightarrow> (case m w of (Inl e, w') \<Rightarrow> E e w' | (Inr x, w') \<Rightarrow> Q x w'))"

lemma tripleD:
  assumes "triple P m Q E" "P w"
  shows "m w = (Inr x, w') \<Longrightarrow> Q x w'" "m w = (Inl e, w') \<Longrightarrow> E e w'"
  using assms by (auto simp: triple_def split: prod.splits sum.splits)

lemma tripleI:
  assumes "\<And>w x w'. P w \<Longrightarrow> m w = (Inr x, w') \<Longrightarrow> Q x w'"
    and "\<And>w e w'. P w \<Longrightarrow> m w = (Inl e, w') \<Longrightarrow> E e w'"
  shows "triple P m Q E"
  using assms by (auto simp: triple_def split: prod.splits sum.splits)

lemma triple_weaken:
  assumes "triple P m Q E" "\<And>w. P' w \<Longrightarrow> P w" "\<And>x w. Q x w \<Longrightarrow> Q' x w" "\<And>e w. E e w \<Longrightarrow> E' e w"
  shows "triple P' m Q' E'"
  using assms by (fastforce simp: triple_def split: prod.splits sum.splits)

lemma triple_pre: "triple P m Q E \<Longrightarrow> (\<And>w. P' w \<Longrightarrow> P w) \<Longrightarrow> triple P' m Q E"
  by (rule triple_weaken)

lemma triple_post: "triple P m Q E \<Longrightarrow> (\<And>x w. Q x w \<Longrightarrow> Q' x w) \<Longrightarrow> triple P m Q' E"
  by (rule triple_weaken)

lemma triple_eret [triple_intro]: "(\<And>w. P w \<Longrightarrow> Q x w) \<Longrightarrow> triple P (eret x) Q E"
  by (simp add: triple_def eret_def)

lemma triple_efail [triple_intro]: "(\<And>w. P w \<Longrightarrow> E e w) \<Longrightarrow> triple P (efail e) Q E"
  by (simp add: triple_def efail_def)

lemma triple_bind:
  assumes "triple P m R E" "\<And>x. triple (R x) (f x) Q E"
  shows "triple P (ebind m f) Q E"
  using assms by (fastforce simp: triple_def ebind_def split: prod.splits sum.splits)

lemma triple_bind_rev:
  assumes "\<And>x. triple (R x) (f x) Q E" "triple P m R E"
  shows "triple P (ebind m f) Q E"
  using assms by (rule triple_bind [rotated])

lemma triple_catch:
  assumes "triple P m Q R" "\<And>e. triple (R e) (h e) Q E"
  shows "triple P (ecatch m h) Q E"
  using assms by (fastforce simp: triple_def ecatch_def split: prod.splits sum.splits)

lemma triple_eerr:
  assumes "triple P m (\<lambda>_. Q None) (\<lambda>e. Q (Some e))"
  shows "triple P (eerr m) Q E"
  using assms by (fastforce simp: triple_def eerr_def split: prod.splits sum.splits)

lemma triple_eguard [triple_intro]:
  assumes "\<And>w. b \<Longrightarrow> P w \<Longrightarrow> Q () w" "\<And>w. \<not> b \<Longrightarrow> P w \<Longrightarrow> E e w"
  shows "triple P (eguard b e) Q E"
  using assms by (simp add: triple_def eguard_def eret_def efail_def)

lemma triple_ewhen:
  assumes "b \<Longrightarrow> triple P m Q E" "\<And>w. \<not> b \<Longrightarrow> P w \<Longrightarrow> Q () w"
  shows "triple P (ewhen b m) Q E"
  using assms by (simp add: triple_def ewhen_def eret_def)

lemma triple_if:
  assumes "b \<Longrightarrow> triple P m Q E" "\<not> b \<Longrightarrow> triple P n Q E"
  shows "triple P (if b then m else n) Q E"
  using assms by simp

lemma triple_option:
  assumes "x = None \<Longrightarrow> triple P m Q E" "\<And>y. x = Some y \<Longrightarrow> triple P (f y) Q E"
  shows "triple P (case x of None \<Rightarrow> m | Some y \<Rightarrow> f y) Q E"
  using assms by (cases x) simp_all

lemma triple_eopt [triple_intro]:
  assumes "\<And>w. x = None \<Longrightarrow> P w \<Longrightarrow> Q () w" "\<And>w e. x = Some e \<Longrightarrow> P w \<Longrightarrow> E e w"
  shows "triple P (eopt x) Q E"
  using assms by (auto simp: triple_def eopt_def eret_def efail_def split: option.splits)

lemma triple_elift [triple_intro]:
  assumes "\<And>w y. r = Inr y \<Longrightarrow> P w \<Longrightarrow> Q y w" "\<And>w e. r = Inl e \<Longrightarrow> P w \<Longrightarrow> E e w"
  shows "triple P (elift r) Q E"
  using assms by (auto simp: triple_def elift_def split: sum.splits)

lemma triple_conj:
  assumes "triple P m Q E" "triple P' m Q' E'"
  shows "triple (\<lambda>w. P w \<and> P' w) m (\<lambda>x w. Q x w \<and> Q' x w) (\<lambda>e w. E e w \<and> E' e w)"
  using assms by (fastforce simp: triple_def split: prod.splits sum.splits)

text \<open>A fact that does not depend on the world, carried along.\<close>

lemma triple_pure: "(p \<Longrightarrow> triple P m Q E) \<Longrightarrow> triple (\<lambda>w. P w \<and> p) m Q E"
  by (simp add: triple_def)

lemma triple_frame: "triple P m Q E \<Longrightarrow> triple (\<lambda>w. P w \<and> p) m (\<lambda>x w. Q x w \<and> p) E"
  by (fastforce simp: triple_def split: prod.splits sum.splits)

text \<open>An invariant kept whether the computation succeeds or fails.\<close>

definition keeps :: "('w \<Rightarrow> bool) \<Rightarrow> ('w, 'e, 'a) em \<Rightarrow> bool" where
  "keeps I m \<longleftrightarrow> triple I m (\<lambda>_. I) (\<lambda>_. I)"

lemma keepsI: "(\<And>w. I w \<Longrightarrow> I (snd (m w))) \<Longrightarrow> keeps I m"
  by (fastforce simp: keeps_def triple_def split: prod.splits sum.splits)

lemma keepsD: "keeps I m \<Longrightarrow> I w \<Longrightarrow> I (snd (m w))"
  by (cases "m w"; cases "fst (m w)") (auto simp: keeps_def triple_def dest!: spec [of _ w])

lemma keeps_triple: "keeps I m \<Longrightarrow> triple I m (\<lambda>_. I) (\<lambda>_. I)"
  by (simp add: keeps_def)

named_theorems keeps_intro \<open>rules for invariants\<close>

lemma keeps_eret [keeps_intro]: "keeps I (eret x)"
  by (simp add: keeps_def triple_def eret_def)

lemma keeps_efail [keeps_intro]: "keeps I (efail e)"
  by (simp add: keeps_def triple_def efail_def)

lemma keeps_bind [keeps_intro]: "keeps I m \<Longrightarrow> (\<And>x. keeps I (f x)) \<Longrightarrow> keeps I (ebind m f)"
  unfolding keeps_def by (rule triple_bind)

lemma keeps_catch [keeps_intro]: "keeps I m \<Longrightarrow> (\<And>e. keeps I (h e)) \<Longrightarrow> keeps I (ecatch m h)"
  unfolding keeps_def by (rule triple_catch)

lemma keeps_eerr [keeps_intro]: "keeps I m \<Longrightarrow> keeps I (eerr m)"
  unfolding keeps_def by (rule triple_eerr)

lemma keeps_eguard [keeps_intro]: "keeps I (eguard b e)"
  by (simp add: eguard_def keeps_intro)

lemma keeps_ewhen [keeps_intro]: "(b \<Longrightarrow> keeps I m) \<Longrightarrow> keeps I (ewhen b m)"
  by (simp add: ewhen_def keeps_intro)

lemma keeps_if [keeps_intro]: "(b \<Longrightarrow> keeps I m) \<Longrightarrow> (\<not> b \<Longrightarrow> keeps I n) \<Longrightarrow> keeps I (if b then m else n)"
  by simp

lemma keeps_eopt [keeps_intro]: "keeps I (eopt x)"
  by (cases x) (simp_all add: eopt_def keeps_intro)

lemma keeps_elift [keeps_intro]: "keeps I (elift r)"
  by (auto simp: keeps_def triple_def elift_def split: sum.splits)

lemma keeps_option [keeps_intro]:
  "(x = None \<Longrightarrow> keeps I m) \<Longrightarrow> (\<And>y. x = Some y \<Longrightarrow> keeps I (f y)) \<Longrightarrow>
     keeps I (case x of None \<Rightarrow> m | Some y \<Rightarrow> f y)"
  by (cases x) simp_all

lemma keeps_prod [keeps_intro]: "(\<And>a b. keeps I (f a b)) \<Longrightarrow> keeps I (case p of (a, b) \<Rightarrow> f a b)"
  by (cases p) simp

lemma keeps_eand [keeps_intro]: "keeps I a \<Longrightarrow> keeps I b \<Longrightarrow> keeps I (eand a b)"
  by (auto simp: eand_def intro!: keeps_intro)

lemma keeps_eor [keeps_intro]: "keeps I a \<Longrightarrow> keeps I b \<Longrightarrow> keeps I (eor a b)"
  by (auto simp: eor_def intro!: keeps_intro)

lemma keeps_enot [keeps_intro]: "keeps I a \<Longrightarrow> keeps I (enot a)"
  by (auto simp: enot_def intro!: keeps_intro)

lemma keeps_efinally [keeps_intro]: "keeps I m \<Longrightarrow> keeps I c \<Longrightarrow> keeps I (efinally m c)"
  by (rule keepsI) (auto simp: efinally_def split: prod.splits dest: keepsD)

lemma keeps_eforeach [keeps_intro]: "(\<And>x. x \<in> set xs \<Longrightarrow> keeps I (f x)) \<Longrightarrow> keeps I (eforeach f xs)"
  by (induction xs) (auto intro: keeps_intro)

end
