(* ===== verification/RuntimeState.thy ===== *)
theory RuntimeState
  imports GoStrings Effects
begin

text \<open>
  \<open>internal/platform/types.go\<close> and \<open>internal/runtime\<close> (state.go, boot.go, gateway_desired.go):
  the network recipes, the durable runtime state, the cleanup intents written ahead of every host
  mutation, and the proof that a state belongs to the running boot session and network namespace.
  Times are counts of nanoseconds; the zero time is \<open>None\<close>.
\<close>

subsection \<open>Recipes and snapshots\<close>

record routing_config =
  rc_lan_interface :: string
  rc_upstream_interface :: string
  rc_lan_cidr :: string
  rc_tun_device :: string
  rc_upstream_gateway :: string
  rc_table_id :: "32 word"
  rc_rule_priority :: "32 word"
  rc_fw_mark :: "32 word"
  rc_rule_mode :: string
  rc_direct_fallback :: bool

record nat_config =
  nc_lan_interface :: string
  nc_upstream_interface :: string
  nc_lan_cidr :: string
  nc_tun_device :: string
  nc_upstream_gateway :: string
  nc_fw_mark :: "32 word"
  nc_table_name :: string
  nc_masquerade :: bool

record applied_steps =
  ap_nat :: bool
  ap_policy_routing :: bool
  ap_ipv4_forwarding :: bool
  ap_direct_fallback :: bool

record network_snapshot =
  sn_schema_version :: int
  sn_backend :: string
  sn_captured_at :: "int option"
  sn_network_namespace :: string
  sn_ipv4_forwarding :: string
  sn_rp_filter :: "(string \<times> string) list"
  sn_nftables_table :: string
  sn_rules :: "string list"
  sn_routes :: "string list"
  sn_routing :: "routing_config option"
  sn_nat :: "nat_config option"
  sn_applied :: applied_steps

definition routing_rule_fwmark :: string where "routing_rule_fwmark = ''fwmark''"
definition routing_rule_ingress :: string where "routing_rule_ingress = ''iif''"
definition backend_linux_nftables :: string where "backend_linux_nftables = ''linux-nftables''"
definition snapshot_schema_version :: int where "snapshot_schema_version = 2"

definition no_steps :: applied_steps where
  "no_steps = \<lparr>ap_nat = False, ap_policy_routing = False, ap_ipv4_forwarding = False, ap_direct_fallback = False\<rparr>"

definition new_snapshot :: "string \<Rightarrow> int option \<Rightarrow> network_snapshot" where
  "new_snapshot backend now =
     \<lparr>sn_schema_version = snapshot_schema_version, sn_backend = backend, sn_captured_at = now,
      sn_network_namespace = [], sn_ipv4_forwarding = [], sn_rp_filter = [], sn_nftables_table = [],
      sn_rules = [], sn_routes = [], sn_routing = None, sn_nat = None, sn_applied = no_steps\<rparr>"

text \<open>\<open>NetworkSnapshot.Validate\<close>; the receiver may be nil.\<close>

datatype snapshot_error = SnapshotNil | SnapshotSchema int | SnapshotBackend string

definition validate_snapshot :: "string \<Rightarrow> network_snapshot option \<Rightarrow> snapshot_error option" where
  "validate_snapshot expected s =
     (case s of
        None \<Rightarrow> Some SnapshotNil
      | Some sn \<Rightarrow>
          vthen (fail_if (sn_schema_version sn \<noteq> snapshot_schema_version) (SnapshotSchema (sn_schema_version sn)))
            (fail_if (sn_backend sn \<noteq> expected) (SnapshotBackend (sn_backend sn))))"

subsection \<open>The durable state\<close>

record runtime_state =
  st_lifecycle :: string
  st_pid_dnsmasq :: int
  st_dnsmasq_fingerprint :: string
  st_pid_smartdns :: int
  st_smartdns_fingerprint :: string
  st_dns_frontend :: string
  st_pid_mihomo :: int
  st_mihomo_fingerprint :: string
  st_boot_session_id :: string
  st_device_policy_digest :: string
  st_profile_digest :: string
  st_dns_ipv6 :: bool
  st_tun_device :: string
  st_started_at :: "int option"
  st_forwarding_applied :: bool
  st_nat_applied :: bool
  st_routing_applied :: bool
  st_snapshot :: "network_snapshot option"

definition zero_state :: runtime_state where
  "zero_state =
     \<lparr>st_lifecycle = [], st_pid_dnsmasq = 0, st_dnsmasq_fingerprint = [], st_pid_smartdns = 0,
      st_smartdns_fingerprint = [], st_dns_frontend = [], st_pid_mihomo = 0, st_mihomo_fingerprint = [],
      st_boot_session_id = [], st_device_policy_digest = [], st_profile_digest = [], st_dns_ipv6 = False,
      st_tun_device = [], st_started_at = None, st_forwarding_applied = False, st_nat_applied = False,
      st_routing_applied = False, st_snapshot = None\<rparr>"

text \<open>\<open>prepareWriteAheadJournal\<close>. The code mutates the snapshot the state points to, so the caller's
  state has the intents too: callers of \<open>SaveState\<close> below go on with \<open>journaled\<close> states.\<close>

definition routing_journaled :: "routing_config \<Rightarrow> bool" where
  "routing_journaled r \<longleftrightarrow>
     rc_table_id r \<noteq> 0 \<and> rc_rule_priority r \<noteq> 0
     \<and> ((if rc_rule_mode r = [] then routing_rule_fwmark else rc_rule_mode r) = routing_rule_ingress
         \<or> rc_fw_mark r \<noteq> 0)"

definition journal_snapshot :: "network_snapshot \<Rightarrow> network_snapshot" where
  "journal_snapshot sn =
     (let a = sn_applied sn;
          a1 = (if sn_nat sn \<noteq> None \<and> sn_nftables_table sn \<noteq> [] then a\<lparr>ap_nat := True\<rparr> else a);
          a2 = (case sn_routing sn of
                  None \<Rightarrow> a1
                | Some r \<Rightarrow> if routing_journaled r then a1\<lparr>ap_policy_routing := True\<rparr> else a1);
          a3 = (if sn_ipv4_forwarding sn \<noteq> [] then a2\<lparr>ap_ipv4_forwarding := True\<rparr> else a2)
      in sn\<lparr>sn_applied := a3\<rparr>)"

definition journaled :: "runtime_state \<Rightarrow> runtime_state" where
  "journaled st = st\<lparr>st_snapshot := map_option journal_snapshot (st_snapshot st)\<rparr>"

lemma journal_snapshot_idem [simp]: "journal_snapshot (journal_snapshot sn) = journal_snapshot sn"
  by (simp add: journal_snapshot_def Let_def split: option.splits)

lemma journaled_idem [simp]: "journaled (journaled st) = journaled st"
  by (cases "st_snapshot st") (simp_all add: journaled_def)

lemma journal_snapshot_fields [simp]:
  "sn_routing (journal_snapshot sn) = sn_routing sn" "sn_nat (journal_snapshot sn) = sn_nat sn"
  "sn_ipv4_forwarding (journal_snapshot sn) = sn_ipv4_forwarding sn"
  "sn_nftables_table (journal_snapshot sn) = sn_nftables_table sn"
  "sn_network_namespace (journal_snapshot sn) = sn_network_namespace sn"
  "sn_backend (journal_snapshot sn) = sn_backend sn"
  "sn_schema_version (journal_snapshot sn) = sn_schema_version sn"
  by (simp_all add: journal_snapshot_def Let_def)

lemma journaled_fields [simp]:
  "st_lifecycle (journaled st) = st_lifecycle st" "st_pid_dnsmasq (journaled st) = st_pid_dnsmasq st"
  "st_dnsmasq_fingerprint (journaled st) = st_dnsmasq_fingerprint st"
  "st_pid_smartdns (journaled st) = st_pid_smartdns st"
  "st_smartdns_fingerprint (journaled st) = st_smartdns_fingerprint st"
  "st_pid_mihomo (journaled st) = st_pid_mihomo st"
  "st_mihomo_fingerprint (journaled st) = st_mihomo_fingerprint st"
  "st_routing_applied (journaled st) = st_routing_applied st"
  "st_nat_applied (journaled st) = st_nat_applied st"
  "st_forwarding_applied (journaled st) = st_forwarding_applied st"
  "st_tun_device (journaled st) = st_tun_device st"
  "st_boot_session_id (journaled st) = st_boot_session_id st"
  "st_profile_digest (journaled st) = st_profile_digest st"
  "st_dns_frontend (journaled st) = st_dns_frontend st"
  "st_started_at (journaled st) = st_started_at st"
  "st_snapshot (journaled st) = map_option journal_snapshot (st_snapshot st)"
  by (simp_all add: journaled_def)

text \<open>What the journal guarantees: every step whose recipe is complete is recorded as applied.\<close>

lemma journal_snapshot_applied:
  "sn_nat sn \<noteq> None \<Longrightarrow> sn_nftables_table sn \<noteq> [] \<Longrightarrow> ap_nat (sn_applied (journal_snapshot sn))"
  "sn_routing sn = Some r \<Longrightarrow> routing_journaled r \<Longrightarrow> ap_policy_routing (sn_applied (journal_snapshot sn))"
  "sn_ipv4_forwarding sn \<noteq> [] \<Longrightarrow> ap_ipv4_forwarding (sn_applied (journal_snapshot sn))"
  by (simp_all add: journal_snapshot_def Let_def split: option.splits)

subsection \<open>Boot sessions\<close>

record boot_session =
  bs_id :: string
  bs_started_at :: "int option"
  bs_network_namespace :: string

definition belongs_to_boot :: "runtime_state \<Rightarrow> boot_session \<Rightarrow> bool" where
  "belongs_to_boot s boot =
     (let state_id = trim_space (st_boot_session_id s); boot_id = trim_space (bs_id boot);
          boot_matches =
            (if state_id \<noteq> [] \<and> boot_id \<noteq> [] then equal_fold state_id boot_id
             else (case (st_started_at s, bs_started_at boot) of
                     (Some t, Some b) \<Rightarrow> \<not> t < b
                   | _ \<Rightarrow> False))
      in if \<not> boot_matches then False
         else (case st_snapshot s of
                 None \<Rightarrow> True
               | Some sn \<Rightarrow>
                   if sn_backend sn = backend_linux_nftables \<and> trim_space (bs_network_namespace boot) \<noteq> [] then
                     (let persisted = trim_space (sn_network_namespace sn) in
                      if persisted = [] then False
                      else persisted = trim_space (bs_network_namespace boot))
                   else True))"

text \<open>
  \<open>CurrentBootSession\<close> on Linux, as a function of what the three reads return: the boot id, the
  lines of \<open>/proc/stat\<close> split into fields, and the network-namespace link.
\<close>

fun boot_time_of :: "string list list \<Rightarrow> int option" where
  "boot_time_of [] = None"
| "boot_time_of (fs # rest) =
     (if length fs \<noteq> 2 \<or> hd fs \<noteq> ''btime'' then boot_time_of rest
      else map_option (\<lambda>s. s * 1000000000) (atoi (fs ! 1)))"

datatype boot_error = BootUnreadable | NamespaceUnreadable

definition current_boot_session ::
  "string option \<Rightarrow> string list list option \<Rightarrow> string option \<Rightarrow> boot_error + boot_session" where
  "current_boot_session boot_id stat namespace =
     (let boot = \<lparr>bs_id = trim_space (case boot_id of None \<Rightarrow> [] | Some i \<Rightarrow> i),
                  bs_started_at = (case stat of None \<Rightarrow> None | Some ls \<Rightarrow> boot_time_of ls),
                  bs_network_namespace = trim_space (case namespace of None \<Rightarrow> [] | Some n \<Rightarrow> n)\<rparr>
      in if bs_id boot = [] \<and> bs_started_at boot = None then Inl BootUnreadable
         else if bs_network_namespace boot = [] then Inl NamespaceUnreadable
         else Inr boot)"

subsection \<open>The desired state\<close>

record gateway_desired =
  gd_schema_version :: int
  gd_running :: bool

definition desired_schema_version :: int where "desired_schema_version = 1"

subsection \<open>Facts about boot sessions\<close>

text \<open>A state that names its boot and its network namespace belongs to a boot session exactly when
  both names agree (the boot id up to case): a container restarted inside the same boot gets a new
  namespace, and its old state is not taken for the running one.\<close>

theorem belongs_to_boot_iff_same_namespace:
  assumes "current_boot_session boot_id stat namespace = Inr boot"
    and "trim_space (st_boot_session_id st) \<noteq> []" and "bs_id boot \<noteq> []"
    and "st_snapshot st = Some sn" and "sn_backend sn = backend_linux_nftables"
  shows "belongs_to_boot st boot \<longleftrightarrow>
    equal_fold (trim_space (st_boot_session_id st)) (bs_id boot)
    \<and> trim_space (sn_network_namespace sn) = bs_network_namespace boot"
proof -
  have b: "trim_space (bs_id boot) = bs_id boot"
    "trim_space (bs_network_namespace boot) = bs_network_namespace boot"
    "bs_network_namespace boot \<noteq> []"
    using assms(1) by (auto simp: current_boot_session_def Let_def split: if_splits)
  show ?thesis
    using assms(2-5) b by (auto simp: belongs_to_boot_def Let_def)
qed

theorem belongs_to_boot_iff_same_namespace_witness:
  "\<not> belongs_to_boot (zero_state\<lparr>st_boot_session_id := ''A1'',
        st_snapshot := Some ((new_snapshot backend_linux_nftables None)\<lparr>sn_network_namespace := ''net:[1]''\<rparr>)\<rparr>)
      \<lparr>bs_id = ''a1'', bs_started_at = None, bs_network_namespace = ''net:[2]''\<rparr>"
proof -
  have "current_boot_session (Some ''a1'') None (Some ''net:[2]'')
      = Inr \<lparr>bs_id = ''a1'', bs_started_at = None, bs_network_namespace = ''net:[2]''\<rparr>"
    by (simp add: current_boot_session_def go_eval)
  from belongs_to_boot_iff_same_namespace [OF this, of "zero_state\<lparr>st_boot_session_id := ''A1'',
        st_snapshot := Some ((new_snapshot backend_linux_nftables None)\<lparr>sn_network_namespace := ''net:[1]''\<rparr>)\<rparr>"]
  show ?thesis by (simp add: new_snapshot_def go_eval)
qed

end
