(* ===== verification/GatewayEnv.thy ===== *)
theory GatewayEnv
  imports RuntimeState PolicyBundle
begin

text \<open>
  What the gateway manager (\<open>internal/gateway/manager.go\<close>) acts on: its configuration, the calls it
  makes into its dependencies (the Go struct \<open>gatewayDeps\<close>, the service managers, the network backend
  and the files under the runtime directory), and the world those calls change. Every call is
  appended to a log together with the state file as it is at that moment, so that the order of
  effects, and what is durable when each happens, can be stated of the final world. What a
  dependency answers is a function of the world so far (the record \<open>env\<close>): answers may differ from
  call to call and any of them may be an error. Progress reports are left out.
\<close>

subsection \<open>Errors\<close>

datatype service = DNSMasq | Mihomo | SmartDNS

datatype gerr =
    Ext string
  | WouldBlock
  | Msg string
  | Coded string string
  | ServiceMsg service int string
  | Wrapped string gerr
  | Joined "gerr list"
  | RollbackFailed gerr gerr

text \<open>\<open>errors.Join\<close>\<close>

definition join_errors :: "gerr option list \<Rightarrow> gerr option" where
  "join_errors es =
     (let found = List.map_filter (\<lambda>e. e) es in if found = [] then None else Some (Joined found))"

lemma join_errors_None_iff [simp]: "join_errors es = None \<longleftrightarrow> (\<forall>e \<in> set es. e = None)"
  by (induction es) (auto simp: join_errors_def Let_def map_filter_simps split: option.splits if_splits)

subsection \<open>Configuration\<close>

record gw_config =
  gc_mode :: string
  gc_interface :: string
  gc_lan_ip :: string
  gc_lan_cidr :: string
  gc_upstream_interface :: string
  gc_upstream_gateway :: string
  gc_dhcp_enabled :: bool
  gc_dns_ipv6 :: bool
  gc_tun_device :: string
  gc_tun_enabled :: bool
  gc_fw_mark :: "32 word"
  gc_nft_table :: string
  gc_route_table_id :: "32 word"
  gc_route_rule_priority :: "32 word"
  gc_tun_ipv6 :: string
  gc_tailscale_enabled :: bool
  gc_runtime_dir :: string
  gc_bundle :: "policy_bundle option"

definition mode_isolated_lan :: string where "mode_isolated_lan = ''isolated_lan''"
definition mode_same_lan :: string where "mode_same_lan = ''same_lan''"
definition mode_same_wifi_dhcp :: string where "mode_same_wifi_dhcp = ''same_wifi_dhcp''"

definition same_lan :: "gw_config \<Rightarrow> bool" where
  "same_lan cfg \<longleftrightarrow> gc_mode cfg = mode_same_lan \<or> gc_mode cfg = mode_same_wifi_dhcp"

definition dhcp_should_run :: "gw_config \<Rightarrow> bool" where
  "dhcp_should_run cfg \<longleftrightarrow> gc_dhcp_enabled cfg \<or> same_lan cfg"

record network_config =
  nt_lan_interface :: string
  nt_lan_ip :: string
  nt_lan_cidr :: string
  nt_upstream_interface :: string
  nt_upstream_gateway :: string
  nt_nft_table_name :: string
  nt_fw_mark :: "32 word"
  nt_route_table_id :: "32 word"
  nt_route_rule_priority :: "32 word"
  nt_same_lan :: bool
  nt_skip_ownership_check :: bool

record capabilities =
  ca_missing_reported :: bool
  ca_net_admin :: bool
  ca_net_raw :: bool
  ca_tun_device_node :: bool
  ca_nftables :: bool
  ca_nftables_json :: bool
  ca_iproute2 :: bool
  ca_ipv4_forward_sysctl :: bool
  ca_ipv4_forward_ready :: bool

subsection \<open>Calls\<close>

text \<open>Calls that only pass or fail, as far as the manager is concerned.\<close>

datatype check =
    ContextErr
  | ConfigNormalize
  | PreparePolicy
  | ConfigValidate
  | ResolvePolicy
  | StopPrepared
  | NewBackend
  | EnsureDirs
  | ServiceCheck service
  | WriteConfig service
  | ValidateConfig service
  | EnsureTUN
  | ValidateTopology network_config
  | LookupInterface string
  | ProbeReservation string string
  | CommitCandidate
  | ReconcileLeases "reservation list"
  | ArchiveLog service
  | MakeParentDir
  | RemoveCandidateDir
  | WarmTailscale
  | LockMkdir string
  | LockOpen string
  | LockStat
  | LockUnlock
  | LockClose

text \<open>Calls that change the host: the network data plane and the service processes.\<close>

datatype act =
    EnableForwarding
  | SetupNAT nat_config
  | SetupRouting routing_config
  | RestoreNetwork network_snapshot
  | StartService service
  | StopService service int

datatype query =
    AskMatches int string
  | AskAlive int
  | AskRunning service int
  | AskFingerprint int
  | AskRoutingPresent routing_config
  | WaitTUN string
  | TakeSnapshot
  | AskBoot
  | AskCapabilities
  | AskProfileDigest
  | AskNow
  | AskFlock string
  | OpenLockFile string
  | LoadRuntimeConfig
  | LoadConfig
  | MakeCandidateDir
  | AskForwarding
  | AskNFTables
  | AskMihomoVersion
  | AskMihomoTUN
  | AskLeases

datatype file_step =
    ReadState
  | MarshalState
  | StatStateDir
  | CreateTemp
  | WriteTemp
  | ChmodTemp
  | SyncTemp
  | CloseTemp
  | RemoveTemp
  | RenameState runtime_state
  | SyncStateDir
  | RemoveStateFile
  | ReadDesired
  | MkdirDesired
  | RenameDesired gateway_desired
  | WritePolicySnapshot policy_bundle
  | RemovePolicySnapshot

datatype call =
    Check check
  | Act act
  | Query query
  | File file_step

subsection \<open>World and environment\<close>

text \<open>A call that was made: the state file at that moment, and the error it answered with.\<close>

record event =
  ev_call :: call
  ev_durable :: "runtime_state option"
  ev_error :: "gerr option"

record world =
  w_log :: "event list"
  w_state_file :: "runtime_state option"
  w_desired_file :: "gateway_desired option"
  w_policy_file :: "policy_bundle option"

record env =
  en_euid :: int
  en_check :: "world \<Rightarrow> check \<Rightarrow> gerr option"
  en_config :: "world \<Rightarrow> check \<Rightarrow> gw_config \<Rightarrow> gw_config"
  en_act :: "world \<Rightarrow> act \<Rightarrow> gerr option"
  en_pid :: "world \<Rightarrow> service \<Rightarrow> int"
  en_query :: "world \<Rightarrow> query \<Rightarrow> gerr option"
  en_matches :: "world \<Rightarrow> int \<Rightarrow> string \<Rightarrow> bool"
  en_alive :: "world \<Rightarrow> int \<Rightarrow> bool"
  en_running :: "world \<Rightarrow> service \<Rightarrow> int \<Rightarrow> bool"
  en_fingerprint :: "world \<Rightarrow> int \<Rightarrow> string"
  en_routing_present :: "world \<Rightarrow> routing_config \<Rightarrow> bool"
  en_tun_name :: "world \<Rightarrow> string \<Rightarrow> string"
  en_snapshot :: "world \<Rightarrow> network_snapshot"
  en_boot :: "world \<Rightarrow> boot_session"
  en_capabilities :: "world \<Rightarrow> capabilities"
  en_profile_digest :: "world \<Rightarrow> string"
  en_now :: "world \<Rightarrow> int"
  en_lock_exists :: "world \<Rightarrow> string \<Rightarrow> bool"
  en_runtime_config :: "world \<Rightarrow> gw_config"
  en_full_config :: "world \<Rightarrow> gw_config"
  en_candidate_dir :: "world \<Rightarrow> string"
  en_forwarding :: "world \<Rightarrow> bool"
  en_nftables :: "world \<Rightarrow> string list"
  en_mihomo_version :: "world \<Rightarrow> string"
  en_mihomo_tun :: "world \<Rightarrow> bool \<times> string"
  en_lease_count :: "world \<Rightarrow> int"
  en_file :: "world \<Rightarrow> file_step \<Rightarrow> gerr option"

type_synonym 'a gw = "(world, gerr, 'a) em"

definition log_call :: "call \<Rightarrow> gerr option \<Rightarrow> world \<Rightarrow> world" where
  "log_call c e w = w\<lparr>w_log := w_log w @ [\<lparr>ev_call = c, ev_durable = w_state_file w, ev_error = e\<rparr>]\<rparr>"

lemma log_call_fields [simp]:
  "w_log (log_call c e w) = w_log w @ [\<lparr>ev_call = c, ev_durable = w_state_file w, ev_error = e\<rparr>]"
  "w_state_file (log_call c e w) = w_state_file w"
  "w_desired_file (log_call c e w) = w_desired_file w"
  "w_policy_file (log_call c e w) = w_policy_file w"
  by (simp_all add: log_call_def)

definition answer :: "gerr option \<Rightarrow> 'a \<Rightarrow> gerr + 'a" where
  "answer e x = (case e of None \<Rightarrow> Inr x | Some err \<Rightarrow> Inl err)"

text \<open>A call whose error and value are those given: the shape of every call below.\<close>

definition do_call :: "call \<Rightarrow> (world \<Rightarrow> gerr option) \<Rightarrow> (world \<Rightarrow> 'a) \<Rightarrow> 'a gw" where
  "do_call c err val = (\<lambda>w. (answer (err w) (val w), log_call c (err w) w))"

definition do_check :: "env \<Rightarrow> check \<Rightarrow> unit gw" where
  "do_check env c = do_call (Check c) (\<lambda>w. en_check env w c) (\<lambda>_. ())"

text \<open>A step that rewrites the configuration it is given.\<close>

definition do_config :: "env \<Rightarrow> check \<Rightarrow> gw_config \<Rightarrow> gw_config gw" where
  "do_config env c cfg = do_call (Check c) (\<lambda>w. en_check env w c) (\<lambda>w. en_config env w c cfg)"

definition do_act :: "env \<Rightarrow> act \<Rightarrow> unit gw" where
  "do_act env a = do_call (Act a) (\<lambda>w. en_act env w a) (\<lambda>_. ())"

definition start_service :: "env \<Rightarrow> service \<Rightarrow> int gw" where
  "start_service env s =
     do_call (Act (StartService s)) (\<lambda>w. en_act env w (StartService s)) (\<lambda>w. en_pid env w s)"

definition do_query :: "env \<Rightarrow> query \<Rightarrow> (world \<Rightarrow> 'a) \<Rightarrow> 'a gw" where
  "do_query env q f = do_call (Query q) (\<lambda>w. en_query env w q) f"

text \<open>A query that cannot fail.\<close>

definition ask :: "query \<Rightarrow> (world \<Rightarrow> 'a) \<Rightarrow> 'a gw" where
  "ask q f = do_call (Query q) (\<lambda>_. None) f"

text \<open>A file operation and the change it makes when it succeeds.\<close>

definition do_file :: "env \<Rightarrow> file_step \<Rightarrow> (world \<Rightarrow> world) \<Rightarrow> unit gw" where
  "do_file env s change =
     ebind (do_call (File s) (\<lambda>w. en_file env w s) (\<lambda>_. ())) (\<lambda>_ w. (Inr (), change w))"

text \<open>A value read from the world without a call of its own.\<close>

definition peek :: "(world \<Rightarrow> 'a) \<Rightarrow> 'a gw" where
  "peek f = (\<lambda>w. (Inr (f w), w))"

subsection \<open>\<open>internal/runtime\<close>: the files\<close>

definition load_state :: "env \<Rightarrow> runtime_state option gw" where
  "load_state env =
     ebind (do_file env ReadState id) (\<lambda>_. peek w_state_file)"

text \<open>The temporary file both writers fill; on an error before the rename it is removed.\<close>

definition write_temp :: "env \<Rightarrow> unit gw" where
  "write_temp env =
     ebind (ecatch
              (ebind (do_file env WriteTemp id) (\<lambda>_.
               ebind (do_file env ChmodTemp id) (\<lambda>_.
                 do_file env SyncTemp id)))
              (\<lambda>e. ebind (eerr (do_file env CloseTemp id)) (\<lambda>_. efail e))) (\<lambda>_.
       do_file env CloseTemp id)"

definition with_temp :: "env \<Rightarrow> unit gw \<Rightarrow> unit gw" where
  "with_temp env rename =
     ebind (do_file env CreateTemp id) (\<lambda>_.
       ecatch (ebind (write_temp env) (\<lambda>_. rename))
         (\<lambda>e. ebind (eerr (do_file env RemoveTemp id)) (\<lambda>_. efail e)))"

definition save_state :: "env \<Rightarrow> runtime_state \<Rightarrow> unit gw" where
  "save_state env st0 =
     (let st = journaled st0 in
      ebind (do_file env MarshalState id) (\<lambda>_.
      ebind (do_file env StatStateDir id) (\<lambda>_.
      ebind (with_temp env (do_file env (RenameState st) (\<lambda>w. w\<lparr>w_state_file := Some st\<rparr>))) (\<lambda>_.
        do_file env SyncStateDir id))))"

definition remove_state :: "env \<Rightarrow> unit gw" where
  "remove_state env =
     ebind (peek (\<lambda>w. w_state_file w \<noteq> None)) (\<lambda>exists.
     ebind (do_file env RemoveStateFile (\<lambda>w. w\<lparr>w_state_file := None\<rparr>)) (\<lambda>_.
       ewhen exists (do_file env SyncStateDir id)))"

definition load_gateway_desired_state :: "env \<Rightarrow> gateway_desired option gw" where
  "load_gateway_desired_state env =
     ebind (do_file env ReadDesired id) (\<lambda>_.
     ebind (peek w_desired_file) (\<lambda>found.
       case found of
         None \<Rightarrow> eret None
       | Some d \<Rightarrow>
           if gd_schema_version d \<noteq> desired_schema_version
           then efail (Msg ''unsupported gateway desired-state schema version'')
           else eret (Some d)))"

definition save_gateway_desired_state :: "env \<Rightarrow> bool \<Rightarrow> unit gw" where
  "save_gateway_desired_state env running =
     (let d = \<lparr>gd_schema_version = desired_schema_version, gd_running = running\<rparr> in
      ebind (do_file env MarshalState id) (\<lambda>_.
      ebind (do_file env MkdirDesired id) (\<lambda>_.
      ebind (with_temp env (do_file env (RenameDesired d) (\<lambda>w. w\<lparr>w_desired_file := Some d\<rparr>))) (\<lambda>_.
        do_file env SyncStateDir id))))"

text \<open>\<open>device.WritePolicyBundleSnapshot\<close> and \<open>RemovePolicyBundleSnapshot\<close>\<close>

definition write_policy_snapshot :: "env \<Rightarrow> policy_bundle \<Rightarrow> unit gw" where
  "write_policy_snapshot env b =
     ebind (eguard (writable_bundle b = None) (Msg ''invalid device policy bundle'')) (\<lambda>_.
       do_file env (WritePolicySnapshot b) (\<lambda>w. w\<lparr>w_policy_file := Some b\<rparr>))"

definition remove_policy_snapshot :: "env \<Rightarrow> unit gw" where
  "remove_policy_snapshot env = do_file env RemovePolicySnapshot (\<lambda>w. w\<lparr>w_policy_file := None\<rparr>)"

end
