(* ===== verification/GatewayManager.thy ===== *)
theory GatewayManager
  imports GatewayEnv
begin

text \<open>
  \<open>internal/gateway/manager.go\<close>: start with its rollback, stop, reload, restart of mihomo, and the
  recovery of an interrupted runtime. \<open>dnsmasq_restart.go\<close>, \<open>reservation_conflicts.go\<close> and
  \<open>lifecycle_lock.go\<close> follow the same shape. Each function is a sequence of calls in the order of the
  code; a state that went through \<open>SaveState\<close> continues as its \<open>journaled\<close> form, because the code
  writes the intents through a shared pointer.
\<close>

subsection \<open>Tracked processes\<close>

definition process_matches :: "env \<Rightarrow> int \<Rightarrow> string \<Rightarrow> bool gw" where
  "process_matches env pid fp = do_query env (AskMatches pid fp) (\<lambda>w. en_matches env w pid fp)"

definition process_fingerprint :: "env \<Rightarrow> int \<Rightarrow> string gw" where
  "process_fingerprint env pid = do_query env (AskFingerprint pid) (\<lambda>w. en_fingerprint env w pid)"

definition service_running :: "env \<Rightarrow> service \<Rightarrow> int \<Rightarrow> bool gw" where
  "service_running env s pid = ask (AskRunning s pid) (\<lambda>w. en_running env w s pid)"

definition stop_tracked_process :: "env \<Rightarrow> service \<Rightarrow> int \<Rightarrow> string \<Rightarrow> unit gw" where
  "stop_tracked_process env s pid fp =
     (if pid \<le> 0 then eret ()
      else if trim_space fp = [] then do_act env (StopService s pid)
      else
        ebind (ecatch (process_matches env pid fp)
                 (\<lambda>e. efail (Wrapped ''verify pid before stop'' e))) (\<lambda>matches.
          if \<not> matches then
            ebind (ask (AskAlive pid) (\<lambda>w. en_alive env w pid)) (\<lambda>alive.
              if alive then efail (ServiceMsg s pid ''process identity changed; refusing to signal the PID'')
              else eret ())
          else do_act env (StopService s pid)))"

definition tracked_process_running :: "env \<Rightarrow> service \<Rightarrow> int \<Rightarrow> string \<Rightarrow> bool gw" where
  "tracked_process_running env s pid fp =
     (if pid \<le> 0 then eret False
      else if trim_space fp = [] then service_running env s pid
      else
        ecatch (ebind (process_matches env pid fp) (\<lambda>matches.
                  if matches then service_running env s pid else eret False))
          (\<lambda>_. eret False))"

definition need_root :: "env \<Rightarrow> string \<Rightarrow> unit gw" where
  "need_root env what = eguard (en_euid env = 0) (Msg (what @ '' requires root privileges''))"

definition current_boot :: "env \<Rightarrow> boot_session gw" where
  "current_boot env =
     ecatch (do_query env AskBoot (en_boot env))
       (\<lambda>e. efail (Wrapped ''determine current boot session'' e))"

definition profile_digest :: "env \<Rightarrow> string gw" where
  "profile_digest env = do_query env AskProfileDigest (en_profile_digest env)"

definition stop_prepared_engine :: "env \<Rightarrow> unit gw" where
  "stop_prepared_engine env =
     ecatch (do_check env StopPrepared)
       (\<lambda>e. efail (Wrapped ''release prepared engine before gateway transition'' e))"

definition reap_error :: "service \<Rightarrow> int \<Rightarrow> gerr" where
  "reap_error s pid = ServiceMsg s pid ''disappeared before its identity could be recorded''"

text \<open>The identity of a process just started; a live PID without one counts as an error.\<close>

definition record_identity :: "env \<Rightarrow> service \<Rightarrow> int \<Rightarrow> string gw" where
  "record_identity env s pid =
     ebind (process_fingerprint env pid) (\<lambda>fp.
     ebind (eguard (\<not> (0 < pid \<and> fp = [])) (reap_error s pid)) (\<lambda>_.
       eret fp))"

subsection \<open>Preflight\<close>

definition preflight_with_ownership :: "env \<Rightarrow> gw_config \<Rightarrow> bool \<Rightarrow> unit gw" where
  "preflight_with_ownership env cfg check_ownership =
     ebind (do_check env (ServiceCheck DNSMasq)) (\<lambda>_.
     ebind (do_check env (ServiceCheck Mihomo)) (\<lambda>_.
     ebind (do_query env AskCapabilities (en_capabilities env)) (\<lambda>caps.
     ebind (ewhen (ca_missing_reported caps)
       (ebind (eguard (ca_net_admin caps) (Coded ''NETWORK_CAPABILITY_MISSING'' ''CAP_NET_ADMIN is required'')) (\<lambda>_.
        ebind (eguard (\<not> (gc_dhcp_enabled cfg \<and> \<not> ca_net_raw caps))
                 (Coded ''NETWORK_CAPABILITY_MISSING'' ''CAP_NET_RAW is required while DHCP is enabled'')) (\<lambda>_.
        ebind (eguard (ca_tun_device_node caps) (Coded ''NETWORK_TUN_UNAVAILABLE'' ''/dev/net/tun is required'')) (\<lambda>_.
        ebind (eguard (same_lan cfg \<or> (ca_nftables caps \<and> ca_nftables_json caps))
                 (Coded ''NETWORK_NFTABLES_UNAVAILABLE'' ''nftables with JSON output is required for isolated-LAN mode'')) (\<lambda>_.
        ebind (eguard (ca_iproute2 caps) (Coded ''NETWORK_IPROUTE2_UNAVAILABLE'' ''iproute2 is required'')) (\<lambda>_.
          eguard (ca_ipv4_forward_sysctl caps \<and> ca_ipv4_forward_ready caps)
            (Coded ''NETWORK_FORWARDING_UNAVAILABLE''
              ''IPv4 forwarding must already be enabled or writable in this network namespace'')))))))) (\<lambda>_.
     let same_interface = (trim_space (gc_interface cfg) = trim_space (gc_upstream_interface cfg)) in
     ebind (if same_lan cfg
            then eguard same_interface (Msg ''gateway.mode requires gateway and upstream interfaces to match'')
            else eguard (\<not> same_interface) (Msg ''gateway and upstream interfaces must differ'')) (\<lambda>_.
     ebind (do_check env EnsureTUN) (\<lambda>_.
     ebind (do_check env (ValidateTopology
              \<lparr>nt_lan_interface = gc_interface cfg, nt_lan_ip = gc_lan_ip cfg, nt_lan_cidr = gc_lan_cidr cfg,
               nt_upstream_interface = gc_upstream_interface cfg, nt_upstream_gateway = gc_upstream_gateway cfg,
               nt_nft_table_name = gc_nft_table cfg, nt_fw_mark = gc_fw_mark cfg,
               nt_route_table_id = gc_route_table_id cfg, nt_route_rule_priority = gc_route_rule_priority cfg,
               nt_same_lan = same_lan cfg, nt_skip_ownership_check = (\<not> check_ownership)\<rparr>)) (\<lambda>_.
       do_check env (LookupInterface (gc_interface cfg)))))))))"

definition preflight :: "env \<Rightarrow> gw_config \<Rightarrow> unit gw" where
  "preflight env cfg = preflight_with_ownership env cfg True"

text \<open>\<open>checkReservationConflicts\<close>: all reservations are probed; the first error in their order counts.\<close>

primrec probe_all :: "env \<Rightarrow> reservation list \<Rightarrow> gerr option list gw" where
  "probe_all env [] = eret []"
| "probe_all env (r # rs) =
     ebind (eerr (do_check env (ProbeReservation (rv_ipv4 r) (rv_mac r)))) (\<lambda>e.
     ebind (probe_all env rs) (\<lambda>es. eret (e # es)))"

definition check_reservation_conflicts :: "env \<Rightarrow> gw_config \<Rightarrow> unit gw" where
  "check_reservation_conflicts env cfg =
     (case gc_bundle cfg of
        None \<Rightarrow> eret ()
      | Some b \<Rightarrow>
          if gc_mode cfg \<noteq> mode_same_wifi_dhcp then eret ()
          else ebind (probe_all env (cp_reservations (pb_compiled b))) (\<lambda>es.
                 eopt (first_error (\<lambda>e. e) es)))"

subsection \<open>Rollback\<close>

definition rollback :: "env \<Rightarrow> runtime_state \<Rightarrow> gerr \<Rightarrow> 'a gw" where
  "rollback env st0 cause =
     (let st = journaled (st0\<lparr>st_lifecycle := ''cleanup''\<rparr>) in
     ebind (eerr (save_state env st)) (\<lambda>e1.
     ebind (eerr (stop_tracked_process env SmartDNS (st_pid_smartdns st) (st_smartdns_fingerprint st))) (\<lambda>e2.
     ebind (case st_snapshot st of
              None \<Rightarrow> eret None
            | Some sn \<Rightarrow> eerr (do_act env (RestoreNetwork sn))) (\<lambda>e3.
     ebind (eerr (stop_tracked_process env DNSMasq (st_pid_dnsmasq st) (st_dnsmasq_fingerprint st))) (\<lambda>e4.
     ebind (eerr (stop_tracked_process env Mihomo (st_pid_mihomo st) (st_mihomo_fingerprint st))) (\<lambda>e5.
       case join_errors [e1, e2, e3, e4, e5] of
         Some cleanup \<Rightarrow> efail (RollbackFailed cause cleanup)
       | None \<Rightarrow>
           ebind (eerr (remove_state env)) (\<lambda>e6.
           ebind (eerr (remove_policy_snapshot env)) (\<lambda>e7.
             case join_errors [e6, e7] of
               Some cleanup \<Rightarrow> efail (RollbackFailed cause cleanup)
             | None \<Rightarrow> efail cause))))))))"

text \<open>\<open>if err := m; err != nil { return m.rollback(ctx, err, state, ...) }\<close>\<close>

definition or_rollback :: "env \<Rightarrow> runtime_state \<Rightarrow> 'a gw \<Rightarrow> 'a gw" where
  "or_rollback env st m = ecatch m (rollback env st)"

subsection \<open>Start\<close>

definition nat_recipe :: "gw_config \<Rightarrow> nat_config" where
  "nat_recipe cfg =
     \<lparr>nc_lan_interface = gc_interface cfg, nc_upstream_interface = gc_upstream_interface cfg,
      nc_lan_cidr = gc_lan_cidr cfg, nc_tun_device = gc_tun_device cfg,
      nc_upstream_gateway = gc_upstream_gateway cfg, nc_fw_mark = gc_fw_mark cfg,
      nc_table_name = gc_nft_table cfg, nc_masquerade = False\<rparr>"

definition routing_recipe :: "gw_config \<Rightarrow> routing_config" where
  "routing_recipe cfg =
     \<lparr>rc_lan_interface = gc_interface cfg, rc_upstream_interface = gc_upstream_interface cfg,
      rc_lan_cidr = gc_lan_cidr cfg, rc_tun_device = gc_tun_device cfg,
      rc_upstream_gateway = gc_upstream_gateway cfg, rc_table_id = gc_route_table_id cfg,
      rc_rule_priority = gc_route_rule_priority cfg,
      rc_fw_mark = (if same_lan cfg then 0 else gc_fw_mark cfg),
      rc_rule_mode = (if same_lan cfg then routing_rule_ingress else routing_rule_fwmark),
      rc_direct_fallback = False\<rparr>"

definition with_recipes :: "gw_config \<Rightarrow> network_snapshot \<Rightarrow> network_snapshot" where
  "with_recipes cfg sn =
     (let sn1 = (if same_lan cfg then sn
                 else sn\<lparr>sn_nftables_table := gc_nft_table cfg, sn_nat := Some (nat_recipe cfg)\<rparr>)
      in sn1\<lparr>sn_routing := Some (routing_recipe cfg)\<rparr>)"

definition on_snapshot :: "(network_snapshot \<Rightarrow> network_snapshot) \<Rightarrow> runtime_state \<Rightarrow> runtime_state" where
  "on_snapshot f st = st\<lparr>st_snapshot := map_option f (st_snapshot st)\<rparr>"

definition mark_applied :: "(applied_steps \<Rightarrow> applied_steps) \<Rightarrow> runtime_state \<Rightarrow> runtime_state" where
  "mark_applied f = on_snapshot (\<lambda>sn. sn\<lparr>sn_applied := f (sn_applied sn)\<rparr>)"

definition verify_policy_routing :: "env \<Rightarrow> routing_config \<Rightarrow> unit gw" where
  "verify_policy_routing env r =
     ebind (ecatch (do_query env (AskRoutingPresent r) (\<lambda>w. en_routing_present env w r))
              (\<lambda>e. efail (Wrapped ''verify policy routing'' e))) (\<lambda>present.
       eguard present (Msg ''verify policy routing: OpenSurge policy rule or dedicated routes are missing''))"

text \<open>The configuration as \<open>start\<close> uses it: normalized, with its policy prepared and resolved.\<close>

definition prepare_config :: "env \<Rightarrow> gw_config \<Rightarrow> gw_config gw" where
  "prepare_config env cfg0 =
     ebind (do_config env ConfigNormalize cfg0) (\<lambda>cfg1.
     ebind (do_config env PreparePolicy cfg1) (\<lambda>cfg2.
     ebind (do_check env ConfigValidate) (\<lambda>_.
       do_config env ResolvePolicy cfg2)))"

definition write_and_validate_configs :: "env \<Rightarrow> unit gw" where
  "write_and_validate_configs env =
     ebind (do_check env (WriteConfig Mihomo)) (\<lambda>_.
     ebind (do_check env (WriteConfig DNSMasq)) (\<lambda>_.
     ebind (do_check env (WriteConfig SmartDNS)) (\<lambda>_.
     ebind (do_check env (ValidateConfig Mihomo)) (\<lambda>_.
       do_check env (ValidateConfig SmartDNS)))))"

text \<open>The first state of a run, with the recipes of everything the run is going to change.\<close>

definition starting_state ::
  "gw_config \<Rightarrow> boot_session \<Rightarrow> string \<Rightarrow> network_snapshot \<Rightarrow> int \<Rightarrow> runtime_state" where
  "starting_state cfg boot digest sn now =
     zero_state\<lparr>st_lifecycle := ''starting'', st_started_at := Some now,
       st_boot_session_id := bs_id boot, st_profile_digest := digest,
       st_dns_ipv6 := gc_dns_ipv6 cfg, st_dns_frontend := ''smartdns'',
       st_snapshot := Some (with_recipes cfg sn),
       st_device_policy_digest := (case gc_bundle cfg of None \<Rightarrow> [] | Some b \<Rightarrow> pb_digest b)\<rparr>"

text \<open>\<open>startWithCommit\<close> up to the first journal entry: nothing of the host is touched.\<close>

definition check_start :: "env \<Rightarrow> gw_config \<Rightarrow> bool \<Rightarrow> (gw_config \<times> runtime_state) gw" where
  "check_start env cfg0 commit =
     ebind (do_check env ContextErr) (\<lambda>_.
     ebind (need_root env ''start'') (\<lambda>_.
     ebind (load_state env) (\<lambda>existing.
     ebind (eguard (existing = None) (Msg ''gateway state already exists; run stop first'')) (\<lambda>_.
     ebind (prepare_config env cfg0) (\<lambda>cfg.
     ebind (stop_prepared_engine env) (\<lambda>_.
     ebind (do_check env NewBackend) (\<lambda>_.
     ebind (do_check env EnsureDirs) (\<lambda>_.
     ebind (current_boot env) (\<lambda>boot.
     ebind (preflight env cfg) (\<lambda>_.
     ebind (do_check env (ServiceCheck SmartDNS)) (\<lambda>_.
     ebind (check_reservation_conflicts env cfg) (\<lambda>_.
     ebind (write_and_validate_configs env) (\<lambda>_.
     ebind (do_check env ContextErr) (\<lambda>_.
     ebind (ewhen commit (do_check env CommitCandidate)) (\<lambda>_.
     ebind (ecatch (profile_digest env) (\<lambda>e. efail (Wrapped ''digest imported mihomo profile'' e))) (\<lambda>digest.
     ebind (case gc_bundle cfg of
              None \<Rightarrow> eret ()
            | Some b \<Rightarrow>
                ebind (do_check env (ReconcileLeases (cp_reservations (pb_compiled b)))) (\<lambda>_.
                  write_policy_snapshot env b)) (\<lambda>_.
     ebind (do_query env TakeSnapshot (en_snapshot env)) (\<lambda>sn.
     ebind (ask AskNow (en_now env)) (\<lambda>now.
       eret (cfg, starting_state cfg boot digest sn now))))))))))))))))))))"

definition prepare_start :: "env \<Rightarrow> gw_config \<Rightarrow> bool \<Rightarrow> (gw_config \<times> runtime_state) gw" where
  "prepare_start env cfg0 commit =
     ebind (check_start env cfg0 commit) (\<lambda>(cfg, st).
     ebind (ecatch (save_state env st)
              (\<lambda>e. ebind (eerr (remove_policy_snapshot env)) (\<lambda>_. efail e))) (\<lambda>_.
       eret (cfg, journaled st)))"

text \<open>One service: started, its PID taken into the state, its identity recorded.\<close>

definition bring_up_service ::
  "env \<Rightarrow> service \<Rightarrow> (int \<Rightarrow> runtime_state \<Rightarrow> runtime_state) \<Rightarrow> (string \<Rightarrow> runtime_state \<Rightarrow> runtime_state)
     \<Rightarrow> runtime_state \<Rightarrow> runtime_state gw" where
  "bring_up_service env s set_pid set_fp st =
     ebind (or_rollback env st (start_service env s)) (\<lambda>pid.
     ebind (or_rollback env (set_pid pid st) (record_identity env s pid)) (\<lambda>fp.
       eret (set_fp fp (set_pid pid st))))"

definition save_or_rollback :: "env \<Rightarrow> runtime_state \<Rightarrow> runtime_state gw" where
  "save_or_rollback env st =
     ebind (or_rollback env (journaled st) (save_state env st)) (\<lambda>_. eret (journaled st))"

definition bring_up_forwarding :: "env \<Rightarrow> runtime_state \<Rightarrow> runtime_state gw" where
  "bring_up_forwarding env st =
     ebind (or_rollback env st (do_check env ContextErr)) (\<lambda>_.
     ebind (or_rollback env st (do_act env EnableForwarding)) (\<lambda>_.
       save_or_rollback env
         (mark_applied (\<lambda>a. a\<lparr>ap_ipv4_forwarding := True\<rparr>) (st\<lparr>st_forwarding_applied := True\<rparr>))))"

definition bring_up_processes :: "env \<Rightarrow> runtime_state \<Rightarrow> runtime_state gw" where
  "bring_up_processes env st =
     ebind (or_rollback env st (do_check env ContextErr)) (\<lambda>_.
     ebind (bring_up_service env Mihomo (\<lambda>p. st_pid_mihomo_update (\<lambda>_. p))
              (\<lambda>f. st_mihomo_fingerprint_update (\<lambda>_. f)) st) (\<lambda>st1.
     ebind (save_or_rollback env st1) (\<lambda>st2.
     ebind (bring_up_service env DNSMasq (\<lambda>p. st_pid_dnsmasq_update (\<lambda>_. p))
              (\<lambda>f. st_dnsmasq_fingerprint_update (\<lambda>_. f)) st2) (\<lambda>st3.
       save_or_rollback env st3))))"

definition tun_routing :: "gw_config \<Rightarrow> string \<Rightarrow> routing_config" where
  "tun_routing cfg tun = (routing_recipe cfg)\<lparr>rc_tun_device := tun\<rparr>"

definition tun_nat :: "gw_config \<Rightarrow> string \<Rightarrow> nat_config" where
  "tun_nat cfg tun = (nat_recipe cfg)\<lparr>nc_tun_device := tun\<rparr>"

text \<open>The state once the TUN device is known.\<close>

definition with_tun :: "gw_config \<Rightarrow> string \<Rightarrow> runtime_state \<Rightarrow> runtime_state" where
  "with_tun cfg tun st =
     on_snapshot (\<lambda>sn. sn\<lparr>sn_routing := Some (tun_routing cfg tun)\<rparr>)
       (if same_lan cfg then st\<lparr>st_tun_device := tun\<rparr>
        else on_snapshot (\<lambda>sn. sn\<lparr>sn_nat := Some (tun_nat cfg tun)\<rparr>) (st\<lparr>st_tun_device := tun\<rparr>))"

definition apply_nat :: "env \<Rightarrow> nat_config \<Rightarrow> runtime_state \<Rightarrow> runtime_state gw" where
  "apply_nat env n st =
     ebind (or_rollback env st (do_act env (SetupNAT n))) (\<lambda>_.
       save_or_rollback env (mark_applied (\<lambda>a. a\<lparr>ap_nat := True\<rparr>) (st\<lparr>st_nat_applied := True\<rparr>)))"

definition apply_routing :: "env \<Rightarrow> routing_config \<Rightarrow> runtime_state \<Rightarrow> runtime_state gw" where
  "apply_routing env r st =
     ebind (or_rollback env st (do_act env (SetupRouting r))) (\<lambda>_.
     ebind (or_rollback env st (verify_policy_routing env r)) (\<lambda>_.
       save_or_rollback env
         (mark_applied (\<lambda>a. a\<lparr>ap_policy_routing := True\<rparr>) (st\<lparr>st_routing_applied := True\<rparr>))))"

definition bring_up_network :: "env \<Rightarrow> gw_config \<Rightarrow> runtime_state \<Rightarrow> runtime_state gw" where
  "bring_up_network env cfg st =
     ebind (or_rollback env st
              (do_query env (WaitTUN (gc_tun_device cfg)) (\<lambda>w. en_tun_name env w (gc_tun_device cfg)))) (\<lambda>tun.
     ebind (save_or_rollback env (with_tun cfg tun st)) (\<lambda>st2.
     ebind (if same_lan cfg then eret st2 else apply_nat env (tun_nat cfg tun) st2) (\<lambda>st3.
       apply_routing env (tun_routing cfg tun) st3)))"

definition bring_up_frontend :: "env \<Rightarrow> runtime_state \<Rightarrow> runtime_state gw" where
  "bring_up_frontend env st =
     ebind (bring_up_service env SmartDNS (\<lambda>p. st_pid_smartdns_update (\<lambda>_. p))
              (\<lambda>f. st_smartdns_fingerprint_update (\<lambda>_. f)) st) (\<lambda>st1.
       save_or_rollback env (st1\<lparr>st_lifecycle := ''running''\<rparr>))"

definition bring_up :: "env \<Rightarrow> gw_config \<Rightarrow> runtime_state \<Rightarrow> runtime_state gw" where
  "bring_up env cfg st0 =
     ebind (bring_up_forwarding env st0) (\<lambda>st1.
     ebind (bring_up_processes env st1) (\<lambda>st2.
     ebind (bring_up_network env cfg st2) (\<lambda>st3.
       bring_up_frontend env st3)))"

definition warm_managed_tailscale :: "env \<Rightarrow> gw_config \<Rightarrow> unit gw" where
  "warm_managed_tailscale env cfg =
     ewhen (gc_tailscale_enabled cfg) (ebind (eerr (do_check env WarmTailscale)) (\<lambda>_. eret ()))"

definition start_with_commit :: "env \<Rightarrow> gw_config \<Rightarrow> bool \<Rightarrow> unit gw" where
  "start_with_commit env cfg0 commit =
     ebind (prepare_start env cfg0 commit) (\<lambda>(cfg, st0).
     ebind (bring_up env cfg st0) (\<lambda>_.
       warm_managed_tailscale env cfg))"

definition start :: "env \<Rightarrow> gw_config \<Rightarrow> unit gw" where
  "start env cfg = start_with_commit env cfg False"

end
