(* ===== verification/GatewayTransitions.thy ===== *)
theory GatewayTransitions
  imports GatewayManager
begin

text \<open>
  \<open>internal/gateway/manager.go\<close> after start: stop, the reconciliation of an interrupted runtime,
  reload, the restarts of mihomo and dnsmasq (\<open>dnsmasq_restart.go\<close>), and the lifecycle lock around
  them (\<open>lifecycle_lock.go\<close>, \<open>internal/runtime/lifecycle_lock.go\<close>).
\<close>

subsection \<open>Stop\<close>

definition clear_runtime :: "env \<Rightarrow> unit gw" where
  "clear_runtime env =
     ebind (eerr (remove_state env)) (\<lambda>e1.
     ebind (eerr (remove_policy_snapshot env)) (\<lambda>e2.
       eopt (join_errors [e1, e2])))"

definition cleanup_interrupted_runtime :: "env \<Rightarrow> runtime_state \<Rightarrow> unit gw" where
  "cleanup_interrupted_runtime env st =
     ebind (case st_snapshot st of
              None \<Rightarrow> eret ()
            | Some sn \<Rightarrow>
                ebind (do_check env NewBackend) (\<lambda>_.
                  ecatch (do_act env (RestoreNetwork sn))
                    (\<lambda>e. efail (Wrapped ''restore interrupted gateway network state'' e)))) (\<lambda>_.
       clear_runtime env)"

text \<open>The teardown of a state that belongs to the running boot session: the frontend first, mihomo last;
  a step that fails does not keep the later ones from running.\<close>

definition teardown_steps :: "env \<Rightarrow> runtime_state \<Rightarrow> unit gw" where
  "teardown_steps env st =
     ebind (eerr (stop_tracked_process env SmartDNS (st_pid_smartdns st) (st_smartdns_fingerprint st))) (\<lambda>e1.
     ebind (case st_snapshot st of
              None \<Rightarrow> eret None
            | Some sn \<Rightarrow> eerr (do_act env (RestoreNetwork sn))) (\<lambda>e2.
     ebind (eerr (stop_tracked_process env DNSMasq (st_pid_dnsmasq st) (st_dnsmasq_fingerprint st))) (\<lambda>e3.
     ebind (eerr (stop_tracked_process env Mihomo (st_pid_mihomo st) (st_mihomo_fingerprint st))) (\<lambda>e4.
       eopt (join_errors [e1, e2, e3, e4])))))"

definition teardown :: "env \<Rightarrow> runtime_state \<Rightarrow> unit gw" where
  "teardown env st0 =
     ebind (eguard (\<not> (st_snapshot st0 = None
                       \<and> (st_forwarding_applied st0 \<or> st_nat_applied st0 \<or> st_routing_applied st0)))
              (Msg ''runtime state records applied network changes but has no network snapshot; refusing blind cleanup'')) (\<lambda>_.
     let st = journaled (st0\<lparr>st_lifecycle := ''stopping''\<rparr>) in
     ebind (ecatch (save_state env st)
              (\<lambda>e. efail (Wrapped ''mark gateway teardown before stopping services'' e))) (\<lambda>_.
       teardown_steps env st))"

definition stop_gateway :: "env \<Rightarrow> unit gw" where
  "stop_gateway env =
     ebind (need_root env ''stop'') (\<lambda>_.
     ebind (stop_prepared_engine env) (\<lambda>_.
     ebind (load_state env) (\<lambda>loaded.
       case loaded of
         None \<Rightarrow> ebind (do_check env NewBackend) (\<lambda>_. clear_runtime env)
       | Some st \<Rightarrow>
           ebind (current_boot env) (\<lambda>boot.
             if \<not> belongs_to_boot st boot then cleanup_interrupted_runtime env st
             else
               ebind (do_check env NewBackend) (\<lambda>_.
               ebind (teardown env st) (\<lambda>_.
                 clear_runtime env))))))"

subsection \<open>Reload\<close>

text \<open>\<open>validateReloadCandidate\<close>; the candidate's files live in a temporary directory, removed on return.\<close>

definition check_candidate :: "env \<Rightarrow> gw_config \<Rightarrow> string \<Rightarrow> unit gw" where
  "check_candidate env cfg temp =
     ebind (do_config env ConfigNormalize cfg) (\<lambda>cfg1.
     ebind (do_config env PreparePolicy cfg1) (\<lambda>cfg2.
     let candidate = cfg2\<lparr>gc_runtime_dir := temp\<rparr> in
     ebind (do_check env ConfigValidate) (\<lambda>_.
     ebind (do_check env EnsureDirs) (\<lambda>_.
     ebind (do_check env NewBackend) (\<lambda>_.
     ebind (preflight_with_ownership env candidate False) (\<lambda>_.
     ebind (do_check env (ServiceCheck SmartDNS)) (\<lambda>_.
     ebind (check_reservation_conflicts env candidate) (\<lambda>_.
       write_and_validate_configs env))))))))"

definition validate_reload_candidate :: "env \<Rightarrow> gw_config \<Rightarrow> unit gw" where
  "validate_reload_candidate env cfg =
     ebind (do_check env MakeParentDir) (\<lambda>_.
     ebind (do_query env MakeCandidateDir (en_candidate_dir env)) (\<lambda>temp.
       efinally (check_candidate env cfg temp) (do_check env RemoveCandidateDir)))"

definition load_running_state :: "env \<Rightarrow> string \<Rightarrow> runtime_state gw" where
  "load_running_state env interrupted =
     ebind (load_state env) (\<lambda>loaded.
       case loaded of
         None \<Rightarrow> efail (Msg ''gateway is not running; run start instead'')
       | Some st \<Rightarrow>
           ebind (current_boot env) (\<lambda>boot.
             if belongs_to_boot st boot then eret st else efail (Msg interrupted)))"

definition dnsmasq_alive :: "env \<Rightarrow> runtime_state \<Rightarrow> bool gw" where
  "dnsmasq_alive env st = tracked_process_running env DNSMasq (st_pid_dnsmasq st) (st_dnsmasq_fingerprint st)"

definition smartdns_alive :: "env \<Rightarrow> runtime_state \<Rightarrow> bool gw" where
  "smartdns_alive env st = tracked_process_running env SmartDNS (st_pid_smartdns st) (st_smartdns_fingerprint st)"

definition mihomo_alive :: "env \<Rightarrow> runtime_state \<Rightarrow> bool gw" where
  "mihomo_alive env st = tracked_process_running env Mihomo (st_pid_mihomo st) (st_mihomo_fingerprint st)"

definition reload :: "env \<Rightarrow> gw_config \<Rightarrow> unit gw" where
  "reload env cfg =
     ebind (need_root env ''reload'') (\<lambda>_.
     ebind (load_running_state env
              ''gateway runtime was interrupted by a container or host restart; run stop to recover it before reload'') (\<lambda>st.
     ebind (eor (eret (\<not> gc_dhcp_enabled cfg)) (dnsmasq_alive env st)) (\<lambda>dhcp_ready.
     ebind (eor (eret (\<not> dhcp_ready))
              (eor (enot (smartdns_alive env st)) (enot (mihomo_alive env st)))) (\<lambda>degraded.
     ebind (eguard (\<not> degraded)
              (Msg ''gateway is degraded; reload requires SmartDNS, mihomo, and enabled DHCP to be running'')) (\<lambda>_.
     ebind (ecatch (validate_reload_candidate env cfg)
              (\<lambda>e. efail (Wrapped ''reload candidate validation failed'' e))) (\<lambda>_.
     ebind (ecatch (stop_gateway env) (\<lambda>e. efail (Wrapped ''reload stop failed'' e))) (\<lambda>_.
       ecatch (start env cfg)
         (\<lambda>e. efail (Wrapped ''reload start failed after gateway stop'' e)))))))))"

subsection \<open>Restart of mihomo\<close>

text \<open>The recipe with the TUN device mihomo has now; direct fallback needs none.\<close>

definition replacement_recipe :: "env \<Rightarrow> gw_config \<Rightarrow> routing_config \<Rightarrow> routing_config gw" where
  "replacement_recipe env cfg r0 =
     (if rc_direct_fallback r0 then eret r0
      else
        let own = trim_space (rc_tun_device r0);
            requested = (if own = [] then trim_space (gc_tun_device cfg) else own) in
        ebind (eguard (requested \<noteq> []) (Msg ''runtime policy routing recipe does not contain a TUN device'')) (\<lambda>_.
        ebind (ecatch (do_query env (WaitTUN requested) (\<lambda>w. en_tun_name env w requested))
                 (\<lambda>e. efail (Wrapped ''wait for replacement TUN'' e))) (\<lambda>tun.
          eret (r0\<lparr>rc_tun_device := tun\<rparr>))))"

definition with_routing_applied :: "routing_config \<Rightarrow> runtime_state \<Rightarrow> runtime_state" where
  "with_routing_applied r st =
     mark_applied (\<lambda>a. a\<lparr>ap_policy_routing := True\<rparr>)
       (on_snapshot (\<lambda>sn. sn\<lparr>sn_routing := Some r\<rparr>) (st\<lparr>st_tun_device := rc_tun_device r, st_routing_applied := True\<rparr>))"

definition reapply_policy_routing :: "env \<Rightarrow> gw_config \<Rightarrow> runtime_state \<Rightarrow> runtime_state gw" where
  "reapply_policy_routing env cfg st =
     (case (case st_snapshot st of None \<Rightarrow> None | Some sn \<Rightarrow> sn_routing sn) of
        None \<Rightarrow> efail (Msg ''runtime state does not contain the applied policy routing recipe'')
      | Some r0 \<Rightarrow>
          ebind (replacement_recipe env cfg r0) (\<lambda>r.
          ebind (ecatch (do_act env (SetupRouting r)) (\<lambda>e. efail (Wrapped ''reapply policy routing'' e))) (\<lambda>_.
          ebind (verify_policy_routing env r) (\<lambda>_.
            eret (with_routing_applied r st)))))"

definition archive_log :: "env \<Rightarrow> service \<Rightarrow> unit gw" where
  "archive_log env s =
     ebind (ask AskNow (en_now env)) (\<lambda>_.
       ecatch (do_check env (ArchiveLog s)) (\<lambda>e. efail (Wrapped ''archive log before restart'' e)))"

definition fail_all :: "gerr option list \<Rightarrow> 'a gw" where
  "fail_all es = ebind (eopt (join_errors es)) (\<lambda>_. efail (Joined []))"

text \<open>The guards of \<open>restartMihomo\<close>, up to the validation of the prepared configuration.\<close>

definition check_restart :: "env \<Rightarrow> gw_config \<Rightarrow> runtime_state \<Rightarrow> unit gw" where
  "check_restart env cfg st =
     ebind (eguard (\<not> (st_lifecycle st \<noteq> [] \<and> st_lifecycle st \<noteq> ''running''
                       \<or> st_dns_frontend st = ''smartdns'' \<and> st_pid_smartdns st \<le> 0))
              (Msg ''gateway startup or cleanup is incomplete; full gateway recovery is required before restarting mihomo'')) (\<lambda>_.
     ebind (ewhen (st_dns_frontend st = ''smartdns'')
              (ebind (eor (enot (smartdns_alive env st))
                          (eand (eret (dhcp_should_run cfg)) (enot (dnsmasq_alive env st)))) (\<lambda>dns_down.
                 eguard (\<not> dns_down)
                   (Msg ''gateway DNS is not running; full gateway recovery is required before restarting mihomo'')))) (\<lambda>_.
     ebind (ecatch (profile_digest env)
              (\<lambda>e. efail (Wrapped ''digest current imported mihomo profile'' e))) (\<lambda>digest.
     ebind (eguard (digest = st_profile_digest st)
              (Msg ''desired imported mihomo profile differs from the applied runtime; run reload instead'')) (\<lambda>_.
       ecatch (do_check env (ValidateConfig Mihomo))
         (\<lambda>e. efail (Wrapped ''prepared mihomo config validation failed'' e))))))"

definition restart_mihomo_guards :: "env \<Rightarrow> gw_config \<Rightarrow> runtime_state gw" where
  "restart_mihomo_guards env cfg =
     ebind (need_root env ''restart-mihomo'') (\<lambda>_.
     ebind (load_running_state env
              ''gateway runtime was interrupted by a restart; run stop to recover it first'') (\<lambda>st.
     ebind (check_restart env cfg st) (\<lambda>_.
       eret st)))"

text \<open>The old process is marked gone and routing unverified before the process is touched.\<close>

definition retire_mihomo :: "env \<Rightarrow> runtime_state \<Rightarrow> runtime_state gw" where
  "retire_mihomo env st0 =
     (let st = journaled (st0\<lparr>st_pid_mihomo := 0, st_mihomo_fingerprint := [], st_routing_applied := False\<rparr>) in
      ebind (ecatch (save_state env st)
               (\<lambda>e. efail (Wrapped ''mark mihomo restart in runtime state'' e))) (\<lambda>_.
      ebind (ecatch (stop_tracked_process env Mihomo (st_pid_mihomo st0) (st_mihomo_fingerprint st0))
               (\<lambda>e. ebind (mihomo_alive env st0) (\<lambda>alive.
                    ebind (eerr (save_state env
                             (if alive then st\<lparr>st_pid_mihomo := st_pid_mihomo st0,
                                               st_mihomo_fingerprint := st_mihomo_fingerprint st0,
                                               st_routing_applied := st_routing_applied st0\<rparr>
                              else st))) (\<lambda>saved.
                      fail_all [Some (ServiceMsg Mihomo (st_pid_mihomo st0) ''stop''), Some e, saved])))) (\<lambda>_.
        eret st)))"

text \<open>A replacement whose identity or PID cannot be recorded is stopped again.\<close>

definition launch_mihomo :: "env \<Rightarrow> runtime_state \<Rightarrow> runtime_state gw" where
  "launch_mihomo env st =
     ebind (ecatch (start_service env Mihomo)
              (\<lambda>e. efail (Wrapped ''start replacement mihomo process'' e))) (\<lambda>pid.
     ebind (ecatch (record_identity env Mihomo pid)
              (\<lambda>e. ebind (eerr (do_act env (StopService Mihomo pid))) (\<lambda>stopped.
                     fail_all [Some e, stopped]))) (\<lambda>fp.
     let st1 = journaled (st\<lparr>st_pid_mihomo := pid, st_mihomo_fingerprint := fp\<rparr>) in
     ebind (ecatch (save_state env st1)
              (\<lambda>e. ebind (eerr (do_act env (StopService Mihomo pid))) (\<lambda>stopped.
                     fail_all [Some (Wrapped ''save replacement mihomo pid'' e), stopped]))) (\<lambda>_.
       eret st1)))"

text \<open>When routing cannot be repaired the replacement is stopped and the durable state says what is left.\<close>

definition drop_mihomo :: "env \<Rightarrow> runtime_state \<Rightarrow> (runtime_state \<Rightarrow> runtime_state) \<Rightarrow> gerr \<Rightarrow> 'a gw" where
  "drop_mihomo env st forget e =
     ebind (eerr (do_act env (StopService Mihomo (st_pid_mihomo st)))) (\<lambda>stopped.
     ebind (eerr (save_state env (if stopped = None then forget st else st))) (\<lambda>saved.
       fail_all [Some e, stopped, saved]))"

definition repair_routing :: "env \<Rightarrow> gw_config \<Rightarrow> runtime_state \<Rightarrow> unit gw" where
  "repair_routing env cfg st =
     ebind (ecatch (do_check env NewBackend)
              (\<lambda>e. drop_mihomo env st (\<lambda>s. s\<lparr>st_pid_mihomo := 0, st_mihomo_fingerprint := []\<rparr>)
                     (Wrapped ''create network backend while repairing policy routing'' e))) (\<lambda>_.
     ebind (ecatch (reapply_policy_routing env cfg st)
              (\<lambda>e. drop_mihomo env st
                     (\<lambda>s. s\<lparr>st_pid_mihomo := 0, st_mihomo_fingerprint := [], st_routing_applied := False\<rparr>)
                     (Wrapped ''repair policy routing after mihomo restart'' e))) (\<lambda>st1.
       ecatch (save_state env st1)
         (\<lambda>e. efail (Wrapped ''save repaired routing state'' e))))"

definition restart_mihomo :: "env \<Rightarrow> gw_config \<Rightarrow> unit gw" where
  "restart_mihomo env cfg =
     ebind (restart_mihomo_guards env cfg) (\<lambda>st.
     ebind (retire_mihomo env st) (\<lambda>st1.
     ebind (archive_log env Mihomo) (\<lambda>_.
     ebind (launch_mihomo env st1) (\<lambda>st2.
       repair_routing env cfg st2))))"

subsection \<open>Restart of dnsmasq\<close>

text \<open>The transition is on disk before the process is touched; a process that no longer is the recorded
  one is not signalled.\<close>

definition retire_dnsmasq :: "env \<Rightarrow> runtime_state \<Rightarrow> runtime_state gw" where
  "retire_dnsmasq env st0 =
     ebind (dnsmasq_alive env st0) (\<lambda>previous_running.
     let st = journaled (st0\<lparr>st_pid_dnsmasq := 0, st_dnsmasq_fingerprint := []\<rparr>) in
     ebind (ecatch (save_state env st)
              (\<lambda>e. efail (Wrapped ''mark dnsmasq restart in runtime state'' e))) (\<lambda>_.
     ebind (ewhen previous_running
              (ecatch (stop_tracked_process env DNSMasq (st_pid_dnsmasq st0) (st_dnsmasq_fingerprint st0))
                 (\<lambda>e. ebind (dnsmasq_alive env st0) (\<lambda>alive.
                      ebind (eerr (save_state env
                               (if alive then st\<lparr>st_pid_dnsmasq := st_pid_dnsmasq st0,
                                                 st_dnsmasq_fingerprint := st_dnsmasq_fingerprint st0\<rparr>
                                else st))) (\<lambda>saved.
                        fail_all [Some (ServiceMsg DNSMasq (st_pid_dnsmasq st0) ''stop''), Some e, saved]))))) (\<lambda>_.
       eret st)))"

definition launch_dnsmasq :: "env \<Rightarrow> runtime_state \<Rightarrow> unit gw" where
  "launch_dnsmasq env st =
     ebind (ecatch (start_service env DNSMasq)
              (\<lambda>e. efail (Wrapped ''start replacement dnsmasq process'' e))) (\<lambda>pid.
     ebind (eguard (0 < pid)
              (Msg ''replacement dnsmasq did not return a live pid; current topology may no longer require dnsmasq'')) (\<lambda>_.
     ebind (ecatch (record_identity env DNSMasq pid)
              (\<lambda>e. ebind (eerr (do_act env (StopService DNSMasq pid))) (\<lambda>stopped.
                     fail_all [Some e, stopped]))) (\<lambda>fp.
       ecatch (save_state env (st\<lparr>st_pid_dnsmasq := pid, st_dnsmasq_fingerprint := fp\<rparr>))
         (\<lambda>e. ebind (eerr (do_act env (StopService DNSMasq pid))) (\<lambda>stopped.
                fail_all [Some (Wrapped ''save replacement dnsmasq pid'' e), stopped])))))"

definition restart_dnsmasq :: "env \<Rightarrow> unit gw" where
  "restart_dnsmasq env =
     ebind (need_root env ''restart-dnsmasq'') (\<lambda>_.
     ebind (load_running_state env
              ''gateway runtime was interrupted by a restart; run stop to recover it first'') (\<lambda>st0.
     ebind (ecatch (do_check env (ServiceCheck DNSMasq))
              (\<lambda>e. efail (Wrapped ''dnsmasq preflight failed'' e))) (\<lambda>_.
     ebind (retire_dnsmasq env st0) (\<lambda>st.
     ebind (archive_log env DNSMasq) (\<lambda>_.
       launch_dnsmasq env st)))))"

subsection \<open>The lifecycle lock\<close>

definition in_progress :: gerr where
  "in_progress = Msg ''another gateway lifecycle operation is already running''"

definition close_lock :: "env \<Rightarrow> unit gw" where
  "close_lock env = ebind (eerr (do_check env LockClose)) (\<lambda>_. eret ())"

definition acquire_lifecycle_lock :: "env \<Rightarrow> string \<Rightarrow> unit gw" where
  "acquire_lifecycle_lock env dir =
     ebind (ecatch (do_check env (LockMkdir dir))
              (\<lambda>e. efail (Wrapped ''prepare gateway lifecycle lock directory'' e))) (\<lambda>_.
     ebind (ecatch (do_check env (LockOpen dir)) (\<lambda>e. efail (Wrapped ''open gateway lifecycle lock'' e))) (\<lambda>_.
     ebind (ecatch (do_check env LockStat) (\<lambda>e. ebind (close_lock env) (\<lambda>_. efail e))) (\<lambda>_.
       ecatch (do_query env (AskFlock dir) (\<lambda>_. ()))
         (\<lambda>e. ebind (close_lock env) (\<lambda>_.
                efail (if e = WouldBlock then in_progress else Wrapped ''lock gateway lifecycle'' e))))))"

definition release_lifecycle_lock :: "env \<Rightarrow> unit gw" where
  "release_lifecycle_lock env =
     ebind (eerr (do_check env LockUnlock)) (\<lambda>e1.
     ebind (eerr (do_check env LockClose)) (\<lambda>e2.
       eopt (join_errors [e1, e2])))"

definition with_lifecycle_lock :: "env \<Rightarrow> string \<Rightarrow> unit gw \<Rightarrow> unit gw" where
  "with_lifecycle_lock env dir run =
     ebind (acquire_lifecycle_lock env dir) (\<lambda>_.
     ebind (eerr run) (\<lambda>e1.
     ebind (eerr (release_lifecycle_lock env)) (\<lambda>e2.
       eopt (join_errors [e1, e2]))))"

definition lifecycle_operation_in_progress :: "env \<Rightarrow> string \<Rightarrow> bool gw" where
  "lifecycle_operation_in_progress env dir =
     ebind (ecatch (do_query env (OpenLockFile dir) (\<lambda>w. en_lock_exists env w dir))
              (\<lambda>e. efail (Wrapped ''open gateway lifecycle lock for inspection'' e))) (\<lambda>exists.
       if \<not> exists then eret False
       else
         efinally
           (ebind (do_check env LockStat) (\<lambda>_.
            ebind (ecatch (ebind (do_query env (AskFlock dir) (\<lambda>_. ())) (\<lambda>_. eret False))
                     (\<lambda>e. if e = WouldBlock then eret True
                          else efail (Wrapped ''inspect gateway lifecycle lock'' e))) (\<lambda>taken.
              if taken then eret True
              else
                ebind (ecatch (do_check env LockUnlock)
                         (\<lambda>e. efail (Wrapped ''release inspected gateway lifecycle lock'' e))) (\<lambda>_.
                  eret False))))
           (do_check env LockClose))"

text \<open>\<open>filepath.Clean\<close> on Unix, on the elements of the path; the second argument is the output so far,
  last element first.\<close>

fun clean_elements :: "bool \<Rightarrow> string list \<Rightarrow> string list \<Rightarrow> string list" where
  "clean_elements rooted out [] = rev out"
| "clean_elements rooted out (x # xs) =
     (if x = [] \<or> x = ''.'' then clean_elements rooted out xs
      else if x = ''..'' then
        (case out of
           [] \<Rightarrow> clean_elements rooted (if rooted then [] else [x]) xs
         | y # ys \<Rightarrow> if y = ''..'' then clean_elements rooted (x # out) xs
                    else clean_elements rooted ys xs)
      else clean_elements rooted (x # out) xs)"

definition clean_path :: "string \<Rightarrow> string" where
  "clean_path p =
     (let rooted = has_prefix p ''/'';
          es = clean_elements rooted [] (split_on CHR ''/'' p)
      in if rooted then CHR ''/'' # join ''/'' es
         else if es = [] then ''.'' else join ''/'' es)"

definition run_config_lifecycle :: "env \<Rightarrow> gw_config gw \<Rightarrow> (gw_config \<Rightarrow> unit gw) \<Rightarrow> unit gw" where
  "run_config_lifecycle env load_locked run_locked =
     ebind (do_query env LoadRuntimeConfig (en_runtime_config env)) (\<lambda>lock_config.
       with_lifecycle_lock env (gc_runtime_dir lock_config)
         (ebind load_locked (\<lambda>desired.
          ebind (eguard (clean_path (gc_runtime_dir desired) = clean_path (gc_runtime_dir lock_config))
                   (Msg ''runtime.dir changed while a gateway lifecycle action was waiting; retry the action'')) (\<lambda>_.
            run_locked desired))))"

definition load_runtime_config :: "env \<Rightarrow> gw_config gw" where
  "load_runtime_config env = do_query env LoadRuntimeConfig (en_runtime_config env)"

definition load_full_config :: "env \<Rightarrow> gw_config gw" where
  "load_full_config env = do_query env LoadConfig (en_full_config env)"

definition start_config :: "env \<Rightarrow> unit gw" where
  "start_config env = run_config_lifecycle env (load_full_config env) (start env)"

definition reload_config :: "env \<Rightarrow> unit gw" where
  "reload_config env = run_config_lifecycle env (load_full_config env) (reload env)"

definition restart_mihomo_config :: "env \<Rightarrow> unit gw" where
  "restart_mihomo_config env = run_config_lifecycle env (load_runtime_config env) (restart_mihomo env)"

definition restart_dnsmasq_config :: "env \<Rightarrow> unit gw" where
  "restart_dnsmasq_config env = run_config_lifecycle env (load_runtime_config env) (\<lambda>_. restart_dnsmasq env)"

definition stop_config :: "env \<Rightarrow> unit gw" where
  "stop_config env = run_config_lifecycle env (load_runtime_config env) (\<lambda>_. stop_gateway env)"

end
