(* ===== verification/GatewayStatus.thy ===== *)
theory GatewayStatus
  imports GatewayTransitions
begin

text \<open>
  \<open>internal/gateway/status.go\<close> (the observed status) and \<open>container_recovery.go\<close> (the desired state,
  recovery after a container restart, readiness). An error text of the status is the error itself;
  the two concurrent fetches from mihomo are two calls in a row. \<open>Format\<close> is left out.
\<close>

subsection \<open>Status\<close>

record gateway_status =
  gs_gateway :: string
  gs_runtime_state :: string
  gs_desired_running :: bool
  gs_interface :: string
  gs_lan_ip :: string
  gs_data_plane :: string
  gs_routing :: string
  gs_routing_error :: "gerr option"
  gs_dhcp :: string
  gs_dhcp_enabled :: bool
  gs_dns :: string
  gs_local_dns :: string
  gs_mihomo :: string
  gs_mihomo_error :: "gerr option"
  gs_tun :: string
  gs_tun_interface :: string
  gs_tun_error :: "gerr option"
  gs_nftables :: string
  gs_forwarding :: string
  gs_client_count :: int
  gs_dns_ipv6 :: bool
  gs_tun_ipv6_requested :: string
  gs_ipv6_takeover :: string

text \<open>What the status is before anything is observed.\<close>

definition initial_status :: "gw_config \<Rightarrow> bool \<Rightarrow> int \<Rightarrow> gateway_status" where
  "initial_status cfg desired clients =
     \<lparr>gs_gateway = ''stopped'', gs_runtime_state = ''none'', gs_desired_running = desired,
      gs_interface = gc_interface cfg, gs_lan_ip = gc_lan_ip cfg,
      gs_data_plane = (if same_lan cfg then ''tun-iif-route'' else ''tun-nft-fwmark''),
      gs_routing = ''not_applied'', gs_routing_error = None,
      gs_dhcp = (if gc_dhcp_enabled cfg then ''stopped'' else ''disabled''),
      gs_dhcp_enabled = gc_dhcp_enabled cfg, gs_dns = ''stopped'',
      gs_local_dns = (if dhcp_should_run cfg then ''stopped'' else ''disabled''),
      gs_mihomo = ''stopped'', gs_mihomo_error = None,
      gs_tun = (if gc_tun_enabled cfg then ''stopped'' else ''disabled''), gs_tun_interface = [],
      gs_tun_error = None,
      gs_nftables = (if same_lan cfg then ''not_required'' else ''not_applied''),
      gs_forwarding = ''unknown'', gs_client_count = clients, gs_dns_ipv6 = gc_dns_ipv6 cfg,
      gs_tun_ipv6_requested = gc_tun_ipv6 cfg, gs_ipv6_takeover = ''unsupported''\<rparr>"

definition state_routing :: "runtime_state \<Rightarrow> routing_config option" where
  "state_routing st = (case st_snapshot st of None \<Rightarrow> None | Some sn \<Rightarrow> sn_routing sn)"

definition status_of_state :: "runtime_state \<Rightarrow> gateway_status \<Rightarrow> gateway_status" where
  "status_of_state st gs =
     (let gs1 = gs\<lparr>gs_dns_ipv6 := st_dns_ipv6 st\<rparr> in
      case state_routing st of
        None \<Rightarrow> gs1
      | Some r \<Rightarrow>
          (let mode = (if rc_rule_mode r = [] then routing_rule_fwmark else rc_rule_mode r);
               gs2 = gs1\<lparr>gs_routing := ''unknown''\<rparr>
           in if mode = routing_rule_ingress
              then gs2\<lparr>gs_data_plane := ''tun-iif-route'', gs_nftables := ''not_required''\<rparr>
              else gs2\<lparr>gs_data_plane := ''tun-nft-fwmark''\<rparr>))"

text \<open>The result and the error of a fetch.\<close>

definition fetch :: "'a gw \<Rightarrow> (gerr + 'a) gw" where
  "fetch m = (\<lambda>w. case m w of (r, w') \<Rightarrow> (Inr r, w'))"

definition fetch_mihomo_runtime ::
  "env \<Rightarrow> gw_config \<Rightarrow> ((gerr + string) \<times> (gerr + (bool \<times> string))) gw" where
  "fetch_mihomo_runtime env cfg =
     ebind (fetch (do_query env AskMihomoVersion (en_mihomo_version env))) (\<lambda>version.
       if \<not> gc_tun_enabled cfg then eret (version, Inr (False, []))
       else ebind (fetch (do_query env AskMihomoTUN (en_mihomo_tun env))) (\<lambda>tun. eret (version, tun)))"

definition observe_mihomo :: "env \<Rightarrow> gw_config \<Rightarrow> gateway_status \<Rightarrow> gateway_status gw" where
  "observe_mihomo env cfg gs =
     ebind (fetch_mihomo_runtime env cfg) (\<lambda>(version, tun).
     let gs1 = (case version of
                  Inl e \<Rightarrow> gs\<lparr>gs_mihomo := ''running'', gs_mihomo_error := Some e\<rparr>
                | Inr v \<Rightarrow> gs\<lparr>gs_mihomo := (if v = [] then ''running'' else ''running ('' @ v @ '')'')\<rparr>) in
     eret
       (if \<not> gc_tun_enabled cfg then gs1
        else (case tun of
                Inl e \<Rightarrow> gs1\<lparr>gs_tun := ''unknown'', gs_tun_error := Some e\<rparr>
              | Inr (enabled, dev) \<Rightarrow>
                  if enabled then gs1\<lparr>gs_tun := ''ready'', gs_tun_interface := dev\<rparr>
                  else gs1\<lparr>gs_tun := ''failed'', gs_tun_interface := dev,
                           gs_tun_error := Some (Msg ''mihomo runtime config reports TUN disabled'')\<rparr>)))"

definition observe_routing :: "env \<Rightarrow> runtime_state \<Rightarrow> gateway_status \<Rightarrow> gateway_status gw" where
  "observe_routing env st gs =
     (case st_snapshot st of
        None \<Rightarrow> eret gs
      | Some sn \<Rightarrow>
          (case sn_routing sn of
             None \<Rightarrow> eret gs
           | Some r \<Rightarrow>
               if \<not> st_routing_applied st \<or> \<not> ap_policy_routing (sn_applied sn)
               then eret (gs\<lparr>gs_routing := ''missing'', gs_gateway := ''degraded''\<rparr>)
               else
                 ecatch
                   (ebind (do_check env NewBackend) (\<lambda>_.
                    ebind (do_query env (AskRoutingPresent r) (\<lambda>w. en_routing_present env w r)) (\<lambda>present.
                      eret (if present then gs\<lparr>gs_routing := ''applied''\<rparr>
                            else gs\<lparr>gs_routing := ''missing'', gs_gateway := ''degraded''\<rparr>))))
                   (\<lambda>e. eret (gs\<lparr>gs_routing := ''unknown'', gs_routing_error := Some e,
                                 gs_gateway := ''degraded''\<rparr>))))"

definition observe_nftables :: "env \<Rightarrow> gw_config \<Rightarrow> runtime_state \<Rightarrow> gateway_status \<Rightarrow> gateway_status gw" where
  "observe_nftables env cfg st gs =
     (if gs_data_plane gs \<noteq> ''tun-iif-route'' \<and> st_nat_applied st then
        ecatch
          (ebind (do_check env NewBackend) (\<lambda>_.
           ebind (do_query env AskNFTables (en_nftables env)) (\<lambda>tables.
             eret (gs\<lparr>gs_nftables := (if gc_nft_table cfg \<in> set tables then ''applied'' else ''missing'')\<rparr>))))
          (\<lambda>_. eret (gs\<lparr>gs_nftables := ''applied''\<rparr>))
      else eret gs)"

text \<open>The state belongs to the running boot session.\<close>

definition observe_active :: "env \<Rightarrow> gw_config \<Rightarrow> runtime_state \<Rightarrow> gateway_status \<Rightarrow> gateway_status gw" where
  "observe_active env cfg st gs0 =
     (let gs = gs0\<lparr>gs_runtime_state :=
                 (if st_lifecycle st \<noteq> [] \<and> st_lifecycle st \<noteq> ''running'' then ''incomplete'' else ''active'')\<rparr> in
      ebind (mihomo_alive env st) (\<lambda>mihomo_running.
      ebind (if mihomo_running then observe_mihomo env cfg gs else eret gs) (\<lambda>gs1.
      ebind (dnsmasq_alive env st) (\<lambda>dnsmasq_running.
      let dhcp_ready = (\<not> gc_dhcp_enabled cfg \<or> dnsmasq_running);
          local_dns_ready = (\<not> dhcp_should_run cfg \<or> dnsmasq_running);
          gs2 = (if dhcp_should_run cfg \<and> dnsmasq_running then gs1\<lparr>gs_local_dns := ''running''\<rparr> else gs1);
          gs3 = (if gc_dhcp_enabled cfg \<and> dnsmasq_running then gs2\<lparr>gs_dhcp := ''running''\<rparr> else gs2) in
      ebind (smartdns_alive env st) (\<lambda>dns_running.
      let legacy = (\<not> dns_running \<and> st_dns_frontend st = [] \<and> dnsmasq_running);
          dns_ready = (dns_running \<or> legacy);
          gs4 = (if dns_running then gs3\<lparr>gs_dns := ''running''\<rparr>
                 else if legacy then gs3\<lparr>gs_dns := ''legacy-dnsmasq''\<rparr> else gs3);
          tun_ready = (\<not> gc_tun_enabled cfg \<or> gs_tun gs4 = ''ready'' \<or> gs_tun gs4 = ''unknown'');
          healthy = (gs_runtime_state gs4 = ''active'' \<and> dhcp_ready \<and> local_dns_ready \<and> dns_ready
                     \<and> mihomo_running \<and> tun_ready) in
      ebind (observe_routing env st
               (gs4\<lparr>gs_gateway := (if healthy then ''running'' else ''degraded'')\<rparr>)) (\<lambda>gs5.
        observe_nftables env cfg st gs5))))))"

definition status :: "env \<Rightarrow> gw_config \<Rightarrow> gateway_status gw" where
  "status env cfg =
     ebind (load_state env) (\<lambda>loaded.
     ebind (ecatch (load_gateway_desired_state env)
              (\<lambda>e. efail (Wrapped ''load gateway desired state'' e))) (\<lambda>desired.
     ebind (do_query env AskLeases (en_lease_count env)) (\<lambda>clients.
     let wanted = (case desired of None \<Rightarrow> loaded \<noteq> None | Some d \<Rightarrow> gd_running d);
         gs = initial_status cfg wanted clients in
     ebind (case loaded of
              None \<Rightarrow> eret gs
            | Some st \<Rightarrow>
                ebind (current_boot env) (\<lambda>boot.
                  if \<not> belongs_to_boot st boot
                  then eret ((status_of_state st gs)\<lparr>gs_gateway := ''degraded'', gs_runtime_state := ''interrupted''\<rparr>)
                  else observe_active env cfg st (status_of_state st gs))) (\<lambda>gs1.
     ebind (ecatch
              (ebind (do_check env NewBackend) (\<lambda>_.
               ebind (do_query env AskForwarding (en_forwarding env)) (\<lambda>enabled.
                 eret (gs1\<lparr>gs_forwarding := (if enabled then ''enabled'' else ''disabled'')\<rparr>))))
              (\<lambda>_. eret gs1)) (\<lambda>gs2.
     ebind (ecatch (do_check env ContextErr)
              (\<lambda>e. efail (Wrapped ''gateway status probe did not complete'' e))) (\<lambda>_.
       eret gs2))))))"

subsection \<open>Recovery after a container restart\<close>

definition set_desired_running_config :: "env \<Rightarrow> bool \<Rightarrow> unit gw" where
  "set_desired_running_config env running =
     ebind (load_runtime_config env) (\<lambda>_.
     ebind (do_check env EnsureDirs) (\<lambda>_.
       save_gateway_desired_state env running))"

text \<open>The desired state, inferred from the runtime state when no file says it.\<close>

definition infer_desired :: "env \<Rightarrow> bool \<Rightarrow> bool gw" where
  "infer_desired env exists =
     ebind (ecatch (load_gateway_desired_state env)
              (\<lambda>e. efail (Wrapped ''load gateway desired state'' e))) (\<lambda>desired.
       case desired of
         Some d \<Rightarrow> eret (gd_running d)
       | None \<Rightarrow>
           ebind (ecatch (save_gateway_desired_state env exists)
                    (\<lambda>e. efail (Wrapped ''persist inferred gateway desired state'' e))) (\<lambda>_.
             eret exists))"

datatype recovery = KeepRunning | RuntimeCleared

text \<open>What is done with the state a previous container left.\<close>

definition reconcile_state :: "env \<Rightarrow> gw_config \<Rightarrow> runtime_state \<Rightarrow> bool \<Rightarrow> recovery gw" where
  "reconcile_state env cfg st desired =
     ebind (current_boot env) (\<lambda>boot.
       if \<not> belongs_to_boot st boot then
         ebind (ecatch (cleanup_interrupted_runtime env st)
                  (\<lambda>e. efail (Wrapped ''reconcile interrupted gateway runtime'' e))) (\<lambda>_. eret RuntimeCleared)
       else if \<not> desired then
         ebind (ecatch (stop_gateway env)
                  (\<lambda>e. efail (Wrapped ''finish interrupted gateway stop'' e))) (\<lambda>_. eret RuntimeCleared)
       else
         ebind (fetch (status env cfg)) (\<lambda>observed.
           if (case observed of
                 Inl _ \<Rightarrow> False
               | Inr gs \<Rightarrow> gs_gateway gs = ''running'' \<and> gs_runtime_state gs = ''active'')
           then eret KeepRunning
           else
             ebind (ecatch (stop_gateway env)
                      (\<lambda>e. efail (Wrapped ''reconcile degraded gateway runtime'' e))) (\<lambda>_. eret RuntimeCleared)))"

text \<open>The body run under the lock; the result says whether the gateway was started. A state that was
  not kept has been cleared at this point, so the code's check that none is left cannot fail.\<close>

definition recover_locked :: "env \<Rightarrow> gw_config \<Rightarrow> bool gw" where
  "recover_locked env cfg =
     ebind (load_state env) (\<lambda>loaded.
     ebind (infer_desired env (loaded \<noteq> None)) (\<lambda>desired.
     ebind (case loaded of
              None \<Rightarrow> eret RuntimeCleared
            | Some st \<Rightarrow> reconcile_state env cfg st desired) (\<lambda>r.
       case r of
         KeepRunning \<Rightarrow> eret False
       | RuntimeCleared \<Rightarrow>
           if \<not> desired then eret False
           else
             ebind (ecatch (start env cfg)
                      (\<lambda>e. efail (Wrapped ''restart gateway after container recovery'' e))) (\<lambda>_. eret True))))"

text \<open>\<open>withLifecycleLock\<close> with the value the locked body leaves in \<open>recovered\<close>.\<close>

definition recover_after_container_restart :: "env \<Rightarrow> gw_config \<Rightarrow> bool gw" where
  "recover_after_container_restart env cfg =
     ebind (need_root env ''container restart recovery'') (\<lambda>_.
     ebind (do_check env EnsureDirs) (\<lambda>_.
     ebind (acquire_lifecycle_lock env (gc_runtime_dir cfg)) (\<lambda>_.
     ebind (fetch (recover_locked env cfg)) (\<lambda>r.
     ebind (eerr (release_lifecycle_lock env)) (\<lambda>e2.
     ebind (eopt (join_errors [case r of Inl e \<Rightarrow> Some e | Inr _ \<Rightarrow> None, e2])) (\<lambda>_.
       eret (case r of Inl _ \<Rightarrow> False | Inr b \<Rightarrow> b)))))))"

subsection \<open>Readiness\<close>

record readiness =
  rd_ready :: bool
  rd_desired_running :: bool
  rd_gateway :: string
  rd_runtime_state :: string
  rd_reason :: string

definition judge_readiness :: "bool \<Rightarrow> bool \<Rightarrow> gateway_status \<Rightarrow> readiness" where
  "judge_readiness desired exists gs =
     (let ready =
            (if desired then gs_gateway gs = ''running'' \<and> gs_runtime_state gs = ''active''
             else \<not> exists \<and> gs_gateway gs = ''stopped'' \<and> gs_runtime_state gs = ''none'')
      in \<lparr>rd_ready = ready, rd_desired_running = desired, rd_gateway = gs_gateway gs,
          rd_runtime_state = gs_runtime_state gs,
          rd_reason = (if ready then []
                       else if desired then ''gateway_desired_running_but_data_plane_not_ready''
                       else ''gateway_desired_stopped_but_runtime_not_clean'')\<rparr>)"

definition check_readiness :: "env \<Rightarrow> gw_config \<Rightarrow> readiness gw" where
  "check_readiness env cfg =
     ebind (load_state env) (\<lambda>loaded.
     ebind (load_gateway_desired_state env) (\<lambda>desired.
     let wanted = (case desired of None \<Rightarrow> loaded \<noteq> None | Some d \<Rightarrow> gd_running d) in
     ebind (status env cfg) (\<lambda>gs.
       eret (judge_readiness wanted (loaded \<noteq> None) gs))))"

end
