(* ===== verification/GatewayLogic.thy ===== *)
theory GatewayLogic
  imports GatewayStatus
begin

text \<open>
  Reasoning about the gateway operations. The locale \<open>call_invariant\<close> is the interface between an
  invariant of the world and the operations: what an invariant has to promise about single calls, and
  the operations that keep it then. It is interpreted in \<open>GatewayJournal\<close> on the invariants of the
  lifecycle lock and of the host mutations.
\<close>

subsection \<open>Single calls\<close>

lemma triple_do_call:
  assumes "\<And>w. P w \<Longrightarrow> err w = None \<Longrightarrow> Q (val w) (log_call c None w)"
    and "\<And>w e. P w \<Longrightarrow> err w = Some e \<Longrightarrow> E e (log_call c (Some e) w)"
  shows "triple P (do_call c err val) Q E"
  using assms by (auto simp: triple_def do_call_def answer_def split: option.splits)

lemma keeps_do_call:
  assumes "\<And>w e. I w \<Longrightarrow> I (log_call c e w)"
  shows "keeps I (do_call c err val)"
  unfolding keeps_def by (rule triple_do_call) (auto intro: assms)

lemmas call_defs = do_check_def do_config_def do_act_def start_service_def do_query_def ask_def

lemma keeps_peek [keeps_intro]: "keeps I (peek f)"
  by (simp add: keeps_def triple_def peek_def)

lemma keeps_fetch [keeps_intro]: "keeps I m \<Longrightarrow> keeps I (fetch m)"
  by (rule keepsI) (auto simp: fetch_def split: prod.splits dest: keepsD)

lemma keeps_recovery [keeps_intro]:
  "keeps I m \<Longrightarrow> keeps I n \<Longrightarrow> keeps I (case r of KeepRunning \<Rightarrow> m | RuntimeCleared \<Rightarrow> n)"
  by (cases r) simp_all

lemma keeps_fail_all [keeps_intro]: "keeps I (fail_all es)"
  by (auto simp: fail_all_def intro!: keeps_intro)

lemma keeps_need_root [keeps_intro]: "keeps I (need_root env what)"
  by (simp add: need_root_def keeps_intro)

subsection \<open>Invariants of the world\<close>

fun lock_call :: "call \<Rightarrow> bool" where
  "lock_call (Query (AskFlock d)) = True"
| "lock_call (Check LockUnlock) = True"
| "lock_call (Check LockClose) = True"
| "lock_call c = False"

fun act_call :: "call \<Rightarrow> bool" where
  "act_call (Act a) = True"
| "act_call c = False"

definition quiet :: "call \<Rightarrow> bool" where
  "quiet c \<longleftrightarrow> \<not> lock_call c \<and> \<not> act_call c"

locale quiet_invariant =
  fixes I :: "world \<Rightarrow> bool"
  assumes quiet_kept: "I w \<Longrightarrow> quiet c \<Longrightarrow> I (log_call c e w)"
    and desired_file_kept: "I w \<Longrightarrow> I (w\<lparr>w_desired_file := d\<rparr>)"
    and policy_file_kept: "I w \<Longrightarrow> I (w\<lparr>w_policy_file := b\<rparr>)"
begin

lemma keeps_call: "quiet c \<Longrightarrow> keeps I (do_call c err val)"
  by (rule keeps_do_call) (rule quiet_kept)

lemma keeps_check [keeps_intro]: "quiet (Check c) \<Longrightarrow> keeps I (do_check env c)"
  by (simp add: do_check_def keeps_call)

lemma keeps_config [keeps_intro]: "quiet (Check c) \<Longrightarrow> keeps I (do_config env c cfg)"
  by (simp add: do_config_def keeps_call)

lemma keeps_query [keeps_intro]: "quiet (Query q) \<Longrightarrow> keeps I (do_query env q f)"
  by (simp add: do_query_def keeps_call)

lemma keeps_ask [keeps_intro]: "quiet (Query q) \<Longrightarrow> keeps I (ask q f)"
  by (simp add: ask_def keeps_call)

lemma keeps_file:
  assumes "\<And>w. I w \<Longrightarrow> I (f w)"
  shows "keeps I (do_file env s f)"
proof -
  have "keeps I (do_call (File s) (\<lambda>w. en_file env w s) (\<lambda>_. ()))"
    by (rule keeps_call) (simp add: quiet_def)
  then show ?thesis
    unfolding do_file_def using assms by (intro keeps_bind) (auto simp: keeps_def triple_def)
qed

lemma keeps_file_id [keeps_intro]: "keeps I (do_file env s id)"
  by (simp add: keeps_file)

lemmas quiet_simps [simp] = quiet_def

lemma keeps_with_temp [keeps_intro]: "keeps I m \<Longrightarrow> keeps I (with_temp env m)"
  unfolding with_temp_def write_temp_def by (intro keeps_intro)

lemma keeps_load_state [keeps_intro]: "keeps I (load_state env)"
  unfolding load_state_def by (intro keeps_intro)

lemma keeps_load_desired [keeps_intro]: "keeps I (load_gateway_desired_state env)"
  unfolding load_gateway_desired_state_def by (intro keeps_intro)

lemma keeps_save_desired [keeps_intro]: "keeps I (save_gateway_desired_state env running)"
  unfolding save_gateway_desired_state_def Let_def by (intro keeps_intro keeps_file desired_file_kept)

lemma keeps_write_policy [keeps_intro]: "keeps I (write_policy_snapshot env b)"
  unfolding write_policy_snapshot_def by (intro keeps_intro keeps_file policy_file_kept)

lemma keeps_remove_policy [keeps_intro]: "keeps I (remove_policy_snapshot env)"
  unfolding remove_policy_snapshot_def by (intro keeps_file policy_file_kept)

lemma keeps_current_boot [keeps_intro]: "keeps I (current_boot env)"
  unfolding current_boot_def by (intro keeps_intro) simp

lemma keeps_tracked_running [keeps_intro]: "keeps I (tracked_process_running env s pid fp)"
  unfolding tracked_process_running_def process_matches_def service_running_def
  by (intro keeps_intro) simp_all

lemma keeps_alive [keeps_intro]:
  "keeps I (dnsmasq_alive env st)" "keeps I (smartdns_alive env st)" "keeps I (mihomo_alive env st)"
  by (simp_all add: dnsmasq_alive_def smartdns_alive_def mihomo_alive_def keeps_intro)

lemma keeps_record_identity [keeps_intro]: "keeps I (record_identity env s pid)"
  unfolding record_identity_def process_fingerprint_def by (intro keeps_intro) simp_all

lemma keeps_profile_digest [keeps_intro]: "keeps I (profile_digest env)"
  unfolding profile_digest_def by (intro keeps_intro) simp

lemma keeps_stop_prepared [keeps_intro]: "keeps I (stop_prepared_engine env)"
  unfolding stop_prepared_engine_def by (intro keeps_intro) simp

lemma keeps_preflight [keeps_intro]: "keeps I (preflight_with_ownership env cfg b)" "keeps I (preflight env cfg)"
  unfolding preflight_def preflight_with_ownership_def Let_def by (intro keeps_intro; simp)+

lemma keeps_probe_all [keeps_intro]: "keeps I (probe_all env rs)"
  by (induction rs) (auto intro!: keeps_intro)

lemma keeps_reservation_conflicts [keeps_intro]: "keeps I (check_reservation_conflicts env cfg)"
  unfolding check_reservation_conflicts_def by (intro keeps_intro)

lemma keeps_verify_routing [keeps_intro]: "keeps I (verify_policy_routing env r)"
  unfolding verify_policy_routing_def by (intro keeps_intro) simp

lemma keeps_archive_log [keeps_intro]: "keeps I (archive_log env s)"
  unfolding archive_log_def by (intro keeps_intro) simp_all

lemma keeps_load_running [keeps_intro]: "keeps I (load_running_state env msg)"
  unfolding load_running_state_def by (intro keeps_intro)

lemma keeps_write_configs [keeps_intro]: "keeps I (write_and_validate_configs env)"
  unfolding write_and_validate_configs_def by (intro keeps_intro; simp)

lemma keeps_check_start [keeps_intro]: "keeps I (check_start env cfg commit)"
  unfolding check_start_def prepare_config_def Let_def by (intro keeps_intro; simp)

lemma keeps_warm_tailscale [keeps_intro]: "keeps I (warm_managed_tailscale env cfg)"
  unfolding warm_managed_tailscale_def by (intro keeps_intro; simp)

lemma keeps_validate_candidate [keeps_intro]: "keeps I (validate_reload_candidate env cfg)"
  unfolding validate_reload_candidate_def check_candidate_def Let_def by (intro keeps_intro; simp)

lemma keeps_replacement_recipe [keeps_intro]: "keeps I (replacement_recipe env cfg r0)"
  unfolding replacement_recipe_def Let_def by (intro keeps_intro; simp)

lemma keeps_check_restart [keeps_intro]: "keeps I (check_restart env cfg st)"
  unfolding check_restart_def by (intro keeps_intro; simp)

lemma keeps_restart_guards [keeps_intro]: "keeps I (restart_mihomo_guards env cfg)"
  unfolding restart_mihomo_guards_def by (intro keeps_intro)

lemma keeps_fetch_mihomo [keeps_intro]: "keeps I (fetch_mihomo_runtime env cfg)"
  unfolding fetch_mihomo_runtime_def by (intro keeps_intro; simp)

lemma keeps_observe [keeps_intro]:
  "keeps I (observe_mihomo env cfg gs)" "keeps I (observe_routing env st gs)"
  "keeps I (observe_nftables env cfg st gs)"
  unfolding observe_mihomo_def observe_routing_def observe_nftables_def Let_def
  by (intro keeps_intro; simp)+

lemma keeps_observe_active [keeps_intro]: "keeps I (observe_active env cfg st gs)"
  unfolding observe_active_def Let_def by (intro keeps_intro)

lemma keeps_status [keeps_intro]: "keeps I (status env cfg)"
  unfolding status_def Let_def by (intro keeps_intro; simp)

end

subsection \<open>Operations that change the host\<close>

text \<open>\<open>allowed\<close> says which host mutations the invariant survives.\<close>

locale call_invariant = quiet_invariant +
  fixes allowed :: "act \<Rightarrow> bool"
  assumes act_kept: "I w \<Longrightarrow> allowed a \<Longrightarrow> I (log_call (Act a) e w)"
    and state_file_kept: "I w \<Longrightarrow> I (w\<lparr>w_state_file := s\<rparr>)"
begin

lemma keeps_act [keeps_intro]: "allowed a \<Longrightarrow> keeps I (do_act env a)"
  unfolding do_act_def by (rule keeps_do_call) (rule act_kept)

lemma keeps_start_service [keeps_intro]: "allowed (StartService s) \<Longrightarrow> keeps I (start_service env s)"
  unfolding start_service_def by (rule keeps_do_call) (rule act_kept)

lemma keeps_save_state [keeps_intro]: "keeps I (save_state env st)"
  unfolding save_state_def Let_def by (intro keeps_intro keeps_file state_file_kept)

lemma keeps_remove_state [keeps_intro]: "keeps I (remove_state env)"
  unfolding remove_state_def by (intro keeps_intro keeps_file state_file_kept)

lemma keeps_prepare_start [keeps_intro]: "keeps I (prepare_start env cfg commit)"
  unfolding prepare_start_def by (intro keeps_intro)

lemma keeps_clear_runtime [keeps_intro]: "keeps I (clear_runtime env)"
  unfolding clear_runtime_def by (intro keeps_intro)

lemma keeps_stop_tracked [keeps_intro]:
  "allowed (StopService s pid) \<Longrightarrow> keeps I (stop_tracked_process env s pid fp)"
  unfolding stop_tracked_process_def process_matches_def by (intro keeps_intro; simp)

lemma keeps_cleanup_interrupted [keeps_intro]:
  "(\<And>sn. allowed (RestoreNetwork sn)) \<Longrightarrow> keeps I (cleanup_interrupted_runtime env st)"
  unfolding cleanup_interrupted_runtime_def by (intro keeps_intro; simp)

lemma keeps_teardown [keeps_intro]:
  "(\<And>sn. allowed (RestoreNetwork sn)) \<Longrightarrow> (\<And>s p. allowed (StopService s p)) \<Longrightarrow> keeps I (teardown env st)"
  unfolding teardown_def teardown_steps_def Let_def by (intro keeps_intro; simp)

lemma keeps_stop_gateway [keeps_intro]:
  "(\<And>sn. allowed (RestoreNetwork sn)) \<Longrightarrow> (\<And>s p. allowed (StopService s p)) \<Longrightarrow> keeps I (stop_gateway env)"
  unfolding stop_gateway_def by (intro keeps_intro; simp)

lemma keeps_rollback [keeps_intro]:
  "(\<And>sn. allowed (RestoreNetwork sn)) \<Longrightarrow> (\<And>s p. allowed (StopService s p)) \<Longrightarrow> keeps I (rollback env st e)"
  unfolding rollback_def Let_def by (intro keeps_intro; simp)

lemma keeps_or_rollback [keeps_intro]:
  fixes m :: "'a gw"
  shows "keeps I m \<Longrightarrow> (\<And>e. keeps I (rollback env st e :: 'a gw)) \<Longrightarrow> keeps I (or_rollback env st m)"
  unfolding or_rollback_def by (rule keeps_catch)

lemma keeps_bring_up [keeps_intro]:
  assumes [simp]: "\<And>a. allowed a"
  shows "keeps I (bring_up env cfg st)"
  unfolding bring_up_def bring_up_forwarding_def bring_up_processes_def bring_up_network_def
    bring_up_frontend_def bring_up_service_def save_or_rollback_def apply_nat_def apply_routing_def
  by (intro keeps_intro; simp)

lemma keeps_start [keeps_intro]: "(\<And>a. allowed a) \<Longrightarrow> keeps I (start env cfg)"
  unfolding start_def start_with_commit_def by (intro keeps_intro)

lemma keeps_reload [keeps_intro]: "(\<And>a. allowed a) \<Longrightarrow> keeps I (reload env cfg)"
  unfolding reload_def by (intro keeps_intro)

lemma keeps_restart_mihomo [keeps_intro]: "(\<And>a. allowed a) \<Longrightarrow> keeps I (restart_mihomo env cfg)"
  unfolding restart_mihomo_def retire_mihomo_def launch_mihomo_def repair_routing_def drop_mihomo_def
    reapply_policy_routing_def Let_def
  by (intro keeps_intro; simp)

lemma keeps_restart_dnsmasq [keeps_intro]: "(\<And>a. allowed a) \<Longrightarrow> keeps I (restart_dnsmasq env)"
  unfolding restart_dnsmasq_def retire_dnsmasq_def launch_dnsmasq_def Let_def by (intro keeps_intro; simp)

lemma keeps_recover_locked [keeps_intro]: "(\<And>a. allowed a) \<Longrightarrow> keeps I (recover_locked env cfg)"
  unfolding recover_locked_def reconcile_state_def infer_desired_def by (intro keeps_intro)

end

end
