(* ===== verification/GatewayJournal.thy ===== *)
theory GatewayJournal
  imports GatewayLogic
begin

text \<open>
  The write-ahead journal: whatever the gateway does to the host, the state file on disk at that
  moment holds the recipe to undo it. Assertions have the form \<open>cov R\<close>: every event so far is
  covered, and the state file satisfies \<open>R\<close>.
\<close>

subsection \<open>Covered events\<close>

definition recipe_covers :: "act \<Rightarrow> runtime_state \<Rightarrow> bool" where
  "recipe_covers a st =
     (case a of
        EnableForwarding \<Rightarrow>
          (case st_snapshot st of None \<Rightarrow> False
           | Some sn \<Rightarrow> sn_ipv4_forwarding sn \<noteq> [] \<longrightarrow> ap_ipv4_forwarding (sn_applied sn))
      | SetupNAT n \<Rightarrow>
          (case st_snapshot st of None \<Rightarrow> False
           | Some sn \<Rightarrow> sn_nat sn = Some n \<and> (sn_nftables_table sn \<noteq> [] \<longrightarrow> ap_nat (sn_applied sn)))
      | SetupRouting r \<Rightarrow>
          (case st_snapshot st of None \<Rightarrow> False
           | Some sn \<Rightarrow>
               (case sn_routing sn of None \<Rightarrow> False
                | Some r' \<Rightarrow> r = r'\<lparr>rc_tun_device := rc_tun_device r\<rparr>
                           \<and> (routing_journaled r \<longrightarrow> ap_policy_routing (sn_applied sn))))
      | _ \<Rightarrow> True)"

definition covered :: "event \<Rightarrow> bool" where
  "covered ev = (case ev_call ev of
     Act a \<Rightarrow> (case ev_durable ev of None \<Rightarrow> False | Some st \<Rightarrow> recipe_covers a st)
   | _ \<Rightarrow> True)"

definition cov :: "(runtime_state option \<Rightarrow> bool) \<Rightarrow> world \<Rightarrow> bool" where
  "cov R w \<longleftrightarrow> list_all covered (w_log w) \<and> R (w_state_file w)"

abbreviation any_state :: "runtime_state option \<Rightarrow> bool" where "any_state \<equiv> \<lambda>_. True"
definition some_state :: "runtime_state option \<Rightarrow> bool" where "some_state s \<longleftrightarrow> s \<noteq> None"

text \<open>The state the code holds is the one on disk.\<close>

definition on_disk :: "runtime_state \<Rightarrow> world \<Rightarrow> bool" where
  "on_disk st w \<longleftrightarrow> cov (\<lambda>s. s = Some st) w \<and> journaled st = st"

lemma on_disk_some: "on_disk st w \<Longrightarrow> cov some_state w"
  by (simp add: on_disk_def cov_def some_state_def)

lemma cov_any: "cov R w \<Longrightarrow> cov any_state w"
  by (simp add: cov_def some_state_def)

subsection \<open>Single calls\<close>

lemma keeps_cov_call: "quiet c \<or> lock_call c \<Longrightarrow> keeps (cov R) (do_call c err val)"
  by (rule keeps_do_call) (cases c; auto simp: cov_def some_state_def covered_def quiet_def)

interpretation cv: quiet_invariant "cov R" for R
proof
  fix w c e assume "cov R w" "quiet c"
  then show "cov R (log_call c e w)"
    by (cases c) (auto simp: cov_def some_state_def covered_def quiet_def)
qed (simp_all add: cov_def some_state_def)

lemma keeps_cov_act:
  assumes "\<And>s. R s \<Longrightarrow> \<exists>st. s = Some st \<and> recipe_covers a st"
  shows "keeps (cov R) (do_act env a)"
  unfolding do_act_def
  by (rule keeps_do_call) (use assms in \<open>fastforce simp: cov_def some_state_def covered_def\<close>)

lemma keeps_cov_start:
  assumes "\<And>s. R s \<Longrightarrow> some_state s"
  shows "keeps (cov R) (start_service env s)"
  unfolding start_service_def
  by (rule keeps_do_call) (use assms in \<open>fastforce simp: cov_def some_state_def covered_def recipe_covers_def\<close>)

lemma keeps_cov_restore: "keeps (cov some_state) (do_act env (RestoreNetwork sn))"
  by (rule keeps_cov_act) (auto simp: recipe_covers_def some_state_def)

lemma keeps_cov_stop: "keeps (cov some_state) (do_act env (StopService s p))"
  by (rule keeps_cov_act) (auto simp: recipe_covers_def some_state_def)

lemma keeps_cov_stop_tracked: "keeps (cov some_state) (stop_tracked_process env s p fp)"
  unfolding stop_tracked_process_def process_matches_def
  by (intro keeps_intro keeps_cov_stop cv.keeps_query cv.keeps_ask; simp)

lemma triple_save:
  "triple (cov R) (save_state env st)
     (\<lambda>_. cov (\<lambda>s. s = Some (journaled st))) (\<lambda>_. cov (\<lambda>s. R s \<or> s = Some (journaled st)))"
proof -
  let ?new = "cov (\<lambda>s. s = Some (journaled st))" and ?err = "cov (\<lambda>s. R s \<or> s = Some (journaled st))"
  have old: "triple (cov R) m (\<lambda>_. cov R) (\<lambda>_. ?err)" if "keeps (cov R) m" for m :: "'b gw"
    by (rule triple_weaken [OF keeps_triple [OF that]]) (auto simp: cov_def some_state_def)
  have err: "triple ?err m (\<lambda>_. ?err) (\<lambda>_. ?err)" if "keeps ?err m" for m :: "'b gw"
    by (rule keeps_triple [OF that])
  have rename: "triple (cov R) (do_file env (RenameState (journaled st))
      (\<lambda>w. w\<lparr>w_state_file := Some (journaled st)\<rparr>)) (\<lambda>_. ?new) (\<lambda>_. ?err)"
    unfolding do_file_def
    by (rule triple_bind [OF old [OF cv.keeps_call]]) (auto simp: triple_def cov_def some_state_def)
  have temp: "triple (cov R) (with_temp env (do_file env (RenameState (journaled st))
      (\<lambda>w. w\<lparr>w_state_file := Some (journaled st)\<rparr>))) (\<lambda>_. ?new) (\<lambda>_. ?err)"
    unfolding with_temp_def
  proof (rule triple_bind [OF old [OF cv.keeps_file_id]], rule triple_catch)
    show "triple (cov R) (ebind (write_temp env) (\<lambda>_. do_file env (RenameState (journaled st))
        (\<lambda>w. w\<lparr>w_state_file := Some (journaled st)\<rparr>))) (\<lambda>_. ?new) (\<lambda>_. ?err)"
      unfolding write_temp_def
      by (rule triple_bind [OF old rename]) (intro keeps_intro cv.keeps_file_id)
    show "triple ?err (ebind (eerr (do_file env RemoveTemp id)) (\<lambda>_. efail e)) (\<lambda>_. ?new) (\<lambda>_. ?err)" for e
      by (rule triple_bind [OF err]) (intro keeps_intro cv.keeps_file_id triple_intro)+
  qed
  have sync: "triple ?new (do_file env SyncStateDir id) (\<lambda>_. ?new) (\<lambda>_. ?err)"
    by (rule triple_weaken [OF keeps_triple [OF cv.keeps_file_id [of "\<lambda>s. s = Some (journaled st)"]]])
      (auto simp: cov_def some_state_def)
  show ?thesis
    unfolding save_state_def Let_def
    by (rule triple_bind [OF old [OF cv.keeps_file_id]],
        rule triple_bind [OF old [OF cv.keeps_file_id]],
        rule triple_bind [OF temp [simplified] sync, simplified]) 
qed

lemma keeps_save_some: "keeps (cov some_state) (save_state env st)"
  unfolding keeps_def by (rule triple_weaken [OF triple_save [of some_state]]) (auto simp: cov_def some_state_def)

lemma keeps_save_any: "keeps (cov any_state) (save_state env st)"
  unfolding keeps_def by (rule triple_weaken [OF triple_save [of any_state]]) (auto simp: cov_def some_state_def)

lemma triple_save_on_disk:
  assumes "journaled st' = st'" "st' = journaled st"
  shows "triple (cov R) (save_state env st) (\<lambda>_. on_disk st') (\<lambda>_. cov any_state)"
  by (rule triple_weaken [OF triple_save]) (auto simp: on_disk_def cov_def assms)

lemma keeps_clear_any: "keeps (cov any_state) (clear_runtime env)"
proof -
  have "keeps (cov any_state) (remove_state env)"
    unfolding remove_state_def by (intro keeps_intro cv.keeps_file cv.keeps_file_id) (simp add: cov_def some_state_def)
  then show ?thesis
    unfolding clear_runtime_def by (intro keeps_intro cv.keeps_remove_policy)
qed

lemma keeps_remove_any: "keeps (cov any_state) (remove_state env)"
  unfolding remove_state_def by (intro keeps_intro cv.keeps_file cv.keeps_file_id) (simp add: cov_def some_state_def)

text \<open>A computation that keeps \<open>cov R\<close>, with the postconditions the caller needs.\<close>

lemma triple_keeps:
  assumes "keeps J m" "\<And>w. P w \<Longrightarrow> J w" "\<And>x w. J w \<Longrightarrow> Q x w" "\<And>e w. J w \<Longrightarrow> E e w"
  shows "triple P m Q E"
  by (rule triple_weaken [OF keeps_triple [OF assms(1)]]) (auto intro: assms)

lemma keeps_some_to_any: "keeps (cov some_state) m \<Longrightarrow> triple (cov some_state) m (\<lambda>_. cov any_state) (\<lambda>_. cov any_state)"
  by (erule triple_keeps) (auto simp: cov_def some_state_def)

subsection \<open>Rollback and teardown\<close>

lemma triple_bind_keeps:
  assumes "keeps J m" "\<And>w. P w \<Longrightarrow> J w" "\<And>e w. J w \<Longrightarrow> E e w" "\<And>x. triple J (f x) Q E"
  shows "triple P (ebind m f) Q E"
  by (rule triple_bind [OF triple_keeps [OF assms(1)] assms(4)]) (auto intro: assms)

lemma bind_some:
  assumes "keeps (cov some_state) m" "\<And>x. triple (cov some_state) (f x) Q (\<lambda>_. cov any_state)"
  shows "triple (cov some_state) (ebind m f) Q (\<lambda>_. cov any_state)"
  by (rule triple_bind_keeps [OF assms(1) _ _ assms(2)]) (auto simp: cov_def some_state_def)

lemma bind_any:
  assumes "keeps (cov any_state) m" "\<And>x. triple (cov any_state) (f x) Q (\<lambda>_. cov any_state)"
  shows "triple (cov any_state) (ebind m f) Q (\<lambda>_. cov any_state)"
  by (rule triple_bind_keeps [OF assms(1) _ _ assms(2)]) (auto simp: cov_def some_state_def)

lemma keeps_cov_restore_snapshot:
  "keeps (cov some_state) (case x of None \<Rightarrow> eret None | Some sn \<Rightarrow> eerr (do_act env (RestoreNetwork sn)))"
  by (intro keeps_intro keeps_cov_restore)

lemma triple_rollback: "triple (cov some_state) (rollback env st cause) Q (\<lambda>_. cov any_state)"
  unfolding rollback_def Let_def
  apply (rule bind_some [OF keeps_eerr [OF keeps_save_some]])
  apply (rule bind_some [OF keeps_eerr [OF keeps_cov_stop_tracked]])
  apply (rule bind_some [OF keeps_cov_restore_snapshot])
  apply (rule bind_some [OF keeps_eerr [OF keeps_cov_stop_tracked]])
  apply (rule bind_some [OF keeps_eerr [OF keeps_cov_stop_tracked]])
  apply (rule triple_option)
   apply (rule triple_pre [OF bind_any [OF keeps_eerr [OF keeps_remove_any]] cov_any])
    apply (rule bind_any [OF keeps_eerr [OF cv.keeps_remove_policy]])
    apply (rule triple_option; rule triple_efail; assumption)
   apply assumption
  apply (rule triple_efail, erule cov_any)
  done

lemma triple_or_rollback:
  assumes "triple P m Q (\<lambda>_. cov some_state)"
  shows "triple P (or_rollback env st m) Q (\<lambda>_. cov any_state)"
  unfolding or_rollback_def by (rule triple_catch [OF assms triple_rollback])

lemma keeps_teardown_some: "keeps (cov some_state) (teardown env st)"
  unfolding teardown_def teardown_steps_def Let_def
  by (intro keeps_intro keeps_save_some keeps_cov_stop_tracked keeps_cov_restore_snapshot)


subsection \<open>Start\<close>

text \<open>The state on disk is the one in memory and has a snapshot.\<close>

definition ready :: "runtime_state \<Rightarrow> world \<Rightarrow> bool" where
  "ready st w \<longleftrightarrow> on_disk st w \<and> st_snapshot st \<noteq> None"

lemma ready_some: "ready st w \<Longrightarrow> cov some_state w"
  by (auto simp: ready_def intro: on_disk_some)

lemma readyD:
  assumes "ready st w"
  obtains sn where "st_snapshot st = Some sn" "journal_snapshot sn = sn"
proof -
  have j: "journaled st = st" and s: "st_snapshot st \<noteq> None"
    using assms by (auto simp: ready_def on_disk_def)
  have "map_option journal_snapshot (st_snapshot st) = st_snapshot st"
    using arg_cong [OF j, of st_snapshot] by (simp only: journaled_fields)
  then show ?thesis
    using that s by auto
qed

lemma recipe_covers_ready:
  assumes "ready st w"
  shows "recipe_covers EnableForwarding st"
    and "st_snapshot st = Some sn \<Longrightarrow> sn_nat sn = Some n \<Longrightarrow> recipe_covers (SetupNAT n) st"
    and "st_snapshot st = Some sn \<Longrightarrow> sn_routing sn = Some r \<Longrightarrow> recipe_covers (SetupRouting r) st"
proof -
  obtain sn' where s: "st_snapshot st = Some sn'" and j: "journal_snapshot sn' = sn'"
    using assms by (rule readyD)
  note a = journal_snapshot_applied [of sn', unfolded j]
  show "recipe_covers EnableForwarding st"
    using s a by (simp add: recipe_covers_def)
  show "recipe_covers (SetupNAT n) st" if "st_snapshot st = Some sn" "sn_nat sn = Some n"
    using s a that by (simp add: recipe_covers_def)
  show "recipe_covers (SetupRouting r) st" if "st_snapshot st = Some sn" "sn_routing sn = Some r"
    using s a that by (simp add: recipe_covers_def)
qed

text \<open>An act on the host from a state that covers it; a failure is rolled back.\<close>

lemma keeps_ready_act: "(\<And>w. ready st w \<Longrightarrow> recipe_covers a st) \<Longrightarrow> keeps (ready st) (do_act env a)"
  unfolding do_act_def
  by (rule keeps_do_call) (fastforce simp: ready_def on_disk_def cov_def some_state_def covered_def)

interpretation rd: quiet_invariant "ready st" for st
proof
  fix w c e assume "ready st w" "quiet c"
  then show "ready st (log_call c e w)"
    by (cases c) (auto simp: ready_def on_disk_def cov_def covered_def quiet_def)
qed (simp_all add: ready_def on_disk_def cov_def)

interpretation od: quiet_invariant "on_disk st" for st
proof
  fix w c e assume "on_disk st w" "quiet c"
  then show "on_disk st (log_call c e w)"
    by (cases c) (auto simp: on_disk_def cov_def covered_def quiet_def)
qed (simp_all add: on_disk_def cov_def)

lemma keeps_on_disk_act:
  assumes "journaled st = st \<Longrightarrow> recipe_covers a st"
  shows "keeps (on_disk st) (do_act env a)"
  unfolding do_act_def
  by (rule keeps_do_call) (use assms in \<open>auto simp: on_disk_def cov_def covered_def\<close>)

lemma keeps_on_disk_start: "keeps (on_disk st) (start_service env s)"
  unfolding start_service_def
  by (rule keeps_do_call) (auto simp: on_disk_def cov_def covered_def recipe_covers_def)

lemma keeps_on_disk_stop_tracked: "keeps (on_disk st) (stop_tracked_process env s p fp)"
  unfolding stop_tracked_process_def process_matches_def
  by (intro keeps_intro keeps_on_disk_act od.keeps_query od.keeps_ask) (simp_all add: recipe_covers_def)

lemma rollback_ready:
  assumes "keeps (ready st0) m"
  shows "triple (ready st0) (or_rollback env st m) (\<lambda>_. ready st0) (\<lambda>_. cov any_state)"
  by (rule triple_or_rollback, rule triple_keeps [OF assms]) (auto intro: ready_some)

lemma triple_save_or_rollback:
  "triple (\<lambda>w. cov some_state w \<and> st_snapshot st \<noteq> None) (save_or_rollback env st)
     (\<lambda>st' w. ready st' w \<and> st' = journaled st) (\<lambda>_. cov any_state)"
proof (rule triple_pure)
  assume "st_snapshot st \<noteq> None"
  then have "triple (cov some_state) (save_state env st) (\<lambda>_. ready (journaled st)) (\<lambda>_. cov some_state)"
    by (intro triple_weaken [OF triple_save [of some_state]])
      (auto simp: ready_def on_disk_def cov_def some_state_def)
  from triple_or_rollback [OF this]
  show "triple (cov some_state) (save_or_rollback env st)
     (\<lambda>st' w. ready st' w \<and> st' = journaled st) (\<lambda>_. cov any_state)"
    unfolding save_or_rollback_def by (rule triple_bind) (rule triple_eret, simp)
qed

lemma triple_bring_up_service:
  assumes "\<And>p f. st_snapshot (set_fp f (set_pid p st)) = st_snapshot st"
  shows "triple (ready st) (bring_up_service env s set_pid set_fp st)
     (\<lambda>st' w. cov some_state w \<and> st_snapshot st' \<noteq> None) (\<lambda>_. cov any_state)"
  unfolding bring_up_service_def
proof (rule triple_bind)
  show "triple (ready st) (or_rollback env st (start_service env s))
      (\<lambda>_ w. cov some_state w \<and> st_snapshot st \<noteq> None) (\<lambda>_. cov any_state)"
    by (rule triple_pre [OF triple_frame [OF triple_or_rollback [OF keeps_triple [OF keeps_cov_start]]]])
      (auto intro: on_disk_some simp: ready_def)
  show "triple (\<lambda>w. cov some_state w \<and> st_snapshot st \<noteq> None)
          (ebind (or_rollback env (set_pid pid st) (record_identity env s pid))
            (\<lambda>fp. eret (set_fp fp (set_pid pid st))))
          (\<lambda>st' w. cov some_state w \<and> st_snapshot st' \<noteq> None) (\<lambda>_. cov any_state)" for pid
    by (rule triple_bind [OF triple_frame [OF triple_or_rollback [OF keeps_triple [OF cv.keeps_record_identity]]]])
      (auto intro: triple_eret simp: assms)
qed

lemma triple_save_after:
  "triple (\<lambda>w. cov some_state w \<and> st_snapshot st \<noteq> None) (save_or_rollback env st) ready (\<lambda>_. cov any_state)"
  by (rule triple_weaken [OF triple_save_or_rollback]) auto

lemma triple_bring_up_forwarding:
  "triple (ready st) (bring_up_forwarding env st) ready (\<lambda>_. cov any_state)"
  unfolding bring_up_forwarding_def do_check_def
  by (rule triple_bind [OF rollback_ready [OF rd.keeps_call]], simp,
      rule triple_bind [OF rollback_ready [OF keeps_ready_act]], erule recipe_covers_ready,
      rule triple_pre [OF triple_save_after])
    (auto simp: mark_applied_def on_snapshot_def ready_def intro: on_disk_some)

lemma triple_bring_up_processes:
  "triple (ready st) (bring_up_processes env st) ready (\<lambda>_. cov any_state)"
  unfolding bring_up_processes_def do_check_def
  by (rule triple_bind [OF rollback_ready [OF rd.keeps_call]], simp,
      rule triple_bind [OF triple_bring_up_service], simp,
      rule triple_bind [OF triple_save_after],
      rule triple_bind [OF triple_bring_up_service triple_save_after]) simp

lemma triple_bring_up_frontend:
  "triple (ready st) (bring_up_frontend env st) ready (\<lambda>_. cov any_state)"
  unfolding bring_up_frontend_def
  by (rule triple_bind [OF triple_bring_up_service], simp, rule triple_pre [OF triple_save_after]) simp


text \<open>The recipe an act is about to use is in the snapshot.\<close>

definition routing_in :: "routing_config \<Rightarrow> runtime_state \<Rightarrow> bool" where
  "routing_in r st \<longleftrightarrow> (\<exists>sn. st_snapshot st = Some sn \<and> sn_routing sn = Some r)"

definition nat_in :: "nat_config \<Rightarrow> runtime_state \<Rightarrow> bool" where
  "nat_in n st \<longleftrightarrow> (\<exists>sn. st_snapshot st = Some sn \<and> sn_nat sn = Some n)"

lemma recipe_in_mark [simp]:
  "routing_in r (mark_applied f (st\<lparr>st_nat_applied := b\<rparr>)) = routing_in r st"
  "routing_in r (journaled st) = routing_in r st" "nat_in n (journaled st) = nat_in n st"
  by (auto simp: routing_in_def nat_in_def mark_applied_def on_snapshot_def)

lemma recipe_in_with_tun:
  assumes "st_snapshot st \<noteq> None"
  shows "routing_in (tun_routing cfg tun) (with_tun cfg tun st)"
    "\<not> same_lan cfg \<Longrightarrow> nat_in (tun_nat cfg tun) (with_tun cfg tun st)"
    "st_snapshot (with_tun cfg tun st) \<noteq> None"
  using assms by (auto simp: routing_in_def nat_in_def with_tun_def on_snapshot_def)

lemma triple_apply_nat:
  assumes "nat_in n st"
  shows "triple (ready st) (apply_nat env n st)
           (\<lambda>st' w. ready st' w \<and> (\<forall>r. routing_in r st' = routing_in r st)) (\<lambda>_. cov any_state)"
proof -
  have c: "recipe_covers (SetupNAT n) st" if "ready st w" for w
    using recipe_covers_ready(2) [OF that] assms by (auto simp: nat_in_def)
  show ?thesis
    unfolding apply_nat_def
    by (rule triple_bind [OF rollback_ready [OF keeps_ready_act [OF c]]], assumption,
        rule triple_weaken [OF triple_save_or_rollback])
      (auto simp: mark_applied_def on_snapshot_def ready_def routing_in_def intro: on_disk_some)
qed

lemma triple_apply_routing:
  assumes "routing_in r st"
  shows "triple (ready st) (apply_routing env r st) ready (\<lambda>_. cov any_state)"
proof -
  have c: "recipe_covers (SetupRouting r) st" if "ready st w" for w
    using recipe_covers_ready(3) [OF that] assms by (auto simp: routing_in_def)
  show ?thesis
    unfolding apply_routing_def
    by (rule triple_bind [OF rollback_ready [OF keeps_ready_act [OF c]]], assumption,
        rule triple_bind [OF rollback_ready [OF rd.keeps_verify_routing]],
        rule triple_pre [OF triple_save_after])
      (auto simp: mark_applied_def on_snapshot_def ready_def intro: on_disk_some)
qed

lemma triple_bring_up_network:
  "triple (ready st) (bring_up_network env cfg st) ready (\<lambda>_. cov any_state)"
proof (rule triple_pre [OF triple_pure [where p = "st_snapshot st \<noteq> None" and P = "ready st"]])
  assume sn: "st_snapshot st \<noteq> None"
  note tun = recipe_in_with_tun [OF sn]
  have save: "triple (ready st) (save_or_rollback env (with_tun cfg t st))
      (\<lambda>st2 w. ready st2 w \<and> st2 = journaled (with_tun cfg t st)) (\<lambda>_. cov any_state)" for t
    by (rule triple_pre [OF triple_save_or_rollback]) (auto simp: ready_def tun intro: on_disk_some)
  have nat: "triple (\<lambda>w. ready st2 w \<and> st2 = journaled (with_tun cfg t st))
      (if same_lan cfg then eret st2 else apply_nat env (tun_nat cfg t) st2)
      (\<lambda>st3 w. ready st3 w \<and> routing_in (tun_routing cfg t) st3) (\<lambda>_. cov any_state)" for st2 t
  proof (rule triple_pure, rule triple_if)
    assume st2: "st2 = journaled (with_tun cfg t st)"
    show "triple (ready st2) (eret st2)
        (\<lambda>st3 w. ready st3 w \<and> routing_in (tun_routing cfg t) st3) (\<lambda>_. cov any_state)"
      by (rule triple_eret) (simp add: st2 tun)
    show "triple (ready st2) (apply_nat env (tun_nat cfg t) st2)
        (\<lambda>st3 w. ready st3 w \<and> routing_in (tun_routing cfg t) st3) (\<lambda>_. cov any_state)" if "\<not> same_lan cfg"
      by (rule triple_post [OF triple_apply_nat]) (simp_all add: st2 tun that)
  qed
  show "triple (ready st) (bring_up_network env cfg st) ready (\<lambda>_. cov any_state)"
    unfolding bring_up_network_def
    by (rule triple_bind [OF rollback_ready [OF rd.keeps_query]], simp,
        rule triple_bind [OF save], rule triple_bind [OF nat], rule triple_pure [OF triple_apply_routing])
qed (simp add: ready_def)

lemma check_start_state:
  "check_start env cfg0 commit w = (Inr (cfg, st), w') \<Longrightarrow> \<exists>boot digest sn now. st = starting_state cfg boot digest sn now"
  by (auto simp: check_start_def success_iff)

lemma triple_prepare_start:
  "triple (cov any_state) (prepare_start env cfg0 commit) (\<lambda>(cfg, st). ready st) (\<lambda>_. cov any_state)"
  unfolding prepare_start_def
proof (rule triple_bind)
  show "triple (cov any_state) (check_start env cfg0 commit)
      (\<lambda>(cfg, st) w. cov any_state w \<and> st_snapshot st \<noteq> None) (\<lambda>_. cov any_state)"
    by (rule tripleI)
      (auto dest: tripleD [OF keeps_triple [OF cv.keeps_check_start]] check_start_state simp: starting_state_def)
  show "triple (case x of (cfg, st) \<Rightarrow> \<lambda>w. cov any_state w \<and> st_snapshot st \<noteq> None)
      (case x of (cfg, st) \<Rightarrow>
         ebind (ecatch (save_state env st) (\<lambda>e. ebind (eerr (remove_policy_snapshot env)) (\<lambda>_. efail e)))
           (\<lambda>_. eret (cfg, journaled st)))
      (\<lambda>(cfg, st). ready st) (\<lambda>_. cov any_state)" for x :: "gw_config \<times> runtime_state"
  proof (cases x)
    case (Pair cfg st)
    have fail: "triple (cov any_state) (ebind (eerr (remove_policy_snapshot env)) (\<lambda>_. efail e))
        (\<lambda>_. ready (journaled st)) (\<lambda>_. cov any_state)" for e
      by (rule triple_bind_keeps [OF keeps_eerr [OF cv.keeps_remove_policy]]) (auto intro: triple_efail)
    have save: "triple (\<lambda>w. cov any_state w \<and> st_snapshot st \<noteq> None) (save_state env st)
        (\<lambda>_. ready (journaled st)) (\<lambda>_. cov any_state)"
      by (rule triple_pure, rule triple_weaken [OF triple_save [of any_state]])
        (auto simp: ready_def on_disk_def cov_def)
    show ?thesis
      unfolding Pair prod.case
      by (rule triple_bind [OF triple_catch [OF save fail]]) (rule triple_eret, simp)
  qed
qed

lemma triple_bring_up:
  "triple (ready st) (bring_up env cfg st) ready (\<lambda>_. cov any_state)"
  unfolding bring_up_def
  by (rule triple_bind [OF triple_bring_up_forwarding] triple_bind [OF triple_bring_up_processes]
        triple_bind [OF triple_bring_up_network triple_bring_up_frontend])+

lemma keeps_cov_start_gateway: "keeps (cov any_state) (start env cfg)"
  unfolding keeps_def start_def start_with_commit_def
proof (rule triple_bind [OF triple_prepare_start])
  fix x :: "gw_config \<times> runtime_state"
  show "triple (case x of (cfg, st) \<Rightarrow> ready st)
      (case x of (cfg, st0) \<Rightarrow> ebind (bring_up env cfg st0) (\<lambda>_. warm_managed_tailscale env cfg))
      (\<lambda>_. cov any_state) (\<lambda>_. cov any_state)"
    by (cases x)
      (auto intro!: triple_bind [OF triple_bring_up] triple_keeps [OF cv.keeps_warm_tailscale]
        simp: ready_def on_disk_def cov_def)
qed

subsection \<open>The other operations\<close>

lemma triple_load_state:
  "triple (cov any_state) (load_state env) (\<lambda>x. cov (\<lambda>s. s = x)) (\<lambda>_. cov any_state)"
  unfolding load_state_def
  by (rule triple_bind [OF keeps_triple [OF cv.keeps_file_id]]) (auto simp: triple_def peek_def cov_def)

lemma keeps_some_any: "keeps (cov some_state) m \<Longrightarrow> triple (cov some_state) m (\<lambda>_. cov any_state) (\<lambda>_. cov any_state)"
  by (erule triple_keeps) (auto simp: cov_def)

lemma triple_loaded:
  assumes "triple (cov any_state) n Q (\<lambda>_. cov any_state)"
    and "\<And>st. triple (cov some_state) (f st) Q (\<lambda>_. cov any_state)"
  shows "triple (cov any_state)
    (ebind (load_state env) (\<lambda>x. case x of None \<Rightarrow> n | Some st \<Rightarrow> f st)) Q (\<lambda>_. cov any_state)"
proof (rule triple_bind [OF triple_load_state], rule triple_option)
  fix x
  show "triple (cov (\<lambda>s. s = x)) n Q (\<lambda>_. cov any_state)"
    by (rule triple_pre [OF assms(1)]) (simp add: cov_def)
  show "triple (cov (\<lambda>s. s = x)) (f st) Q (\<lambda>_. cov any_state)" if "x = Some st" for st
    by (rule triple_pre [OF assms(2)]) (simp add: cov_def some_state_def that)
qed

lemma triple_cleanup_interrupted:
  "triple (cov some_state) (cleanup_interrupted_runtime env st) (\<lambda>_. cov any_state) (\<lambda>_. cov any_state)"
  unfolding cleanup_interrupted_runtime_def
  by (rule bind_some [OF _ triple_pre [OF keeps_triple [OF keeps_clear_any] cov_any]])
    (intro keeps_intro cv.keeps_check keeps_cov_restore; simp)

lemma keeps_cov_stop_gateway: "keeps (cov any_state) (stop_gateway env)"
proof -
  have boot: "triple (cov some_state)
      (ebind (current_boot env) (\<lambda>boot.
         if \<not> belongs_to_boot st boot then cleanup_interrupted_runtime env st
         else ebind (do_check env NewBackend) (\<lambda>_. ebind (teardown env st) (\<lambda>_. clear_runtime env))))
      (\<lambda>_. cov any_state) (\<lambda>_. cov any_state)" for st
    by (rule bind_some [OF cv.keeps_current_boot], rule triple_if, rule triple_cleanup_interrupted,
        rule bind_some [OF cv.keeps_check], simp,
        rule bind_some [OF keeps_teardown_some], rule triple_pre [OF keeps_triple [OF keeps_clear_any] cov_any])
  have none: "triple (cov any_state) (ebind (do_check env NewBackend) (\<lambda>_. clear_runtime env))
      (\<lambda>_. cov any_state) (\<lambda>_. cov any_state)"
    by (rule keeps_triple) (intro keeps_intro cv.keeps_check keeps_clear_any; simp)
  show ?thesis
    unfolding keeps_def stop_gateway_def
    by (rule bind_any [OF keeps_need_root], rule bind_any [OF cv.keeps_stop_prepared],
        rule triple_loaded [OF none boot])
qed


text \<open>A call whose error is dressed up keeps what it kept.\<close>

lemma keeps_cov_validate: "keeps (cov R) (validate_reload_candidate env cfg)"
  by (rule cv.keeps_validate_candidate)

lemma keeps_cov_reload: "keeps (cov any_state) (reload env cfg)"
  unfolding reload_def
  by (intro keeps_intro cv.keeps_load_running cv.keeps_alive keeps_cov_validate keeps_cov_stop_gateway
        keeps_cov_start_gateway)

lemma triple_load_running:
  "triple (cov any_state) (load_running_state env msg) (\<lambda>_. cov some_state) (\<lambda>_. cov any_state)"
  unfolding load_running_state_def
proof (rule triple_loaded)
  show "triple (cov any_state) (efail e) (\<lambda>_. cov some_state) (\<lambda>_. cov any_state)" for e
    by (rule triple_efail)
  show "triple (cov some_state) (ebind (current_boot env)
      (\<lambda>boot. if belongs_to_boot st boot then eret st else efail (Msg msg))) (\<lambda>_. cov some_state) (\<lambda>_. cov any_state)" for st
    by (rule bind_some [OF cv.keeps_current_boot], rule triple_if)
      (auto intro!: triple_intro simp: cov_def)
qed

lemma triple_restart_guards:
  "triple (cov any_state) (restart_mihomo_guards env cfg) (\<lambda>_. cov some_state) (\<lambda>_. cov any_state)"
  unfolding restart_mihomo_guards_def
  by (rule bind_any [OF keeps_need_root], rule triple_bind [OF triple_load_running],
      rule bind_some [OF cv.keeps_check_restart], rule triple_eret)

lemma triple_fail_all: "(\<And>e w. P w \<Longrightarrow> E e w) \<Longrightarrow> triple P (fail_all es) Q E"
  by (auto simp: fail_all_def triple_def ebind_def eopt_def efail_def eret_def split: option.splits)

text \<open>An error handler: some calls under a state on disk, then the errors joined.\<close>

lemma triple_handler:
  assumes "keeps (cov some_state) m"
  shows "triple (cov some_state) (ebind m (\<lambda>x. fail_all (es x))) Q (\<lambda>_. cov any_state)"
  by (rule bind_some [OF assms], rule triple_fail_all) (rule cov_any)

lemma triple_handler2:
  assumes "keeps (cov some_state) m" "\<And>x. keeps (cov some_state) (n x)"
  shows "triple (cov some_state) (ebind m (\<lambda>x. ebind (n x) (\<lambda>y. fail_all (es x y)))) Q (\<lambda>_. cov any_state)"
  by (rule bind_some [OF assms(1)], rule triple_handler [OF assms(2)])

lemma triple_save_new:
  "triple (cov some_state) (save_state env st) (\<lambda>_. on_disk (journaled st)) (\<lambda>_. cov some_state)"
  by (rule triple_weaken [OF triple_save [of some_state]]) (auto simp: on_disk_def cov_def some_state_def)

lemma triple_wrap:
  assumes "triple P m Q (\<lambda>_. cov R)"
  shows "triple P (ecatch m (\<lambda>e. efail (h e))) Q (\<lambda>_. cov any_state)"
  by (rule triple_catch [OF assms], rule triple_efail) (rule cov_any)

lemma on_disk_keeps_some: "keeps (on_disk st) m \<Longrightarrow> triple (on_disk st) m (\<lambda>_. on_disk st) (\<lambda>_. cov some_state)"
  by (erule triple_keeps) (auto intro: on_disk_some)

lemma triple_retire: "triple (cov some_state) (retire_mihomo env st0) on_disk (\<lambda>_. cov any_state)"
  unfolding retire_mihomo_def Let_def
  by (rule triple_bind [OF triple_wrap [OF triple_save_new]],
      rule triple_bind [OF triple_catch [OF on_disk_keeps_some [OF keeps_on_disk_stop_tracked]]],
      rule triple_handler2)
    (auto intro: cv.keeps_alive keeps_save_some keeps_intro triple_eret)

lemma triple_launch: "triple (on_disk st) (launch_mihomo env st) on_disk (\<lambda>_. cov any_state)"
proof -
  have stop: "keeps (cov some_state) (eerr (do_act env (StopService Mihomo pid)))" for pid
    by (intro keeps_intro keeps_cov_stop)
  have launched: "triple (on_disk st) (ecatch (start_service env Mihomo) (\<lambda>e. efail (h e)))
      (\<lambda>_. cov some_state) (\<lambda>_. cov any_state)" for h
    by (rule triple_post [OF triple_wrap [OF on_disk_keeps_some [OF keeps_on_disk_start]]]) (rule on_disk_some)
  have identified: "triple (cov some_state) (ecatch (record_identity env Mihomo pid)
        (\<lambda>e. ebind (eerr (do_act env (StopService Mihomo pid))) (\<lambda>stopped. fail_all [Some e, stopped])))
      (\<lambda>_. cov some_state) (\<lambda>_. cov any_state)" for pid
    by (rule triple_catch [OF keeps_triple [OF cv.keeps_record_identity] triple_handler [OF stop]])
  have saved: "triple (cov some_state) (ecatch (save_state env st1)
        (\<lambda>e. ebind (eerr (do_act env (StopService Mihomo pid))) (\<lambda>stopped. fail_all [Some (h e), stopped])))
      (\<lambda>_. on_disk (journaled st1)) (\<lambda>_. cov any_state)" for pid st1 h
    by (rule triple_catch [OF triple_save_new triple_handler [OF stop]])
  show ?thesis
    unfolding launch_mihomo_def Let_def
    by (rule triple_bind [OF launched], rule triple_bind [OF identified], rule triple_bind [OF saved])
      (simp add: triple_eret)
qed

lemma recipe_covers_tun:
  assumes "journaled st = st" "st_snapshot st = Some sn" "sn_routing sn = Some r"
  shows "recipe_covers (SetupRouting r) st" "recipe_covers (SetupRouting (r\<lparr>rc_tun_device := tun\<rparr>)) st"
proof -
  have "map_option journal_snapshot (st_snapshot st) = st_snapshot st"
    using arg_cong [OF assms(1), of st_snapshot] by (simp only: journaled_fields)
  then have "journal_snapshot sn = sn"
    using assms(2) by simp
  from journal_snapshot_applied(2) [of sn, unfolded this, OF assms(3)]
  show "recipe_covers (SetupRouting r) st" "recipe_covers (SetupRouting (r\<lparr>rc_tun_device := tun\<rparr>)) st"
    using assms(2,3) by (simp_all add: recipe_covers_def routing_journaled_def)
qed

lemma replacement_recipe_tun:
  "replacement_recipe env cfg r0 w = (Inr r, w') \<Longrightarrow> r = r0 \<or> (\<exists>tun. r = r0\<lparr>rc_tun_device := tun\<rparr>)"
  by (auto simp: replacement_recipe_def Let_def success_iff split: if_splits)

lemma triple_reapply:
  "triple (on_disk st) (reapply_policy_routing env cfg st) (\<lambda>_. on_disk st) (\<lambda>_. cov some_state)"
  unfolding reapply_policy_routing_def
proof (rule triple_option)
  show "triple (on_disk st) (efail e) (\<lambda>_. on_disk st) (\<lambda>_. cov some_state)" for e
    by (rule triple_efail) (rule on_disk_some)
  fix r0 assume r0: "(case st_snapshot st of None \<Rightarrow> None | Some sn \<Rightarrow> sn_routing sn) = Some r0"
  then obtain sn where sn: "st_snapshot st = Some sn" "sn_routing sn = Some r0"
    by (auto split: option.splits)
  have recipe: "triple (on_disk st) (replacement_recipe env cfg r0)
      (\<lambda>r w. on_disk st w \<and> (journaled st = st \<longrightarrow> recipe_covers (SetupRouting r) st)) (\<lambda>_. cov some_state)"
    by (rule tripleI)
      (use recipe_covers_tun [OF _ sn] in \<open>auto dest: replacement_recipe_tun tripleD [OF on_disk_keeps_some [OF od.keeps_replacement_recipe]]\<close>)
  show "triple (on_disk st)
     (ebind (replacement_recipe env cfg r0) (\<lambda>r.
        ebind (ecatch (do_act env (SetupRouting r)) (\<lambda>e. efail (Wrapped ''reapply policy routing'' e))) (\<lambda>_.
        ebind (verify_policy_routing env r) (\<lambda>_. eret (with_routing_applied r st)))))
     (\<lambda>_. on_disk st) (\<lambda>_. cov some_state)"
  proof (rule triple_bind [OF recipe], rule triple_pure)
    fix r assume "journaled st = st \<longrightarrow> recipe_covers (SetupRouting r) st"
    then show "triple (on_disk st)
       (ebind (ecatch (do_act env (SetupRouting r)) (\<lambda>e. efail (Wrapped ''reapply policy routing'' e))) (\<lambda>_.
        ebind (verify_policy_routing env r) (\<lambda>_. eret (with_routing_applied r st))))
       (\<lambda>_. on_disk st) (\<lambda>_. cov some_state)"
      by (intro on_disk_keeps_some keeps_intro keeps_on_disk_act od.keeps_verify_routing) simp
  qed
qed

lemma triple_drop: "triple (cov some_state) (drop_mihomo env st forget e) Q (\<lambda>_. cov any_state)"
  unfolding drop_mihomo_def by (rule triple_handler2) (intro keeps_intro keeps_cov_stop keeps_save_some)+

lemma triple_repair:
  "triple (on_disk st) (repair_routing env cfg st) (\<lambda>_. cov any_state) (\<lambda>_. cov any_state)"
  unfolding repair_routing_def
  by (rule triple_bind [OF triple_catch [OF on_disk_keeps_some [OF od.keeps_check] triple_drop]], simp,
      rule triple_bind [OF triple_catch [OF triple_reapply triple_drop]],
      rule triple_weaken [OF triple_wrap [OF triple_save_new]])
    (auto intro: on_disk_some cov_any)

lemma keeps_cov_restart_mihomo: "keeps (cov any_state) (restart_mihomo env cfg)"
  unfolding keeps_def restart_mihomo_def
  by (rule triple_bind [OF triple_restart_guards], rule triple_bind [OF triple_retire],
      rule triple_bind [OF triple_keeps [OF od.keeps_archive_log]], assumption, assumption,
      erule cov_any [OF on_disk_some], rule triple_bind [OF triple_launch triple_repair])

lemma keeps_retire_dnsmasq: "keeps (cov some_state) (retire_dnsmasq env st)"
  unfolding retire_dnsmasq_def Let_def
  by (intro keeps_intro cv.keeps_alive keeps_save_some keeps_cov_stop_tracked)

lemma keeps_launch_dnsmasq: "keeps (cov some_state) (launch_dnsmasq env st)"
  unfolding launch_dnsmasq_def
  by (intro keeps_intro keeps_save_some keeps_cov_start cv.keeps_record_identity keeps_cov_stop)

lemma keeps_cov_restart_dnsmasq: "keeps (cov any_state) (restart_dnsmasq env)"
  unfolding keeps_def restart_dnsmasq_def
  by (rule bind_any [OF keeps_need_root], rule triple_bind [OF triple_load_running], rule keeps_some_any,
      intro keeps_intro cv.keeps_check keeps_retire_dnsmasq cv.keeps_archive_log keeps_launch_dnsmasq) simp

lemma keeps_cov_recover: "keeps (cov any_state) (recover_locked env cfg)"
proof -
  have desired: "keeps (cov R) (infer_desired env b)" for R b
    unfolding infer_desired_def by (intro keeps_intro cv.keeps_load_desired cv.keeps_save_desired)
  have stopped: "keeps (cov any_state) (ebind (ecatch (stop_gateway env) (\<lambda>e. efail (Wrapped h e))) (\<lambda>_. eret RuntimeCleared))" for h
    by (intro keeps_intro keeps_cov_stop_gateway)
  have cleaned: "triple (cov some_state)
      (ebind (ecatch (cleanup_interrupted_runtime env st) (\<lambda>e. efail (Wrapped h e))) (\<lambda>_. eret RuntimeCleared))
      (\<lambda>_. cov any_state) (\<lambda>_. cov any_state)" for st h
    by (rule triple_bind [OF triple_wrap [OF triple_cleanup_interrupted]], rule triple_eret)
  have reconcile: "triple (cov some_state) (reconcile_state env cfg st d) (\<lambda>_. cov any_state) (\<lambda>_. cov any_state)" for st d
    unfolding reconcile_state_def
    by (rule bind_some [OF cv.keeps_current_boot], rule triple_if [OF cleaned], rule triple_if,
        (rule triple_keeps [OF stopped], (simp add: cov_def)+),
        rule bind_some [OF keeps_fetch [OF cv.keeps_status]], rule triple_if, (rule triple_eret, simp add: cov_def),
        rule triple_keeps [OF stopped], (simp add: cov_def)+)
  show ?thesis
    unfolding keeps_def recover_locked_def
  proof (rule triple_bind [OF triple_load_state], rule triple_bind_keeps [OF desired])
    fix x d
    show "triple (cov (\<lambda>s. s = x))
       (ebind (case x of None \<Rightarrow> eret RuntimeCleared | Some st \<Rightarrow> reconcile_state env cfg st d) (\<lambda>r.
         case r of KeepRunning \<Rightarrow> eret False
         | RuntimeCleared \<Rightarrow>
             if \<not> d then eret False
             else ebind (ecatch (start env cfg)
                    (\<lambda>e. efail (Wrapped ''restart gateway after container recovery'' e))) (\<lambda>_. eret True)))
       (\<lambda>_. cov any_state) (\<lambda>_. cov any_state)"
    proof (rule triple_bind [where R = "\<lambda>_. cov any_state"])
      show "triple (cov (\<lambda>s. s = x))
         (case x of None \<Rightarrow> eret RuntimeCleared | Some st \<Rightarrow> reconcile_state env cfg st d)
         (\<lambda>_. cov any_state) (\<lambda>_. cov any_state)"
        by (rule triple_option, (rule triple_eret, simp add: cov_def), rule triple_pre [OF reconcile])
          (simp add: cov_def some_state_def)
    qed (rule keeps_triple, intro keeps_intro keeps_cov_start_gateway)
  qed (auto simp: cov_def)
qed

subsection \<open>Sessions\<close>

text \<open>The operations, as they run under the lifecycle lock.\<close>

datatype gateway_op = OpStart | OpStop | OpReload | OpRestartMihomo | OpRestartDNSMasq | OpRecover

definition run_op :: "env \<Rightarrow> gw_config \<Rightarrow> gateway_op \<Rightarrow> unit gw" where
  "run_op env cfg op =
     (case op of
        OpStart \<Rightarrow> start env cfg
      | OpStop \<Rightarrow> stop_gateway env
      | OpReload \<Rightarrow> reload env cfg
      | OpRestartMihomo \<Rightarrow> restart_mihomo env cfg
      | OpRestartDNSMasq \<Rightarrow> restart_dnsmasq env
      | OpRecover \<Rightarrow> ebind (recover_locked env cfg) (\<lambda>_. eret ()))"

text \<open>Any sequence of operations, each with a configuration of its own. Between two of them the files
  may change in any way: an operation may have been killed in the middle, or another program wrote.\<close>

inductive session :: "env \<Rightarrow> world \<Rightarrow> bool" for env where
  session_begin: "w_log w = [] \<Longrightarrow> session env w"
| session_op: "session env w \<Longrightarrow> run_op env cfg op w = (r, w') \<Longrightarrow> session env w'"
| session_files: "session env w \<Longrightarrow> session env (w\<lparr>w_state_file := s, w_desired_file := d, w_policy_file := b\<rparr>)"

lemma keeps_cov_run_op: "keeps (cov any_state) (run_op env cfg op)"
  by (cases op)
    (simp_all add: run_op_def keeps_cov_start_gateway keeps_cov_stop_gateway keeps_cov_reload
      keeps_cov_restart_mihomo keeps_cov_restart_dnsmasq keeps_cov_recover keeps_bind keeps_eret)

lemma session_covered: "session env w \<Longrightarrow> cov any_state w"
proof (induction rule: session.induct)
  case (session_op w cfg op r w')
  then show ?case
    using keepsD [OF keeps_cov_run_op session_op.IH, of env cfg op] by simp
qed (simp_all add: cov_def)

text \<open>C9: Write-ahead. In any sequence of gateway operations, whatever its calls answer, every change
  to the host (forwarding, NAT, policy routing, starting or stopping a service) is made while the
  state file on disk exists and holds the recipe that undoes the change: the NAT recipe itself, the
  routing recipe up to the name of the TUN device, and the intent flags \<open>Restore\<close> goes by. A crash at
  any moment therefore leaves a file that a later stop can clean up from.\<close>

theorem host_changes_written_ahead:
  assumes "session env w" and "ev \<in> set (w_log w)" and "ev_call ev = Act a"
  shows "\<exists>st. ev_durable ev = Some st \<and> recipe_covers a st"
proof -
  have "covered ev"
    using session_covered [OF assms(1)] assms(2) by (simp add: cov_def list_all_iff)
  then show ?thesis
    using assms(3) by (simp add: covered_def split: option.splits)
qed

end
