(* ===== verification/GatewayTrace.thy ===== *)
theory GatewayTrace
  imports GatewayJournal
begin

text \<open>
  Reading the log of a run: the changes made to the host in their order, and the calls that succeeded
  together with the world each of them was made in, so that what a call answered, and which call came
  before which, can be stated of the final world.
\<close>

subsection \<open>The changes made to the host\<close>

definition acts :: "event list \<Rightarrow> (act \<times> gerr option) list" where
  "acts evs = List.map_filter (\<lambda>ev. case ev_call ev of Act a \<Rightarrow> Some (a, ev_error ev) | _ \<Rightarrow> None) evs"

definition acts_of :: "world \<Rightarrow> (act \<times> gerr option) list" where
  "acts_of w = acts (w_log w)"

lemma acts_append [simp]: "acts (xs @ ys) = acts xs @ acts ys"
  by (simp add: acts_def map_filter_def)

lemma acts_single [simp]:
  "acts [\<lparr>ev_call = c, ev_durable = d, ev_error = e\<rparr>] = (case c of Act a \<Rightarrow> [(a, e)] | _ \<Rightarrow> [])"
  by (simp add: acts_def map_filter_simps split: call.split)

lemma acts_of_log_call [simp]:
  "acts_of (log_call c e w) = acts_of w @ (case c of Act a \<Rightarrow> [(a, e)] | _ \<Rightarrow> [])"
  by (simp add: acts_of_def)

lemma acts_of_files [simp]:
  "acts_of (w\<lparr>w_state_file := s\<rparr>) = acts_of w" "acts_of (w\<lparr>w_desired_file := d\<rparr>) = acts_of w"
  "acts_of (w\<lparr>w_policy_file := b\<rparr>) = acts_of w"
  by (simp_all add: acts_of_def)

text \<open>Nothing done to the host, the state file as it was.\<close>

definition same_host :: "world \<Rightarrow> world \<Rightarrow> bool" where
  "same_host w w' \<longleftrightarrow> acts_of w' = acts_of w \<and> w_state_file w' = w_state_file w"

interpretation sh: quiet_invariant "same_host w0" for w0
proof
  fix w c e assume "same_host w0 w" "quiet c"
  then show "same_host w0 (log_call c e w)"
    by (cases c) (auto simp: same_host_def quiet_def)
qed (simp_all add: same_host_def)

lemma same_hostD: "(\<And>w0. keeps (same_host w0) m) \<Longrightarrow> m w = (r, w') \<Longrightarrow> same_host w w'"
  using keepsD [of "same_host w" m w] by (simp add: same_host_def)

lemma quiet_runs:
  "do_check env c w = (r, w') \<Longrightarrow> quiet (Check c) \<Longrightarrow> same_host w w'"
  "do_query env q f w = (r', w') \<Longrightarrow> quiet (Query q) \<Longrightarrow> same_host w w'"
  "check_start env cfg b w = (r2, w') \<Longrightarrow> same_host w w'"
  "record_identity env s p w = (r3, w') \<Longrightarrow> same_host w w'"
  "verify_policy_routing env rt w = (r4, w') \<Longrightarrow> same_host w w'"
  "warm_managed_tailscale env cfg w = (r5, w') \<Longrightarrow> same_host w w'"
  "current_boot env w = (r6, w') \<Longrightarrow> same_host w w'"
  "load_state env w = (r7, w') \<Longrightarrow> same_host w w'"
  "stop_prepared_engine env w = (r8, w') \<Longrightarrow> same_host w w'"
  by (erule same_hostD [rotated], intro sh.keeps_check sh.keeps_query sh.keeps_check_start sh.keeps_record_identity
      sh.keeps_verify_routing sh.keeps_warm_tailscale sh.keeps_current_boot sh.keeps_load_state sh.keeps_stop_prepared; assumption)+

lemma act_runs:
  "do_act env a w = (Inr u, w') \<Longrightarrow> acts_of w' = acts_of w @ [(a, None)] \<and> w_state_file w' = w_state_file w"
  "start_service env s w = (Inr pid, w') \<Longrightarrow>
     acts_of w' = acts_of w @ [(StartService s, None)] \<and> w_state_file w' = w_state_file w"
  by (auto simp: do_act_def start_service_def do_call_def answer_def split: option.splits)

lemma save_state_acts: "save_state env st w = (r, w') \<Longrightarrow> acts_of w' = acts_of w"
proof -
  have "keeps (\<lambda>v. acts_of v = acts_of w) (save_state env st)"
    unfolding save_state_def with_temp_def write_temp_def Let_def do_file_def
    by (intro keeps_intro keeps_do_call) (auto simp: keeps_def triple_def)
  then show "save_state env st w = (r, w') \<Longrightarrow> acts_of w' = acts_of w"
    by (auto dest: keepsD)
qed

lemma do_file_Inr_iff:
  "do_file env k f w = (Inr u, w') \<longleftrightarrow> en_file env w k = None \<and> w' = f (log_call (File k) None w)"
  by (auto simp: do_file_def ebind_def do_call_def answer_def split: option.splits)

lemma save_state_Inr:
  "save_state env st w = (Inr u, w') \<Longrightarrow> acts_of w' = acts_of w \<and> w_state_file w' = Some (journaled st)"
  by (auto simp: save_state_def with_temp_def write_temp_def Let_def success_iff do_file_Inr_iff)


subsection \<open>Calls that succeeded\<close>

definition logged :: "world \<Rightarrow> world \<Rightarrow> bool" where
  "logged w w' \<longleftrightarrow> (\<exists>new. w_log w' = w_log w @ new)"

text \<open>Between \<open>w\<close> and \<open>w'\<close> the call \<open>c\<close> was made in the world \<open>v\<close>, and it succeeded.\<close>

definition made :: "world \<Rightarrow> call \<Rightarrow> world \<Rightarrow> world \<Rightarrow> bool" where
  "made w c v w' \<longleftrightarrow>
     (\<exists>before after. w_log v = w_log w @ before
        \<and> w_log w' = w_log v @ \<lparr>ev_call = c, ev_durable = w_state_file v, ev_error = None\<rparr> # after)"

text \<open>Between \<open>w\<close> and \<open>w'\<close> the service was started, \<open>pid\<close> is the PID of the process started and
  \<open>fp\<close> the identity read of it afterwards; a live process has one.\<close>

definition tracked :: "env \<Rightarrow> world \<Rightarrow> service \<Rightarrow> int \<Rightarrow> string \<Rightarrow> world \<Rightarrow> bool" where
  "tracked env w s pid fp w' \<longleftrightarrow>
     (\<exists>x y. made w (Act (StartService s)) x w' \<and> pid = en_pid env x s
        \<and> made x (Query (AskFingerprint pid)) y w' \<and> fp = en_fingerprint env y pid \<and> (0 < pid \<longrightarrow> fp \<noteq> []))"

lemma logged_refl [simp]: "logged w w"
  by (simp add: logged_def)

lemma logged_trans [trans]: "logged u v \<Longrightarrow> logged v w \<Longrightarrow> logged u w"
  by (auto simp: logged_def)

lemma logged_log_call [simp]: "logged w v \<Longrightarrow> logged w (log_call c e v)"
  by (auto simp: logged_def)

lemma logged_files [simp]:
  "logged w (v\<lparr>w_state_file := s\<rparr>) = logged w v" "logged w (v\<lparr>w_desired_file := d\<rparr>) = logged w v"
  "logged w (v\<lparr>w_policy_file := b\<rparr>) = logged w v"
  by (simp_all add: logged_def)

interpretation lg: call_invariant "logged w0" "\<lambda>_. True" for w0
  by unfold_locales simp_all

lemma made_later: "made w c v w1 \<Longrightarrow> logged w1 w' \<Longrightarrow> made w c v w'"
  by (auto simp: made_def logged_def)

lemma made_earlier: "made w1 c v w' \<Longrightarrow> logged w w1 \<Longrightarrow> made w c v w'"
  by (auto simp: made_def logged_def)

lemma made_within: "logged w w1 \<Longrightarrow> made w1 c v w2 \<Longrightarrow> logged w2 w' \<Longrightarrow> made w c v w'"
  by (blast intro: made_later made_earlier)

lemma made_logged: "made w c v w' \<Longrightarrow> logged w v" "made w c v w' \<Longrightarrow> logged v w'"
  by (auto simp: made_def logged_def)

lemma made_now: "made w c w (log_call c None w)"
  by (simp add: made_def)

lemma tracked_within: "logged w w1 \<Longrightarrow> tracked env w1 s p f w2 \<Longrightarrow> logged w2 w' \<Longrightarrow> tracked env w s p f w'"
  unfolding tracked_def by (blast intro: made_later made_earlier)

lemma do_call_made: "do_call c err val w = (Inr x, w') \<Longrightarrow> x = val w \<and> made w c w w' \<and> logged w w'"
  by (auto simp: do_call_def answer_def made_now split: option.splits)

lemma made_runs:
  "do_check env c w = (Inr u, w') \<Longrightarrow> made w (Check c) w w' \<and> logged w w'"
  "do_config env c cfg w = (Inr cfg', w') \<Longrightarrow> cfg' = en_config env w c cfg \<and> made w (Check c) w w' \<and> logged w w'"
  "do_act env a w = (Inr u, w') \<Longrightarrow> made w (Act a) w w' \<and> logged w w'"
  "start_service env s w = (Inr pid, w') \<Longrightarrow> pid = en_pid env w s \<and> made w (Act (StartService s)) w w' \<and> logged w w'"
  "do_query env q f w = (Inr x, w') \<Longrightarrow> x = f w \<and> made w (Query q) w w' \<and> logged w w'"
  "ask q f w = (Inr x, w') \<Longrightarrow> x = f w \<and> made w (Query q) w w' \<and> logged w w'"
  unfolding call_defs by (drule do_call_made, blast)+

lemma loggedI: "(\<And>w0. keeps (logged w0) m) \<Longrightarrow> m w = (r, w') \<Longrightarrow> logged w w'"
  using keepsD [of "logged w" m w] by simp

lemma do_call_logged: "keeps (logged w0) (do_check env c)" "keeps (logged w0) (do_act env a)"
  unfolding do_check_def do_act_def by (rule keeps_do_call, simp)+

lemma logged_runs:
  "do_check env c w = (r, w') \<Longrightarrow> logged w w'"
  "do_act env a w = (r, w') \<Longrightarrow> logged w w'"
  "save_state env st w = (r, w') \<Longrightarrow> logged w w'"
  "remove_state env w = (r, w') \<Longrightarrow> logged w w'"
  "remove_policy_snapshot env w = (r, w') \<Longrightarrow> logged w w'"
  "stop_tracked_process env s p fp w = (r, w') \<Longrightarrow> logged w w'"
  "warm_managed_tailscale env cfg w = (r, w') \<Longrightarrow> logged w w'"
  "archive_log env s w = (r, w') \<Longrightarrow> logged w w'"
  "check_start env cfg b w = (x, w') \<Longrightarrow> logged w w'"
  by (erule loggedI [rotated], rule do_call_logged lg.keeps_save_state lg.keeps_remove_state lg.keeps_remove_policy
        lg.keeps_stop_tracked lg.keeps_warm_tailscale lg.keeps_archive_log lg.keeps_check_start, (rule TrueI)?)+

end
