(* ===== verification/GatewayStart.thy ===== *)
theory GatewayStart
  imports GatewayTrace
begin

text \<open>
  What a start leaves behind: on success the exact sequence of changes to the host and the state on
  disk, on failure a rollback that was complete or a state file that says what is left.
\<close>

lemma rollback_fails [simp]: "\<not> rollback env st e w = (Inr x, w')"
proof -
  have "triple (\<lambda>_. True) (rollback env st e) (\<lambda>_ _. False) (\<lambda>_ _. True)"
    unfolding rollback_def Let_def
    by (intro triple_bind [where R = "\<lambda>_ _. True"] triple_option triple_efail)
      (auto simp: triple_def split: prod.splits sum.splits)
  from tripleD(1) [OF this] show ?thesis by auto
qed

lemma or_rollback_Inr_iff: "or_rollback env st m w = (Inr x, w') \<longleftrightarrow> m w = (Inr x, w')"
  by (auto simp: or_rollback_def ecatch_def split: prod.splits sum.splits)

text \<open>Each successful step of a start.\<close>

lemma save_or_rollback_Inr:
  "save_or_rollback env st w = (Inr st', w') \<Longrightarrow>
     st' = journaled st \<and> acts_of w' = acts_of w \<and> w_state_file w' = Some st'"
  by (auto simp: save_or_rollback_def success_iff or_rollback_Inr_iff dest: save_state_Inr)

lemma bring_up_service_Inr:
  assumes "bring_up_service env s set_pid set_fp st w = (Inr st', w')"
  shows "\<exists>pid fp. st' = set_fp fp (set_pid pid st) \<and> (0 < pid \<longrightarrow> fp \<noteq> [])
    \<and> acts_of w' = acts_of w @ [(StartService s, None)]"
  using assms
  by (auto simp: bring_up_service_def record_identity_def process_fingerprint_def success_iff or_rollback_Inr_iff same_host_def
      dest!: act_runs quiet_runs) blast+

lemma bring_up_forwarding_Inr:
  assumes "bring_up_forwarding env st w = (Inr st', w')"
  shows "acts_of w' = acts_of w @ [(EnableForwarding, None)]" "st_forwarding_applied st'"
    "st_dns_frontend st' = st_dns_frontend st" "st_boot_session_id st' = st_boot_session_id st"
    "st_nat_applied st' = st_nat_applied st" "(st_snapshot st' = None) = (st_snapshot st = None)"
  using assms
  by (auto simp: bring_up_forwarding_def success_iff or_rollback_Inr_iff same_host_def mark_applied_def on_snapshot_def
      dest!: act_runs quiet_runs save_or_rollback_Inr)

lemma bring_up_processes_Inr:
  assumes "bring_up_processes env st w = (Inr st', w')"
  shows "acts_of w' = acts_of w @ [(StartService Mihomo, None), (StartService DNSMasq, None)]"
    "0 < st_pid_mihomo st' \<longrightarrow> st_mihomo_fingerprint st' \<noteq> []"
    "0 < st_pid_dnsmasq st' \<longrightarrow> st_dnsmasq_fingerprint st' \<noteq> []"
    "st_forwarding_applied st' = st_forwarding_applied st"
    "st_dns_frontend st' = st_dns_frontend st" "st_boot_session_id st' = st_boot_session_id st"
    "st_nat_applied st' = st_nat_applied st" "(st_snapshot st' = None) = (st_snapshot st = None)"
  using assms
  by (auto simp: bring_up_processes_def success_iff or_rollback_Inr_iff same_host_def
      dest!: quiet_runs save_or_rollback_Inr bring_up_service_Inr)

lemma verify_Inr:
  "verify_policy_routing env r w = (Inr u, w') \<Longrightarrow> en_routing_present env w r \<and> same_host w w'"
  by (auto simp: verify_policy_routing_def success_iff do_query_def do_call_def answer_def same_host_def
      split: option.splits)

lemma apply_nat_Inr:
  assumes "apply_nat env n st w = (Inr st', w')"
  shows "acts_of w' = acts_of w @ [(SetupNAT n, None)]"
    "st' = journaled (mark_applied (\<lambda>a. a\<lparr>ap_nat := True\<rparr>) (st\<lparr>st_nat_applied := True\<rparr>))"
  using assms
  by (auto simp: apply_nat_def success_iff or_rollback_Inr_iff dest!: act_runs save_or_rollback_Inr)

lemma apply_routing_Inr:
  assumes "apply_routing env r st w = (Inr st', w')"
  shows "acts_of w' = acts_of w @ [(SetupRouting r, None)]"
    "st' = journaled (mark_applied (\<lambda>a. a\<lparr>ap_policy_routing := True\<rparr>) (st\<lparr>st_routing_applied := True\<rparr>))"
    "\<exists>w1. en_routing_present env w1 r \<and> acts_of w1 = acts_of w'"
  using assms
  by (auto simp: apply_routing_def success_iff or_rollback_Inr_iff same_host_def dest!: act_runs verify_Inr save_or_rollback_Inr)
    (metis append_assoc)?

lemma with_tun_fields [simp]:
  "st_forwarding_applied (with_tun cfg t st) = st_forwarding_applied st"
  "st_nat_applied (with_tun cfg t st) = st_nat_applied st"
  "st_pid_mihomo (with_tun cfg t st) = st_pid_mihomo st" "st_pid_dnsmasq (with_tun cfg t st) = st_pid_dnsmasq st"
  "st_mihomo_fingerprint (with_tun cfg t st) = st_mihomo_fingerprint st"
  "st_dnsmasq_fingerprint (with_tun cfg t st) = st_dnsmasq_fingerprint st"
  "st_tun_device (with_tun cfg t st) = t" "st_dns_frontend (with_tun cfg t st) = st_dns_frontend st"
  "st_boot_session_id (with_tun cfg t st) = st_boot_session_id st"
  by (simp_all add: with_tun_def on_snapshot_def)

lemma mark_applied_fields [simp]:
  "st_forwarding_applied (mark_applied f st) = st_forwarding_applied st"
  "st_routing_applied (mark_applied f st) = st_routing_applied st"
  "st_nat_applied (mark_applied f st) = st_nat_applied st"
  "st_pid_mihomo (mark_applied f st) = st_pid_mihomo st" "st_pid_dnsmasq (mark_applied f st) = st_pid_dnsmasq st"
  "st_mihomo_fingerprint (mark_applied f st) = st_mihomo_fingerprint st"
  "st_dnsmasq_fingerprint (mark_applied f st) = st_dnsmasq_fingerprint st"
  "st_tun_device (mark_applied f st) = st_tun_device st" "st_dns_frontend (mark_applied f st) = st_dns_frontend st"
  "st_boot_session_id (mark_applied f st) = st_boot_session_id st"
  "routing_in r (mark_applied f st) = routing_in r st" "nat_in n (mark_applied f st) = nat_in n st"
  by (auto simp: mark_applied_def on_snapshot_def routing_in_def nat_in_def)

lemma recipe_in_updates [simp]:
  "routing_in r (st\<lparr>st_routing_applied := b\<rparr>) = routing_in r st" "nat_in n (st\<lparr>st_routing_applied := b\<rparr>) = nat_in n st"
  "routing_in r (st\<lparr>st_nat_applied := b\<rparr>) = routing_in r st" "nat_in n (st\<lparr>st_nat_applied := b\<rparr>) = nat_in n st"
  "routing_in r (st\<lparr>st_pid_smartdns := p\<rparr>) = routing_in r st" "nat_in n (st\<lparr>st_pid_smartdns := p\<rparr>) = nat_in n st"
  "routing_in r (st\<lparr>st_smartdns_fingerprint := f\<rparr>) = routing_in r st"
  "nat_in n (st\<lparr>st_smartdns_fingerprint := f\<rparr>) = nat_in n st"
  "routing_in r (st\<lparr>st_lifecycle := l\<rparr>) = routing_in r st" "nat_in n (st\<lparr>st_lifecycle := l\<rparr>) = nat_in n st"
  by (simp_all add: routing_in_def nat_in_def)

text \<open>The data plane of a configuration with its TUN device, and the state that records it.\<close>

definition network_acts :: "gw_config \<Rightarrow> string \<Rightarrow> act list" where
  "network_acts cfg tun =
     (if same_lan cfg then [] else [SetupNAT (tun_nat cfg tun)]) @ [SetupRouting (tun_routing cfg tun)]"

definition network_recorded :: "gw_config \<Rightarrow> string \<Rightarrow> runtime_state \<Rightarrow> bool" where
  "network_recorded cfg tun st \<longleftrightarrow>
     routing_in (tun_routing cfg tun) st \<and> (\<not> same_lan cfg \<longrightarrow> nat_in (tun_nat cfg tun) st)
     \<and> st_routing_applied st \<and> (st_nat_applied st \<longleftrightarrow> \<not> same_lan cfg) \<and> st_tun_device st = tun"

text \<open>A live process is only tracked together with its identity.\<close>

definition identities_recorded :: "runtime_state \<Rightarrow> bool" where
  "identities_recorded st \<longleftrightarrow>
     (0 < st_pid_mihomo st \<longrightarrow> st_mihomo_fingerprint st \<noteq> [])
     \<and> (0 < st_pid_dnsmasq st \<longrightarrow> st_dnsmasq_fingerprint st \<noteq> [])
     \<and> (0 < st_pid_smartdns st \<longrightarrow> st_smartdns_fingerprint st \<noteq> [])"

definition succeeded :: "act list \<Rightarrow> (act \<times> gerr option) list" where
  "succeeded as = map (\<lambda>a. (a, None)) as"

lemma bring_up_network_Inr:
  assumes run: "bring_up_network env cfg st w = (Inr st', w')"
    and st: "st_snapshot st \<noteq> None" "\<not> st_nat_applied st"
  shows "\<exists>tun. acts_of w' = acts_of w @ succeeded (network_acts cfg tun) \<and> network_recorded cfg tun st'
      \<and> (\<exists>w1. en_routing_present env w1 (tun_routing cfg tun) \<and> acts_of w1 = acts_of w')"
    and "st_pid_mihomo st' = st_pid_mihomo st \<and> st_mihomo_fingerprint st' = st_mihomo_fingerprint st
      \<and> st_pid_dnsmasq st' = st_pid_dnsmasq st \<and> st_dnsmasq_fingerprint st' = st_dnsmasq_fingerprint st
      \<and> st_forwarding_applied st' = st_forwarding_applied st \<and> st_dns_frontend st' = st_dns_frontend st
      \<and> st_boot_session_id st' = st_boot_session_id st"
proof -
  from run obtain tun w1 w2 st2 st3 w3 where
      q: "do_query env (WaitTUN (gc_tun_device cfg)) (\<lambda>w. en_tun_name env w (gc_tun_device cfg)) w = (Inr tun, w1)"
      and save: "save_or_rollback env (with_tun cfg tun st) w1 = (Inr st2, w2)"
      and nat: "(if same_lan cfg then eret st2 else apply_nat env (tun_nat cfg tun) st2) w2 = (Inr st3, w3)"
      and routing: "apply_routing env (tun_routing cfg tun) st3 w3 = (Inr st', w')"
    unfolding bring_up_network_def success_iff or_rollback_Inr_iff by blast
  have w1: "acts_of w1 = acts_of w"
    using quiet_runs(2) [OF q] by (simp add: same_host_def)
  have w2: "st2 = journaled (with_tun cfg tun st)" "acts_of w2 = acts_of w"
    using save_or_rollback_Inr [OF save] w1 by auto
  have w3: "acts_of w3 = acts_of w @ (if same_lan cfg then [] else [(SetupNAT (tun_nat cfg tun), None)])"
    and st3: "st3 = (if same_lan cfg then st2
        else journaled (mark_applied (\<lambda>a. a\<lparr>ap_nat := True\<rparr>) (st2\<lparr>st_nat_applied := True\<rparr>)))"
    using nat w2 by (auto simp: eret_Inr_iff dest: apply_nat_Inr split: if_splits)
  note r = apply_routing_Inr [OF routing]
  note tunin = recipe_in_with_tun [OF st(1)]
  have "acts_of w' = acts_of w @ succeeded (network_acts cfg tun)"
    using r(1) w3 by (simp add: network_acts_def succeeded_def)
  moreover have "network_recorded cfg tun st'"
    unfolding r(2) st3 w2 network_recorded_def using st(2) tunin by simp
  ultimately show "\<exists>tun. acts_of w' = acts_of w @ succeeded (network_acts cfg tun) \<and> network_recorded cfg tun st'
      \<and> (\<exists>w1. en_routing_present env w1 (tun_routing cfg tun) \<and> acts_of w1 = acts_of w')"
    using r(3) by blast
  show "st_pid_mihomo st' = st_pid_mihomo st \<and> st_mihomo_fingerprint st' = st_mihomo_fingerprint st
      \<and> st_pid_dnsmasq st' = st_pid_dnsmasq st \<and> st_dnsmasq_fingerprint st' = st_dnsmasq_fingerprint st
      \<and> st_forwarding_applied st' = st_forwarding_applied st \<and> st_dns_frontend st' = st_dns_frontend st
      \<and> st_boot_session_id st' = st_boot_session_id st"
    unfolding r(2) st3 w2 by simp
qed

lemma load_state_Inr: "load_state env w = (Inr x, w') \<Longrightarrow> x = w_state_file w"
  by (auto simp: load_state_def success_iff do_file_Inr_iff peek_def)

lemma check_start_none: "check_start env cfg0 b w = (Inr x, w') \<Longrightarrow> w_state_file w = None"
proof -
  assume "check_start env cfg0 b w = (Inr x, w')"
  then obtain u1 w1 u2 w2 found w3 u3 w4 where c: "do_check env ContextErr w = (Inr u1, w1)"
      and r: "need_root env ''start'' w1 = (Inr u2, w2)" and l: "load_state env w2 = (Inr found, w3)"
      and none: "eguard (found = None) (Msg ''gateway state already exists; run stop first'') w3 = (Inr u3, w4)"
    unfolding check_start_def by (elim ebind_InrE) (rule that)
  show ?thesis
    using quiet_runs(1) [OF c] r none load_state_Inr [OF l] by (simp add: need_root_def eguard_Inr_iff same_host_def)
qed

lemma bring_up_frontend_Inr:
  assumes "bring_up_frontend env st w = (Inr st', w')"
  shows "acts_of w' = acts_of w @ [(StartService SmartDNS, None)]" "w_state_file w' = Some st'"
    "st_lifecycle st' = ''running''" "journaled st' = st'"
    "0 < st_pid_smartdns st' \<longrightarrow> st_smartdns_fingerprint st' \<noteq> []"
    "network_recorded cfg tun st' = network_recorded cfg tun st"
    "st_pid_mihomo st' = st_pid_mihomo st" "st_mihomo_fingerprint st' = st_mihomo_fingerprint st"
    "st_pid_dnsmasq st' = st_pid_dnsmasq st" "st_dnsmasq_fingerprint st' = st_dnsmasq_fingerprint st"
    "st_forwarding_applied st' = st_forwarding_applied st" "st_dns_frontend st' = st_dns_frontend st"
    "st_boot_session_id st' = st_boot_session_id st"
  using assms
  by (auto simp: bring_up_frontend_def success_iff network_recorded_def
      dest!: bring_up_service_Inr save_or_rollback_Inr)

lemma bring_up_Inr:
  assumes run: "bring_up env cfg st w = (Inr st', w')"
    and st: "st_snapshot st \<noteq> None" "\<not> st_nat_applied st"
  shows "\<exists>tun. acts_of w' = acts_of w @ succeeded
        ([EnableForwarding, StartService Mihomo, StartService DNSMasq] @ network_acts cfg tun @ [StartService SmartDNS])
      \<and> w_state_file w' = Some st' \<and> st_lifecycle st' = ''running'' \<and> st_forwarding_applied st'
      \<and> network_recorded cfg tun st' \<and> identities_recorded st' \<and> st_boot_session_id st' = st_boot_session_id st
      \<and> st_dns_frontend st' = st_dns_frontend st
      \<and> (\<exists>w1. en_routing_present env w1 (tun_routing cfg tun)
               \<and> acts_of w' = acts_of w1 @ [(StartService SmartDNS, None)])"
proof -
  from run obtain st1 w1 st2 w2 st3 w3 where
      f: "bring_up_forwarding env st w = (Inr st1, w1)" and p: "bring_up_processes env st1 w1 = (Inr st2, w2)"
      and n: "bring_up_network env cfg st2 w2 = (Inr st3, w3)" and d: "bring_up_frontend env st3 w3 = (Inr st', w')"
    unfolding bring_up_def success_iff by blast
  note f = bring_up_forwarding_Inr [OF f]
  note p = bring_up_processes_Inr [OF p]
  have st2: "st_snapshot st2 \<noteq> None" "\<not> st_nat_applied st2"
    using f p st by auto
  note d = bring_up_frontend_Inr [OF d]
  from bring_up_network_Inr(1) [OF n st2] obtain tun w4 where
      a: "acts_of w3 = acts_of w2 @ succeeded (network_acts cfg tun)" and r: "network_recorded cfg tun st3"
      and v: "en_routing_present env w4 (tun_routing cfg tun)" "acts_of w4 = acts_of w3"
    by blast
  note k = bring_up_network_Inr(2) [OF n st2]
  have "acts_of w' = acts_of w @ succeeded
        ([EnableForwarding, StartService Mihomo, StartService DNSMasq] @ network_acts cfg tun @ [StartService SmartDNS])"
    using f(1) p(1) a d(1) by (simp add: succeeded_def)
  moreover have "identities_recorded st'"
    using p d k by (simp add: identities_recorded_def)
  ultimately show ?thesis
    using f p d r v k by (intro exI [of _ tun] conjI exI [of _ w4]) simp_all
qed


subsection \<open>A start that fails\<close>

fun cleanup_act :: "act \<Rightarrow> bool" where
  "cleanup_act (RestoreNetwork sn) = True"
| "cleanup_act (StopService s p) = True"
| "cleanup_act a = False"

text \<open>On the way up: only forward acts so far, and a state file.\<close>

definition going_up :: "(act \<times> gerr option) list \<Rightarrow> world \<Rightarrow> bool" where
  "going_up as w \<longleftrightarrow>
     (\<exists>up. acts_of w = as @ up \<and> list_all (\<lambda>(a, e). \<not> cleanup_act a) up) \<and> w_state_file w \<noteq> None"

text \<open>After a rollback: the cleanup was complete, or a state file is left.\<close>

definition rolled_back :: "(act \<times> gerr option) list \<Rightarrow> world \<Rightarrow> bool" where
  "rolled_back as w \<longleftrightarrow>
     (\<exists>up down. acts_of w = as @ up @ down \<and> list_all (\<lambda>(a, e). \<not> cleanup_act a) up
        \<and> list_all (\<lambda>(a, e). cleanup_act a) down
        \<and> (w_state_file w = None \<longrightarrow>
             list_all (\<lambda>(a, e). e = None) down \<and> (\<exists>sn. (RestoreNetwork sn, None) \<in> set down)))"

interpretation up: quiet_invariant "going_up as" for as
proof
  fix w c e assume "going_up as w" "quiet c"
  then show "going_up as (log_call c e w)"
    by (cases c) (auto simp: going_up_def quiet_def)
qed (simp_all add: going_up_def)

lemma keeps_up_act: "\<not> cleanup_act a \<Longrightarrow> keeps (going_up as) (do_call (Act a) err val)"
  by (rule keeps_do_call) (auto simp: going_up_def)

lemma keeps_up_save: "keeps (going_up as) (save_state env st)"
proof (rule keepsI)
  fix w assume w: "going_up as w"
  obtain r w' where s: "save_state env st w = (r, w')" by (cases "save_state env st w")
  have "keeps (\<lambda>v. w_state_file v \<noteq> None) (save_state env st)"
    unfolding save_state_def with_temp_def write_temp_def Let_def do_file_def
    by (intro keeps_intro keeps_do_call) (auto simp: keeps_def triple_def)
  then have "w_state_file w' \<noteq> None"
    using keepsD [of _ "save_state env st" w] w s by (auto simp: going_up_def)
  then show "going_up as (snd (save_state env st w))"
    using w s save_state_acts [OF s] by (simp add: going_up_def)
qed

text \<open>During a rollback: the cleanup acts so far, whether one of its steps failed, and whether the
  network was restored.\<close>

definition cleaning :: "(act \<times> gerr option) list \<Rightarrow> bool \<Rightarrow> bool \<Rightarrow> world \<Rightarrow> bool" where
  "cleaning as failed restored w \<longleftrightarrow>
     (\<exists>up down. acts_of w = as @ up @ down \<and> list_all (\<lambda>(a, e). \<not> cleanup_act a) up
        \<and> list_all (\<lambda>(a, e). cleanup_act a) down
        \<and> (\<not> failed \<longrightarrow> list_all (\<lambda>(a, e). e = None) down)
        \<and> (restored \<and> \<not> failed \<longrightarrow> (\<exists>sn. (RestoreNetwork sn, None) \<in> set down)))
     \<and> w_state_file w \<noteq> None"

interpretation cl: quiet_invariant "cleaning as f r" for as f r
proof
  fix w c e assume "cleaning as f r w" "quiet c"
  then show "cleaning as f r (log_call c e w)"
    by (cases c) (auto simp: cleaning_def quiet_def)
qed (simp_all add: cleaning_def)

lemma cleaning_failed: "cleaning as f r w \<Longrightarrow> cleaning as True r w"
  by (auto simp: cleaning_def)

lemma triple_cleaning_act:
  assumes "cleanup_act a"
  shows "triple (cleaning as f r) (do_act env a)
    (\<lambda>_. cleaning as f (r \<or> (\<exists>sn. a = RestoreNetwork sn))) (\<lambda>_. cleaning as True True)"
  unfolding do_act_def
proof (rule triple_do_call)
  fix w assume "cleaning as f r w"
  then obtain up down where a: "acts_of w = as @ up @ down" "list_all (\<lambda>(a, e). \<not> cleanup_act a) up"
      "list_all (\<lambda>(a, e). cleanup_act a) down" "\<not> f \<longrightarrow> list_all (\<lambda>(a, e). e = None) down"
      "r \<and> \<not> f \<longrightarrow> (\<exists>sn. (RestoreNetwork sn, None) \<in> set down)" and s: "w_state_file w \<noteq> None"
    by (auto simp: cleaning_def)
  then show "cleaning as f (r \<or> (\<exists>sn. a = RestoreNetwork sn)) (log_call (Act a) None w)"
    using assms unfolding cleaning_def
    by (intro conjI exI [of _ up] exI [of _ "down @ [(a, None)]"]) auto
  show "cleaning as True True (log_call (Act a) (Some e) w)" for e
    using a s assms unfolding cleaning_def
    by (intro conjI exI [of _ up] exI [of _ "down @ [(a, Some e)]"]) auto
qed

lemma cleaning_any_restored: "cleaning as True r w \<Longrightarrow> cleaning as True r' w"
  by (simp add: cleaning_def)

lemma triple_cleaning_eerr:
  assumes "triple (cleaning as f r) m (\<lambda>_. cleaning as f r') (\<lambda>_. cleaning as True r'')"
  shows "triple (cleaning as f r) (eerr m) (\<lambda>x. cleaning as (f \<or> x \<noteq> None) r') E"
  by (rule triple_eerr, rule triple_weaken [OF assms]) (auto intro: cleaning_any_restored)

lemma keeps_cleaning: "keeps (cleaning as f r) m \<Longrightarrow> triple (cleaning as f r) m (\<lambda>_. cleaning as f r) (\<lambda>_. cleaning as True r)"
  by (erule triple_keeps) (auto intro: cleaning_failed)

lemma triple_cleaning_save: "triple (cleaning as f r) (save_state env st) (\<lambda>_. cleaning as f r) (\<lambda>_. cleaning as True r)"
proof (rule keeps_cleaning, rule keepsI)
  fix w assume w: "cleaning as f r w"
  obtain x w' where s: "save_state env st w = (x, w')" by (cases "save_state env st w")
  have "keeps (\<lambda>v. w_state_file v \<noteq> None) (save_state env st)"
    unfolding save_state_def with_temp_def write_temp_def Let_def do_file_def
    by (intro keeps_intro keeps_do_call) (auto simp: keeps_def triple_def)
  then have "w_state_file w' \<noteq> None"
    using keepsD [of _ "save_state env st" w] w s by (auto simp: cleaning_def)
  then show "cleaning as f r (snd (save_state env st w))"
    using w s save_state_acts [OF s] by (simp add: cleaning_def)
qed

lemma triple_cleaning_stop:
  "triple (cleaning as f r) (stop_tracked_process env s p fp) (\<lambda>_. cleaning as f r) (\<lambda>_. cleaning as True r)"
proof -
  have act: "triple (cleaning as f r) (do_act env (StopService s p)) (\<lambda>_. cleaning as f r) (\<lambda>_. cleaning as True r)"
    by (rule triple_weaken [OF triple_cleaning_act]) (auto intro: cleaning_any_restored)
  have ask: "triple (cleaning as f r) (ecatch (process_matches env p fp) (\<lambda>e. efail (h e)))
      (\<lambda>_. cleaning as f r) (\<lambda>_. cleaning as True r)" for h
    unfolding process_matches_def by (intro keeps_cleaning keeps_intro cl.keeps_query) simp
  have alive: "triple (cleaning as f r) (ebind (ask (AskAlive p) (\<lambda>w. en_alive env w p)) (\<lambda>alive.
       if alive then efail e else eret ())) (\<lambda>_. cleaning as f r) (\<lambda>_. cleaning as True r)" for e
    by (intro keeps_cleaning keeps_intro cl.keeps_ask) simp
  show ?thesis
    unfolding stop_tracked_process_def
    by (intro triple_if act triple_bind [OF ask] alive triple_eret)
qed

lemma rolled_back_failed: "cleaning as f r w \<Longrightarrow> rolled_back as w"
  by (auto simp: cleaning_def rolled_back_def)

lemma triple_rolled_back:
  "triple (cleaning as False True) (ebind (eerr (remove_state env)) (\<lambda>e6.
     ebind (eerr (remove_policy_snapshot env)) (\<lambda>e7.
       case join_errors [e6, e7] of Some k \<Rightarrow> efail (RollbackFailed cause k) | None \<Rightarrow> efail cause)))
     Q (\<lambda>_. rolled_back as)"
proof -
  let ?done = "\<lambda>w. \<exists>up down. acts_of w = as @ up @ down \<and> list_all (\<lambda>(a, e). \<not> cleanup_act a) up
        \<and> list_all (\<lambda>(a, e). cleanup_act a) down \<and> list_all (\<lambda>(a, e). e = None) down
        \<and> (\<exists>sn. (RestoreNetwork sn, None) \<in> set down)"
  have "keeps ?done (do_file env k f)" if "\<And>w. acts_of (f w) = acts_of w" for k f
    unfolding do_file_def
    by (intro keeps_bind keeps_do_call) (auto simp: keeps_def triple_def that)
  then have files: "keeps ?done (eerr (remove_state env))" "keeps ?done (eerr (remove_policy_snapshot env))"
    unfolding remove_state_def remove_policy_snapshot_def by (intro keeps_intro; simp)+
  show ?thesis
    by (rule triple_bind_keeps [OF files(1)], fastforce simp: cleaning_def, fastforce simp: rolled_back_def,
        rule triple_bind_keeps [OF files(2)], assumption, fastforce simp: rolled_back_def,
        rule triple_option; rule triple_efail; fastforce simp: rolled_back_def)
qed

lemma triple_rollback_complete:
  assumes "st_snapshot st \<noteq> None"
  shows "triple (going_up as) (rollback env st cause) Q (\<lambda>_. rolled_back as)"
proof -
  obtain sn where sn: "st_snapshot (journaled (st\<lparr>st_lifecycle := ''cleanup''\<rparr>)) = Some sn"
    using assms by auto
  have start: "going_up as w \<Longrightarrow> cleaning as False False w" for w
    by (auto simp: going_up_def cleaning_def) (metis append_Nil2 list.pred_inject(1))
  have restore: "triple (cleaning as f False) (do_act env (RestoreNetwork sn))
      (\<lambda>_. cleaning as f True) (\<lambda>_. cleaning as True True)" for f
    by (rule triple_post [OF triple_cleaning_act]) simp_all
  show ?thesis
    unfolding rollback_def Let_def sn option.case
    apply (rule triple_bind [OF triple_pre [OF triple_cleaning_eerr [OF triple_cleaning_save] start]], assumption)
    apply (rule triple_bind [OF triple_cleaning_eerr [OF triple_cleaning_stop]])
    apply (rule triple_bind [OF triple_cleaning_eerr [OF restore]])
    apply (rule triple_bind [OF triple_cleaning_eerr [OF triple_cleaning_stop]])
    apply (rule triple_bind [OF triple_cleaning_eerr [OF triple_cleaning_stop]])
    apply (rule triple_option)
     apply (rule triple_pre [OF triple_rolled_back], simp)
    apply (rule triple_efail, erule rolled_back_failed)
    done
qed

text \<open>The way up: each step keeps \<open>going_up\<close>, its failure is rolled back.\<close>

lemma upward_rollback:
  assumes "keeps (going_up as) m"
  shows "triple (\<lambda>w. going_up as w \<and> st_snapshot st \<noteq> None) (or_rollback env st m)
    (\<lambda>_ w. going_up as w \<and> st_snapshot st \<noteq> None) (\<lambda>_. rolled_back as)"
  unfolding or_rollback_def
  by (rule triple_pure, rule triple_catch [OF triple_post [OF keeps_triple [OF assms]] triple_rollback_complete]) simp_all

lemma upward_save:
  "triple (\<lambda>w. going_up as w \<and> st_snapshot st \<noteq> None) (save_or_rollback env st)
    (\<lambda>st' w. going_up as w \<and> st_snapshot st' \<noteq> None) (\<lambda>_. rolled_back as)"
  unfolding save_or_rollback_def
  by (rule triple_bind [OF triple_pre [OF upward_rollback [OF keeps_up_save]]]) (auto intro: triple_eret)

lemma upward_service:
  assumes "\<And>p f. st_snapshot (set_fp f (set_pid p st)) = st_snapshot st" "\<And>p. st_snapshot (set_pid p st) = st_snapshot st"
  shows "triple (\<lambda>w. going_up as w \<and> st_snapshot st \<noteq> None) (bring_up_service env s set_pid set_fp st)
    (\<lambda>st' w. going_up as w \<and> st_snapshot st' \<noteq> None) (\<lambda>_. rolled_back as)"
  unfolding bring_up_service_def start_service_def
  by (rule triple_bind [OF upward_rollback [OF keeps_up_act]], simp,
      rule triple_bind [OF triple_pre [OF upward_rollback [OF up.keeps_record_identity]]], simp add: assms,
      rule triple_eret) (simp add: assms)

lemma upward_forwarding:
  "triple (\<lambda>w. going_up as w \<and> st_snapshot st \<noteq> None) (bring_up_forwarding env st)
    (\<lambda>st' w. going_up as w \<and> st_snapshot st' \<noteq> None) (\<lambda>_. rolled_back as)"
  unfolding bring_up_forwarding_def do_act_def
  by (rule triple_bind [OF upward_rollback [OF up.keeps_check]], simp,
      rule triple_bind [OF upward_rollback [OF keeps_up_act]], simp,
      rule triple_pre [OF upward_save]) (simp add: mark_applied_def on_snapshot_def)

lemma upward_processes:
  "triple (\<lambda>w. going_up as w \<and> st_snapshot st \<noteq> None) (bring_up_processes env st)
    (\<lambda>st' w. going_up as w \<and> st_snapshot st' \<noteq> None) (\<lambda>_. rolled_back as)"
  unfolding bring_up_processes_def
  by (rule triple_bind [OF upward_rollback [OF up.keeps_check]], simp,
      rule triple_bind [OF upward_service], simp, simp, rule triple_bind [OF upward_save],
      rule triple_bind [OF upward_service], simp, simp, rule upward_save)

lemma upward_network:
  "triple (\<lambda>w. going_up as w \<and> st_snapshot st \<noteq> None) (bring_up_network env cfg st)
    (\<lambda>st' w. going_up as w \<and> st_snapshot st' \<noteq> None) (\<lambda>_. rolled_back as)"
proof -
  have nat: "triple (\<lambda>w. going_up as w \<and> st_snapshot s \<noteq> None) (apply_nat env n s)
      (\<lambda>st' w. going_up as w \<and> st_snapshot st' \<noteq> None) (\<lambda>_. rolled_back as)" for n s
    unfolding apply_nat_def do_act_def
    by (rule triple_bind [OF upward_rollback [OF keeps_up_act]], simp, rule triple_pre [OF upward_save])
      (simp add: mark_applied_def on_snapshot_def)
  have routing: "triple (\<lambda>w. going_up as w \<and> st_snapshot s \<noteq> None) (apply_routing env r s)
      (\<lambda>st' w. going_up as w \<and> st_snapshot st' \<noteq> None) (\<lambda>_. rolled_back as)" for r s
    unfolding apply_routing_def do_act_def
    by (rule triple_bind [OF upward_rollback [OF keeps_up_act]], simp,
        rule triple_bind [OF upward_rollback [OF up.keeps_verify_routing]], rule triple_pre [OF upward_save])
      (simp add: mark_applied_def on_snapshot_def)
  show ?thesis
    unfolding bring_up_network_def
    by (rule triple_bind [OF upward_rollback [OF up.keeps_query]], simp,
        rule triple_bind [OF triple_pre [OF upward_save]], simp add: recipe_in_with_tun,
        rule triple_bind [OF triple_if routing], rule triple_eret, assumption, rule nat)
qed

lemma upward_bring_up:
  "triple (\<lambda>w. going_up as w \<and> st_snapshot st \<noteq> None) (bring_up env cfg st)
    (\<lambda>st' w. going_up as w \<and> st_snapshot st' \<noteq> None) (\<lambda>_. rolled_back as)"
  unfolding bring_up_def bring_up_frontend_def
  by (rule triple_bind [OF upward_forwarding], rule triple_bind [OF upward_processes],
      rule triple_bind [OF upward_network], rule triple_bind [OF upward_service], simp, simp,
      rule triple_pre [OF upward_save]) simp

lemma warm_never_fails: "warm_managed_tailscale env cfg w \<noteq> (Inl e, w')"
  by (auto simp: warm_managed_tailscale_def ewhen_def ebind_def eerr_def eret_def split: prod.splits sum.splits)

interpretation ac: call_invariant "\<lambda>w. acts_of w = as" "\<lambda>_. False" for as
proof
  fix w c e assume "acts_of w = as" "quiet c"
  then show "acts_of (log_call c e w) = as" by (cases c) (auto simp: quiet_def)
qed simp_all

lemma prepare_start_acts: "prepare_start env cfg c w = (r, w') \<Longrightarrow> acts_of w' = acts_of w"
  using keepsD [OF ac.keeps_prepare_start, of w "acts_of w" env cfg c] by simp


end
