(* ===== verification/GatewayRuns.thy ===== *)
theory GatewayRuns
  imports GatewayStart
begin

text \<open>
  A small gateway to run the definitions on: an environment in which only the changes to the host may
  fail, as the parameter says, an isolated LAN and a world with nothing on disk.
\<close>

definition small_cfg :: gw_config where
  "small_cfg =
     \<lparr>gc_mode = mode_isolated_lan, gc_interface = ''e0'', gc_lan_ip = ''10.0.0.1'', gc_lan_cidr = ''10.0.0.0/24'',
      gc_upstream_interface = ''e1'', gc_upstream_gateway = ''10.1.0.1'', gc_dhcp_enabled = True,
      gc_dns_ipv6 = False, gc_tun_device = ''utun'', gc_tun_enabled = True, gc_fw_mark = 1,
      gc_nft_table = ''opensurge'', gc_route_table_id = 100, gc_route_rule_priority = 90,
      gc_tun_ipv6 = ''off'', gc_tailscale_enabled = False, gc_runtime_dir = ''/r'', gc_bundle = None\<rparr>"

definition sample_env :: "(act \<Rightarrow> gerr option) \<Rightarrow> env" where
  "sample_env acting =
     \<lparr>en_euid = 0, en_check = (\<lambda>_ _. None), en_config = (\<lambda>_ _ cfg. cfg), en_act = (\<lambda>_. acting),
      en_pid = (\<lambda>_ s. case s of DNSMasq \<Rightarrow> 11 | Mihomo \<Rightarrow> 12 | SmartDNS \<Rightarrow> 13),
      en_query = (\<lambda>_ _. None), en_matches = (\<lambda>_ _ _. True), en_alive = (\<lambda>_ _. True),
      en_running = (\<lambda>_ _ _. True), en_fingerprint = (\<lambda>_ _. ''f''), en_routing_present = (\<lambda>_ _. True),
      en_tun_name = (\<lambda>_ t. t),
      en_snapshot = (\<lambda>_. (new_snapshot backend_linux_nftables (Some 0))
        \<lparr>sn_ipv4_forwarding := ''0'', sn_network_namespace := ''net:[1]''\<rparr>),
      en_boot = (\<lambda>_. \<lparr>bs_id = ''b'', bs_started_at = None, bs_network_namespace = ''net:[1]''\<rparr>),
      en_capabilities = (\<lambda>_. \<lparr>ca_missing_reported = True, ca_net_admin = True, ca_net_raw = True,
        ca_tun_device_node = True, ca_nftables = True, ca_nftables_json = True, ca_iproute2 = True,
        ca_ipv4_forward_sysctl = True, ca_ipv4_forward_ready = True\<rparr>),
      en_profile_digest = (\<lambda>_. ''d''), en_now = (\<lambda>_. 5), en_lock_exists = (\<lambda>_ _. True),
      en_runtime_config = (\<lambda>_. small_cfg), en_full_config = (\<lambda>_. small_cfg),
      en_candidate_dir = (\<lambda>_. ''/t''), en_forwarding = (\<lambda>_. True), en_nftables = (\<lambda>_. [''opensurge'']),
      en_mihomo_version = (\<lambda>_. ''v1''), en_mihomo_tun = (\<lambda>_. (True, ''utun'')), en_lease_count = (\<lambda>_. 0),
      en_file = (\<lambda>_ _. None)\<rparr>"

definition calm_env :: env where
  "calm_env = sample_env (\<lambda>_. None)"

definition empty_world :: world where
  "empty_world = \<lparr>w_log = [], w_state_file = None, w_desired_file = None, w_policy_file = None\<rparr>"

lemma empty_world_state: "w_state_file empty_world = None" "acts_of empty_world = []"
  by (simp_all add: empty_world_def acts_of_def acts_def map_filter_simps)

lemma sample_env_simps [simp]:
  "en_euid (sample_env acting) = 0" "en_boot (sample_env acting) w = \<lparr>bs_id = ''b'', bs_started_at = None, bs_network_namespace = ''net:[1]''\<rparr>"
  "ca_missing_reported (en_capabilities (sample_env acting) w)" "ca_net_admin (en_capabilities (sample_env acting) w)"
  "ca_net_raw (en_capabilities (sample_env acting) w)" "ca_tun_device_node (en_capabilities (sample_env acting) w)"
  "ca_nftables (en_capabilities (sample_env acting) w)" "ca_nftables_json (en_capabilities (sample_env acting) w)"
  "ca_iproute2 (en_capabilities (sample_env acting) w)" "ca_ipv4_forward_sysctl (en_capabilities (sample_env acting) w)"
  "ca_ipv4_forward_ready (en_capabilities (sample_env acting) w)"
  "en_profile_digest (sample_env acting) w = ''d''" "en_now (sample_env acting) w = 5" "en_matches (sample_env acting) w p fp" "en_alive (sample_env acting) w p"
  "en_running (sample_env acting) w s p" "en_fingerprint (sample_env acting) w p = ''f''" "en_routing_present (sample_env acting) w r"
  "en_tun_name (sample_env acting) w t = t"
  "en_snapshot (sample_env acting) w = (new_snapshot backend_linux_nftables (Some 0))
        \<lparr>sn_ipv4_forwarding := ''0'', sn_network_namespace := ''net:[1]''\<rparr>"
  "en_pid (sample_env acting) w DNSMasq = 11" "en_pid (sample_env acting) w Mihomo = 12" "en_pid (sample_env acting) w SmartDNS = 13"
  by (simp_all add: sample_env_def)

lemma small_cfg_simps [simp]:
  "gc_mode small_cfg = mode_isolated_lan" "trim_space (gc_interface small_cfg) = ''e0''"
  "trim_space (gc_upstream_interface small_cfg) = ''e1''" "gc_dhcp_enabled small_cfg" "gc_bundle small_cfg = None"
  "\<not> same_lan small_cfg" "\<not> gc_tailscale_enabled small_cfg" "gc_tun_device small_cfg = ''utun''"
  by (simp_all add: small_cfg_def same_lan_def mode_isolated_lan_def mode_same_lan_def mode_same_wifi_dhcp_def go_eval)

lemma run_call:
  "do_check (sample_env acting) c w = (Inr (), log_call (Check c) None w)"
  "do_config (sample_env acting) c cfg w = (Inr cfg, log_call (Check c) None w)"
  "do_act (sample_env acting) a w = (answer (acting a) (), log_call (Act a) (acting a) w)"
  "start_service (sample_env acting) s w =
     (answer (acting (StartService s)) (en_pid (sample_env acting) w s), log_call (Act (StartService s)) (acting (StartService s)) w)"
  "do_query (sample_env acting) q f w = (Inr (f w), log_call (Query q) None w)"
  "ask q f w = (Inr (f w), log_call (Query q) None w)"
  "do_file (sample_env acting) k change w = (Inr (), change (log_call (File k) None w))"
  "peek g w = (Inr (g w), w)"
  by (simp_all add: call_defs do_call_def do_file_def peek_def answer_def ebind_def sample_env_def)

lemma run_check_start:
  assumes "w_state_file w = None"
  shows "\<exists>w'. check_start (sample_env acting) small_cfg False w = (Inr (small_cfg, starting_state small_cfg
      \<lparr>bs_id = ''b'', bs_started_at = None, bs_network_namespace = ''net:[1]''\<rparr> ''d''
      ((new_snapshot backend_linux_nftables (Some 0))\<lparr>sn_ipv4_forwarding := ''0'', sn_network_namespace := ''net:[1]''\<rparr>) 5), w')"
  using assms
  by (simp add: check_start_def run_simps run_call load_state_def need_root_def prepare_config_def stop_prepared_engine_def
    current_boot_def preflight_def preflight_with_ownership_def check_reservation_conflicts_def write_and_validate_configs_def
    profile_digest_def cong: run_congs)

text \<open>Computations that succeed from every world.\<close>

definition succeeds :: "'a gw \<Rightarrow> bool" where
  "succeeds m \<longleftrightarrow> (\<forall>w. \<exists>x w'. m w = (Inr x, w'))"

named_theorems succeeds_intro \<open>rules for computations that succeed\<close>

lemma succeeds_bind [succeeds_intro]:
  assumes "succeeds m" "\<And>x. succeeds (f x)"
  shows "succeeds (ebind m f)"
  unfolding succeeds_def
proof
  fix w
  obtain x w1 where "m w = (Inr x, w1)" using assms(1) unfolding succeeds_def by blast
  moreover obtain y w2 where "f x w1 = (Inr y, w2)" using assms(2) unfolding succeeds_def by blast
  ultimately show "\<exists>y w'. ebind m f w = (Inr y, w')" by (simp add: ebind_def)
qed

lemma succeeds_catch [succeeds_intro]: "succeeds m \<Longrightarrow> succeeds (ecatch m h)"
  unfolding succeeds_def ecatch_Inr_iff by blast

lemma succeeds_basic [succeeds_intro]:
  "succeeds (eret x)" "succeeds (do_check calm_env c)" "succeeds (do_act calm_env a)"
  "succeeds (start_service calm_env s)" "succeeds (do_query calm_env q f)" "succeeds (do_file calm_env k g)"
  by (simp_all add: succeeds_def calm_env_def run_call run_simps answer_def)

lemma succeeds_or_rollback [succeeds_intro]: "succeeds m \<Longrightarrow> succeeds (or_rollback calm_env st m)"
  unfolding or_rollback_def by (rule succeeds_catch)

lemma succeeds_record_identity [succeeds_intro]: "succeeds (record_identity calm_env s p)"
  by (simp add: succeeds_def calm_env_def record_identity_def process_fingerprint_def run_simps run_call cong: run_congs)

lemma succeeds_verify [succeeds_intro]: "succeeds (verify_policy_routing calm_env r)"
  by (simp add: succeeds_def calm_env_def verify_policy_routing_def run_simps run_call cong: run_congs)

lemma succeeds_if [succeeds_intro]: "succeeds m \<Longrightarrow> succeeds n \<Longrightarrow> succeeds (if b then m else n)"
  by simp

lemma succeeds_save [succeeds_intro]: "succeeds (save_state calm_env st)"
  unfolding save_state_def with_temp_def write_temp_def Let_def by (intro succeeds_intro)

lemma succeeds_bring_up: "succeeds (bring_up calm_env cfg st)"
  unfolding bring_up_def bring_up_forwarding_def bring_up_processes_def bring_up_network_def bring_up_frontend_def
    bring_up_service_def apply_nat_def apply_routing_def save_or_rollback_def
  by (intro succeeds_intro)

lemma run_start: "\<exists>w'. start calm_env small_cfg empty_world = (Inr (), w')"
proof -
  obtain st w1 where "check_start calm_env small_cfg False empty_world = (Inr (small_cfg, st), w1)"
    using run_check_start [OF empty_world_state(1), of "\<lambda>_. None"] unfolding calm_env_def by blast
  moreover obtain w2 where "save_state calm_env st w1 = (Inr (), w2)"
    using succeeds_save unfolding succeeds_def by fastforce
  moreover obtain st' w3 where "bring_up calm_env small_cfg (journaled st) w2 = (Inr st', w3)"
    using succeeds_bring_up unfolding succeeds_def by fastforce
  ultimately show ?thesis
    by (simp add: start_def start_with_commit_def prepare_start_def warm_managed_tailscale_def ebind_def ecatch_def
      eret_def ewhen_def)
qed

lemma run_start_acts:
  assumes "start calm_env small_cfg empty_world = (Inr (), w')"
  shows "(EnableForwarding, None) \<in> set (acts_of w')"
proof -
  obtain cfg st w1 st' w2 where b: "bring_up calm_env cfg st w1 = (Inr st', w2)"
      and t: "warm_managed_tailscale calm_env cfg w2 = (Inr (), w')"
      and st: "st_snapshot st \<noteq> None" "\<not> st_nat_applied st"
    using assms unfolding start_def start_with_commit_def prepare_start_def success_iff
    by (auto simp: success_iff starting_state_def zero_state_def dest!: check_start_state)
  have "acts_of w' = acts_of w2" using quiet_runs(6) [OF t] by (simp add: same_host_def)
  then show ?thesis using bring_up_Inr [OF b st] by (auto simp: succeeded_def)
qed


theorem host_changes_written_ahead_witness:
  "\<exists>w ev st. session calm_env w \<and> ev \<in> set (w_log w) \<and> ev_call ev = Act EnableForwarding
      \<and> ev_durable ev = Some st \<and> recipe_covers EnableForwarding st"
proof -
  obtain w' where run: "start calm_env small_cfg empty_world = (Inr (), w')" using run_start by blast
  then have s: "session calm_env w'"
    using session_op [OF session_begin [of empty_world], of calm_env small_cfg OpStart]
    by (simp add: empty_world_def run_op_def)
  have "(EnableForwarding, None) \<in> set (acts_of w')"
    using run_start_acts [OF run] by (simp add: succeeded_def)
  then obtain ev where ev: "ev \<in> set (w_log w')" "ev_call ev = Act EnableForwarding"
    by (auto simp: acts_of_def acts_def map_filter_def split: call.splits)
  show ?thesis
    using host_changes_written_ahead [OF s ev] s ev by blast
qed

text \<open>A start whose first change to the host fails.\<close>

definition no_forwarding :: "act \<Rightarrow> gerr option" where
  "no_forwarding a = (if a = EnableForwarding then Some (Ext ''EPERM'') else None)"

lemma run_sample_save:
  "\<exists>w'. save_state (sample_env acting) st w = (Inr (), w') \<and> acts_of w' = acts_of w"
proof -
  have "\<exists>w'. save_state (sample_env acting) st w = (Inr (), w')"
    by (simp add: save_state_def with_temp_def write_temp_def Let_def run_simps run_call cong: run_congs)
  then show ?thesis using save_state_Inr by blast
qed

interpretation na: call_invariant "\<lambda>w. acts_of w \<noteq> []" "\<lambda>_. True"
  by unfold_locales simp_all

lemma run_failed_start:
  "\<exists>e w'. start (sample_env no_forwarding) small_cfg empty_world = (Inl e, w') \<and> acts_of w' \<noteq> []"
proof -
  let ?env = "sample_env no_forwarding" and ?err = "Ext ''EPERM''"
  obtain st w1 where c: "check_start ?env small_cfg False empty_world = (Inr (small_cfg, st), w1)"
    using run_check_start [OF empty_world_state(1)] by blast
  obtain w2 where s: "save_state ?env st w1 = (Inr (), w2)"
    using run_sample_save by blast
  let ?w = "log_call (Act EnableForwarding) (Some ?err) (log_call (Check ContextErr) None w2)"
  obtain r w' where r: "rollback ?env (journaled st) ?err ?w = (r :: gerr + unit, w')"
    by (cases "rollback ?env (journaled st) ?err ?w :: (gerr + unit) \<times> world")
  then obtain e where e: "r = Inl e" by (cases r) auto
  have "acts_of (snd (rollback ?env (journaled st) ?err ?w :: (gerr + unit) \<times> world)) \<noteq> []"
    by (rule keepsD [OF na.keeps_rollback]) simp_all
  then have "acts_of w' \<noteq> []" using r by simp
  moreover have "start ?env small_cfg empty_world = (Inl e, w')"
    using c s r e
    by (simp add: start_def start_with_commit_def prepare_start_def bring_up_def bring_up_forwarding_def
      or_rollback_def run_simps run_call answer_def no_forwarding_def cong: run_congs)
  ultimately show ?thesis by blast
qed


end
