(* ===== verification/GatewayLock.thy ===== *)
theory GatewayLock
  imports GatewayRuns
begin

text \<open>
  The lifecycle lock. Whether it is held is read off the log: a successful \<open>flock\<close> takes it, an unlock
  or a close gives it up. Everything that changes the host, the runtime state or the applied policy
  must happen while it is held.
\<close>

subsection \<open>Holding the lock\<close>

definition lock_after :: "bool \<Rightarrow> event \<Rightarrow> bool" where
  "lock_after h ev =
     (case ev_call ev of
        Query (AskFlock d) \<Rightarrow> h \<or> ev_error ev = None
      | Check LockUnlock \<Rightarrow> False
      | Check LockClose \<Rightarrow> False
      | _ \<Rightarrow> h)"

fun mutates :: "call \<Rightarrow> bool" where
  "mutates (Act a) = True"
| "mutates (File (RenameState st)) = True"
| "mutates (File RemoveStateFile) = True"
| "mutates (File (WritePolicySnapshot b)) = True"
| "mutates (File RemovePolicySnapshot) = True"
| "mutates c = False"

fun under_lock :: "bool \<Rightarrow> event list \<Rightarrow> bool" where
  "under_lock h [] = True"
| "under_lock h (ev # evs) = ((mutates (ev_call ev) \<longrightarrow> h) \<and> under_lock (lock_after h ev) evs)"

definition held :: "event list \<Rightarrow> bool" where
  "held evs = foldl lock_after False evs"

lemma under_lock_append: "under_lock h (xs @ ys) = (under_lock h xs \<and> under_lock (foldl lock_after h xs) ys)"
  by (induction xs arbitrary: h) auto

definition locked :: "world \<Rightarrow> bool" where
  "locked w \<longleftrightarrow> under_lock False (w_log w) \<and> held (w_log w)"

definition unlocked :: "world \<Rightarrow> bool" where
  "unlocked w \<longleftrightarrow> under_lock False (w_log w) \<and> \<not> held (w_log w)"

lemma lock_snoc:
  "held (evs @ [ev]) = lock_after (held evs) ev"
  "under_lock False (evs @ [ev]) = (under_lock False evs \<and> (mutates (ev_call ev) \<longrightarrow> held evs))"
  by (simp_all add: held_def under_lock_append)

lemma lock_after_quiet: "\<not> lock_call c \<Longrightarrow> lock_after h \<lparr>ev_call = c, ev_durable = d, ev_error = e\<rparr> = h"
  by (cases c rule: lock_call.cases) (auto simp: lock_after_def split: call.splits check.splits query.splits)

interpretation lk: call_invariant locked "\<lambda>_. True"
proof
  fix w c e assume "locked w" "quiet c"
  then show "locked (log_call c e w)"
    by (simp add: locked_def lock_snoc lock_after_quiet quiet_def)
next
  fix w a e assume "locked w"
  then show "locked (log_call (Act a) e w)"
    by (simp add: locked_def lock_snoc lock_after_def)
qed (simp_all add: locked_def)

subsection \<open>Taking and releasing it\<close>

lemma keeps_unlocked_call: "\<not> lock_call c \<Longrightarrow> \<not> mutates c \<Longrightarrow> keeps unlocked (do_call c err val)"
  by (rule keeps_do_call) (simp add: unlocked_def lock_snoc lock_after_quiet)

lemma triple_gives_up:
  assumes "c = LockUnlock \<or> c = LockClose" "\<And>w. P w \<Longrightarrow> under_lock False (w_log w)"
  shows "triple P (do_check env c) (\<lambda>_. unlocked) (\<lambda>_. unlocked)"
  unfolding do_check_def
  by (rule triple_do_call) (use assms in \<open>auto simp: unlocked_def lock_snoc lock_after_def\<close>)

lemma triple_close_lock:
  assumes "\<And>w. P w \<Longrightarrow> under_lock False (w_log w)"
  shows "triple P (close_lock env) (\<lambda>_. unlocked) E"
  unfolding close_lock_def
  by (rule triple_bind [OF triple_eerr [OF triple_gives_up [of LockClose]]]) (auto intro: triple_eret assms)

lemma triple_acquire: "triple unlocked (acquire_lifecycle_lock env dir) (\<lambda>_. locked) (\<lambda>_. unlocked)"
proof -
  have step: "triple unlocked (ecatch (do_check env c) (\<lambda>e. efail (h e))) (\<lambda>_. unlocked) (\<lambda>_. unlocked)"
    if "c = LockMkdir dir \<or> c = LockOpen dir" for c h
    by (rule keeps_triple, intro keeps_intro, unfold do_check_def, rule keeps_unlocked_call) (use that in auto)
  have fail: "triple unlocked (ebind (close_lock env) (\<lambda>_. efail e)) Q (\<lambda>_. unlocked)" for e Q
    by (rule triple_bind [OF triple_close_lock]) (auto simp: unlocked_def intro: triple_efail)
  have stat: "triple unlocked (ecatch (do_check env LockStat) (\<lambda>e. ebind (close_lock env) (\<lambda>_. efail e)))
      (\<lambda>_. unlocked) (\<lambda>_. unlocked)"
    by (rule triple_catch [OF keeps_triple fail], unfold do_check_def, rule keeps_unlocked_call) auto
  have flock: "triple unlocked (do_query env (AskFlock dir) (\<lambda>_. ())) (\<lambda>_. locked) (\<lambda>_. unlocked)"
    unfolding do_query_def
    by (rule triple_do_call) (auto simp: locked_def unlocked_def lock_snoc lock_after_def)
  show ?thesis
    unfolding acquire_lifecycle_lock_def
    by (rule triple_bind [OF step], simp, rule triple_bind [OF step], simp, rule triple_bind [OF stat],
        rule triple_catch [OF flock fail])
qed

lemma triple_release: "triple locked (release_lifecycle_lock env) (\<lambda>_. unlocked) (\<lambda>_. unlocked)"
  unfolding release_lifecycle_lock_def
  by (rule triple_bind [OF triple_eerr [OF triple_gives_up]], simp, simp add: locked_def,
      rule triple_bind [OF triple_eerr [OF triple_gives_up]], simp, simp add: unlocked_def, rule triple_eopt)

lemma triple_with_lock:
  assumes "keeps locked run"
  shows "triple unlocked (with_lifecycle_lock env dir run) (\<lambda>_. unlocked) (\<lambda>_. unlocked)"
  unfolding with_lifecycle_lock_def
  by (rule triple_bind [OF triple_acquire], rule triple_bind [OF triple_eerr [OF keeps_triple [OF assms]]],
      rule triple_bind [OF triple_eerr [OF triple_release]], rule triple_eopt)

lemma keeps_run_config:
  assumes "keeps locked load" "\<And>cfg. keeps locked (run cfg)"
  shows "keeps unlocked (run_config_lifecycle env load run)"
  unfolding run_config_lifecycle_def
proof (rule keeps_bind)
  show "keeps unlocked (do_query env LoadRuntimeConfig (en_runtime_config env))"
    unfolding do_query_def by (rule keeps_unlocked_call) simp_all
  show "keeps unlocked (with_lifecycle_lock env (gc_runtime_dir lock_config) (ebind load (\<lambda>desired.
      ebind (eguard (clean_path (gc_runtime_dir desired) = clean_path (gc_runtime_dir lock_config)) e) (\<lambda>_. run desired))))"
    for lock_config e
    unfolding keeps_def by (rule triple_with_lock) (intro keeps_intro assms)
qed

lemma keeps_load_locked:
  "keeps locked (load_full_config env)" "keeps locked (load_runtime_config env)"
  unfolding load_full_config_def load_runtime_config_def by (intro lk.keeps_query; simp)+

lemma triple_fetch: "keeps I m \<Longrightarrow> triple I (fetch m) (\<lambda>_. I) E"
  by (auto simp: triple_def fetch_def split: prod.splits dest: keepsD)

lemma keeps_unlocked_recover: "keeps unlocked (recover_after_container_restart env cfg)"
proof -
  have "keeps unlocked (need_root env what)" for what by (rule keeps_need_root)
  moreover have "keeps unlocked (do_check env EnsureDirs)"
    unfolding do_check_def by (rule keeps_unlocked_call) simp_all
  moreover have "triple unlocked (ebind (acquire_lifecycle_lock env (gc_runtime_dir cfg)) (\<lambda>_.
     ebind (fetch (recover_locked env cfg)) (\<lambda>r.
     ebind (eerr (release_lifecycle_lock env)) (\<lambda>e2.
     ebind (eopt (f r e2)) (\<lambda>_. eret (g r)))))) (\<lambda>_. unlocked) (\<lambda>_. unlocked)"
    for f :: "gerr + bool \<Rightarrow> gerr option \<Rightarrow> gerr option" and g :: "gerr + bool \<Rightarrow> bool"
    by (rule triple_bind [OF triple_acquire],
        rule triple_bind [OF triple_fetch [OF lk.keeps_recover_locked]], simp,
        rule triple_bind [OF triple_eerr [OF triple_release]], rule keeps_triple, intro keeps_intro)
  ultimately have *: "keeps unlocked (need_root env what)" "keeps unlocked (do_check env EnsureDirs)"
      "triple unlocked (ebind (acquire_lifecycle_lock env (gc_runtime_dir cfg)) (\<lambda>_.
     ebind (fetch (recover_locked env cfg)) (\<lambda>r.
     ebind (eerr (release_lifecycle_lock env)) (\<lambda>e2.
     ebind (eopt (f r e2)) (\<lambda>_. eret (g r)))))) (\<lambda>_. unlocked) (\<lambda>_. unlocked)"
    for what and f :: "gerr + bool \<Rightarrow> gerr option \<Rightarrow> gerr option" and g :: "gerr + bool \<Rightarrow> bool"
    by blast+
  show ?thesis
    unfolding recover_after_container_restart_def keeps_def
    by (rule triple_bind [OF keeps_triple [OF *(1)]], rule triple_bind [OF keeps_triple [OF *(2)]], rule *(3))
qed

subsection \<open>The operations hold the lock\<close>

lemma keeps_unlocked_config:
  assumes "op \<in> {start_config env, reload_config env, restart_mihomo_config env, restart_dnsmasq_config env, stop_config env}"
  shows "keeps unlocked op"
proof -
  have "keeps unlocked (start_config env)" "keeps unlocked (reload_config env)"
    "keeps unlocked (restart_mihomo_config env)" "keeps unlocked (restart_dnsmasq_config env)"
    "keeps unlocked (stop_config env)"
    unfolding start_config_def reload_config_def restart_mihomo_config_def restart_dnsmasq_config_def stop_config_def
    by (intro keeps_run_config keeps_load_locked lk.keeps_start lk.keeps_reload lk.keeps_restart_mihomo
        lk.keeps_restart_dnsmasq lk.keeps_stop_gateway; simp)+
  then show ?thesis using assms by auto
qed

text \<open>C33: Every configuration-driven operation (start, reload, restart of mihomo or dnsmasq, stop) and the
  recovery after a container restart changes the host, the runtime state and the applied policy only
  while it holds the lifecycle lock, and has given the lock up when it returns, whether it succeeds or
  fails and whatever its calls answer.\<close>

theorem operations_hold_the_lock:
  assumes "under_lock False (w_log w)" and "\<not> held (w_log w)"
    and "op \<in> {start_config env, reload_config env, restart_mihomo_config env, restart_dnsmasq_config env, stop_config env}"
  shows "under_lock False (w_log (snd (op w))) \<and> \<not> held (w_log (snd (op w)))
    \<and> under_lock False (w_log (snd (recover_after_container_restart env cfg w)))
    \<and> \<not> held (w_log (snd (recover_after_container_restart env cfg w)))"
  using keepsD [OF keeps_unlocked_config [OF assms(3)], of w] keepsD [OF keeps_unlocked_recover, of w env cfg] assms(1,2)
  by (simp add: unlocked_def)

theorem operations_hold_the_lock_witness:
  "under_lock False (w_log (snd (start_config calm_env empty_world)))
    \<and> \<not> held (w_log (snd (start_config calm_env empty_world)))"
  using operations_hold_the_lock [of empty_world "start_config calm_env" calm_env small_cfg]
  by (simp add: empty_world_def held_def)

text \<open>When another process holds the lifecycle lock, an operation never runs its body: nothing of the
  host, the runtime state or the applied policy changes, and the operation fails.\<close>

theorem busy_lock_blocks_operations:
  assumes "\<And>v d. en_query env v (AskFlock d) = Some WouldBlock"
    and "with_lifecycle_lock env dir run w = (r, w')"
  shows "r \<noteq> Inr () \<and> acts_of w' = acts_of w \<and> w_state_file w' = w_state_file w \<and> w_policy_file w' = w_policy_file w"
proof -
  let ?I = "\<lambda>v. acts_of v = acts_of w \<and> w_state_file v = w_state_file w \<and> w_policy_file v = w_policy_file w"
  have check: "keeps ?I (do_check env c)" for c
    unfolding do_check_def by (rule keeps_do_call) simp
  have close: "triple ?I (ebind (close_lock env) (\<lambda>_. efail e)) (\<lambda>_ _. False) (\<lambda>_. ?I)" for e
    unfolding close_lock_def
    by (rule triple_bind [OF keeps_triple], intro keeps_intro check, rule triple_efail)
  have flock: "triple ?I (do_query env (AskFlock dir) (\<lambda>_. ())) (\<lambda>_ _. False) (\<lambda>_. ?I)"
    unfolding do_query_def by (rule triple_do_call) (simp_all add: assms(1))
  have stat: "triple ?I (ecatch (do_check env LockStat) (\<lambda>e. ebind (close_lock env) (\<lambda>_. efail e))) (\<lambda>_. ?I) (\<lambda>_. ?I)"
    by (rule triple_catch [OF keeps_triple [OF check]], rule triple_post [OF close]) simp
  have "triple ?I (acquire_lifecycle_lock env dir) (\<lambda>_ _. False) (\<lambda>_. ?I)"
    unfolding acquire_lifecycle_lock_def
    by (rule triple_bind [OF keeps_triple], intro keeps_intro check,
        rule triple_bind [OF keeps_triple], intro keeps_intro check,
        rule triple_bind [OF stat], rule triple_catch [OF flock close])
  then have t: "triple ?I (with_lifecycle_lock env dir run) (\<lambda>_ _. False) (\<lambda>_. ?I)"
    unfolding with_lifecycle_lock_def by (rule triple_bind) (simp add: triple_def)
  have I: "?I w" by (intro conjI refl)
  show ?thesis
  proof (cases r)
    case (Inl e)
    then show ?thesis using tripleD(2) [OF t I, of e w'] assms(2) by blast
  next
    case (Inr u)
    then show ?thesis using tripleD(1) [OF t I, of u w'] assms(2) by blast
  qed
qed

definition busy_env :: env where
  "busy_env = calm_env\<lparr>en_query := (\<lambda>_ q. case q of AskFlock d \<Rightarrow> Some WouldBlock | _ \<Rightarrow> None)\<rparr>"

theorem busy_lock_blocks_operations_witness:
  "fst (with_lifecycle_lock busy_env ''/r'' (start busy_env small_cfg) empty_world) \<noteq> Inr ()
    \<and> acts_of (snd (with_lifecycle_lock busy_env ''/r'' (start busy_env small_cfg) empty_world)) = []"
proof -
  have q: "en_query busy_env v (AskFlock d) = Some WouldBlock" for v d
    by (simp add: busy_env_def)
  obtain r w' where run: "with_lifecycle_lock busy_env ''/r'' (start busy_env small_cfg) empty_world = (r, w')"
    by (rule prod.exhaust)
  have "r \<noteq> Inr ()" "acts_of w' = []"
    using busy_lock_blocks_operations [OF q run] empty_world_state(2) by auto
  then show ?thesis
    unfolding run fst_conv snd_conv by blast
qed

end
