(* ===== verification/GatewayStop.thy ===== *)
theory GatewayStop
  imports GatewayRuns "HOL-Library.Sublist"
begin

text \<open>
  Stopping, and what is left to an interrupted runtime: which changes to the host a stop makes and in
  which order, when the state file goes, and that a runtime of an earlier boot or namespace is
  reconciled without touching a process.
\<close>

subsection \<open>The teardown\<close>

definition teardown_acts :: "runtime_state \<Rightarrow> act list" where
  "teardown_acts st =
     [StopService SmartDNS (st_pid_smartdns st)]
     @ (case st_snapshot st of None \<Rightarrow> [] | Some sn \<Rightarrow> [RestoreNetwork sn])
     @ [StopService DNSMasq (st_pid_dnsmasq st)] @ [StopService Mihomo (st_pid_mihomo st)]"

abbreviation all_ok :: "(act \<times> gerr option) list \<Rightarrow> bool" where
  "all_ok as \<equiv> list_all (\<lambda>(a, e). e = None) as"

text \<open>A step that makes at most the given act: what it adds to the log and how its error shows.\<close>

definition at_most :: "act \<Rightarrow> world \<Rightarrow> bool \<Rightarrow> world \<Rightarrow> bool" where
  "at_most a w ok w' \<longleftrightarrow>
     w_state_file w' = w_state_file w \<and> w_policy_file w' = w_policy_file w
     \<and> (\<exists>new. acts_of w' = acts_of w @ new \<and> (new = [] \<or> (\<exists>e. new = [(a, e)])) \<and> (ok \<longrightarrow> all_ok new))"

lemma do_act_run:
  "do_act env a w = (r, w') \<Longrightarrow>
     w_state_file w' = w_state_file w \<and> w_policy_file w' = w_policy_file w
     \<and> acts_of w' = acts_of w @ [(a, en_act env w a)] \<and> (r = Inr () \<longleftrightarrow> en_act env w a = None)"
  by (auto simp: do_act_def do_call_def answer_def split: option.splits)

lemma stop_tracked_run:
  assumes "stop_tracked_process env s p fp w = (r, w')"
  shows "at_most (StopService s p) w (r = Inr ()) w'"
proof -
  have quiet: "at_most a w ok w" for a ok and w :: world by (simp add: at_most_def)
  have asked: "at_most a w ok w'" if "w' = log_call (Query q) e w" for a ok q e and w w' :: world
    using that by (simp add: at_most_def)
  have acted: "at_most a w (r = Inr ()) w'" if "do_act env a w1 = (r, w')" "w1 = w \<or> w1 = log_call (Query q) e w"
    for a q e w w1 w' r
    using do_act_run [OF that(1)] that(2) by (auto simp: at_most_def)
  show ?thesis
    using assms
    by (auto simp: stop_tracked_process_def process_matches_def ask_def do_query_def do_call_def answer_def
        run_ebind run_ecatch run_basic acted quiet at_most_def
        split: if_splits option.splits dest!: do_act_run)
qed

lemma eerr_run: "eerr m w = (Inr x, w') \<longleftrightarrow> (\<exists>r. m w = (r, w') \<and> x = (case r of Inl e \<Rightarrow> Some e | Inr _ \<Rightarrow> None))"
  by (auto simp: eerr_def split: prod.splits sum.splits)

lemma at_most_eerr:
  assumes "eerr m w = (Inr x, w')" "\<And>r. m w = (r, w') \<Longrightarrow> at_most a w (r = Inr ()) w'"
  shows "at_most a w (x = None) w'"
proof -
  obtain r where r: "m w = (r, w')" "x = (case r of Inl e \<Rightarrow> Some e | Inr _ \<Rightarrow> None)"
    using assms(1) by (auto simp: eerr_run)
  then have "(x = None) = (r = Inr ())" by (cases r) auto
  then show ?thesis using assms(2) [OF r(1)] by simp
qed

lemma stop_tracked_eerr_run:
  "eerr (stop_tracked_process env s p fp) w = (Inr x, w') \<Longrightarrow> at_most (StopService s p) w (x = None) w'"
  by (rule at_most_eerr, assumption, rule stop_tracked_run)

lemma subseq_option: "new = [] \<or> (\<exists>e. new = [(a, e)]) \<Longrightarrow> subseq (map fst new) [a]"
  by auto

lemma teardown_steps_run:
  assumes "teardown_steps env st w = (r, w')"
  shows "\<exists>new. acts_of w' = acts_of w @ new \<and> w_state_file w' = w_state_file w \<and> w_policy_file w' = w_policy_file w
    \<and> subseq (map fst new) (teardown_acts st)
    \<and> (r = Inr () \<longrightarrow> all_ok new \<and> (\<forall>sn. st_snapshot st = Some sn \<longrightarrow> (RestoreNetwork sn, None) \<in> set new))"
proof -
  from assms obtain e1 w1 e2 w2 e3 w3 e4 w4 where
      1: "eerr (stop_tracked_process env SmartDNS (st_pid_smartdns st) (st_smartdns_fingerprint st)) w = (Inr e1, w1)"
      and 2: "(case st_snapshot st of None \<Rightarrow> eret None | Some sn \<Rightarrow> eerr (do_act env (RestoreNetwork sn))) w1 = (Inr e2, w2)"
      and 3: "eerr (stop_tracked_process env DNSMasq (st_pid_dnsmasq st) (st_dnsmasq_fingerprint st)) w2 = (Inr e3, w3)"
      and 4: "eerr (stop_tracked_process env Mihomo (st_pid_mihomo st) (st_mihomo_fingerprint st)) w3 = (Inr e4, w4)"
      and final: "eopt (join_errors [e1, e2, e3, e4]) w4 = (r, w')"
    unfolding teardown_steps_def
    by (elim ebind_cases) (auto simp: eret_def split: option.splits)
  have w': "w' = w4" and ok: "r = Inr () \<longleftrightarrow> e1 = None \<and> e2 = None \<and> e3 = None \<and> e4 = None"
    using final by (auto simp: eopt_def eret_def efail_def join_errors_def split: option.splits)
  note s1 = stop_tracked_eerr_run [OF 1] and s3 = stop_tracked_eerr_run [OF 3] and s4 = stop_tracked_eerr_run [OF 4]
  have s2: "w_state_file w2 = w_state_file w1 \<and> w_policy_file w2 = w_policy_file w1 \<and>
      (\<exists>new. acts_of w2 = acts_of w1 @ new
        \<and> map fst new = (case st_snapshot st of None \<Rightarrow> [] | Some sn \<Rightarrow> [RestoreNetwork sn])
        \<and> (e2 = None \<longrightarrow> all_ok new))"
  proof (cases "st_snapshot st")
    case None
    then show ?thesis using 2 by (auto simp: eret_def)
  next
    case (Some sn)
    with 2 obtain r2 where r2: "do_act env (RestoreNetwork sn) w1 = (r2, w2)" "e2 = (case r2 of Inl e \<Rightarrow> Some e | Inr _ \<Rightarrow> None)"
      by (auto simp: eerr_run)
    then have "e2 = None \<longleftrightarrow> r2 = Inr ()" by (cases r2) auto
    with do_act_run [OF r2(1)] Some show ?thesis by auto
  qed
  obtain n1 n2 n3 n4 where
      n1: "acts_of w1 = acts_of w @ n1" "n1 = [] \<or> (\<exists>e. n1 = [(StopService SmartDNS (st_pid_smartdns st), e)])" "e1 = None \<longrightarrow> all_ok n1"
      and n2: "acts_of w2 = acts_of w1 @ n2" "map fst n2 = (case st_snapshot st of None \<Rightarrow> [] | Some sn \<Rightarrow> [RestoreNetwork sn])"
        "e2 = None \<longrightarrow> all_ok n2"
      and n3: "acts_of w3 = acts_of w2 @ n3" "n3 = [] \<or> (\<exists>e. n3 = [(StopService DNSMasq (st_pid_dnsmasq st), e)])" "e3 = None \<longrightarrow> all_ok n3"
      and n4: "acts_of w4 = acts_of w3 @ n4" "n4 = [] \<or> (\<exists>e. n4 = [(StopService Mihomo (st_pid_mihomo st), e)])" "e4 = None \<longrightarrow> all_ok n4"
    using s1 s2 s3 s4 unfolding at_most_def by blast
  have files: "w_state_file w' = w_state_file w" "w_policy_file w' = w_policy_file w"
    using s1 s2 s3 s4 unfolding at_most_def w' by simp_all
  have "subseq (map fst n1 @ map fst n2 @ map fst n3 @ map fst n4) (teardown_acts st)"
    unfolding teardown_acts_def n2(2)
    by (intro list_emb_append_mono subseq_option n1(2) n3(2) n4(2) subseq_order.refl)
  moreover have "r = Inr () \<Longrightarrow> st_snapshot st = Some sn \<Longrightarrow> (RestoreNetwork sn, None) \<in> set n2" for sn
    using n2(2,3) ok by (cases n2) auto
  ultimately show ?thesis
    using n1 n2(1,3) n3 n4 ok files unfolding w'
    by (intro exI [of _ "n1 @ n2 @ n3 @ n4"]) auto
qed

lemma save_state_kept: "save_state env st w = (r, w') \<Longrightarrow> some_state (w_state_file w) \<Longrightarrow> some_state (w_state_file w')"
proof -
  have "keeps (\<lambda>v. some_state (w_state_file v)) (save_state env st)"
    unfolding save_state_def with_temp_def write_temp_def Let_def do_file_def
    by (intro keeps_intro keeps_do_call) (auto simp: keeps_def triple_def some_state_def)
  then show "save_state env st w = (r, w') \<Longrightarrow> some_state (w_state_file w) \<Longrightarrow> some_state (w_state_file w')"
    by (auto dest: keepsD)
qed

definition torn_down :: "runtime_state \<Rightarrow> (act \<times> gerr option) list \<Rightarrow> bool" where
  "torn_down st new \<longleftrightarrow>
     all_ok new \<and> (\<forall>sn. st_snapshot st = Some sn \<longrightarrow> (RestoreNetwork (journal_snapshot sn), None) \<in> set new)"

lemma teardown_run:
  assumes "teardown env st w = (r, w')" "some_state (w_state_file w)"
  shows "\<exists>new. acts_of w' = acts_of w @ new \<and> some_state (w_state_file w')
    \<and> subseq (map fst new) (teardown_acts (journaled st)) \<and> (r = Inr () \<longrightarrow> torn_down st new)"
proof -
  let ?st = "journaled (st\<lparr>st_lifecycle := ''stopping''\<rparr>)"
  have acts: "teardown_acts ?st = teardown_acts (journaled st)"
    by (simp add: teardown_acts_def journaled_def)
  from assms(1) consider (refused) e where "r = Inl e" "w' = w"
    | (saved) e w1 where "save_state env ?st w = (Inl e, w1)" "r \<noteq> Inr ()" "w' = w1"
    | (steps) w1 where "save_state env ?st w = (Inr (), w1)" "teardown_steps env ?st w1 = (r, w')"
    unfolding teardown_def Let_def
    by (elim ebind_cases) (auto simp: eguard_def eret_def efail_def ecatch_def split: if_splits prod.splits sum.splits)
  then show ?thesis
  proof cases
    case refused
    then show ?thesis using assms(2) by (intro exI [of _ "[]"]) simp
  next
    case saved
    then show ?thesis
      using save_state_acts [OF saved(1)] save_state_kept [OF saved(1) assms(2)]
      by (intro exI [of _ "[]"]) simp
  next
    case steps
    show ?thesis
      using teardown_steps_run [OF steps(2)] save_state_acts [OF steps(1)] save_state_kept [OF steps(1) assms(2)]
      unfolding acts torn_down_def by (auto simp: journaled_def)
  qed
qed

lemma remove_state_Inr: "remove_state env w = (Inr u, w') \<Longrightarrow> w_state_file w' = None"
  by (cases "w_state_file w = None") (auto simp: remove_state_def peek_def ebind_def success_iff do_file_Inr_iff ewhen_def eret_Inr_iff
      do_file_def do_call_def answer_def split: option.splits prod.splits sum.splits if_splits)

lemma clear_runtime_run:
  assumes "clear_runtime env w = (r, w')"
  shows "acts_of w' = acts_of w \<and> (r = Inr () \<longrightarrow> w_state_file w' = None \<and> w_policy_file w' = None)"
proof -
  have "keeps (\<lambda>v. acts_of v = acts_of w) (clear_runtime env)" by (rule ac.keeps_clear_runtime)
  then have "acts_of w' = acts_of w" using assms by (auto dest: keepsD)
  moreover have "w_state_file w' = None \<and> w_policy_file w' = None" if "r = Inr ()"
    using assms that
    by (auto simp: clear_runtime_def remove_policy_snapshot_def success_iff do_file_Inr_iff eerr_run
        dest: remove_state_Inr split: sum.splits)
  ultimately show ?thesis by simp
qed

text \<open>The way to the point where an operation decides what to do: nothing is done to the host, the
  state file is as it was.\<close>

lemma triple_quiet_bind:
  assumes "keeps I m" "\<And>e v. I v \<Longrightarrow> E e v" "\<And>x. triple I (f x) Q E"
  shows "triple I (ebind m f) Q E"
proof (rule triple_bind)
  show "triple I m (\<lambda>_. I) E"
    by (rule triple_weaken [OF keeps_triple [OF assms(1)]]) (simp_all add: assms(2))
qed (rule assms(3))

lemma triple_load_bind:
  assumes "\<And>e v. same_host w v \<Longrightarrow> E e v" "triple (same_host w) (f (w_state_file w)) Q E"
  shows "triple (same_host w) (ebind (load_state env) f) Q E"
proof (rule triple_bind)
  have "triple (same_host w) (load_state env) (\<lambda>x v. x = w_state_file v) (\<lambda>_ _. True)"
    using load_state_Inr [of env] quiet_runs(8) [of env]
    unfolding triple_def same_host_def by (fastforce split: prod.splits sum.splits)
  from triple_conj [OF keeps_triple [OF sh.keeps_load_state] this]
  show "triple (same_host w) (load_state env) (\<lambda>x v. same_host w v \<and> x = w_state_file w) E"
    by (rule triple_weaken) (auto simp: same_host_def intro: assms(1))
  show "triple (\<lambda>v. same_host w v \<and> x = w_state_file w) (f x) Q E" for x
    by (rule triple_pure) (simp add: assms(2))
qed

lemma triple_boot_bind:
  assumes "\<And>v. p (en_boot env v)" "\<And>e v. same_host w v \<Longrightarrow> E e v" "\<And>b. p b \<Longrightarrow> triple (same_host w) (f b) Q E"
  shows "triple (same_host w) (ebind (current_boot env) f) Q E"
proof (rule triple_bind)
  have "triple (same_host w) (current_boot env) (\<lambda>b _. p b) (\<lambda>_ _. True)"
    by (auto simp: current_boot_def do_query_def do_call_def answer_def triple_def assms(1) run_simps
        split: option.splits prod.splits sum.splits)
  from triple_conj [OF keeps_triple [OF sh.keeps_current_boot] this]
  show "triple (same_host w) (current_boot env) (\<lambda>b v. same_host w v \<and> p b) E"
    by (rule triple_weaken) (auto intro: assms(2))
  show "triple (\<lambda>v. same_host w v \<and> p x) (f x) Q E" for x
    by (rule triple_pure) (rule assms(3))
qed

lemma triple_failsD: "triple P m (\<lambda>_ _. False) (\<lambda>_. Q) \<Longrightarrow> P v \<Longrightarrow> fst (m v) \<noteq> Inr x \<and> Q (snd (m v))"
  using tripleD(1) [of P m "\<lambda>_ _. False" "\<lambda>_. Q" v] tripleD(2) [of P m "\<lambda>_ _. False" "\<lambda>_. Q" v]
  by (cases "m v"; cases "fst (m v)") fastforce+

definition stop_made :: "runtime_state \<Rightarrow> world \<Rightarrow> gerr + unit \<Rightarrow> world \<Rightarrow> bool" where
  "stop_made st w r v \<longleftrightarrow>
     (\<exists>new. acts_of v = acts_of w @ new \<and> subseq (map fst new) (teardown_acts (journaled st))
       \<and> (r = Inr () \<longrightarrow> w_state_file v = None \<and> w_policy_file v = None)
       \<and> (w_state_file v = None \<longrightarrow> torn_down st new))"

lemma triple_result: "(\<And>v r v'. P v \<Longrightarrow> m v = (r, v') \<Longrightarrow> G r v') \<Longrightarrow> triple P m (\<lambda>x. G (Inr x)) (\<lambda>e. G (Inl e))"
  by (auto simp: triple_def split: prod.splits sum.splits)

lemma triple_resultD: "triple P m (\<lambda>x. G (Inr x)) (\<lambda>e. G (Inl e)) \<Longrightarrow> P v \<Longrightarrow> m v = (r, v') \<Longrightarrow> G r v'"
  by (cases r) (auto simp: triple_def split: prod.splits sum.splits)

lemma teardown_clear_run:
  assumes "ebind (teardown env st) (\<lambda>_. clear_runtime env) v = (r, v')" "same_host w v" "some_state (w_state_file w)"
  shows "stop_made st w r v'"
proof -
  have present: "some_state (w_state_file v)" and same: "acts_of v = acts_of w"
    using assms(2,3) by (simp_all add: same_host_def)
  from assms(1) show ?thesis
  proof (elim ebind_cases)
    fix e assume t: "teardown env st v = (Inl e, v')" "r = Inl e"
    then show ?thesis
      using teardown_run [OF t(1) present] same by (auto simp: stop_made_def some_state_def)
  next
    fix u v1 assume t: "teardown env st v = (Inr u, v1)" and c: "clear_runtime env v1 = (r, v')"
    then show ?thesis
      using teardown_run [OF t present] clear_runtime_run [OF c] same by (auto simp: stop_made_def)
  qed
qed

text \<open>C12: A stop in the boot session and network namespace the runtime was started in makes only changes
  of the teardown plan and in its order: SmartDNS, the recorded network state, dnsmasq, mihomo, each at
  most once. If it succeeds, all of them succeeded, the network state recorded in the state file was
  restored, and the state file and the applied policy are gone; and the state file is never removed
  before all that was done, whatever fails.\<close>

theorem stop_tears_down:
  assumes "w_state_file w = Some st" "\<And>v. belongs_to_boot st (en_boot env v)"
    and "stop_gateway env w = (r, w')"
  shows "\<exists>new. acts_of w' = acts_of w @ new \<and> subseq (map fst new) (teardown_acts (journaled st))
    \<and> (r = Inr () \<longrightarrow> w_state_file w' = None \<and> w_policy_file w' = None)
    \<and> (w_state_file w' = None \<longrightarrow> torn_down st new)"
proof -
  have early: "stop_made st w (Inl e) v" if "same_host w v" for e v
    using that assms(1) unfolding stop_made_def by (intro exI [of _ "[]"]) (simp add: same_host_def)
  have "some_state (w_state_file w)" using assms(1) by (simp add: some_state_def)
  then have body: "triple (same_host w) (ebind (teardown env st) (\<lambda>_. clear_runtime env))
      (\<lambda>x. stop_made st w (Inr x)) (\<lambda>e. stop_made st w (Inl e))"
    by (intro triple_result teardown_clear_run)
  have "triple (same_host w) (stop_gateway env) (\<lambda>x. stop_made st w (Inr x)) (\<lambda>e. stop_made st w (Inl e))"
    unfolding stop_gateway_def
    by (intro triple_quiet_bind triple_load_bind keeps_need_root sh.keeps_stop_prepared; (rule early, assumption)?;
        simp only: assms(1) option.case;
        intro triple_boot_bind [where p = "belongs_to_boot st"] assms(2); (rule early, assumption)?;
        simp only: not_True_eq_False if_False;
        intro triple_quiet_bind sh.keeps_check body; (rule early, assumption)?; simp)
  from triple_resultD [OF this _ assms(3)] show ?thesis
    unfolding stop_made_def by (simp add: same_host_def)
qed

subsection \<open>A runtime of an earlier boot or namespace\<close>

definition restored :: "network_snapshot option \<Rightarrow> (act \<times> gerr option) list \<Rightarrow> bool" where
  "restored snap new \<longleftrightarrow> (case snap of None \<Rightarrow> new = [] | Some sn \<Rightarrow> new = [(RestoreNetwork sn, None)])"

definition interrupted_made :: "runtime_state \<Rightarrow> world \<Rightarrow> gerr + unit \<Rightarrow> world \<Rightarrow> bool" where
  "interrupted_made st w r v \<longleftrightarrow>
     (\<exists>new. acts_of v = acts_of w @ new
       \<and> (new = [] \<or> (\<exists>sn e. st_snapshot st = Some sn \<and> new = [(RestoreNetwork sn, e)]))
       \<and> (r = Inr () \<longrightarrow> w_state_file v = None \<and> w_policy_file v = None)
       \<and> (w_state_file v = None \<longrightarrow> restored (st_snapshot st) new))"

lemma cleanup_interrupted_run:
  assumes "cleanup_interrupted_runtime env st v = (r, v')" "same_host w v" "some_state (w_state_file w)"
  shows "interrupted_made st w r v'"
proof -
  have present: "some_state (w_state_file v)" and same: "acts_of v = acts_of w"
    using assms(2,3) by (simp_all add: same_host_def)
  have clear: ?thesis if "clear_runtime env v1 = (r, v')" "acts_of v1 = acts_of w @ new" "restored (st_snapshot st) new" for v1 new
    using clear_runtime_run [OF that(1)] that(2,3) unfolding interrupted_made_def restored_def
    by (intro exI [of _ new]) (auto split: option.splits)
  show ?thesis
  proof (cases "st_snapshot st")
    case None
    then have "clear_runtime env v = (r, v')"
      using assms(1) by (simp add: cleanup_interrupted_runtime_def run_simps)
    then show ?thesis
      by (rule clear [where new = "[]"]) (simp_all add: same restored_def None)
  next
    case (Some sn)
    from assms(1) consider (refused) e where "do_check env NewBackend v = (Inl e, v')" "r = Inl e"
      | (failed) v1 e u where "do_check env NewBackend v = (Inr u, v1)" "do_act env (RestoreNetwork sn) v1 = (Inl e, v')" "r \<noteq> Inr ()"
      | (made) v1 v2 u u' where "do_check env NewBackend v = (Inr u, v1)" "do_act env (RestoreNetwork sn) v1 = (Inr u', v2)"
          "clear_runtime env v2 = (r, v')"
      unfolding cleanup_interrupted_runtime_def Some option.case
      by (elim ebind_cases) (auto simp: ecatch_def efail_def split: prod.splits sum.splits)
    then show ?thesis
    proof cases
      case refused
      then have "same_host v v'" using quiet_runs(1) by (metis quiet_def lock_call.simps act_call.simps check.distinct)
      then show ?thesis using present same refused
        by (auto simp: interrupted_made_def same_host_def some_state_def)
    next
      case failed
      have "same_host v v1" using quiet_runs(1) [OF failed(1)] by (simp add: quiet_def)
      then show ?thesis using do_act_run [OF failed(2)] failed(3) present same Some
        by (auto simp: interrupted_made_def same_host_def some_state_def)
    next
      case made
      have "same_host v v1" using quiet_runs(1) [OF made(1)] by (simp add: quiet_def)
      then show ?thesis using act_runs(1) [OF made(2)] same
        by (intro clear [OF made(3), where new = "[(RestoreNetwork sn, None)]"]) (simp_all add: same_host_def restored_def Some)
    qed
  qed
qed

lemma triple_load_stale:
  assumes "\<And>v. \<not> belongs_to_boot st (en_boot env v)" "w_state_file w = Some st"
  shows "triple (same_host w) (ebind (load_running_state env msg) f) (\<lambda>_ _. False) (\<lambda>_. same_host w)"
proof (rule triple_bind)
  show "triple (same_host w) (load_running_state env msg) (\<lambda>_ _. False) (\<lambda>_. same_host w)"
    unfolding load_running_state_def
    by (rule triple_load_bind, assumption, simp only: assms(2) option.case,
        rule triple_boot_bind [where p = "\<lambda>b. \<not> belongs_to_boot st b"], rule assms(1), assumption,
        simp only: if_False, rule triple_efail)
qed (simp add: triple_def)

text \<open>C13: A runtime that an earlier boot session or another network namespace left behind is reconciled
  without touching a process: its PIDs mean nothing any more, so \<open>stop\<close> makes no change to the host but
  one restore of the recorded network state, removes the state file only when that succeeded, and on
  success leaves neither a state file nor an applied policy. \<open>reload\<close> and the restarts of mihomo and
  dnsmasq refuse to run on it and change nothing.\<close>

theorem interrupted_runtime_only_restored:
  assumes "w_state_file w = Some st" "\<And>v. \<not> belongs_to_boot st (en_boot env v)"
    and "stop_gateway env w = (r, w')"
  shows "interrupted_made st w r w'
    \<and> (\<forall>op \<in> {reload env cfg, restart_mihomo env cfg, restart_dnsmasq env}.
         fst (op w) \<noteq> Inr () \<and> same_host w (snd (op w)))"
proof
  have early: "interrupted_made st w (Inl e) v" if "same_host w v" for e v
    using that assms(1) unfolding interrupted_made_def by (intro exI [of _ "[]"]) (simp add: same_host_def)
  have "some_state (w_state_file w)" using assms(1) by (simp add: some_state_def)
  then have body: "triple (same_host w) (cleanup_interrupted_runtime env st)
      (\<lambda>x. interrupted_made st w (Inr x)) (\<lambda>e. interrupted_made st w (Inl e))"
    by (intro triple_result cleanup_interrupted_run)
  have "triple (same_host w) (stop_gateway env) (\<lambda>x. interrupted_made st w (Inr x)) (\<lambda>e. interrupted_made st w (Inl e))"
    unfolding stop_gateway_def
    by (intro triple_quiet_bind triple_load_bind keeps_need_root sh.keeps_stop_prepared; (rule early, assumption)?;
        simp only: assms(1) option.case;
        intro triple_boot_bind [where p = "\<lambda>b. \<not> belongs_to_boot st b"] assms(2); (rule early, assumption)?;
        simp only: not_False_eq_True if_True; rule body)
  from triple_resultD [OF this _ assms(3)] show "interrupted_made st w r w'"
    by (simp add: same_host_def)
  have guard: "triple (same_host w) op (\<lambda>_ _. False) (\<lambda>_. same_host w)"
    if "op \<in> {reload env cfg, restart_mihomo env cfg, restart_dnsmasq env}" for op
  proof -
    have "triple (same_host w) (reload env cfg) (\<lambda>_ _. False) (\<lambda>_. same_host w)"
      "triple (same_host w) (restart_dnsmasq env) (\<lambda>_ _. False) (\<lambda>_. same_host w)"
      unfolding reload_def restart_dnsmasq_def
      by (rule triple_quiet_bind [OF keeps_need_root], assumption, rule triple_load_stale [OF assms(2,1)])+
    moreover have "triple (same_host w) (restart_mihomo_guards env cfg) (\<lambda>_ _. False) (\<lambda>_. same_host w)"
      unfolding restart_mihomo_guards_def
      by (rule triple_quiet_bind [OF keeps_need_root], assumption, rule triple_load_stale [OF assms(2,1)])
    then have "triple (same_host w) (restart_mihomo env cfg) (\<lambda>_ _. False) (\<lambda>_. same_host w)"
      unfolding restart_mihomo_def by (rule triple_bind) (simp add: triple_def)
    ultimately show ?thesis using that by blast
  qed
  have "same_host w w" by (simp add: same_host_def)
  then show "\<forall>op \<in> {reload env cfg, restart_mihomo env cfg, restart_dnsmasq env}.
      fst (op w) \<noteq> Inr () \<and> same_host w (snd (op w))"
    by (intro ballI triple_failsD [OF guard])
qed

subsection \<open>The small gateway, stopped\<close>

definition running_state :: "string \<Rightarrow> runtime_state" where
  "running_state boot =
     zero_state\<lparr>st_boot_session_id := boot, st_lifecycle := ''running'', st_pid_dnsmasq := 11, st_pid_mihomo := 12, st_pid_smartdns := 13,
       st_dnsmasq_fingerprint := ''f'', st_mihomo_fingerprint := ''f'', st_smartdns_fingerprint := ''f'',
       st_snapshot := Some ((new_snapshot backend_linux_nftables (Some 0))
         \<lparr>sn_ipv4_forwarding := ''0'', sn_network_namespace := ''net:[1]''\<rparr>)\<rparr>"

definition running_world :: "string \<Rightarrow> world" where
  "running_world boot = empty_world\<lparr>w_state_file := Some (running_state boot)\<rparr>"

lemma belongs_running:
  "belongs_to_boot (running_state ''b'') (en_boot (sample_env acting) v)"
  "\<not> belongs_to_boot (running_state ''a'') (en_boot (sample_env acting) v)"
  by (simp_all add: belongs_to_boot_def running_state_def new_snapshot_def go_eval)

lemma succeeds_removes [succeeds_intro]:
  "succeeds (remove_policy_snapshot calm_env)" "succeeds (remove_state calm_env)"
  by (simp_all add: succeeds_def calm_env_def remove_policy_snapshot_def remove_state_def run_call run_simps ewhen_def
      split: if_splits)

lemma run_clear: "\<exists>w'. clear_runtime calm_env w = (Inr (), w')"
proof -
  obtain w1 where "remove_state calm_env w = (Inr (), w1)"
    using succeeds_removes(2) unfolding succeeds_def by fastforce
  moreover obtain w2 where "remove_policy_snapshot calm_env w1 = (Inr (), w2)"
    using succeeds_removes(1) unfolding succeeds_def by fastforce
  ultimately show ?thesis
    by (simp add: clear_runtime_def run_simps eerr_def join_errors_def map_filter_simps)
qed

lemma run_stop_tracked:
  assumes "0 < p"
  shows "stop_tracked_process calm_env s p ''f'' w =
    (Inr (), log_call (Act (StopService s p)) None (log_call (Query (AskMatches p ''f'')) None w))"
proof -
  have "trim_space ''f'' \<noteq> []" by (simp add: go_eval)
  then show ?thesis
    using assms by (simp add: stop_tracked_process_def process_matches_def calm_env_def run_simps run_call answer_def cong: run_congs)
qed

lemma run_teardown_steps:
  assumes "0 < st_pid_smartdns st" "0 < st_pid_dnsmasq st" "0 < st_pid_mihomo st" "st_snapshot st = Some sn"
    "st_smartdns_fingerprint st = ''f''" "st_dnsmasq_fingerprint st = ''f''" "st_mihomo_fingerprint st = ''f''"
  shows "\<exists>w'. teardown_steps calm_env st w = (Inr (), w')"
proof -
  have act: "do_act calm_env a w = (Inr (), log_call (Act a) None w)" for a w
    by (simp add: calm_env_def run_call answer_def)
  show ?thesis
    unfolding teardown_steps_def
    by (simp add: assms run_stop_tracked act run_simps join_errors_def map_filter_simps cong: run_congs)
qed

lemma run_stop: "\<exists>w'. stop_gateway calm_env (running_world ''b'') = (Inr (), w')"
proof -
  let ?st = "running_state ''b''"
  let ?st1 = "journaled (?st\<lparr>st_lifecycle := ''stopping''\<rparr>)"
  let ?w = "log_call (Check NewBackend) None (log_call (Query AskBoot) None (log_call (File ReadState) None
      (log_call (Check StopPrepared) None (running_world ''b''))))"
  obtain w1 where s: "save_state calm_env ?st1 ?w = (Inr (), w1)"
    using succeeds_save unfolding succeeds_def by fastforce
  obtain w2 where t: "teardown_steps calm_env ?st1 w1 = (Inr (), w2)"
    using run_teardown_steps [of ?st1] by (auto simp: journaled_def running_state_def zero_state_def)
  obtain w3 where c: "clear_runtime calm_env w2 = (Inr (), w3)"
    using run_clear by blast
  have snap: "st_snapshot ?st \<noteq> None" by (simp add: running_state_def)
  have recorded: "w_state_file (running_world ''b'') = Some ?st" by (simp add: running_world_def)
  have "teardown calm_env ?st ?w = (Inr (), w2)"
    using s t snap by (simp add: teardown_def Let_def run_simps cong: run_congs)
  then show ?thesis
    using c belongs_running(1) [of "\<lambda>_. None"] recorded unfolding calm_env_def
    by (simp add: stop_gateway_def need_root_def stop_prepared_engine_def load_state_def current_boot_def
      run_simps run_call del: sample_env_simps(2) cong: run_congs)
qed

theorem stop_tears_down_witness:
  "\<exists>w' sn. stop_gateway calm_env (running_world ''b'') = (Inr (), w') \<and> w_state_file w' = None \<and> w_policy_file w' = None
     \<and> (RestoreNetwork sn, None) \<in> set (acts_of w')"
proof -
  obtain w' where run: "stop_gateway calm_env (running_world ''b'') = (Inr (), w')" using run_stop by blast
  have recorded: "w_state_file (running_world ''b'') = Some (running_state ''b'')" by (simp add: running_world_def)
  obtain sn where sn: "st_snapshot (running_state ''b'') = Some sn" by (auto simp: running_state_def)
  from stop_tears_down [OF recorded _ run] belongs_running(1)
  obtain new where "acts_of w' = acts_of (running_world ''b'') @ new" "torn_down (running_state ''b'') new"
      "w_state_file w' = None" "w_policy_file w' = None"
    unfolding calm_env_def by blast
  then show ?thesis using run sn unfolding torn_down_def by auto
qed

theorem interrupted_runtime_only_restored_witness:
  "fst (reload calm_env small_cfg (running_world ''a'')) \<noteq> Inr ()
     \<and> interrupted_made (running_state ''a'') (running_world ''a'') (fst (stop_gateway calm_env (running_world ''a'')))
         (snd (stop_gateway calm_env (running_world ''a'')))"
proof -
  have recorded: "w_state_file (running_world ''a'') = Some (running_state ''a'')" by (simp add: running_world_def)
  have old: "\<not> belongs_to_boot (running_state ''a'') (en_boot calm_env v)" for v
    unfolding calm_env_def by (rule belongs_running(2))
  show ?thesis
    using interrupted_runtime_only_restored [OF recorded old, of "fst (stop_gateway calm_env (running_world ''a''))"
        "snd (stop_gateway calm_env (running_world ''a''))" small_cfg]
    by simp
qed

end
