(* ===== verification/GatewayRecovery.thy ===== *)
theory GatewayRecovery
  imports GatewayStop
begin

text \<open>
  What an operation that finds an earlier runtime does with it: a recovery whose desired state is
  stopped only cleans up, a PID that another process has taken over is never signalled, and a restart
  of mihomo says on disk that routing is unverified for as long as it is.
\<close>

subsection \<open>Only cleaning up\<close>

definition cleaned :: "(act \<times> gerr option) list \<Rightarrow> world \<Rightarrow> bool" where
  "cleaned as w \<longleftrightarrow> (\<exists>new. acts_of w = as @ new \<and> list_all (\<lambda>(a, e). cleanup_act a) new)"

lemma cleaned_call: "cleaned as w \<Longrightarrow> quiet c \<or> (\<exists>a. c = Act a \<and> cleanup_act a) \<Longrightarrow> cleaned as (log_call c e w)"
  by (cases c) (auto simp: cleaned_def quiet_def)

lemma cleaned_files:
  "cleaned as (w\<lparr>w_state_file := s\<rparr>) = cleaned as w" "cleaned as (w\<lparr>w_desired_file := d\<rparr>) = cleaned as w"
  "cleaned as (w\<lparr>w_policy_file := b\<rparr>) = cleaned as w"
  by (simp_all add: cleaned_def)

interpretation cu: call_invariant "cleaned as" cleanup_act for as
  by unfold_locales (simp_all only: cleaned_files cleaned_call simp_thms call.inject ex_simps)

lemma keeps_cleanup:
  "keeps (cleaned as) (stop_gateway env)" "keeps (cleaned as) (cleanup_interrupted_runtime env st)"
  "keeps (cleaned as) (teardown env st)"
  by (intro cu.keeps_stop_gateway cu.keeps_cleanup_interrupted cu.keeps_teardown; simp)+

text \<open>The desired state on disk, with what was cleaned.\<close>

definition wants :: "gateway_desired \<Rightarrow> (act \<times> gerr option) list \<Rightarrow> world \<Rightarrow> bool" where
  "wants d as w \<longleftrightarrow> w_desired_file w = Some d \<and> cleaned as w"

lemma keeps_wants_call: "\<not> act_call c \<Longrightarrow> keeps (wants d as) (do_call c err val)"
  by (rule keeps_do_call) (cases c; auto simp: wants_def cleaned_def)

lemma keeps_wants_load: "keeps (wants d as) (load_state env)"
  unfolding load_state_def do_file_def
  by (intro keeps_intro keeps_wants_call) (auto simp: keeps_def triple_def)

lemma triple_wants_lock: "keeps (wants d as) (acquire_lifecycle_lock env dir)" "keeps (wants d as) (do_check env c)"
  unfolding acquire_lifecycle_lock_def close_lock_def call_defs
  by (intro keeps_intro keeps_wants_call; simp)+

lemma triple_infer:
  "triple (wants d as) (infer_desired env b) (\<lambda>x v. cleaned as v \<and> x = gd_running d) (\<lambda>_. cleaned as)"
proof -
  have read: "keeps (wants d as) (do_file env ReadDesired id)"
    unfolding do_file_def by (intro keeps_intro keeps_wants_call) (auto simp: keeps_def triple_def)
  have peek: "triple (wants d as) (peek w_desired_file) (\<lambda>x v. wants d as v \<and> x = Some d) (\<lambda>_. wants d as)"
    by (simp add: triple_def peek_def wants_def)
  have "triple (wants d as) (load_gateway_desired_state env) (\<lambda>x v. cleaned as v \<and> x = Some d) (\<lambda>_. cleaned as)"
    unfolding load_gateway_desired_state_def
    by (rule triple_bind [OF triple_weaken [OF keeps_triple [OF read]]], assumption, assumption, simp add: wants_def,
        rule triple_bind [OF triple_weaken [OF peek]], assumption, assumption, simp add: wants_def,
        rule triple_pure) (auto intro!: triple_efail triple_eret simp: wants_def)
  then show ?thesis
    unfolding infer_desired_def
    by (intro triple_bind triple_catch triple_efail)
       (auto intro!: triple_pure triple_eret triple_efail)
qed

lemma keeps_reconcile_stopped: "keeps (cleaned as) (reconcile_state env cfg st False)"
  unfolding reconcile_state_def
  by (simp, intro keeps_intro cu.keeps_current_boot keeps_cleanup)

lemma triple_recover_stopped:
  assumes "\<not> gd_running d"
  shows "triple (wants d as) (recover_locked env cfg) (\<lambda>b v. cleaned as v \<and> \<not> b) (\<lambda>_. cleaned as)"
proof -
  have load: "triple (wants d as) (load_state env) (\<lambda>_. wants d as) (\<lambda>_. cleaned as)"
    by (rule triple_weaken [OF keeps_triple [OF keeps_wants_load]]) (auto simp: wants_def)
  have body: "triple (\<lambda>v. cleaned as v \<and> desired = gd_running d)
      (ebind (case loaded of None \<Rightarrow> eret RuntimeCleared | Some st \<Rightarrow> reconcile_state env cfg st desired)
        (\<lambda>r. case r of KeepRunning \<Rightarrow> eret False
           | RuntimeCleared \<Rightarrow> if \<not> desired then eret False
               else ebind (ecatch (start env cfg) (\<lambda>e. efail (Wrapped ''restart gateway after container recovery'' e))) (\<lambda>_. eret True)))
      (\<lambda>b v. cleaned as v \<and> \<not> b) (\<lambda>_. cleaned as)" for loaded desired
  proof (rule triple_pure)
    assume d: "desired = gd_running d"
    have "keeps (cleaned as) (case loaded of None \<Rightarrow> eret RuntimeCleared | Some st \<Rightarrow> reconcile_state env cfg st desired)"
      using assms d keeps_reconcile_stopped by (auto intro!: keeps_intro split: option.split)
    then show "triple (cleaned as) (ebind (case loaded of None \<Rightarrow> eret RuntimeCleared | Some st \<Rightarrow> reconcile_state env cfg st desired)
        (\<lambda>r. case r of KeepRunning \<Rightarrow> eret False
           | RuntimeCleared \<Rightarrow> if \<not> desired then eret False
               else ebind (ecatch (start env cfg) (\<lambda>e. efail (Wrapped ''restart gateway after container recovery'' e))) (\<lambda>_. eret True)))
      (\<lambda>b v. cleaned as v \<and> \<not> b) (\<lambda>_. cleaned as)"
      using assms d by (intro triple_bind [OF keeps_triple]) (auto intro!: triple_eret split: recovery.split)
  qed
  show ?thesis
    unfolding recover_locked_def
    by (rule triple_bind [OF load triple_bind [OF triple_infer body]])
qed

text \<open>C34: A gateway whose desired state on disk is \<open>stopped\<close> stays stopped when its container comes back:
  the recovery makes no change to the host but stopping recorded processes and restoring the recorded
  network state, and never reports a gateway started, whatever the earlier runtime left.\<close>

theorem stopped_gateway_stays_stopped:
  assumes "w_desired_file w = Some d" "\<not> gd_running d"
    and "recover_after_container_restart env cfg w = (r, w')"
  shows "r \<noteq> Inr True \<and> (\<exists>new. acts_of w' = acts_of w @ new \<and> list_all (\<lambda>(a, e). cleanup_act a) new)"
proof -
  let ?as = "acts_of w"
  have fetched: "triple (wants d ?as) (fetch (recover_locked env cfg)) (\<lambda>x v. cleaned ?as v \<and> x \<noteq> Inr True) (\<lambda>_. cleaned ?as)"
    using triple_recover_stopped [OF assms(2), of ?as env cfg] unfolding fetch_def triple_def
    by (fastforce split: prod.splits sum.splits)
  have early: "triple (wants d ?as) m (\<lambda>_. wants d ?as) (\<lambda>_. cleaned ?as)" if "keeps (wants d ?as) m" for m :: "'a gw"
    by (rule triple_weaken [OF keeps_triple [OF that]]) (auto simp: wants_def)
  have late: "triple (\<lambda>v. cleaned ?as v \<and> x \<noteq> Inr True)
      (ebind (eerr (release_lifecycle_lock env)) (\<lambda>e2.
       ebind (eopt (join_errors [case x of Inl e \<Rightarrow> Some e | Inr _ \<Rightarrow> None, e2])) (\<lambda>_.
         eret (case x of Inl _ \<Rightarrow> False | Inr b \<Rightarrow> b))))
      (\<lambda>b v. cleaned ?as v \<and> \<not> b) (\<lambda>_. cleaned ?as)" for x :: "gerr + bool"
  proof (rule triple_pure)
    assume x: "x \<noteq> Inr True"
    have check: "keeps (cleaned ?as) (do_check env c)" for c
      unfolding do_check_def by (rule keeps_do_call) (simp add: cleaned_def)
    show "triple (cleaned ?as)
      (ebind (eerr (release_lifecycle_lock env)) (\<lambda>e2.
       ebind (eopt (join_errors [case x of Inl e \<Rightarrow> Some e | Inr _ \<Rightarrow> None, e2])) (\<lambda>_.
         eret (case x of Inl _ \<Rightarrow> False | Inr b \<Rightarrow> b))))
      (\<lambda>b v. cleaned ?as v \<and> \<not> b) (\<lambda>_. cleaned ?as)"
      unfolding release_lifecycle_lock_def
      using x by (intro triple_bind [OF keeps_triple] keeps_intro check triple_eret) (auto split: sum.splits)
  qed
  have root: "keeps (wants d ?as) (need_root env what)" for what by (rule keeps_need_root)
  have "triple (wants d ?as) (recover_after_container_restart env cfg) (\<lambda>b v. cleaned ?as v \<and> \<not> b) (\<lambda>_. cleaned ?as)"
    unfolding recover_after_container_restart_def
    by (rule triple_bind [OF early [OF root] triple_bind [OF early [OF triple_wants_lock(2)]
          triple_bind [OF early [OF triple_wants_lock(1)] triple_bind [OF fetched late]]]])
  moreover have "wants d ?as w" using assms(1) by (simp add: wants_def cleaned_def)
  ultimately have "cleaned ?as w' \<and> r \<noteq> Inr True"
    using assms(3) tripleD [of "wants d ?as"] by (cases r) fastforce+
  then show ?thesis by (simp add: cleaned_def)
qed

definition halted_world :: world where
  "halted_world = (running_world ''b'')\<lparr>w_desired_file := Some \<lparr>gd_schema_version = 1, gd_running = False\<rparr>\<rparr>"

theorem stopped_gateway_stays_stopped_witness:
  "fst (recover_after_container_restart calm_env small_cfg halted_world) \<noteq> Inr True
     \<and> (\<exists>new. acts_of (snd (recover_after_container_restart calm_env small_cfg halted_world)) = acts_of halted_world @ new
          \<and> list_all (\<lambda>(a, e). cleanup_act a) new)"
proof (rule stopped_gateway_stays_stopped)
  show "w_desired_file halted_world = Some \<lparr>gd_schema_version = 1, gd_running = False\<rparr>"
    by (simp add: halted_world_def)
qed simp_all

subsection \<open>A PID that another process has taken over\<close>

definition recorded :: "runtime_state \<Rightarrow> (service \<times> int \<times> string) list" where
  "recorded st =
     [(SmartDNS, st_pid_smartdns st, st_smartdns_fingerprint st),
      (DNSMasq, st_pid_dnsmasq st, st_dnsmasq_fingerprint st),
      (Mihomo, st_pid_mihomo st, st_mihomo_fingerprint st)]"

definition unsignalled :: "int \<Rightarrow> (act \<times> gerr option) list \<Rightarrow> world \<Rightarrow> bool" where
  "unsignalled p as w \<longleftrightarrow> some_state (w_state_file w)
     \<and> (\<exists>new. acts_of w = as @ new \<and> (\<forall>s e. (StopService s p, e) \<notin> set new))"

lemma unsignalled_call: "unsignalled p as w \<Longrightarrow> (\<And>s. c \<noteq> Act (StopService s p)) \<Longrightarrow> unsignalled p as (log_call c e w)"
  by (cases c) (fastforce simp: unsignalled_def)+

interpretation us: quiet_invariant "unsignalled p as" for p as
proof
  fix w c e assume "unsignalled p as w" "quiet c"
  then show "unsignalled p as (log_call c e w)" by (auto intro: unsignalled_call simp: quiet_def)
qed (simp_all add: unsignalled_def)

lemma keeps_unsignalled_act: "(\<And>s. a \<noteq> StopService s p) \<Longrightarrow> keeps (unsignalled p as) (do_act env a)"
  unfolding do_act_def by (rule keeps_do_call) (simp add: unsignalled_call)

lemma keeps_unsignalled_save: "keeps (unsignalled p as) (save_state env st)"
proof (rule keepsI)
  fix w assume w: "unsignalled p as w"
  obtain r w' where s: "save_state env st w = (r, w')" by (cases "save_state env st w")
  show "unsignalled p as (snd (save_state env st w))"
    using w s save_state_acts [OF s] save_state_kept [OF s] by (simp add: unsignalled_def)
qed

lemma triple_stop_reused:
  assumes "trim_space fp \<noteq> []" "0 < p" "\<And>v f. \<not> en_matches env v p f" "\<And>v. en_alive env v p"
  shows "triple (unsignalled p as) (stop_tracked_process env s p fp) (\<lambda>_ _. False) (\<lambda>_. unsignalled p as)"
proof -
  have matches: "triple (unsignalled p as) (process_matches env p fp) (\<lambda>b v. unsignalled p as v \<and> \<not> b) (\<lambda>_. unsignalled p as)"
    unfolding process_matches_def do_query_def
    by (rule triple_do_call) (auto intro: unsignalled_call simp: assms(3))
  have alive: "triple (unsignalled p as) (ask (AskAlive p) (\<lambda>w. en_alive env w p)) (\<lambda>b v. unsignalled p as v \<and> b) (\<lambda>_. unsignalled p as)"
    unfolding ask_def by (rule triple_do_call) (auto intro: unsignalled_call simp: assms(4))
  show ?thesis
    unfolding stop_tracked_process_def using assms(1,2)
    by (simp, intro triple_bind [OF triple_catch [OF matches triple_efail]] triple_pure)
       (simp_all, intro triple_bind [OF alive] triple_pure, simp, rule triple_efail)
qed

lemma triple_stop_unsignalled:
  assumes "q = p \<longrightarrow> trim_space fp \<noteq> []" "0 < p" "\<And>v f. \<not> en_matches env v p f" "\<And>v. en_alive env v p"
  shows "triple (unsignalled p as) (eerr (stop_tracked_process env s q fp))
    (\<lambda>e v. unsignalled p as v \<and> (q = p \<longrightarrow> e \<noteq> None)) (\<lambda>_. unsignalled p as)"
proof (cases "q = p")
  case True
  then show ?thesis
    using triple_stop_reused [OF _ assms(2-4), of fp as s] assms(1)
    by (intro triple_eerr) (auto elim!: triple_weaken)
next
  case False
  have "keeps (unsignalled p as) (stop_tracked_process env s q fp)"
    unfolding stop_tracked_process_def process_matches_def
    using False by (intro keeps_intro us.keeps_query us.keeps_ask keeps_unsignalled_act; simp)
  then show ?thesis
    using False by (intro triple_eerr triple_weaken [OF keeps_triple]) auto
qed

lemma triple_teardown_reused:
  assumes "\<exists>s f. (s, p, f) \<in> set (recorded st)" "\<And>s f. (s, p, f) \<in> set (recorded st) \<Longrightarrow> trim_space f \<noteq> []"
    "0 < p" "\<And>v f. \<not> en_matches env v p f" "\<And>v. en_alive env v p"
  shows "triple (unsignalled p as) (teardown env st) (\<lambda>_ _. False) (\<lambda>_. unsignalled p as)"
proof -
  let ?st = "journaled (st\<lparr>st_lifecycle := ''stopping''\<rparr>)"
  have same: "st_pid_smartdns ?st = st_pid_smartdns st" "st_pid_dnsmasq ?st = st_pid_dnsmasq st"
      "st_pid_mihomo ?st = st_pid_mihomo st" "st_smartdns_fingerprint ?st = st_smartdns_fingerprint st"
      "st_dnsmasq_fingerprint ?st = st_dnsmasq_fingerprint st" "st_mihomo_fingerprint ?st = st_mihomo_fingerprint st"
    by (simp_all add: journaled_def)
  note stop = triple_stop_unsignalled [OF _ assms(3-5)]
  have net: "keeps (unsignalled p as) (case st_snapshot ?st of None \<Rightarrow> eret None | Some sn \<Rightarrow> eerr (do_act env (RestoreNetwork sn)))"
    by (intro keeps_intro keeps_unsignalled_act) simp
  have fp: "st_pid_smartdns st = p \<longrightarrow> trim_space (st_smartdns_fingerprint st) \<noteq> []"
      "st_pid_dnsmasq st = p \<longrightarrow> trim_space (st_dnsmasq_fingerprint st) \<noteq> []"
      "st_pid_mihomo st = p \<longrightarrow> trim_space (st_mihomo_fingerprint st) \<noteq> []"
    and one: "st_pid_smartdns st = p \<or> st_pid_dnsmasq st = p \<or> st_pid_mihomo st = p"
    using assms(1,2) by (auto simp: recorded_def)
  have steps: "triple (unsignalled p as) (teardown_steps env ?st) (\<lambda>_ _. False) (\<lambda>_. unsignalled p as)"
    unfolding teardown_steps_def same
    by (rule triple_bind [OF stop [OF fp(1)]], rule triple_pure, rule triple_bind [OF keeps_triple [OF net]],
        rule triple_bind [OF stop [OF fp(2)]], rule triple_pure, rule triple_bind [OF stop [OF fp(3)]], rule triple_pure,
        rule triple_eopt) (use one in auto)
  have save: "keeps (unsignalled p as) (ecatch (save_state env ?st)
      (\<lambda>e. efail (Wrapped ''mark gateway teardown before stopping services'' e)))"
    by (intro keeps_intro keeps_unsignalled_save)
  have guard: "keeps (unsignalled p as) (eguard b e)" for b e by (rule keeps_intro)
  show ?thesis
    unfolding teardown_def Let_def
    by (rule triple_bind [OF keeps_triple [OF guard] triple_bind [OF keeps_triple [OF save] steps]])
qed

text \<open>C32: A PID that now belongs to a different process is never signalled: if a recorded PID, recorded
  with an identity, no longer has that identity, a stop of a runtime of the current boot sends no signal
  to it, fails, and keeps the state file.\<close>

theorem reused_pid_not_signalled:
  assumes "w_state_file w = Some st" "\<And>v. belongs_to_boot st (en_boot env v)"
    and "\<exists>s f. (s, p, f) \<in> set (recorded st)" "\<And>s f. (s, p, f) \<in> set (recorded st) \<Longrightarrow> trim_space f \<noteq> []"
    and "0 < p" "\<And>v f. \<not> en_matches env v p f" "\<And>v. en_alive env v p"
    and "stop_gateway env w = (r, w')"
  shows "r \<noteq> Inr () \<and> w_state_file w' \<noteq> None
    \<and> (\<exists>new. acts_of w' = acts_of w @ new \<and> (\<forall>s e. (StopService s p, e) \<notin> set new))"
proof -
  let ?U = "unsignalled p (acts_of w)"
  have start: "?U v" if "same_host w v" for v
    using that assms(1) by (simp add: unsignalled_def same_host_def some_state_def)
  have run: "triple (same_host w) (ebind (teardown env st) (\<lambda>_. clear_runtime env)) (\<lambda>_ _. False) (\<lambda>_. ?U)"
    by (rule triple_bind [OF triple_pre [OF triple_teardown_reused [OF assms(3-7)] start]])
      (assumption, assumption, simp add: triple_def)
  have "triple (same_host w) (stop_gateway env) (\<lambda>_ _. False) (\<lambda>_. ?U)"
    unfolding stop_gateway_def
    by (intro triple_quiet_bind triple_load_bind keeps_need_root sh.keeps_stop_prepared; (rule start, assumption)?;
        simp only: assms(1) option.case;
        intro triple_boot_bind [where p = "belongs_to_boot st"] assms(2); (rule start, assumption)?;
        simp only: not_True_eq_False if_False;
        intro triple_quiet_bind sh.keeps_check run; (rule start, assumption)?; simp)
  from triple_failsD [OF this, of w "()"] assms(8) show ?thesis
    by (simp add: same_host_def unsignalled_def some_state_def)
qed

definition reused_env :: env where
  "reused_env = calm_env\<lparr>en_matches := (\<lambda>_ p _. p \<noteq> 12)\<rparr>"

theorem reused_pid_not_signalled_witness:
  "fst (stop_gateway reused_env (running_world ''b'')) \<noteq> Inr ()
     \<and> w_state_file (snd (stop_gateway reused_env (running_world ''b''))) \<noteq> None"
proof -
  have env: "en_boot reused_env v = en_boot calm_env v" "\<not> en_matches reused_env v 12 f" "en_alive reused_env v 12" for v f
    by (simp_all add: reused_env_def calm_env_def)
  have "w_state_file (running_world ''b'') = Some (running_state ''b'')" by (simp add: running_world_def)
  moreover have "belongs_to_boot (running_state ''b'') (en_boot reused_env v)" for v
    using belongs_running(1) unfolding env(1) calm_env_def by blast
  moreover have "set (recorded (running_state ''b'')) = {(SmartDNS, 13, ''f''), (DNSMasq, 11, ''f''), (Mihomo, 12, ''f'')}"
    by (auto simp: recorded_def running_state_def)
  moreover have "trim_space ''f'' \<noteq> []" by (simp add: go_eval)
  ultimately show ?thesis
    using reused_pid_not_signalled [of "running_world ''b''" "running_state ''b''" reused_env 12
        "fst (stop_gateway reused_env (running_world ''b''))" "snd (stop_gateway reused_env (running_world ''b''))"] env(2,3)
    by auto
qed

end
