(* ===== verification/GatewayRestart.thy ===== *)
theory GatewayRestart
  imports GatewayRecovery
begin

text \<open>
  The restart of mihomo under a running gateway, and what a status of \<open>running\<close> stands for.
\<close>

subsection \<open>Routing is marked unverified first\<close>

definition unverified_act :: "event \<Rightarrow> bool" where
  "unverified_act ev \<longleftrightarrow>
     (act_call (ev_call ev) \<longrightarrow> (case ev_durable ev of None \<Rightarrow> False | Some d \<Rightarrow> \<not> st_routing_applied d))"

definition careful :: "event list \<Rightarrow> world \<Rightarrow> bool" where
  "careful evs w \<longleftrightarrow> (\<exists>new. w_log w = evs @ new \<and> list_all unverified_act new)"

definition unverified_state :: "runtime_state option \<Rightarrow> bool" where
  "unverified_state s \<longleftrightarrow> (case s of None \<Rightarrow> False | Some d \<Rightarrow> \<not> st_routing_applied d)"

definition marked :: "event list \<Rightarrow> world \<Rightarrow> bool" where
  "marked evs w \<longleftrightarrow> careful evs w \<and> unverified_state (w_state_file w)"

lemma careful_call: "careful evs w \<Longrightarrow> \<not> act_call c \<or> unverified_state (w_state_file w) \<Longrightarrow> careful evs (log_call c e w)"
  by (auto simp: careful_def unverified_act_def unverified_state_def log_call_def)

lemma careful_files [simp]:
  "careful evs (w\<lparr>w_state_file := s\<rparr>) = careful evs w" "careful evs (w\<lparr>w_desired_file := d\<rparr>) = careful evs w"
  "careful evs (w\<lparr>w_policy_file := b\<rparr>) = careful evs w"
  by (simp_all add: careful_def)

lemma log_call_state: "w_state_file (log_call c e w) = w_state_file w"
  by (simp add: log_call_def)

interpretation ca: quiet_invariant "careful evs" for evs
  by unfold_locales (simp_all add: careful_call quiet_def)

interpretation ma: quiet_invariant "marked evs" for evs
  by unfold_locales (simp_all add: careful_call quiet_def marked_def log_call_state)

lemma keeps_marked_call: "keeps (marked evs) (do_call c err val)"
  by (rule keeps_do_call) (simp add: marked_def careful_call log_call_state)

lemma keeps_marked_act: "keeps (marked evs) (do_act env a)" "keeps (marked evs) (start_service env s)"
  unfolding do_act_def start_service_def by (rule keeps_marked_call)+

lemma keeps_marked_stop: "keeps (marked evs) (stop_tracked_process env s p fp)"
  unfolding stop_tracked_process_def process_matches_def
  by (intro keeps_intro keeps_marked_act ma.keeps_query ma.keeps_ask; simp)

lemma keeps_careful_save: "keeps (careful evs) (save_state env st)"
  unfolding save_state_def with_temp_def write_temp_def Let_def do_file_def
  by (intro keeps_intro keeps_do_call) (auto simp: keeps_def triple_def intro: careful_call)

lemma keeps_marked_save: "\<not> st_routing_applied st \<Longrightarrow> keeps (marked evs) (save_state env st)"
  unfolding save_state_def with_temp_def write_temp_def Let_def do_file_def
  by (intro keeps_intro keeps_marked_call) (auto simp: keeps_def triple_def marked_def unverified_state_def journaled_def)

lemma triple_mark:
  assumes "\<not> st_routing_applied st"
  shows "triple (careful evs) (save_state env st) (\<lambda>_. marked evs) (\<lambda>_. careful evs)"
proof -
  have "triple (careful evs) (save_state env st) (\<lambda>_ v. w_state_file v = Some (journaled st)) (\<lambda>_ _. True)"
    unfolding triple_def by (auto split: prod.splits sum.splits dest: save_state_Inr)
  from triple_conj [OF keeps_triple [OF keeps_careful_save] this] show ?thesis
    by (rule triple_weaken) (use assms in \<open>auto simp: marked_def unverified_state_def journaled_def\<close>)
qed

lemma marked_careful: "marked evs w \<Longrightarrow> careful evs w"
  by (simp add: marked_def)

lemma keeps_marked_archive: "keeps (marked evs) (archive_log env s)"
  by (rule ma.keeps_archive_log)

lemma triple_unmark:
  assumes "keeps (careful evs) m"
  shows "triple (marked evs) m (\<lambda>_. careful evs) (\<lambda>_. careful evs)"
  by (rule triple_pre [OF keeps_triple [OF assms] marked_careful])

lemma triple_give_up:
  assumes "keeps (careful evs) m"
  shows "triple (marked evs) (ebind m (\<lambda>x. fail_all (es x))) Q (\<lambda>_. careful evs)"
  by (rule triple_bind [OF triple_unmark [OF assms]], rule triple_fail_all)

lemma careful_retire:
  "triple (careful evs) (retire_mihomo env st)
     (\<lambda>st1 v. marked evs v \<and> \<not> st_routing_applied st1) (\<lambda>_. careful evs)"
proof -
  let ?st = "journaled (st\<lparr>st_pid_mihomo := 0, st_mihomo_fingerprint := [], st_routing_applied := False\<rparr>)"
  have off: "\<not> st_routing_applied ?st" by (simp add: journaled_def)
  have stop: "triple (marked evs) (stop_tracked_process env Mihomo (st_pid_mihomo st) (st_mihomo_fingerprint st))
      (\<lambda>_. marked evs) (\<lambda>_. marked evs)"
    by (rule keeps_triple [OF keeps_marked_stop])
  have failed: "triple (marked evs) (ebind (mihomo_alive env st) (\<lambda>alive. ebind (eerr (save_state env (f alive))) (\<lambda>saved. fail_all (es saved))))
      Q (\<lambda>_. careful evs)" for f es and Q :: "unit \<Rightarrow> world \<Rightarrow> bool"
    by (rule triple_bind [OF triple_weaken [OF keeps_triple [OF ma.keeps_alive(3)]]],
        assumption, assumption, erule marked_careful, rule triple_give_up, intro keeps_intro keeps_careful_save)
  show ?thesis
    unfolding retire_mihomo_def Let_def
    by (rule triple_bind [OF triple_catch [OF triple_mark [OF off]]], rule triple_efail, assumption,
        rule triple_bind [OF triple_catch [OF stop failed]], rule triple_eret) (use off in auto)
qed

lemma keeps_marked_launch:
  assumes "\<not> st_routing_applied st"
  shows "triple (marked evs) (launch_mihomo env st) (\<lambda>st1 v. marked evs v \<and> \<not> st_routing_applied st1) (\<lambda>_. marked evs)"
proof -
  have off: "\<not> st_routing_applied (journaled (st\<lparr>st_pid_mihomo := p, st_mihomo_fingerprint := f\<rparr>))" for p f
    using assms by (simp add: journaled_def)
  have clean: "keeps (marked evs) (ebind (eerr (do_act env (StopService Mihomo p))) (\<lambda>stopped. fail_all (es stopped)))" for p es
    by (intro keeps_intro keeps_marked_act keeps_fail_all)
  have start: "keeps (marked evs) (ecatch (start_service env Mihomo) (\<lambda>e. efail (f e)))" for f
    by (intro keeps_intro keeps_marked_act)
  have identity: "keeps (marked evs) (ecatch (record_identity env Mihomo p) (\<lambda>e. ebind (eerr (do_act env (StopService Mihomo p))) (\<lambda>stopped. fail_all (es e stopped))))" for p es
    by (intro keeps_intro ma.keeps_record_identity keeps_marked_act keeps_fail_all)
  have save: "keeps (marked evs) (ecatch (save_state env (journaled (st\<lparr>st_pid_mihomo := p, st_mihomo_fingerprint := f\<rparr>)))
      (\<lambda>e. ebind (eerr (do_act env (StopService Mihomo p))) (\<lambda>stopped. fail_all (es e stopped))))" for p f es
    by (intro keeps_intro keeps_marked_save off keeps_marked_act keeps_fail_all)
  show ?thesis
    unfolding launch_mihomo_def Let_def
    by (rule triple_bind [OF keeps_triple [OF start]], rule triple_bind [OF keeps_triple [OF identity]],
        rule triple_bind [OF keeps_triple [OF save]], rule triple_eret) (use off in auto)
qed

lemma careful_drop:
  "triple (marked evs) (drop_mihomo env st forget e) Q (\<lambda>_. careful evs)"
proof -
  have stop: "triple (marked evs) (eerr (do_act env (StopService Mihomo (st_pid_mihomo st)))) (\<lambda>_. marked evs) (\<lambda>_. careful evs)"
    by (rule triple_weaken [OF keeps_triple [of "marked evs"]], intro keeps_intro keeps_marked_act) (auto dest: marked_careful)
  show ?thesis
    unfolding drop_mihomo_def
    by (rule triple_bind [OF stop triple_give_up], intro keeps_intro keeps_careful_save)
qed

lemma careful_repair: "triple (marked evs) (repair_routing env cfg st) (\<lambda>_. careful evs) (\<lambda>_. careful evs)"
proof -
  have backend: "triple (marked evs) (ecatch (do_check env NewBackend) (\<lambda>e. drop_mihomo env st f (k e))) (\<lambda>_. marked evs) (\<lambda>_. careful evs)" for f k
    by (rule triple_catch [OF keeps_triple [OF ma.keeps_check]], simp, rule careful_drop)
  have reapply: "keeps (marked evs) (reapply_policy_routing env cfg st)"
    unfolding reapply_policy_routing_def
    by (intro keeps_intro ma.keeps_replacement_recipe keeps_marked_act ma.keeps_verify_routing)
  have save: "keeps (careful evs) (ecatch (save_state env st1) (\<lambda>e. efail (k e)))" for st1 k
    by (intro keeps_intro keeps_careful_save)
  show ?thesis
    unfolding repair_routing_def
    by (rule triple_bind [OF backend triple_bind [OF triple_catch [OF keeps_triple [OF reapply] careful_drop] triple_unmark [OF save]]])
qed

lemma keeps_careful_restart: "keeps (careful evs) (restart_mihomo env cfg)"
proof -
  have archive: "triple (marked evs) (archive_log env Mihomo) (\<lambda>_. marked evs) (\<lambda>_. careful evs)"
    by (rule triple_weaken [OF keeps_triple [OF ma.keeps_archive_log]]) (auto dest: marked_careful)
  have launch: "triple (\<lambda>v. marked evs v \<and> \<not> st_routing_applied st1) (launch_mihomo env st1)
      (\<lambda>_. marked evs) (\<lambda>_. careful evs)" for st1
    by (rule triple_pure, rule triple_weaken [OF keeps_marked_launch]) (auto dest: marked_careful)
  show ?thesis
    unfolding restart_mihomo_def keeps_def
    by (rule triple_bind [OF keeps_triple [OF ca.keeps_restart_guards] triple_bind [OF careful_retire
        triple_bind [OF triple_frame [OF archive] triple_bind [OF launch careful_repair]]]])
qed

subsection \<open>A restart that succeeds\<close>

lemma fail_all_fails [simp]: "\<not> fail_all es w = (Inr x, w')"
  by (auto simp: fail_all_def ebind_def eopt_def eret_def efail_def split: option.splits)

lemma give_up_fails [simp]: "\<not> ebind m (\<lambda>x. fail_all (es x)) w = (Inr y, w')"
  by (auto simp: success_iff)

lemma drop_fails [simp]: "\<not> drop_mihomo env st forget e w = (Inr x, w')"
  by (auto simp: drop_mihomo_def success_iff)

lemma retire_Inr:
  assumes "retire_mihomo env st w = (Inr st1, w')"
  shows "st1 = journaled (st\<lparr>st_pid_mihomo := 0, st_mihomo_fingerprint := [], st_routing_applied := False\<rparr>)
    \<and> (\<exists>stop. acts_of w' = acts_of w @ stop \<and> (stop = [] \<or> stop = [(StopService Mihomo (st_pid_mihomo st), None)]))"
proof -
  let ?st = "journaled (st\<lparr>st_pid_mihomo := 0, st_mihomo_fingerprint := [], st_routing_applied := False\<rparr>)"
  from assms obtain w1 u where s: "save_state env ?st w = (Inr u, w1)"
      and p: "stop_tracked_process env Mihomo (st_pid_mihomo st) (st_mihomo_fingerprint st) w1 = (Inr (), w')" and st1: "st1 = ?st"
    by (auto simp: retire_mihomo_def Let_def success_iff)
  have "at_most (StopService Mihomo (st_pid_mihomo st)) w1 True w'"
    using stop_tracked_run [OF p] by simp
  then show ?thesis
    using save_state_Inr [OF s] st1 unfolding at_most_def by auto
qed

lemma archive_same: "archive_log env s w = (r, w') \<Longrightarrow> same_host w w'"
  by (erule same_hostD [rotated]) (rule sh.keeps_archive_log)

lemma launch_Inr:
  assumes "launch_mihomo env st w = (Inr st1, w')"
  shows "\<exists>pid fp. st1 = journaled (st\<lparr>st_pid_mihomo := pid, st_mihomo_fingerprint := fp\<rparr>) \<and> (0 < pid \<longrightarrow> fp \<noteq> [])
    \<and> acts_of w' = acts_of w @ [(StartService Mihomo, None)]"
  using assms
  by (auto simp: launch_mihomo_def Let_def record_identity_def process_fingerprint_def success_iff same_host_def
      dest!: act_runs quiet_runs save_state_Inr) blast+

lemma recipe_Inr: "replacement_recipe env cfg r0 w = (Inr r, w') \<Longrightarrow> same_host w w'"
  by (erule same_hostD [rotated]) (rule sh.keeps_replacement_recipe)

lemma repair_Inr:
  assumes "repair_routing env cfg st w = (Inr u, w')"
  shows "\<exists>r v. en_routing_present env v r \<and> acts_of w' = acts_of w @ [(SetupRouting r, None)]
    \<and> w_state_file w' = Some (journaled (with_routing_applied r st))"
proof -
  from assms obtain w1 w2 st1 u1 where c: "do_check env NewBackend w = (Inr u1, w1)"
      and a: "reapply_policy_routing env cfg st w1 = (Inr st1, w2)" and s: "save_state env st1 w2 = (Inr u, w')"
    by (auto simp: repair_routing_def success_iff)
  have 1: "acts_of w1 = acts_of w" using quiet_runs(1) [OF c] by (simp add: quiet_def same_host_def)
  from a obtain r0 r w3 w4 u2 u3 where r: "replacement_recipe env cfg r0 w1 = (Inr r, w3)"
      and d: "do_act env (SetupRouting r) w3 = (Inr u2, w4)" and v: "verify_policy_routing env r w4 = (Inr u3, w2)"
      and st1: "st1 = with_routing_applied r st"
    by (auto simp: reapply_policy_routing_def success_iff split: option.splits)
  show ?thesis
    using recipe_Inr [OF r] act_runs(1) [OF d] verify_Inr [OF v] save_state_Inr [OF s] 1 st1
    by (auto simp: same_host_def)
qed

definition mihomo_replaced :: "env \<Rightarrow> world \<Rightarrow> world \<Rightarrow> bool" where
  "mihomo_replaced env w w' \<longleftrightarrow>
     (\<exists>st0 stop rt v st.
        w_state_file w = Some st0
        \<and> acts_of w' = acts_of w @ stop @ [(StartService Mihomo, None), (SetupRouting rt, None)]
        \<and> (stop = [] \<or> stop = [(StopService Mihomo (st_pid_mihomo st0), None)])
        \<and> en_routing_present env v rt \<and> w_state_file w' = Some st \<and> st_routing_applied st
        \<and> st_tun_device st = rc_tun_device rt \<and> (0 < st_pid_mihomo st \<longrightarrow> st_mihomo_fingerprint st \<noteq> []))"

lemma guards_Inr:
  assumes "restart_mihomo_guards env cfg w = (Inr st, w')"
  shows "same_host w w' \<and> w_state_file w = Some st"
proof
  show "same_host w w'"
    using assms by (rule same_hostD [rotated]) (rule sh.keeps_restart_guards)
  from assms obtain w1 w2 x where "load_state env w1 = (Inr x, w2)" "x = Some st" "w1 = w"
    by (auto simp: restart_mihomo_guards_def load_running_state_def need_root_def success_iff split: option.splits if_splits)
  then show "w_state_file w = Some st" using load_state_Inr by fastforce
qed

lemma restart_Inr:
  assumes "restart_mihomo env cfg w = (Inr u, w')"
  shows "mihomo_replaced env w w'"
proof -
  from assms obtain st0 w1 st1 w2 w3 st2 w4 v where g: "restart_mihomo_guards env cfg w = (Inr st0, w1)"
      and t: "retire_mihomo env st0 w1 = (Inr st1, w2)" and a: "archive_log env Mihomo w2 = (Inr v, w3)"
      and l: "launch_mihomo env st1 w3 = (Inr st2, w4)" and p: "repair_routing env cfg st2 w4 = (Inr u, w')"
    by (auto simp: restart_mihomo_def success_iff)
  obtain stop where stop: "acts_of w2 = acts_of w1 @ stop" "stop = [] \<or> stop = [(StopService Mihomo (st_pid_mihomo st0), None)]"
    using retire_Inr [OF t] by blast
  obtain pid fp where st2: "st2 = journaled (st1\<lparr>st_pid_mihomo := pid, st_mihomo_fingerprint := fp\<rparr>)" "0 < pid \<longrightarrow> fp \<noteq> []"
      and l2: "acts_of w4 = acts_of w3 @ [(StartService Mihomo, None)]"
    using launch_Inr [OF l] by blast
  obtain rt x where r: "en_routing_present env x rt" "acts_of w' = acts_of w4 @ [(SetupRouting rt, None)]"
      "w_state_file w' = Some (journaled (with_routing_applied rt st2))"
    using repair_Inr [OF p] by blast
  let ?st = "journaled (with_routing_applied rt st2)"
  have "st_routing_applied ?st" "st_tun_device ?st = rc_tun_device rt" "0 < st_pid_mihomo ?st \<longrightarrow> st_mihomo_fingerprint ?st \<noteq> []"
    using st2 by (simp_all add: journaled_def with_routing_applied_def mark_applied_def on_snapshot_def split: option.split)
  moreover have "acts_of w' = acts_of w @ stop @ [(StartService Mihomo, None), (SetupRouting rt, None)]"
    using r(2) l2 stop(1) archive_same [OF a] guards_Inr [OF g] by (simp add: same_host_def)
  ultimately show ?thesis
    unfolding mihomo_replaced_def using guards_Inr [OF g] stop(2) r(1,3) by blast
qed


subsection \<open>The small gateway, mihomo restarted\<close>

definition routed_state :: runtime_state where
  "routed_state =
     (running_state ''b'')\<lparr>st_profile_digest := ''d'',
       st_snapshot := Some ((new_snapshot backend_linux_nftables (Some 0))
         \<lparr>sn_ipv4_forwarding := ''0'', sn_network_namespace := ''net:[1]'', sn_routing := Some (tun_routing small_cfg ''utun'')\<rparr>)\<rparr>"

definition routed_world :: world where
  "routed_world = empty_world\<lparr>w_state_file := Some routed_state\<rparr>"

lemma belongs_routed: "belongs_to_boot routed_state (en_boot (sample_env acting) v)"
  by (simp add: belongs_to_boot_def routed_state_def running_state_def new_snapshot_def go_eval)

lemma run_restart_guards: "\<exists>w'. restart_mihomo_guards calm_env small_cfg routed_world = (Inr routed_state, w')"
proof -
  have "w_state_file routed_world = Some routed_state" by (simp add: routed_world_def)
  moreover have "st_lifecycle routed_state = ''running''" "st_dns_frontend routed_state \<noteq> ''smartdns''" "st_profile_digest routed_state = ''d''"
    by (simp_all add: routed_state_def running_state_def zero_state_def)
  ultimately show ?thesis
    using belongs_routed unfolding calm_env_def
    by (simp add: restart_mihomo_guards_def load_running_state_def check_restart_def need_root_def load_state_def
      current_boot_def profile_digest_def run_simps run_call del: sample_env_simps(2) cong: run_congs)
qed

lemma run_retire:
  assumes "0 < st_pid_mihomo st" "st_mihomo_fingerprint st = ''f''"
  shows "\<exists>w'. retire_mihomo calm_env st w =
    (Inr (journaled (st\<lparr>st_pid_mihomo := 0, st_mihomo_fingerprint := [], st_routing_applied := False\<rparr>)), w')"
proof -
  let ?st = "journaled (st\<lparr>st_pid_mihomo := 0, st_mihomo_fingerprint := [], st_routing_applied := False\<rparr>)"
  obtain w1 where "save_state calm_env ?st w = (Inr (), w1)"
    using succeeds_save unfolding succeeds_def by fastforce
  then show ?thesis
    by (simp add: retire_mihomo_def Let_def assms run_stop_tracked run_simps cong: run_congs)
qed

lemma succeeds_launch [succeeds_intro]:
  "succeeds (archive_log calm_env s)" "succeeds (launch_mihomo calm_env st)"
proof -
  have ask: "succeeds (ask q f)" for q and f :: "world \<Rightarrow> 'a"
    by (simp add: succeeds_def run_call)
  show "succeeds (archive_log calm_env s)" "succeeds (launch_mihomo calm_env st)"
    unfolding archive_log_def launch_mihomo_def Let_def by (intro succeeds_intro ask)+
qed

lemma succeeds_repair:
  assumes "st_snapshot st = Some sn" "sn_routing sn = Some rt" "trim_space (rc_tun_device rt) \<noteq> []"
  shows "succeeds (repair_routing calm_env cfg st)"
proof -
  have "succeeds (replacement_recipe calm_env cfg rt)"
    using assms(3) by (auto simp: replacement_recipe_def Let_def succeeds_def calm_env_def run_simps run_call cong: run_congs)
  then have "succeeds (reapply_policy_routing calm_env cfg st)"
    unfolding reapply_policy_routing_def by (simp add: assms(1,2)) (intro succeeds_intro)
  then show ?thesis
    unfolding repair_routing_def by (intro succeeds_intro)
qed


subsection \<open>What a status of running stands for\<close>

definition may_run :: "env \<Rightarrow> service \<Rightarrow> int \<Rightarrow> string \<Rightarrow> bool" where
  "may_run env s p fp \<longleftrightarrow>
     0 < p \<and> (\<exists>v. en_running env v s p) \<and> (trim_space fp \<noteq> [] \<longrightarrow> (\<exists>v. en_matches env v p fp))"

lemma call_Inr:
  "do_query env q f w = (Inr x, w') \<Longrightarrow> x = f w"
  "ask q f w = (Inr x, w') \<Longrightarrow> x = f w"
  by (auto simp: do_query_def ask_def do_call_def answer_def split: option.splits)

lemma service_running_Inr: "service_running env s p w = (Inr b, w') \<Longrightarrow> b \<Longrightarrow> \<exists>v. en_running env v s p"
  by (auto simp: service_running_def dest!: call_Inr)

lemma process_matches_Inr: "process_matches env p fp w = (Inr b, w') \<Longrightarrow> b \<Longrightarrow> \<exists>v. en_matches env v p fp"
  by (auto simp: process_matches_def dest!: call_Inr)

lemma tracked_Inr:
  assumes "tracked_process_running env s p fp w = (Inr b, w')" "b"
  shows "may_run env s p fp"
proof (cases "trim_space fp = []")
  case True
  then show ?thesis
    using assms by (cases "0 < p") (auto simp: tracked_process_running_def may_run_def eret_Inr_iff dest: service_running_Inr)
next
  case False
  with assms have p: "0 < p" by (cases "0 < p") (auto simp: tracked_process_running_def eret_Inr_iff)
  with False assms obtain m w1 where m: "process_matches env p fp w = (Inr m, w1)"
      and r: "(if m then service_running env s p else eret False) w1 = (Inr b, w')"
    by (auto simp: tracked_process_running_def ecatch_Inr_iff ebind_Inr_iff eret_Inr_iff)
  with assms(2) have m': m and run: "service_running env s p w1 = (Inr b, w')"
    by (auto simp: eret_Inr_iff split: if_splits)
  have "\<exists>v. en_running env v s p" using run assms(2) by (rule service_running_Inr)
  then show ?thesis
    using process_matches_Inr [OF m m'] p unfolding may_run_def by blast
qed

lemma observe_mihomo_Inr:
  assumes "observe_mihomo env cfg gs w = (Inr gs', w')"
  shows "gs_runtime_state gs' = gs_runtime_state gs"
proof -
  from assms obtain p w1 where "gs' = (let gs1 = (case fst p of
                  Inl e \<Rightarrow> gs\<lparr>gs_mihomo := ''running'', gs_mihomo_error := Some e\<rparr>
                | Inr v \<Rightarrow> gs\<lparr>gs_mihomo := (if v = [] then ''running'' else ''running ('' @ v @ '')'')\<rparr>) in
       if \<not> gc_tun_enabled cfg then gs1
        else (case snd p of
                Inl e \<Rightarrow> gs1\<lparr>gs_tun := ''unknown'', gs_tun_error := Some e\<rparr>
              | Inr (enabled, dev) \<Rightarrow>
                  if enabled then gs1\<lparr>gs_tun := ''ready'', gs_tun_interface := dev\<rparr>
                  else gs1\<lparr>gs_tun := ''failed'', gs_tun_interface := dev,
                           gs_tun_error := Some (Msg ''mihomo runtime config reports TUN disabled'')\<rparr>))"
    unfolding observe_mihomo_def Let_def by (auto simp only: ebind_Inr_iff eret_Inr_iff split_beta)
  then show ?thesis by (auto simp: Let_def split: sum.split prod.split)
qed

lemma observe_nftables_Inr:
  "observe_nftables env cfg st gs w = (Inr gs', w') \<Longrightarrow> gs_gateway gs' = gs_gateway gs"
  by (cases "gs_data_plane gs \<noteq> ''tun-iif-route'' \<and> st_nat_applied st")
    (auto simp: observe_nftables_def success_iff)

definition routing_seen :: "env \<Rightarrow> runtime_state \<Rightarrow> bool" where
  "routing_seen env st \<longleftrightarrow>
     (\<forall>rt. state_routing st = Some rt \<longrightarrow> st_routing_applied st \<and> (\<exists>v. en_routing_present env v rt))"

lemma observe_routing_Inr:
  assumes "observe_routing env st gs w = (Inr gs', w')" "gs_gateway gs' = ''running''"
  shows "gs_gateway gs = ''running'' \<and> routing_seen env st"
proof (cases "state_routing st")
  case None
  then show ?thesis
    using assms by (auto simp: observe_routing_def routing_seen_def state_routing_def eret_Inr_iff split: option.splits)
next
  case (Some rt)
  then obtain sn where sn: "st_snapshot st = Some sn" "sn_routing sn = Some rt"
    by (auto simp: state_routing_def split: option.splits)
  show ?thesis
  proof (cases "\<not> st_routing_applied st \<or> \<not> ap_policy_routing (sn_applied sn)")
    case True
    then show ?thesis using assms sn by (auto simp: observe_routing_def eret_Inr_iff)
  next
    case False
    then have eq: "observe_routing env st gs = ecatch
        (ebind (do_check env NewBackend) (\<lambda>_.
         ebind (do_query env (AskRoutingPresent rt) (\<lambda>w. en_routing_present env w rt)) (\<lambda>present.
           eret (if present then gs\<lparr>gs_routing := ''applied''\<rparr>
                 else gs\<lparr>gs_routing := ''missing'', gs_gateway := ''degraded''\<rparr>))))
        (\<lambda>e. eret (gs\<lparr>gs_routing := ''unknown'', gs_routing_error := Some e, gs_gateway := ''degraded''\<rparr>))"
      using sn by (simp add: observe_routing_def)
    from assms(1) [unfolded eq ecatch_Inr_iff ebind_Inr_iff eret_Inr_iff] have "(\<exists>p w1 w2. do_query env (AskRoutingPresent rt) (\<lambda>w. en_routing_present env w rt) w1 = (Inr p, w2)
          \<and> gs' = (if p then gs\<lparr>gs_routing := ''applied''\<rparr> else gs\<lparr>gs_routing := ''missing'', gs_gateway := ''degraded''\<rparr>))
        \<or> gs_gateway gs' = ''degraded''"
      by (elim disjE exE conjE) (blast, simp)
    then obtain p w1 w2 where p: "do_query env (AskRoutingPresent rt) (\<lambda>w. en_routing_present env w rt) w1 = (Inr p, w2)"
        and gs': "gs' = (if p then gs\<lparr>gs_routing := ''applied''\<rparr> else gs\<lparr>gs_routing := ''missing'', gs_gateway := ''degraded''\<rparr>)"
      using assms(2) by (elim disjE exE conjE) simp_all
    from gs' assms(2) have present: p and running: "gs_gateway gs = ''running''" by (cases p; simp)+
    have "\<exists>v. en_routing_present env v rt" using call_Inr(1) [OF p] present by blast
    then show ?thesis using running False Some by (simp add: routing_seen_def)
  qed
qed

definition services_up :: "env \<Rightarrow> gw_config \<Rightarrow> runtime_state \<Rightarrow> bool" where
  "services_up env cfg st \<longleftrightarrow>
     may_run env Mihomo (st_pid_mihomo st) (st_mihomo_fingerprint st)
     \<and> (dhcp_should_run cfg \<or> gc_dhcp_enabled cfg \<longrightarrow> may_run env DNSMasq (st_pid_dnsmasq st) (st_dnsmasq_fingerprint st))
     \<and> (may_run env SmartDNS (st_pid_smartdns st) (st_smartdns_fingerprint st)
        \<or> st_dns_frontend st = [] \<and> may_run env DNSMasq (st_pid_dnsmasq st) (st_dnsmasq_fingerprint st))
     \<and> (st_lifecycle st = [] \<or> st_lifecycle st = ''running'')"

lemma observe_active_Inr:
  assumes "observe_active env cfg st gs w = (Inr gs', w')" "gs_gateway gs' = ''running''"
  shows "services_up env cfg st \<and> routing_seen env st"
proof -
  let ?gs = "gs\<lparr>gs_runtime_state := (if st_lifecycle st \<noteq> [] \<and> st_lifecycle st \<noteq> ''running'' then ''incomplete'' else ''active'')\<rparr>"
  from assms(1) obtain m w1 gs1 w2 d w3 s w4 gs4 gs5 w5 where
      m: "mihomo_alive env st w = (Inr m, w1)"
      and o: "(if m then observe_mihomo env cfg ?gs else eret ?gs) w1 = (Inr gs1, w2)"
      and d: "dnsmasq_alive env st w2 = (Inr d, w3)" and s: "smartdns_alive env st w3 = (Inr s, w4)"
      and r: "observe_routing env st gs4 w4 = (Inr gs5, w5)"
      and gs4: "gs_gateway gs4 = ''running'' \<Longrightarrow> gs_runtime_state gs1 = ''active'' \<and> (\<not> gc_dhcp_enabled cfg \<or> d)
          \<and> (\<not> dhcp_should_run cfg \<or> d) \<and> (s \<or> st_dns_frontend st = [] \<and> d) \<and> m"
      and n: "observe_nftables env cfg st gs5 w5 = (Inr gs', w')"
    unfolding observe_active_def Let_def ebind_Inr_iff
    apply (elim exE conjE)
    apply (rule that, assumption, assumption, assumption, assumption, assumption)
     apply (simp split: if_splits)
    apply assumption
    done
  have "gs_gateway gs5 = ''running''" using observe_nftables_Inr [OF n] assms(2) by simp
  then have "gs_gateway gs4 = ''running''" and seen: "routing_seen env st"
    using observe_routing_Inr [OF r] by simp_all
  then have up: "gs_runtime_state gs1 = ''active''" "gc_dhcp_enabled cfg \<or> dhcp_should_run cfg \<longrightarrow> d"
      "s \<or> st_dns_frontend st = [] \<and> d" m
    using gs4 by auto
  have "gs_runtime_state gs1 = gs_runtime_state ?gs"
    using o up(4) observe_mihomo_Inr by simp
  then have "st_lifecycle st = [] \<or> st_lifecycle st = ''running''" using up(1) by (auto split: if_splits)
  then show ?thesis
    using up seen tracked_Inr m d s unfolding services_up_def mihomo_alive_def dnsmasq_alive_def smartdns_alive_def by blast
qed

text \<open>A status of \<open>running\<close> is never guessed. It means that a state file of the current boot session and
  namespace is there whose last transition was completed, that mihomo, the DNS frontend (or, for a runtime
  recorded before the frontend existed, dnsmasq) and, where DHCP or the local resolver is wanted, dnsmasq
  were seen alive under their recorded identity, and that the recorded routing recipe is marked applied
  and was seen in the kernel. Asking for the status changes nothing.\<close>

theorem running_status_was_observed:
  assumes "status env cfg w = (r, w')"
  shows "same_host w w' \<and> (\<forall>gs. r = Inr gs \<and> gs_gateway gs = ''running'' \<longrightarrow>
    (\<exists>st v. w_state_file w = Some st \<and> belongs_to_boot st (en_boot env v)
       \<and> services_up env cfg st \<and> routing_seen env st))"
proof (intro conjI allI impI)
  show "same_host w w'" using assms by (rule same_hostD [rotated]) (rule sh.keeps_status)
  fix gs assume "r = Inr gs \<and> gs_gateway gs = ''running''"
  with assms have s: "status env cfg w = (Inr gs, w')" and g: "gs_gateway gs = ''running''" by simp_all
  from s obtain loaded w1 wanted clients w3 gs1 w4 where l: "load_state env w = (Inr loaded, w1)"
      and o: "(case loaded of None \<Rightarrow> eret (initial_status cfg wanted clients)
            | Some st \<Rightarrow> ebind (current_boot env) (\<lambda>boot.
                  if \<not> belongs_to_boot st boot
                  then eret ((status_of_state st (initial_status cfg wanted clients))
                    \<lparr>gs_gateway := ''degraded'', gs_runtime_state := ''interrupted''\<rparr>)
                  else observe_active env cfg st (status_of_state st (initial_status cfg wanted clients)))) w3 = (Inr gs1, w4)"
      and gs: "gs_gateway gs = gs_gateway gs1"
    unfolding status_def Let_def ebind_Inr_iff
    apply (elim exE conjE)
    apply (rule that, assumption, assumption)
    apply (simp only: ecatch_Inr_iff ebind_Inr_iff eret_Inr_iff)
    apply (elim disjE exE conjE; simp)
    done
  show "\<exists>st v. w_state_file w = Some st \<and> belongs_to_boot st (en_boot env v)
       \<and> services_up env cfg st \<and> routing_seen env st"
  proof (cases loaded)
    case None
    then show ?thesis using o gs g by (simp add: eret_Inr_iff initial_status_def)
  next
    case (Some st)
    with o obtain b w5 where b: "current_boot env w3 = (Inr b, w5)"
        and a: "(if \<not> belongs_to_boot st b
                  then eret ((status_of_state st (initial_status cfg wanted clients))
                    \<lparr>gs_gateway := ''degraded'', gs_runtime_state := ''interrupted''\<rparr>)
                  else observe_active env cfg st (status_of_state st (initial_status cfg wanted clients))) w5 = (Inr gs1, w4)"
      by (auto simp only: option.case ebind_Inr_iff)
    have belongs: "belongs_to_boot st b" using a gs g by (cases "belongs_to_boot st b") (simp_all add: eret_Inr_iff)
    moreover have "\<exists>v. b = en_boot env v"
      using b by (auto simp: current_boot_def ecatch_Inr_iff dest: call_Inr(1))
    moreover have "services_up env cfg st \<and> routing_seen env st"
      using observe_active_Inr a belongs gs g by simp
    moreover have "w_state_file w = Some st" using load_state_Inr [OF l] Some by simp
    ultimately show ?thesis by blast
  qed
qed

lemma run_alive: "tracked_process_running calm_env s p ''f'' w = (Inr (0 < p), if 0 < p
     then log_call (Query (AskRunning s p)) None (log_call (Query (AskMatches p ''f'')) None w) else w)"
proof -
  have "trim_space ''f'' \<noteq> []" by (simp add: go_eval)
  then show ?thesis
    by (simp add: tracked_process_running_def process_matches_def service_running_def calm_env_def run_simps run_call cong: run_congs)
qed

lemma run_status: "\<exists>gs w'. status calm_env small_cfg (running_world ''b'') = (Inr gs, w') \<and> gs_gateway gs = ''running''"
proof -
  have fields: "st_pid_mihomo (running_state ''b'') = 12" "st_pid_dnsmasq (running_state ''b'') = 11" "st_pid_smartdns (running_state ''b'') = 13"
      "st_mihomo_fingerprint (running_state ''b'') = ''f''" "st_dnsmasq_fingerprint (running_state ''b'') = ''f''"
      "st_smartdns_fingerprint (running_state ''b'') = ''f''" "st_lifecycle (running_state ''b'') = ''running''"
      "state_routing (running_state ''b'') = None" "\<not> st_nat_applied (running_state ''b'')"
    by (simp_all add: running_state_def zero_state_def state_routing_def new_snapshot_def)
  have routing: "observe_routing calm_env (running_state ''b'') gs w = (Inr gs, w)" for gs w
    by (simp add: observe_routing_def running_state_def new_snapshot_def run_simps)
  have query: "do_query calm_env q f w = (Inr (f w), log_call (Query q) None w)"
      and check: "do_check calm_env c w = (Inr (), log_call (Check c) None w)" for q c w and f :: "world \<Rightarrow> 'a"
    unfolding calm_env_def by (rule run_call)+
  have tun: "en_mihomo_tun calm_env w = (True, ''utun'')" "gc_tun_enabled small_cfg" for w
    by (simp_all add: calm_env_def sample_env_def small_cfg_def)
  have nftables: "observe_nftables calm_env small_cfg (running_state ''b'') gs w = (Inr gs, w)" for gs w
    by (simp add: observe_nftables_def fields run_simps)
  have mihomo: "\<exists>gs1 w1. observe_mihomo calm_env small_cfg gs w = (Inr gs1, w1) \<and> gs_tun gs1 = ''ready'' \<and> gs_runtime_state gs1 = gs_runtime_state gs" for gs w
    by (simp add: observe_mihomo_def fetch_mihomo_runtime_def fetch_def ebind_def eret_def query tun Let_def split: sum.split)
  have active: "\<exists>gs1 w1. observe_active calm_env small_cfg (running_state ''b'') gs w = (Inr gs1, w1) \<and> gs_gateway gs1 = ''running''" for gs w
  proof -
    let ?w = "log_call (Query (AskRunning Mihomo 12)) None (log_call (Query (AskMatches 12 ''f'')) None w)"
    obtain gs1 w1 where "observe_mihomo calm_env small_cfg (gs\<lparr>gs_runtime_state := ''active''\<rparr>) ?w = (Inr gs1, w1)"
        "gs_tun gs1 = ''ready''" "gs_runtime_state gs1 = ''active''"
      using mihomo [of "gs\<lparr>gs_runtime_state := ''active''\<rparr>" ?w] by auto
    then show ?thesis
      by (simp add: observe_active_def mihomo_alive_def dnsmasq_alive_def smartdns_alive_def fields Let_def run_simps run_alive
        routing nftables cong: run_congs)
  qed
  have boot: "current_boot calm_env w = (Inr (en_boot calm_env w), log_call (Query AskBoot) None w)" for w
    by (simp add: current_boot_def ecatch_def query)
  let ?w = "log_call (Query AskBoot) None (log_call (Query AskLeases) None (log_call (File ReadDesired) None
      (log_call (File ReadState) None (running_world ''b''))))"
  obtain gs1 w1 where a: "observe_active calm_env small_cfg (running_state ''b'')
      (status_of_state (running_state ''b'') (initial_status small_cfg True (en_lease_count calm_env
        (log_call (File ReadDesired) None (log_call (File ReadState) None (running_world ''b'')))))) ?w = (Inr gs1, w1)"
      "gs_gateway gs1 = ''running''"
    using active by blast
  have files: "w_state_file (running_world ''b'') = Some (running_state ''b'')" "w_desired_file (running_world ''b'') = None"
    by (simp_all add: running_world_def empty_world_def)
  have do_file: "do_file calm_env k id w = (Inr (), log_call (File k) None w)" for k w
    unfolding calm_env_def by (simp add: run_call)
  have b: "belongs_to_boot (running_state ''b'') (en_boot calm_env v)" for v
    unfolding calm_env_def by (rule belongs_running(1))
  show ?thesis
    using a by (simp add: status_def load_state_def load_gateway_desired_state_def Let_def do_file peek_def files query check boot b
      run_simps cong: run_congs)
qed

theorem running_status_was_observed_witness:
  "\<exists>gs w' st. status calm_env small_cfg (running_world ''b'') = (Inr gs, w') \<and> gs_gateway gs = ''running''
     \<and> w_state_file (running_world ''b'') = Some st \<and> services_up calm_env small_cfg st
     \<and> same_host (running_world ''b'') w'"
proof -
  obtain gs w' where run: "status calm_env small_cfg (running_world ''b'') = (Inr gs, w')" and "gs_gateway gs = ''running''"
    using run_status by blast
  then show ?thesis
    using running_status_was_observed [OF run] by blast
qed

end
