(* ===== verification/GoNumbers.thy ===== *)
theory GoNumbers
  imports GoNet
begin

text \<open>
  Unsigned numbers as text (\<open>strconv.ParseUint\<close>, \<open>%d\<close>, \<open>%x\<close>), the lines of a text, and the facts that
  what is printed is read back. Shared by the configuration files and the Linux backend.
\<close>

subsection \<open>\<open>strconv.ParseUint\<close>\<close>

text \<open>The value of a digit, a letter counting from ten.\<close>

definition any_digit :: "char \<Rightarrow> nat option" where
  "any_digit c =
     (if is_digit c then Some (digit_val c)
      else if is_letter_ascii c then Some (byte_of (lower_ascii c) - 97 + 10)
      else None)"

fun uint_digits :: "bool \<Rightarrow> nat \<Rightarrow> nat \<Rightarrow> string \<Rightarrow> nat option" where
  "uint_digits us base acc [] = Some acc"
| "uint_digits us base acc (c # cs) =
     (if us \<and> c = CHR ''_'' then uint_digits us base acc cs
      else (case any_digit c of
              None \<Rightarrow> None
            | Some d \<Rightarrow> if base \<le> d then None else uint_digits us base (acc * base + d) cs))"

text \<open>\<open>underscoreOK\<close>: an underscore stands between two digits, a base prefix counting as one. The state is
  what the last character was.\<close>

datatype seen = SeenDigit | SeenUnderscore | SeenOther

fun underscore_run :: "bool \<Rightarrow> seen \<Rightarrow> string \<Rightarrow> bool" where
  "underscore_run hex saw [] \<longleftrightarrow> saw \<noteq> SeenUnderscore"
| "underscore_run hex saw (c # cs) \<longleftrightarrow>
     (if is_digit c \<or> hex \<and> lower_ascii c \<in> set ''abcdef'' then underscore_run hex SeenDigit cs
      else if c = CHR ''_'' then saw = SeenDigit \<and> underscore_run hex SeenUnderscore cs
      else saw \<noteq> SeenUnderscore \<and> underscore_run hex SeenOther cs)"

definition underscore_ok :: "string \<Rightarrow> bool" where
  "underscore_ok s =
     (case s of
        z # b # cs \<Rightarrow>
          if z = CHR ''0'' \<and> lower_ascii b \<in> set ''box''
          then underscore_run (lower_ascii b = CHR ''x'') SeenDigit cs
          else underscore_run False SeenOther s
      | _ \<Rightarrow> underscore_run False SeenOther s)"

text \<open>\<open>ParseUint(s, 10, 32)\<close> and \<open>ParseUint(s, 0, 32)\<close>.\<close>

definition to_uint_word :: "nat option \<Rightarrow> 32 word option" where
  "to_uint_word n = (case n of None \<Rightarrow> None | Some v \<Rightarrow> if v < 2 ^ 32 then Some (of_nat v) else None)"

definition parse_uint10 :: "string \<Rightarrow> 32 word option" where
  "parse_uint10 s = (if s = [] then None else to_uint_word (uint_digits False 10 0 s))"

definition parse_uint0 :: "string \<Rightarrow> 32 word option" where
  "parse_uint0 s =
     (let r = (case s of
                 [] \<Rightarrow> None
               | z # cs \<Rightarrow>
                   if z \<noteq> CHR ''0'' then uint_digits True 10 0 s
                   else if 2 \<le> length cs \<and> lower_ascii (hd cs) = CHR ''b'' then uint_digits True 2 0 (tl cs)
                   else if 2 \<le> length cs \<and> lower_ascii (hd cs) = CHR ''o'' then uint_digits True 8 0 (tl cs)
                   else if 2 \<le> length cs \<and> lower_ascii (hd cs) = CHR ''x'' then uint_digits True 16 0 (tl cs)
                   else uint_digits True 8 0 cs)
      in if CHR ''_'' \<in> set s \<and> \<not> underscore_ok s then None else to_uint_word r)"

text \<open>\<open>%x\<close> of an unsigned number, and \<open>%08x\<close>.\<close>

fun hex_digits :: "nat \<Rightarrow> string" where
  "hex_digits n = (if n < 16 then [hex_digit n] else hex_digits (n div 16) @ [hex_digit (n mod 16)])"

declare hex_digits.simps [simp del]

definition pad8 :: "string \<Rightarrow> string" where
  "pad8 s = replicate (8 - length s) CHR ''0'' @ s"

definition uint_text :: "32 word \<Rightarrow> string" where
  "uint_text n = itoa (unat n)"

subsection \<open>Lines\<close>

abbreviation newline :: char where "newline \<equiv> CHR 0x0A"

text \<open>\<open>bufio.ScanLines\<close>: the last empty line is none, one carriage return at the end of a line is dropped.\<close>

definition drop_cr :: "string \<Rightarrow> string" where
  "drop_cr l = (if l \<noteq> [] \<and> last l = CHR 0x0D then butlast l else l)"

definition scan_lines :: "string \<Rightarrow> string list" where
  "scan_lines s =
     (let ls = split_on newline s in map drop_cr (if last ls = [] then butlast ls else ls))"

subsection \<open>Printable texts\<close>

definition printable :: "char \<Rightarrow> bool" where
  "printable c \<longleftrightarrow> 32 < byte_of c \<and> byte_of c < 127"

text \<open>Texts with printable ASCII at both ends are trimmed; blanks in front of one fall away.\<close>

lemma space_len_printable: "s \<noteq> [] \<Longrightarrow> printable (hd s) \<Longrightarrow> space_len s = 0 \<and> space_len_rev s = 0"
proof -
  assume "s \<noteq> []" "printable (hd s)"
  then obtain c cs where s: "s = c # cs" and c: "printable c" by (cases s) auto
  have plain: "\<not> is_space_ascii c" "\<not> is_space2 c d" "\<not> is_space3 c d e" for d e
    using c unfolding printable_def is_space_ascii_def is_space2_def is_space3_def by linarith+
  have plain': "\<not> is_space2 d c" "\<not> is_space3 d e c" for d e
    using c unfolding printable_def is_space2_def is_space3_def by linarith+
  show ?thesis
    unfolding s by (cases cs; cases "tl cs") (simp_all add: space_len_def space_len_rev_def plain plain')
qed

lemma spaces_not_printable:
  "is_space_ascii c \<Longrightarrow> \<not> printable c" "is_space2 c d \<Longrightarrow> \<not> printable c \<and> \<not> printable d"
  "is_space3 c d e \<Longrightarrow> \<not> printable c \<and> \<not> printable d \<and> \<not> printable e"
  unfolding is_space_ascii_def is_space2_def is_space3_def printable_def by linarith+

lemma space_not_printable:
  "\<forall>c \<in> set (take (space_len s) s). \<not> printable c" "\<forall>c \<in> set (take (space_len_rev s) s). \<not> printable c"
  unfolding space_len_def space_len_rev_def
  by (auto dest: spaces_not_printable split: list.splits)

lemma trim_space_ends:
  "s \<noteq> [] \<Longrightarrow> printable (hd s) \<Longrightarrow> printable (last s) \<Longrightarrow> trim_space s = s"
  using space_len_printable [of s] space_len_printable [of "rev s"] by (simp add: trim_space_id hd_rev)

lemma trim_space_blank: "trim_space (CHR '' '' # s) = trim_space s"
proof -
  have "trim_left (CHR '' '' # s) = trim_left s"
    by (subst trim_left.simps) (simp add: space_len_def is_space_ascii_def)
  then show ?thesis by (simp add: trim_space_def)
qed

lemma trim_space_printable: "list_all printable s \<Longrightarrow> trim_space s = s"
  by (cases "s = []") (auto simp: list_all_iff intro!: trim_space_ends)

subsection \<open>Printed numbers are read back\<close>

lemma any_digit_decimal: "is_digit c \<Longrightarrow> any_digit c = Some (digit_val c) \<and> digit_val c < 10"
  unfolding any_digit_def digit_val_def is_digit_def by simp linarith

lemma digit_not_underscore: "is_digit c \<Longrightarrow> c \<noteq> CHR ''_''"
  by (auto simp: is_digit_def)

lemma uint_digits_decimal:
  "list_all is_digit s \<Longrightarrow> uint_digits us 10 acc s = digits_val acc s"
proof (induction s arbitrary: acc)
  case (Cons c cs)
  then have c: "is_digit c" "c \<noteq> CHR ''_''" and cs: "list_all is_digit cs"
    using digit_not_underscore by auto
  from any_digit_decimal [OF c(1)] show ?case
    using c Cons.IH [OF cs] by simp
qed simp

lemma to_uint_word_unat: "to_uint_word (Some (unat n)) = Some n" for n :: "32 word"
  using unsigned_less [of n] by (simp add: to_uint_word_def)

lemma uint_text_digits: "list_all is_digit (uint_text n)" "uint_text n \<noteq> []"
  using itoa_digits [of "unat n"] by (simp_all add: uint_text_def list_all_iff itoa_not_Nil)

lemma parse_uint10_text: "parse_uint10 (uint_text n) = Some n"
  using uint_text_digits [of n]
  by (simp add: parse_uint10_def uint_digits_decimal) (simp add: uint_text_def digits_val_itoa to_uint_word_unat)

lemma digit_printable: "is_digit c \<Longrightarrow> printable c"
  by (simp add: is_digit_def printable_def)

lemma trim_space_text: "trim_space (uint_text n) = uint_text n"
  by (rule trim_space_printable) (use uint_text_digits(1) [of n] digit_printable in \<open>auto simp: list_all_iff\<close>)

lemma digits_no_underscore: "list_all is_digit s \<Longrightarrow> CHR ''_'' \<notin> set s"
  using digit_not_underscore by (auto simp: list_all_iff)

lemma itoa_leading_zero:
  assumes "itoa n = CHR ''0'' # cs"
  shows "n = 0 \<and> cs = []"
proof -
  have zero: "digit_val CHR ''0'' = 0" by (simp add: digit_val_def)
  have small: "n < 10"
  proof (rule ccontr)
    assume "\<not> n < 10"
    then obtain c ds where "itoa n = c # ds" "digit_val c \<noteq> 0" using itoa_first [of n] by auto
    with assms zero show False by simp
  qed
  then have "itoa n = [char_of (48 + n)]" by (simp add: itoa.simps)
  moreover have "digit_val (char_of (48 + n)) = n" using is_digit_chr [OF small] by simp
  ultimately show ?thesis using assms zero by simp
qed

lemma parse_uint0_text: "parse_uint0 (uint_text n) = Some n"
proof -
  obtain c cs where s: "uint_text n = c # cs" using uint_text_digits(2) [of n] by (cases "uint_text n") auto
  have us: "CHR ''_'' \<notin> set (uint_text n)" using digits_no_underscore uint_text_digits(1) by blast
  show ?thesis
  proof (cases "c = CHR ''0''")
    case True
    then have "unat n = 0" "cs = []" using s itoa_leading_zero [of "unat n" cs] by (simp_all add: uint_text_def)
    then show ?thesis using s True to_uint_word_unat [of n] by (simp add: parse_uint0_def)
  next
    case False
    have "uint_digits True 10 0 (uint_text n) = Some (unat n)"
      using uint_digits_decimal [OF uint_text_digits(1)] by (simp add: uint_text_def digits_val_itoa)
    then show ?thesis using s False us by (simp add: parse_uint0_def to_uint_word_unat)
  qed
qed

lemma hex_digit_value:
  assumes "d < 16"
  shows "any_digit (hex_digit d) = Some d" "hex_digit d \<noteq> CHR ''_''" "printable (hex_digit d)"
proof -
  have "byte_of (hex_digit d) \<noteq> 95" using assms by (simp add: hex_digit_def)
  then show "hex_digit d \<noteq> CHR ''_''" by auto
  show "any_digit (hex_digit d) = Some d" "printable (hex_digit d)"
    using assms
    by (simp_all add: any_digit_def hex_digit_def digit_val_def is_digit_def is_letter_ascii_def is_lower_ascii_def
        is_upper_ascii_def lower_ascii_def printable_def)
qed

lemma uint_digits_append:
  "uint_digits us base acc (s @ t) = Option.bind (uint_digits us base acc s) (\<lambda>a. uint_digits us base a t)"
  by (induction us base acc s rule: uint_digits.induct) (auto split: option.split)

lemma hex_digits_facts:
  "uint_digits us 16 0 (hex_digits n) = Some n \<and> list_all printable (hex_digits n) \<and> CHR ''_'' \<notin> set (hex_digits n)
   \<and> hex_digits n \<noteq> []"
proof (induction n rule: hex_digits.induct)
  case (1 n)
  show ?case
  proof (cases "n < 16")
    case True
    then show ?thesis using hex_digit_value [OF True] by (auto simp: hex_digits.simps [of n])
  next
    case False
    have "n mod 16 < 16" by simp
    from hex_digit_value [OF this] show ?thesis
      using False 1 by (auto simp: hex_digits.simps [of n] uint_digits_append)
  qed
qed

end
