(* ===== verification/LinuxHost.thy ===== *)
theory LinuxHost
  imports RuntimeState GoNumbers
begin

text \<open>
  The ground of \<open>internal/platform/linux\<close>: network errors (\<open>errors.go\<close>), the runner and the validation
  of names that reach a command line (\<open>exec.go\<close>), decoded JSON, and the host. The host is the kernel
  with its tools \<open>ip\<close> and \<open>nft\<close> and the files under \<open>/proc\<close>: a parameter, of which each call gets an answer
  and a new kernel state, so that other programs may change things between any two calls. The output of
  a probe is given as its JSON syntax tree, \<open>None\<close> when it is no JSON.
\<close>

subsection \<open>\<open>errors.go\<close>\<close>

datatype net_code =
    InterfaceNotFound | InterfaceNotUp | LANIPMissing | LANIPConflict | SubnetInvalid | UpstreamUnreachable
  | UpstreamConflict | ForwardingUnavailable | TUNUnavailable | TUNTimeout | NFTablesUnavailable
  | NFTablesForeignTable | PolicyRoutingConflict | IPRoute2Unavailable | CapabilityMissing | NetworkModeUnsupported
  | SnapshotInvalid | SnapshotBackendMismatch | CommandFailed
  | PermissionDenied | InvalidArgument

fun code_text :: "net_code \<Rightarrow> string" where
  "code_text InterfaceNotFound = ''NETWORK_INTERFACE_NOT_FOUND''"
| "code_text InterfaceNotUp = ''NETWORK_INTERFACE_NOT_UP''"
| "code_text LANIPMissing = ''NETWORK_LAN_IP_MISSING''"
| "code_text LANIPConflict = ''NETWORK_LAN_IP_CONFLICT''"
| "code_text SubnetInvalid = ''NETWORK_SUBNET_INVALID''"
| "code_text UpstreamUnreachable = ''NETWORK_UPSTREAM_UNREACHABLE''"
| "code_text UpstreamConflict = ''NETWORK_UPSTREAM_CONFLICT''"
| "code_text ForwardingUnavailable = ''NETWORK_FORWARDING_UNAVAILABLE''"
| "code_text TUNUnavailable = ''NETWORK_TUN_UNAVAILABLE''"
| "code_text TUNTimeout = ''NETWORK_TUN_TIMEOUT''"
| "code_text NFTablesUnavailable = ''NETWORK_NFTABLES_UNAVAILABLE''"
| "code_text NFTablesForeignTable = ''NETWORK_NFTABLES_FOREIGN_TABLE''"
| "code_text PolicyRoutingConflict = ''NETWORK_POLICY_ROUTING_CONFLICT''"
| "code_text IPRoute2Unavailable = ''NETWORK_IPROUTE2_UNAVAILABLE''"
| "code_text CapabilityMissing = ''NETWORK_CAPABILITY_MISSING''"
| "code_text NetworkModeUnsupported = ''NETWORK_MODE_UNSUPPORTED''"
| "code_text SnapshotBackendMismatch = ''NETWORK_SNAPSHOT_BACKEND_MISMATCH''"
| "code_text SnapshotInvalid = ''NETWORK_SNAPSHOT_INVALID''"
| "code_text CommandFailed = ''NETWORK_COMMAND_FAILED''"
| "code_text PermissionDenied = ''NETWORK_PERMISSION_DENIED''"
| "code_text InvalidArgument = ''NETWORK_INVALID_ARGUMENT''"

text \<open>An error of the package: code, message and the text of the wrapped cause (the details map is left
  out), or an error of another package by its text.\<close>

datatype net_error = NetError net_code string "string option" | OtherError string

fun error_text :: "net_error \<Rightarrow> string" where
  "error_text (NetError c m cause) =
     code_text c @ '': '' @ m @ (case cause of None \<Rightarrow> [] | Some t \<Rightarrow> '': '' @ t)"
| "error_text (OtherError t) = t"

fun code_of :: "net_error \<Rightarrow> net_code" where
  "code_of (NetError c m cause) = c"
| "code_of (OtherError t) = CommandFailed"

subsection \<open>Names that reach a command line\<close>

definition is_interface_char :: "char \<Rightarrow> bool" where
  "is_interface_char c \<longleftrightarrow> is_letter_ascii c \<or> is_digit c \<or> c \<in> set ''._@-''"

definition validate_interface_name :: "string \<Rightarrow> net_error option" where
  "validate_interface_name name =
     (if name = [] then Some (NetError InvalidArgument ''interface name is empty'' None)
      else if \<not> (length name \<le> 15 \<and> list_all is_interface_char name)
      then Some (NetError InvalidArgument ''invalid interface name'' None)
      else None)"

definition is_table_char :: "char \<Rightarrow> bool" where
  "is_table_char c \<longleftrightarrow> is_lower_ascii c \<or> is_digit c \<or> c = CHR ''_'' \<or> c = CHR ''-''"

definition validate_table_name :: "string \<Rightarrow> net_error option" where
  "validate_table_name name =
     (case name of
        c # cs \<Rightarrow> if is_lower_ascii c \<and> length cs \<le> 31 \<and> list_all is_table_char cs then None
                  else Some (NetError InvalidArgument ''invalid nftables table name'' None)
      | [] \<Rightarrow> Some (NetError InvalidArgument ''invalid nftables table name'' None))"

definition validate_ipv4 :: "string \<Rightarrow> net_error + ip" where
  "validate_ipv4 s =
     (let ip = parse_ip (trim_space s) in
      if ip = [] \<or> to4 ip = [] then Inl (NetError InvalidArgument ''value is not an IPv4 address'' None)
      else Inr (to4 ip))"

definition validate_cidr :: "string \<Rightarrow> net_error + ipnet" where
  "validate_cidr s =
     (case parse_cidr (trim_space s) of
        Some (ip, net) \<Rightarrow> if to4 ip = [] then Inl (NetError SubnetInvalid ''value is not an IPv4 CIDR'' None) else Inr net
      | None \<Rightarrow> Inl (NetError SubnetInvalid ''value is not an IPv4 CIDR'' None))"

subsection \<open>Decoded JSON\<close>

datatype json = JNull | JBool bool | JNumber string | JString string | JArray "json list"
  | JObject "(string \<times> json) list"

text \<open>\<open>json.Unmarshal\<close> into a Go value: \<open>None\<close> is a type error. A key is matched to a struct field up to
  case; a null leaves the field as it is; of a repeated key the last one counts.\<close>

definition field_values :: "string \<Rightarrow> (string \<times> json) list \<Rightarrow> json list" where
  "field_values name kvs = map snd (filter (\<lambda>(k, _). equal_fold k name) kvs)"

fun decode_string :: "string \<Rightarrow> json list \<Rightarrow> string option" where
  "decode_string cur [] = Some cur"
| "decode_string cur (JNull # vs) = decode_string cur vs"
| "decode_string cur (JString s # vs) = decode_string s vs"
| "decode_string cur (_ # vs) = None"

definition string_field :: "string \<Rightarrow> (string \<times> json) list \<Rightarrow> string option" where
  "string_field name kvs = decode_string [] (field_values name kvs)"

text \<open>\<open>strconv.ParseInt\<close> on a JSON number literal, into a Go \<open>int\<close>.\<close>

definition parse_json_int :: "string \<Rightarrow> int option" where
  "parse_json_int s =
     (let (neg, ds) = (case s of c # cs \<Rightarrow> if c = CHR ''-'' then (True, cs) else (False, s) | [] \<Rightarrow> (False, s)) in
      case parse_digits ds of
        None \<Rightarrow> None
      | Some n \<Rightarrow> (let v = (if neg then - int n else int n) in
                  if - (2 ^ 63) \<le> v \<and> v < 2 ^ 63 then Some v else None))"

fun decode_int :: "int \<Rightarrow> json list \<Rightarrow> int option" where
  "decode_int cur [] = Some cur"
| "decode_int cur (JNull # vs) = decode_int cur vs"
| "decode_int cur (JNumber s # vs) = (case parse_json_int s of None \<Rightarrow> None | Some n \<Rightarrow> decode_int n vs)"
| "decode_int cur (_ # vs) = None"

definition int_field :: "string \<Rightarrow> (string \<times> json) list \<Rightarrow> int option" where
  "int_field name kvs = decode_int 0 (field_values name kvs)"

text \<open>A slice, and a slice that is a field.\<close>

primrec decode_all :: "('a \<Rightarrow> 'b option) \<Rightarrow> 'a list \<Rightarrow> 'b list option" where
  "decode_all f [] = Some []"
| "decode_all f (x # xs) =
     (case f x of None \<Rightarrow> None
      | Some y \<Rightarrow> (case decode_all f xs of None \<Rightarrow> None | Some ys \<Rightarrow> Some (y # ys)))"

fun decode_slice :: "(json \<Rightarrow> 'b option) \<Rightarrow> json \<Rightarrow> 'b list option" where
  "decode_slice f JNull = Some []"
| "decode_slice f (JArray xs) = decode_all f xs"
| "decode_slice f _ = None"

definition slice_field :: "string \<Rightarrow> (json \<Rightarrow> 'b option) \<Rightarrow> (string \<times> json) list \<Rightarrow> 'b list option" where
  "slice_field name f kvs =
     (case field_values name kvs of [] \<Rightarrow> Some [] | vs \<Rightarrow> decode_slice f (last vs))"

text \<open>The members of an object; a null is the zero value.\<close>

fun decode_object :: "json \<Rightarrow> (string \<times> json) list option" where
  "decode_object JNull = Some []"
| "decode_object (JObject kvs) = Some kvs"
| "decode_object _ = None"

definition decode_string_item :: "json \<Rightarrow> string option" where
  "decode_string_item v = decode_string [] [v]"

subsection \<open>The host\<close>

text \<open>The clock is in nanoseconds. \<open>ho_select d i\<close> is \<open>select\<close> over the end of a context with deadline \<open>d\<close> and
  \<open>time.After(i)\<close>: it waits, and \<open>True\<close> says that the end of the context was taken.\<close>

text \<open>How a command fails: the text of the error, and the two outputs. \<open>ProbeAborted\<close> is the probe pool
  giving up before the command has an answer.\<close>

datatype cmd_failure = CmdFailure string string string

datatype probe_failure = ProbeFailed cmd_failure | ProbeAborted string

datatype file_failure = NotExist string | FileFailure string

datatype temp_step = TempCreate | TempWrite string | TempSync | TempClose | TempChmod | TempRemove

record 'k host =
  ho_ip :: string
  ho_nft :: string
  ho_run :: "string list \<Rightarrow> 'k \<Rightarrow> cmd_failure option \<times> 'k"
  ho_load :: "string \<Rightarrow> 'k \<Rightarrow> cmd_failure option \<times> 'k"
  ho_probe :: "string list \<Rightarrow> 'k \<Rightarrow> (probe_failure + json option) \<times> 'k"
  ho_text :: "string list \<Rightarrow> 'k \<Rightarrow> (probe_failure + string) \<times> 'k"
  ho_read :: "string \<Rightarrow> 'k \<Rightarrow> (file_failure + string) \<times> 'k"
  ho_writable :: "string \<Rightarrow> 'k \<Rightarrow> bool \<times> 'k"
  ho_write :: "string \<Rightarrow> string \<Rightarrow> 'k \<Rightarrow> string option \<times> 'k"
  ho_temp :: "temp_step \<Rightarrow> 'k \<Rightarrow> string option \<times> 'k"
  ho_namespace :: "'k \<Rightarrow> (string + string) \<times> 'k"
  ho_stat :: "string \<Rightarrow> 'k \<Rightarrow> (file_failure + bool) \<times> 'k"
  ho_open :: "string \<Rightarrow> 'k \<Rightarrow> string option \<times> 'k"
  ho_context :: "'k \<Rightarrow> string option \<times> 'k"
  ho_now :: "'k \<Rightarrow> int"
  ho_select :: "int \<Rightarrow> int \<Rightarrow> 'k \<Rightarrow> bool \<times> 'k"

datatype host_call = Run "string list" | LoadRuleset string | Probe "string list" | TextProbe "string list"
  | ReadProc string | TestWritable string | WriteProc string string | Temp temp_step | ReadNamespace | StatFile string | OpenFile string | CheckContext
  | Select int int

text \<open>What changes the kernel.\<close>

fun mutation :: "host_call \<Rightarrow> bool" where
  "mutation (Run argv) = True"
| "mutation (LoadRuleset t) = True"
| "mutation (WriteProc p v) = True"
| "mutation c = False"

record active_config =
  ac_routing :: "routing_config option"
  ac_nat :: "nat_config option"

record 'k levent =
  le_call :: host_call
  le_ok :: bool
  le_kernel :: 'k

record 'k lworld =
  lw_kernel :: 'k
  lw_log :: "'k levent list"
  lw_active :: "active_config option"

type_synonym ('k, 'a) lx = "('k lworld, net_error, 'a) em"

text \<open>One call: the answer and the new kernel state come from the host; the log records the call, whether
  it succeeded and the kernel it left.\<close>

definition host_call :: "host_call \<Rightarrow> ('k \<Rightarrow> (net_error + 'a) \<times> 'k) \<Rightarrow> ('k, 'a) lx" where
  "host_call c f = (\<lambda>w. case f (lw_kernel w) of
     (r, k) \<Rightarrow> (r, w\<lparr>lw_kernel := k,
       lw_log := lw_log w @ [\<lparr>le_call = c, le_ok = (case r of Inl _ \<Rightarrow> False | Inr _ \<Rightarrow> True), le_kernel = k\<rparr>]\<rparr>))"

subsection \<open>The runner\<close>

definition command_error :: "string list \<Rightarrow> cmd_failure \<Rightarrow> net_error" where
  "command_error argv f =
     (case f of CmdFailure err out1 out2 \<Rightarrow>
        let msg = (if trim_space out1 = [] then trim_space out2 else trim_space out1);
            base = hd argv @ '' '' @ join '' '' (tl argv) @ '' failed: '' @ err;
            code = (if contains_sub msg ''Operation not permitted'' \<or> contains_sub msg ''Permission denied''
                    then PermissionDenied
                    else if contains_sub msg ''Cannot find device'' \<or> contains_sub msg ''No such device''
                    then InterfaceNotFound else CommandFailed)
        in NetError code (if msg = [] then base else base @ '': '' @ msg) (Some err))"

definition is_not_exist :: "net_error \<Rightarrow> bool" where
  "is_not_exist e =
     list_ex (\<lambda>needle. contains_sub (error_text e) needle)
       [''No such file or directory'', ''No such device'', ''No such process'', ''Cannot find device'',
        ''FIB table does not exist'', ''does not exist'', ''not found'']"

definition run_command :: "'k host \<Rightarrow> string list \<Rightarrow> ('k, unit) lx" where
  "run_command h argv =
     (if hd argv = [] then efail (NetError InvalidArgument ''command name is empty'' None)
      else host_call (Run argv) (\<lambda>k. case ho_run h argv k of
             (None, k') \<Rightarrow> (Inr (), k') | (Some f, k') \<Rightarrow> (Inl (command_error argv f), k')))"

fun probe_error :: "string list \<Rightarrow> probe_failure \<Rightarrow> net_error" where
  "probe_error argv (ProbeFailed f) = command_error argv f"
| "probe_error argv (ProbeAborted t) = OtherError t"

definition probe :: "'k host \<Rightarrow> string list \<Rightarrow> ('k, json option) lx" where
  "probe h argv =
     (if hd argv = [] then efail (NetError InvalidArgument ''command name is empty'' None)
      else host_call (Probe argv) (\<lambda>k. case ho_probe h argv k of
             (Inl f, k') \<Rightarrow> (Inl (probe_error argv f), k') | (Inr j, k') \<Rightarrow> (Inr j, k')))"

definition text_probe :: "'k host \<Rightarrow> string list \<Rightarrow> ('k, string) lx" where
  "text_probe h argv =
     (if hd argv = [] then efail (NetError InvalidArgument ''command name is empty'' None)
      else host_call (TextProbe argv) (\<lambda>k. case ho_text h argv k of
             (Inl f, k') \<Rightarrow> (Inl (probe_error argv f), k') | (Inr t, k') \<Rightarrow> (Inr t, k')))"

text \<open>The decoded output of a probe, or the error of parsing it.\<close>

definition probe_json :: "'k host \<Rightarrow> string list \<Rightarrow> string \<Rightarrow> (json \<Rightarrow> 'a option) \<Rightarrow> ('k, 'a) lx" where
  "probe_json h argv what decode =
     ebind (probe h argv) (\<lambda>out.
       case (case out of None \<Rightarrow> None | Some j \<Rightarrow> decode j) of
         None \<Rightarrow> efail (NetError CommandFailed what (Some ''invalid JSON''))
       | Some v \<Rightarrow> eret v)"

subsection \<open>Files under \<open>/proc/sys\<close>\<close>

definition read_proc :: "'k host \<Rightarrow> string \<Rightarrow> ('k, file_failure + string) lx" where
  "read_proc h path =
     host_call (ReadProc path) (\<lambda>k. case ho_read h path k of
       (Inl f, k') \<Rightarrow> (Inr (Inl f), k') | (Inr s, k') \<Rightarrow> (Inr (Inr (trim_space s)), k'))"

definition proc_writable :: "'k host \<Rightarrow> string \<Rightarrow> ('k, bool) lx" where
  "proc_writable h path =
     host_call (TestWritable path) (\<lambda>k. case ho_writable h path k of (b, k') \<Rightarrow> (Inr b, k'))"

definition put_proc :: "'k host \<Rightarrow> string \<Rightarrow> string \<Rightarrow> ('k, unit) lx" where
  "put_proc h path value =
     host_call (WriteProc path value) (\<lambda>k. case ho_write h path value k of
       (None, k') \<Rightarrow> (Inr (), k')
     | (Some t, k') \<Rightarrow> (Inl (NetError ForwardingUnavailable (''write '' @ path @ '': '' @ t) (Some t)), k'))"

definition check_context :: "'k host \<Rightarrow> ('k, unit) lx" where
  "check_context h =
     host_call CheckContext (\<lambda>k. case ho_context h k of (None, k') \<Rightarrow> (Inr (), k') | (Some t, k') \<Rightarrow> (Inl (OtherError t), k'))"

text \<open>\<open>writeProcSys\<close>: nothing is written when the value is there already.\<close>

definition write_proc_sys :: "'k host \<Rightarrow> string \<Rightarrow> string \<Rightarrow> ('k, bool) lx" where
  "write_proc_sys h path value =
     ebind (read_proc h path) (\<lambda>before.
       case before of
         Inr v \<Rightarrow> if v = value then eret False else ebind (put_proc h path value) (\<lambda>_. eret True)
       | Inl _ \<Rightarrow>
           ebind (proc_writable h path) (\<lambda>writable.
           ebind (eguard writable (NetError ForwardingUnavailable
                    (path @ '' is not writable; configure the sysctl in Compose instead of running privileged'') None)) (\<lambda>_.
           ebind (put_proc h path value) (\<lambda>_. eret True))))"

definition file_failure_text :: "file_failure \<Rightarrow> string" where
  "file_failure_text f = (case f of NotExist t \<Rightarrow> t | FileFailure t \<Rightarrow> t)"

definition proc_ipv4_forward :: string where "proc_ipv4_forward = ''/proc/sys/net/ipv4/ip_forward''"
definition proc_conf_dir :: string where "proc_conf_dir = ''/proc/sys/net/ipv4/conf''"

end
