(* ===== verification/LinuxRouting.thy ===== *)
theory LinuxRouting
  imports LinuxHost
begin

text \<open>
  \<open>internal/platform/linux/routing.go\<close>: reading the policy rules and the dedicated table back, proving
  that nobody else uses them, and installing and removing the rule, the guard and the two routes.
\<close>

subsection \<open>Configurations\<close>

record net_config =
  nf_lan_interface :: string
  nf_lan_ip :: string
  nf_lan_cidr :: string
  nf_upstream_interface :: string
  nf_upstream_gateway :: string
  nf_nft_table_name :: string
  nf_fw_mark :: "32 word"
  nf_route_table_id :: "32 word"
  nf_route_rule_priority :: "32 word"
  nf_same_lan :: bool
  nf_skip_ownership_check :: bool

definition effective_rule_mode :: "routing_config \<Rightarrow> string" where
  "effective_rule_mode cfg = (if rc_rule_mode cfg = [] then routing_rule_fwmark else rc_rule_mode cfg)"

definition mark_hex :: "32 word \<Rightarrow> string" where
  "mark_hex m = ''0x'' @ hex_digits (unat m)"

definition guard_rule_priority :: "routing_config \<Rightarrow> net_error + 32 word" where
  "guard_rule_priority cfg =
     (if effective_rule_mode cfg \<noteq> routing_rule_ingress then Inr 0
      else if rc_rule_priority cfg = NOT 0
      then Inl (NetError InvalidArgument ''routing rule priority leaves no room for the fail-closed guard rule'' None)
      else Inr (rc_rule_priority cfg + 1))"

definition rule_spec :: "routing_config \<Rightarrow> string" where
  "rule_spec cfg =
     (if effective_rule_mode cfg = routing_rule_ingress
      then ''pref '' @ uint_text (rc_rule_priority cfg) @ '' iif '' @ rc_lan_interface cfg @ '' lookup '' @ uint_text (rc_table_id cfg)
      else ''pref '' @ uint_text (rc_rule_priority cfg) @ '' fwmark '' @ mark_hex (rc_fw_mark cfg) @ '' lookup '' @ uint_text (rc_table_id cfg))"

subsection \<open>Rules as \<open>ip -j rule show\<close> prints them\<close>

type_synonym ip_rule = "(string \<times> json) list"

text \<open>\<open>map[string]json.RawMessage\<close>: keys are exact, of a repeated one the last counts.\<close>

definition raw_field :: "ip_rule \<Rightarrow> string \<Rightarrow> json option" where
  "raw_field rule key = map_of (rev rule) key"

fun parse_raw_uint32 :: "json \<Rightarrow> 32 word option" where
  "parse_raw_uint32 (JString t) = parse_uint0 (trim_space t)"
| "parse_raw_uint32 (JNumber n) = parse_uint10 n"
| "parse_raw_uint32 _ = None"

definition rule_field :: "ip_rule \<Rightarrow> string \<Rightarrow> 32 word option" where
  "rule_field rule key = (case raw_field rule key of None \<Rightarrow> None | Some raw \<Rightarrow> parse_raw_uint32 raw)"

fun rule_string_field :: "ip_rule \<Rightarrow> string list \<Rightarrow> string option" where
  "rule_string_field rule [] = None"
| "rule_string_field rule (key # keys) =
     (case raw_field rule key of
        Some (JString s) \<Rightarrow> if trim_space s \<noteq> [] then Some (trim_space s) else rule_string_field rule keys
      | _ \<Rightarrow> rule_string_field rule keys)"

definition rule_iif :: "ip_rule \<Rightarrow> string option" where
  "rule_iif rule = rule_string_field rule [''iif'', ''iifname'']"

definition is_single_ipv4_source :: "string \<Rightarrow> bool" where
  "is_single_ipv4_source s =
     (let src = trim_space s;
          single = (\<lambda>a. parse_ip a \<noteq> [] \<and> to4 (parse_ip a) \<noteq> [])
      in if has_suffix src ''/32'' then single (trim_suffix src ''/32'')
         else if CHR ''/'' \<in> set src then False
         else single src)"

definition qnap_host_dns_route_table_id :: "32 word" where "qnap_host_dns_route_table_id = 20243"
definition qnap_host_dns_udp_priority :: "32 word" where "qnap_host_dns_udp_priority = 20239"
definition qnap_host_dns_tcp_priority :: "32 word" where "qnap_host_dns_tcp_priority = 20240"

definition is_owned_qnap_host_dns_rule :: "ip_rule \<Rightarrow> net_config \<Rightarrow> bool" where
  "is_owned_qnap_host_dns_rule rule cfg \<longleftrightarrow>
     nf_same_lan cfg
     \<and> rule_field rule ''priority'' \<in> {Some qnap_host_dns_udp_priority, Some qnap_host_dns_tcp_priority}
     \<and> rule_field rule ''table'' = Some qnap_host_dns_route_table_id
     \<and> rule_iif rule = Some (nf_lan_interface cfg)
     \<and> (case rule_string_field rule [''src''] of None \<Rightarrow> False
        | Some src \<Rightarrow> src \<noteq> ''all'' \<and> src \<noteq> ''0.0.0.0/0'' \<and> is_single_ipv4_source src)
     \<and> rule_string_field rule [''ipproto''] \<in> {Some ''tcp'', Some ''udp''}
     \<and> rule_field rule ''dport'' = Some 53"

definition rule_matches_config :: "ip_rule \<Rightarrow> routing_config \<Rightarrow> bool" where
  "rule_matches_config rule cfg \<longleftrightarrow>
     rule_field rule ''priority'' = Some (rc_rule_priority cfg)
     \<and> rule_field rule ''table'' = Some (rc_table_id cfg)
     \<and> (if effective_rule_mode cfg = routing_rule_ingress
        then rule_iif rule = Some (rc_lan_interface cfg)
        else rule_field rule ''fwmark'' = Some (rc_fw_mark cfg))"

definition guard_rule_matches_config :: "ip_rule \<Rightarrow> routing_config \<Rightarrow> bool" where
  "guard_rule_matches_config rule cfg \<longleftrightarrow>
     effective_rule_mode cfg = routing_rule_ingress
     \<and> (case guard_rule_priority cfg of Inl _ \<Rightarrow> False | Inr p \<Rightarrow> rule_field rule ''priority'' = Some p)
     \<and> rule_iif rule = Some (rc_lan_interface cfg)
     \<and> (case rule_string_field rule [''action'', ''type''] of None \<Rightarrow> False | Some a \<Rightarrow> equal_fold a ''prohibit'')"

definition policy_rules :: "'k host \<Rightarrow> ('k, ip_rule list) lx" where
  "policy_rules h =
     probe_json h [ho_ip h, ''-j'', ''rule'', ''show''] ''parse ip -j rule show output'' (decode_slice decode_object)"

definition rule_present :: "'k host \<Rightarrow> routing_config \<Rightarrow> ('k, bool) lx" where
  "rule_present h cfg = ebind (policy_rules h) (\<lambda>rules. eret (list_ex (\<lambda>r. rule_matches_config r cfg) rules))"

definition guard_rule_present :: "'k host \<Rightarrow> routing_config \<Rightarrow> ('k, bool) lx" where
  "guard_rule_present h cfg =
     (if effective_rule_mode cfg \<noteq> routing_rule_ingress then eret True
      else ebind (policy_rules h) (\<lambda>rules. eret (list_ex (\<lambda>r. guard_rule_matches_config r cfg) rules)))"

subsection \<open>The dedicated table\<close>

definition table_probe :: "'k host \<Rightarrow> 32 word \<Rightarrow> string list" where
  "table_probe h tid = [ho_ip h, ''-j'', ''route'', ''show'', ''table'', uint_text tid]"

text \<open>A probe of something that does not exist has no output.\<close>

definition probe_existing :: "'k host \<Rightarrow> string list \<Rightarrow> ('k, json option option) lx" where
  "probe_existing h argv =
     ecatch (ebind (probe h argv) (\<lambda>out. eret (Some out)))
       (\<lambda>e. if is_not_exist e then eret None else efail e)"

definition decoded :: "string \<Rightarrow> (json \<Rightarrow> 'a option) \<Rightarrow> json option \<Rightarrow> ('k, 'a) lx" where
  "decoded what decode out =
     (case (case out of None \<Rightarrow> None | Some j \<Rightarrow> decode j) of
        None \<Rightarrow> efail (NetError CommandFailed what (Some ''invalid JSON''))
      | Some v \<Rightarrow> eret v)"

definition routing_table_has_entries :: "'k host \<Rightarrow> 32 word \<Rightarrow> ('k, bool) lx" where
  "routing_table_has_entries h tid =
     (if tid = 0 then eret False
      else ebind (probe_existing h (table_probe h tid)) (\<lambda>out.
        case out of
          None \<Rightarrow> eret False
        | Some j \<Rightarrow> ebind (decoded ''parse ip -j route output'' (decode_slice Some) j) (\<lambda>routes. eret (routes \<noteq> []))))"

record route_entry =
  re_dst :: string
  re_dev :: string
  re_gateway :: string

definition decode_route :: "json \<Rightarrow> route_entry option" where
  "decode_route v =
     (case decode_object v of
        None \<Rightarrow> None
      | Some kvs \<Rightarrow>
          (case (string_field ''dst'' kvs, string_field ''dev'' kvs, string_field ''gateway'' kvs) of
             (Some dst, Some dev, Some gw) \<Rightarrow> Some \<lparr>re_dst = dst, re_dev = dev, re_gateway = gw\<rparr>
           | _ \<Rightarrow> None))"

definition expected_egress :: "routing_config \<Rightarrow> string" where
  "expected_egress cfg =
     (if rc_direct_fallback cfg
      then (if trim_space (rc_upstream_interface cfg) = [] then rc_lan_interface cfg else rc_upstream_interface cfg)
      else rc_tun_device cfg)"

definition expected_gateway :: "routing_config \<Rightarrow> string" where
  "expected_gateway cfg = (if rc_direct_fallback cfg then rc_upstream_gateway cfg else [])"

definition route_destination :: "route_entry \<Rightarrow> string" where
  "route_destination r = (if trim_space (re_dst r) = [] then ''default'' else trim_space (re_dst r))"

text \<open>The loop over the routes; \<open>None\<close> is its early \<open>return false\<close>, the pair says what has been seen. The
  LAN is tested first, as in the code's \<open>switch\<close>.\<close>

fun match_routes :: "routing_config \<Rightarrow> bool \<times> bool \<Rightarrow> route_entry list \<Rightarrow> (bool \<times> bool) option" where
  "match_routes cfg seen [] = Some seen"
| "match_routes cfg (lan, dflt) (r # rs) =
     (if route_destination r = trim_space (rc_lan_cidr cfg) then
        if lan \<or> re_dev r \<noteq> rc_lan_interface cfg \<or> trim_space (re_gateway r) \<noteq> [] then None
        else match_routes cfg (True, dflt) rs
      else if route_destination r = ''default'' then
        if dflt \<or> re_dev r \<noteq> expected_egress cfg
           \<or> trim_space (re_gateway r) \<noteq> trim_space (expected_gateway cfg) then None
        else match_routes cfg (lan, True) rs
      else None)"

definition table_matches :: "routing_config \<Rightarrow> route_entry list \<Rightarrow> bool" where
  "table_matches cfg routes =
     (case match_routes cfg (False, False) routes of
        None \<Rightarrow> False | Some (lan, dflt) \<Rightarrow> length routes = 2 \<and> lan \<and> dflt)"

definition routing_table_matches :: "'k host \<Rightarrow> routing_config \<Rightarrow> ('k, bool) lx" where
  "routing_table_matches h cfg =
     (if rc_table_id cfg = 0 then eret False
      else ebind (probe_existing h (table_probe h (rc_table_id cfg))) (\<lambda>out.
        case out of
          None \<Rightarrow> eret False
        | Some j \<Rightarrow> ebind (decoded ''parse policy routing table'' (decode_slice decode_route) j) (\<lambda>routes.
            eret (table_matches cfg routes))))"

definition policy_routing_present :: "'k host \<Rightarrow> routing_config \<Rightarrow> ('k, bool) lx" where
  "policy_routing_present h cfg =
     ebind (rule_present h cfg) (\<lambda>present.
       if \<not> present then eret False
       else
         ebind (if effective_rule_mode cfg = routing_rule_ingress then guard_rule_present h cfg else eret True) (\<lambda>guard.
           if \<not> guard then eret False else routing_table_matches h cfg))"

subsection \<open>Installing\<close>

definition guard_add :: "'k host \<Rightarrow> routing_config \<Rightarrow> 32 word \<Rightarrow> string list" where
  "guard_add h cfg p = [ho_ip h, ''rule'', ''add'', ''pref'', uint_text p, ''iif'', rc_lan_interface cfg, ''prohibit'']"

definition lan_route_add :: "'k host \<Rightarrow> routing_config \<Rightarrow> string list" where
  "lan_route_add h cfg =
     [ho_ip h, ''route'', ''replace'', rc_lan_cidr cfg, ''dev'', rc_lan_interface cfg, ''scope'', ''link'', ''table'',
      uint_text (rc_table_id cfg)]"

definition default_route_add :: "'k host \<Rightarrow> routing_config \<Rightarrow> string list" where
  "default_route_add h cfg =
     [ho_ip h, ''route'', ''replace'', ''default'']
     @ (if rc_direct_fallback cfg then [''via'', rc_upstream_gateway cfg, ''dev'', expected_egress cfg]
        else [''dev'', rc_tun_device cfg])
     @ [''table'', uint_text (rc_table_id cfg)]"

definition rule_selector :: "routing_config \<Rightarrow> string list" where
  "rule_selector cfg =
     [''pref'', uint_text (rc_rule_priority cfg)]
     @ (if effective_rule_mode cfg = routing_rule_ingress then [''iif'', rc_lan_interface cfg]
        else [''fwmark'', mark_hex (rc_fw_mark cfg)])
     @ [''table'', uint_text (rc_table_id cfg)]"

definition rule_add :: "'k host \<Rightarrow> routing_config \<Rightarrow> string list" where
  "rule_add h cfg = [ho_ip h, ''rule'', ''add''] @ rule_selector cfg"

definition check_routing_config :: "routing_config \<Rightarrow> net_error option" where
  "check_routing_config cfg =
     vthen (validate_interface_name (rc_lan_interface cfg))
     (vthen (case validate_cidr (rc_lan_cidr cfg) of Inl e \<Rightarrow> Some e | Inr _ \<Rightarrow> None)
     (vthen (fail_if (rc_table_id cfg = 0 \<or> rc_rule_priority cfg = 0)
              (NetError InvalidArgument ''routing table id and rule priority must be set'' None))
       (if effective_rule_mode cfg = routing_rule_fwmark then
          fail_if (rc_fw_mark cfg = 0)
            (NetError InvalidArgument ''fwmark must be non-zero in fwmark routing mode'' None)
        else if effective_rule_mode cfg = routing_rule_ingress then validate_interface_name (rc_lan_interface cfg)
        else Some (NetError InvalidArgument ''unsupported policy routing rule mode'' None))))"

text \<open>The guard comes before the table is touched.\<close>

definition install_guard :: "'k host \<Rightarrow> routing_config \<Rightarrow> ('k, unit) lx" where
  "install_guard h cfg =
     ewhen (effective_rule_mode cfg = routing_rule_ingress)
       (ebind (elift (guard_rule_priority cfg)) (\<lambda>p.
        ebind (guard_rule_present h cfg) (\<lambda>guard.
          ewhen (\<not> guard) (run_command h (guard_add h cfg p)))))"

definition install_default :: "'k host \<Rightarrow> routing_config \<Rightarrow> ('k, unit) lx" where
  "install_default h cfg =
     ebind (if rc_direct_fallback cfg
            then ebind (elift (validate_ipv4 (rc_upstream_gateway cfg))) (\<lambda>_.
                   eopt (validate_interface_name (expected_egress cfg)))
            else eopt (validate_interface_name (rc_tun_device cfg))) (\<lambda>_.
       run_command h (default_route_add h cfg))"

definition apply_policy_routing :: "'k host \<Rightarrow> routing_config \<Rightarrow> ('k, unit) lx" where
  "apply_policy_routing h cfg =
     ebind (eopt (check_routing_config cfg)) (\<lambda>_.
     ebind (install_guard h cfg) (\<lambda>_.
     ebind (run_command h (lan_route_add h cfg)) (\<lambda>_.
     ebind (install_default h cfg) (\<lambda>_.
     ebind (rule_present h cfg) (\<lambda>present.
       ewhen (\<not> present) (run_command h (rule_add h cfg)))))))"

subsection \<open>Removing\<close>

definition rule_del :: "'k host \<Rightarrow> routing_config \<Rightarrow> string list" where
  "rule_del h cfg = [ho_ip h, ''rule'', ''del''] @ rule_selector cfg"

definition lan_route_del :: "'k host \<Rightarrow> routing_config \<Rightarrow> string list" where
  "lan_route_del h cfg =
     [ho_ip h, ''route'', ''del'', rc_lan_cidr cfg, ''dev'', rc_lan_interface cfg, ''table'', uint_text (rc_table_id cfg)]"

definition default_route_del :: "'k host \<Rightarrow> routing_config \<Rightarrow> string list" where
  "default_route_del h cfg =
     [ho_ip h, ''route'', ''del'', ''default'']
     @ (if rc_direct_fallback cfg then [''via'', rc_upstream_gateway cfg, ''dev'', expected_egress cfg]
        else [''dev'', rc_tun_device cfg])
     @ [''table'', uint_text (rc_table_id cfg)]"

definition guard_del :: "'k host \<Rightarrow> routing_config \<Rightarrow> 32 word \<Rightarrow> string list" where
  "guard_del h cfg p = [ho_ip h, ''rule'', ''del'', ''pref'', uint_text p, ''iif'', rc_lan_interface cfg, ''prohibit'']"

text \<open>A step whose error becomes an entry of the list of failures.\<close>

definition noted :: "string \<Rightarrow> ('k, unit) lx \<Rightarrow> ('k, string list) lx" where
  "noted what m = ebind (eerr m) (\<lambda>e. eret (case e of None \<Rightarrow> [] | Some x \<Rightarrow> [what @ error_text x]))"

definition delete_existing :: "'k host \<Rightarrow> string list \<Rightarrow> ('k, unit) lx" where
  "delete_existing h argv =
     ecatch (run_command h argv) (\<lambda>e. if is_not_exist e then eret () else efail e)"

definition remove_rule :: "'k host \<Rightarrow> routing_config \<Rightarrow> ('k, string list) lx" where
  "remove_rule h cfg =
     ecatch
       (ebind (rule_present h cfg) (\<lambda>present.
          if present then noted ''delete rule: '' (delete_existing h (rule_del h cfg)) else eret []))
       (\<lambda>e. eret [''check rule: '' @ error_text e])"

definition remove_lan_route :: "'k host \<Rightarrow> routing_config \<Rightarrow> ('k, string list) lx" where
  "remove_lan_route h cfg =
     (if trim_space (rc_lan_cidr cfg) \<noteq> [] \<and> trim_space (rc_lan_interface cfg) \<noteq> []
      then noted ''delete LAN route: '' (delete_existing h (lan_route_del h cfg)) else eret [])"

definition remove_default_route :: "'k host \<Rightarrow> routing_config \<Rightarrow> ('k, string list) lx" where
  "remove_default_route h cfg =
     (if rc_direct_fallback cfg then
        if trim_space (rc_upstream_gateway cfg) \<noteq> [] \<and> trim_space (expected_egress cfg) \<noteq> []
        then noted ''delete direct-fallback route: '' (delete_existing h (default_route_del h cfg)) else eret []
      else if trim_space (rc_tun_device cfg) \<noteq> []
      then noted ''delete TUN route: '' (delete_existing h (default_route_del h cfg)) else eret [])"

definition remove_guard :: "'k host \<Rightarrow> routing_config \<Rightarrow> ('k, string list) lx" where
  "remove_guard h cfg =
     (if effective_rule_mode cfg \<noteq> routing_rule_ingress then eret []
      else
        ecatch
          (ebind (guard_rule_present h cfg) (\<lambda>guard.
             if \<not> guard then eret []
             else
               (case guard_rule_priority cfg of
                  Inl e \<Rightarrow> eret [''guard priority: '' @ error_text e]
                | Inr p \<Rightarrow> noted ''delete guard rule: '' (delete_existing h (guard_del h cfg p)))))
          (\<lambda>e. eret [''check guard rule: '' @ error_text e]))"

definition remove_policy_routing :: "'k host \<Rightarrow> routing_config \<Rightarrow> ('k, unit) lx" where
  "remove_policy_routing h cfg =
     (if rc_table_id cfg = 0 \<or> rc_rule_priority cfg = 0
         \<or> effective_rule_mode cfg = routing_rule_fwmark \<and> rc_fw_mark cfg = 0
      then eret ()
      else
        ebind (remove_rule h cfg) (\<lambda>f1.
        ebind (remove_lan_route h cfg) (\<lambda>f2.
        ebind (remove_default_route h cfg) (\<lambda>f3.
        ebind (remove_guard h cfg) (\<lambda>f4.
        let failures = f1 @ f2 @ f3 @ f4 in
          eguard (failures = [])
            (NetError CommandFailed (''remove policy routing: '' @ join ''; '' failures) None))))))"

end
