(* ===== verification/LinuxNft.thy ===== *)
theory LinuxNft
  imports LinuxRouting
begin

text \<open>
  \<open>internal/platform/linux/nftables.go\<close>: the ruleset OpenSurge installs, and the proof that a live table
  is its own before it is replaced or deleted; \<open>validateOwnership\<close> of \<open>routing.go\<close>.
\<close>

subsection \<open>The ruleset\<close>

definition default_table_name :: string where "default_table_name = ''opensurge''"
definition chain_prerouting :: string where "chain_prerouting = ''prerouting''"
definition chain_postrouting :: string where "chain_postrouting = ''postrouting''"
definition comment_prefix :: string where "comment_prefix = ''opensurge:''"

text \<open>\<open>%q\<close> of a string without quotes, backslashes and control characters.\<close>

definition quoted :: "string \<Rightarrow> string" where
  "quoted s = ''\"'' @ s @ ''\"''"

abbreviation tab :: string where "tab \<equiv> [CHR 0x09]"

definition nat_table :: "nat_config \<Rightarrow> string" where
  "nat_table cfg = (if trim_space (nc_table_name cfg) = [] then default_table_name else trim_space (nc_table_name cfg))"

definition nat_egress :: "nat_config \<Rightarrow> string" where
  "nat_egress cfg = (if trim_space (nc_upstream_interface cfg) = [] then nc_lan_interface cfg else nc_upstream_interface cfg)"

definition mark_text :: "32 word \<Rightarrow> string" where
  "mark_text m = ''0x'' @ pad8 (hex_digits (unat m))"

definition ruleset_lines :: "nat_config \<Rightarrow> string list" where
  "ruleset_lines cfg =
     (let t = nat_table cfg; mark = mark_text (nc_fw_mark cfg) in
      [''table inet '' @ t,
       ''delete table inet '' @ t,
       ''table inet '' @ t @ '' {'',
       tab @ ''chain '' @ chain_prerouting @ '' {'',
       tab @ tab @ ''type filter hook prerouting priority filter; policy accept;'',
       tab @ tab @ ''iifname '' @ quoted (nc_lan_interface cfg) @ '' ip daddr != '' @ nc_lan_cidr cfg
         @ '' meta mark set '' @ mark @ '' comment ''
         @ quoted (comment_prefix @ '' forward LAN traffic to the OpenSurge routing table''),
       tab @ ''}'',
       tab @ ''chain '' @ chain_postrouting @ '' {'',
       tab @ tab @ ''type nat hook postrouting priority srcnat; policy accept;'']
      @ (if nc_masquerade cfg
         then [tab @ tab @ ''meta mark '' @ mark @ '' oifname '' @ quoted (nat_egress cfg) @ '' masquerade comment ''
                 @ quoted (comment_prefix @ '' source NAT for direct fallback egress'')]
         else [])
      @ [tab @ ''}'', ''}''])"

definition check_nat_config :: "nat_config \<Rightarrow> net_error option" where
  "check_nat_config cfg =
     vthen (validate_interface_name (nc_lan_interface cfg))
     (vthen (validate_table_name (nat_table cfg))
     (vthen (case validate_cidr (nc_lan_cidr cfg) of Inl e \<Rightarrow> Some e | Inr _ \<Rightarrow> None)
     (vthen (if nc_tun_device cfg \<noteq> [] then validate_interface_name (nc_tun_device cfg) else None)
       (if nc_masquerade cfg then validate_interface_name (nat_egress cfg) else None))))"

definition render_ruleset :: "nat_config \<Rightarrow> net_error + string" where
  "render_ruleset cfg =
     (case check_nat_config cfg of
        Some e \<Rightarrow> Inl e
      | None \<Rightarrow> Inr (concat (map (\<lambda>l. l @ [newline]) (ruleset_lines cfg))))"

subsection \<open>The live tables\<close>

text \<open>\<open>nftTables\<close>: of each entry the name and the family of its table, empty for an entry of another kind.\<close>

definition decode_table_entry :: "json \<Rightarrow> (string \<times> string) option" where
  "decode_table_entry v =
     (case decode_object v of
        None \<Rightarrow> None
      | Some kvs \<Rightarrow>
          (case field_values ''table'' kvs of
             [] \<Rightarrow> Some ([], [])
           | ts \<Rightarrow>
               (case decode_object (last ts) of
                  None \<Rightarrow> None
                | Some t \<Rightarrow>
                    (case (string_field ''name'' t, string_field ''family'' t) of
                       (Some n, Some f) \<Rightarrow> Some (n, f) | _ \<Rightarrow> None))))"

definition decode_tables :: "json \<Rightarrow> (string \<times> string) list option" where
  "decode_tables v =
     (case decode_object v of None \<Rightarrow> None | Some kvs \<Rightarrow> slice_field ''nftables'' decode_table_entry kvs)"

definition nft_family :: string where "nft_family = ''inet''"

definition list_tables :: "'k host \<Rightarrow> ('k, string list) lx" where
  "list_tables h =
     ebind (probe_json h [ho_nft h, ''-j'', ''list'', ''tables''] ''parse nft list tables output'' decode_tables) (\<lambda>ts.
       eret (map fst (filter (\<lambda>(n, f). f = nft_family) ts)))"

definition table_exists :: "'k host \<Rightarrow> string \<Rightarrow> ('k, bool) lx" where
  "table_exists h t = ebind (list_tables h) (\<lambda>names. eret (t \<in> set names))"

subsection \<open>Ownership of a table\<close>

text \<open>What one member of one entry says; \<open>Foreign\<close> is an early \<open>return false\<close>.\<close>

datatype table_part = Foreign | Neutral | Prerouting | Postrouting | OwnRule

definition classify_chain :: "string \<Rightarrow> json \<Rightarrow> table_part" where
  "classify_chain table raw =
     (case decode_object raw of
        None \<Rightarrow> Foreign
      | Some kvs \<Rightarrow>
          (case (string_field ''table'' kvs, string_field ''name'' kvs) of
             (Some t, Some n) \<Rightarrow>
               if t \<noteq> table then Foreign
               else if n = chain_prerouting then Prerouting
               else if n = chain_postrouting then Postrouting
               else Foreign
           | _ \<Rightarrow> Foreign))"

definition classify_rule :: "string \<Rightarrow> json \<Rightarrow> table_part" where
  "classify_rule table raw =
     (case decode_object raw of
        None \<Rightarrow> Foreign
      | Some kvs \<Rightarrow>
          (case (string_field ''table'' kvs, string_field ''chain'' kvs, string_field ''comment'' kvs) of
             (Some t, Some c, Some m) \<Rightarrow>
               if t \<noteq> table then Foreign
               else if c \<noteq> chain_prerouting \<and> c \<noteq> chain_postrouting then Foreign
               else if \<not> has_prefix m comment_prefix then Foreign
               else OwnRule
           | _ \<Rightarrow> Foreign))"

definition classify_part :: "string \<Rightarrow> string \<times> json \<Rightarrow> table_part" where
  "classify_part table part =
     (case part of (kind, raw) \<Rightarrow>
        if kind = ''metainfo'' \<or> kind = ''table'' then Neutral
        else if kind = ''chain'' then classify_chain table raw
        else if kind = ''rule'' then classify_rule table raw
        else Foreign)"

text \<open>The members of the entries; a repeated key counts once, with its last value. The code ranges over
  a Go map here, in no fixed order: the result does not depend on it, as only membership is asked.\<close>

definition last_members :: "(string \<times> json) list \<Rightarrow> (string \<times> json) list" where
  "last_members kvs = map (\<lambda>k. (k, the (map_of (rev kvs) k))) (remdups (map fst kvs))"

definition owned_parts :: "string \<Rightarrow> (string \<times> json) list list \<Rightarrow> bool" where
  "owned_parts table entries =
     (let parts = map (classify_part table) (concat (map last_members entries)) in
      Foreign \<notin> set parts \<and> OwnRule \<in> set parts \<and> Prerouting \<in> set parts \<and> Postrouting \<in> set parts)"

definition decode_payload :: "json \<Rightarrow> (string \<times> json) list list option" where
  "decode_payload v =
     (case decode_object v of None \<Rightarrow> None | Some kvs \<Rightarrow> slice_field ''nftables'' decode_object kvs)"

definition table_owned :: "'k host \<Rightarrow> string \<Rightarrow> ('k, bool) lx" where
  "table_owned h table =
     ebind (probe_existing h [ho_nft h, ''-j'', ''list'', ''table'', nft_family, table]) (\<lambda>out.
       case out of
         None \<Rightarrow> eret False
       | Some j \<Rightarrow> ebind (decoded ''parse nft table ownership output'' decode_payload j) (\<lambda>entries.
           eret (owned_parts table entries)))"

subsection \<open>Replacing and deleting the table\<close>

definition foreign_table :: "string \<Rightarrow> net_error" where
  "foreign_table what = NetError NFTablesForeignTable what None"

text \<open>The ownership of an existing table; a table that is not there is nobody's.\<close>

definition check_owned :: "'k host \<Rightarrow> string \<Rightarrow> string \<Rightarrow> ('k, bool) lx" where
  "check_owned h table what =
     ebind (table_exists h table) (\<lambda>exists.
       if \<not> exists then eret False
       else
         ebind (table_owned h table) (\<lambda>owned.
         ebind (eguard owned (foreign_table what)) (\<lambda>_. eret True)))"

definition temp_file :: "'k host \<Rightarrow> temp_step \<Rightarrow> string \<Rightarrow> ('k, unit) lx" where
  "temp_file h s what =
     host_call (Temp s) (\<lambda>k. case ho_temp h s k of
       (None, k') \<Rightarrow> (Inr (), k') | (Some t, k') \<Rightarrow> (Inl (NetError CommandFailed what (Some t)), k'))"

text \<open>An error while the file is open closes it; the file is removed in the end.\<close>

definition load_ruleset :: "'k host \<Rightarrow> string \<Rightarrow> ('k, unit) lx" where
  "load_ruleset h text =
     ebind (temp_file h TempCreate ''create nftables ruleset file'') (\<lambda>_.
       efinally
         (ebind (ecatch
             (ebind (temp_file h (TempWrite text) ''write nftables ruleset file'') (\<lambda>_.
                temp_file h TempSync ''sync nftables ruleset file''))
             (\<lambda>e. ebind (eerr (temp_file h TempClose ''close nftables ruleset file'')) (\<lambda>_. efail e))) (\<lambda>_.
          ebind (temp_file h TempClose ''close nftables ruleset file'') (\<lambda>_.
          ebind (temp_file h TempChmod ''chmod nftables ruleset file'') (\<lambda>_.
            host_call (LoadRuleset text) (\<lambda>k. case ho_load h text k of
              (None, k') \<Rightarrow> (Inr (), k')
            | (Some f, k') \<Rightarrow> (Inl (command_error [ho_nft h, ''-f''] f), k'))))))
         (temp_file h TempRemove ''remove nftables ruleset file''))"

definition apply_nat_table :: "'k host \<Rightarrow> nat_config \<Rightarrow> ('k, unit) lx" where
  "apply_nat_table h cfg =
     ebind (eguard (ho_nft h \<noteq> []) (NetError NFTablesUnavailable ''nft not found in PATH'' None)) (\<lambda>_.
     ebind (check_owned h (nat_table cfg)
              ''refusing to replace an nftables table whose OpenSurge ownership cannot be proven'') (\<lambda>_.
     ebind (elift (render_ruleset cfg)) (\<lambda>text.
       load_ruleset h text)))"

definition remove_nat_table :: "'k host \<Rightarrow> string \<Rightarrow> ('k, unit) lx" where
  "remove_nat_table h name =
     ebind (eguard (ho_nft h \<noteq> []) (NetError NFTablesUnavailable ''nft not found in PATH'' None)) (\<lambda>_.
     let table = (if trim_space name = [] then default_table_name else name) in
     ebind (eopt (validate_table_name table)) (\<lambda>_.
     ebind (check_owned h table
              ''refusing to delete an nftables table whose OpenSurge ownership cannot be proven'') (\<lambda>owned.
       ewhen owned (run_command h [ho_nft h, ''delete'', ''table'', nft_family, table]))))"

definition describe_table :: "'k host \<Rightarrow> string \<Rightarrow> ('k, string) lx" where
  "describe_table h table =
     ebind (table_exists h table) (\<lambda>exists.
       if \<not> exists then eret [] else text_probe h [ho_nft h, ''list'', ''table'', nft_family, table])"

definition nft_capabilities :: "'k host \<Rightarrow> ('k, bool \<times> bool \<times> string) lx" where
  "nft_capabilities h =
     (if ho_nft h = [] then eret (False, False, [])
      else
        ebind (ecatch (text_probe h [ho_nft h, ''--version'']) (\<lambda>_. eret [])) (\<lambda>version.
        ebind (ecatch (ebind (probe h [ho_nft h, ''-j'', ''list'', ''tables'']) (\<lambda>_. eret True)) (\<lambda>_. eret False)) (\<lambda>json_ok.
          eret (True, json_ok, trim_space version))))"

subsection \<open>Nobody else uses the table, the rule and the mark\<close>

definition rule_collides :: "net_config \<Rightarrow> ip_rule \<Rightarrow> bool" where
  "rule_collides cfg rule \<longleftrightarrow>
     \<not> is_owned_qnap_host_dns_rule rule cfg
     \<and> (rule_field rule ''priority'' = Some (nf_route_rule_priority cfg)
        \<or> rule_field rule ''table'' = Some (nf_route_table_id cfg)
        \<or> (if nf_same_lan cfg
            then rule_field rule ''priority'' = Some (nf_route_rule_priority cfg + 1)
                 \<or> rule_iif rule = Some (nf_lan_interface cfg)
            else rule_field rule ''fwmark'' = Some (nf_fw_mark cfg)))"

definition conflict :: "string \<Rightarrow> net_error" where
  "conflict what = NetError PolicyRoutingConflict what None"

definition check_nft_free :: "'k host \<Rightarrow> net_config \<Rightarrow> ('k, unit) lx" where
  "check_nft_free h cfg =
     (let name = (if trim_space (nf_nft_table_name cfg) = [] then default_table_name else trim_space (nf_nft_table_name cfg)) in
      ebind (eopt (validate_table_name name)) (\<lambda>_.
      ebind (table_exists h name) (\<lambda>exists.
        eguard (\<not> exists)
          (foreign_table ''the requested nftables table already exists; OpenSurge will not overwrite an unproven owner''))))"

definition validate_ownership :: "'k host \<Rightarrow> net_config \<Rightarrow> ('k, unit) lx" where
  "validate_ownership h cfg =
     ebind (ewhen (\<not> nf_same_lan cfg) (check_nft_free h cfg)) (\<lambda>_.
     ebind (eguard (nf_route_table_id cfg \<noteq> 0 \<and> nf_route_rule_priority cfg \<noteq> 0 \<and> (nf_same_lan cfg \<or> nf_fw_mark cfg \<noteq> 0))
              (NetError InvalidArgument
                 ''route table id and rule priority must be non-zero, and nft mode also requires a non-zero fwmark'' None)) (\<lambda>_.
     ebind (eguard (\<not> (nf_same_lan cfg \<and> nf_route_rule_priority cfg = NOT 0))
              (NetError InvalidArgument ''route rule priority leaves no room for the fail-closed guard rule'' None)) (\<lambda>_.
     ebind (routing_table_has_entries h (nf_route_table_id cfg)) (\<lambda>entries.
     ebind (eguard (\<not> entries) (conflict ''the requested policy routing table already contains routes'')) (\<lambda>_.
     ebind (policy_rules h) (\<lambda>rules.
       eguard (\<not> list_ex (rule_collides cfg) rules)
         (conflict ''an existing policy rule collides with the requested selector, priority, guard or table'')))))))"

end
