(* ===== verification/LinuxBackend.thy ===== *)
theory LinuxBackend
  imports LinuxNft
begin

text \<open>
  \<open>internal/platform/linux\<close>: interfaces and the checks before a start (interfaces.go), forwarding and
  reverse-path filters (forwarding.go, routing.go), the wait for the TUN device (tun.go) and the methods
  of the backend (backend.go), among them \<open>Restore\<close>, the cleanup from a persisted snapshot.
\<close>

subsection \<open>Interfaces\<close>

record interface =
  if_name :: string
  if_index :: int
  if_mtu :: int
  if_hardware_addr :: string
  if_flags :: "string list"
  if_ipv4 :: "string list"
  if_ipv6 :: "string list"

definition is_up :: "interface \<Rightarrow> bool" where
  "is_up i \<longleftrightarrow> ''up'' \<in> set (if_flags i)"

definition before_slash :: "string \<Rightarrow> string" where
  "before_slash s = takeWhile (\<lambda>c. c \<noteq> CHR ''/'') s"

definition has_ipv4 :: "interface \<Rightarrow> string \<Rightarrow> bool" where
  "has_ipv4 i addr \<longleftrightarrow>
     (let target = parse_ip addr in
      target \<noteq> [] \<and> list_ex (\<lambda>c. parse_ip (before_slash c) \<noteq> [] \<and> ip_equal (parse_ip (before_slash c)) target) (if_ipv4 i))"

definition int_text :: "int \<Rightarrow> string" where
  "int_text n = (if n < 0 then CHR ''-'' # itoa (nat (- n)) else itoa (nat n))"

text \<open>An entry of \<open>addr_info\<close>: family and printed address.\<close>

definition decode_addr_info :: "json \<Rightarrow> (string \<times> string) option" where
  "decode_addr_info v =
     (case decode_object v of
        None \<Rightarrow> None
      | Some kvs \<Rightarrow>
          (case (string_field ''family'' kvs, string_field ''local'' kvs, int_field ''prefixlen'' kvs) of
             (Some fam, Some loc, Some n) \<Rightarrow> Some (fam, if n > 0 then loc @ ''/'' @ int_text n else loc)
           | _ \<Rightarrow> None))"

definition of_family :: "string \<Rightarrow> (string \<times> string) list \<Rightarrow> string list" where
  "of_family fam infos = map snd (filter (\<lambda>(f, _). f = fam) infos)"

definition decode_interface :: "json \<Rightarrow> interface option" where
  "decode_interface v =
     (case decode_object v of
        None \<Rightarrow> None
      | Some kvs \<Rightarrow>
          (case (int_field ''ifindex'' kvs, string_field ''ifname'' kvs, int_field ''mtu'' kvs,
                 slice_field ''flags'' decode_string_item kvs, string_field ''address'' kvs,
                 slice_field ''addr_info'' decode_addr_info kvs) of
             (Some idx, Some name, Some mtu, Some flags, Some address, Some infos) \<Rightarrow>
               Some \<lparr>if_name = name, if_index = idx, if_mtu = mtu, if_hardware_addr = address,
                     if_flags = map to_lower flags, if_ipv4 = of_family ''inet'' infos, if_ipv6 = of_family ''inet6'' infos\<rparr>
           | _ \<Rightarrow> None))"

definition no_iproute :: net_error where
  "no_iproute = NetError IPRoute2Unavailable ''iproute2 (ip) not found in PATH'' None"

definition detect_interfaces :: "'k host \<Rightarrow> ('k, interface list) lx" where
  "detect_interfaces h =
     ebind (eguard (ho_ip h \<noteq> []) no_iproute) (\<lambda>_.
       probe_json h [ho_ip h, ''-j'', ''addr'', ''show''] ''parse ip addr output'' (decode_slice decode_interface))"

definition interface_by_name :: "'k host \<Rightarrow> string \<Rightarrow> ('k, interface) lx" where
  "interface_by_name h name =
     ebind (eopt (validate_interface_name name)) (\<lambda>_.
     ebind (detect_interfaces h) (\<lambda>is.
       case find (\<lambda>i. if_name i = name) is of
         Some i \<Rightarrow> eret i
       | None \<Rightarrow> efail (NetError InterfaceNotFound ''network interface not found'' None)))"

subsection \<open>The checks before a start\<close>

definition check_upstream :: "'k host \<Rightarrow> net_config \<Rightarrow> ('k, unit) lx" where
  "check_upstream h cfg =
     ewhen (trim_space (nf_upstream_interface cfg) \<noteq> [])
       (ebind (eopt (validate_interface_name (nf_upstream_interface cfg))) (\<lambda>_.
        ebind (interface_by_name h (nf_upstream_interface cfg)) (\<lambda>i.
          eguard (is_up i) (NetError InterfaceNotUp ''upstream interface is not up'' None))))"

definition check_gateway :: "net_config \<Rightarrow> ip \<Rightarrow> ipnet \<Rightarrow> net_error option" where
  "check_gateway cfg lan_ip net =
     (let gateway = trim_space (nf_upstream_gateway cfg) in
      if gateway = [] then None
      else
        (case validate_ipv4 gateway of
           Inl _ \<Rightarrow> Some (NetError InvalidArgument ''upstream gateway is not an IPv4 address'' None)
         | Inr gw \<Rightarrow>
             vthen (fail_if (ip_equal gw lan_ip)
                      (NetError UpstreamConflict ''upstream gateway is the OpenSurge address itself'' None))
               (fail_if (nf_same_lan cfg \<and> \<not> net_contains net gw)
                  (NetError UpstreamUnreachable
                     ''upstream gateway is not inside the LAN subnet, so it is not reachable on-link in same-LAN mode'' None))))"

definition check_addresses :: "net_config \<Rightarrow> interface \<Rightarrow> net_error + ip" where
  "check_addresses cfg i =
     rbind (validate_ipv4 (nf_lan_ip cfg)) (\<lambda>lan_ip.
       if \<not> has_ipv4 i (ipv4_string lan_ip)
       then Inl (NetError LANIPMissing ''gateway LAN IP is not configured on the LAN interface'' None)
       else
         rbind (validate_cidr (nf_lan_cidr cfg)) (\<lambda>net.
           if \<not> net_contains net lan_ip
           then Inl (NetError SubnetInvalid ''gateway LAN IP is outside the configured LAN subnet'' None)
           else
             (case check_gateway cfg lan_ip net of Some e \<Rightarrow> Inl e | None \<Rightarrow> Inr lan_ip)))"

definition validate_topology :: "'k host \<Rightarrow> net_config \<Rightarrow> ('k, unit) lx" where
  "validate_topology h cfg =
     ebind (eopt (validate_interface_name (nf_lan_interface cfg))) (\<lambda>_.
     ebind (interface_by_name h (nf_lan_interface cfg)) (\<lambda>i.
     ebind (eguard (is_up i) (NetError InterfaceNotUp ''LAN interface is not up'' None)) (\<lambda>_.
     ebind (check_upstream h cfg) (\<lambda>_.
     ebind (elift (check_addresses cfg i)) (\<lambda>lan_ip.
     ebind (detect_interfaces h) (\<lambda>is.
     ebind (eguard (\<not> list_ex (\<lambda>c. if_name c \<noteq> nf_lan_interface cfg \<and> has_ipv4 c (ipv4_string lan_ip)) is)
              (NetError LANIPConflict
                 ''gateway LAN IP is also configured on another interface; remove the duplicate before starting'' None)) (\<lambda>_.
       ewhen (\<not> nf_skip_ownership_check cfg) (validate_ownership h cfg))))))))"

subsection \<open>Neighbours and the default route\<close>

record neighbour =
  nb_interface :: string
  nb_ipv4 :: string
  nb_mac :: string
  nb_reachable :: bool

definition decode_neighbour :: "json \<Rightarrow> neighbour option" where
  "decode_neighbour v =
     (case decode_object v of
        None \<Rightarrow> None
      | Some kvs \<Rightarrow>
          (case (string_field ''dev'' kvs, string_field ''to'' kvs, string_field ''lladdr'' kvs,
                 slice_field ''state'' decode_string_item kvs) of
             (Some dev, Some to, Some mac, Some states) \<Rightarrow>
               Some \<lparr>nb_interface = dev, nb_ipv4 = to, nb_mac = mac,
                     nb_reachable = list_ex (\<lambda>s. s \<in> {''REACHABLE'', ''STALE'', ''DELAY'', ''PROBE''}) states\<rparr>
           | _ \<Rightarrow> None))"

definition neighbours :: "'k host \<Rightarrow> string \<Rightarrow> ('k, neighbour list) lx" where
  "neighbours h iface =
     ebind (eopt (validate_interface_name iface)) (\<lambda>_.
     ebind (eguard (ho_ip h \<noteq> []) no_iproute) (\<lambda>_.
     ebind (probe_existing h [ho_ip h, ''-j'', ''neigh'', ''show'', ''dev'', iface]) (\<lambda>out.
       case out of
         None \<Rightarrow> eret []
       | Some j \<Rightarrow> decoded ''parse ip neigh output'' (decode_slice decode_neighbour) j)))"

definition default_route :: "'k host \<Rightarrow> ('k, string \<times> string) lx" where
  "default_route h =
     ebind (eguard (ho_ip h \<noteq> []) no_iproute) (\<lambda>_.
     ebind (probe_json h [ho_ip h, ''-j'', ''route'', ''show'', ''default''] ''parse ip route output''
              (decode_slice decode_route)) (\<lambda>routes.
       case find (\<lambda>r. re_dst r = [] \<or> re_dst r = ''default'') routes of
         Some r \<Rightarrow> eret (re_gateway r, re_dev r)
       | None \<Rightarrow> eret ([], [])))"

end
