(* ===== verification/LinuxRestore.thy ===== *)
theory LinuxRestore
  imports LinuxBackend
begin

text \<open>
  The methods of the Linux backend (backend.go) that apply and undo recipes, with forwarding.go, the
  reverse-path filters of routing.go, tun.go and the reports on capabilities and observed state.
\<close>

subsection \<open>Reverse-path filters and forwarding\<close>

definition rp_filter_path :: "string \<Rightarrow> string" where
  "rp_filter_path target = proc_conf_dir @ ''/'' @ target @ ''/rp_filter''"

definition rp_filter_targets :: "routing_config \<Rightarrow> string list" where
  "rp_filter_targets cfg =
     [''all'', ''default''] @ filter (\<lambda>t. t \<noteq> []) [rc_lan_interface cfg, rc_tun_device cfg]"

text \<open>Returns what was found, with the error that stopped the loop.\<close>

primrec set_rp_filter ::
  "'k host \<Rightarrow> (string \<times> string) list \<Rightarrow> string list \<Rightarrow> ('k, (string \<times> string) list \<times> net_error option) lx" where
  "set_rp_filter h previous [] = eret (previous, None)"
| "set_rp_filter h previous (t # ts) =
     ebind (read_proc h (rp_filter_path t)) (\<lambda>before.
       case before of
         Inl (NotExist _) \<Rightarrow> set_rp_filter h previous ts
       | Inl (FileFailure x) \<Rightarrow>
           eret (previous, Some (NetError ForwardingUnavailable (''read '' @ rp_filter_path t) (Some x)))
       | Inr v \<Rightarrow>
           let previous' = previous @ [(t, v)] in
           if v = ''0'' then set_rp_filter h previous' ts
           else
             ebind (eerr (ebind (write_proc_sys h (rp_filter_path t) ''0'') (\<lambda>_. eret ()))) (\<lambda>e.
               case e of None \<Rightarrow> set_rp_filter h previous' ts | Some x \<Rightarrow> eret (previous', Some x)))"

primrec rp_failures :: "'k host \<Rightarrow> (string \<times> string) list \<Rightarrow> ('k, string list) lx" where
  "rp_failures h [] = eret []"
| "rp_failures h (p # ps) =
     (case p of (target, value) \<Rightarrow>
       ebind (read_proc h (rp_filter_path target)) (\<lambda>before.
       ebind (case before of
                Inl (NotExist _) \<Rightarrow> eret []
              | Inl (FileFailure x) \<Rightarrow> eret [rp_filter_path target @ '': '' @ x]
              | Inr _ \<Rightarrow>
                  noted (rp_filter_path target @ '': '')
                    (ebind (write_proc_sys h (rp_filter_path target) value) (\<lambda>_. eret ()))) (\<lambda>f.
       ebind (rp_failures h ps) (\<lambda>fs. eret (f @ fs)))))"

definition restore_rp_filter :: "'k host \<Rightarrow> (string \<times> string) list \<Rightarrow> ('k, unit) lx" where
  "restore_rp_filter h previous =
     ebind (rp_failures h previous) (\<lambda>failures.
       eguard (failures = []) (NetError CommandFailed ''restore rp_filter'' None))"

definition current_ipv4_forwarding :: "'k host \<Rightarrow> ('k, string) lx" where
  "current_ipv4_forwarding h =
     ebind (read_proc h proc_ipv4_forward) (\<lambda>v.
       case v of
         Inl f \<Rightarrow> efail (NetError ForwardingUnavailable (''read '' @ proc_ipv4_forward) (Some (file_failure_text f)))
       | Inr s \<Rightarrow> eret s)"

text \<open>Returns the value before, which the restore closure writes back.\<close>

definition enable_ipv4_forwarding :: "'k host \<Rightarrow> ('k, string) lx" where
  "enable_ipv4_forwarding h =
     ebind (read_proc h proc_ipv4_forward) (\<lambda>v.
       case v of
         Inl f \<Rightarrow> efail (NetError ForwardingUnavailable
                    (''read '' @ proc_ipv4_forward @ ''; the container needs CAP_NET_ADMIN and a writable /proc/sys, ''
                     @ ''or Compose must set sysctls: net.ipv4.ip_forward=1'') (Some (file_failure_text f)))
       | Inr before \<Rightarrow>
           ebind (if before \<noteq> ''1'' then ebind (write_proc_sys h proc_ipv4_forward ''1'') (\<lambda>_. eret ()) else eret ()) (\<lambda>_.
             eret before))"

definition restore_forwarding :: "'k host \<Rightarrow> string \<Rightarrow> ('k, unit) lx" where
  "restore_forwarding h before =
     ewhen (before \<noteq> [])
       (ecatch (ebind (write_proc_sys h proc_ipv4_forward before) (\<lambda>_. eret ()))
          (\<lambda>e. efail (NetError ForwardingUnavailable (''restore '' @ proc_ipv4_forward @ '' to '' @ before) (Some (error_text e)))))"

definition ipv4_forwarding_enabled :: "'k host \<Rightarrow> ('k, bool) lx" where
  "ipv4_forwarding_enabled h =
     ebind (check_context h) (\<lambda>_. ebind (current_ipv4_forwarding h) (\<lambda>v. eret (v = ''1'')))"

subsection \<open>The TUN device\<close>

definition proc_tun :: string where "proc_tun = ''/dev/net/tun''"

definition stat_file :: "'k host \<Rightarrow> string \<Rightarrow> ('k, file_failure + bool) lx" where
  "stat_file h path = host_call (StatFile path) (\<lambda>k. case ho_stat h path k of (r, k') \<Rightarrow> (Inr r, k'))"

definition ensure_tun :: "'k host \<Rightarrow> ('k, unit) lx" where
  "ensure_tun h =
     ebind (check_context h) (\<lambda>_.
     ebind (stat_file h proc_tun) (\<lambda>info.
       case info of
         Inl (NotExist _) \<Rightarrow> efail (NetError TUNUnavailable
           ''/dev/net/tun is not present; enable TUN on the host and pass the device into the container'' None)
       | Inl (FileFailure x) \<Rightarrow> efail (NetError TUNUnavailable ''stat /dev/net/tun'' (Some x))
       | Inr is_device \<Rightarrow>
           ebind (eguard is_device (NetError TUNUnavailable ''/dev/net/tun is not a device node'' None)) (\<lambda>_.
             host_call (OpenFile proc_tun) (\<lambda>k. case ho_open h proc_tun k of
               (None, k') \<Rightarrow> (Inr (), k')
             | (Some x, k') \<Rightarrow>
                 (Inl (NetError TUNUnavailable ''/dev/net/tun cannot be opened; the container needs CAP_NET_ADMIN'' (Some x)), k')))))"

text \<open>\<open>Duration.String\<close> of the standard library, for the message of a timeout.\<close>

definition fraction_text :: "nat \<Rightarrow> nat \<Rightarrow> string" where
  "fraction_text places n =
     (let ds = itoa (n mod 10 ^ places);
          shown = rev (dropWhile (\<lambda>c. c = CHR ''0'') (rev (replicate (places - length ds) (CHR ''0'') @ ds)))
      in if shown = [] then [] else ''.'' @ shown)"

definition duration_text :: "int \<Rightarrow> string" where
  "duration_text d =
     (let n = nat \<bar>d\<bar>; s = n div 10 ^ 9;
          seconds = itoa (s mod 60) @ fraction_text 9 n @ ''s''
      in (if d < 0 then ''-'' else []) @
         (if n = 0 then ''0s''
          else if n < 10 ^ 3 then itoa n @ ''ns''
          else if n < 10 ^ 6 then itoa (n div 10 ^ 3) @ fraction_text 3 n @ [CHR 0xC2, CHR 0xB5] @ ''s''
          else if n < 10 ^ 9 then itoa (n div 10 ^ 6) @ fraction_text 6 n @ ''ms''
          else if s < 60 then seconds
          else if s < 3600 then itoa (s div 60) @ ''m'' @ seconds
          else itoa (s div 3600) @ ''h'' @ itoa (s div 60 mod 60) @ ''m'' @ seconds))"

definition poll_interval :: int where "poll_interval = 200000000"
definition default_tun_timeout :: int where "default_tun_timeout = 15000000000"

text \<open>The host as a caller sees it whose context ends at \<open>d\<close> (\<open>context.WithTimeout\<close>): the probe pool
  (\<open>process/probe.go\<close>) starts no probe after the deadline, and drops the answer of one that outlasted it. A pool without a free slot
  and a caller whose own context is done are answers of the host.\<close>

definition within_deadline :: "int \<Rightarrow> 'k host \<Rightarrow> 'k host" where
  "within_deadline d h =
     h\<lparr>ho_probe := (\<lambda>argv k.
         if d \<le> ho_now h k then (Inl (ProbeAborted ''context deadline exceeded''), k)
         else (case ho_probe h argv k of (r, k') \<Rightarrow>
                 (if d \<le> ho_now h k' then Inl (ProbeAborted ''context deadline exceeded'') else r, k')))\<rparr>"

text \<open>\<open>asPlatformError\<close> with the code \<open>CodeInterfaceNotFound\<close>.\<close>

fun interface_missing :: "net_error \<Rightarrow> bool" where
  "interface_missing (NetError c m t) = (c = InterfaceNotFound)"
| "interface_missing (OtherError t) = False"

definition select_done :: "'k host \<Rightarrow> int \<Rightarrow> ('k, bool) lx" where
  "select_done h d =
     host_call (Select d poll_interval) (\<lambda>k. case ho_select h d poll_interval k of (b, k') \<Rightarrow> (Inr b, k'))"

text \<open>The loop runs until the context ends; nothing in it bounds it, so that \<open>None\<close> would be a wait without end.\<close>

partial_function (option) poll_tun ::
  "'k host \<Rightarrow> int \<Rightarrow> string \<Rightarrow> string \<Rightarrow> 'k lworld \<Rightarrow> ((net_error + interface) \<times> 'k lworld) option" where
  "poll_tun h d timeout device w =
     (case interface_by_name (within_deadline d h) device w of
        (found, w1) \<Rightarrow>
          (case found of
             Inr i \<Rightarrow> Some (Inr i, w1)
           | Inl e \<Rightarrow>
               if \<not> interface_missing e then Some (Inl e, w1)
               else (case select_done h d w1 of
                       (over, w2) \<Rightarrow>
                         if over = Inr True
                         then Some (Inl (NetError TUNTimeout (''TUN device '' @ device @ '' did not appear within '' @ timeout)
                                     (Some (error_text e))), w2)
                         else poll_tun h d timeout device w2)))"

definition wait_for_tun :: "'k host \<Rightarrow> int \<Rightarrow> string \<Rightarrow> 'k lworld \<Rightarrow> ((net_error + interface) \<times> 'k lworld) option" where
  "wait_for_tun h tun_timeout device w =
     (case validate_interface_name device of
        Some e \<Rightarrow> Some (Inl e, w)
      | None \<Rightarrow>
          let timeout = (if tun_timeout \<le> 0 then default_tun_timeout else tun_timeout)
          in poll_tun h (ho_now h (lw_kernel w) + timeout) (duration_text timeout) device w)"

subsection \<open>Applying and undoing recipes\<close>

definition get_active :: "('k, active_config option) lx" where
  "get_active = (\<lambda>w. (Inr (lw_active w), w))"

definition change_active :: "(active_config \<Rightarrow> active_config) \<Rightarrow> ('k, unit) lx" where
  "change_active f =
     (\<lambda>w. (Inr (), w\<lparr>lw_active := Some (f (case lw_active w of
              None \<Rightarrow> \<lparr>ac_routing = None, ac_nat = None\<rparr> | Some a \<Rightarrow> a))\<rparr>))"

definition setup_nat :: "'k host \<Rightarrow> string \<Rightarrow> nat_config \<Rightarrow> ('k, unit) lx" where
  "setup_nat h table cfg0 =
     (let cfg = (if nc_table_name cfg0 = [] then cfg0\<lparr>nc_table_name := table\<rparr> else cfg0) in
      ebind (apply_nat_table h cfg) (\<lambda>_. change_active (\<lambda>a. a\<lparr>ac_nat := Some cfg\<rparr>)))"

definition remove_nat :: "'k host \<Rightarrow> string \<Rightarrow> ('k, unit) lx" where
  "remove_nat h table =
     ebind get_active (\<lambda>a.
       case (case a of None \<Rightarrow> None | Some ac \<Rightarrow> ac_nat ac) of
         None \<Rightarrow> remove_nat_table h table
       | Some n \<Rightarrow> remove_nat_table h (if trim_space (nc_table_name n) \<noteq> [] then nc_table_name n else table))"

definition setup_policy_routing :: "'k host \<Rightarrow> routing_config \<Rightarrow> ('k, unit) lx" where
  "setup_policy_routing h cfg =
     ebind (apply_policy_routing h cfg) (\<lambda>_. change_active (\<lambda>a. a\<lparr>ac_routing := Some cfg\<rparr>))"

definition remove_active_routing :: "'k host \<Rightarrow> ('k, unit) lx" where
  "remove_active_routing h =
     ebind get_active (\<lambda>a.
       case (case a of None \<Rightarrow> None | Some ac \<Rightarrow> ac_routing ac) of
         None \<Rightarrow> eret ()
       | Some r \<Rightarrow> remove_policy_routing h r)"

definition switch_to_direct_fallback :: "'k host \<Rightarrow> routing_config \<Rightarrow> ('k, unit) lx" where
  "switch_to_direct_fallback h cfg0 =
     ebind get_active (\<lambda>a.
     ebind (eguard (a \<noteq> None)
              (NetError InvalidArgument ''direct fallback requires an applied OpenSurge routing recipe'' None)) (\<lambda>_.
     let cfg = cfg0\<lparr>rc_direct_fallback := True\<rparr> in
     ebind (apply_policy_routing h cfg) (\<lambda>_.
     ebind (change_active (\<lambda>x. x\<lparr>ac_routing := Some cfg\<rparr>)) (\<lambda>_.
       if effective_rule_mode cfg = routing_rule_ingress then eret ()
       else
         (case (case a of None \<Rightarrow> None | Some ac \<Rightarrow> ac_nat ac) of
            None \<Rightarrow> efail (NetError InvalidArgument ''fwmark direct fallback requires the persisted/applied NAT recipe'' None)
          | Some n0 \<Rightarrow>
              if trim_space (nc_table_name n0) = []
              then efail (NetError InvalidArgument ''fwmark direct fallback requires the persisted/applied NAT recipe'' None)
              else
                let n = n0\<lparr>nc_masquerade := True, nc_upstream_gateway := rc_upstream_gateway cfg\<rparr> in
                ebind (apply_nat_table h n) (\<lambda>_. change_active (\<lambda>x. x\<lparr>ac_nat := Some n\<rparr>)))))))"

subsection \<open>Snapshot and restore\<close>

definition current_network_namespace :: "'k host \<Rightarrow> ('k, string) lx" where
  "current_network_namespace h =
     ebind (host_call ReadNamespace (\<lambda>k. case ho_namespace h k of
              (Inl x, k') \<Rightarrow> (Inl (NetError SnapshotInvalid ''cannot identify current Linux network namespace'' (Some x)), k')
            | (Inr v, k') \<Rightarrow> (Inr v, k'))) (\<lambda>v.
     ebind (eguard (trim_space v \<noteq> [])
              (NetError SnapshotInvalid ''current Linux network namespace identity is empty'' None)) (\<lambda>_.
       eret v))"

definition snapshot :: "'k host \<Rightarrow> int option \<Rightarrow> ('k, network_snapshot) lx" where
  "snapshot h now =
     ebind (check_context h) (\<lambda>_.
     ebind (current_network_namespace h) (\<lambda>ns.
     ebind (current_ipv4_forwarding h) (\<lambda>v.
       eret ((new_snapshot backend_linux_nftables now)\<lparr>sn_network_namespace := ns, sn_ipv4_forwarding := v\<rparr>))))"

definition snapshot_error_text :: "snapshot_error \<Rightarrow> string" where
  "snapshot_error_text e =
     (case e of
        SnapshotNil \<Rightarrow> ''network snapshot is nil''
      | SnapshotSchema n \<Rightarrow> ''network snapshot schema '' @ int_text n @ '' is not supported by this build ('' @ int_text snapshot_schema_version @ '')''
      | SnapshotBackend b \<Rightarrow> ''network snapshot was captured by backend '' @ quoted b @ '', not '' @ quoted backend_linux_nftables)"

definition undo_routing :: "'k host \<Rightarrow> network_snapshot \<Rightarrow> ('k, string list) lx" where
  "undo_routing h sn =
     (if \<not> ap_policy_routing (sn_applied sn) then eret []
      else
        (case sn_routing sn of
           None \<Rightarrow> eret [''policy routing journaled but routing recipe is missing'']
         | Some r \<Rightarrow> noted ''remove policy routing: '' (remove_policy_routing h r)))"

definition snapshot_table :: "network_snapshot \<Rightarrow> string" where
  "snapshot_table sn =
     (if sn_nftables_table sn \<noteq> [] then sn_nftables_table sn
      else (case sn_nat sn of None \<Rightarrow> [] | Some n \<Rightarrow> nc_table_name n))"

definition undo_nat :: "'k host \<Rightarrow> network_snapshot \<Rightarrow> ('k, string list) lx" where
  "undo_nat h sn =
     (if \<not> ap_nat (sn_applied sn) then eret []
      else if snapshot_table sn = [] then eret [''NAT journaled but nftables table name is missing'']
      else noted ''remove nftables table: '' (remove_nat_table h (snapshot_table sn)))"

definition undo_sysctls :: "'k host \<Rightarrow> network_snapshot \<Rightarrow> ('k, string list) lx" where
  "undo_sysctls h sn =
     ebind (if sn_rp_filter sn = [] then eret []
            else noted ''restore rp_filter: '' (restore_rp_filter h (sn_rp_filter sn))) (\<lambda>f1.
     ebind (if ap_ipv4_forwarding (sn_applied sn) \<and> sn_ipv4_forwarding sn \<noteq> []
            then noted ''restore ip_forward: ''
                   (ebind (write_proc_sys h proc_ipv4_forward (sn_ipv4_forwarding sn)) (\<lambda>_. eret ()))
            else eret []) (\<lambda>f2.
       eret (f1 @ f2)))"

definition undo_all :: "'k host \<Rightarrow> network_snapshot \<Rightarrow> ('k, unit) lx" where
  "undo_all h sn =
     ebind (undo_routing h sn) (\<lambda>f1.
     ebind (undo_nat h sn) (\<lambda>f2.
     ebind (undo_sysctls h sn) (\<lambda>f3.
     let failures = f1 @ f2 @ f3 in
       eguard (failures = [])
         (NetError CommandFailed (''restore network snapshot: '' @ join ''; '' failures) None))))"

definition restore :: "'k host \<Rightarrow> network_snapshot option \<Rightarrow> ('k, unit) lx" where
  "restore h s =
     ebind (eopt (map_option (\<lambda>e. OtherError (snapshot_error_text e)) (validate_snapshot backend_linux_nftables s))) (\<lambda>_.
       case s of
         None \<Rightarrow> eret ()
       | Some sn \<Rightarrow>
           ebind (current_network_namespace h) (\<lambda>ns.
           ebind (eguard (sn_network_namespace sn \<noteq> [])
                    (NetError SnapshotInvalid ''network snapshot does not contain a namespace identity'' None)) (\<lambda>_.
             if ns \<noteq> sn_network_namespace sn then eret () else undo_all h sn)))"

end
