(* ===== verification/LinuxLogic.thy ===== *)
theory LinuxLogic
  imports LinuxRestore "HOL-Library.Sublist"
begin

text \<open>
  Reasoning about the Linux backend. \<open>observer\<close> is the interface between an invariant and the read-only
  operations: what the invariant has to survive is that other programs change the kernel at a call.
  \<open>operator\<close> adds the mutations the invariant allows, and every operation of the backend then keeps it.
\<close>

subsection \<open>Printable names\<close>

lemma printable_interface_char: "is_interface_char c \<Longrightarrow> printable c"
  by (auto simp: is_interface_char_def printable_def is_letter_ascii_def is_upper_ascii_def is_lower_ascii_def is_digit_def)

lemma valid_interface_name:
  assumes "validate_interface_name name = None"
  shows "name \<noteq> []" "trim_space name = name"
proof -
  have *: "name \<noteq> []" "list_all is_interface_char name"
    using assms by (auto simp: validate_interface_name_def split: if_splits)
  then show "name \<noteq> []" by blast
  show "trim_space name = name"
    using * printable_interface_char by (intro trim_space_printable) (auto simp: list_all_iff)
qed

subsection \<open>Calls\<close>

fun next_kernel :: "'k host \<Rightarrow> host_call \<Rightarrow> 'k \<Rightarrow> 'k" where
  "next_kernel h (Run argv) k = snd (ho_run h argv k)"
| "next_kernel h (LoadRuleset t) k = snd (ho_load h t k)"
| "next_kernel h (Probe argv) k = snd (ho_probe h argv k)"
| "next_kernel h (TextProbe argv) k = snd (ho_text h argv k)"
| "next_kernel h (ReadProc p) k = snd (ho_read h p k)"
| "next_kernel h (TestWritable p) k = snd (ho_writable h p k)"
| "next_kernel h (WriteProc p v) k = snd (ho_write h p v k)"
| "next_kernel h (Temp s) k = snd (ho_temp h s k)"
| "next_kernel h ReadNamespace k = snd (ho_namespace h k)"
| "next_kernel h (StatFile p) k = snd (ho_stat h p k)"
| "next_kernel h (OpenFile p) k = snd (ho_open h p k)"
| "next_kernel h CheckContext k = snd (ho_context h k)"
| "next_kernel h (Select d i) k = snd (ho_select h d i k)"

definition after_call :: "'k host \<Rightarrow> host_call \<Rightarrow> bool \<Rightarrow> 'k lworld \<Rightarrow> 'k lworld" where
  "after_call h c b w =
     (let k = next_kernel h c (lw_kernel w) in
      w\<lparr>lw_kernel := k, lw_log := lw_log w @ [\<lparr>le_call = c, le_ok = b, le_kernel = k\<rparr>]\<rparr>)"

lemma keeps_host_call:
  assumes "\<And>w b. I w \<Longrightarrow> I (after_call h c b w)" "\<And>k. snd (f k) = next_kernel h c k"
  shows "keeps I (host_call c f)"
proof (rule keepsI)
  fix w assume "I w"
  then show "I (snd (host_call c f w))"
    using assms(1) [of w "case fst (f (lw_kernel w)) of Inl _ \<Rightarrow> False | Inr _ \<Rightarrow> True"] assms(2) [of "lw_kernel w"]
    by (cases "f (lw_kernel w)") (simp add: host_call_def after_call_def Let_def)
qed

lemma keeps_sum [keeps_intro]:
  "(\<And>e. keeps I (f e)) \<Longrightarrow> (\<And>x. keeps I (g x)) \<Longrightarrow> keeps I (case r of Inl e \<Rightarrow> f e | Inr x \<Rightarrow> g x)"
  by (cases r) simp_all

lemma keeps_net_error [keeps_intro]:
  "(\<And>c m t. keeps I (f c m t)) \<Longrightarrow> (\<And>t. keeps I (g t)) \<Longrightarrow> keeps I (case e of NetError c m t \<Rightarrow> f c m t | OtherError t \<Rightarrow> g t)"
  by (cases e) simp_all

lemma keeps_file_failure [keeps_intro]:
  "(\<And>t. keeps I (f t)) \<Longrightarrow> (\<And>t. keeps I (g t)) \<Longrightarrow> keeps I (case e of NotExist t \<Rightarrow> f t | FileFailure t \<Rightarrow> g t)"
  by (cases e) simp_all

locale observer =
  fixes h :: "'k host" and I :: "'k lworld \<Rightarrow> bool"
  assumes call_kept: "I w \<Longrightarrow> \<not> mutation c \<Longrightarrow> I (after_call h c b w)"
    and active_kept: "I w \<Longrightarrow> I (w\<lparr>lw_active := a\<rparr>)"
begin

lemma keeps_probe [keeps_intro]: "keeps I (probe h argv)"
  unfolding probe_def
  by (intro keeps_intro keeps_host_call [where h = h] call_kept) (auto split: prod.split sum.split)

lemma keeps_text_probe [keeps_intro]: "keeps I (text_probe h argv)"
  unfolding text_probe_def
  by (intro keeps_intro keeps_host_call [where h = h] call_kept) (auto split: prod.split sum.split)

lemma keeps_read_proc [keeps_intro]: "keeps I (read_proc h p)" "keeps I (proc_writable h p)"
  unfolding read_proc_def proc_writable_def
  by (intro keeps_host_call [where h = h] call_kept; auto split: prod.split sum.split)+

lemma keeps_temp_file [keeps_intro]: "keeps I (temp_file h s what)"
  unfolding temp_file_def
  by (intro keeps_host_call [where h = h] call_kept) (auto split: prod.split option.split)

lemma keeps_check_context [keeps_intro]: "keeps I (check_context h)" "keeps I (stat_file h p)"
  unfolding check_context_def stat_file_def
  by (intro keeps_host_call [where h = h] call_kept; auto split: prod.split option.split)+

lemma keeps_namespace [keeps_intro]: "keeps I (current_network_namespace h)"
  unfolding current_network_namespace_def
  by (intro keeps_intro keeps_host_call [where h = h] call_kept) (auto split: prod.split sum.split)

lemma keeps_active [keeps_intro]: "keeps I get_active" "keeps I (change_active f)"
  by (auto simp: keeps_def triple_def get_active_def change_active_def intro: active_kept)

lemma keeps_decoded [keeps_intro]: "keeps I (decoded what decode out)"
  unfolding decoded_def by (intro keeps_intro)

lemma keeps_probe_json [keeps_intro]: "keeps I (probe_json h argv what decode)"
  unfolding probe_json_def by (intro keeps_intro)

lemma keeps_probe_existing [keeps_intro]: "keeps I (probe_existing h argv)"
  unfolding probe_existing_def by (intro keeps_intro)

lemma keeps_rules [keeps_intro]:
  "keeps I (policy_rules h)" "keeps I (rule_present h cfg)" "keeps I (guard_rule_present h cfg)"
  unfolding policy_rules_def rule_present_def guard_rule_present_def by (intro keeps_intro)+

lemma keeps_tables [keeps_intro]:
  "keeps I (routing_table_has_entries h tid)" "keeps I (routing_table_matches h cfg)"
  unfolding routing_table_has_entries_def routing_table_matches_def by (intro keeps_intro)+

lemma keeps_policy_routing_present [keeps_intro]: "keeps I (policy_routing_present h cfg)"
  unfolding policy_routing_present_def by (intro keeps_intro)

lemma keeps_nft_tables [keeps_intro]:
  "keeps I (list_tables h)" "keeps I (table_exists h t)" "keeps I (table_owned h t)" "keeps I (check_owned h t what)"
  unfolding list_tables_def table_exists_def table_owned_def check_owned_def by (intro keeps_intro)+

lemma keeps_validate_ownership [keeps_intro]: "keeps I (validate_ownership h cfg)"
  unfolding validate_ownership_def check_nft_free_def Let_def by (intro keeps_intro)

lemma keeps_interfaces [keeps_intro]: "keeps I (detect_interfaces h)" "keeps I (interface_by_name h name)"
  unfolding detect_interfaces_def interface_by_name_def by (intro keeps_intro)+

lemma keeps_validate_topology [keeps_intro]: "keeps I (validate_topology h cfg)"
  unfolding validate_topology_def check_upstream_def by (intro keeps_intro)

lemma keeps_select_done [keeps_intro]: "keeps I (select_done h d)"
  unfolding select_done_def
  by (intro keeps_host_call [where h = h] call_kept) (auto split: prod.split)

lemma keeps_noted [keeps_intro]: "keeps I m \<Longrightarrow> keeps I (noted what m)"
  unfolding noted_def by (intro keeps_intro)

lemma keeps_snapshot [keeps_intro]: "keeps I (snapshot h now)"
  unfolding snapshot_def current_ipv4_forwarding_def by (intro keeps_intro; auto intro!: keeps_intro split: sum.split)

end

locale operator = observer +
  fixes allowed :: "host_call \<Rightarrow> bool"
  assumes mutation_kept: "I w \<Longrightarrow> allowed c \<Longrightarrow> I (after_call h c b w)"
begin

lemma keeps_run [keeps_intro]: "allowed (Run argv) \<Longrightarrow> keeps I (run_command h argv)"
  unfolding run_command_def
  by (intro keeps_intro keeps_host_call [where h = h] mutation_kept) (auto split: prod.split option.split)

lemma keeps_delete [keeps_intro]: "allowed (Run argv) \<Longrightarrow> keeps I (delete_existing h argv)"
  unfolding delete_existing_def by (intro keeps_intro)

lemma keeps_put_proc [keeps_intro]: "allowed (WriteProc p v) \<Longrightarrow> keeps I (put_proc h p v)"
  unfolding put_proc_def
  by (intro keeps_host_call [where h = h] mutation_kept) (auto split: prod.split option.split)

lemma keeps_write_proc_sys [keeps_intro]: "allowed (WriteProc p v) \<Longrightarrow> keeps I (write_proc_sys h p v)"
  unfolding write_proc_sys_def by (intro keeps_intro; auto intro!: keeps_intro split: sum.split)

lemma keeps_load [keeps_intro]: "allowed (LoadRuleset t) \<Longrightarrow> keeps I (load_ruleset h t)"
  unfolding load_ruleset_def
  by (intro keeps_intro keeps_host_call [where h = h] mutation_kept) (auto split: prod.split option.split)

lemma keeps_remove_nat [keeps_intro]:
  assumes "allowed (Run [ho_nft h, ''delete'', ''table'', nft_family, if trim_space t = [] then default_table_name else t])"
  shows "keeps I (remove_nat_table h t)"
  unfolding remove_nat_table_def Let_def by (intro keeps_intro assms)

lemma keeps_remove_routing [keeps_intro]:
  assumes "allowed (Run (rule_del h cfg))" "allowed (Run (lan_route_del h cfg))" "allowed (Run (default_route_del h cfg))"
    and "\<And>p. guard_rule_priority cfg = Inr p \<Longrightarrow> effective_rule_mode cfg = routing_rule_ingress \<Longrightarrow> allowed (Run (guard_del h cfg p))"
  shows "keeps I (remove_policy_routing h cfg)"
proof -
  have guard: "keeps I (remove_guard h cfg)"
  proof (cases "guard_rule_priority cfg")
    case (Inl e)
    show ?thesis unfolding remove_guard_def Inl sum.case by (intro keeps_intro)
  next
    case (Inr p)
    show ?thesis
    proof (cases "effective_rule_mode cfg = routing_rule_ingress")
      case True
      then have "allowed (Run (guard_del h cfg p))" using assms(4) Inr by blast
      then show ?thesis unfolding remove_guard_def Inr sum.case by (intro keeps_intro)
    qed (simp add: remove_guard_def keeps_intro)
  qed
  show ?thesis
    unfolding remove_policy_routing_def remove_rule_def remove_lan_route_def remove_default_route_def Let_def
    by (intro keeps_intro guard assms)
qed

lemma keeps_rp_failures: "(\<And>t v. (t, v) \<in> set ps \<Longrightarrow> allowed (WriteProc (rp_filter_path t) v)) \<Longrightarrow> keeps I (rp_failures h ps)"
  by (induction ps) (auto intro!: keeps_intro split: prod.split sum.split file_failure.split)

end

end
