(* ===== verification/LinuxReport.thy ===== *)
theory LinuxReport
  imports LinuxLogic
begin

unbundle bit_operations_syntax

text \<open>
  The reports of the Linux backend (backend.go, routing.go): what the container may do (\<open>Capabilities\<close>),
  what the kernel looks like (\<open>ObservedState\<close>), and the parsing of the text they read. Errors of the calls
  become missing entries of the report.
\<close>

subsection \<open>Text\<close>

definition split_lines :: "string \<Rightarrow> string list" where
  "split_lines text = map trim_space (filter (\<lambda>l. trim_space l \<noteq> []) (split_on newline text))"

subsection \<open>Effective capabilities\<close>

text \<open>\<open>strconv.ParseUint(s, 16, 64)\<close> and its error.\<close>

definition parse_hex64 :: "string \<Rightarrow> string + 64 word" where
  "parse_hex64 s =
     (case (if s = [] then None else uint_digits False 16 0 s) of
        None \<Rightarrow> Inl (''strconv.ParseUint: parsing '' @ quoted s @ '': invalid syntax'')
      | Some n \<Rightarrow>
          if n < 2 ^ 64 then Inr (of_nat n)
          else Inl (''strconv.ParseUint: parsing '' @ quoted s @ '': value out of range''))"

definition read_file :: "'k host \<Rightarrow> string \<Rightarrow> ('k, file_failure + string) lx" where
  "read_file h path = host_call (ReadProc path) (\<lambda>k. case ho_read h path k of (r, k') \<Rightarrow> (Inr r, k'))"

definition effective_caps_of :: "string list \<Rightarrow> string + 64 word" where
  "effective_caps_of ls =
     (case find (\<lambda>l. has_prefix l ''CapEff:'') ls of
        None \<Rightarrow> Inl ''CapEff not found in /proc/self/status''
      | Some l \<Rightarrow> if length (split_fields l) < 2 then Inl ''malformed CapEff line'' else parse_hex64 (split_fields l ! 1))"

definition read_effective_caps :: "'k host \<Rightarrow> ('k, string + 64 word) lx" where
  "read_effective_caps h =
     ebind (read_file h ''/proc/self/status'') (\<lambda>r.
       eret (case r of Inl f \<Rightarrow> Inl (file_failure_text f) | Inr text \<Rightarrow> effective_caps_of (scan_lines text)))"

definition cap_net_admin :: nat where "cap_net_admin = 12"
definition cap_net_raw :: nat where "cap_net_raw = 13"

definition has_capability :: "64 word \<Rightarrow> nat \<Rightarrow> bool" where
  "has_capability caps b \<longleftrightarrow> caps AND push_bit b 1 \<noteq> 0"

subsection \<open>\<open>Capabilities\<close>\<close>

record net_capabilities =
  ca_kernel :: string
  ca_architecture :: string
  ca_tun_node :: bool
  ca_net_admin :: bool
  ca_net_raw :: bool
  ca_nftables :: bool
  ca_nftables_json :: bool
  ca_iproute2 :: bool
  ca_forward_sysctl :: bool
  ca_forward_writable :: bool
  ca_forward_ready :: bool
  ca_namespace :: string
  ca_host_network :: bool
  ca_missing :: "string \<rightharpoonup> string"

definition report :: "string \<Rightarrow> string \<Rightarrow> net_capabilities \<Rightarrow> net_capabilities" where
  "report key reason c = c\<lparr>ca_missing := (ca_missing c)(key \<mapsto> reason)\<rparr>"

definition report_if :: "bool \<Rightarrow> string \<Rightarrow> string \<Rightarrow> net_capabilities \<Rightarrow> net_capabilities" where
  "report_if b key reason c = (if b then report key reason c else c)"

definition no_capabilities :: "string \<Rightarrow> net_capabilities" where
  "no_capabilities arch =
     \<lparr>ca_kernel = [], ca_architecture = arch, ca_tun_node = False, ca_net_admin = False, ca_net_raw = False,
      ca_nftables = False, ca_nftables_json = False, ca_iproute2 = False, ca_forward_sysctl = False,
      ca_forward_writable = False, ca_forward_ready = False, ca_namespace = [], ca_host_network = False,
      ca_missing = Map.empty\<rparr>"

definition with_kernel :: "'k host \<Rightarrow> net_capabilities \<Rightarrow> ('k, net_capabilities) lx" where
  "with_kernel h c =
     ebind (read_proc h ''/proc/sys/kernel/osrelease'') (\<lambda>r.
       eret (case r of
               Inr release \<Rightarrow> c\<lparr>ca_kernel := release\<rparr>
             | Inl _ \<Rightarrow> report ''kernel'' ''cannot read /proc/sys/kernel/osrelease'' c))"

definition has_tun_node :: "'k host \<Rightarrow> ('k, bool) lx" where
  "has_tun_node h =
     ebind (stat_file h ''/dev/net/tun'') (\<lambda>r. eret (case r of Inl _ \<Rightarrow> False | Inr _ \<Rightarrow> True))"

definition with_tun_node :: "'k host \<Rightarrow> net_capabilities \<Rightarrow> ('k, net_capabilities) lx" where
  "with_tun_node h c =
     ebind (has_tun_node h) (\<lambda>present.
       eret (report_if (\<not> present) ''tun_device_node'' ''/dev/net/tun is missing; pass the device into the container''
         (c\<lparr>ca_tun_node := present\<rparr>)))"

definition with_effective :: "'k host \<Rightarrow> net_capabilities \<Rightarrow> ('k, net_capabilities) lx" where
  "with_effective h c =
     ebind (read_effective_caps h) (\<lambda>r.
       eret (case r of
               Inl t \<Rightarrow> report ''capabilities'' (''cannot read /proc/self/status capabilities: '' @ t) c
             | Inr caps \<Rightarrow>
                 let admin = has_capability caps cap_net_admin; raw = has_capability caps cap_net_raw in
                 report_if (\<not> raw) ''cap_net_raw'' ''CAP_NET_RAW is missing; DHCP/ICMP features may be unavailable''
                   (report_if (\<not> admin) ''cap_net_admin'' ''CAP_NET_ADMIN is missing; add NET_ADMIN to the container''
                     (c\<lparr>ca_net_admin := admin, ca_net_raw := raw\<rparr>))))"

definition with_tools :: "'k host \<Rightarrow> net_capabilities \<Rightarrow> ('k, net_capabilities) lx" where
  "with_tools h c =
     ebind (nft_capabilities h) (\<lambda>(nft, json_ok, _).
       eret (report_if (ho_ip h = []) ''iproute2'' ''ip was not found in PATH''
         (report_if (nft \<and> \<not> json_ok) ''nftables_json''
            ''installed nft lacks JSON output required for ownership-safe operations''
           (report_if (\<not> nft) ''nftables'' ''nft was not found in PATH''
             (c\<lparr>ca_nftables := nft, ca_nftables_json := json_ok, ca_iproute2 := (ho_ip h \<noteq> [])\<rparr>)))))"

definition judge_forwarding :: "file_failure + string \<Rightarrow> bool \<Rightarrow> net_capabilities \<Rightarrow> net_capabilities" where
  "judge_forwarding current writable c =
     (let enabled = (case current of Inl _ \<Rightarrow> False | Inr v \<Rightarrow> v = ''1'');
          ready = (enabled \<or> writable);
          c1 = (case current of
                  Inr _ \<Rightarrow> c\<lparr>ca_forward_sysctl := True\<rparr>
                | Inl _ \<Rightarrow> report ''ipv4_forward_sysctl'' ''cannot read /proc/sys/net/ipv4/ip_forward'' c);
          c2 = c1\<lparr>ca_forward_writable := writable, ca_forward_ready := ready\<rparr>
      in if \<not> ready then report ''ipv4_forward_ready''
              ''IPv4 forwarding is disabled and cannot be changed; set net.ipv4.ip_forward=1 in the container namespace'' c2
         else report_if (\<not> writable \<and> enabled) ''ipv4_forward_writable''
              ''IPv4 forwarding is already enabled by the container runtime; /proc/sys is read-only'' c2)"

definition with_forwarding :: "'k host \<Rightarrow> net_capabilities \<Rightarrow> ('k, net_capabilities) lx" where
  "with_forwarding h c =
     ebind (read_proc h proc_ipv4_forward) (\<lambda>current.
     ebind (proc_writable h proc_ipv4_forward) (\<lambda>writable.
       eret (judge_forwarding current writable c)))"

definition with_namespace :: "'k host \<Rightarrow> net_capabilities \<Rightarrow> ('k, net_capabilities) lx" where
  "with_namespace h c =
     ecatch (ebind (current_network_namespace h) (\<lambda>ns. eret (c\<lparr>ca_namespace := ns\<rparr>)))
       (\<lambda>e. eret (report ''network_namespace'' (error_text e) c))"

definition with_host_network :: "'k host \<Rightarrow> net_capabilities \<Rightarrow> ('k, net_capabilities) lx" where
  "with_host_network h c =
     ecatch
       (ebind (detect_interfaces h) (\<lambda>is.
          eret (if list_ex (\<lambda>i. if_name i = ''docker0'' \<or> has_prefix (if_name i) ''br-'') is
                then c\<lparr>ca_host_network := True\<rparr> else c)))
       (\<lambda>_. eret c)"

definition capabilities_report :: "'k host \<Rightarrow> string \<Rightarrow> ('k, net_capabilities) lx" where
  "capabilities_report h arch =
     ebind (with_kernel h (no_capabilities arch)) (\<lambda>c1.
     ebind (with_tun_node h c1) (\<lambda>c2.
     ebind (with_effective h c2) (\<lambda>c3.
     ebind (with_tools h c3) (\<lambda>c4.
     ebind (with_forwarding h c4) (\<lambda>c5.
     ebind (with_namespace h c5) (\<lambda>c6.
       with_host_network h c6))))))"

subsection \<open>\<open>ObservedState\<close>\<close>

record observed_state =
  ob_forwarding :: bool
  ob_interfaces :: "interface list"
  ob_rules :: "string list"
  ob_routes :: "string list"
  ob_nftables :: "string list"
  ob_tun_present :: "string list"

definition list_routes :: "'k host \<Rightarrow> 32 word \<Rightarrow> ('k, string) lx" where
  "list_routes h tid =
     ecatch (text_probe h [ho_ip h, ''route'', ''show'', ''table'', uint_text tid])
       (\<lambda>e. if is_not_exist e then eret [] else efail e)"

definition list_rules :: "'k host \<Rightarrow> ('k, string) lx" where
  "list_rules h = text_probe h [ho_ip h, ''rule'', ''show'']"

text \<open>The value of a call, or another one when it fails.\<close>

definition or_else :: "('k, 'a) lx \<Rightarrow> 'a \<Rightarrow> ('k, 'a) lx" where
  "or_else m x = ecatch m (\<lambda>_. eret x)"

definition active_table :: "active_config option \<Rightarrow> 32 word" where
  "active_table a = (case a of None \<Rightarrow> 0 | Some ac \<Rightarrow> (case ac_routing ac of None \<Rightarrow> 0 | Some r \<Rightarrow> rc_table_id r))"

definition observe_state :: "'k host \<Rightarrow> ('k, observed_state) lx" where
  "observe_state h =
     ebind (or_else (ebind (current_ipv4_forwarding h) (\<lambda>v. eret (v = ''1''))) False) (\<lambda>forwarding.
     ebind (or_else (detect_interfaces h) []) (\<lambda>is.
     ebind (or_else (list_rules h) []) (\<lambda>rules.
     ebind get_active (\<lambda>a.
     ebind (if active_table a \<noteq> 0 then or_else (list_routes h (active_table a)) [] else eret []) (\<lambda>routes.
     ebind (or_else (list_tables h) []) (\<lambda>tables.
       eret \<lparr>ob_forwarding = forwarding, ob_interfaces = is, ob_rules = split_lines rules, ob_routes = split_lines routes,
             ob_nftables = tables,
             ob_tun_present = filter (\<lambda>n. has_prefix n ''tun'' \<or> has_prefix n ''utun'') (map if_name is)\<rparr>))))))"

subsection \<open>The reports only read\<close>

context observer begin

lemma keeps_or_else [keeps_intro]: "keeps I m \<Longrightarrow> keeps I (or_else m x)"
  unfolding or_else_def by (intro keeps_intro)

lemma keeps_read_file [keeps_intro]: "keeps I (read_file h p)"
  unfolding read_file_def
  by (intro keeps_host_call [where h = h] call_kept) (auto split: prod.split)

lemma keeps_nft_capabilities [keeps_intro]: "keeps I (nft_capabilities h)"
  unfolding nft_capabilities_def by (intro keeps_intro)

lemma keeps_capabilities: "keeps I (capabilities_report h arch)"
  unfolding capabilities_report_def with_kernel_def with_tun_node_def has_tun_node_def with_effective_def read_effective_caps_def
    with_tools_def with_forwarding_def with_namespace_def with_host_network_def
  by (intro keeps_intro; auto intro!: keeps_intro split: prod.split)

lemma keeps_observe_state: "keeps I (observe_state h)"
  unfolding observe_state_def current_ipv4_forwarding_def list_rules_def list_routes_def
  by (intro keeps_intro; auto intro!: keeps_intro split: sum.split)

lemma keeps_neighbours: "keeps I (neighbours h i)" "keeps I (default_route h)" "keeps I (describe_table h t)"
  unfolding neighbours_def default_route_def describe_table_def
  by (intro keeps_intro; auto intro!: keeps_intro split: option.split)+

lemma keeps_reads: "keeps I (ipv4_forwarding_enabled h)"
  unfolding ipv4_forwarding_enabled_def current_ipv4_forwarding_def
  by (intro keeps_intro; auto intro!: keeps_intro split: sum.split)

end

end
