(* ===== verification/LinuxKernel.thy ===== *)
theory LinuxKernel
  imports LinuxLogic
begin

text \<open>
  What the backend relies on \<open>ip\<close> and the kernel for, as the locale \<open>ip_laws\<close>: a kernel has a set of
  policy rules and a set of routes, the commands of \<open>routing.go\<close> add and delete exactly what they name, a
  command that fails changes nothing, and the rules and the tables read back as JSON are those there are. The laws
  speak of a host nobody else is changing. Inside the locale the sequence of the kernels is followed
  through \<open>applyPolicyRouting\<close> and \<open>removePolicyRouting\<close>.
\<close>

subsection \<open>Policy rules and routes\<close>

datatype selector = ByInterface string | ByMark "32 word"
datatype rule_action = Lookup "32 word" | Prohibit

record krule =
  kr_pref :: "32 word"
  kr_select :: selector
  kr_action :: rule_action

record kroute =
  kt_table :: "32 word"
  kt_dst :: string
  kt_dev :: string
  kt_via :: string

definition selector_args :: "selector \<Rightarrow> string list" where
  "selector_args s = (case s of ByInterface i \<Rightarrow> [''iif'', i] | ByMark m \<Rightarrow> [''fwmark'', mark_hex m])"

definition action_args :: "rule_action \<Rightarrow> string list" where
  "action_args a = (case a of Lookup t \<Rightarrow> [''table'', uint_text t] | Prohibit \<Rightarrow> [''prohibit''])"

definition rule_args :: "krule \<Rightarrow> string list" where
  "rule_args r = [''pref'', uint_text (kr_pref r)] @ selector_args (kr_select r) @ action_args (kr_action r)"

definition via_args :: "kroute \<Rightarrow> string list" where
  "via_args t = (if kt_via t = [] then [''dev'', kt_dev t] else [''via'', kt_via t, ''dev'', kt_dev t])"

definition primary_rule :: "routing_config \<Rightarrow> krule" where
  "primary_rule cfg =
     \<lparr>kr_pref = rc_rule_priority cfg,
      kr_select = (if effective_rule_mode cfg = routing_rule_ingress then ByInterface (rc_lan_interface cfg) else ByMark (rc_fw_mark cfg)),
      kr_action = Lookup (rc_table_id cfg)\<rparr>"

definition guard_rule :: "routing_config \<Rightarrow> krule" where
  "guard_rule cfg = \<lparr>kr_pref = rc_rule_priority cfg + 1, kr_select = ByInterface (rc_lan_interface cfg), kr_action = Prohibit\<rparr>"

definition lan_route :: "routing_config \<Rightarrow> kroute" where
  "lan_route cfg = \<lparr>kt_table = rc_table_id cfg, kt_dst = rc_lan_cidr cfg, kt_dev = rc_lan_interface cfg, kt_via = []\<rparr>"

definition egress_route :: "routing_config \<Rightarrow> kroute" where
  "egress_route cfg = \<lparr>kt_table = rc_table_id cfg, kt_dst = ''default'', kt_dev = expected_egress cfg, kt_via = expected_gateway cfg\<rparr>"

text \<open>A configuration as the gateway builds it for the same-LAN mode.\<close>

definition wf_ingress :: "routing_config \<Rightarrow> bool" where
  "wf_ingress cfg \<longleftrightarrow>
     effective_rule_mode cfg = routing_rule_ingress \<and> rc_table_id cfg \<noteq> 0 \<and> rc_rule_priority cfg \<noteq> 0
     \<and> rc_rule_priority cfg \<noteq> NOT 0 \<and> validate_interface_name (rc_lan_interface cfg) = None
     \<and> trim_space (rc_lan_cidr cfg) \<noteq> [] \<and> rc_lan_cidr cfg \<noteq> ''default''
     \<and> (rc_direct_fallback cfg \<longrightarrow> trim_space (rc_upstream_gateway cfg) \<noteq> [] \<and> trim_space (expected_egress cfg) \<noteq> [])
     \<and> (\<not> rc_direct_fallback cfg \<longrightarrow> trim_space (rc_tun_device cfg) \<noteq> [])"

definition same_slot :: "kroute \<Rightarrow> kroute \<Rightarrow> bool" where
  "same_slot a b \<longleftrightarrow> kt_table a = kt_table b \<and> kt_dst a = kt_dst b"

text \<open>What the kernels since a point of the log were like, and what the kernel is like now; the view of a
  kernel is the pair of its rules and its routes.\<close>

definition during :: "('k \<Rightarrow> krule set) \<Rightarrow> ('k \<Rightarrow> kroute set) \<Rightarrow> (krule set \<Rightarrow> kroute set \<Rightarrow> bool) \<Rightarrow> 'k levent list \<Rightarrow> 'k lworld \<Rightarrow> bool" where
  "during rules routes P evs w \<longleftrightarrow>
     (\<exists>new. lw_log w = evs @ new \<and> list_all (\<lambda>ev. P (rules (le_kernel ev)) (routes (le_kernel ev))) new)"

definition stands :: "('k \<Rightarrow> krule set) \<Rightarrow> ('k \<Rightarrow> kroute set) \<Rightarrow> (krule set \<Rightarrow> kroute set \<Rightarrow> bool) \<Rightarrow> krule set \<Rightarrow> kroute set
    \<Rightarrow> 'k levent list \<Rightarrow> 'k lworld \<Rightarrow> bool" where
  "stands rules routes P A B evs w \<longleftrightarrow>
     during rules routes P evs w \<and> rules (lw_kernel w) = A \<and> routes (lw_kernel w) = B \<and> P A B"

lemma stands_during: "stands rules routes P A B evs w \<Longrightarrow> during rules routes P evs w"
  by (simp add: stands_def)

lemma during_step:
  assumes "during rules routes P evs w" "P (rules k) (routes k)"
  shows "during rules routes P evs (w\<lparr>lw_kernel := k, lw_log := lw_log w @ [\<lparr>le_call = c, le_ok = b, le_kernel = k\<rparr>]\<rparr>)"
proof -
  obtain new where "lw_log w = evs @ new" "list_all (\<lambda>ev. P (rules (le_kernel ev)) (routes (le_kernel ev))) new"
    using assms(1) by (auto simp: during_def)
  then show ?thesis
    unfolding during_def using assms(2)
    by (intro exI [of _ "new @ [\<lparr>le_call = c, le_ok = b, le_kernel = k\<rparr>]"]) simp
qed

text \<open>The commands of \<open>routing.go\<close> in these terms.\<close>

lemma wf_ingress_guard:
  "wf_ingress cfg \<Longrightarrow> effective_rule_mode cfg = routing_rule_ingress"
  "wf_ingress cfg \<Longrightarrow> guard_rule_priority cfg = Inr (rc_rule_priority cfg + 1)"
  "wf_ingress cfg \<Longrightarrow> validate_interface_name (rc_lan_interface cfg) = None"
  by (simp_all add: wf_ingress_def guard_rule_priority_def)

lemma rule_commands:
  "rule_add h cfg = [ho_ip h, ''rule'', ''add''] @ rule_args (primary_rule cfg)"
  "rule_del h cfg = [ho_ip h, ''rule'', ''del''] @ rule_args (primary_rule cfg)"
  "guard_add h cfg (rc_rule_priority cfg + 1) = [ho_ip h, ''rule'', ''add''] @ rule_args (guard_rule cfg)"
  "guard_del h cfg (rc_rule_priority cfg + 1) = [ho_ip h, ''rule'', ''del''] @ rule_args (guard_rule cfg)"
  by (simp_all add: rule_add_def rule_del_def guard_add_def guard_del_def rule_args_def rule_selector_def primary_rule_def
      guard_rule_def selector_args_def action_args_def)

lemma route_commands:
  "lan_route_add h cfg = [ho_ip h, ''route'', ''replace'', kt_dst (lan_route cfg)] @ via_args (lan_route cfg)
     @ [''scope'', ''link'', ''table'', uint_text (kt_table (lan_route cfg))]"
  "lan_route_del h cfg = [ho_ip h, ''route'', ''del'', kt_dst (lan_route cfg)] @ via_args (lan_route cfg)
     @ [''table'', uint_text (kt_table (lan_route cfg))]"
  by (simp_all add: lan_route_add_def lan_route_del_def lan_route_def via_args_def)

lemma trim_space_nonempty: "trim_space s \<noteq> [] \<Longrightarrow> s \<noteq> []"
  by auto

lemma default_route_commands:
  assumes "wf_ingress cfg"
  shows "default_route_add h cfg = [ho_ip h, ''route'', ''replace'', kt_dst (egress_route cfg)] @ via_args (egress_route cfg)
     @ [''table'', uint_text (kt_table (egress_route cfg))]"
    and "default_route_del h cfg = [ho_ip h, ''route'', ''del'', kt_dst (egress_route cfg)] @ via_args (egress_route cfg)
     @ [''table'', uint_text (kt_table (egress_route cfg))]"
  using assms
  by (auto simp: default_route_add_def default_route_del_def egress_route_def via_args_def expected_gateway_def
      expected_egress_def wf_ingress_def dest: trim_space_nonempty)

lemma slots_differ: "wf_ingress cfg \<Longrightarrow> \<not> same_slot (lan_route cfg) (egress_route cfg)"
  by (simp add: same_slot_def lan_route_def egress_route_def wf_ingress_def)

definition installed :: "routing_config \<Rightarrow> kroute set \<Rightarrow> kroute set" where
  "installed cfg B =
     insert (egress_route cfg) (insert (lan_route cfg)
       {t \<in> B. \<not> same_slot t (lan_route cfg) \<and> \<not> same_slot t (egress_route cfg)})"

text \<open>The guard is there, or nothing of ours is.\<close>

definition removed_or_gone :: "routing_config \<Rightarrow> krule set \<Rightarrow> kroute set \<Rightarrow> bool" where
  "removed_or_gone cfg R T \<longleftrightarrow>
     guard_rule cfg \<in> R \<or> primary_rule cfg \<notin> R \<and> lan_route cfg \<notin> T \<and> egress_route cfg \<notin> T"

subsection \<open>The laws\<close>

locale ip_laws =
  fixes h :: "'k host" and rules :: "'k \<Rightarrow> krule set" and routes :: "'k \<Rightarrow> kroute set"
  assumes quiet_host: "\<not> mutation c \<Longrightarrow> rules (next_kernel h c k) = rules k \<and> routes (next_kernel h c k) = routes k"
    and failed_command: "ho_run h argv k = (Some f, k') \<Longrightarrow> rules k' = rules k \<and> routes k' = routes k"
    and rule_added: "ho_run h ([ho_ip h, ''rule'', ''add''] @ rule_args r) k = (None, k') \<Longrightarrow>
        rules k' = insert r (rules k) \<and> routes k' = routes k"
    and rule_deleted: "ho_run h ([ho_ip h, ''rule'', ''del''] @ rule_args r) k = (None, k') \<Longrightarrow>
        rules k' = rules k - {r} \<and> routes k' = routes k"
    and rule_missing: "ho_run h ([ho_ip h, ''rule'', ''del''] @ rule_args r) k = (Some f, k') \<Longrightarrow>
        is_not_exist (command_error ([ho_ip h, ''rule'', ''del''] @ rule_args r) f) \<Longrightarrow> r \<notin> rules k"
    and route_replaced: "argv \<in> {[ho_ip h, ''route'', ''replace'', kt_dst t] @ via_args t @ [''table'', uint_text (kt_table t)],
          [ho_ip h, ''route'', ''replace'', kt_dst t] @ via_args t @ [''scope'', ''link'', ''table'', uint_text (kt_table t)]} \<Longrightarrow>
        ho_run h argv k = (None, k') \<Longrightarrow> rules k' = rules k \<and> routes k' = insert t {x \<in> routes k. \<not> same_slot x t}"
    and route_deleted: "ho_run h ([ho_ip h, ''route'', ''del'', kt_dst t] @ via_args t @ [''table'', uint_text (kt_table t)]) k = (None, k') \<Longrightarrow>
        rules k' = rules k \<and> routes k' = routes k - {t}"
    and route_missing: "ho_run h ([ho_ip h, ''route'', ''del'', kt_dst t] @ via_args t @ [''table'', uint_text (kt_table t)]) k = (Some f, k') \<Longrightarrow>
        is_not_exist (command_error ([ho_ip h, ''route'', ''del'', kt_dst t] @ via_args t @ [''table'', uint_text (kt_table t)]) f) \<Longrightarrow>
        t \<notin> routes k"
    and rules_shown: "ho_probe h [ho_ip h, ''-j'', ''rule'', ''show''] k = (Inr (Some j), k') \<Longrightarrow>
        decode_slice decode_object j = Some rs \<Longrightarrow> validate_interface_name (rc_lan_interface cfg) = None \<Longrightarrow>
        list_ex (\<lambda>r. rule_matches_config r cfg) rs = (primary_rule cfg \<in> rules k)
        \<and> (guard_rule_priority cfg = Inr (rc_rule_priority cfg + 1) \<longrightarrow> effective_rule_mode cfg = routing_rule_ingress \<longrightarrow>
             list_ex (\<lambda>r. guard_rule_matches_config r cfg) rs = (guard_rule cfg \<in> rules k))"    and routes_shown: "fst (ho_probe h (table_probe h tid) k) = Inr (Some j) \<Longrightarrow> decode_slice Some j = Some js \<Longrightarrow>
        js = [] \<longleftrightarrow> (\<forall>t \<in> routes k. kt_table t \<noteq> tid)"
    and table_missing: "fst (ho_probe h (table_probe h tid) k) = Inl pf \<Longrightarrow> is_not_exist (probe_error (table_probe h tid) pf) \<Longrightarrow>
        \<forall>t \<in> routes k. kt_table t \<noteq> tid"
begin

lemma observed: "observer h (stands rules routes P A B evs)"
proof
  fix w c b assume w: "stands rules routes P A B evs w" and "\<not> mutation c"
  then show "stands rules routes P A B evs (after_call h c b w)"
    using quiet_host [of c "lw_kernel w"]
    by (simp add: stands_def after_call_def Let_def during_step)
next
  fix w a assume "stands rules routes P A B evs w"
  then show "stands rules routes P A B evs (w\<lparr>lw_active := a\<rparr>)"
    by (simp add: stands_def during_def)
qed

lemma triple_run:
  assumes "P A' B'" "\<And>k k'. ho_run h argv k = (None, k') \<Longrightarrow> rules k = A \<Longrightarrow> routes k = B \<Longrightarrow> rules k' = A' \<and> routes k' = B'"
  shows "triple (stands rules routes P A B evs) (run_command h argv) (\<lambda>_. stands rules routes P A' B' evs) (\<lambda>_. stands rules routes P A B evs)"
proof (cases "hd argv = []")
  case True
  then show ?thesis by (simp add: run_command_def triple_efail)
next
  case False
  show ?thesis
    unfolding triple_def
  proof (intro allI impI)
    fix w assume w: "stands rules routes P A B evs w"
    obtain r k' where r: "ho_run h argv (lw_kernel w) = (r, k')" by (cases "ho_run h argv (lw_kernel w)")
    show "case run_command h argv w of (Inl e, w') \<Rightarrow> stands rules routes P A B evs w' | (Inr x, w') \<Rightarrow> stands rules routes P A' B' evs w'"
    proof (cases r)
      case None
      then show ?thesis
        using r w False assms by (auto simp: run_command_def host_call_def stands_def intro!: during_step)
    next
      case (Some f)
      then show ?thesis
        using r w False failed_command [of argv "lw_kernel w" f k']
        by (auto simp: run_command_def host_call_def stands_def intro!: during_step)
    qed
  qed
qed

text \<open>Reading the rules back.\<close>

lemma triple_policy_rules:
  assumes "\<And>k j k' rs. ho_probe h [ho_ip h, ''-j'', ''rule'', ''show''] k = (Inr (Some j), k') \<Longrightarrow>
      decode_slice decode_object j = Some rs \<Longrightarrow> rules k = A \<Longrightarrow> g rs = x"
  shows "triple (stands rules routes P A B evs) (ebind (policy_rules h) (\<lambda>rs. eret (g rs)))
    (\<lambda>y w. stands rules routes P A B evs w \<and> y = x) (\<lambda>_. stands rules routes P A B evs)"
proof -
  have "triple (\<lambda>w. rules (lw_kernel w) = A) (policy_rules h) (\<lambda>rs _. g rs = x) (\<lambda>_ _. True)"
    unfolding policy_rules_def probe_json_def probe_def host_call_def triple_def
    by (auto simp: run_simps split: prod.splits sum.splits option.splits dest: assms)
  then have "triple (\<lambda>w. stands rules routes P A B evs w \<and> rules (lw_kernel w) = A) (policy_rules h)
      (\<lambda>rs w. stands rules routes P A B evs w \<and> g rs = x) (\<lambda>e w. stands rules routes P A B evs w \<and> True)"
    by (rule triple_conj [OF keeps_triple [OF observer.keeps_rules(1) [OF observed]]])
  then have "triple (stands rules routes P A B evs) (policy_rules h)
      (\<lambda>rs w. stands rules routes P A B evs w \<and> g rs = x) (\<lambda>e. stands rules routes P A B evs)"
    by (rule triple_weaken) (auto simp: stands_def)
  then show ?thesis
    by (rule triple_bind) (auto intro: triple_eret)
qed

lemma triple_rule_present:
  assumes "wf_ingress cfg"
  shows "triple (stands rules routes P A B evs) (rule_present h cfg)
    (\<lambda>y w. stands rules routes P A B evs w \<and> y = (primary_rule cfg \<in> A)) (\<lambda>_. stands rules routes P A B evs)"
  unfolding rule_present_def
  by (rule triple_policy_rules) (use rules_shown wf_ingress_guard(3) [OF assms] in blast)

lemma triple_guard_present:
  assumes "wf_ingress cfg"
  shows "triple (stands rules routes P A B evs) (guard_rule_present h cfg)
    (\<lambda>y w. stands rules routes P A B evs w \<and> y = (guard_rule cfg \<in> A)) (\<lambda>_. stands rules routes P A B evs)"
  unfolding guard_rule_present_def using wf_ingress_guard(1) [OF assms]
  by (simp, intro triple_policy_rules) (use rules_shown wf_ingress_guard [OF assms] in blast)

text \<open>The commands, one by one.\<close>

lemma triple_rule_add:
  assumes "P (insert r A) B"
  shows "triple (stands rules routes P A B evs) (run_command h ([ho_ip h, ''rule'', ''add''] @ rule_args r))
    (\<lambda>_. stands rules routes P (insert r A) B evs) (\<lambda>_. stands rules routes P A B evs)"
  by (rule triple_run, rule assms) (use rule_added in blast)

lemma triple_route_replace:
  assumes "P A (insert t {x \<in> B. \<not> same_slot x t})"
    and "argv \<in> {[ho_ip h, ''route'', ''replace'', kt_dst t] @ via_args t @ [''table'', uint_text (kt_table t)],
          [ho_ip h, ''route'', ''replace'', kt_dst t] @ via_args t @ [''scope'', ''link'', ''table'', uint_text (kt_table t)]}"
  shows "triple (stands rules routes P A B evs) (run_command h argv)
    (\<lambda>_. stands rules routes P A (insert t {x \<in> B. \<not> same_slot x t}) evs) (\<lambda>_. stands rules routes P A B evs)"
  by (rule triple_run, rule assms) (use route_replaced [OF assms(2)] in blast)

lemma triple_install_guard:
  assumes "wf_ingress cfg" "P (insert (guard_rule cfg) A) B"
  shows "triple (stands rules routes P A B evs) (install_guard h cfg)
    (\<lambda>_. stands rules routes P (insert (guard_rule cfg) A) B evs) (\<lambda>_. stands rules routes P A B evs)"
proof -
  have run: "triple (stands rules routes P A B evs) (run_command h (guard_add h cfg (rc_rule_priority cfg + 1)))
      (\<lambda>_. stands rules routes P (insert (guard_rule cfg) A) B evs) (\<lambda>_. stands rules routes P A B evs)"
    unfolding rule_commands by (rule triple_rule_add) (rule assms(2))
  have add: "triple (\<lambda>w. stands rules routes P A B evs w \<and> g = (guard_rule cfg \<in> A))
      (ewhen (\<not> g) (run_command h (guard_add h cfg (rc_rule_priority cfg + 1))))
      (\<lambda>_. stands rules routes P (insert (guard_rule cfg) A) B evs) (\<lambda>_. stands rules routes P A B evs)" for g
    by (rule triple_pure, rule triple_ewhen) (auto intro: run simp: insert_absorb)
  have "install_guard h cfg = ebind (guard_rule_present h cfg) (\<lambda>guard.
      ewhen (\<not> guard) (run_command h (guard_add h cfg (rc_rule_priority cfg + 1))))"
    by (rule ext) (simp add: install_guard_def wf_ingress_guard [OF assms(1)] ewhen_def elift_def ebind_def)
  then show ?thesis
    by (simp only:) (rule triple_bind [OF triple_guard_present [OF assms(1)] add])
qed

lemma triple_install_default:
  assumes "wf_ingress cfg" "P A (insert (egress_route cfg) {x \<in> B. \<not> same_slot x (egress_route cfg)})"
  shows "triple (stands rules routes P A B evs) (install_default h cfg)
    (\<lambda>_. stands rules routes P A (insert (egress_route cfg) {x \<in> B. \<not> same_slot x (egress_route cfg)}) evs)
    (\<lambda>_. stands rules routes P A B evs)"
proof -
  have check: "keeps (stands rules routes P A B evs)
      (if rc_direct_fallback cfg
       then ebind (elift (validate_ipv4 (rc_upstream_gateway cfg))) (\<lambda>_. eopt (validate_interface_name (expected_egress cfg)))
       else eopt (validate_interface_name (rc_tun_device cfg)))"
    by (intro keeps_intro)
  show ?thesis
    unfolding install_default_def
    by (rule triple_bind [OF keeps_triple [OF check]], rule triple_route_replace [where t = "egress_route cfg"],
        rule assms(2), simp only: default_route_commands(1) [OF assms(1)], simp)
qed

lemma triple_during:
  assumes "triple S m Q (\<lambda>_. stands rules routes P X Y evs)"
  shows "triple S m Q (\<lambda>_. during rules routes P evs)"
  by (rule triple_weaken [OF assms]) (simp_all add: stands_def)

lemma triple_apply:
  assumes wf: "wf_ingress cfg" and start: "P A B" and guarded: "\<And>R T. guard_rule cfg \<in> R \<Longrightarrow> P R T"
  shows "triple (stands rules routes P A B evs) (apply_policy_routing h cfg)
    (\<lambda>_. stands rules routes P (insert (primary_rule cfg) (insert (guard_rule cfg) A)) (installed cfg B) evs)
    (\<lambda>_. during rules routes P evs)"
proof -
  let ?G = "insert (guard_rule cfg) A"
  let ?L = "insert (lan_route cfg) {x \<in> B. \<not> same_slot x (lan_route cfg)}"
  let ?E = "insert (egress_route cfg) {x \<in> ?L. \<not> same_slot x (egress_route cfg)}"
  have E: "?E = installed cfg B"
    using slots_differ [OF wf] by (auto simp: installed_def)
  have g: "P (insert x ?G) T" "P ?G T" for x T by (auto intro: guarded)
  note weak = triple_during
  have check: "keeps (stands rules routes P A B evs) (eopt (check_routing_config cfg))"
    by (intro keeps_intro)
  have lan: "triple (stands rules routes P ?G B evs) (run_command h (lan_route_add h cfg))
      (\<lambda>_. stands rules routes P ?G ?L evs) (\<lambda>_. stands rules routes P ?G B evs)"
    unfolding route_commands by (rule triple_route_replace) (simp_all add: g)
  have add: "triple (stands rules routes P ?G ?E evs) (run_command h (rule_add h cfg))
      (\<lambda>_. stands rules routes P (insert (primary_rule cfg) ?G) ?E evs) (\<lambda>_. stands rules routes P ?G ?E evs)"
    unfolding rule_commands by (rule triple_rule_add) (rule g)
  have prim: "triple (\<lambda>w. stands rules routes P ?G ?E evs w \<and> p = (primary_rule cfg \<in> ?G))
      (ewhen (\<not> p) (run_command h (rule_add h cfg)))
      (\<lambda>_. stands rules routes P (insert (primary_rule cfg) ?G) ?E evs) (\<lambda>_. during rules routes P evs)" for p
    by (rule triple_pure, rule triple_ewhen, rule weak [OF add]) (simp add: insert_absorb)
  have present: "triple (stands rules routes P ?G ?E evs) (rule_present h cfg)
      (\<lambda>y w. stands rules routes P ?G ?E evs w \<and> y = (primary_rule cfg \<in> ?G)) (\<lambda>_. during rules routes P evs)"
    by (rule weak [OF triple_rule_present [OF wf]])
  show ?thesis
    unfolding apply_policy_routing_def E [symmetric]
    by (rule triple_bind [OF weak [OF keeps_triple [OF check]] triple_bind [OF weak [OF triple_install_guard [OF wf]]
          triple_bind [OF weak [OF lan] triple_bind [OF weak [OF triple_install_default [OF wf]] triple_bind [OF present prim]]]]])
      (rule g)+
qed

text \<open>Removal: as long as no step has failed, the kernel stands where it should.\<close>

lemma triple_noted:
  assumes "triple S m (\<lambda>_. Q) (\<lambda>_ _. True)"
  shows "triple S (noted what m) (\<lambda>f w. f = [] \<longrightarrow> Q w) E"
  using assms by (auto simp: noted_def triple_def eerr_def ebind_def eret_def split: prod.splits sum.splits)

lemma triple_delete:
  assumes "P A' B'" "P A B"
    and "\<And>k k'. ho_run h argv k = (None, k') \<Longrightarrow> rules k = A \<Longrightarrow> routes k = B \<Longrightarrow> rules k' = A' \<and> routes k' = B'"
    and "\<And>k k' f. ho_run h argv k = (Some f, k') \<Longrightarrow> is_not_exist (command_error argv f) \<Longrightarrow> rules k = A \<Longrightarrow> routes k = B
       \<Longrightarrow> A' = A \<and> B' = B"
    and "hd argv \<noteq> []"
  shows "triple (stands rules routes P A B evs) (delete_existing h argv) (\<lambda>_. stands rules routes P A' B' evs) (\<lambda>_ _. True)"
proof -
  have run: "triple (stands rules routes P A B evs) (run_command h argv) (\<lambda>_. stands rules routes P A' B' evs)
      (\<lambda>_. stands rules routes P A B evs)"
    by (rule triple_run, rule assms(1)) (rule assms(3))
  have miss: "A' = A \<and> B' = B"
    if "run_command h argv w = (Inl e, w')" "is_not_exist e" "rules (lw_kernel w) = A" "routes (lw_kernel w) = B" for e w w'
    using that assms(4,5)
    by (cases "ho_run h argv (lw_kernel w)"; cases "fst (ho_run h argv (lw_kernel w))")
      (auto simp: run_command_def host_call_def)
  have step: "case delete_existing h argv w of (Inl e, w') \<Rightarrow> True | (Inr x, w') \<Rightarrow> stands rules routes P A' B' evs w'"
    if w: "stands rules routes P A B evs w" for w
  proof (cases "run_command h argv w")
    case (Pair r w')
    show ?thesis
    proof (cases r)
      case (Inr u)
      then show ?thesis
        using Pair tripleD(1) [OF run w] by (simp add: delete_existing_def run_simps)
    next
      case (Inl e)
      then have "stands rules routes P A B evs w'"
        using Pair tripleD(2) [OF run w] by simp
      then show ?thesis
        using Pair Inl miss [of w e w'] w by (auto simp: delete_existing_def run_simps stands_def)
    qed
  qed
  then show ?thesis by (simp add: triple_def)
qed

lemma triple_rule_delete:
  assumes "P (A - {r}) B" "P A B" "ho_ip h \<noteq> []"
  shows "triple (stands rules routes P A B evs) (delete_existing h ([ho_ip h, ''rule'', ''del''] @ rule_args r))
    (\<lambda>_. stands rules routes P (A - {r}) B evs) (\<lambda>_ _. True)"
  by (rule triple_delete, rule assms(1), rule assms(2)) (use rule_deleted rule_missing assms(3) in auto)

lemma triple_route_delete:
  assumes "P A (B - {t})" "P A B" "ho_ip h \<noteq> []"
  shows "triple (stands rules routes P A B evs)
    (delete_existing h ([ho_ip h, ''route'', ''del'', kt_dst t] @ via_args t @ [''table'', uint_text (kt_table t)]))
    (\<lambda>_. stands rules routes P A (B - {t}) evs) (\<lambda>_ _. True)"
  by (rule triple_delete, rule assms(1), rule assms(2)) (use route_deleted route_missing assms(3) in auto)

lemma triple_while_ok:
  assumes "triple Q1 m (\<lambda>f w. f = [] \<longrightarrow> Q2 w) (\<lambda>_ _. True)"
  shows "triple (\<lambda>w. ok \<longrightarrow> Q1 w) m (\<lambda>f w. ok \<and> f = [] \<longrightarrow> Q2 w) (\<lambda>_ _. True)"
  using assms by (cases ok) (auto simp: triple_def split: prod.splits sum.splits)

lemma triple_checked:
  assumes "triple S check (\<lambda>p w. S w \<and> p = c) (\<lambda>_. S)" "c \<Longrightarrow> triple S m (\<lambda>f w. f = [] \<longrightarrow> Q w) (\<lambda>_ _. True)"
    "\<And>w. \<not> c \<Longrightarrow> S w \<Longrightarrow> Q w"
  shows "triple S (ecatch (ebind check (\<lambda>p. if p then m else eret [])) (\<lambda>e. eret [g e])) (\<lambda>f w. f = [] \<longrightarrow> Q w) (\<lambda>_ _. True)"
proof (rule triple_catch)
  show "triple S (ebind check (\<lambda>p. if p then m else eret [])) (\<lambda>f w. f = [] \<longrightarrow> Q w) (\<lambda>_ _. True)"
  proof (rule triple_bind)
    show "triple S check (\<lambda>p w. S w \<and> p = c) (\<lambda>_ _. True)"
      by (rule triple_weaken [OF assms(1)]) simp_all
    show "triple (\<lambda>w. S w \<and> p = c) (if p then m else eret []) (\<lambda>f w. f = [] \<longrightarrow> Q w) (\<lambda>_ _. True)" for p
      by (rule triple_pure) (auto intro!: triple_eret assms)
  qed
qed (simp add: triple_eret)

lemma triple_remove:
  assumes wf: "wf_ingress cfg" and start: "removed_or_gone cfg A B" and ip: "ho_ip h \<noteq> []"
  shows "triple (stands rules routes (removed_or_gone cfg) A B evs) (remove_policy_routing h cfg)
    (\<lambda>_. stands rules routes (removed_or_gone cfg) (A - {primary_rule cfg} - {guard_rule cfg}) (B - {lan_route cfg} - {egress_route cfg}) evs)
    (\<lambda>_ _. True)"
proof -
  let ?P = "removed_or_gone cfg"
  let ?A = "A - {primary_rule cfg}" and ?B = "B - {lan_route cfg}" and ?E = "B - {lan_route cfg} - {egress_route cfg}"
  have differ: "primary_rule cfg \<noteq> guard_rule cfg" by (simp add: primary_rule_def guard_rule_def)
  have P: "?P ?A B" "?P ?A ?B" "?P ?A ?E" "?P (?A - {guard_rule cfg}) ?E"
    using start differ by (auto simp: removed_or_gone_def)
  have 1: "triple (stands rules routes ?P A B evs) (remove_rule h cfg) (\<lambda>f w. f = [] \<longrightarrow> stands rules routes ?P ?A B evs w) (\<lambda>_ _. True)"
    unfolding remove_rule_def rule_commands
    by (rule triple_checked [OF triple_rule_present [OF wf]], rule triple_noted, rule triple_rule_delete)
      (simp_all add: P(1) start ip)
  have 2: "triple (stands rules routes ?P ?A B evs) (remove_lan_route h cfg) (\<lambda>f w. f = [] \<longrightarrow> stands rules routes ?P ?A ?B evs w) (\<lambda>_ _. True)"
  proof -
    have "remove_lan_route h cfg = noted ''delete LAN route: '' (delete_existing h (lan_route_del h cfg))"
      using wf valid_interface_name [OF wf_ingress_guard(3) [OF wf]] by (simp add: remove_lan_route_def wf_ingress_def)
    then show ?thesis
      unfolding route_commands by (simp only:) (rule triple_noted, rule triple_route_delete, rule P, rule P, rule ip)
  qed
  have 3: "triple (stands rules routes ?P ?A ?B evs) (remove_default_route h cfg) (\<lambda>f w. f = [] \<longrightarrow> stands rules routes ?P ?A ?E evs w) (\<lambda>_ _. True)"
  proof -
    have "remove_default_route h cfg = noted (if rc_direct_fallback cfg then ''delete direct-fallback route: '' else ''delete TUN route: '')
        (delete_existing h (default_route_del h cfg))"
      using wf by (auto simp: remove_default_route_def wf_ingress_def)
    then show ?thesis
      unfolding default_route_commands(2) [OF wf] by (simp only:) (rule triple_noted, rule triple_route_delete, rule P, rule P, rule ip)
  qed
  have 4: "triple (stands rules routes ?P ?A ?E evs) (remove_guard h cfg)
      (\<lambda>f w. f = [] \<longrightarrow> stands rules routes ?P (?A - {guard_rule cfg}) ?E evs w) (\<lambda>_ _. True)"
  proof -
    have "remove_guard h cfg = ecatch (ebind (guard_rule_present h cfg) (\<lambda>p. if p
          then noted ''delete guard rule: '' (delete_existing h (guard_del h cfg (rc_rule_priority cfg + 1))) else eret []))
        (\<lambda>e. eret [''check guard rule: '' @ error_text e])"
    proof -
      have "(if \<not> p then eret [] else m) = (if p then m else eret [])" for p and m :: "('k, string list) lx" by simp
      then show ?thesis by (simp only: remove_guard_def wf_ingress_guard [OF wf] sum.case not_True_eq_False if_False simp_thms)
    qed
    then show ?thesis
      unfolding rule_commands
      by (simp only:) (rule triple_checked [OF triple_guard_present [OF wf]], rule triple_noted, rule triple_rule_delete;
        simp add: P ip)
  qed
  have steps: "\<not> (rc_table_id cfg = 0 \<or> rc_rule_priority cfg = 0 \<or> effective_rule_mode cfg = routing_rule_fwmark \<and> rc_fw_mark cfg = 0)"
    using wf by (simp add: wf_ingress_def routing_rule_ingress_def routing_rule_fwmark_def)
  let ?Q = "stands rules routes ?P (?A - {guard_rule cfg}) ?E evs"
  have last: "triple (\<lambda>w. ((f1 = [] \<and> f2 = []) \<and> f3 = []) \<and> f4 = [] \<longrightarrow> ?Q w)
      (eguard (f1 @ f2 @ f3 @ f4 = []) e) (\<lambda>_. ?Q) (\<lambda>_ _. True)" for f1 f2 f3 f4 :: "string list" and e
    by (rule triple_eguard) auto
  show ?thesis
    unfolding remove_policy_routing_def Let_def using steps
    by (simp only: if_False)
      (rule triple_bind [OF 1], rule triple_bind [OF triple_while_ok [OF 2]], rule triple_bind [OF triple_while_ok [OF 3]],
        rule triple_bind [OF triple_while_ok [OF 4]], rule last)
qed

end

end
