(* ===== verification/LinuxLab.thy ===== *)
theory LinuxLab
  imports LinuxKernel "HOL-Library.AList"
begin

text \<open>
  A reference kernel for the laws of LinuxKernel: lists of rules and routes, changed by the arguments of
  \<open>ip\<close> and printed as its JSON. It shows that the laws can hold, and it runs the operations of the
  backend in the witnesses. The numbers it prints are read back by the code's own parsers.
\<close>

subsection \<open>Printed marks are read back\<close>

lemma trim_space_mark: "trim_space (mark_hex m) = mark_hex m"
  by (rule trim_space_printable) (use hex_digits_facts in \<open>simp add: mark_hex_def printable_def\<close>)

lemma parse_uint0_mark: "parse_uint0 (mark_hex m) = Some m"
proof -
  have us: "CHR ''_'' \<notin> set (mark_hex m)" using hex_digits_facts by (simp add: mark_hex_def)
  obtain c cs where s: "hex_digits (unat m) = c # cs" using hex_digits_facts by (cases "hex_digits (unat m)") auto
  have "uint_digits True 16 0 (c # cs) = Some (unat m)" using hex_digits_facts [of True "unat m"] s by simp
  then show ?thesis
    using us by (simp add: parse_uint0_def mark_hex_def s lower_ascii_def is_upper_ascii_def to_uint_word_unat del: uint_digits.simps)
qed

subsection \<open>The kernel\<close>

record lab =
  la_rules :: "krule list"
  la_routes :: "kroute list"
  la_files :: "(string \<times> string) list"
  la_tables :: "(string \<times> json) list"
  la_links :: json
  la_loaded :: "string list"
  la_namespace :: string

definition rule_known :: "krule \<Rightarrow> bool" where
  "rule_known r = (case kr_select r of ByInterface i \<Rightarrow> validate_interface_name i = None | ByMark _ \<Rightarrow> True)"

definition known_rules :: "lab \<Rightarrow> krule list" where
  "known_rules k = filter rule_known (la_rules k)"

fun read_action :: "string list \<Rightarrow> rule_action option" where
  "read_action [a] = (if a = ''prohibit'' then Some Prohibit else None)"
| "read_action [a, t] = (if a = ''table'' then map_option Lookup (parse_uint10 t) else None)"
| "read_action _ = None"

definition read_selector :: "string \<Rightarrow> string \<Rightarrow> selector option" where
  "read_selector k v = (if k = ''iif'' then Some (ByInterface v) else if k = ''fwmark'' then map_option ByMark (parse_uint0 v) else None)"

fun read_rule :: "string list \<Rightarrow> krule option" where
  "read_rule (p # n # k # v # rest) =
     (if p \<noteq> ''pref'' then None
      else (case (parse_uint10 n, read_selector k v, read_action rest) of
              (Some pref, Some sel, Some act) \<Rightarrow> Some \<lparr>kr_pref = pref, kr_select = sel, kr_action = act\<rparr>
            | _ \<Rightarrow> None))"
| "read_rule _ = None"

fun read_table :: "string list \<Rightarrow> 32 word option" where
  "read_table [k, n] = (if k = ''table'' then parse_uint10 n else None)"
| "read_table [a, b, k, n] = (if a = ''scope'' \<and> b = ''link'' \<and> k = ''table'' then parse_uint10 n else None)"
| "read_table _ = None"

fun read_route :: "string list \<Rightarrow> kroute option" where
  "read_route (dst # k # v # rest) =
     (if k = ''dev'' then map_option (\<lambda>t. \<lparr>kt_table = t, kt_dst = dst, kt_dev = v, kt_via = []\<rparr>) (read_table rest)
      else if k = ''via'' \<and> take 1 rest = [''dev'']
      then map_option (\<lambda>t. \<lparr>kt_table = t, kt_dst = dst, kt_dev = concat (take 1 (drop 1 rest)), kt_via = v\<rparr>) (read_table (drop 2 rest))
      else None)"
| "read_route _ = None"

lemma read_rule_args: "read_rule (rule_args r) = Some r"
  by (cases r; cases "kr_select r"; cases "kr_action r")
    (simp_all add: rule_args_def selector_args_def action_args_def read_selector_def parse_uint10_text parse_uint0_mark)

lemma read_route_args:
  "read_route (kt_dst t # via_args t @ [''table'', uint_text (kt_table t)]) = Some t"
  "read_route (kt_dst t # via_args t @ [''scope'', ''link'', ''table'', uint_text (kt_table t)]) = Some t"
  by (cases t; simp add: via_args_def parse_uint10_text)+

text \<open>What the kernel answers. A command \<open>refuse\<close> names is not permitted.\<close>

definition netlink_error :: "string \<Rightarrow> cmd_failure" where
  "netlink_error what = CmdFailure ''exit status 2'' (''RTNETLINK answers: '' @ what) []"

definition rule_command :: "string \<Rightarrow> krule \<Rightarrow> lab \<Rightarrow> cmd_failure option \<times> lab" where
  "rule_command verb r k =
     (if verb = ''add'' then
        if \<not> rule_known r then (Some (netlink_error ''Invalid argument''), k)
        else if r \<in> set (la_rules k) then (Some (netlink_error ''File exists''), k)
        else (None, k\<lparr>la_rules := la_rules k @ [r]\<rparr>)
      else if verb = ''del'' then
        if r \<in> set (known_rules k) then (None, k\<lparr>la_rules := removeAll r (la_rules k)\<rparr>)
        else (Some (netlink_error ''No such file or directory''), k)
      else (Some (netlink_error ''Invalid argument''), k))"

definition route_command :: "string \<Rightarrow> kroute \<Rightarrow> lab \<Rightarrow> cmd_failure option \<times> lab" where
  "route_command verb t k =
     (if verb = ''replace'' then (None, k\<lparr>la_routes := t # filter (\<lambda>x. \<not> same_slot x t) (la_routes k)\<rparr>)
      else if verb = ''del'' then
        if t \<in> set (la_routes k) then (None, k\<lparr>la_routes := removeAll t (la_routes k)\<rparr>)
        else (Some (netlink_error ''No such process''), k)
      else (Some (netlink_error ''Invalid argument''), k))"

definition lab_ip :: string where "lab_ip = ''/sbin/ip''"
definition lab_nft :: string where "lab_nft = ''/usr/sbin/nft''"

fun lab_command :: "string list \<Rightarrow> lab \<Rightarrow> cmd_failure option \<times> lab" where
  "lab_command (prog # kind # verb # args) k =
     (if prog = lab_ip \<and> kind = ''rule'' then
        (case read_rule args of Some r \<Rightarrow> rule_command verb r k | None \<Rightarrow> (Some (netlink_error ''Invalid argument''), k))
      else if prog = lab_ip \<and> kind = ''route'' then
        (case read_route args of Some t \<Rightarrow> route_command verb t k | None \<Rightarrow> (Some (netlink_error ''Invalid argument''), k))
      else if prog = lab_nft \<and> kind = ''delete'' \<and> verb = ''table'' then
        (None, k\<lparr>la_tables := filter (\<lambda>(n, _). n \<noteq> last args) (la_tables k)\<rparr>)
      else (Some (netlink_error ''Invalid argument''), k))"
| "lab_command _ k = (Some (netlink_error ''Invalid argument''), k)"

definition show_fields :: "krule \<Rightarrow> ip_rule" where
  "show_fields r =
     [(''priority'', JNumber (uint_text (kr_pref r)))]
     @ (case kr_select r of ByInterface i \<Rightarrow> [(''iif'', JString i)] | ByMark m \<Rightarrow> [(''fwmark'', JString (mark_hex m))])
     @ (case kr_action r of Lookup t \<Rightarrow> [(''table'', JString (uint_text t))] | Prohibit \<Rightarrow> [(''action'', JString ''prohibit'')])"

definition show_route :: "kroute \<Rightarrow> json" where
  "show_route t =
     JObject ([(''dst'', JString (kt_dst t)), (''dev'', JString (kt_dev t))]
       @ (if kt_via t = [] then [] else [(''gateway'', JString (kt_via t))]))"

definition show_tables :: "lab \<Rightarrow> json" where
  "show_tables k =
     JObject [(''nftables'', JArray (map (\<lambda>(n, _).
       JObject [(''table'', JObject [(''family'', JString ''inet''), (''name'', JString n)])]) (la_tables k)))]"

definition missing :: "string \<Rightarrow> probe_failure" where
  "missing what = ProbeFailed (CmdFailure ''exit status 1'' what [])"

definition lab_probe :: "string list \<Rightarrow> lab \<Rightarrow> (probe_failure + json option) \<times> lab" where
  "lab_probe argv k =
     ((if argv = [lab_ip, ''-j'', ''rule'', ''show''] then Inr (Some (JArray (map (\<lambda>r. JObject (show_fields r)) (known_rules k))))
       else if take 5 argv = [lab_ip, ''-j'', ''route'', ''show'', ''table''] \<and> length argv = 6 then
         (case filter (\<lambda>t. uint_text (kt_table t) = last argv) (la_routes k) of
            [] \<Rightarrow> Inl (missing ''Error: ipv4: FIB table does not exist.'')
          | ts \<Rightarrow> Inr (Some (JArray (map show_route ts))))
       else if argv = [lab_ip, ''-j'', ''addr'', ''show''] then Inr (Some (la_links k))
       else if argv = [lab_nft, ''-j'', ''list'', ''tables''] then Inr (Some (show_tables k))
       else if take 5 argv = [lab_nft, ''-j'', ''list'', ''table'', ''inet''] \<and> length argv = 6 then
         (case map_of (la_tables k) (last argv) of
            None \<Rightarrow> Inl (missing ''Error: No such file or directory'')
          | Some j \<Rightarrow> Inr (Some j))
       else Inl (missing ''unknown command'')), k)"

definition lab_host :: "(string list \<Rightarrow> bool) \<Rightarrow> lab host" where
  "lab_host refuse =
     \<lparr>ho_ip = lab_ip, ho_nft = lab_nft,
      ho_run = (\<lambda>argv k. if refuse argv then (Some (netlink_error ''Operation not permitted''), k) else lab_command argv k),
      ho_load = (\<lambda>text k. (None, k\<lparr>la_loaded := la_loaded k @ [text]\<rparr>)),
      ho_probe = lab_probe,
      ho_text = (\<lambda>argv k. (Inr ''nftables v1.0.9'', k)),
      ho_read = (\<lambda>p k. (case map_of (la_files k) p of None \<Rightarrow> Inl (NotExist ''no such file'') | Some v \<Rightarrow> Inr v, k)),
      ho_writable = (\<lambda>p k. (map_of (la_files k) p \<noteq> None, k)),
      ho_write = (\<lambda>p v k. (None, k\<lparr>la_files := AList.update p v (la_files k)\<rparr>)),
      ho_temp = (\<lambda>s k. (None, k)),
      ho_namespace = (\<lambda>k. (Inr (la_namespace k), k)),
      ho_stat = (\<lambda>p k. (Inr True, k)),
      ho_open = (\<lambda>p k. (None, k)),
      ho_context = (\<lambda>k. (None, k)),
      ho_now = (\<lambda>k. 0),
      ho_select = (\<lambda>d i k. (True, k))\<rparr>"

abbreviation lab_rules :: "lab \<Rightarrow> krule set" where "lab_rules k \<equiv> set (known_rules k)"
abbreviation lab_routes :: "lab \<Rightarrow> kroute set" where "lab_routes k \<equiv> set (la_routes k)"

subsection \<open>It keeps the laws\<close>

lemma lab_host_simps [simp]:
  "ho_ip (lab_host refuse) = lab_ip" "ho_nft (lab_host refuse) = lab_nft" "ho_probe (lab_host refuse) = lab_probe"
  "ho_run (lab_host refuse) argv k =
     (if refuse argv then (Some (netlink_error ''Operation not permitted''), k) else lab_command argv k)"
  by (simp_all add: lab_host_def)

lemma lab_quiet:
  "\<not> mutation c \<Longrightarrow> next_kernel (lab_host refuse) c k = k"
  by (cases c) (simp_all add: lab_host_def lab_probe_def)

lemma lab_failed:
  assumes "ho_run (lab_host refuse) argv k = (Some f, k')"
  shows "k' = k"
  using assms
  by (cases "(argv, k)" rule: lab_command.cases)
    (auto simp: rule_command_def route_command_def split: if_splits option.splits)

lemma lab_ip_rule: "lab_command (lab_ip # ''rule'' # verb # rule_args r) k = rule_command verb r k"
  by (simp add: read_rule_args)

lemma lab_ip_route:
  "lab_command (lab_ip # ''route'' # verb # kt_dst t # via_args t @ [''table'', uint_text (kt_table t)]) k = route_command verb t k"
  "lab_command (lab_ip # ''route'' # verb # kt_dst t # via_args t @ [''scope'', ''link'', ''table'', uint_text (kt_table t)]) k
     = route_command verb t k"
  by (simp_all only: lab_command.simps read_route_args) simp_all

lemma shown_fields:
  "rule_field (show_fields r) ''priority'' = Some (kr_pref r)"
  "rule_field (show_fields r) ''table'' = (case kr_action r of Lookup t \<Rightarrow> Some t | Prohibit \<Rightarrow> None)"
  "rule_field (show_fields r) ''fwmark'' = (case kr_select r of ByMark m \<Rightarrow> Some m | ByInterface _ \<Rightarrow> None)"
  by (simp_all add: rule_field_def raw_field_def show_fields_def parse_uint10_text trim_space_text parse_uint0_text
      trim_space_mark parse_uint0_mark split: selector.split rule_action.split)

lemma trim_space_prohibit: "trim_space ''prohibit'' = ''prohibit''"
  by (rule trim_space_printable) (simp add: printable_def)

lemma shown_names:
  "rule_known r \<Longrightarrow> rule_iif (show_fields r) = (case kr_select r of ByInterface i \<Rightarrow> Some i | ByMark _ \<Rightarrow> None)"
  "rule_string_field (show_fields r) [''action'', ''type''] = (case kr_action r of Prohibit \<Rightarrow> Some ''prohibit'' | Lookup _ \<Rightarrow> None)"
  by (auto simp: rule_iif_def raw_field_def show_fields_def rule_known_def valid_interface_name trim_space_prohibit
      split: selector.split rule_action.split)

lemma primary_shown:
  assumes "rule_known r"
  shows "rule_matches_config (show_fields r) cfg \<longleftrightarrow> r = primary_rule cfg"
  using assms
  by (cases r; cases "kr_select r"; cases "kr_action r")
    (auto simp: rule_matches_config_def shown_fields shown_names primary_rule_def)

lemma guard_shown:
  assumes "rule_known r" "guard_rule_priority cfg = Inr (rc_rule_priority cfg + 1)" "effective_rule_mode cfg = routing_rule_ingress"
  shows "guard_rule_matches_config (show_fields r) cfg \<longleftrightarrow> r = guard_rule cfg"
  using assms
  by (cases r; cases "kr_select r"; cases "kr_action r")
    (auto simp: guard_rule_matches_config_def shown_fields shown_names guard_rule_def
      simp del: rule_string_field.simps)

lemma decode_shown: "decode_slice decode_object (JArray (map (\<lambda>r. JObject (show_fields r)) rs)) = Some (map show_fields rs)"
  by (induction rs) auto

lemma known_primary:
  "validate_interface_name (rc_lan_interface cfg) = None \<Longrightarrow> rule_known (primary_rule cfg) \<and> rule_known (guard_rule cfg)"
  by (simp add: rule_known_def primary_rule_def guard_rule_def)

lemma lab_rules_shown:
  assumes "ho_probe (lab_host refuse) [ho_ip (lab_host refuse), ''-j'', ''rule'', ''show''] k = (Inr (Some j), k')"
    and "decode_slice decode_object j = Some rs"
  shows "list_ex (\<lambda>r. rule_matches_config r cfg) rs \<longleftrightarrow> primary_rule cfg \<in> lab_rules k"
    and "guard_rule_priority cfg = Inr (rc_rule_priority cfg + 1) \<Longrightarrow> effective_rule_mode cfg = routing_rule_ingress \<Longrightarrow>
      list_ex (\<lambda>r. guard_rule_matches_config r cfg) rs \<longleftrightarrow> guard_rule cfg \<in> lab_rules k"
proof -
  have rs: "rs = map show_fields (known_rules k)"
    using assms decode_shown by (auto simp: lab_probe_def)
  have known: "r \<in> lab_rules k \<Longrightarrow> rule_known r" for r by (simp add: known_rules_def)
  show "list_ex (\<lambda>r. rule_matches_config r cfg) rs \<longleftrightarrow> primary_rule cfg \<in> lab_rules k"
    using known primary_shown by (auto simp: rs list_ex_iff)
  show "list_ex (\<lambda>r. guard_rule_matches_config r cfg) rs \<longleftrightarrow> guard_rule cfg \<in> lab_rules k"
    if "guard_rule_priority cfg = Inr (rc_rule_priority cfg + 1)" "effective_rule_mode cfg = routing_rule_ingress"
    using known guard_shown [OF _ that] by (auto simp: rs list_ex_iff)
qed

lemma uint_text_inj: "uint_text a = uint_text b \<longleftrightarrow> a = b"
  by (metis parse_uint10_text option.inject)

lemma shown_table:
  "fst (ho_probe (lab_host refuse) (table_probe (lab_host refuse) tid) k) =
     (case filter (\<lambda>t. kt_table t = tid) (la_routes k) of
        [] \<Rightarrow> Inl (missing ''Error: ipv4: FIB table does not exist.'')
      | t # ts \<Rightarrow> Inr (Some (JArray (map show_route (t # ts)))))"
  by (simp add: lab_probe_def table_probe_def uint_text_inj lab_ip_def split: list.split)

lemma decode_routes: "decode_slice Some (JArray js) = Some js"
  by (induction js) auto

text \<open>A refusal is allowed as long as it is not mistaken for a missing entry.\<close>

lemma lab_laws:
  assumes refused: "\<And>argv. refuse argv \<Longrightarrow> \<not> is_not_exist (command_error argv (netlink_error ''Operation not permitted''))"
  shows "ip_laws (lab_host refuse) lab_rules lab_routes"
proof
  fix c k assume "\<not> mutation c"
  then show "lab_rules (next_kernel (lab_host refuse) c k) = lab_rules k
      \<and> lab_routes (next_kernel (lab_host refuse) c k) = lab_routes k"
    by (simp add: lab_quiet)
next
  fix argv k f k' assume "ho_run (lab_host refuse) argv k = (Some f, k')"
  then show "lab_rules k' = lab_rules k \<and> lab_routes k' = lab_routes k"
    using lab_failed by blast
next
  fix r k k' assume "ho_run (lab_host refuse) ([ho_ip (lab_host refuse), ''rule'', ''add''] @ rule_args r) k = (None, k')"
  then show "lab_rules k' = insert r (lab_rules k) \<and> lab_routes k' = lab_routes k"
    by (auto simp: lab_ip_rule rule_command_def known_rules_def simp del: lab_command.simps split: if_splits)
next
  fix r k k' assume "ho_run (lab_host refuse) ([ho_ip (lab_host refuse), ''rule'', ''del''] @ rule_args r) k = (None, k')"
  then show "lab_rules k' = lab_rules k - {r} \<and> lab_routes k' = lab_routes k"
    by (auto simp: lab_ip_rule rule_command_def known_rules_def simp del: lab_command.simps split: if_splits)
next
  fix r k k' f assume "ho_run (lab_host refuse) ([ho_ip (lab_host refuse), ''rule'', ''del''] @ rule_args r) k = (Some f, k')"
    and "is_not_exist (command_error ([ho_ip (lab_host refuse), ''rule'', ''del''] @ rule_args r) f)"
  then show "r \<notin> lab_rules k"
    using refused [of "[lab_ip, ''rule'', ''del''] @ rule_args r"]
    by (auto simp: lab_ip_rule rule_command_def simp del: lab_command.simps split: if_splits)
next
  fix argv t k k'
  assume "argv \<in> {[ho_ip (lab_host refuse), ''route'', ''replace'', kt_dst t] @ via_args t @ [''table'', uint_text (kt_table t)],
          [ho_ip (lab_host refuse), ''route'', ''replace'', kt_dst t] @ via_args t @ [''scope'', ''link'', ''table'', uint_text (kt_table t)]}"
    and "ho_run (lab_host refuse) argv k = (None, k')"
  then show "lab_rules k' = lab_rules k \<and> lab_routes k' = insert t {x \<in> lab_routes k. \<not> same_slot x t}"
    by (auto simp: lab_ip_route route_command_def known_rules_def simp del: lab_command.simps split: if_splits)
next
  fix t k k'
  assume "ho_run (lab_host refuse) ([ho_ip (lab_host refuse), ''route'', ''del'', kt_dst t] @ via_args t @ [''table'', uint_text (kt_table t)]) k = (None, k')"
  then show "lab_rules k' = lab_rules k \<and> lab_routes k' = lab_routes k - {t}"
    by (auto simp: lab_ip_route route_command_def known_rules_def simp del: lab_command.simps split: if_splits)
next
  fix t k k' f
  assume "ho_run (lab_host refuse) ([ho_ip (lab_host refuse), ''route'', ''del'', kt_dst t] @ via_args t @ [''table'', uint_text (kt_table t)]) k = (Some f, k')"
    and "is_not_exist (command_error ([ho_ip (lab_host refuse), ''route'', ''del'', kt_dst t] @ via_args t @ [''table'', uint_text (kt_table t)]) f)"
  then show "t \<notin> lab_routes k"
    using refused [of "[lab_ip, ''route'', ''del'', kt_dst t] @ via_args t @ [''table'', uint_text (kt_table t)]"]
    by (auto simp: lab_ip_route route_command_def simp del: lab_command.simps split: if_splits)
next
  fix k j k' rs cfg
  assume "ho_probe (lab_host refuse) [ho_ip (lab_host refuse), ''-j'', ''rule'', ''show''] k = (Inr (Some j), k')"
    and "decode_slice decode_object j = Some rs"
  from lab_rules_shown [OF this]
  show "list_ex (\<lambda>r. rule_matches_config r cfg) rs = (primary_rule cfg \<in> lab_rules k)
        \<and> (guard_rule_priority cfg = Inr (rc_rule_priority cfg + 1) \<longrightarrow> effective_rule_mode cfg = routing_rule_ingress \<longrightarrow>
             list_ex (\<lambda>r. guard_rule_matches_config r cfg) rs = (guard_rule cfg \<in> lab_rules k))"
    by blast
next
  fix tid k j and rs :: "json list"
  assume "fst (ho_probe (lab_host refuse) (table_probe (lab_host refuse) tid) k) = Inr (Some j)" "decode_slice Some j = Some rs"
  then show "rs = [] \<longleftrightarrow> (\<forall>t \<in> lab_routes k. kt_table t \<noteq> tid)"
    using shown_table decode_routes by (auto split: list.splits)
next
  fix tid k f
  assume "fst (ho_probe (lab_host refuse) (table_probe (lab_host refuse) tid) k) = Inl f"
  then show "\<forall>t \<in> lab_routes k. kt_table t \<noteq> tid"
    using shown_table by (auto simp: filter_empty_conv split: list.splits)
qed

interpretation lab: ip_laws "lab_host (\<lambda>_. False)" lab_rules lab_routes
  by (rule lab_laws) simp

end
