(* ===== verification/LinuxCycle.thy ===== *)
theory LinuxCycle
  imports LinuxLab
begin

text \<open>
  The life of the policy routing of the same-LAN mode (\<open>routing.go\<close>): the ownership check before a start,
  installing rule, guard and routes, and removing them, over any host that keeps the laws of LinuxKernel;
  the instance of LinuxLab runs them on concrete kernels.
\<close>

subsection \<open>The ownership check\<close>

text \<open>The fields of the configuration the ownership check and the recipe share.\<close>

definition same_recipe :: "net_config \<Rightarrow> routing_config \<Rightarrow> bool" where
  "same_recipe n cfg \<longleftrightarrow>
     nf_same_lan n = (effective_rule_mode cfg = routing_rule_ingress) \<and> nf_lan_interface n = rc_lan_interface cfg
     \<and> nf_route_table_id n = rc_table_id cfg \<and> nf_route_rule_priority n = rc_rule_priority cfg \<and> nf_fw_mark n = rc_fw_mark cfg"

lemma primary_collides:
  assumes "rule_matches_config r cfg" "same_recipe n cfg" "rc_table_id cfg \<noteq> qnap_host_dns_route_table_id"
  shows "rule_collides n r"
  using assms by (auto simp: rule_matches_config_def same_recipe_def rule_collides_def is_owned_qnap_host_dns_rule_def)

lemma guard_collides:
  assumes "guard_rule_matches_config r cfg" "same_recipe n cfg" "wf_ingress cfg"
    "rc_rule_priority cfg + 1 \<notin> {qnap_host_dns_udp_priority, qnap_host_dns_tcp_priority}"
  shows "rule_collides n r"
  using assms wf_ingress_guard [OF assms(3)]
  by (auto simp: guard_rule_matches_config_def same_recipe_def rule_collides_def is_owned_qnap_host_dns_rule_def)

context ip_laws begin

lemma triple_table_free:
  assumes "tid \<noteq> 0" "ho_ip h \<noteq> []"
  shows "triple (stands rules routes P A B evs) (routing_table_has_entries h tid)
    (\<lambda>y w. stands rules routes P A B evs w \<and> y = (\<exists>t \<in> B. kt_table t = tid)) (\<lambda>_. stands rules routes P A B evs)"
proof -
  have shown: "triple (\<lambda>w. routes (lw_kernel w) = B) (probe_existing h (table_probe h tid))
      (\<lambda>out _. case out of None \<Rightarrow> \<forall>t \<in> B. kt_table t \<noteq> tid
         | Some None \<Rightarrow> True
         | Some (Some j) \<Rightarrow> \<forall>js. decode_slice Some j = Some js \<longrightarrow> (js = []) = (\<forall>t \<in> B. kt_table t \<noteq> tid)) (\<lambda>_ _. True)"
    unfolding triple_def
  proof (intro allI impI)
    fix w :: "'k lworld" assume B: "routes (lw_kernel w) = B"
    have hd: "hd (table_probe h tid) \<noteq> []" using assms(2) by (simp add: table_probe_def)
    obtain a k' where a: "ho_probe h (table_probe h tid) (lw_kernel w) = (a, k')" by (cases "ho_probe h (table_probe h tid) (lw_kernel w)")
    show "case probe_existing h (table_probe h tid) w of (Inl e, w') \<Rightarrow> True
        | (Inr out, w') \<Rightarrow> (case out of None \<Rightarrow> \<forall>t \<in> B. kt_table t \<noteq> tid
           | Some None \<Rightarrow> True
           | Some (Some j) \<Rightarrow> \<forall>js. decode_slice Some j = Some js \<longrightarrow> (js = []) = (\<forall>t \<in> B. kt_table t \<noteq> tid))"
      using a hd B table_missing [of tid "lw_kernel w"] routes_shown [of tid "lw_kernel w"]
      by (cases a) (auto simp: probe_existing_def probe_def host_call_def run_simps split: option.splits)
  qed
  have "triple (\<lambda>w. routes (lw_kernel w) = B) (routing_table_has_entries h tid) (\<lambda>y _. y = (\<exists>t \<in> B. kt_table t = tid)) (\<lambda>_ _. True)"
    unfolding routing_table_has_entries_def using assms(1)
    by (simp, intro triple_bind [OF shown]) (auto simp: triple_def decoded_def effect_defs split: option.splits)
  then have "triple (\<lambda>w. stands rules routes P A B evs w \<and> routes (lw_kernel w) = B) (routing_table_has_entries h tid)
      (\<lambda>y w. stands rules routes P A B evs w \<and> y = (\<exists>t \<in> B. kt_table t = tid)) (\<lambda>e w. stands rules routes P A B evs w \<and> True)"
    by (rule triple_conj [OF keeps_triple [OF observer.keeps_tables(1) [OF observed]]])
  then show ?thesis
    by (rule triple_weaken) (auto simp: stands_def)
qed

lemma triple_validate_ownership:
  assumes "same_recipe n cfg" "wf_ingress cfg" "rc_table_id cfg \<noteq> qnap_host_dns_route_table_id"
    "rc_rule_priority cfg + 1 \<notin> {qnap_host_dns_udp_priority, qnap_host_dns_tcp_priority}" "ho_ip h \<noteq> []"
  shows "triple (stands rules routes P A B evs) (validate_ownership h n)
    (\<lambda>_ w. stands rules routes P A B evs w \<and> primary_rule cfg \<notin> A \<and> guard_rule cfg \<notin> A
       \<and> (\<forall>t \<in> B. kt_table t \<noteq> rc_table_id cfg)) (\<lambda>_. stands rules routes P A B evs)"
proof -
  let ?S = "stands rules routes P A B evs"
  let ?free = "\<not> (\<exists>t \<in> B. kt_table t = rc_table_id cfg)"
  have n: "nf_same_lan n" "nf_route_table_id n = rc_table_id cfg" "rc_table_id cfg \<noteq> 0"
    using assms(1,2) by (simp_all add: same_recipe_def wf_ingress_def)
  have collides: "list_ex (rule_collides n) rs" 
    if "list_ex (\<lambda>r. rule_matches_config r cfg) rs \<or> list_ex (\<lambda>r. guard_rule_matches_config r cfg) rs" for rs
    using that primary_collides [OF _ assms(1,3)] guard_collides [OF _ assms(1,2,4)] by (auto simp: list_ex_iff)
  have rules: "triple (\<lambda>w. ?S w \<and> ?free) (ebind (policy_rules h) (\<lambda>rules. eguard (\<not> list_ex (rule_collides n) rules) e))
      (\<lambda>_ w. ?S w \<and> primary_rule cfg \<notin> A \<and> guard_rule cfg \<notin> A \<and> ?free) (\<lambda>_. ?S)" for e
  proof (rule triple_pure)
    assume free: ?free
    have "triple (\<lambda>w. rules (lw_kernel w) = A) (policy_rules h)
        (\<lambda>rs _. list_ex (\<lambda>r. rule_matches_config r cfg) rs = (primary_rule cfg \<in> A)
          \<and> list_ex (\<lambda>r. guard_rule_matches_config r cfg) rs = (guard_rule cfg \<in> A)) (\<lambda>_ _. True)"
      unfolding policy_rules_def probe_json_def probe_def host_call_def triple_def
      using rules_shown [OF _ _ wf_ingress_guard(3) [OF assms(2)]] wf_ingress_guard [OF assms(2)]
      by (auto simp: run_simps split: prod.splits sum.splits option.splits)
    then have "triple (\<lambda>w. ?S w \<and> rules (lw_kernel w) = A) (policy_rules h)
        (\<lambda>rs w. ?S w \<and> list_ex (\<lambda>r. rule_matches_config r cfg) rs = (primary_rule cfg \<in> A)
          \<and> list_ex (\<lambda>r. guard_rule_matches_config r cfg) rs = (guard_rule cfg \<in> A)) (\<lambda>e w. ?S w \<and> True)"
      by (rule triple_conj [OF keeps_triple [OF observer.keeps_rules(1) [OF observed]]])
    then have "triple ?S (policy_rules h)
        (\<lambda>rs w. ?S w \<and> list_ex (\<lambda>r. rule_matches_config r cfg) rs = (primary_rule cfg \<in> A)
          \<and> list_ex (\<lambda>r. guard_rule_matches_config r cfg) rs = (guard_rule cfg \<in> A)) (\<lambda>e. ?S)"
      by (rule triple_weaken) (auto simp: stands_def)
    then show "triple ?S (ebind (policy_rules h) (\<lambda>rules. eguard (\<not> list_ex (rule_collides n) rules) e))
        (\<lambda>_ w. ?S w \<and> primary_rule cfg \<notin> A \<and> guard_rule cfg \<notin> A \<and> ?free) (\<lambda>_. ?S)"
      by (rule triple_bind) (rule triple_eguard; use free collides in blast)
  qed
  have checks: "triple ?S (eguard b e) (\<lambda>_. ?S) (\<lambda>_. ?S)" for b e
    by (rule triple_eguard)
  have empty: "triple (\<lambda>w. ?S w \<and> y = (\<exists>t \<in> B. kt_table t = rc_table_id cfg)) (eguard (\<not> y) e) (\<lambda>_ w. ?S w \<and> ?free) (\<lambda>_. ?S)" for y e
    by (rule triple_eguard) auto
  have found: "triple ?S (routing_table_has_entries h (nf_route_table_id n))
      (\<lambda>y w. ?S w \<and> y = (\<exists>t \<in> B. kt_table t = rc_table_id cfg)) (\<lambda>_. ?S)"
    unfolding n(2) by (rule triple_table_free [OF n(3) assms(5)])
  have "triple ?S (validate_ownership h n)
      (\<lambda>_ w. ?S w \<and> primary_rule cfg \<notin> A \<and> guard_rule cfg \<notin> A \<and> ?free) (\<lambda>_. ?S)"
    unfolding validate_ownership_def using n(1)
    by (simp only: ewhen_def not_True_eq_False if_False ebind_eret)
      (rule triple_bind [OF checks triple_bind [OF checks triple_bind [OF found triple_bind [OF empty rules]]]])
  then show ?thesis by simp
qed

end

subsection \<open>Installing and removing\<close>

lemma stands_start:
  "P (rules (lw_kernel w)) (routes (lw_kernel w)) \<Longrightarrow> stands rules routes P (rules (lw_kernel w)) (routes (lw_kernel w)) (lw_log w) w"
  by (simp add: stands_def during_def)

lemma remove_run:
  assumes "ip_laws h rules routes" "ho_ip h \<noteq> []" "wf_ingress cfg"
    and gone: "removed_or_gone cfg (rules (lw_kernel w)) (routes (lw_kernel w))"
    and run: "remove_policy_routing h cfg w = (Inr (), w')"
  shows "stands rules routes (removed_or_gone cfg) (rules (lw_kernel w) - {primary_rule cfg} - {guard_rule cfg})
      (routes (lw_kernel w) - {lan_route cfg} - {egress_route cfg}) (lw_log w) w'"
  by (rule tripleD(1) [OF ip_laws.triple_remove [OF assms(1,3) gone assms(2)]
        stands_start [of "removed_or_gone cfg" rules w routes, OF gone] run])

lemma apply_run:
  assumes "ip_laws h rules routes" "wf_ingress cfg" "apply_policy_routing h cfg w = (Inr (), w')"
  shows "rules (lw_kernel w') = insert (primary_rule cfg) (insert (guard_rule cfg) (rules (lw_kernel w)))"
    and "routes (lw_kernel w') = installed cfg (routes (lw_kernel w))"
proof -
  let ?T = "\<lambda>_ _. True"
  have tr: "triple (stands rules routes ?T (rules (lw_kernel w)) (routes (lw_kernel w)) (lw_log w)) (apply_policy_routing h cfg)
      (\<lambda>_. stands rules routes ?T (insert (primary_rule cfg) (insert (guard_rule cfg) (rules (lw_kernel w))))
         (installed cfg (routes (lw_kernel w))) (lw_log w)) (\<lambda>_. during rules routes ?T (lw_log w))"
    by (rule ip_laws.triple_apply [OF assms(1,2)]) simp_all
  from tripleD(1) [OF tr stands_start [of ?T rules w routes, OF TrueI] assms(3)]
  show "rules (lw_kernel w') = insert (primary_rule cfg) (insert (guard_rule cfg) (rules (lw_kernel w)))"
    "routes (lw_kernel w') = installed cfg (routes (lw_kernel w))"
    by (simp_all add: stands_def)
qed


text \<open>Removal takes exactly what was installed and the guard last. If \<open>removePolicyRouting\<close> succeeds, all it
  has changed is that its selector, its guard and its two routes are gone; and on the way there, as long
  as any of its selector or routes was still there, so was the guard.\<close>

theorem removal_is_exact:
  assumes laws: "ip_laws h rules routes" and ip: "ho_ip h \<noteq> []" and wf: "wf_ingress cfg"
    and guarded: "guard_rule cfg \<in> rules (lw_kernel w)"
    and run: "remove_policy_routing h cfg w = (Inr (), w')"
  shows "rules (lw_kernel w') = rules (lw_kernel w) - {primary_rule cfg, guard_rule cfg}
    \<and> routes (lw_kernel w') = routes (lw_kernel w) - {lan_route cfg, egress_route cfg}
    \<and> (\<exists>new. lw_log w' = lw_log w @ new
        \<and> (\<forall>ev \<in> set new. guard_rule cfg \<in> rules (le_kernel ev)
             \<or> primary_rule cfg \<notin> rules (le_kernel ev) \<and> lan_route cfg \<notin> routes (le_kernel ev)
               \<and> egress_route cfg \<notin> routes (le_kernel ev)))"
proof -
  let ?A = "rules (lw_kernel w)" and ?B = "routes (lw_kernel w)"
  have start: "removed_or_gone cfg ?A ?B" using guarded by (simp add: removed_or_gone_def)
  from remove_run [OF laws ip wf start run] show ?thesis
    by (auto simp: stands_def during_def list_all_iff removed_or_gone_def)
qed


subsection \<open>The guard after a failed removal\<close>

text \<open>Deleting the two routes leaves the rules as they are.\<close>

lemma route_operator:
  assumes "ip_laws h rules routes" "wf_ingress cfg"
  shows "operator h (\<lambda>w. rules (lw_kernel w) = A) (\<lambda>c. c = Run (lan_route_del h cfg) \<or> c = Run (default_route_del h cfg))"
proof
  fix w :: "'a lworld" and c b
  assume "rules (lw_kernel w) = A" "\<not> mutation c"
  then show "rules (lw_kernel (after_call h c b w)) = A"
    using ip_laws.quiet_host [OF assms(1)] by (simp add: after_call_def Let_def)
next
  fix w :: "'a lworld" and c b
  assume A: "rules (lw_kernel w) = A" and c: "c = Run (lan_route_del h cfg) \<or> c = Run (default_route_del h cfg)"
  have step: "rules (snd (ho_run h ([ho_ip h, ''route'', ''del'', kt_dst t] @ via_args t @ [''table'', uint_text (kt_table t)]) k)) = rules k" for t k
    using ip_laws.failed_command [OF assms(1)] ip_laws.route_deleted [OF assms(1)]
    by (cases "ho_run h ([ho_ip h, ''route'', ''del'', kt_dst t] @ via_args t @ [''table'', uint_text (kt_table t)]) k";
        cases "fst (ho_run h ([ho_ip h, ''route'', ''del'', kt_dst t] @ via_args t @ [''table'', uint_text (kt_table t)]) k)") auto
  have "next_kernel h c (lw_kernel w) = snd (ho_run h (lan_route_del h cfg) (lw_kernel w))
      \<or> next_kernel h c (lw_kernel w) = snd (ho_run h (default_route_del h cfg) (lw_kernel w))"
    using c by auto
  then have "rules (next_kernel h c (lw_kernel w)) = rules (lw_kernel w)"
    using step [of "lan_route cfg"] step [of "egress_route cfg"] route_commands(2) [of h cfg] default_route_commands(2) [OF assms(2), of h]
    by metis
  with A show "rules (lw_kernel (after_call h c b w)) = A" by (simp add: after_call_def Let_def)
qed simp

lemma readable_present:
  assumes "ip_laws h rules routes" "wf_ingress cfg" "ho_ip h \<noteq> []"
    and readable: "\<And>k. \<exists>j rs. fst (ho_probe h [ho_ip h, ''-j'', ''rule'', ''show''] k) = Inr (Some j) \<and> decode_slice decode_object j = Some rs"
  shows "\<exists>w'. rule_present h cfg w = (Inr (primary_rule cfg \<in> rules (lw_kernel w)), w') \<and> rules (lw_kernel w') = rules (lw_kernel w)"
    and "\<exists>w'. guard_rule_present h cfg w = (Inr (guard_rule cfg \<in> rules (lw_kernel w)), w') \<and> rules (lw_kernel w') = rules (lw_kernel w)"
proof -
  let ?T = "\<lambda>_ _. True"
  let ?S = "stands rules routes ?T (rules (lw_kernel w)) (routes (lw_kernel w)) (lw_log w)"
  have S: "?S w" by (rule stands_start) simp
  obtain rs w1 where rs: "policy_rules h w = (Inr rs, w1)"
    using readable [of "lw_kernel w"] assms(3)
    by (cases "ho_probe h [ho_ip h, ''-j'', ''rule'', ''show''] (lw_kernel w)")
      (auto simp: policy_rules_def probe_json_def probe_def host_call_def run_simps)
  show "\<exists>w'. rule_present h cfg w = (Inr (primary_rule cfg \<in> rules (lw_kernel w)), w') \<and> rules (lw_kernel w') = rules (lw_kernel w)"
    using tripleD(1) [OF ip_laws.triple_rule_present [OF assms(1,2)] S] rs
    by (force simp: rule_present_def run_simps stands_def)
  show "\<exists>w'. guard_rule_present h cfg w = (Inr (guard_rule cfg \<in> rules (lw_kernel w)), w') \<and> rules (lw_kernel w') = rules (lw_kernel w)"
    using tripleD(1) [OF ip_laws.triple_guard_present [OF assms(1,2)] S] rs wf_ingress_guard(1) [OF assms(2)]
    by (force simp: guard_rule_present_def run_simps stands_def)
qed

lemma remove_rule_refused:
  assumes "ip_laws h rules routes" "wf_ingress cfg" "ho_ip h \<noteq> []" "primary_rule cfg \<in> rules (lw_kernel w)"
    and readable: "\<And>k. \<exists>j rs. fst (ho_probe h [ho_ip h, ''-j'', ''rule'', ''show''] k) = Inr (Some j) \<and> decode_slice decode_object j = Some rs"
    and refused: "\<And>k. \<exists>f. fst (ho_run h (rule_del h cfg) k) = Some f \<and> \<not> is_not_exist (command_error (rule_del h cfg) f)"
  shows "\<exists>x w'. remove_rule h cfg w = (Inr [x], w') \<and> rules (lw_kernel w') = rules (lw_kernel w)"
proof -
  obtain w1 where w1: "rule_present h cfg w = (Inr True, w1)" "rules (lw_kernel w1) = rules (lw_kernel w)"
    using readable_present(1) [OF assms(1-3) readable, of w] assms(4) by auto
  obtain f k' where f: "ho_run h (rule_del h cfg) (lw_kernel w1) = (Some f, k')" "\<not> is_not_exist (command_error (rule_del h cfg) f)"
    using refused [of "lw_kernel w1"] by (cases "ho_run h (rule_del h cfg) (lw_kernel w1)") auto
  have "rules k' = rules (lw_kernel w1)" using ip_laws.failed_command [OF assms(1) f(1)] by simp
  moreover have "hd (rule_del h cfg) \<noteq> []" using assms(3) by (simp add: rule_del_def)
  ultimately show ?thesis
    using w1 f by (simp add: remove_rule_def run_simps noted_def delete_existing_def run_command_def host_call_def)
qed

lemma remove_guard_works:
  assumes "ip_laws h rules routes" "wf_ingress cfg" "ho_ip h \<noteq> []" "guard_rule cfg \<in> rules (lw_kernel w)"
    and readable: "\<And>k. \<exists>j rs. fst (ho_probe h [ho_ip h, ''-j'', ''rule'', ''show''] k) = Inr (Some j) \<and> decode_slice decode_object j = Some rs"
    and works: "\<And>k. guard_rule cfg \<in> rules k \<Longrightarrow> fst (ho_run h (guard_del h cfg (rc_rule_priority cfg + 1)) k) = None"
  shows "\<exists>w'. remove_guard h cfg w = (Inr [], w') \<and> rules (lw_kernel w') = rules (lw_kernel w) - {guard_rule cfg}"
proof -
  obtain w1 where w1: "guard_rule_present h cfg w = (Inr True, w1)" "rules (lw_kernel w1) = rules (lw_kernel w)"
    using readable_present(2) [OF assms(1-3) readable, of w] assms(4) by auto
  obtain k' where k': "ho_run h (guard_del h cfg (rc_rule_priority cfg + 1)) (lw_kernel w1) = (None, k')"
    using works [of "lw_kernel w1"] w1(2) assms(4) by (cases "ho_run h (guard_del h cfg (rc_rule_priority cfg + 1)) (lw_kernel w1)") auto
  have "rules k' = rules (lw_kernel w1) - {guard_rule cfg}"
    using k' ip_laws.rule_deleted [OF assms(1)] unfolding rule_commands by blast
  moreover have "hd (guard_del h cfg (rc_rule_priority cfg + 1)) \<noteq> []" using assms(3) by (simp add: guard_del_def)
  ultimately show ?thesis
    using w1 k' wf_ingress_guard [OF assms(2)]
    by (simp add: remove_guard_def run_simps noted_def delete_existing_def run_command_def host_call_def)
qed

lemma keeps_returns: "keeps I m \<Longrightarrow> I w \<Longrightarrow> m w = (r, w') \<Longrightarrow> I w'"
  by (cases r) (auto simp: keeps_def triple_def)

lemma noted_returns: "\<exists>f w'. noted what m w = (Inr f, w')"
  by (cases "m w"; cases "fst (m w)") (auto simp: noted_def run_simps)

lemma remove_routes_keep_rules:
  assumes "ip_laws h rules routes" "wf_ingress cfg"
  shows "\<exists>f w'. remove_lan_route h cfg w = (Inr f, w') \<and> rules (lw_kernel w') = rules (lw_kernel w)"
    and "\<exists>f w'. remove_default_route h cfg w = (Inr f, w') \<and> rules (lw_kernel w') = rules (lw_kernel w)"
proof -
  let ?I = "\<lambda>x. rules (lw_kernel x) = rules (lw_kernel w)"
  note op = route_operator [OF assms, of "rules (lw_kernel w)"]
  have obs: "observer h ?I" using op by (simp add: operator_def)
  have lan: "keeps ?I (remove_lan_route h cfg)"
    unfolding remove_lan_route_def
    by (intro keeps_intro observer.keeps_noted [OF obs] operator.keeps_delete [OF op]) simp
  have dflt: "keeps ?I (remove_default_route h cfg)"
    unfolding remove_default_route_def
    by (intro keeps_intro observer.keeps_noted [OF obs] operator.keeps_delete [OF op]) simp_all
  have "\<exists>f w'. remove_lan_route h cfg w = (Inr f, w')"
    by (simp add: remove_lan_route_def noted_returns eret_def)
  with keeps_returns [OF lan] show "\<exists>f w'. remove_lan_route h cfg w = (Inr f, w') \<and> ?I w'" by blast
  have "\<exists>f w'. remove_default_route h cfg w = (Inr f, w')"
    by (simp add: remove_default_route_def noted_returns eret_def)
  with keeps_returns [OF dflt] show "\<exists>f w'. remove_default_route h cfg w = (Inr f, w') \<and> ?I w'" by blast
qed

text \<open>C28: the guard does not outlive a failed removal. When the selector rule cannot be deleted, the removal goes
  on and deletes the guard all the same: it reports an error, and leaves a kernel whose selector is still
  there and whose guard is gone.\<close>

theorem guard_removed_despite_failures:
  assumes laws: "ip_laws h rules routes" and wf: "wf_ingress cfg" and ip: "ho_ip h \<noteq> []"
    and there: "primary_rule cfg \<in> rules (lw_kernel w)" "guard_rule cfg \<in> rules (lw_kernel w)"
    and readable: "\<And>k. \<exists>j rs. fst (ho_probe h [ho_ip h, ''-j'', ''rule'', ''show''] k) = Inr (Some j) \<and> decode_slice decode_object j = Some rs"
    and refused: "\<And>k. \<exists>f. fst (ho_run h (rule_del h cfg) k) = Some f \<and> \<not> is_not_exist (command_error (rule_del h cfg) f)"
    and works: "\<And>k. guard_rule cfg \<in> rules k \<Longrightarrow> fst (ho_run h (guard_del h cfg (rc_rule_priority cfg + 1)) k) = None"
  shows "\<exists>e w'. remove_policy_routing h cfg w = (Inl e, w')
    \<and> primary_rule cfg \<in> rules (lw_kernel w') \<and> guard_rule cfg \<notin> rules (lw_kernel w')"
proof -
  obtain x w1 where 1: "remove_rule h cfg w = (Inr [x], w1)" "rules (lw_kernel w1) = rules (lw_kernel w)"
    using remove_rule_refused [OF laws wf ip there(1) readable refused] by blast
  obtain f2 w2 where 2: "remove_lan_route h cfg w1 = (Inr f2, w2)" "rules (lw_kernel w2) = rules (lw_kernel w1)"
    using remove_routes_keep_rules(1) [OF laws wf] by blast
  obtain f3 w3 where 3: "remove_default_route h cfg w2 = (Inr f3, w3)" "rules (lw_kernel w3) = rules (lw_kernel w2)"
    using remove_routes_keep_rules(2) [OF laws wf] by blast
  have "guard_rule cfg \<in> rules (lw_kernel w3)" using there 1 2 3 by simp
  then obtain w4 where 4: "remove_guard h cfg w3 = (Inr [], w4)" "rules (lw_kernel w4) = rules (lw_kernel w3) - {guard_rule cfg}"
    using remove_guard_works [OF laws wf ip _ readable works] by blast
  have "\<not> (rc_table_id cfg = 0 \<or> rc_rule_priority cfg = 0 \<or> effective_rule_mode cfg = routing_rule_fwmark \<and> rc_fw_mark cfg = 0)"
    using wf by (simp add: wf_ingress_def routing_rule_ingress_def routing_rule_fwmark_def)
  then obtain e where "remove_policy_routing h cfg w = (Inl e, w4)"
    by (simp add: remove_policy_routing_def run_simps 1(1) 2(1) 3(1) 4(1) Let_def)
  moreover have "primary_rule cfg \<noteq> guard_rule cfg" by (simp add: primary_rule_def guard_rule_def)
  ultimately show ?thesis using there 1(2) 2(2) 3(2) 4(2) by auto
qed

end
