(* ===== verification/LinuxRuns.thy ===== *)
theory LinuxRuns
  imports LinuxCycle
begin

text \<open>
  The operations of LinuxCycle run on the reference kernel of LinuxLab: the same-LAN configuration of an
  installation is checked, installed and removed, and the witnesses of the properties rest on these runs.
\<close>

subsection \<open>A run on the reference kernel\<close>

definition lab_routing :: routing_config where
  "lab_routing = \<lparr>rc_lan_interface = ''br0'', rc_upstream_interface = ''br0'', rc_lan_cidr = ''192.168.1.0/24'',
     rc_tun_device = ''tun0'', rc_upstream_gateway = ''192.168.1.1'', rc_table_id = 20241, rc_rule_priority = 20241,
     rc_fw_mark = 0, rc_rule_mode = routing_rule_ingress, rc_direct_fallback = False\<rparr>"

definition lab_network :: net_config where
  "lab_network = \<lparr>nf_lan_interface = ''br0'', nf_lan_ip = ''192.168.1.2'', nf_lan_cidr = ''192.168.1.0/24'',
     nf_upstream_interface = ''br0'', nf_upstream_gateway = ''192.168.1.1'', nf_nft_table_name = [], nf_fw_mark = 0,
     nf_route_table_id = 20241, nf_route_rule_priority = 20241, nf_same_lan = True, nf_skip_ownership_check = False\<rparr>"

definition lab_empty :: lab where
  "lab_empty = \<lparr>la_rules = [], la_routes = [], la_files = [], la_tables = [], la_links = JNull, la_loaded = [], la_namespace = ''net:[1]''\<rparr>"

definition lab_world :: "lab \<Rightarrow> lab lworld" where
  "lab_world k = \<lparr>lw_kernel = k, lw_log = [], lw_active = None\<rparr>"

abbreviation plain_lab :: "lab host" where "plain_lab \<equiv> lab_host (\<lambda>_. False)"

lemma lab_wf: "wf_ingress lab_routing"
  by code_simp

lemma lab_same_recipe: "same_recipe lab_network lab_routing"
  by code_simp

lemma lab_apart:
  "rc_table_id lab_routing \<noteq> qnap_host_dns_route_table_id"
  "rc_rule_priority lab_routing + 1 \<notin> {qnap_host_dns_udp_priority, qnap_host_dns_tcp_priority}"
  by (simp_all add: lab_routing_def qnap_host_dns_route_table_id_def qnap_host_dns_udp_priority_def qnap_host_dns_tcp_priority_def)

lemma lab_cidr: "validate_cidr ''192.168.1.0/24'' = Inr \<lparr>net_ip = [192, 168, 1, 0], net_mask = [255, 255, 255, 0]\<rparr>"
  by (simp add: validate_cidr_def go_eval)

lemma lab_checked: "check_routing_config lab_routing = None"
proof -
  have "validate_interface_name (rc_lan_interface lab_routing) = None" using wf_ingress_guard(3) [OF lab_wf] .
  then show ?thesis
    by (simp add: check_routing_config_def lab_routing_def lab_cidr effective_rule_mode_def routing_rule_ingress_def routing_rule_fwmark_def)
qed

definition lab_seen :: "string list \<Rightarrow> lab lworld \<Rightarrow> lab lworld" where
  "lab_seen argv w = w\<lparr>lw_log := lw_log w @ [\<lparr>le_call = Probe argv, le_ok = True, le_kernel = lw_kernel w\<rparr>]\<rparr>"

definition lab_ran :: "string list \<Rightarrow> lab \<Rightarrow> lab lworld \<Rightarrow> lab lworld" where
  "lab_ran argv k w = w\<lparr>lw_kernel := k, lw_log := lw_log w @ [\<lparr>le_call = Run argv, le_ok = True, le_kernel = k\<rparr>]\<rparr>"

lemma lab_seen_kernel [simp]: "lw_kernel (lab_seen argv w) = lw_kernel w" "lw_kernel (lab_ran argv k w) = k"
  by (simp_all add: lab_seen_def lab_ran_def)

lemma lab_policy_rules:
  "policy_rules (lab_host f) w = (Inr (map show_fields (known_rules (lw_kernel w))), lab_seen [lab_ip, ''-j'', ''rule'', ''show''] w)"
  by (simp add: policy_rules_def probe_json_def probe_def host_call_def lab_probe_def run_simps lab_seen_def lab_ip_def
      decode_shown del: decode_slice.simps)

lemma lab_rule_present:
  "rule_present (lab_host f) cfg w = (Inr (primary_rule cfg \<in> lab_rules (lw_kernel w)), lab_seen [lab_ip, ''-j'', ''rule'', ''show''] w)"
  using primary_shown
  by (auto simp: rule_present_def lab_policy_rules run_simps list_ex_iff known_rules_def)

lemma lab_guard_present:
  assumes "wf_ingress cfg"
  shows "guard_rule_present (lab_host f) cfg w = (Inr (guard_rule cfg \<in> lab_rules (lw_kernel w)), lab_seen [lab_ip, ''-j'', ''rule'', ''show''] w)"
  using guard_shown [OF _ wf_ingress_guard(2,1) [OF assms]]
  by (auto simp: guard_rule_present_def lab_policy_rules run_simps list_ex_iff known_rules_def wf_ingress_guard [OF assms])

lemma lab_run:
  "argv \<noteq> [] \<Longrightarrow> hd argv = lab_ip \<Longrightarrow> \<not> f argv \<Longrightarrow> lab_command argv (lw_kernel w) = (None, k) \<Longrightarrow>
     run_command (lab_host f) argv w = (Inr (), lab_ran argv k w)"
  by (simp add: run_command_def host_call_def lab_ran_def lab_ip_def)

text \<open>What is there after the start.\<close>

definition lab_up :: lab where
  "lab_up = lab_empty\<lparr>la_rules := [guard_rule lab_routing, primary_rule lab_routing],
     la_routes := [egress_route lab_routing, lan_route lab_routing]\<rparr>"

lemma lab_known: "rule_known (primary_rule lab_routing)" "rule_known (guard_rule lab_routing)"
  using known_primary wf_ingress_guard(3) [OF lab_wf] by simp_all

lemma lab_up_rules: "known_rules lab_up = [guard_rule lab_routing, primary_rule lab_routing]"
  by (simp add: known_rules_def lab_up_def lab_known)

lemma rules_differ: "primary_rule cfg \<noteq> guard_rule cfg" "guard_rule cfg \<noteq> primary_rule cfg"
  by (simp_all add: primary_rule_def guard_rule_def)

lemma routes_differ: "\<not> same_slot (lan_route lab_routing) (egress_route lab_routing)" "lan_route lab_routing \<noteq> egress_route lab_routing"
    "egress_route lab_routing \<noteq> lan_route lab_routing"
  using slots_differ [OF lab_wf] by (auto simp: same_slot_def)

lemma contains_inner: "contains_sub (a @ p @ b) p"
  by (auto simp: contains_sub_iff)

lemma lab_messages:
  "trim_space ''Error: ipv4: FIB table does not exist.'' = ''Error: ipv4: FIB table does not exist.''"
  "trim_space ''RTNETLINK answers: Operation not permitted'' = ''RTNETLINK answers: Operation not permitted''"
  by (rule trim_space_id; simp add: space_len_def space_len_rev_def is_space_ascii_def is_space2_def is_space3_def)+

lemma lab_no_table:
  "is_not_exist (probe_error argv (missing ''Error: ipv4: FIB table does not exist.''))"
proof -
  obtain c where "probe_error argv (missing ''Error: ipv4: FIB table does not exist.'') =
      NetError c (hd argv @ '' '' @ join '' '' (tl argv) @ '' failed: exit status 1: Error: ipv4: FIB table does not exist.'') (Some ''exit status 1'')"
    by (simp add: missing_def command_error_def lab_messages Let_def)
  moreover have "contains_sub ((x @ '' failed: exit status 1: Error: ipv4: FIB table '') @ ''does not exist'' @ ''.'' @ y) ''does not exist''" for x y
    by (rule contains_inner)
  then have "contains_sub (x @ '' failed: exit status 1: Error: ipv4: FIB table does not exist.'' @ y) ''does not exist''" for x y
    by simp
  then have "contains_sub (code_text c @ '': '' @ hd argv @ '' '' @ join '' '' (tl argv) @
     '' failed: exit status 1: Error: ipv4: FIB table does not exist.'' @ '': '' @ ''exit status 1'') ''does not exist''"
    by (metis append.assoc)
  ultimately show ?thesis by (simp add: is_not_exist_def)
qed

lemma missing_table:
  assumes "ho_probe h (table_probe h tid) (lw_kernel w) = (Inl f, k')" "is_not_exist (probe_error (table_probe h tid) f)" "tid \<noteq> 0"
    "ho_ip h \<noteq> []"
  shows "\<exists>w'. routing_table_has_entries h tid w = (Inr False, w') \<and> lw_kernel w' = k'"
proof -
  have "hd (table_probe h tid) \<noteq> []" using assms(4) by (simp add: table_probe_def)
  then have "\<exists>w'. probe h (table_probe h tid) w = (Inl (probe_error (table_probe h tid) f), w') \<and> lw_kernel w' = k'"
    using assms(1) by (simp add: probe_def host_call_def)
  then show ?thesis
    using assms(2,3) by (auto simp: routing_table_has_entries_def probe_existing_def run_simps)
qed

lemma lab_validates:
  assumes "lw_kernel w = lab_empty"
  shows "\<exists>w'. validate_ownership plain_lab lab_network w = (Inr (), w') \<and> lw_kernel w' = lab_empty"
proof -
  have f: "ho_probe plain_lab (table_probe plain_lab 20241) (lw_kernel w) = (Inl (missing ''Error: ipv4: FIB table does not exist.''), lab_empty)"
    using shown_table [of "\<lambda>_. False" 20241 lab_empty] assms by (simp add: lab_empty_def lab_probe_def)
  have ip: "ho_ip plain_lab \<noteq> []" by (simp add: lab_ip_def)
  obtain w1 where w1: "routing_table_has_entries plain_lab 20241 w = (Inr False, w1)" "lw_kernel w1 = lab_empty"
    using missing_table [OF f lab_no_table _ ip] by auto
  have n: "nf_same_lan lab_network" "nf_route_table_id lab_network = 20241" "nf_route_rule_priority lab_network = 20241"
    by (simp_all add: lab_network_def)
  have "known_rules lab_empty = []" by (simp add: known_rules_def lab_empty_def)
  then show ?thesis
    by (simp add: validate_ownership_def n run_simps w1 lab_policy_rules)
qed

lemma lab_applies:
  assumes "lw_kernel w = lab_empty"
  shows "\<exists>w'. apply_policy_routing plain_lab lab_routing w = (Inr (), w') \<and> lw_kernel w' = lab_up"
proof -
  let ?h = "plain_lab" and ?cfg = lab_routing
  define k1 where "k1 = lab_empty\<lparr>la_rules := [guard_rule ?cfg]\<rparr>"
  define k2 where "k2 = k1\<lparr>la_routes := [lan_route ?cfg]\<rparr>"
  define k3 where "k3 = k2\<lparr>la_routes := [egress_route ?cfg, lan_route ?cfg]\<rparr>"
  have empty: "known_rules lab_empty = []" "la_rules lab_empty = []" "la_routes lab_empty = []" by (simp_all add: known_rules_def lab_empty_def)
  have guard: "install_guard ?h ?cfg x = (Inr (), lab_ran (guard_add ?h ?cfg (rc_rule_priority ?cfg + 1)) k1 (lab_seen [lab_ip, ''-j'', ''rule'', ''show''] x))"
    if "lw_kernel x = lab_empty" for x
  proof -
    have "run_command ?h (guard_add ?h ?cfg (rc_rule_priority ?cfg + 1)) y = (Inr (), lab_ran (guard_add ?h ?cfg (rc_rule_priority ?cfg + 1)) k1 y)"
      if "lw_kernel y = lab_empty" for y
      by (rule lab_run)
        (simp_all add: rule_commands lab_ip_rule rule_command_def lab_known that empty k1_def del: lab_command.simps)
    then show ?thesis
      using that by (simp add: install_guard_def run_simps wf_ingress_guard [OF lab_wf] lab_guard_present [OF lab_wf] empty)
  qed
  have lan: "run_command ?h (lan_route_add ?h ?cfg) x = (Inr (), lab_ran (lan_route_add ?h ?cfg) k2 x)" if "lw_kernel x = k1" for x
    by (rule lab_run)
      (simp_all add: route_commands lab_ip_route route_command_def that empty k1_def k2_def del: lab_command.simps)
  have default: "install_default ?h ?cfg x = (Inr (), lab_ran (default_route_add ?h ?cfg) k3 x)" if "lw_kernel x = k2" for x
  proof -
    have "run_command ?h (default_route_add ?h ?cfg) x = (Inr (), lab_ran (default_route_add ?h ?cfg) k3 x)"
      by (rule lab_run)
        (simp_all add: default_route_commands [OF lab_wf] lab_ip_route route_command_def that empty k1_def k2_def k3_def
          routes_differ del: lab_command.simps)
    moreover have "validate_interface_name ''tun0'' = None" by code_simp
    ultimately show ?thesis by (simp add: install_default_def run_simps lab_routing_def)
  qed
  have rule: "run_command ?h (rule_add ?h ?cfg) x = (Inr (), lab_ran (rule_add ?h ?cfg) lab_up x)" if "lw_kernel x = k3" for x
    by (rule lab_run)
      (simp_all add: rule_commands lab_ip_rule rule_command_def lab_known that rules_differ k1_def k2_def k3_def lab_up_def
        del: lab_command.simps)
  have known: "known_rules k3 = [guard_rule ?cfg]" by (simp add: k1_def k2_def k3_def known_rules_def lab_known)
  show ?thesis
    using assms
    by (simp add: apply_policy_routing_def run_simps lab_checked guard lan default lab_rule_present rule known rules_differ)
qed

text \<open>And the removal, with a rule deletion that may be refused.\<close>

lemma lab_delete_rule:
  assumes "r \<in> set (known_rules (lw_kernel w))" "\<not> f ([lab_ip, ''rule'', ''del''] @ rule_args r)"
  shows "delete_existing (lab_host f) ([lab_ip, ''rule'', ''del''] @ rule_args r) w =
    (Inr (), lab_ran ([lab_ip, ''rule'', ''del''] @ rule_args r) ((lw_kernel w)\<lparr>la_rules := removeAll r (la_rules (lw_kernel w))\<rparr>) w)"
proof -
  have "run_command (lab_host f) ([lab_ip, ''rule'', ''del''] @ rule_args r) w =
      (Inr (), lab_ran ([lab_ip, ''rule'', ''del''] @ rule_args r) ((lw_kernel w)\<lparr>la_rules := removeAll r (la_rules (lw_kernel w))\<rparr>) w)"
    by (rule lab_run) (use assms in \<open>simp_all add: lab_ip_rule rule_command_def del: lab_command.simps\<close>)
  then show ?thesis by (simp add: delete_existing_def run_simps)
qed

lemma lab_delete_route:
  assumes "t \<in> set (la_routes (lw_kernel w))" "\<not> f ([lab_ip, ''route'', ''del'', kt_dst t] @ via_args t @ [''table'', uint_text (kt_table t)])"
  shows "delete_existing (lab_host f) ([lab_ip, ''route'', ''del'', kt_dst t] @ via_args t @ [''table'', uint_text (kt_table t)]) w =
    (Inr (), lab_ran ([lab_ip, ''route'', ''del'', kt_dst t] @ via_args t @ [''table'', uint_text (kt_table t)])
       ((lw_kernel w)\<lparr>la_routes := removeAll t (la_routes (lw_kernel w))\<rparr>) w)"
proof -
  have "run_command (lab_host f) ([lab_ip, ''route'', ''del'', kt_dst t] @ via_args t @ [''table'', uint_text (kt_table t)]) w =
    (Inr (), lab_ran ([lab_ip, ''route'', ''del'', kt_dst t] @ via_args t @ [''table'', uint_text (kt_table t)])
       ((lw_kernel w)\<lparr>la_routes := removeAll t (la_routes (lw_kernel w))\<rparr>) w)"
    by (rule lab_run) (use assms in \<open>simp_all add: lab_ip_route route_command_def del: lab_command.simps\<close>)
  then show ?thesis by (simp add: delete_existing_def run_simps)
qed

lemma lab_removes:
  assumes "lw_kernel w = lab_up"
  shows "\<exists>w'. remove_policy_routing plain_lab lab_routing w = (Inr (), w')"
proof -
  let ?h = "plain_lab" and ?cfg = lab_routing
  have names: "trim_space (rc_lan_cidr ?cfg) \<noteq> []" "trim_space (rc_lan_interface ?cfg) \<noteq> []" "trim_space (rc_tun_device ?cfg) \<noteq> []"
    by (simp_all add: lab_routing_def go_eval)
  have lan: "remove_lan_route ?h ?cfg = noted ''delete LAN route: '' (delete_existing ?h (lan_route_del ?h ?cfg))"
    using names by (simp add: remove_lan_route_def)
  have dflt: "remove_default_route ?h ?cfg = noted ''delete TUN route: '' (delete_existing ?h (default_route_del ?h ?cfg))"
    using names by (simp add: remove_default_route_def) (simp add: lab_routing_def)
  have numbers: "rc_table_id ?cfg \<noteq> 0" "rc_rule_priority ?cfg \<noteq> 0" "rc_fw_mark ?cfg = 0 \<Longrightarrow> effective_rule_mode ?cfg \<noteq> routing_rule_fwmark"
    by (simp_all add: lab_routing_def effective_rule_mode_def routing_rule_ingress_def routing_rule_fwmark_def)
  have wf: "effective_rule_mode ?cfg = routing_rule_ingress" by (rule wf_ingress_guard(1) [OF lab_wf])
  define k1 where "k1 = lab_up\<lparr>la_rules := [guard_rule ?cfg]\<rparr>"
  define k2 where "k2 = k1\<lparr>la_routes := [egress_route ?cfg]\<rparr>"
  define k3 where "k3 = k2\<lparr>la_routes := []\<rparr>"
  note off = rules_differ routes_differ
  have known: "known_rules k3 = [guard_rule ?cfg]" by (simp add: k1_def k2_def k3_def lab_up_def known_rules_def lab_known)
  have 1: "\<exists>x. remove_rule ?h ?cfg w = (Inr [], x) \<and> lw_kernel x = k1"
    using assms lab_delete_rule [of "primary_rule ?cfg" _ "\<lambda>_. False"]
    by (simp add: remove_rule_def run_simps lab_rule_present lab_up_rules noted_def rule_commands k1_def off)
      (simp add: lab_up_def off)
  have 2: "\<exists>x. remove_lan_route ?h ?cfg y = (Inr [], x) \<and> lw_kernel x = k2" if "lw_kernel y = k1" for y
    using that lab_delete_route [of "lan_route ?cfg" y "\<lambda>_. False"]
    by (simp add: lan run_simps noted_def route_commands k1_def k2_def lab_up_def off)
  have 3: "\<exists>x. remove_default_route ?h ?cfg y = (Inr [], x) \<and> lw_kernel x = k3" if "lw_kernel y = k2" for y
    using that lab_delete_route [of "egress_route ?cfg" y "\<lambda>_. False"]
    by (simp add: dflt run_simps noted_def default_route_commands [OF lab_wf] k1_def k2_def k3_def lab_up_def off)
  have 4: "\<exists>x. remove_guard ?h ?cfg y = (Inr [], x)" if "lw_kernel y = k3" for y
    using that lab_delete_rule [of "guard_rule ?cfg" _ "\<lambda>_. False"]
    by (simp add: remove_guard_def run_simps lab_guard_present [OF lab_wf] known noted_def rule_commands wf wf_ingress_guard [OF lab_wf])
  obtain w1 where w1: "remove_rule ?h ?cfg w = (Inr [], w1)" "lw_kernel w1 = k1" using 1 by blast
  obtain w2 where w2: "remove_lan_route ?h ?cfg w1 = (Inr [], w2)" "lw_kernel w2 = k2" using 2 w1 by blast
  obtain w3 where w3: "remove_default_route ?h ?cfg w2 = (Inr [], w3)" "lw_kernel w3 = k3" using 3 w2 by blast
  obtain w4 where w4: "remove_guard ?h ?cfg w3 = (Inr [], w4)" using 4 w3 by blast
  have "\<not> (rc_table_id ?cfg = 0 \<or> rc_rule_priority ?cfg = 0 \<or> effective_rule_mode ?cfg = routing_rule_fwmark \<and> rc_fw_mark ?cfg = 0)"
    using numbers by blast
  then show ?thesis
    by (simp add: remove_policy_routing_def run_simps w1(1) w2(1) w3(1) w4 Let_def)
qed

subsection \<open>Witnesses\<close>


theorem removal_is_exact_witness:
  "\<exists>w'. remove_policy_routing plain_lab lab_routing (lab_world lab_up) = (Inr (), w')
     \<and> lab_rules (lw_kernel w') = {} \<and> lab_routes (lw_kernel w') = {}"
proof -
  have up: "lw_kernel (lab_world lab_up) = lab_up" by (simp add: lab_world_def)
  obtain w' where w': "remove_policy_routing plain_lab lab_routing (lab_world lab_up) = (Inr (), w')"
    using lab_removes up by blast
  have ip: "ho_ip plain_lab \<noteq> []" by (simp add: lab_ip_def)
  have guarded: "guard_rule lab_routing \<in> lab_rules (lw_kernel (lab_world lab_up))" by (simp add: up lab_up_rules)
  have "lab_rules lab_up - {primary_rule lab_routing, guard_rule lab_routing} = {}"
    "lab_routes lab_up - {lan_route lab_routing, egress_route lab_routing} = {}"
    by (auto simp: lab_up_rules) (simp add: lab_up_def)
  with removal_is_exact [OF lab.ip_laws_axioms ip lab_wf guarded w'] show ?thesis using w' up by auto
qed


text \<open>A kernel that does not let the selector go.\<close>

definition stubborn_lab :: "lab host" where
  "stubborn_lab = lab_host (\<lambda>argv. argv = rule_del plain_lab lab_routing)"

lemma lab_rule_del:
  "rule_del plain_lab lab_routing = [''/sbin/ip'', ''rule'', ''del'', ''pref'', ''20241'', ''iif'', ''br0'', ''table'', ''20241'']"
proof -
  have "uint_text 20241 = ''20241''" by (simp add: uint_text_def itoa.simps char_of_def bit_0)
  then show ?thesis
    by (simp add: rule_del_def rule_selector_def lab_routing_def effective_rule_mode_def routing_rule_ingress_def lab_ip_def)
qed

lemma not_permitted_is_no_absence:
  "\<not> is_not_exist (command_error (rule_del plain_lab lab_routing) (netlink_error ''Operation not permitted''))"
proof -
  have "command_error (rule_del plain_lab lab_routing) (netlink_error ''Operation not permitted'') =
      NetError PermissionDenied ''/sbin/ip rule del pref 20241 iif br0 table 20241 failed: exit status 2: RTNETLINK answers: Operation not permitted''
        (Some ''exit status 2'')"
    by (simp add: command_error_def netlink_error_def lab_rule_del lab_messages)
  then show ?thesis by (simp add: is_not_exist_def)
qed

lemma stubborn_laws: "ip_laws stubborn_lab lab_rules lab_routes"
  unfolding stubborn_lab_def by (rule lab_laws) (simp add: not_permitted_is_no_absence)

interpretation stubborn: ip_laws stubborn_lab lab_rules lab_routes
  by (rule stubborn_laws)

theorem guard_removed_despite_failures_witness:
  "\<exists>e w'. remove_policy_routing stubborn_lab lab_routing (lab_world lab_up) = (Inl e, w')
    \<and> primary_rule lab_routing \<in> lab_rules (lw_kernel w') \<and> guard_rule lab_routing \<notin> lab_rules (lw_kernel w')"
proof (rule guard_removed_despite_failures [OF stubborn.ip_laws_axioms lab_wf])
  show "ho_ip stubborn_lab \<noteq> []" by (simp add: stubborn_lab_def lab_ip_def)
  show "primary_rule lab_routing \<in> lab_rules (lw_kernel (lab_world lab_up))"
    "guard_rule lab_routing \<in> lab_rules (lw_kernel (lab_world lab_up))"
    by (simp_all add: lab_world_def lab_up_rules)
  show "\<exists>j rs. fst (ho_probe stubborn_lab [ho_ip stubborn_lab, ''-j'', ''rule'', ''show''] k) = Inr (Some j) \<and> decode_slice decode_object j = Some rs" for k
    using decode_shown by (simp add: stubborn_lab_def lab_probe_def del: decode_slice.simps)
  show "\<exists>f. fst (ho_run stubborn_lab (rule_del stubborn_lab lab_routing) k) = Some f
      \<and> \<not> is_not_exist (command_error (rule_del stubborn_lab lab_routing) f)" for k
    using not_permitted_is_no_absence by (simp add: stubborn_lab_def rule_del_def)
  show "fst (ho_run stubborn_lab (guard_del stubborn_lab lab_routing (rc_rule_priority lab_routing + 1)) k) = None"
    if "guard_rule lab_routing \<in> lab_rules k" for k
  proof -
    have "guard_del stubborn_lab lab_routing (rc_rule_priority lab_routing + 1) \<noteq> rule_del plain_lab lab_routing"
      by (simp add: guard_del_def rule_del_def rule_selector_def)
    then show ?thesis
      using that by (simp add: stubborn_lab_def rule_commands lab_ip_rule rule_command_def del: lab_command.simps)
  qed
qed

end
