(* ===== verification/LinuxProps.thy ===== *)
theory LinuxProps
  imports LinuxReport LinuxRuns
begin

text \<open>
  What the Linux backend may and may not do to its host: restoring makes only the calls its snapshot
  records, an nftables table of unproven ownership is neither replaced nor deleted, reports and checks only
  read, the wait for the TUN device is bounded, and the test of the dedicated table is exact.
\<close>

subsection \<open>The calls an operation makes\<close>

definition only_calls :: "(host_call \<Rightarrow> bool) \<Rightarrow> 'k levent list \<Rightarrow> 'k lworld \<Rightarrow> bool" where
  "only_calls ok evs w \<longleftrightarrow>
     (\<exists>new. lw_log w = evs @ new \<and> list_all (\<lambda>ev. mutation (le_call ev) \<longrightarrow> ok (le_call ev)) new)"

lemma only_calls_start: "only_calls ok (lw_log w) w"
  by (simp add: only_calls_def)

lemma only_calls_next:
  assumes "only_calls ok evs w" "mutation c \<Longrightarrow> ok c"
  shows "only_calls ok evs (after_call h c b w)"
proof -
  obtain new where new: "lw_log w = evs @ new" "list_all (\<lambda>ev. mutation (le_call ev) \<longrightarrow> ok (le_call ev)) new"
    using assms(1) by (auto simp: only_calls_def)
  then show ?thesis
    using assms(2)
    by (intro only_calls_def [THEN iffD2] exI [of _ "new @ [\<lparr>le_call = c, le_ok = b, le_kernel = next_kernel h c (lw_kernel w)\<rparr>]"])
      (simp add: after_call_def Let_def)
qed

lemma only_calls_operator: "operator (h :: 'k host) (only_calls ok evs) ok"
proof
  fix w :: "'k lworld" and c b
  assume "only_calls ok evs w" "\<not> mutation c"
  then show "only_calls ok evs (after_call h c b w)" using only_calls_next by blast
next
  fix w :: "'k lworld" and a
  assume "only_calls ok evs w"
  then show "only_calls ok evs (w\<lparr>lw_active := a\<rparr>)" by (simp add: only_calls_def)
next
  fix w :: "'k lworld" and c b
  assume "only_calls ok evs w" "ok c"
  then show "only_calls ok evs (after_call h c b w)" using only_calls_next by blast
qed

lemma only_calls_returns: "keeps (only_calls ok (lw_log w)) m \<Longrightarrow> only_calls ok (lw_log w) (snd (m w))"
  using keepsD [of "only_calls ok (lw_log w)" m w] only_calls_start by blast

interpretation scoped: operator h "only_calls ok evs" ok for h :: "'k host" and ok evs
  by (rule only_calls_operator)

lemma poll_only_reads:
  assumes "poll_tun h d timeout device w = Some (r, w')"
  shows "only_calls (\<lambda>_. False) evs w \<longrightarrow> only_calls (\<lambda>_. False) evs w'"
proof -
  have "case y of (r, w') \<Rightarrow> only_calls (\<lambda>_. False) evs w \<longrightarrow> only_calls (\<lambda>_. False) evs w'"
    if "poll_tun h d timeout device w = Some y" for y
  proof (rule poll_tun.raw_induct [OF _ that, of "\<lambda>h d timeout device w y. case y of (r, w') \<Rightarrow>
      only_calls (\<lambda>_. False) evs w \<longrightarrow> only_calls (\<lambda>_. False) evs w'"], goal_cases)
    case (1 f h d timeout device w y)
    have look: "only_calls (\<lambda>_. False) evs w1"
      if "interface_by_name (within_deadline d h) device w = (x, w1)" "only_calls (\<lambda>_. False) evs w" for x w1
      using keepsD [OF scoped.keeps_interfaces(2), of "\<lambda>_. False" evs w "within_deadline d h" device] that by simp
    have pause: "only_calls (\<lambda>_. False) evs w2"
      if "select_done h d w1 = (x, w2)" "only_calls (\<lambda>_. False) evs w1" for x w1 w2
      using keepsD [OF scoped.keeps_select_done, of "\<lambda>_. False" evs w1 h d] that by simp
    show ?case
      using 1 look pause by (auto split: prod.splits sum.splits if_splits)
  qed
  from this [OF assms] show ?thesis by simp
qed

lemma wait_only_reads:
  "wait_for_tun h timeout device w = Some (r, w') \<Longrightarrow> only_calls (\<lambda>_. False) (lw_log w) w'"
  using poll_only_reads [of h _ _ device w r w' "lw_log w"] only_calls_start
  by (auto simp: wait_for_tun_def Let_def split: option.splits)

text \<open>Checks and reports only read. Whatever the host answers, none of the topology check, the check whether
  policy routing is present, the wait for the TUN device, the capabilities, the observed state, the
  neighbours, the default route and the snapshot makes a call that changes the kernel.\<close>

theorem checks_only_read:
  "only_calls (\<lambda>_. False) (lw_log w) (snd (validate_topology h n w))
   \<and> only_calls (\<lambda>_. False) (lw_log w) (snd (policy_routing_present h cfg w))
   \<and> (\<forall>r w'. wait_for_tun h timeout device w = Some (r, w') \<longrightarrow> only_calls (\<lambda>_. False) (lw_log w) w')
   \<and> only_calls (\<lambda>_. False) (lw_log w) (snd (capabilities_report h arch w))
   \<and> only_calls (\<lambda>_. False) (lw_log w) (snd (observe_state h w))
   \<and> only_calls (\<lambda>_. False) (lw_log w) (snd (neighbours h i w))
   \<and> only_calls (\<lambda>_. False) (lw_log w) (snd (default_route h w))
   \<and> only_calls (\<lambda>_. False) (lw_log w) (snd (snapshot h now w))"
  by (intro conjI allI impI only_calls_returns wait_only_reads scoped.keeps_validate_topology scoped.keeps_policy_routing_present
      scoped.keeps_capabilities scoped.keeps_observe_state scoped.keeps_neighbours scoped.keeps_snapshot)

subsection \<open>Restoring\<close>

text \<open>The changes a snapshot asks for.\<close>

definition undo_call :: "'k host \<Rightarrow> network_snapshot \<Rightarrow> host_call \<Rightarrow> bool" where
  "undo_call h sn c \<longleftrightarrow>
     ap_policy_routing (sn_applied sn) \<and> (\<exists>r. sn_routing sn = Some r
        \<and> (c \<in> {Run (rule_del h r), Run (lan_route_del h r), Run (default_route_del h r)}
           \<or> (\<exists>p. guard_rule_priority r = Inr p \<and> c = Run (guard_del h r p))))
     \<or> ap_nat (sn_applied sn)
        \<and> c = Run [ho_nft h, ''delete'', ''table'', nft_family,
                   if trim_space (snapshot_table sn) = [] then default_table_name else snapshot_table sn]
     \<or> (\<exists>t v. (t, v) \<in> set (sn_rp_filter sn) \<and> c = WriteProc (rp_filter_path t) v)
     \<or> ap_ipv4_forwarding (sn_applied sn) \<and> c = WriteProc proc_ipv4_forward (sn_ipv4_forwarding sn)"

lemma undo_routing_scoped: "keeps (only_calls (undo_call h sn) evs) (undo_routing h sn)"
proof (cases "ap_policy_routing (sn_applied sn) \<and> sn_routing sn \<noteq> None")
  case True
  then obtain r where r: "sn_routing sn = Some r" "ap_policy_routing (sn_applied sn)" by blast
  have "keeps (only_calls (undo_call h sn) evs) (remove_policy_routing h r)"
    by (rule scoped.keeps_remove_routing) (auto simp: undo_call_def r)
  then show ?thesis using r by (simp add: undo_routing_def scoped.keeps_noted)
qed (auto simp: undo_routing_def intro: keeps_intro)

lemma undo_nat_scoped: "keeps (only_calls (undo_call h sn) evs) (undo_nat h sn)"
proof (cases "ap_nat (sn_applied sn)")
  case True
  then have "keeps (only_calls (undo_call h sn) evs) (remove_nat_table h (snapshot_table sn))"
    by (intro scoped.keeps_remove_nat) (simp add: undo_call_def)
  then show ?thesis using True by (auto simp: undo_nat_def intro: scoped.keeps_noted keeps_intro)
qed (simp add: undo_nat_def keeps_intro)

lemma undo_sysctls_scoped: "keeps (only_calls (undo_call h sn) evs) (undo_sysctls h sn)"
proof -
  have rp: "keeps (only_calls (undo_call h sn) evs) (rp_failures h (sn_rp_filter sn))"
    by (rule scoped.keeps_rp_failures) (auto simp: undo_call_def)
  have forward: "keeps (only_calls (undo_call h sn) evs) (write_proc_sys h proc_ipv4_forward (sn_ipv4_forwarding sn))"
    if "ap_ipv4_forwarding (sn_applied sn)"
    by (rule scoped.keeps_write_proc_sys) (simp add: undo_call_def that)
  show ?thesis
    unfolding undo_sysctls_def restore_rp_filter_def
    by (intro keeps_intro scoped.keeps_noted rp forward) blast+
qed

lemma undo_all_scoped: "keeps (only_calls (undo_call h sn) evs) (undo_all h sn)"
  unfolding undo_all_def Let_def
  by (intro keeps_intro undo_routing_scoped undo_nat_scoped undo_sysctls_scoped)

text \<open>C30: restoring makes only the changes its snapshot records, and none at all in another network namespace
  than the snapshot's. In each case what is recorded is: the rules and routes of the routing recipe, the
  nftables table, the reverse-path filters and the forwarding switch.\<close>

theorem restore_is_scoped:
  "only_calls (\<lambda>c. undo_call h sn c \<and> fst (ho_namespace h (lw_kernel w)) = Inr (sn_network_namespace sn)) (lw_log w)
     (snd (restore h (Some sn) w))"
proof (cases "fst (ho_namespace h (lw_kernel w)) = Inr (sn_network_namespace sn)")
  case True
  have "keeps (only_calls (undo_call h sn) (lw_log w)) (restore h (Some sn))"
    unfolding restore_def option.case
    by (intro keeps_intro scoped.keeps_namespace undo_all_scoped)
  from only_calls_returns [OF this] show ?thesis using True by simp
next
  case False
  let ?I = "only_calls (\<lambda>_. False) (lw_log w)"
  have ns: "fst (ho_namespace h (lw_kernel w)) = Inr v" if "current_network_namespace h w = (Inr v, x)" for v x
    using that by (auto simp: current_network_namespace_def host_call_def run_simps split: prod.splits sum.splits if_splits)
  have kept: "?I x" if "current_network_namespace h w = (y, x)" for x y
    using only_calls_returns [OF scoped.keeps_namespace, of "\<lambda>_. False" w h] that by simp
  have "?I (snd (restore h (Some sn) w))"
    using False ns kept only_calls_start [of "\<lambda>_. False" w]
    by (cases "current_network_namespace h w"; cases "fst (current_network_namespace h w)")
      (auto simp: restore_def run_simps split: option.split)
  then show ?thesis using False by simp
qed

subsection \<open>Tables of others\<close>

text \<open>The listing of the tables and of one table, as the kernel would answer now.\<close>

definition table_absent :: "'k host \<Rightarrow> string \<Rightarrow> 'k \<Rightarrow> bool" where
  "table_absent h t k \<longleftrightarrow>
     (\<exists>j ts. fst (ho_probe h [ho_nft h, ''-j'', ''list'', ''tables''] k) = Inr (Some j) \<and> decode_tables j = Some ts
        \<and> (t, nft_family) \<notin> set ts)"

definition table_proven :: "'k host \<Rightarrow> string \<Rightarrow> 'k \<Rightarrow> bool" where
  "table_proven h t k \<longleftrightarrow>
     (\<exists>j entries. fst (ho_probe h [ho_nft h, ''-j'', ''list'', ''table'', nft_family, t] k) = Inr (Some j)
        \<and> decode_payload j = Some entries \<and> owned_parts t entries)"

text \<open>On a host that only the backend changes.\<close>

definition undisturbed :: "'k host \<Rightarrow> bool" where
  "undisturbed h \<longleftrightarrow> (\<forall>c k. \<not> mutation c \<longrightarrow> next_kernel h c k = k)"

definition steady :: "'k levent list \<Rightarrow> 'k \<Rightarrow> 'k lworld \<Rightarrow> bool" where
  "steady evs k w \<longleftrightarrow> only_calls (\<lambda>_. False) evs w \<and> lw_kernel w = k"

lemma steady_observer:
  assumes "undisturbed h"
  shows "observer h (steady evs k)"
proof
  fix w c b assume "steady evs k w" "\<not> mutation c"
  then show "steady evs k (after_call h c b w)"
    using assms only_calls_next [of "\<lambda>_. False" evs w c h b] by (simp add: steady_def after_call_def Let_def undisturbed_def)
next
  fix w a assume "steady evs k w"
  then show "steady evs k (w\<lparr>lw_active := a\<rparr>)" by (simp add: steady_def only_calls_def)
qed

lemma triple_probe_json:
  "triple (\<lambda>w. lw_kernel w = k) (probe_json h argv what decode)
     (\<lambda>x _. \<exists>j. fst (ho_probe h argv k) = Inr (Some j) \<and> decode j = Some x) (\<lambda>_ _. True)"
  unfolding probe_json_def probe_def host_call_def triple_def
  by (auto simp: run_simps split: prod.splits sum.splits option.splits)

lemma triple_steady:
  assumes "observer h (steady evs k)" "keeps (steady evs k) m" "triple (\<lambda>w. lw_kernel w = k) m Q (\<lambda>_ _. True)"
  shows "triple (steady evs k) m (\<lambda>x w. steady evs k w \<and> Q x w) (\<lambda>_. steady evs k)"
proof -
  have "triple (\<lambda>w. steady evs k w \<and> lw_kernel w = k) m (\<lambda>x w. steady evs k w \<and> Q x w) (\<lambda>e w. steady evs k w \<and> True)"
    by (rule triple_conj [OF keeps_triple [OF assms(2)] assms(3)])
  then show ?thesis by (rule triple_weaken) (simp_all add: steady_def)
qed

lemma triple_exists:
  assumes "undisturbed h"
  shows "triple (steady evs k) (table_exists h t) (\<lambda>y w. steady evs k w \<and> (\<not> y \<longrightarrow> table_absent h t k)) (\<lambda>_. steady evs k)"
proof -
  have "triple (\<lambda>w. lw_kernel w = k) (table_exists h t) (\<lambda>y _. \<not> y \<longrightarrow> table_absent h t k) (\<lambda>_ _. True)"
    unfolding table_exists_def list_tables_def ebind_assoc
    by (rule triple_bind [OF triple_probe_json]) (auto simp: triple_def run_basic table_absent_def image_iff)
  then show ?thesis
    by (rule triple_steady [OF steady_observer [OF assms] observer.keeps_nft_tables(2) [OF steady_observer [OF assms]]])
qed

lemma triple_owned:
  assumes "undisturbed h"
  shows "triple (steady evs k) (table_owned h t) (\<lambda>y w. steady evs k w \<and> (y \<longrightarrow> table_proven h t k)) (\<lambda>_. steady evs k)"
proof -
  have "triple (\<lambda>w. lw_kernel w = k) (table_owned h t) (\<lambda>y _. y \<longrightarrow> table_proven h t k) (\<lambda>_ _. True)"
    unfolding table_owned_def probe_existing_def probe_def host_call_def triple_def decoded_def
    by (auto simp: run_simps table_proven_def split: prod.splits sum.splits option.splits if_splits)
  then show ?thesis
    by (rule triple_steady [OF steady_observer [OF assms] observer.keeps_nft_tables(3) [OF steady_observer [OF assms]]])
qed

lemma triple_check_owned:
  assumes "undisturbed h"
  shows "triple (steady evs k) (check_owned h t what)
    (\<lambda>y w. steady evs k w \<and> (if y then table_proven h t k else table_absent h t k)) (\<lambda>_. steady evs k)"
  unfolding check_owned_def
proof (rule triple_bind [OF triple_exists [OF assms]])
  fix e
  show "triple (\<lambda>w. steady evs k w \<and> (\<not> e \<longrightarrow> table_absent h t k))
      (if \<not> e then eret False else ebind (table_owned h t) (\<lambda>owned. ebind (eguard owned (foreign_table what)) (\<lambda>_. eret True)))
      (\<lambda>y w. steady evs k w \<and> (if y then table_proven h t k else table_absent h t k)) (\<lambda>_. steady evs k)"
  proof (cases e)
    case True
    have "triple (steady evs k) (ebind (table_owned h t) (\<lambda>owned. ebind (eguard owned (foreign_table what)) (\<lambda>_. eret True)))
        (\<lambda>y w. steady evs k w \<and> (if y then table_proven h t k else table_absent h t k)) (\<lambda>_. steady evs k)"
      by (rule triple_bind [OF triple_owned [OF assms]], rule triple_bind [OF triple_eguard [where Q = "\<lambda>_ w. steady evs k w \<and> table_proven h t k"]])
        (auto intro: triple_eret)
    then show ?thesis using True by simp
  qed (auto intro: triple_eret)
qed

lemma steady_only: "steady evs k x \<Longrightarrow> only_calls ok evs x"
  by (auto simp: steady_def only_calls_def list_all_iff)

lemma steady_pass:
  "triple (steady evs k) (eguard b e) (\<lambda>_. steady evs k) (\<lambda>_. only_calls ok evs)"
  "triple (steady evs k) (eopt o') (\<lambda>_. steady evs k) (\<lambda>_. only_calls ok evs)"
  using steady_only by (auto simp: triple_def effect_defs split: option.splits)

lemma steady_then:
  assumes "ok \<Longrightarrow> keeps (only_calls (\<lambda>_. ok) evs) m"
  shows "triple (\<lambda>x. steady evs k x \<and> ok) m (\<lambda>_. only_calls (\<lambda>_. ok) evs) (\<lambda>_. only_calls (\<lambda>_. ok) evs)"
proof (rule triple_pure)
  assume ok
  show "triple (steady evs k) m (\<lambda>_. only_calls (\<lambda>_. ok) evs) (\<lambda>_. only_calls (\<lambda>_. ok) evs)"
    by (rule triple_pre, rule keeps_triple, rule assms, rule \<open>ok\<close>) (rule steady_only)
qed

lemma apply_nat_calls:
  fixes cfg :: nat_config
  assumes "undisturbed h"
  defines "ok k \<equiv> table_absent h (nat_table cfg) k \<or> table_proven h (nat_table cfg) k"
  shows "triple (steady evs k) (apply_nat_table h cfg) (\<lambda>_. only_calls (\<lambda>_. ok k) evs) (\<lambda>_. only_calls (\<lambda>_. ok k) evs)"
proof -
  have checked: "triple (steady evs k) (check_owned h (nat_table cfg) what) (\<lambda>_ x. steady evs k x \<and> ok k) (\<lambda>_. only_calls (\<lambda>_. ok k) evs)" for what
    by (rule triple_weaken [OF triple_check_owned [OF assms(1)]]) (auto simp: ok_def steady_only split: if_splits)
  have load: "triple (\<lambda>x. steady evs k x \<and> ok k) (ebind (elift r) (\<lambda>text. load_ruleset h text))
      (\<lambda>_. only_calls (\<lambda>_. ok k) evs) (\<lambda>_. only_calls (\<lambda>_. ok k) evs)" for r :: "net_error + string"
    by (rule steady_then) (intro keeps_intro scoped.keeps_load)
  show ?thesis
    unfolding apply_nat_table_def by (rule triple_bind [OF steady_pass(1) triple_bind [OF checked load]])
qed

lemma remove_nat_calls:
  fixes t :: string
  assumes "undisturbed h"
  defines "table \<equiv> (if trim_space t = [] then default_table_name else t)"
  shows "triple (steady evs k) (remove_nat_table h t)
    (\<lambda>_. only_calls (\<lambda>_. table_proven h table k) evs) (\<lambda>_. only_calls (\<lambda>_. table_proven h table k) evs)"
proof -
  let ?ok = "\<lambda>owned. owned \<longrightarrow> table_proven h table k"
  have checked: "triple (steady evs k) (check_owned h table what) (\<lambda>owned x. steady evs k x \<and> ?ok owned)
      (\<lambda>_. only_calls (\<lambda>_. table_proven h table k) evs)" for what
    by (rule triple_weaken [OF triple_check_owned [OF assms(1)]]) (auto simp: steady_only split: if_splits)
  have delete: "triple (\<lambda>x. steady evs k x \<and> ?ok owned) (ewhen owned (run_command h argv))
      (\<lambda>_. only_calls (\<lambda>_. table_proven h table k) evs) (\<lambda>_. only_calls (\<lambda>_. table_proven h table k) evs)" for owned argv
  proof (cases owned)
    case True
    have "keeps (only_calls (\<lambda>_. table_proven h table k) evs) (run_command h argv)" if "table_proven h table k"
      by (rule scoped.keeps_run) (rule that)
    from steady_then [OF this, of k] show ?thesis using True by (simp add: ewhen_def)
  qed (auto simp: ewhen_def intro!: triple_eret steady_only)
  show ?thesis
    unfolding remove_nat_table_def Let_def table_def [symmetric]
    by (rule triple_bind [OF steady_pass(1) triple_bind [OF steady_pass(2) triple_bind [OF checked delete]]])
qed


definition lab_nat :: nat_config where
  "lab_nat = \<lparr>nc_lan_interface = ''br0'', nc_upstream_interface = [], nc_lan_cidr = ''192.168.1.0/24'', nc_tun_device = ''tun0'',
     nc_upstream_gateway = [], nc_fw_mark = 20241, nc_table_name = ''opensurge'', nc_masquerade = False\<rparr>"


subsection \<open>The test of the dedicated table\<close>

definition is_lan_route :: "routing_config \<Rightarrow> route_entry \<Rightarrow> bool" where
  "is_lan_route cfg r \<longleftrightarrow> route_destination r = trim_space (rc_lan_cidr cfg) \<and> re_dev r = rc_lan_interface cfg
     \<and> trim_space (re_gateway r) = []"

definition is_egress_route :: "routing_config \<Rightarrow> route_entry \<Rightarrow> bool" where
  "is_egress_route cfg r \<longleftrightarrow> route_destination r = ''default'' \<and> re_dev r = expected_egress cfg
     \<and> trim_space (re_gateway r) = trim_space (expected_gateway cfg)"

lemma match_routes_step:
  assumes "trim_space (rc_lan_cidr cfg) \<noteq> ''default''"
  shows "match_routes cfg (l, d) (r # rs) =
    (if is_lan_route cfg r \<and> \<not> l then match_routes cfg (True, d) rs
     else if is_egress_route cfg r \<and> \<not> d then match_routes cfg (l, True) rs else None)"
  using assms by (cases "route_destination r = trim_space (rc_lan_cidr cfg)") (simp_all add: is_lan_route_def is_egress_route_def)

text \<open>The dedicated table is accepted exactly when it holds the route of the LAN through the LAN interface
  and the default route through the expected egress and gateway, in either order, and nothing else.\<close>

theorem table_matches_iff:
  assumes "trim_space (rc_lan_cidr cfg) \<noteq> ''default''"
  shows "table_matches cfg routes \<longleftrightarrow>
    (\<exists>l d. (routes = [l, d] \<or> routes = [d, l]) \<and> is_lan_route cfg l \<and> is_egress_route cfg d)"
proof -
  have apart: "\<not> (is_lan_route cfg r \<and> is_egress_route cfg r)" for r
    using assms by (auto simp: is_lan_route_def is_egress_route_def)
  show ?thesis
  proof (cases "length routes = 2")
    case True
    then obtain a b where ab: "routes = [a, b]" by (auto simp: length_Suc_conv numeral_2_eq_2)
    have "table_matches cfg [a, b] \<longleftrightarrow> is_lan_route cfg a \<and> is_egress_route cfg b \<or> is_egress_route cfg a \<and> is_lan_route cfg b"
      using apart [of a] apart [of b] by (simp add: table_matches_def match_routes_step [OF assms] del: match_routes.simps(2))
    then show ?thesis unfolding ab by blast
  next
    case False
    then show ?thesis by (auto simp: table_matches_def split: option.split)
  qed
qed

theorem table_matches_iff_witness:
  "table_matches lab_routing [\<lparr>re_dst = ''192.168.1.0/24'', re_dev = ''br0'', re_gateway = []\<rparr>,
     \<lparr>re_dst = ''default'', re_dev = ''tun0'', re_gateway = []\<rparr>]"
proof -
  let ?l = "\<lparr>re_dst = ''192.168.1.0/24'', re_dev = ''br0'', re_gateway = []\<rparr>" and ?d = "\<lparr>re_dst = ''default'', re_dev = ''tun0'', re_gateway = []\<rparr>"
  have trims: "trim_space ''192.168.1.0/24'' = ''192.168.1.0/24''" "trim_space ''default'' = ''default''" "trim_space [] = []"
    by (simp_all add: go_eval)
  have "trim_space (rc_lan_cidr lab_routing) \<noteq> ''default''" by (simp add: lab_routing_def trims)
  moreover have "is_lan_route lab_routing ?l" "is_egress_route lab_routing ?d"
    by (simp_all add: is_lan_route_def is_egress_route_def route_destination_def lab_routing_def expected_egress_def expected_gateway_def trims)
  ultimately show ?thesis using table_matches_iff [of lab_routing "[?l, ?d]"] by blast
qed

subsection \<open>The wait for the TUN device\<close>

text \<open>What the wait relies on: a probe does not turn the clock back, and \<open>select\<close> returns when the interval is
  over, or when the deadline has come or the caller's context is done.\<close>

definition honest_clock :: "'k host \<Rightarrow> bool" where
  "honest_clock h \<longleftrightarrow>
     (\<forall>argv k. ho_now h k \<le> ho_now h (snd (ho_probe h argv k)))
     \<and> (\<forall>d i k k'. ho_select h d i k = (False, k') \<longrightarrow> ho_now h k + i \<le> ho_now h k')
     \<and> (\<forall>d i k k'. ho_select h d i k = (True, k') \<longrightarrow> d \<le> ho_now h k' \<or> fst (ho_context h k') \<noteq> None)"

fun is_probe :: "host_call \<Rightarrow> bool" where
  "is_probe (Probe argv) = True"
| "is_probe c = False"

definition probes :: "'k lworld \<Rightarrow> nat" where
  "probes w = length (filter (\<lambda>ev. is_probe (le_call ev)) (lw_log w))"

abbreviation time_of :: "'k host \<Rightarrow> 'k lworld \<Rightarrow> int" where "time_of h w \<equiv> ho_now h (lw_kernel w)"

lemma command_error_code: "code_of (command_error argv f) \<in> {PermissionDenied, InterfaceNotFound, CommandFailed}"
  by (auto simp: command_error_def Let_def split: cmd_failure.split)

lemma probe_error_code: "code_of (probe_error argv f) \<noteq> TUNTimeout"
proof (cases f)
  case (ProbeFailed g)
  then show ?thesis using command_error_code [of argv g] by auto
qed simp

text \<open>One look at the interfaces: one probe at most, and a missing interface is reported before the deadline only.\<close>

lemma within_probe:
  assumes "honest_clock h" and "probe (within_deadline d h) argv w = (r, w')"
  shows "probes w' \<le> Suc (probes w) \<and> time_of h w \<le> time_of h w'
    \<and> (\<forall>e. r = Inl e \<longrightarrow> code_of e \<noteq> TUNTimeout \<and> (interface_missing e \<longrightarrow> time_of h w' < d))
    \<and> (\<forall>j. r = Inr j \<longrightarrow> time_of h w' < d)"
proof -
  have clock: "ho_now h (lw_kernel w) \<le> ho_now h k'" if "ho_probe h argv (lw_kernel w) = (x, k')" for x k'
    using assms(1) that unfolding honest_clock_def by (metis snd_conv)
  obtain x k where x: "ho_probe h argv (lw_kernel w) = (x, k)" by (cases "ho_probe h argv (lw_kernel w)")
  consider "hd argv = []" | "hd argv \<noteq> []" "d \<le> time_of h w" | "hd argv \<noteq> []" "time_of h w < d" "d \<le> ho_now h k"
    | "hd argv \<noteq> []" "time_of h w < d" "ho_now h k < d" by fastforce
  then show ?thesis
  proof cases
    case 4
    then show ?thesis using assms(2) x clock [OF x] probe_error_code
      by (cases x) (auto simp: probe_def within_deadline_def host_call_def probes_def)
  qed (use assms(2) x clock [OF x] in \<open>auto simp: probe_def within_deadline_def host_call_def probes_def run_basic\<close>)
qed

lemma within_look:
  assumes "honest_clock h" and "interface_by_name (within_deadline d h) device w = (r, w')"
  shows "probes w' \<le> Suc (probes w) \<and> time_of h w \<le> time_of h w' \<and> (\<forall>i. r = Inr i \<longrightarrow> if_name i = device)
    \<and> (\<forall>e. r = Inl e \<longrightarrow> code_of e \<noteq> TUNTimeout \<and> (interface_missing e \<longrightarrow> time_of h w' < d))"
proof -
  let ?p = "probe (within_deadline d h) [ho_ip (within_deadline d h), ''-j'', ''addr'', ''show'']"
  obtain x w1 where x: "?p w = (x, w1)" by (cases "?p w")
  have name: "code_of e = InvalidArgument \<and> \<not> interface_missing e" if "validate_interface_name device = Some e" for e
    using that by (auto simp: validate_interface_name_def split: if_splits)
  have found: "if_name i = device" if "find (\<lambda>i. if_name i = device) xs = Some i" for i xs
    using that by (auto simp: find_Some_iff)
  note one = within_probe [OF assms(1) x]
  show ?thesis
  proof (cases "validate_interface_name device = None \<and> ho_ip (within_deadline d h) \<noteq> []")
    case False
    then show ?thesis using assms(2) name
      by (auto simp: interface_by_name_def detect_interfaces_def run_simps no_iproute_def split: option.splits if_splits)
  next
    case ok: True
    then have run: "interface_by_name (within_deadline d h) device w =
        (case x of
           Inl e \<Rightarrow> (Inl e, w1)
         | Inr out \<Rightarrow>
             (case (case out of None \<Rightarrow> None | Some j \<Rightarrow> decode_slice decode_interface j) of
                None \<Rightarrow> (Inl (NetError CommandFailed ''parse ip addr output'' (Some ''invalid JSON'')), w1)
              | Some is \<Rightarrow>
                  (case find (\<lambda>i. if_name i = device) is of
                     Some i \<Rightarrow> (Inr i, w1)
                   | None \<Rightarrow> (Inl (NetError InterfaceNotFound ''network interface not found'' None), w1))))"
      using x by (simp add: interface_by_name_def detect_interfaces_def run_simps probe_json_def split: sum.split option.split)
    show ?thesis
    proof (cases x)
      case (Inl e)
      then show ?thesis using run assms(2) one by simp
    next
      case (Inr out)
      then show ?thesis using run assms(2) one found
        by (simp split: option.splits) auto
    qed
  qed
qed

definition rounds_left :: "int \<Rightarrow> int" where
  "rounds_left t = (max 0 t + (poll_interval - 1)) div poll_interval + 1"

lemma rounds_left_pos: "1 \<le> rounds_left t"
  by (simp add: rounds_left_def poll_interval_def)

lemma rounds_left_less:
  assumes "t' \<le> t - poll_interval" and "0 < t"
  shows "rounds_left t' + 1 \<le> rounds_left t"
proof (cases "0 \<le> t'")
  case True
  then have "(max 0 t' + (poll_interval - 1) + poll_interval) div poll_interval \<le> (max 0 t + (poll_interval - 1)) div poll_interval"
    using assms by (intro zdiv_mono1) (simp_all add: poll_interval_def)
  moreover have "(max 0 t' + (poll_interval - 1) + poll_interval) div poll_interval = (max 0 t' + (poll_interval - 1)) div poll_interval + 1"
    by (intro div_add_self2) (simp add: poll_interval_def)
  ultimately show ?thesis by (simp add: rounds_left_def)
next
  case False
  have "poll_interval div poll_interval \<le> (max 0 t + (poll_interval - 1)) div poll_interval"
    using assms(2) by (intro zdiv_mono1) (simp_all add: poll_interval_def)
  then show ?thesis using False by (simp add: rounds_left_def poll_interval_def)
qed

definition wait_outcome :: "'k host \<Rightarrow> int \<Rightarrow> string \<Rightarrow> net_error + interface \<Rightarrow> 'k lworld \<Rightarrow> bool" where
  "wait_outcome h d device r w' \<longleftrightarrow>
     (\<forall>i. r = Inr i \<longrightarrow> if_name i = device) \<and> (\<forall>m t. r \<noteq> Inl (NetError InterfaceNotFound m t))
     \<and> (\<forall>e. r = Inl e \<longrightarrow> code_of e = TUNTimeout \<longrightarrow> d \<le> time_of h w' \<or> fst (ho_context h (lw_kernel w')) \<noteq> None)"

lemma poll_tun_ends:
  assumes clock: "honest_clock h"
  shows "\<exists>r w'. poll_tun h d timeout device w = Some (r, w') \<and> int (probes w') \<le> int (probes w) + rounds_left (d - time_of h w)
    \<and> wait_outcome h d device r w'"
proof (induction "nat (d - time_of h w)" arbitrary: w rule: less_induct)
  case less
  obtain x w1 where x: "interface_by_name (within_deadline d h) device w = (x, w1)"
    by (cases "interface_by_name (within_deadline d h) device w")
  note look = within_look [OF clock x]
  have one: "int (probes w1) \<le> int (probes w) + 1" using look by simp
  show ?case
  proof (cases "\<exists>e. x = Inl e \<and> interface_missing e")
    case False
    have "wait_outcome h d device x w1"
      using look False by (auto simp: wait_outcome_def)
    moreover have "poll_tun h d timeout device w = Some (x, w1)"
      using x False by (subst poll_tun.simps) (auto split: sum.split)
    ultimately show ?thesis using one rounds_left_pos [of "d - time_of h w"] by auto
  next
    case True
    then obtain e where e: "x = Inl e" "interface_missing e" by blast
    have early: "time_of h w1 < d" "time_of h w \<le> time_of h w1" using look e by simp_all
    obtain b k where sel: "ho_select h d poll_interval (lw_kernel w1) = (b, k)" by (cases "ho_select h d poll_interval (lw_kernel w1)")
    obtain w2 where w2: "select_done h d w1 = (Inr b, w2)" "lw_kernel w2 = k" "probes w2 = probes w1"
      using sel by (simp add: select_done_def host_call_def probes_def)
    show ?thesis
    proof (cases b)
      case over: True
      let ?r = "Inl (NetError TUNTimeout (''TUN device '' @ device @ '' did not appear within '' @ timeout) (Some (error_text e)))"
      have "poll_tun h d timeout device w = Some (?r, w2)"
        using x e w2 over by (subst poll_tun.simps) simp
      moreover have "wait_outcome h d device ?r w2"
        using clock sel over w2(2) by (auto simp: wait_outcome_def honest_clock_def)
      ultimately show ?thesis using one w2(3) rounds_left_pos [of "d - time_of h w"] by auto
    next
      case again: False
      have later: "time_of h w1 + poll_interval \<le> time_of h w2"
        using clock sel again w2(2) by (auto simp: honest_clock_def)
      then have "nat (d - time_of h w2) < nat (d - time_of h w)" using early by (simp add: poll_interval_def)
      from less [OF this] obtain r w' where rest: "poll_tun h d timeout device w2 = Some (r, w')"
        "int (probes w') \<le> int (probes w2) + rounds_left (d - time_of h w2)" "wait_outcome h d device r w'" by blast
      have "poll_tun h d timeout device w = Some (r, w')"
        using x e w2 again rest(1) by (subst poll_tun.simps) simp
      moreover have "rounds_left (d - time_of h w2) + 1 \<le> rounds_left (d - time_of h w)"
        using later early by (intro rounds_left_less) simp_all
      ultimately show ?thesis using rest(2,3) one w2(3) by auto
    qed
  qed
qed


text \<open>A host whose kernel is its clock, where \<open>tun0\<close> comes up at a given time and a look takes no time.\<close>

definition tun_json :: json where
  "tun_json = JArray [JObject [(''ifname'', JString ''tun0'')]]"

definition clock_host :: "int \<Rightarrow> int host" where
  "clock_host up =
     \<lparr>ho_ip = ''ip'', ho_nft = ''nft'', ho_run = (\<lambda>argv k. (None, k)), ho_load = (\<lambda>t k. (None, k)),
      ho_probe = (\<lambda>argv k. (Inr (Some (if up \<le> k then tun_json else JArray [])), k)), ho_text = (\<lambda>argv k. (Inr [], k)),
      ho_read = (\<lambda>p k. (Inl (NotExist []), k)), ho_writable = (\<lambda>p k. (False, k)), ho_write = (\<lambda>p v k. (None, k)),
      ho_temp = (\<lambda>s k. (None, k)), ho_namespace = (\<lambda>k. (Inr [], k)), ho_stat = (\<lambda>p k. (Inr True, k)),
      ho_open = (\<lambda>p k. (None, k)), ho_context = (\<lambda>k. (None, k)), ho_now = (\<lambda>k. k),
      ho_select = (\<lambda>d i k. if k + i < d then (False, k + i) else (True, max k d))\<rparr>"

definition clock_start :: "int lworld" where
  "clock_start = \<lparr>lw_kernel = 0, lw_log = [], lw_active = None\<rparr>"

lemma clock_honest: "honest_clock (clock_host up)"
  by (auto simp: honest_clock_def clock_host_def split: if_splits)


text \<open>Both ways the wait can end, on this host.\<close>

definition tun_found :: interface where
  "tun_found = \<lparr>if_name = ''tun0'', if_index = 0, if_mtu = 0, if_hardware_addr = [], if_flags = [], if_ipv4 = [], if_ipv6 = []\<rparr>"

definition clock_at :: "int \<Rightarrow> int levent list \<Rightarrow> int lworld" where
  "clock_at k evs = \<lparr>lw_kernel = k, lw_log = evs, lw_active = None\<rparr>"

abbreviation not_there :: net_error where
  "not_there \<equiv> NetError InterfaceNotFound ''network interface not found'' None"

lemma clock_look:
  assumes "k < d"
  shows "interface_by_name (within_deadline d (clock_host up)) ''tun0'' (clock_at k evs)
    = (if up \<le> k then Inr tun_found else Inl not_there,
       clock_at k (evs @ [\<lparr>le_call = Probe [''ip'', ''-j'', ''addr'', ''show''], le_ok = True, le_kernel = k\<rparr>]))"
proof -
  have name: "validate_interface_name ''tun0'' = None" by code_simp
  have dec: "decode_slice decode_interface tun_json = Some [tun_found]" "decode_slice decode_interface (JArray []) = Some []"
    by code_simp+
  show ?thesis
    using assms name dec
    by (simp add: interface_by_name_def detect_interfaces_def run_simps probe_json_def probe_def host_call_def
        within_deadline_def clock_host_def clock_at_def tun_found_def)
qed

abbreviation seen_at :: "int \<Rightarrow> int levent" where
  "seen_at k \<equiv> \<lparr>le_call = Probe [''ip'', ''-j'', ''addr'', ''show''], le_ok = True, le_kernel = k\<rparr>"

abbreviation paused_at :: "int \<Rightarrow> int \<Rightarrow> int levent" where
  "paused_at d k \<equiv> \<lparr>le_call = Select d poll_interval, le_ok = True, le_kernel = k\<rparr>"

lemma clock_pause:
  assumes "k < d"
  shows "select_done (clock_host up) d (clock_at k evs) =
      (if k + 200000000 < d then (Inr False, clock_at (k + 200000000) (evs @ [paused_at d (k + 200000000)]))
       else (Inr True, clock_at d (evs @ [paused_at d d])))"
proof -
  have "ho_select (clock_host up) d i k = (if k + i < d then (False, k + i) else (True, max k d))" for i
    by (simp add: clock_host_def)
  then show ?thesis using assms
    by (cases "k + 200000000 < d") (simp_all add: select_done_def host_call_def clock_at_def poll_interval_def)
qed

lemma clock_poll:
  assumes "k < d"
  shows "up \<le> k \<Longrightarrow> poll_tun (clock_host up) d t ''tun0'' (clock_at k evs) = Some (Inr tun_found, clock_at k (evs @ [seen_at k]))"
    and "k < up \<Longrightarrow> k + 200000000 < d \<Longrightarrow> poll_tun (clock_host up) d t ''tun0'' (clock_at k evs)
      = poll_tun (clock_host up) d t ''tun0'' (clock_at (k + 200000000) ((evs @ [seen_at k]) @ [paused_at d (k + 200000000)]))"
    and "k < up \<Longrightarrow> d \<le> k + 200000000 \<Longrightarrow> poll_tun (clock_host up) d t ''tun0'' (clock_at k evs)
      = Some (Inl (NetError TUNTimeout (''TUN device '' @ ''tun0'' @ '' did not appear within '' @ t) (Some (error_text not_there))),
              clock_at d ((evs @ [seen_at k]) @ [paused_at d d]))"
proof -
  note look = clock_look [OF assms, of up evs] and pause = clock_pause [OF assms, of up "evs @ [seen_at k]"]
  show "up \<le> k \<Longrightarrow> poll_tun (clock_host up) d t ''tun0'' (clock_at k evs) = Some (Inr tun_found, clock_at k (evs @ [seen_at k]))"
    by (subst poll_tun.simps) (simp only: look prod.case sum.case if_True)
  show "k < up \<Longrightarrow> k + 200000000 < d \<Longrightarrow> poll_tun (clock_host up) d t ''tun0'' (clock_at k evs)
      = poll_tun (clock_host up) d t ''tun0'' (clock_at (k + 200000000) ((evs @ [seen_at k]) @ [paused_at d (k + 200000000)]))"
    by (subst poll_tun.simps) (simp add: look pause)
  show "k < up \<Longrightarrow> d \<le> k + 200000000 \<Longrightarrow> poll_tun (clock_host up) d t ''tun0'' (clock_at k evs)
      = Some (Inl (NetError TUNTimeout (''TUN device '' @ ''tun0'' @ '' did not appear within '' @ t) (Some (error_text not_there))),
              clock_at d ((evs @ [seen_at k]) @ [paused_at d d]))"
    by (subst poll_tun.simps) (simp add: look pause)
qed

lemma clock_wait:
  "wait_for_tun (clock_host up) t ''tun0'' clock_start
     = (let T = (if t \<le> 0 then 15000000000 else t) in poll_tun (clock_host up) T (duration_text T) ''tun0'' (clock_at 0 []))"
proof -
  have "validate_interface_name ''tun0'' = None" by code_simp
  moreover have "ho_now (clock_host up) 0 = 0" by (simp add: clock_host_def)
  moreover have "clock_start = clock_at 0 []" by (simp add: clock_start_def clock_at_def)
  moreover have "lw_kernel (clock_at 0 []) = 0" by (simp add: clock_at_def)
  ultimately show ?thesis
    by (simp add: wait_for_tun_def default_tun_timeout_def Let_def)
qed

lemma clock_runs:
  "map_option (\<lambda>(r, w). (r, lw_kernel w)) (wait_for_tun (clock_host 600000000) 500000000 ''tun0'' clock_start)
     = Some (Inl (NetError TUNTimeout ''TUN device tun0 did not appear within 500ms''
         (Some ''NETWORK_INTERFACE_NOT_FOUND: network interface not found'')), 500000000)"
  "map_option (\<lambda>(r, w). (r, lw_kernel w)) (wait_for_tun (clock_host 600000000) 0 ''tun0'' clock_start)
     = Some (Inr tun_found, 600000000)"
proof -
  have "chr_of 48 = CHR ''0''" "chr_of 53 = CHR ''5''" by code_simp+
  then have "itoa 0 = ''0''" "itoa 500 = ''500''" by (simp_all add: itoa.simps)
  then have "duration_text 500000000 = ''500ms''" by (simp add: duration_text_def fraction_text_def Let_def)
  then show "map_option (\<lambda>(r, w). (r, lw_kernel w)) (wait_for_tun (clock_host 600000000) 500000000 ''tun0'' clock_start)
     = Some (Inl (NetError TUNTimeout ''TUN device tun0 did not appear within 500ms''
         (Some ''NETWORK_INTERFACE_NOT_FOUND: network interface not found'')), 500000000)"
    by (simp add: clock_wait clock_poll; simp add: clock_at_def)
  show "map_option (\<lambda>(r, w). (r, lw_kernel w)) (wait_for_tun (clock_host 600000000) 0 ''tun0'' clock_start)
     = Some (Inr tun_found, 600000000)"
    by (simp add: clock_wait clock_poll; simp add: clock_at_def)
qed

end
