(* ===== verification/GoNetip.thy ===== *)
theory GoNetip
  imports Lan GoNumbers
begin

unbundle bit_operations_syntax

text \<open>
  The part of Go's \<open>net/netip\<close> and the textual side of \<open>net\<close> the configuration uses: printing
  addresses (RFC 5952), \<open>netip.ParsePrefix\<close>, \<open>Masked\<close>, \<open>Overlaps\<close>, the address classes, and the
  splitting of \<open>host:port\<close> texts. An address without a zone is \<open>Addr4\<close> or \<open>Addr6\<close> with its bytes, so
  an IPv4 address and its mapped form differ, as they do in \<open>netip\<close>.
\<close>

subsection \<open>Printing\<close>

fun groups16 :: "nat list \<Rightarrow> nat list" where
  "groups16 (a # b # bs) = (a * 256 + b) # groups16 bs"
| "groups16 _ = []"

text \<open>The first longest run of at least two zero groups: its start and its length.\<close>

definition zero_run :: "nat list \<Rightarrow> nat \<times> nat" where
  "zero_run gs =
     foldl (\<lambda>(st, len) i. let l = length (takeWhile (\<lambda>g. g = 0) (drop i gs)) in
              if 2 \<le> l \<and> len < l then (i, l) else (st, len))
       (0, 0) [0..<length gs]"

definition ipv6_text :: "nat list \<Rightarrow> string" where
  "ipv6_text f =
     (let gs = groups16 f in
      case zero_run gs of
        (st, len) \<Rightarrow>
          if len = 0 then join '':'' (map hex_digits gs)
          else join '':'' (map hex_digits (take st gs)) @ ''::'' @ join '':'' (map hex_digits (drop (st + len) gs)))"

definition is_4in6 :: "addr \<Rightarrow> bool" where
  "is_4in6 a = (case a of Addr4 _ \<Rightarrow> False | Addr6 f \<Rightarrow> take 12 f = [0, 0, 0, 0, 0, 0, 0, 0, 0, 0, 255, 255])"

definition dotted :: "nat list \<Rightarrow> string" where
  "dotted f = join ''.'' (map itoa f)"

definition addr_text :: "addr \<Rightarrow> string" where
  "addr_text a =
     (case a of
        Addr4 f \<Rightarrow> dotted f
      | Addr6 f \<Rightarrow> if is_4in6 a then ''::ffff:'' @ dotted (drop 12 f) else ipv6_text f)"

text \<open>\<open>IP.String\<close> of a slice of four or sixteen bytes, \<open>IPMask.String\<close> and \<open>IPNet.String\<close> in full.\<close>

definition ip_text :: "ip \<Rightarrow> string" where
  "ip_text a = (if to4 a \<noteq> [] then ipv4_string (to4 a) else ipv6_text (map unat a))"

definition mask_text :: "byte list \<Rightarrow> string" where
  "mask_text m = concat (map (\<lambda>b. [hex_digit (unat b div 16), hex_digit (unat b mod 16)]) m)"

definition network_text :: "ipnet \<Rightarrow> string" where
  "network_text n =
     (case network_number_and_mask n of
        (nn, m) \<Rightarrow>
          if nn = [] \<or> m = [] then ''<nil>''
          else (case simple_mask_len m of
                  None \<Rightarrow> ip_text nn @ ''/'' @ mask_text m
                | Some l \<Rightarrow> ip_text nn @ ''/'' @ itoa l))"

lemma network_text_ipv4:
  assumes "network_number_and_mask n = (nn, m)" "length nn = 4" "length m = 4" "simple_mask_len m \<noteq> None"
  shows "network_text n = ipnet_string n"
proof -
  from assms(4) obtain l where l: "simple_mask_len m = Some l" by blast
  moreover have "nn \<noteq> []" "m \<noteq> []" "to4 nn = nn" using assms(2,3) by (auto simp: to4_id)
  ultimately show ?thesis
    using assms(1) by (simp add: network_text_def ipnet_string_def ip_text_def mask_size_def)
qed

subsection \<open>Prefixes\<close>

type_synonym prefix = "addr \<times> nat"

text \<open>\<open>netip.ParsePrefix\<close>: the part after the last slash is a number without sign or leading zero.\<close>

definition parse_prefix :: "string \<Rightarrow> prefix option" where
  "parse_prefix s =
     (case cut (CHR ''/'') (rev s) of
        None \<Rightarrow> None
      | Some (rbits, raddr) \<Rightarrow>
          (case parse_addr (rev raddr) of
             None \<Rightarrow> None
           | Some a \<Rightarrow>
               (let bits = rev rbits in
                if length bits > 1 \<and> \<not> (is_digit (hd bits) \<and> hd bits \<noteq> CHR ''0'') then None
                else (case atoi bits of
                        None \<Rightarrow> None
                      | Some n \<Rightarrow> if n < 0 \<or> n > int (addr_bits a) then None else Some (a, nat n)))))"

primrec mask_octets :: "nat \<Rightarrow> nat list \<Rightarrow> nat list" where
  "mask_octets n [] = []"
| "mask_octets n (b # bs) =
     (if 8 \<le> n then b # mask_octets (n - 8) bs else b div 2 ^ (8 - n) * 2 ^ (8 - n) # mask_octets 0 bs)"

definition mask_addr :: "nat \<Rightarrow> addr \<Rightarrow> addr" where
  "mask_addr n a = (case a of Addr4 f \<Rightarrow> Addr4 (mask_octets n f) | Addr6 f \<Rightarrow> Addr6 (mask_octets n f))"

definition prefix_masked :: "prefix \<Rightarrow> prefix" where
  "prefix_masked p = (mask_addr (snd p) (fst p), snd p)"

definition prefix_text :: "prefix \<Rightarrow> string" where
  "prefix_text p = addr_text (fst p) @ ''/'' @ itoa (snd p)"

definition is_addr4 :: "addr \<Rightarrow> bool" where
  "is_addr4 a = (case a of Addr4 _ \<Rightarrow> True | Addr6 _ \<Rightarrow> False)"

definition prefix_overlaps :: "prefix \<Rightarrow> prefix \<Rightarrow> bool" where
  "prefix_overlaps p q \<longleftrightarrow>
     p = q \<or> (is_addr4 (fst p) = is_addr4 (fst q)
       \<and> (let k = min (snd p) (snd q) in mask_addr k (fst p) = mask_addr k (fst q)))"

text \<open>\<open>Prefix.Contains\<close> for an address of the same family.\<close>

definition prefix_contains :: "prefix \<Rightarrow> addr \<Rightarrow> bool" where
  "prefix_contains p a \<longleftrightarrow>
     is_addr4 (fst p) = is_addr4 a \<and> mask_addr (snd p) (fst p) = mask_addr (snd p) a"

subsection \<open>Address classes\<close>

definition addr_octets :: "addr \<Rightarrow> nat list" where
  "addr_octets a = (case a of Addr4 f \<Rightarrow> f | Addr6 f \<Rightarrow> f)"

definition unmap_addr :: "addr \<Rightarrow> addr" where
  "unmap_addr a = (if is_4in6 a then Addr4 (drop 12 (addr_octets a)) else a)"

definition addr_loopback :: "addr \<Rightarrow> bool" where
  "addr_loopback a =
     (case unmap_addr a of Addr4 f \<Rightarrow> f ! 0 = 127 | Addr6 f \<Rightarrow> f = replicate 15 0 @ [1])"

definition addr_multicast :: "addr \<Rightarrow> bool" where
  "addr_multicast a = (case unmap_addr a of Addr4 f \<Rightarrow> f ! 0 div 16 = 14 | Addr6 f \<Rightarrow> f ! 0 = 255)"

definition addr_link_local :: "addr \<Rightarrow> bool" where
  "addr_link_local a =
     (case unmap_addr a of
        Addr4 f \<Rightarrow> f ! 0 = 169 \<and> f ! 1 = 254
      | Addr6 f \<Rightarrow> f ! 0 = 254 \<and> f ! 1 div 64 = 2)"

definition addr_global_unicast :: "addr \<Rightarrow> bool" where
  "addr_global_unicast a \<longleftrightarrow>
     a \<noteq> Addr4 [0, 0, 0, 0] \<and> a \<noteq> Addr4 [255, 255, 255, 255] \<and> a \<noteq> Addr6 (replicate 16 0)
     \<and> \<not> addr_loopback a \<and> \<not> addr_multicast a \<and> \<not> addr_link_local a"

definition addr_private :: "addr \<Rightarrow> bool" where
  "addr_private a =
     (case unmap_addr a of
        Addr4 f \<Rightarrow> f ! 0 = 10 \<or> (f ! 0 = 172 \<and> f ! 1 div 16 = 1) \<or> (f ! 0 = 192 \<and> f ! 1 = 168)
      | Addr6 f \<Rightarrow> f ! 0 div 2 = 126)"

text \<open>The same classes of a \<open>net.IP\<close>.\<close>

definition ip_loopback :: "ip \<Rightarrow> bool" where
  "ip_loopback a = (if to4 a \<noteq> [] then to4 a ! 0 = 127 else a = replicate 15 0 @ [1])"

definition ip_unspecified :: "ip \<Rightarrow> bool" where
  "ip_unspecified a \<longleftrightarrow> ip_equal a (v4_in_v6_prefix @ [0, 0, 0, 0]) \<or> ip_equal a (replicate 16 0)"

definition ip_multicast :: "ip \<Rightarrow> bool" where
  "ip_multicast a =
     (if to4 a \<noteq> [] then to4 a ! 0 AND 0xF0 = 0xE0 else length a = 16 \<and> a ! 0 = 0xFF)"

definition ip_link_local :: "ip \<Rightarrow> bool" where
  "ip_link_local a =
     (if to4 a \<noteq> [] then to4 a ! 0 = 169 \<and> to4 a ! 1 = 254
      else length a = 16 \<and> a ! 0 = 0xFE \<and> a ! 1 AND 0xC0 = 0x80)"

subsection \<open>Host and port\<close>

definition optional_port :: "string \<Rightarrow> bool" where
  "optional_port s \<longleftrightarrow> s = [] \<or> (hd s = CHR '':'' \<and> list_all is_digit (tl s))"

text \<open>
  \<open>URL.Hostname\<close> and \<open>URL.Port\<close>: the text after the last colon is a port only if it consists of
  digits; brackets around the rest are removed.
\<close>

definition strip_brackets :: "string \<Rightarrow> string" where
  "strip_brackets h =
     (if h \<noteq> [] \<and> hd h = CHR ''['' \<and> last h = CHR '']'' \<and> 2 \<le> length h then butlast (tl h) else h)"

definition url_split_host :: "string \<Rightarrow> string \<times> string" where
  "url_split_host hp =
     (case cut (CHR '':'') (rev hp) of
        None \<Rightarrow> (strip_brackets hp, [])
      | Some (rport, rhost) \<Rightarrow>
          if optional_port (CHR '':'' # rev rport) then (strip_brackets (rev rhost), rev rport)
          else (strip_brackets hp, []))"

text \<open>\<open>net.SplitHostPort\<close>: \<open>None\<close> for an error.\<close>

definition split_host_port :: "string \<Rightarrow> (string \<times> string) option" where
  "split_host_port hp =
     (case cut (CHR '':'') (rev hp) of
        None \<Rightarrow> None
      | Some (rport, rhost) \<Rightarrow>
          (let host = rev rhost; port = rev rport in
           if hd hp = CHR ''['' then
             (case cut (CHR '']'') hp of
                None \<Rightarrow> None
              | Some (open_host, rest) \<Rightarrow>
                  if length open_host + 1 \<noteq> length host then None
                  else if CHR ''['' \<in> set (tl hp) \<or> CHR '']'' \<in> set rest then None
                  else Some (tl open_host, port))
           else if CHR '':'' \<in> set host then None
           else if CHR ''['' \<in> set hp \<or> CHR '']'' \<in> set hp then None
           else Some (host, port)))"

subsection \<open>Facts\<close>

lemma mask_octets_mask: "mask_octets m (mask_octets n f) = mask_octets (min m n) f"
proof (induction f arbitrary: m n)
  case (Cons b bs)
  have floor: "b div 2 ^ (8 - n) * 2 ^ (8 - n) div 2 ^ (8 - m) * 2 ^ (8 - m) = b div 2 ^ (8 - min m n) * 2 ^ (8 - min m n)"
    if "m < 8" "n < 8"
  proof (cases "m \<le> n")
    case True
    then have "(2 :: nat) ^ (8 - m) = 2 ^ (8 - n) * 2 ^ (n - m)"
      using that by (simp flip: power_add)
    then show ?thesis using True by (simp add: min_def div_mult2_eq)
  next
    case False
    then have e: "(2 :: nat) ^ (8 - n) = 2 ^ (n + 8 - (n + n + (m - n))  + (m - n))"
      using that by (intro arg_cong [where f = "power 2"]) simp
    then have "(2 :: nat) ^ (8 - n) = 2 ^ (8 - m) * 2 ^ (m - n)"
      using that False by (simp flip: power_add)
    then show ?thesis using False by (simp add: min_def mult.assoc mult.left_commute)
  qed
  consider "8 \<le> m" "8 \<le> n" | "8 \<le> m" "n < 8" | "m < 8" "8 \<le> n" | "m < 8" "n < 8" by linarith
  then show ?case
    using Cons.IH floor by cases (auto simp: min_def)
qed simp

lemma mask_addr_mask: "mask_addr m (mask_addr n a) = mask_addr (min m n) a"
  by (cases a) (simp_all add: mask_addr_def mask_octets_mask)

lemma is_addr4_mask [simp]: "is_addr4 (mask_addr n a) = is_addr4 a"
  by (cases a) (simp_all add: mask_addr_def is_addr4_def)

text \<open>Prefixes that share an address overlap.\<close>

lemma common_address_overlaps:
  assumes "prefix_contains p a" "prefix_contains q a"
  shows "prefix_overlaps p q"
proof -
  let ?k = "min (snd p) (snd q)"
  have "mask_addr ?k (fst p) = mask_addr ?k (mask_addr (snd p) (fst p))"
    "mask_addr ?k (fst q) = mask_addr ?k (mask_addr (snd q) (fst q))"
    by (simp_all add: mask_addr_mask min.commute min.left_commute)
  moreover have "mask_addr ?k (mask_addr (snd p) a) = mask_addr ?k (mask_addr (snd q) a)"
    by (simp add: mask_addr_mask min.commute min.left_commute)
  ultimately show ?thesis
    using assms by (simp add: prefix_contains_def prefix_overlaps_def Let_def)
qed

end
