(* ===== verification/ConfigModel.thy ===== *)
theory ConfigModel
  imports PolicyBundle GoNetip
begin

text \<open>
  \<open>internal/config/config.go\<close> and \<open>normalize.go\<close>: the gateway configuration as one record per section,
  its defaults, the derived LAN scope, and the normalisation every loaded or edited configuration goes
  through. Unset slices and empty ones are not told apart, as the code never does; \<open>Bundle\<close> is
  \<open>None\<close> for the nil pointer.
\<close>

subsection \<open>Sections\<close>

record gateway_section =
  ga_mode :: string
  ga_interface :: string
  ga_lan_ip :: string
  ga_prefix_len :: int
  ga_upstream_interface :: string
  ga_lan_cidr :: string
  ga_upstream_gateway :: string

record dhcp_section =
  dh_binary :: string
  dh_enabled :: bool
  dh_range_start :: string
  dh_range_end :: string
  dh_lease_time :: string
  dh_domain :: string
  dh_bypass_gateway :: string
  dh_bypass_dns :: "string list"

record policy_section =
  dp_path :: string
  dp_protected :: "string list"
  dp_bundle :: "policy_bundle option"
  dp_selection_cache :: string

record resolver_upstream =
  up_address :: string
  up_bootstrap :: string

record dns_section =
  dn_mode :: string
  dn_upstreams :: "resolver_upstream list"
  dn_node_upstreams :: "resolver_upstream list"
  dn_allow_plaintext :: bool
  dn_proxy_enabled :: bool
  dn_proxy_target :: string
  dn_use_smartdns :: bool
  dn_listen :: string
  dn_port :: int
  dn_upstream :: string
  dn_ipv6 :: bool

record mihomo_section =
  mi_binary :: string
  mi_config :: string
  mi_profile_mode :: string
  mi_profile :: string
  mi_source_digest :: string
  mi_overlay_digest :: string
  mi_store_fake_ip :: bool
  mi_mixed_port :: int
  mi_redir_port :: int
  mi_api_addr :: string
  mi_secret :: string

record tailscale_section =
  ts_enabled :: bool
  ts_display_name :: string
  ts_hostname :: string
  ts_control_url :: string
  ts_auth_key_file :: string
  ts_state_dir :: string
  ts_accept_routes :: bool
  ts_suffixes :: "string list"
  ts_peer_cidrs :: "string list"
  ts_subnet_routes :: "string list"
  ts_allow_mac :: bool
  ts_allow_all :: bool
  ts_allowed_devices :: "string list"
  ts_exit_node :: string
  ts_exit_node_lan :: bool

record transparent_section =
  tr_mode :: string
  tr_tun_device :: string
  tr_tun_stack :: string
  tr_auto_route :: bool
  tr_auto_detect :: bool
  tr_strict_route :: bool
  tr_tun_ipv6 :: string
  tr_l2_ready :: bool
  tr_broker_binary :: string
  tr_packet_mtu :: int
  tr_nft_table :: string
  tr_fw_mark :: "32 word"
  tr_route_table :: "32 word"
  tr_rule_priority :: "32 word"

record lan_proxy_section =
  lp_enabled :: bool
  lp_socks_port :: int

record upstream_section =
  px_enabled :: bool
  px_name :: string
  px_type :: string
  px_server :: string
  px_port :: int
  px_username :: string
  px_password :: string
  px_match_domain :: string

record config =
  cf_gateway :: gateway_section
  cf_dhcp :: dhcp_section
  cf_policy :: policy_section
  cf_dns :: dns_section
  cf_mihomo :: mihomo_section
  cf_tailscale :: tailscale_section
  cf_transparent :: transparent_section
  cf_local_proxy :: bool
  cf_lan_proxy :: lan_proxy_section
  cf_upstream :: upstream_section
  cf_runtime_dir :: string

subsection \<open>Constants and defaults\<close>

definition isolated_mode :: string where "isolated_mode = ''isolated_lan''"
definition same_lan_mode :: string where "same_lan_mode = ''same_lan''"
definition same_wifi_mode :: string where "same_wifi_mode = ''same_wifi_dhcp''"
definition transparent_off :: string where "transparent_off = ''off''"
definition transparent_tun :: string where "transparent_tun = ''tun''"
definition tun_ipv6_off :: string where "tun_ipv6_off = ''off''"
definition profile_managed :: string where "profile_managed = ''managed''"
definition profile_imported :: string where "profile_imported = ''imported''"
definition default_fw_mark :: "32 word" where "default_fw_mark = 0x29"
definition default_route_table_id :: "32 word" where "default_route_table_id = 20241"

definition default_config :: config where
  "default_config =
     \<lparr>cf_gateway = \<lparr>ga_mode = isolated_mode, ga_interface = ''en0'', ga_lan_ip = ''192.168.50.1'',
        ga_prefix_len = default_prefix_len, ga_upstream_interface = ''en0'', ga_lan_cidr = [],
        ga_upstream_gateway = []\<rparr>,
      cf_dhcp = \<lparr>dh_binary = ''dnsmasq'', dh_enabled = True, dh_range_start = ''192.168.50.100'',
        dh_range_end = ''192.168.50.200'', dh_lease_time = ''12h'', dh_domain = ''lan'',
        dh_bypass_gateway = [], dh_bypass_dns = []\<rparr>,
      cf_policy = \<lparr>dp_path = [], dp_protected = [], dp_bundle = None, dp_selection_cache = []\<rparr>,
      cf_dns = \<lparr>dn_mode = ''system'', dn_upstreams = [], dn_node_upstreams = [], dn_allow_plaintext = False,
        dn_proxy_enabled = False, dn_proxy_target = [], dn_use_smartdns = False,
        dn_listen = ''192.168.50.1'', dn_port = 53, dn_upstream = ''127.0.0.1#1053'', dn_ipv6 = False\<rparr>,
      cf_mihomo = \<lparr>mi_binary = ''./bin/mihomo'', mi_config = ''./runtime/mihomo.yaml'',
        mi_profile_mode = profile_managed, mi_profile = [], mi_source_digest = [], mi_overlay_digest = [],
        mi_store_fake_ip = True, mi_mixed_port = 7890, mi_redir_port = 0, mi_api_addr = ''127.0.0.1:9090'',
        mi_secret = []\<rparr>,
      cf_tailscale = \<lparr>ts_enabled = False, ts_display_name = ''Tailnet'', ts_hostname = ''opensurge-mac'',
        ts_control_url = ''https://controlplane.tailscale.com'', ts_auth_key_file = ''./data/tailscale-auth-key'',
        ts_state_dir = ''./data/tailscale'', ts_accept_routes = False, ts_suffixes = [], ts_peer_cidrs = [],
        ts_subnet_routes = [], ts_allow_mac = True, ts_allow_all = False, ts_allowed_devices = [],
        ts_exit_node = [], ts_exit_node_lan = False\<rparr>,
      cf_transparent = \<lparr>tr_mode = transparent_off, tr_tun_device = ''tun0'', tr_tun_stack = ''mixed'',
        tr_auto_route = False, tr_auto_detect = False, tr_strict_route = False, tr_tun_ipv6 = tun_ipv6_off,
        tr_l2_ready = False, tr_broker_binary = [], tr_packet_mtu = 0, tr_nft_table = ''opensurge'',
        tr_fw_mark = default_fw_mark, tr_route_table = default_route_table_id,
        tr_rule_priority = default_route_table_id\<rparr>,
      cf_local_proxy = False,
      cf_lan_proxy = \<lparr>lp_enabled = False, lp_socks_port = 7891\<rparr>,
      cf_upstream = \<lparr>px_enabled = False, px_name = ''real-device-egress'', px_type = ''http'',
        px_server = ''127.0.0.1'', px_port = 0, px_username = [], px_password = [],
        px_match_domain = ''example.com''\<rparr>,
      cf_runtime_dir = ''./runtime''\<rparr>"

definition tun_enabled :: "transparent_section \<Rightarrow> bool" where
  "tun_enabled t \<longleftrightarrow> tr_mode t = transparent_tun"

definition ipv6_requested :: "transparent_section \<Rightarrow> bool" where
  "ipv6_requested t \<longleftrightarrow> tr_tun_ipv6 t \<noteq> tun_ipv6_off"

definition shares_lan :: "gateway_section \<Rightarrow> bool" where
  "shares_lan g \<longleftrightarrow> ga_mode g = same_lan_mode \<or> ga_mode g = same_wifi_mode"

text \<open>\<open>Config.LANScope\<close>: every subnet decision of the program goes through it.\<close>

definition lan_scope :: "config \<Rightarrow> lan_error + scope" where
  "lan_scope cfg = new_scope (ga_lan_ip (cf_gateway cfg)) (ga_prefix_len (cf_gateway cfg))"

subsection \<open>Normalisation\<close>

datatype normalize_error = NormalizeLAN lan_error | NormalizeCIDR | NormalizeAutoRoute

definition trim_upstream :: "resolver_upstream \<Rightarrow> resolver_upstream" where
  "trim_upstream u = \<lparr>up_address = trim_space (up_address u), up_bootstrap = trim_space (up_bootstrap u)\<rparr>"

definition normalize_dns :: "dns_section \<Rightarrow> dns_section" where
  "normalize_dns d =
     d\<lparr>dn_mode := (if dn_mode d = [] then ''system'' else dn_mode d),
       dn_proxy_target := trim_space (dn_proxy_target d),
       dn_upstreams := map trim_upstream (dn_upstreams d),
       dn_node_upstreams := map trim_upstream (dn_node_upstreams d)\<rparr>"

definition default_priority :: "transparent_section \<Rightarrow> transparent_section" where
  "default_priority t =
     (if tr_rule_priority t = 0 \<and> tr_route_table t \<noteq> 0 then t\<lparr>tr_rule_priority := tr_route_table t\<rparr> else t)"

text \<open>
  The LAN CIDR an explicit or derived setting stands for. \<open>To4\<close> also accepts an IPv4-mapped address,
  whose network prints as IPv4 or as IPv6 depending on the prefix length.
\<close>

definition normalize_cidr :: "config \<Rightarrow> normalize_error + string" where
  "normalize_cidr cfg =
     (let text = trim_space (ga_lan_cidr (cf_gateway cfg)) in
      if text = [] then
        (case lan_scope cfg of
           Inl e \<Rightarrow> Inl (NormalizeLAN e)
         | Inr s \<Rightarrow> Inr (network_text (sc_network s)))
      else
        (case parse_cidr text of
           None \<Rightarrow> Inl NormalizeCIDR
         | Some (ip, network) \<Rightarrow>
             if to4 ip = [] then Inl NormalizeCIDR else Inr (network_text network)))"

definition retire_ipv6 :: "transparent_section \<Rightarrow> transparent_section" where
  "retire_ipv6 t = t\<lparr>tr_l2_ready := False, tr_broker_binary := [], tr_packet_mtu := 0\<rparr>"

text \<open>\<open>Normalize\<close>: on an error the caller drops the half-written configuration.\<close>

definition normalize :: "config \<Rightarrow> normalize_error + config" where
  "normalize cfg =
     (let cfg1 = cfg\<lparr>cf_transparent := default_priority (cf_transparent cfg)\<rparr> in
      rbind (normalize_cidr cfg1) (\<lambda>cidr.
        let cfg2 = cfg1\<lparr>cf_gateway := (cf_gateway cfg1)\<lparr>ga_lan_cidr := cidr\<rparr>,
                        cf_dns := normalize_dns (cf_dns cfg1)\<rparr> in
        if tr_auto_route (cf_transparent cfg2) then Inl NormalizeAutoRoute
        else Inr (cfg2\<lparr>cf_transparent := retire_ipv6 (cf_transparent cfg2)\<rparr>)))"

end
