(* ===== verification/ConfigResolver.thy ===== *)
theory ConfigResolver
  imports ConfigModel
begin

text \<open>
  \<open>internal/config/resolver.go\<close>: which DNS upstreams the resolver view and the proxy nodes may use.
  \<open>url.Parse\<close> is a parameter that gives the parts of a URL the code reads, \<open>None\<close> for its error; the
  host and port methods of the result are \<open>url_split_host\<close>.
\<close>

record url_parts =
  ul_scheme :: string
  ul_opaque :: string
  ul_has_user :: bool
  ul_host :: string
  ul_path :: string
  ul_raw_query :: string
  ul_fragment :: string
  ul_text :: string

type_synonym url_reader = "string \<Rightarrow> url_parts option"

record resolver_endpoint =
  re_scheme :: string
  re_target :: string
  re_hostname :: string
  re_bootstrap :: string
  re_encrypted :: bool

datatype resolver_error =
    UpstreamNotOneAddress
  | UpstreamURLInvalid
  | DoHNeedsPath
  | DoTMalformed
  | PlainMalformed
  | SchemeUnsupported
  | PortOrIPv6Invalid
  | UpstreamPortRange
  | TLSHostnameInvalid
  | BootstrapUnreachable
  | PlainUnreachable
  | PlainBootstrapUnused

subsection \<open>One upstream\<close>

text \<open>\<open>unicode.IsSpace\<close>\<close>

definition is_space_rune :: "nat \<Rightarrow> bool" where
  "is_space_rune r \<longleftrightarrow> (9 \<le> r \<and> r \<le> 13) \<or> r = 32 \<or> r = 0x85 \<or> r = 0xA0 \<or> r = 0x1680
     \<or> (0x2000 \<le> r \<and> r \<le> 0x200A) \<or> r = 0x2028 \<or> r = 0x2029 \<or> r = 0x202F \<or> r = 0x205F \<or> r = 0x3000"

definition valid_hostname_label :: "string \<Rightarrow> bool" where
  "valid_hostname_label l \<longleftrightarrow>
     l \<noteq> [] \<and> length l \<le> 63 \<and> hd l \<noteq> CHR ''-'' \<and> last l \<noteq> CHR ''-''
     \<and> list_all (\<lambda>c. is_letter_ascii c \<or> is_digit c \<or> c = CHR ''-'') l"

definition valid_resolver_hostname :: "string \<Rightarrow> bool" where
  "valid_resolver_hostname host \<longleftrightarrow>
     \<not> (length host > 253 \<or> parse_ip host \<noteq> [] \<or> CHR ''.'' \<notin> set host)
     \<and> list_all valid_hostname_label (split_on (CHR ''.'') host)"

definition ipv4_broadcast :: ip where
  "ipv4_broadcast = v4_in_v6_prefix @ [255, 255, 255, 255]"

definition valid_resolver_ipv4 :: "string \<Rightarrow> config \<Rightarrow> bool" where
  "valid_resolver_ipv4 value cfg =
     (let ip = parse_ip value in
      if ip = [] \<or> to4 ip = [] \<or> ip_loopback ip \<or> ip_unspecified ip \<or> ip_multicast ip
         \<or> ip_equal ip ipv4_broadcast \<or> ip_link_local ip
      then False
      else value \<noteq> ''100.100.100.100''
        \<and> \<not> ip_equal ip (parse_ip (dn_listen (cf_dns cfg)))
        \<and> \<not> ip_equal ip (parse_ip (ga_lan_ip (cf_gateway cfg))))"

text \<open>The switch on the scheme: whether the endpoint is encrypted, and its target.\<close>

definition scheme_target :: "url_parts \<Rightarrow> resolver_error + bool \<times> string" where
  "scheme_target u =
     (if ul_scheme u = ''https'' then
        (if ul_path u = [] \<or> ul_path u = ''/'' then Inl DoHNeedsPath else Inr (True, ul_text u))
      else if ul_scheme u = ''tls'' then
        (if ul_path u \<noteq> [] \<or> ul_raw_query u \<noteq> [] then Inl DoTMalformed else Inr (True, ul_host u))
      else if ul_scheme u = ''udp'' \<or> ul_scheme u = ''tcp'' then
        (if ul_path u \<noteq> [] \<or> ul_raw_query u \<noteq> [] then Inl PlainMalformed else Inr (False, ul_host u))
      else Inl SchemeUnsupported)"

definition check_url_port :: "url_parts \<Rightarrow> resolver_error option" where
  "check_url_port u =
     (let port = snd (url_split_host (ul_host u)) in
      vthen (fail_if (CHR '':'' \<in> set (ul_host u) \<and> port = []) PortOrIPv6Invalid)
        (fail_if (port \<noteq> [] \<and> (case atoi port of None \<Rightarrow> True | Some n \<Rightarrow> n < 1 \<or> n > 65535))
           UpstreamPortRange))"

definition check_endpoint_address :: "config \<Rightarrow> resolver_endpoint \<Rightarrow> resolver_error option" where
  "check_endpoint_address cfg ep =
     (if re_encrypted ep then
        vthen (fail_if (\<not> valid_resolver_hostname (re_hostname ep)) TLSHostnameInvalid)
          (fail_if (\<not> valid_resolver_ipv4 (re_bootstrap ep) cfg) BootstrapUnreachable)
      else
        vthen (fail_if (\<not> valid_resolver_ipv4 (re_hostname ep) cfg) PlainUnreachable)
          (fail_if (re_bootstrap ep \<noteq> []) PlainBootstrapUnused))"

definition upstream_text_ok :: "string \<Rightarrow> bool" where
  "upstream_text_ok address \<longleftrightarrow>
     \<not> (address = [] \<or> length address > 2048 \<or> list_ex is_space_rune (runes address)
        \<or> contains_any address [CHR 0x22, CHR 0x27, CHR ''#'', CHR '','', CHR ''|'', CHR 0x5C])"

definition upstream_url :: "string \<Rightarrow> string" where
  "upstream_url address = (if contains_sub address ''://'' then address else ''udp://'' @ address)"

definition parse_resolver_upstream ::
  "url_reader \<Rightarrow> resolver_upstream \<Rightarrow> config \<Rightarrow> resolver_error + resolver_endpoint" where
  "parse_resolver_upstream url_parse up cfg =
     (let address = trim_space (up_address up) in
      if \<not> upstream_text_ok address then Inl UpstreamNotOneAddress
      else
        (case url_parse (upstream_url address) of
           None \<Rightarrow> Inl UpstreamURLInvalid
         | Some u \<Rightarrow>
             if ul_host u = [] \<or> ul_has_user u \<or> ul_fragment u \<noteq> [] \<or> ul_opaque u \<noteq> []
             then Inl UpstreamURLInvalid
             else rbind (scheme_target u) (\<lambda>(encrypted, target).
               case check_url_port u of
                 Some e \<Rightarrow> Inl e
               | None \<Rightarrow>
                   let ep = \<lparr>re_scheme = ul_scheme u, re_target = target,
                         re_hostname = fst (url_split_host (ul_host u)),
                         re_bootstrap = trim_space (up_bootstrap up), re_encrypted = encrypted\<rparr>
                   in case check_endpoint_address cfg ep of Some e \<Rightarrow> Inl e | None \<Rightarrow> Inr ep)))"

subsection \<open>The lists of upstreams\<close>

definition encrypted_upstream :: "url_reader \<Rightarrow> config \<Rightarrow> resolver_upstream \<Rightarrow> bool" where
  "encrypted_upstream url_parse cfg up =
     (case parse_resolver_upstream url_parse up cfg of Inl _ \<Rightarrow> False | Inr ep \<Rightarrow> re_encrypted ep)"

definition proxy_node_resolver_upstreams :: "url_reader \<Rightarrow> config \<Rightarrow> resolver_upstream list" where
  "proxy_node_resolver_upstreams url_parse cfg =
     (if dn_node_upstreams (cf_dns cfg) \<noteq> [] then dn_node_upstreams (cf_dns cfg)
      else filter (encrypted_upstream url_parse cfg) (dn_upstreams (cf_dns cfg)))"

text \<open>
  \<open>NilDereference\<close> is no error value of the code: it stands for the panic of reading a field of the nil
  URL, which ends the process.
\<close>

datatype dns_error =
    ResolverModeInvalid
  | IntegrationNeedsCustom
  | ProxyTargetMissing
  | ProxyTargetBuiltin
  | TooManyUpstreams
  | CustomNeedsUpstream
  | ResolverUpstreamInvalid resolver_error
  | PlaintextNotAllowed
  | ProxyNeedsStream
  | DuplicateUpstream
  | TooManyNodeUpstreams
  | NodeUpstreamInvalid resolver_error
  | NodeNotEncrypted
  | NodeQueryUnsupported
  | DuplicateNodeUpstream
  | NodeUpstreamsMissing
  | PortReserved int
  | NilDereference

definition endpoint_key :: "resolver_endpoint \<Rightarrow> string" where
  "endpoint_key ep = re_scheme ep @ ''|'' @ re_target ep @ ''|'' @ re_bootstrap ep"

definition upstream_key :: "url_reader \<Rightarrow> config \<Rightarrow> resolver_upstream \<Rightarrow> string" where
  "upstream_key url_parse cfg up =
     (case parse_resolver_upstream url_parse up cfg of Inl _ \<Rightarrow> [] | Inr ep \<Rightarrow> endpoint_key ep)"

definition check_view_upstream :: "url_reader \<Rightarrow> config \<Rightarrow> resolver_upstream \<Rightarrow> dns_error option" where
  "check_view_upstream url_parse cfg up =
     (case parse_resolver_upstream url_parse up cfg of
        Inl e \<Rightarrow> Some (ResolverUpstreamInvalid e)
      | Inr ep \<Rightarrow>
          vthen (fail_if (\<not> re_encrypted ep \<and> \<not> dn_allow_plaintext (cf_dns cfg)) PlaintextNotAllowed)
            (fail_if (dn_proxy_enabled (cf_dns cfg) \<and> re_scheme ep = ''udp'') ProxyNeedsStream))"

definition check_node_upstream :: "url_reader \<Rightarrow> config \<Rightarrow> resolver_upstream \<Rightarrow> dns_error option" where
  "check_node_upstream url_parse cfg up =
     (case parse_resolver_upstream url_parse up cfg of
        Inl e \<Rightarrow> Some (NodeUpstreamInvalid e)
      | Inr ep \<Rightarrow>
          vthen (fail_if (\<not> re_encrypted ep) NodeNotEncrypted)
            (case url_parse (re_target ep) of
               None \<Rightarrow> Some NilDereference
             | Some u \<Rightarrow> fail_if (ul_raw_query u \<noteq> []) NodeQueryUnsupported))"

definition routing_builtins :: "string list" where
  "routing_builtins = [''DIRECT'', ''REJECT'', ''REJECT-DROP'', ''REJECT-TINYGIF'', ''PASS'', ''COMPATIBLE'', ''GLOBAL'']"

definition check_proxy_target :: "dns_section \<Rightarrow> dns_error option" where
  "check_proxy_target d =
     (let target = dn_proxy_target d in
      if \<not> dn_proxy_enabled d then None
      else
        vthen (fail_if (trim_space target = [] \<or> length target > 256
                 \<or> contains_any target [CHR 0x22, CHR 0x5C] \<or> list_ex is_control (runes target)) ProxyTargetMissing)
          (fail_if (to_upper target \<in> set routing_builtins) ProxyTargetBuiltin))"

definition smartdns_ports :: "dns_section \<Rightarrow> int list" where
  "smartdns_ports d = (if dn_use_smartdns d then [5354] else []) @ (if dn_proxy_enabled d then [7854] else [])"

definition check_reserved_port :: "config \<Rightarrow> int \<Rightarrow> dns_error option" where
  "check_reserved_port cfg port =
     (let api_port = (case split_host_port (mi_api_addr (cf_mihomo cfg)) of None \<Rightarrow> [] | Some (_, p) \<Rightarrow> p) in
      fail_if (dn_port (cf_dns cfg) = port \<or> mi_mixed_port (cf_mihomo cfg) = port
               \<or> api_port = itoa (nat port)
               \<or> (lp_enabled (cf_lan_proxy cfg) \<and> lp_socks_port (cf_lan_proxy cfg) = port)) (PortReserved port))"

definition uses_integration :: "dns_section \<Rightarrow> bool" where
  "uses_integration d \<longleftrightarrow> dn_proxy_enabled d \<or> dn_use_smartdns d"

definition resolver_mode :: "dns_section \<Rightarrow> string" where
  "resolver_mode d = (if dn_mode d = [] then ''system'' else dn_mode d)"

definition node_upstreams :: "url_reader \<Rightarrow> config \<Rightarrow> resolver_upstream list" where
  "node_upstreams url_parse cfg =
     (if uses_integration (cf_dns cfg) then proxy_node_resolver_upstreams url_parse cfg
      else dn_node_upstreams (cf_dns cfg))"

definition validate_resolver_config :: "url_reader \<Rightarrow> config \<Rightarrow> dns_error option" where
  "validate_resolver_config url_parse cfg =
     (let d = cf_dns cfg; mode = resolver_mode d in
      vthen (fail_if (mode \<noteq> ''system'' \<and> mode \<noteq> ''custom'') ResolverModeInvalid)
     (vthen (fail_if (uses_integration d \<and> mode \<noteq> ''custom'') IntegrationNeedsCustom)
     (vthen (check_proxy_target d)
     (vthen (fail_if (length (dn_upstreams d) > 16) TooManyUpstreams)
     (vthen (fail_if (mode = ''custom'' \<and> dn_upstreams d = []) CustomNeedsUpstream)
     (vthen (check_unique (upstream_key url_parse cfg) (check_view_upstream url_parse cfg)
              (\<lambda>_. DuplicateUpstream) (\<lambda>_. None) [] (dn_upstreams d))
     (vthen (fail_if (length (dn_node_upstreams d) > 16) TooManyNodeUpstreams)
     (vthen (check_unique (upstream_key url_parse cfg) (check_node_upstream url_parse cfg)
              (\<lambda>_. DuplicateNodeUpstream) (\<lambda>_. None) [] (node_upstreams url_parse cfg))
     (vthen (fail_if (uses_integration d \<and> node_upstreams url_parse cfg = []) NodeUpstreamsMissing)
       (first_error (check_reserved_port cfg) (smartdns_ports d)))))))))))"

end
