(* ===== verification/GoPath.thy ===== *)
theory GoPath
  imports GoStrings
begin

text \<open>
  The lexical part of Go's \<open>path/filepath\<close> on Unix: \<open>Clean\<close>, \<open>Dir\<close>, \<open>Join\<close> of two elements and
  \<open>IsAbs\<close>.
\<close>

definition is_abs_path :: "string \<Rightarrow> bool" where
  "is_abs_path p \<longleftrightarrow> has_prefix p ''/''"

text \<open>The elements of a cleaned path, innermost first: dots vanish, a double dot removes its parent.\<close>

fun push_element :: "bool \<Rightarrow> string list \<Rightarrow> string \<Rightarrow> string list" where
  "push_element rooted es e =
     (if e = [] \<or> e = ''.'' then es
      else if e = ''..'' then
        (if es \<noteq> [] \<and> hd es \<noteq> ''..'' then tl es else if rooted then es else e # es)
      else e # es)"

definition clean_path :: "string \<Rightarrow> string" where
  "clean_path p =
     (let rooted = is_abs_path p;
          body = join ''/'' (rev (foldl (push_element rooted) [] (split_on (CHR ''/'') p))) in
      if rooted then CHR ''/'' # body else if body = [] then ''.'' else body)"

definition path_dir :: "string \<Rightarrow> string" where
  "path_dir p = clean_path (rev (dropWhile (\<lambda>c. c \<noteq> CHR ''/'') (rev p)))"

definition path_join :: "string \<Rightarrow> string \<Rightarrow> string" where
  "path_join a b =
     (if a = [] \<and> b = [] then [] else clean_path (if a = [] then b else if b = [] then a else a @ ''/'' @ b))"

lemma is_abs_path_iff: "is_abs_path p \<longleftrightarrow> (\<exists>r. p = CHR ''/'' # r)"
  by (simp add: is_abs_path_def has_prefix_iff)

lemma is_abs_path_Cons [simp]: "is_abs_path (CHR ''/'' # r)" "\<not> is_abs_path []"
  by (simp_all add: is_abs_path_iff)

lemma clean_path_abs: "is_abs_path p \<Longrightarrow> is_abs_path (clean_path p)"
  by (simp add: clean_path_def Let_def)

lemma path_join_abs: "is_abs_path a \<Longrightarrow> is_abs_path (path_join a b)"
  by (auto simp: path_join_def is_abs_path_iff [of a] intro!: clean_path_abs)

lemma path_dir_abs:
  assumes "is_abs_path p"
  shows "is_abs_path (path_dir p)"
proof -
  from assms obtain r where p: "p = CHR ''/'' # r" by (auto simp: is_abs_path_iff)
  have "dropWhile (\<lambda>c. c \<noteq> CHR ''/'') (rev r @ [CHR ''/''])
      = dropWhile (\<lambda>c. c \<noteq> CHR ''/'') (rev r) @ [CHR ''/'']"
    by (auto simp: dropWhile_append)
  then show ?thesis by (simp add: p path_dir_def clean_path_abs)
qed

lemma clean_path_examples:
  "clean_path ''/etc//opensurge/./x/../gateway.yaml'' = ''/etc/opensurge/gateway.yaml''"
  "path_dir ''/data/gateway.yaml'' = ''/data''" "path_join ''/data'' ''../policy.json'' = ''/policy.json''"
  "clean_path ''../a/..'' = ''..''" "path_dir ''gateway.yaml'' = ''.''"
  by (simp_all add: clean_path_def path_dir_def path_join_def is_abs_path_def go_eval)

end
