(* ===== verification/ConfigChecks.thy ===== *)
theory ConfigChecks
  imports ConfigResolver GoPath
begin

text \<open>
  The checks of \<open>internal/config/validator.go\<close> on one section each: DHCP pool, bypass addresses, DNS
  upstream, mihomo profile, TUN settings, Tailscale, upstream proxy.
\<close>

subsection \<open>Errors\<close>

datatype dhcp_error =
    DHCPBinaryMissing
  | RangeStartInvalid
  | RangeEndInvalid
  | LeaseTimeMissing
  | RangeNotIPv4
  | RangeOutsideLAN
  | RangeReversed
  | RangeNotUsable
  | RangeHasGateway
  | BypassGatewayInvalid
  | BypassDNSInvalid string

datatype forward_error = ForwardAddressInvalid | ForwardPortInvalid

datatype mihomo_error =
    MihomoBinaryMissing
  | MihomoConfigMissing
  | MixedPortRange
  | RedirPortRange
  | RedirPortUnsupported
  | APIAddrMissing
  | ProfileNeedsImported
  | DigestsNeedImported
  | ProfileMissing
  | SourceDigestInvalid
  | OverlayDigestInvalid
  | ImportedForbidsUpstreamProxy
  | ProfileModeUnknown

datatype transparent_error =
    NFTTableMissing
  | FwMarkZero
  | RouteTableZero
  | TUNIPv6Unknown
  | TUNIPv6NeedsTUN string
  | IPv6Unsupported
  | PacketMTURange
  | TUNDeviceInvalid
  | TUNStackUnknown
  | TransparentModeUnknown
  | L2ReadySameLAN
  | L2ReadySameWifi

datatype tailscale_error =
    DisplayNameInvalid
  | DisplayNameTooLong
  | TSHostnameInvalid
  | ControlURLInvalid
  | ControlURLExtras
  | AuthKeyFileMissing
  | StateDirMissing
  | ExitLANNeedsExit
  | ExitNodeInvalid
  | AllowedWithAllowAll
  | SuffixInvalid string
  | LANPrefixInvalid
  | CIDRNotCanonical string string
  | CIDRNotUnicast string string
  | PeerNotExact string
  | CIDRNotPrivate string string
  | CIDROverlapsLAN string string
  | CIDRDuplicate string string
  | RoutesNeedAccept
  | AccessNeedsPolicy
  | AllowedDeviceInvalid string
  | AllowedDeviceUnknown string

datatype upstream_error =
    ProxyNameMissing
  | ProxyNameReserved
  | ProxyNameInvalid
  | ProxyTypeUnknown
  | ProxyServerMissing
  | ProxyServerControl
  | ProxyPortRange
  | MatchDomainInvalid
  | CredentialsControl

subsection \<open>Texts and ports\<close>

definition blank :: "string \<Rightarrow> bool" where
  "blank s \<longleftrightarrow> trim_space s = []"

definition not_ipv4 :: "string \<Rightarrow> bool" where
  "not_ipv4 s \<longleftrightarrow> to4 (parse_ip s) = []"

definition has_control_char :: "string \<Rightarrow> bool" where
  "has_control_char s \<longleftrightarrow> list_ex (\<lambda>r. r < 0x20 \<or> r = 0x7F) (runes s)"

definition valid_rule_token :: "string \<Rightarrow> bool" where
  "valid_rule_token s \<longleftrightarrow>
     \<not> (trim_space s \<noteq> s \<or> s = []) \<and> \<not> contains_any s [CHR '','', CHR 0x09, CHR 0x0A, CHR 0x0D, CHR '' '']
     \<and> \<not> has_control_char s"

definition valid_domain_rule :: "string \<Rightarrow> bool" where
  "valid_domain_rule s \<longleftrightarrow> valid_rule_token s \<and> \<not> contains_any s ''/:''"

definition valid_dns_label :: "string \<Rightarrow> bool" where
  "valid_dns_label s \<longleftrightarrow>
     \<not> (s = [] \<or> length s > 63 \<or> hd s = CHR ''-'' \<or> last s = CHR ''-'')
     \<and> list_all (\<lambda>c. is_lower_ascii c \<or> is_digit c \<or> c = CHR ''-'') s"

definition valid_sha256_digest :: "string \<Rightarrow> bool" where
  "valid_sha256_digest s \<longleftrightarrow>
     length s = 64 \<and> list_all (\<lambda>c. is_digit c \<or> (97 \<le> byte_of c \<and> byte_of c \<le> 102)) s"

definition valid_port :: "int \<Rightarrow> bool" where
  "valid_port p \<longleftrightarrow> 0 < p \<and> p \<le> 65535"

definition valid_optional_port :: "int \<Rightarrow> bool" where
  "valid_optional_port p \<longleftrightarrow> 0 \<le> p \<and> p \<le> 65535"

subsection \<open>DHCP\<close>

text \<open>\<open>bytesCompareIPv4\<close> on four bytes.\<close>

fun compare_ipv4 :: "ip \<Rightarrow> ip \<Rightarrow> int" where
  "compare_ipv4 (a # as) (b # bs) = (if a < b then -1 else if b < a then 1 else compare_ipv4 as bs)"
| "compare_ipv4 _ _ = 0"

definition validate_dhcp_range :: "dhcp_section \<Rightarrow> scope \<Rightarrow> dhcp_error option" where
  "validate_dhcp_range d s =
     (let start = to4 (parse_ip (dh_range_start d)); stop = to4 (parse_ip (dh_range_end d)) in
      vthen (fail_if (start = [] \<or> stop = []) RangeNotIPv4)
     (vthen (fail_if (\<not> scope_contains s start \<or> \<not> scope_contains s stop) RangeOutsideLAN)
     (vthen (fail_if (compare_ipv4 start stop > 0) RangeReversed)
     (vthen (fail_if (\<not> usable_host s start \<or> \<not> usable_host s stop) RangeNotUsable)
       (fail_if (compare_ipv4 (sc_gateway s) start \<ge> 0 \<and> compare_ipv4 (sc_gateway s) stop \<le> 0)
          RangeHasGateway)))))"

definition validate_dhcp :: "dhcp_section \<Rightarrow> scope \<Rightarrow> dhcp_error option" where
  "validate_dhcp d s =
     (if \<not> dh_enabled d then None
      else
        vthen (fail_if (blank (dh_binary d)) DHCPBinaryMissing)
       (vthen (fail_if (not_ipv4 (dh_range_start d)) RangeStartInvalid)
       (vthen (fail_if (not_ipv4 (dh_range_end d)) RangeEndInvalid)
       (vthen (fail_if (blank (dh_lease_time d)) LeaseTimeMissing)
         (validate_dhcp_range d s)))))"

definition validate_bypass_addresses :: "dhcp_section \<Rightarrow> dhcp_error option" where
  "validate_bypass_addresses d =
     (let value = trim_space (dh_bypass_gateway d) in
      vthen (fail_if (value \<noteq> [] \<and> not_ipv4 value) BypassGatewayInvalid)
        (first_error (\<lambda>v. fail_if (not_ipv4 (trim_space v)) (BypassDNSInvalid v)) (dh_bypass_dns d)))"

subsection \<open>DNS forwarding and the profile\<close>

definition validate_dns_upstream :: "string \<Rightarrow> forward_error option" where
  "validate_dns_upstream raw =
     (let value = trim_space raw in
      if value = [] then None
      else
        (case cut (CHR ''#'') value of
           None \<Rightarrow> fail_if (not_ipv4 value) ForwardAddressInvalid
         | Some (host, port_text) \<Rightarrow>
             vthen (fail_if (not_ipv4 host) ForwardAddressInvalid)
            (vthen (fail_if (CHR ''#'' \<in> set port_text) ForwardAddressInvalid)
              (fail_if (case atoi port_text of None \<Rightarrow> True | Some n \<Rightarrow> \<not> valid_port n) ForwardPortInvalid))))"

definition validate_mihomo_profile :: "mihomo_section \<Rightarrow> bool \<Rightarrow> mihomo_error option" where
  "validate_mihomo_profile m upstream_enabled =
     (if mi_profile_mode m = profile_managed then
        vthen (fail_if (\<not> blank (mi_profile m)) ProfileNeedsImported)
          (fail_if (mi_source_digest m \<noteq> [] \<or> mi_overlay_digest m \<noteq> []) DigestsNeedImported)
      else if mi_profile_mode m = profile_imported then
        vthen (fail_if (blank (mi_profile m)) ProfileMissing)
       (vthen (fail_if (mi_source_digest m \<noteq> [] \<and> \<not> valid_sha256_digest (mi_source_digest m)) SourceDigestInvalid)
       (vthen (fail_if (mi_overlay_digest m \<noteq> [] \<and> \<not> valid_sha256_digest (mi_overlay_digest m)) OverlayDigestInvalid)
         (fail_if upstream_enabled ImportedForbidsUpstreamProxy)))
      else Some ProfileModeUnknown)"

definition validate_mihomo :: "mihomo_section \<Rightarrow> bool \<Rightarrow> mihomo_error option" where
  "validate_mihomo m upstream_enabled =
     vthen (fail_if (blank (mi_binary m)) MihomoBinaryMissing)
    (vthen (fail_if (blank (mi_config m)) MihomoConfigMissing)
    (vthen (fail_if (\<not> valid_port (mi_mixed_port m)) MixedPortRange)
    (vthen (fail_if (\<not> valid_optional_port (mi_redir_port m)) RedirPortRange)
    (vthen (fail_if (mi_redir_port m \<noteq> 0) RedirPortUnsupported)
    (vthen (fail_if (blank (mi_api_addr m)) APIAddrMissing)
      (validate_mihomo_profile m upstream_enabled))))))"

subsection \<open>Transparent proxying\<close>

text \<open>The regular expression \<open>[A-Za-z0-9._@-]{1,15}\<close>, anchored at both ends.\<close>

definition valid_tun_name :: "string \<Rightarrow> bool" where
  "valid_tun_name s \<longleftrightarrow>
     1 \<le> length s \<and> length s \<le> 15
     \<and> list_all (\<lambda>c. is_letter_ascii c \<or> is_digit c \<or> c \<in> set ''._@-'') s"

definition validate_transparent :: "transparent_section \<Rightarrow> transparent_error option" where
  "validate_transparent t =
     vthen (fail_if (tr_tun_ipv6 t \<notin> {tun_ipv6_off, ''auto'', ''always''}) TUNIPv6Unknown)
    (vthen
       (if tr_tun_ipv6 t \<noteq> tun_ipv6_off then
          vthen (fail_if (tr_mode t \<noteq> transparent_tun) (TUNIPv6NeedsTUN (tr_tun_ipv6 t)))
         (vthen (fail_if (blank (tr_broker_binary t)) IPv6Unsupported)
           (fail_if (tr_packet_mtu t < 1280 \<or> tr_packet_mtu t > 9000) PacketMTURange))
        else None)
      (if tr_mode t = transparent_off then None
       else if tr_mode t = transparent_tun then
         vthen (fail_if (\<not> valid_tun_name (tr_tun_device t)) TUNDeviceInvalid)
           (fail_if (tr_tun_stack t \<notin> {''system'', ''gvisor'', ''mixed''}) TUNStackUnknown)
       else Some TransparentModeUnknown))"

subsection \<open>Upstream proxy\<close>

definition validate_upstream_proxy :: "upstream_section \<Rightarrow> upstream_error option" where
  "validate_upstream_proxy p =
     (let name = trim_space (px_name p) in
      if \<not> px_enabled p then None
      else
        vthen (fail_if (name = []) ProxyNameMissing)
       (vthen (fail_if (name = ''open-surge-egress'' \<or> has_prefix name ''open-surge/mac-'') ProxyNameReserved)
       (vthen (fail_if (\<not> valid_rule_token (px_name p)) ProxyNameInvalid)
       (vthen (fail_if (px_type p \<notin> {''http'', ''socks5''}) ProxyTypeUnknown)
       (vthen (fail_if (blank (px_server p)) ProxyServerMissing)
       (vthen (fail_if (has_control_char (px_server p)) ProxyServerControl)
       (vthen (fail_if (\<not> valid_port (px_port p)) ProxyPortRange)
       (vthen (fail_if (\<not> valid_domain_rule (px_match_domain p)) MatchDomainInvalid)
         (fail_if (has_control_char (px_username p) \<or> has_control_char (px_password p)) CredentialsControl)))))))))"

subsection \<open>Tailscale\<close>

definition validate_control_url :: "url_reader \<Rightarrow> string \<Rightarrow> tailscale_error option" where
  "validate_control_url url_parse value =
     (case url_parse (trim_space value) of
        None \<Rightarrow> Some ControlURLInvalid
      | Some u \<Rightarrow>
          vthen (fail_if (ul_host u = [] \<or> (ul_scheme u \<noteq> ''https'' \<and> ul_scheme u \<noteq> ''http'')) ControlURLInvalid)
            (fail_if (ul_has_user u \<or> ul_raw_query u \<noteq> [] \<or> ul_fragment u \<noteq> []) ControlURLExtras))"

definition needs_exact_host :: "prefix \<Rightarrow> bool" where
  "needs_exact_host p =
     (let (space, want) =
        (if is_addr4 (fst p) then ((Addr4 [100, 64, 0, 0], 10), 32)
         else ((Addr6 ([0xFD, 0x7A, 0x11, 0x5C, 0xA1, 0xE0] @ replicate 10 0), 48), 128))
      in prefix_overlaps p space \<and> snd p \<noteq> want)"

definition check_cidr :: "string \<Rightarrow> bool \<Rightarrow> prefix \<Rightarrow> string \<Rightarrow> tailscale_error option" where
  "check_cidr field private_only lan value =
     (case parse_prefix (trim_space value) of
        None \<Rightarrow> Some (CIDRNotCanonical field value)
      | Some p \<Rightarrow>
          vthen (fail_if (p \<noteq> prefix_masked p \<or> prefix_text p \<noteq> trim_space value) (CIDRNotCanonical field value))
         (vthen (fail_if (\<not> addr_global_unicast (fst p)) (CIDRNotUnicast field value))
         (vthen (fail_if (field = ''peer_cidrs'' \<and> needs_exact_host p) (PeerNotExact value))
         (vthen (fail_if (private_only \<and> \<not> addr_private (fst p)) (CIDRNotPrivate field value))
           (fail_if (is_addr4 (fst p) \<and> prefix_overlaps p lan) (CIDROverlapsLAN field value))))))"

definition validate_tailscale_cidrs :: "string \<Rightarrow> string list \<Rightarrow> bool \<Rightarrow> scope \<Rightarrow> tailscale_error option" where
  "validate_tailscale_cidrs field values private_only s =
     (case parse_prefix (scope_string s) of
        None \<Rightarrow> Some LANPrefixInvalid
      | Some lan \<Rightarrow>
          check_unique (\<lambda>v. parse_prefix (trim_space v)) (check_cidr field private_only lan)
            (CIDRDuplicate field) (\<lambda>_. None) [] values)"

definition check_suffix :: "string \<Rightarrow> tailscale_error option" where
  "check_suffix x =
     fail_if (\<not> valid_domain_rule x \<or> has_prefix x ''.'' \<or> CHR ''*'' \<in> set x) (SuffixInvalid x)"

definition check_allowed_devices :: "policy_bundle option \<Rightarrow> tailscale_section \<Rightarrow> tailscale_error option" where
  "check_allowed_devices bundle t =
     vthen (fail_if ((ts_allow_all t \<or> ts_allowed_devices t \<noteq> []) \<and> bundle = None) AccessNeedsPolicy)
       (case bundle of
          None \<Rightarrow> None
        | Some b \<Rightarrow>
            first_error (\<lambda>i.
              vthen (fail_if (\<not> valid_rule_token i) (AllowedDeviceInvalid i))
                (fail_if (i \<notin> cd_id ` set (cp_devices (pb_compiled b))) (AllowedDeviceUnknown i)))
              (ts_allowed_devices t))"

definition validate_tailscale ::
  "url_reader \<Rightarrow> tailscale_section \<Rightarrow> policy_bundle option \<Rightarrow> scope \<Rightarrow> bool \<Rightarrow> tailscale_error option" where
  "validate_tailscale url_parse t bundle s check_policy =
     (if \<not> ts_enabled t then None
      else
        vthen (fail_if (blank (ts_display_name t) \<or> has_control_char (ts_display_name t)) DisplayNameInvalid)
       (vthen (fail_if (rune_count (ts_display_name t) > 64) DisplayNameTooLong)
       (vthen (fail_if (\<not> valid_dns_label (ts_hostname t)) TSHostnameInvalid)
       (vthen (validate_control_url url_parse (ts_control_url t))
       (vthen (fail_if (blank (ts_auth_key_file t)) AuthKeyFileMissing)
       (vthen (fail_if (blank (ts_state_dir t)) StateDirMissing)
       (vthen (fail_if (ts_exit_node_lan t \<and> blank (ts_exit_node t)) ExitLANNeedsExit)
       (vthen (fail_if (ts_exit_node t \<noteq> [] \<and> \<not> valid_rule_token (ts_exit_node t)) ExitNodeInvalid)
       (vthen (fail_if (ts_allow_all t \<and> ts_allowed_devices t \<noteq> []) AllowedWithAllowAll)
       (vthen (first_error check_suffix (ts_suffixes t))
       (vthen (validate_tailscale_cidrs ''peer_cidrs'' (ts_peer_cidrs t) False s)
       (vthen (validate_tailscale_cidrs ''subnet_routes'' (ts_subnet_routes t) True s)
       (vthen (fail_if (ts_subnet_routes t \<noteq> [] \<and> \<not> ts_accept_routes t) RoutesNeedAccept)
         (if \<not> check_policy then None else check_allowed_devices bundle t))))))))))))))"

end
