(* ===== verification/ConfigValidate.thy ===== *)
theory ConfigValidate
  imports ConfigChecks
begin

text \<open>
  \<open>internal/config/validator.go\<close>: the device policy a configuration refers to, and \<open>validate\<close> with its
  checks in the code's order. What the code reads outside the configuration is a record of parameters:
  \<open>url.Parse\<close>, the bundle's JSON and digest functions, and what a path holds.
\<close>

datatype policy_source =
    PolicyMissing
  | PolicyDirectory
  | PolicyUndecodable
  | PolicyDocument policy_set

record config_env =
  ce_url :: url_reader
  ce_lib :: bundle_lib
  ce_policy_at :: "string \<Rightarrow> policy_source"
  ce_text_at :: "string \<Rightarrow> string option"

datatype bypass_error =
    BypassModeUnsupported
  | BypassGatewayMissing
  | BypassDNSMissing
  | BypassGatewayOutsideLAN
  | BypassGatewayNotUsable
  | BypassGatewayInRange

datatype device_policy_error =
    PolicyFileMissing
  | PolicyFileDirectory
  | PolicyFileUndecodable
  | PolicyFileInvalid policy_error
  | PolicyBundleFails bundle_error
  | RouterBypass bypass_error
  | PolicyLANInvalid policy_error
  | ProtectedNeedsFile

datatype gateway_error =
    ModeUnknown
  | InterfaceMissing
  | UpstreamInterfaceMissing
  | LANIPInvalid
  | PrefixLenRange
  | LANIPNotUsable
  | LANCIDRMissing
  | LANCIDRInvalid
  | NeedsTUN
  | SameLANForbidsDHCP
  | SameWifiNeedsDHCP

datatype config_error =
    GatewayInvalid gateway_error
  | LANInvalid lan_error
  | DHCPInvalid dhcp_error
  | DevicePolicyInvalid device_policy_error
  | ListenInvalid
  | DNSPortRange
  | DNSInvalid dns_error
  | ForwardInvalid forward_error
  | MihomoInvalid mihomo_error
  | TailscaleInvalid tailscale_error
  | TransparentInvalid transparent_error
  | SystemProxyNeedsTUN
  | SOCKSPortRange
  | SOCKSPortTaken
  | UpstreamProxyInvalid upstream_error
  | RuntimeDirMissing

subsection \<open>The device policy\<close>

definition load_policy_set :: "config_env \<Rightarrow> string \<Rightarrow> device_policy_error + policy_set" where
  "load_policy_set env path =
     (if blank path then Inr \<lparr>ps_devices = [], ps_profiles = [], ps_rule_sets = [], ps_templates = []\<rparr>
      else
        (case ce_policy_at env path of
           PolicyMissing \<Rightarrow> Inl PolicyFileMissing
         | PolicyDirectory \<Rightarrow> Inl PolicyFileUndecodable
         | PolicyUndecodable \<Rightarrow> Inl PolicyFileUndecodable
         | PolicyDocument ps \<Rightarrow>
             (case validate_policy_set (bl_url_parse (ce_lib env)) ps of
                Some e \<Rightarrow> Inl (PolicyFileInvalid e)
              | None \<Rightarrow> Inr ps)))"

definition compiled_bundle ::
  "config_env \<Rightarrow> policy_set \<Rightarrow> scope \<Rightarrow> bool \<Rightarrow> device_policy_error + policy_bundle" where
  "compiled_bundle env ps s ip_only =
     (case compile_policy_bundle_for_lan (ce_lib env) ps s ip_only of
        Inl e \<Rightarrow> Inl (PolicyBundleFails e)
      | Inr b \<Rightarrow> Inr b)"

text \<open>\<open>loadDevicePolicyBundle\<close>: \<open>os.Stat\<close> first, then \<open>LoadPolicyBundleForLAN\<close>.\<close>

definition load_device_policy_bundle ::
  "config_env \<Rightarrow> string \<Rightarrow> scope \<Rightarrow> bool \<Rightarrow> device_policy_error + policy_bundle" where
  "load_device_policy_bundle env path s ip_only =
     (case ce_policy_at env path of
        PolicyMissing \<Rightarrow> Inl PolicyFileMissing
      | PolicyDirectory \<Rightarrow> Inl PolicyFileDirectory
      | _ \<Rightarrow> rbind (load_policy_set env path) (\<lambda>ps. compiled_bundle env ps s ip_only))"

definition selection_cache_path :: "mihomo_section \<Rightarrow> string" where
  "selection_cache_path m =
     path_join
       (if mi_profile_mode m = profile_imported \<and> mi_profile m \<noteq> [] then path_dir (mi_profile m)
        else path_dir (mi_config m)) ''cache.db''"

definition with_policy :: "(policy_section \<Rightarrow> policy_section) \<Rightarrow> config \<Rightarrow> config" where
  "with_policy f cfg = cfg\<lparr>cf_policy := f (cf_policy cfg)\<rparr>"

definition set_selection_cache :: "config \<Rightarrow> config" where
  "set_selection_cache cfg =
     (if dp_selection_cache (cf_policy cfg) = []
      then with_policy (\<lambda>p. p\<lparr>dp_selection_cache := selection_cache_path (cf_mihomo cfg)\<rparr>) cfg else cfg)"

definition ip_only_devices_active :: "config \<Rightarrow> bool" where
  "ip_only_devices_active cfg \<longleftrightarrow> ga_mode (cf_gateway cfg) = same_lan_mode"

definition prepare_device_policy :: "config_env \<Rightarrow> config \<Rightarrow> config_error + config" where
  "prepare_device_policy env cfg0 =
     (if blank (dp_path (cf_policy cfg0)) then Inr cfg0
      else
        let cfg = set_selection_cache cfg0 in
        case lan_scope cfg of
          Inl e \<Rightarrow> Inl (LANInvalid e)
        | Inr s \<Rightarrow>
            let ip_only = ip_only_devices_active cfg;
                store = (\<lambda>r. case r of
                    Inl e \<Rightarrow> Inl (DevicePolicyInvalid e)
                  | Inr b \<Rightarrow> Inr (with_policy (\<lambda>p. p\<lparr>dp_bundle := Some b\<rparr>) cfg)) in
            case dp_bundle (cf_policy cfg) of
              None \<Rightarrow> store (load_device_policy_bundle env (dp_path (cf_policy cfg)) s ip_only)
            | Some b \<Rightarrow>
                if pb_ip_only_active b = ip_only \<and> pb_active_lan b = scope_string s then Inr cfg
                else store (compiled_bundle env (pb_policy b) s ip_only))"

definition validate_router_bypass :: "config \<Rightarrow> scope \<Rightarrow> policy_set \<Rightarrow> bypass_error option" where
  "validate_router_bypass cfg s ps =
     (let d = cf_dhcp cfg; gateway = to4 (parse_ip (trim_space (dh_bypass_gateway d)));
          start = to4 (parse_ip (dh_range_start d)); stop = to4 (parse_ip (dh_range_end d)) in
      if \<not> uses_upstream_router ps then None
      else
        vthen (fail_if (ga_mode (cf_gateway cfg) \<noteq> same_wifi_mode) BypassModeUnsupported)
       (vthen (fail_if (gateway = []) BypassGatewayMissing)
       (vthen (fail_if (dh_bypass_dns d = []) BypassDNSMissing)
       (vthen (fail_if (\<not> scope_contains s gateway) BypassGatewayOutsideLAN)
       (vthen (fail_if (\<not> usable_host s gateway \<or> ip_equal gateway (sc_gateway s)) BypassGatewayNotUsable)
         (fail_if (start \<noteq> [] \<and> stop \<noteq> [] \<and> compare_ipv4 gateway start \<ge> 0 \<and> compare_ipv4 gateway stop \<le> 0)
            BypassGatewayInRange))))))"

definition check_device_policy :: "config_env \<Rightarrow> config \<Rightarrow> scope \<Rightarrow> policy_bundle \<Rightarrow> device_policy_error option" where
  "check_device_policy env cfg s b =
     (let active = active_policy_set_for_lan (pb_policy b) s;
          protected = dp_protected (cf_policy cfg)
            @ (if uses_upstream_router active then [dh_bypass_gateway (cf_dhcp cfg)] else []) in
      vthen (map_option RouterBypass (validate_router_bypass cfg s active))
        (map_option PolicyLANInvalid
          (validate_policy_set_for_lan (bl_url_parse (ce_lib env)) (pb_policy b) s protected
             (ip_only_devices_active cfg))))"

definition validate_device_policy :: "config_env \<Rightarrow> config \<Rightarrow> scope \<Rightarrow> device_policy_error option" where
  "validate_device_policy env cfg s =
     (if blank (dp_path (cf_policy cfg)) then fail_if (dp_protected (cf_policy cfg) \<noteq> []) ProtectedNeedsFile
      else
        (case dp_bundle (cf_policy cfg) of
           Some b \<Rightarrow> check_device_policy env cfg s b
         | None \<Rightarrow>
             (case load_device_policy_bundle env (dp_path (cf_policy cfg)) s (ip_only_devices_active cfg) of
                Inl e \<Rightarrow> Some e
              | Inr b \<Rightarrow> check_device_policy env cfg s b)))"

subsection \<open>The whole configuration\<close>

text \<open>The stages of \<open>validate\<close>, in its order.\<close>

definition validate_gateway :: "gateway_section \<Rightarrow> gateway_error option" where
  "validate_gateway g =
     vthen (fail_if (ga_mode g \<notin> {isolated_mode, same_lan_mode, same_wifi_mode}) ModeUnknown)
    (vthen (fail_if (blank (ga_interface g)) InterfaceMissing)
    (vthen (fail_if (blank (ga_upstream_interface g)) UpstreamInterfaceMissing)
    (vthen (fail_if (not_ipv4 (ga_lan_ip g)) LANIPInvalid)
      (fail_if (ga_prefix_len g \<noteq> 0 \<and> \<not> valid_prefix_len (ga_prefix_len g)) PrefixLenRange))))"

definition validate_dns :: "config_env \<Rightarrow> config \<Rightarrow> config_error option" where
  "validate_dns env cfg =
     vthen (fail_if (not_ipv4 (dn_listen (cf_dns cfg))) ListenInvalid)
    (vthen (fail_if (\<not> valid_port (dn_port (cf_dns cfg))) DNSPortRange)
    (vthen (map_option DNSInvalid (validate_resolver_config (ce_url env) cfg))
      (map_option ForwardInvalid (validate_dns_upstream (dn_upstream (cf_dns cfg))))))"

definition validate_data_plane :: "transparent_section \<Rightarrow> transparent_error option" where
  "validate_data_plane t =
     vthen (fail_if (blank (tr_nft_table t)) NFTTableMissing)
    (vthen (fail_if (tr_fw_mark t = 0) FwMarkZero)
      (fail_if (tr_route_table t = 0) RouteTableZero))"

text \<open>The code derives a missing CIDR (and a zero rule priority) on its own copy before these checks.\<close>

definition validate_lan_cidr :: "gateway_section \<Rightarrow> scope \<Rightarrow> gateway_error option" where
  "validate_lan_cidr g s =
     (let cidr = (if blank (ga_lan_cidr g) then network_text (sc_network s) else ga_lan_cidr g) in
      vthen (fail_if (blank cidr) LANCIDRMissing)
        (fail_if (parse_cidr (trim_space cidr) = None) LANCIDRInvalid))"

definition validate_ipv6_topology :: "config \<Rightarrow> transparent_error option" where
  "validate_ipv6_topology cfg =
     fail_if (ipv6_requested (cf_transparent cfg) \<and> shares_lan (cf_gateway cfg) \<and> \<not> tr_l2_ready (cf_transparent cfg))
       (if ga_mode (cf_gateway cfg) = same_lan_mode then L2ReadySameLAN else L2ReadySameWifi)"

definition validate_lan_proxy :: "config \<Rightarrow> config_error option" where
  "validate_lan_proxy cfg =
     (let p = cf_lan_proxy cfg; m = cf_mihomo cfg in
      vthen (fail_if (cf_local_proxy cfg \<and> \<not> tun_enabled (cf_transparent cfg)) SystemProxyNeedsTUN)
     (vthen (fail_if (\<not> valid_port (lp_socks_port p)) SOCKSPortRange)
     (vthen (fail_if (lp_enabled p \<and> lp_socks_port p = mi_mixed_port m) SOCKSPortTaken)
       (fail_if (lp_enabled p \<and> mi_redir_port m \<noteq> 0 \<and> lp_socks_port p = mi_redir_port m) SOCKSPortTaken))))"

definition validate_topology_mode :: "config \<Rightarrow> gateway_error option" where
  "validate_topology_mode cfg =
     (let g = cf_gateway cfg in
      vthen (fail_if (shares_lan g \<and> tr_mode (cf_transparent cfg) \<noteq> transparent_tun) NeedsTUN)
        (if ga_mode g = same_lan_mode then fail_if (dh_enabled (cf_dhcp cfg)) SameLANForbidsDHCP
         else if ga_mode g = same_wifi_mode then fail_if (\<not> dh_enabled (cf_dhcp cfg)) SameWifiNeedsDHCP
         else None))"

definition validate_services :: "config_env \<Rightarrow> bool \<Rightarrow> scope \<Rightarrow> config \<Rightarrow> config_error option" where
  "validate_services env check_policy s cfg =
     vthen (validate_dns env cfg)
    (vthen (map_option MihomoInvalid (validate_mihomo (cf_mihomo cfg) (px_enabled (cf_upstream cfg))))
    (vthen (map_option TailscaleInvalid
              (validate_tailscale (ce_url env) (cf_tailscale cfg) (dp_bundle (cf_policy cfg)) s check_policy))
    (vthen (map_option TransparentInvalid (validate_data_plane (cf_transparent cfg)))
    (vthen (map_option GatewayInvalid (validate_lan_cidr (cf_gateway cfg) s))
    (vthen (map_option TransparentInvalid (validate_transparent (cf_transparent cfg)))
    (vthen (map_option TransparentInvalid (validate_ipv6_topology cfg))
    (vthen (validate_lan_proxy cfg)
    (vthen (map_option GatewayInvalid (validate_topology_mode cfg))
    (vthen (map_option UpstreamProxyInvalid (validate_upstream_proxy (cf_upstream cfg)))
      (fail_if (blank (cf_runtime_dir cfg)) RuntimeDirMissing))))))))))"

definition validate_policy_stage :: "config_env \<Rightarrow> bool \<Rightarrow> scope \<Rightarrow> config \<Rightarrow> config_error + config" where
  "validate_policy_stage env check_policy s cfg =
     (if \<not> check_policy then Inr cfg
      else rbind (prepare_device_policy env cfg) (\<lambda>cfg1.
        case validate_device_policy env cfg1 s of
          Some e \<Rightarrow> Inl (DevicePolicyInvalid e)
        | None \<Rightarrow> Inr cfg1))"

definition validate_config :: "config_env \<Rightarrow> bool \<Rightarrow> config \<Rightarrow> config_error option" where
  "validate_config env check_policy cfg =
     vthen (map_option GatewayInvalid (validate_gateway (cf_gateway cfg)))
       (case lan_scope cfg of
          Inl e \<Rightarrow> Some (LANInvalid e)
        | Inr s \<Rightarrow>
            vthen (fail_if (\<not> usable_host s (sc_gateway s)) (GatewayInvalid LANIPNotUsable))
           (vthen (map_option DHCPInvalid (validate_dhcp (cf_dhcp cfg) s))
           (vthen (map_option DHCPInvalid (validate_bypass_addresses (cf_dhcp cfg)))
             (case validate_policy_stage env check_policy s cfg of
                Inl e \<Rightarrow> Some e
              | Inr cfg1 \<Rightarrow> validate_services env check_policy s cfg1))))"

definition validate_full :: "config_env \<Rightarrow> config \<Rightarrow> config_error option" where
  "validate_full env cfg = validate_config env True cfg"

definition validate_runtime :: "config_env \<Rightarrow> config \<Rightarrow> config_error option" where
  "validate_runtime env cfg = validate_config env False cfg"

text \<open>\<open>ValidateDevicePolicyCandidate\<close>: a candidate policy under the complete contract.\<close>

definition validate_policy_candidate :: "config_env \<Rightarrow> config \<Rightarrow> policy_set \<Rightarrow> config_error option" where
  "validate_policy_candidate env cfg ps =
     (case lan_scope cfg of
        Inl e \<Rightarrow> Some (LANInvalid e)
      | Inr s \<Rightarrow>
          (case compile_policy_bundle_for_lan (ce_lib env) ps s (ip_only_devices_active cfg) of
             Inl e \<Rightarrow> Some (DevicePolicyInvalid (PolicyBundleFails e))
           | Inr b \<Rightarrow>
               validate_config env True
                 (with_policy (\<lambda>p. p\<lparr>dp_path := (if blank (dp_path p) then ''<candidate>'' else dp_path p),
                                      dp_bundle := Some b\<rparr>) cfg)))"

end
