(* ===== verification/ConfigLoad.thy ===== *)
theory ConfigLoad
  imports ConfigValidate
begin

text \<open>
  \<open>internal/config/loader.go\<close> and \<open>render.go\<close>: the line format of the configuration file, the table of
  keys, and the text the control plane writes. \<open>Load\<close> is the composition with path resolution,
  normalisation, the device policy and validation.
\<close>

subsection \<open>Reading a line\<close>

text \<open>\<open>stripComment\<close>: a hash outside quotes ends the line.\<close>

primrec strip_from :: "bool \<Rightarrow> bool \<Rightarrow> string \<Rightarrow> string" where
  "strip_from single double [] = []"
| "strip_from single double (c # cs) =
     (if c = CHR 0x27 then c # strip_from (if double then single else \<not> single) double cs
      else if c = CHR 0x22 then c # strip_from single (if single then double else \<not> double) cs
      else if c = CHR ''#'' \<and> \<not> single \<and> \<not> double then []
      else c # strip_from single double cs)"

definition strip_comment :: "string \<Rightarrow> string" where
  "strip_comment line = strip_from False False line"

definition unquote :: "string \<Rightarrow> string" where
  "unquote v =
     (if length v < 2 then v
      else if (hd v = CHR 0x22 \<and> last v = CHR 0x22) \<or> (hd v = CHR 0x27 \<and> last v = CHR 0x27)
      then butlast (tl v) else v)"

definition split_comma :: "string \<Rightarrow> string list" where
  "split_comma v =
     (if trim_space v = [] then []
      else filter (\<lambda>p. p \<noteq> []) (map trim_space (split_on (CHR '','') v)))"

text \<open>\<open>strconv.ParseBool\<close>\<close>

definition parse_bool :: "string \<Rightarrow> bool option" where
  "parse_bool s =
     (if s \<in> set [''1'', ''t'', ''T'', ''TRUE'', ''true'', ''True''] then Some True
      else if s \<in> set [''0'', ''f'', ''F'', ''FALSE'', ''false'', ''False''] then Some False
      else None)"

subsection \<open>Keys\<close>

datatype line_error =
    ExpectedKeyValue
  | NotBoolean string
  | NotNumber string
  | UnknownKey string string

type_synonym setter = "string \<Rightarrow> config \<Rightarrow> line_error + config"

definition text_key :: "((string \<Rightarrow> string) \<Rightarrow> config \<Rightarrow> config) \<Rightarrow> setter" where
  "text_key upd = (\<lambda>v c. Inr (upd (\<lambda>_. v) c))"

definition lower_key :: "((string \<Rightarrow> string) \<Rightarrow> config \<Rightarrow> config) \<Rightarrow> setter" where
  "lower_key upd = (\<lambda>v c. Inr (upd (\<lambda>_. to_lower v) c))"

definition list_key :: "((string list \<Rightarrow> string list) \<Rightarrow> config \<Rightarrow> config) \<Rightarrow> setter" where
  "list_key upd = (\<lambda>v c. Inr (upd (\<lambda>_. split_comma v) c))"

definition bool_key :: "string \<Rightarrow> ((bool \<Rightarrow> bool) \<Rightarrow> config \<Rightarrow> config) \<Rightarrow> setter" where
  "bool_key name upd =
     (\<lambda>v c. case parse_bool v of None \<Rightarrow> Inl (NotBoolean name) | Some b \<Rightarrow> Inr (upd (\<lambda>_. b) c))"

definition int_key :: "string \<Rightarrow> ((int \<Rightarrow> int) \<Rightarrow> config \<Rightarrow> config) \<Rightarrow> setter" where
  "int_key name upd =
     (\<lambda>v c. case atoi v of None \<Rightarrow> Inl (NotNumber name) | Some n \<Rightarrow> Inr (upd (\<lambda>_. n) c))"

definition uint_key :: "string \<Rightarrow> ((32 word \<Rightarrow> 32 word) \<Rightarrow> config \<Rightarrow> config) \<Rightarrow> setter" where
  "uint_key name upd =
     (\<lambda>v c. case parse_uint0 v of None \<Rightarrow> Inl (NotNumber name) | Some n \<Rightarrow> Inr (upd (\<lambda>_. n) c))"

definition read_upstream :: "string \<Rightarrow> resolver_upstream" where
  "read_upstream entry =
     (case cut (CHR ''|'') entry of
        None \<Rightarrow> \<lparr>up_address = entry, up_bootstrap = []\<rparr>
      | Some (a, b) \<Rightarrow> \<lparr>up_address = a, up_bootstrap = b\<rparr>)"

definition upstreams_key ::
  "((resolver_upstream list \<Rightarrow> resolver_upstream list) \<Rightarrow> config \<Rightarrow> config) \<Rightarrow> setter" where
  "upstreams_key upd = (\<lambda>v c. Inr (upd (\<lambda>_. map read_upstream (split_comma v)) c))"

text \<open>The cases of \<open>applyValue\<close>, one table per section.\<close>

definition gateway_keys :: "(string \<times> setter) list" where
  "gateway_keys =
     [(''gateway.mode'', lower_key (cf_gateway_update \<circ> ga_mode_update)),
      (''gateway.interface'', text_key (cf_gateway_update \<circ> ga_interface_update)),
      (''gateway.lan_ip'', text_key (cf_gateway_update \<circ> ga_lan_ip_update)),
      (''gateway.lan_prefix_len'', int_key ''gateway.lan_prefix_len'' (cf_gateway_update \<circ> ga_prefix_len_update)),
      (''gateway.upstream_interface'', text_key (cf_gateway_update \<circ> ga_upstream_interface_update)),
      (''gateway.lan_cidr'', text_key (cf_gateway_update \<circ> ga_lan_cidr_update)),
      (''gateway.upstream_gateway'', text_key (cf_gateway_update \<circ> ga_upstream_gateway_update))]"

definition dhcp_keys :: "(string \<times> setter) list" where
  "dhcp_keys =
     [(''dhcp.binary'', text_key (cf_dhcp_update \<circ> dh_binary_update)),
      (''dhcp.enabled'', bool_key ''dhcp.enabled'' (cf_dhcp_update \<circ> dh_enabled_update)),
      (''dhcp.range_start'', text_key (cf_dhcp_update \<circ> dh_range_start_update)),
      (''dhcp.range_end'', text_key (cf_dhcp_update \<circ> dh_range_end_update)),
      (''dhcp.lease_time'', text_key (cf_dhcp_update \<circ> dh_lease_time_update)),
      (''dhcp.domain'', text_key (cf_dhcp_update \<circ> dh_domain_update)),
      (''dhcp.bypass_gateway'', text_key (cf_dhcp_update \<circ> dh_bypass_gateway_update)),
      (''dhcp.bypass_dns'', list_key (cf_dhcp_update \<circ> dh_bypass_dns_update))]"

definition policy_keys :: "(string \<times> setter) list" where
  "policy_keys =
     [(''device_policy.file'', text_key (cf_policy_update \<circ> dp_path_update)),
      (''device_policy.protected_ipv4'', list_key (cf_policy_update \<circ> dp_protected_update))]"

definition dns_keys :: "(string \<times> setter) list" where
  "dns_keys =
     [(''dns.listen'', text_key (cf_dns_update \<circ> dn_listen_update)),
      (''dns.port'', int_key ''dns.port'' (cf_dns_update \<circ> dn_port_update)),
      (''dns.resolver_mode'', text_key (cf_dns_update \<circ> dn_mode_update)),
      (''dns.resolver_proxy_enabled'', bool_key ''dns.resolver_proxy_enabled'' (cf_dns_update \<circ> dn_proxy_enabled_update)),
      (''dns.mihomo_use_smartdns'', bool_key ''dns.mihomo_use_smartdns'' (cf_dns_update \<circ> dn_use_smartdns_update)),
      (''dns.resolver_proxy_target'', text_key (cf_dns_update \<circ> dn_proxy_target_update)),
      (''dns.resolver_allow_plaintext'', bool_key ''dns.resolver_allow_plaintext'' (cf_dns_update \<circ> dn_allow_plaintext_update)),
      (''dns.resolver_upstreams'', upstreams_key (cf_dns_update \<circ> dn_upstreams_update)),
      (''dns.proxy_node_upstreams'', upstreams_key (cf_dns_update \<circ> dn_node_upstreams_update)),
      (''dns.upstream'', text_key (cf_dns_update \<circ> dn_upstream_update)),
      (''dns.ipv6'', bool_key ''dns.ipv6'' (cf_dns_update \<circ> dn_ipv6_update))]"

definition mihomo_keys :: "(string \<times> setter) list" where
  "mihomo_keys =
     [(''mihomo.binary'', text_key (cf_mihomo_update \<circ> mi_binary_update)),
      (''mihomo.config'', text_key (cf_mihomo_update \<circ> mi_config_update)),
      (''mihomo.profile_mode'', lower_key (cf_mihomo_update \<circ> mi_profile_mode_update)),
      (''mihomo.profile'', text_key (cf_mihomo_update \<circ> mi_profile_update)),
      (''mihomo.profile_source_digest'', text_key (cf_mihomo_update \<circ> mi_source_digest_update)),
      (''mihomo.profile_overlay_digest'', text_key (cf_mihomo_update \<circ> mi_overlay_digest_update)),
      (''mihomo.store_fake_ip'', bool_key ''mihomo.store_fake_ip'' (cf_mihomo_update \<circ> mi_store_fake_ip_update)),
      (''mihomo.mixed_port'', int_key ''mihomo.mixed_port'' (cf_mihomo_update \<circ> mi_mixed_port_update)),
      (''mihomo.redir_port'', int_key ''mihomo.redir_port'' (cf_mihomo_update \<circ> mi_redir_port_update)),
      (''mihomo.api_addr'', text_key (cf_mihomo_update \<circ> mi_api_addr_update)),
      (''mihomo.secret'', text_key (cf_mihomo_update \<circ> mi_secret_update))]"

definition tailscale_keys :: "(string \<times> setter) list" where
  "tailscale_keys =
     [(''tailscale.enabled'', bool_key ''tailscale.enabled'' (cf_tailscale_update \<circ> ts_enabled_update)),
      (''tailscale.display_name'', text_key (cf_tailscale_update \<circ> ts_display_name_update)),
      (''tailscale.hostname'', lower_key (cf_tailscale_update \<circ> ts_hostname_update)),
      (''tailscale.control_url'', text_key (cf_tailscale_update \<circ> ts_control_url_update)),
      (''tailscale.auth_key_file'', text_key (cf_tailscale_update \<circ> ts_auth_key_file_update)),
      (''tailscale.state_dir'', text_key (cf_tailscale_update \<circ> ts_state_dir_update)),
      (''tailscale.accept_routes'', bool_key ''tailscale.accept_routes'' (cf_tailscale_update \<circ> ts_accept_routes_update)),
      (''tailscale.magic_dns_suffixes'', (\<lambda>v. list_key (cf_tailscale_update \<circ> ts_suffixes_update) (to_lower v))),
      (''tailscale.peer_cidrs'', list_key (cf_tailscale_update \<circ> ts_peer_cidrs_update)),
      (''tailscale.subnet_routes'', list_key (cf_tailscale_update \<circ> ts_subnet_routes_update)),
      (''tailscale.allow_mac'', bool_key ''tailscale.allow_mac'' (cf_tailscale_update \<circ> ts_allow_mac_update)),
      (''tailscale.allow_all_devices'', bool_key ''tailscale.allow_all_devices'' (cf_tailscale_update \<circ> ts_allow_all_update)),
      (''tailscale.allowed_devices'', list_key (cf_tailscale_update \<circ> ts_allowed_devices_update)),
      (''tailscale.exit_node'', text_key (cf_tailscale_update \<circ> ts_exit_node_update)),
      (''tailscale.exit_node_allow_lan_access'', bool_key ''tailscale.exit_node_allow_lan_access'' (cf_tailscale_update \<circ> ts_exit_node_lan_update))]"

definition nftables_keys :: "(string \<times> setter) list" where
  "nftables_keys =
     [(''nftables.table_name'', text_key (cf_transparent_update \<circ> tr_nft_table_update)),
      (''nftables.fw_mark'', uint_key ''nftables.fw_mark'' (cf_transparent_update \<circ> tr_fw_mark_update)),
      (''nftables.route_table_id'', uint_key ''nftables.route_table_id'' (cf_transparent_update \<circ> tr_route_table_update)),
      (''nftables.route_rule_priority'', uint_key ''nftables.route_rule_priority'' (cf_transparent_update \<circ> tr_rule_priority_update))]"

definition transparent_keys :: "(string \<times> setter) list" where
  "transparent_keys =
     [(''transparent.mode'', lower_key (cf_transparent_update \<circ> tr_mode_update)),
      (''transparent.tun_device'', text_key (cf_transparent_update \<circ> tr_tun_device_update)),
      (''transparent.tun_stack'', lower_key (cf_transparent_update \<circ> tr_tun_stack_update)),
      (''transparent.tun_auto_route'', bool_key ''transparent.tun_auto_route'' (cf_transparent_update \<circ> tr_auto_route_update)),
      (''transparent.tun_auto_detect_interface'', bool_key ''transparent.tun_auto_detect_interface'' (cf_transparent_update \<circ> tr_auto_detect_update)),
      (''transparent.tun_strict_route'', bool_key ''transparent.tun_strict_route'' (cf_transparent_update \<circ> tr_strict_route_update)),
      (''transparent.tun_ipv6'', lower_key (cf_transparent_update \<circ> tr_tun_ipv6_update)),
      (''transparent.ipv6_shared_l2_ready'', bool_key ''transparent.ipv6_shared_l2_ready'' (cf_transparent_update \<circ> tr_l2_ready_update)),
      (''transparent.ipv6_packet_broker_binary'', text_key (cf_transparent_update \<circ> tr_broker_binary_update)),
      (''transparent.ipv6_packet_mtu'', int_key ''transparent.ipv6_packet_mtu'' (cf_transparent_update \<circ> tr_packet_mtu_update))]"

definition proxy_keys :: "(string \<times> setter) list" where
  "proxy_keys =
     [(''local_system_proxy.enabled'', bool_key ''local_system_proxy.enabled'' cf_local_proxy_update),
      (''lan_proxy.enabled'', bool_key ''lan_proxy.enabled'' (cf_lan_proxy_update \<circ> lp_enabled_update)),
      (''lan_proxy.socks_port'', int_key ''lan_proxy.socks_port'' (cf_lan_proxy_update \<circ> lp_socks_port_update)),
      (''upstream_proxy.enabled'', bool_key ''upstream_proxy.enabled'' (cf_upstream_update \<circ> px_enabled_update)),
      (''upstream_proxy.name'', text_key (cf_upstream_update \<circ> px_name_update)),
      (''upstream_proxy.type'', lower_key (cf_upstream_update \<circ> px_type_update)),
      (''upstream_proxy.server'', text_key (cf_upstream_update \<circ> px_server_update)),
      (''upstream_proxy.port'', int_key ''upstream_proxy.port'' (cf_upstream_update \<circ> px_port_update)),
      (''upstream_proxy.username'', text_key (cf_upstream_update \<circ> px_username_update)),
      (''upstream_proxy.password'', text_key (cf_upstream_update \<circ> px_password_update)),
      (''upstream_proxy.match_domain'', lower_key (cf_upstream_update \<circ> px_match_domain_update)),
      (''runtime.dir'', text_key cf_runtime_dir_update)]"

definition config_keys :: "(string \<times> setter) list" where
  "config_keys = gateway_keys @ dhcp_keys @ policy_keys @ dns_keys @ mihomo_keys @ tailscale_keys
     @ nftables_keys @ transparent_keys @ proxy_keys"

definition apply_value :: "config \<Rightarrow> string \<Rightarrow> string \<Rightarrow> string \<Rightarrow> line_error + config" where
  "apply_value cfg section key value =
     (case map_of config_keys (section @ ''.'' @ key) of
        None \<Rightarrow> Inl (UnknownKey section key)
      | Some set_value \<Rightarrow> set_value value cfg)"

subsection \<open>Loading\<close>

datatype load_error =
    ConfigUnreadable
  | LineInvalid nat line_error
  | LineTooLong
  | NormalizeFails normalize_error
  | ValidateFails config_error

definition config_line :: "string \<Rightarrow> string \<times> config \<Rightarrow> line_error + string \<times> config" where
  "config_line line st =
     (let raw = trim_space (strip_comment line) in
      case st of
        (section, cfg) \<Rightarrow>
          if raw = [] then Inr st
          else if has_suffix raw '':'' then Inr (trim_suffix raw '':'', cfg)
          else (case cut (CHR '':'') raw of
                  None \<Rightarrow> Inl ExpectedKeyValue
                | Some (key, value) \<Rightarrow>
                    rbind (apply_value cfg section (trim_space key) (unquote (trim_space value)))
                      (\<lambda>cfg'. Inr (section, cfg'))))"

text \<open>The scanner's buffer of 64 KiB has to hold a line and, unless the text ends, its newline.\<close>

fun config_lines :: "nat \<Rightarrow> string list \<Rightarrow> string \<times> config \<Rightarrow> load_error + string \<times> config" where
  "config_lines n [] st = Inr st"
| "config_lines n (l # ls) st =
     (if length l \<ge> 65536 then Inl LineTooLong
      else (case config_line (drop_cr l) st of
              Inl e \<Rightarrow> Inl (LineInvalid n e)
            | Inr st' \<Rightarrow> config_lines (n + 1) ls st'))"

definition raw_lines :: "string \<Rightarrow> string list" where
  "raw_lines text = (let ls = split_on newline text in if last ls = [] then butlast ls else ls)"

definition parse_config :: "string \<Rightarrow> load_error + config" where
  "parse_config text =
     rbind (config_lines 1 (raw_lines text) ([], default_config)) (\<lambda>st. Inr (snd st))"

definition absolute_from :: "string \<Rightarrow> string \<Rightarrow> string" where
  "absolute_from config_path p =
     (if p \<noteq> [] \<and> \<not> is_abs_path p then path_join (path_dir config_path) p else p)"

definition resolve_relative_paths :: "string \<Rightarrow> config \<Rightarrow> config" where
  "resolve_relative_paths config_path cfg =
     cfg\<lparr>cf_mihomo := (cf_mihomo cfg)\<lparr>mi_profile := absolute_from config_path (mi_profile (cf_mihomo cfg))\<rparr>,
         cf_policy := (cf_policy cfg)\<lparr>dp_path := absolute_from config_path (dp_path (cf_policy cfg))\<rparr>,
         cf_tailscale := (cf_tailscale cfg)\<lparr>
           ts_auth_key_file := absolute_from config_path (ts_auth_key_file (cf_tailscale cfg)),
           ts_state_dir := absolute_from config_path (ts_state_dir (cf_tailscale cfg))\<rparr>\<rparr>"

definition load_config :: "config_env \<Rightarrow> string \<Rightarrow> bool \<Rightarrow> load_error + config" where
  "load_config env path load_policy =
     (case ce_text_at env path of
        None \<Rightarrow> Inl ConfigUnreadable
      | Some text \<Rightarrow>
          rbind (parse_config text) (\<lambda>cfg0.
            case normalize (resolve_relative_paths path cfg0) of
              Inl e \<Rightarrow> Inl (NormalizeFails e)
            | Inr cfg1 \<Rightarrow>
                (case (if load_policy then prepare_device_policy env cfg1 else Inr cfg1) of
                   Inl e \<Rightarrow> Inl (ValidateFails e)
                 | Inr cfg2 \<Rightarrow>
                     (case validate_config env load_policy cfg2 of
                        Some e \<Rightarrow> Inl (ValidateFails e)
                      | None \<Rightarrow> Inr cfg2))))"

definition load_full :: "config_env \<Rightarrow> string \<Rightarrow> load_error + config" where
  "load_full env path = load_config env path True"

definition load_runtime :: "config_env \<Rightarrow> string \<Rightarrow> load_error + config" where
  "load_runtime env path = load_config env path False"

end
