(* ===== verification/ConfigRender.thy ===== *)
theory ConfigRender
  imports ConfigLoad
begin

text \<open>
  \<open>internal/config/render.go\<close>: the text the control plane writes for a configuration, with Go's \<open>%q\<close>.
  Which runes above Latin-1 print as themselves (\<open>strconv.IsPrint\<close>'s tables) is a parameter.
\<close>

subsection \<open>\<open>%q\<close>\<close>

definition is_print :: "(nat \<Rightarrow> bool) \<Rightarrow> nat \<Rightarrow> bool" where
  "is_print wide r =
     (if r \<le> 0xFF then (0x20 \<le> r \<and> r < 0x7F) \<or> (0xA1 \<le> r \<and> r \<noteq> 0xAD) else wide r)"

definition hex_padded :: "nat \<Rightarrow> nat \<Rightarrow> string" where
  "hex_padded k n = map (\<lambda>i. hex_digit (n div 16 ^ i mod 16)) (rev [0..<k])"

definition valid_rune :: "nat \<Rightarrow> bool" where
  "valid_rune r \<longleftrightarrow> r < 0xD800 \<or> (0xE000 \<le> r \<and> r \<le> 0x10FFFF)"

definition escape_rune :: "(nat \<Rightarrow> bool) \<Rightarrow> nat \<Rightarrow> string" where
  "escape_rune wide r =
     (if r = 0x22 \<or> r = 0x5C then [CHR 0x5C, chr_of r]
      else if is_print wide r then encode_rune r
      else if r = 7 then [CHR 0x5C, CHR ''a'']
      else if r = 8 then [CHR 0x5C, CHR ''b'']
      else if r = 12 then [CHR 0x5C, CHR ''f'']
      else if r = 10 then [CHR 0x5C, CHR ''n'']
      else if r = 13 then [CHR 0x5C, CHR ''r'']
      else if r = 9 then [CHR 0x5C, CHR ''t'']
      else if r = 11 then [CHR 0x5C, CHR ''v'']
      else if r < 32 \<or> r = 0x7F then [CHR 0x5C, CHR ''x''] @ hex_padded 2 r
      else if \<not> valid_rune r then [CHR 0x5C, CHR ''u''] @ hex_padded 4 0xFFFD
      else if r < 0x10000 then [CHR 0x5C, CHR ''u''] @ hex_padded 4 r
      else [CHR 0x5C, CHR ''U''] @ hex_padded 8 r)"

function quote_body :: "(nat \<Rightarrow> bool) \<Rightarrow> string \<Rightarrow> string" where
  "quote_body wide s =
     (if s = [] then []
      else case decode_rune s of
             (r, w) \<Rightarrow>
               (if w = 1 \<and> r = rune_error then [CHR 0x5C, CHR ''x''] @ hex_padded 2 (byte_of (hd s))
                else escape_rune wide r) @ quote_body wide (drop w s))"
  by pat_completeness auto
termination
  by (relation "measure (length \<circ> snd)") (auto simp: prod_eq_iff decode_rune_width_pos intro!: diff_less)

declare quote_body.simps [simp del]

definition quote_text :: "(nat \<Rightarrow> bool) \<Rightarrow> string \<Rightarrow> string" where
  "quote_text wide s = CHR 0x22 # quote_body wide s @ [CHR 0x22]"

definition bool_text :: "bool \<Rightarrow> string" where
  "bool_text b = (if b then ''true'' else ''false'')"

definition int_text :: "int \<Rightarrow> string" where
  "int_text i = (if i < 0 then CHR ''-'' # itoa (nat (- i)) else itoa (nat i))"

subsection \<open>The document\<close>

definition upstream_entry :: "resolver_upstream \<Rightarrow> string" where
  "upstream_entry u = (if up_bootstrap u \<noteq> [] then up_address u @ ''|'' @ up_bootstrap u else up_address u)"

definition render_upstreams :: "resolver_upstream list \<Rightarrow> string" where
  "render_upstreams us = join '','' (map upstream_entry us)"

type_synonym entries = "(string \<times> string) list"

definition gateway_entries :: "(string \<Rightarrow> string) \<Rightarrow> gateway_section \<Rightarrow> entries" where
  "gateway_entries q g =
     [(''mode'', q (ga_mode g)), (''interface'', q (ga_interface g)), (''lan_ip'', q (ga_lan_ip g)),
      (''lan_prefix_len'', int_text (prefix_len_or_default (ga_prefix_len g))),
      (''upstream_interface'', q (ga_upstream_interface g)), (''upstream_gateway'', q (ga_upstream_gateway g))]"

definition dhcp_entries :: "(string \<Rightarrow> string) \<Rightarrow> dhcp_section \<Rightarrow> entries" where
  "dhcp_entries q d =
     [(''binary'', q (dh_binary d)), (''enabled'', bool_text (dh_enabled d)),
      (''range_start'', q (dh_range_start d)), (''range_end'', q (dh_range_end d)),
      (''lease_time'', q (dh_lease_time d)), (''domain'', q (dh_domain d)),
      (''bypass_gateway'', q (dh_bypass_gateway d)), (''bypass_dns'', q (join '','' (dh_bypass_dns d)))]"

definition policy_entries :: "(string \<Rightarrow> string) \<Rightarrow> policy_section \<Rightarrow> entries" where
  "policy_entries q p =
     [(''file'', q (dp_path p)), (''protected_ipv4'', q (join '','' (dp_protected p)))]"

definition dns_entries :: "(string \<Rightarrow> string) \<Rightarrow> dns_section \<Rightarrow> entries" where
  "dns_entries q d =
     [(''listen'', q (dn_listen d)), (''port'', int_text (dn_port d)), (''upstream'', q (dn_upstream d)),
      (''ipv6'', bool_text (dn_ipv6 d)), (''resolver_mode'', q (dn_mode d)),
      (''resolver_upstreams'', q (render_upstreams (dn_upstreams d))),
      (''proxy_node_upstreams'', q (render_upstreams (dn_node_upstreams d))),
      (''resolver_allow_plaintext'', bool_text (dn_allow_plaintext d)),
      (''resolver_proxy_enabled'', bool_text (dn_proxy_enabled d)),
      (''resolver_proxy_target'', q (dn_proxy_target d)),
      (''mihomo_use_smartdns'', bool_text (dn_use_smartdns d))]"

definition mihomo_entries :: "(string \<Rightarrow> string) \<Rightarrow> mihomo_section \<Rightarrow> entries" where
  "mihomo_entries q m =
     [(''binary'', q (mi_binary m)), (''config'', q (mi_config m)), (''profile_mode'', q (mi_profile_mode m)),
      (''profile'', q (mi_profile m)), (''profile_source_digest'', q (mi_source_digest m)),
      (''profile_overlay_digest'', q (mi_overlay_digest m)), (''store_fake_ip'', bool_text (mi_store_fake_ip m)),
      (''mixed_port'', int_text (mi_mixed_port m)), (''redir_port'', int_text (mi_redir_port m)),
      (''api_addr'', q (mi_api_addr m)), (''secret'', q (mi_secret m))]"

definition tailscale_entries :: "(string \<Rightarrow> string) \<Rightarrow> tailscale_section \<Rightarrow> entries" where
  "tailscale_entries q t =
     [(''enabled'', bool_text (ts_enabled t)), (''display_name'', q (ts_display_name t)),
      (''hostname'', q (ts_hostname t)), (''control_url'', q (ts_control_url t)),
      (''auth_key_file'', q (ts_auth_key_file t)), (''state_dir'', q (ts_state_dir t)),
      (''accept_routes'', bool_text (ts_accept_routes t)),
      (''magic_dns_suffixes'', q (join '','' (ts_suffixes t))), (''peer_cidrs'', q (join '','' (ts_peer_cidrs t))),
      (''subnet_routes'', q (join '','' (ts_subnet_routes t))), (''allow_mac'', bool_text (ts_allow_mac t)),
      (''allow_all_devices'', bool_text (ts_allow_all t)),
      (''allowed_devices'', q (join '','' (ts_allowed_devices t))), (''exit_node'', q (ts_exit_node t)),
      (''exit_node_allow_lan_access'', bool_text (ts_exit_node_lan t))]"

definition nftables_entries :: "(string \<Rightarrow> string) \<Rightarrow> transparent_section \<Rightarrow> entries" where
  "nftables_entries q t =
     [(''table_name'', q (tr_nft_table t)), (''fw_mark'', uint_text (tr_fw_mark t)),
      (''route_table_id'', uint_text (tr_route_table t)), (''route_rule_priority'', uint_text (tr_rule_priority t))]"

definition transparent_entries :: "(string \<Rightarrow> string) \<Rightarrow> transparent_section \<Rightarrow> entries" where
  "transparent_entries q t =
     [(''mode'', q (tr_mode t)), (''tun_device'', q (tr_tun_device t)), (''tun_stack'', q (tr_tun_stack t)),
      (''tun_auto_route'', bool_text (tr_auto_route t)), (''tun_auto_detect_interface'', bool_text (tr_auto_detect t)),
      (''tun_strict_route'', bool_text (tr_strict_route t)), (''tun_ipv6'', q (tr_tun_ipv6 t)),
      (''ipv6_shared_l2_ready'', bool_text (tr_l2_ready t)),
      (''ipv6_packet_broker_binary'', q (tr_broker_binary t)), (''ipv6_packet_mtu'', int_text (tr_packet_mtu t))]"

definition upstream_entries :: "(string \<Rightarrow> string) \<Rightarrow> upstream_section \<Rightarrow> entries" where
  "upstream_entries q p =
     [(''enabled'', bool_text (px_enabled p)), (''name'', q (px_name p)), (''type'', q (px_type p)),
      (''server'', q (px_server p)), (''port'', int_text (px_port p)), (''username'', q (px_username p)),
      (''password'', q (px_password p)), (''match_domain'', q (px_match_domain p))]"

definition config_sections :: "(string \<Rightarrow> string) \<Rightarrow> config \<Rightarrow> (string \<times> entries) list" where
  "config_sections q cfg =
     [(''gateway'', gateway_entries q (cf_gateway cfg)),
      (''dhcp'', dhcp_entries q (cf_dhcp cfg)),
      (''device_policy'', policy_entries q (cf_policy cfg)),
      (''dns'', dns_entries q (cf_dns cfg)),
      (''mihomo'', mihomo_entries q (cf_mihomo cfg)),
      (''tailscale'', tailscale_entries q (cf_tailscale cfg)),
      (''nftables'', nftables_entries q (cf_transparent cfg)),
      (''transparent'', transparent_entries q (cf_transparent cfg)),
      (''local_system_proxy'', [(''enabled'', bool_text (cf_local_proxy cfg))]),
      (''lan_proxy'', [(''enabled'', bool_text (lp_enabled (cf_lan_proxy cfg))),
                       (''socks_port'', int_text (lp_socks_port (cf_lan_proxy cfg)))]),
      (''upstream_proxy'', upstream_entries q (cf_upstream cfg)),
      (''runtime'', [(''dir'', q (cf_runtime_dir cfg))])]"

definition entry_line :: "string \<times> string \<Rightarrow> string" where
  "entry_line e = ''  '' @ fst e @ '': '' @ snd e"

definition section_lines :: "string \<times> entries \<Rightarrow> string list" where
  "section_lines s = (fst s @ '':'') # map entry_line (snd s)"

definition text_of_lines :: "string list \<Rightarrow> string" where
  "text_of_lines ls = concat (map (\<lambda>l. l @ [newline]) ls)"

definition render_config :: "(nat \<Rightarrow> bool) \<Rightarrow> config \<Rightarrow> string" where
  "render_config wide cfg =
     join [newline] (map (\<lambda>s. text_of_lines (section_lines s)) (config_sections (quote_text wide) cfg))"

end
