(* ===== verification/ConfigRoundtrip.thy ===== *)
theory ConfigRoundtrip
  imports ConfigRender
begin

text \<open>
  Reading back what \<open>Render\<close> writes. A value is storable when \<open>%q\<close> leaves it alone; the lemmas go from one
  value to one line, one section and the whole document.
\<close>

subsection \<open>Values\<close>

text \<open>A raw value is read as a text when it survives the comment stripper, trimming and \<open>unquote\<close>.\<close>

definition readable :: "string \<Rightarrow> string \<Rightarrow> bool" where
  "readable raw v \<longleftrightarrow>
     raw \<noteq> [] \<and> printable (hd raw) \<and> printable (last raw) \<and> last raw \<noteq> CHR '':''
     \<and> strip_comment raw = raw \<and> unquote raw = v \<and> newline \<notin> set raw \<and> length raw < 65100"

definition storable :: "(nat \<Rightarrow> bool) \<Rightarrow> string \<Rightarrow> bool" where
  "storable wide s \<longleftrightarrow> quote_body wide s = s \<and> CHR 0x22 \<notin> set s \<and> newline \<notin> set s \<and> length s < 65000"

definition quotable_char :: "char \<Rightarrow> bool" where
  "quotable_char c \<longleftrightarrow> 32 \<le> byte_of c \<and> byte_of c < 127 \<and> c \<noteq> CHR 0x22 \<and> c \<noteq> CHR 0x5C"

lemma quote_body_ascii: "list_all quotable_char s \<Longrightarrow> quote_body wide s = s"
proof (induction s)
  case (Cons c s)
  then have c: "32 \<le> byte_of c" "byte_of c < 127" "c \<noteq> CHR 0x22" "c \<noteq> CHR 0x5C" by (auto simp: quotable_char_def)
  have "byte_of c \<noteq> byte_of (CHR 0x22)" "byte_of c \<noteq> byte_of (CHR 0x5C)"
    using c(3,4) by (metis char_of_char)+
  then have "escape_rune wide (byte_of c) = [c]"
    using c(1,2) by (simp add: escape_rune_def is_print_def encode_rune_def)
  moreover have "decode_rune (c # s) = (byte_of c, 1)"
    using c(2) by (simp add: decode_rune_def)
  ultimately show ?case
    using Cons c(2) by (simp add: quote_body.simps [of _ "c # s"] rune_error_def)
qed (simp add: quote_body.simps)

lemma storable_ascii:
  assumes "list_all quotable_char s" "length s < 65000"
  shows "storable wide s"
proof -
  have "\<not> quotable_char (CHR 0x22)" "\<not> quotable_char newline" by (simp_all add: quotable_char_def)
  then have "CHR 0x22 \<notin> set s" "newline \<notin> set s" using assms(1) unfolding list_all_iff by blast+
  then show ?thesis using assms quote_body_ascii unfolding storable_def by blast
qed

lemma strip_from_plain:
  "\<forall>c \<in> set p. c \<noteq> CHR 0x22 \<and> c \<noteq> CHR 0x27 \<and> c \<noteq> CHR ''#'' \<Longrightarrow> strip_from a b (p @ r) = p @ strip_from a b r"
  by (induction p) auto

lemma strip_from_double: "CHR 0x22 \<notin> set s \<Longrightarrow> strip_from False True (s @ [CHR 0x22]) = s @ [CHR 0x22]"
  by (induction s) auto

lemma readable_quoted: "storable wide s \<Longrightarrow> readable (quote_text wide s) s"
  by (auto simp: readable_def storable_def quote_text_def strip_comment_def strip_from_double unquote_def printable_def)

definition plain_char :: "char \<Rightarrow> bool" where
  "plain_char c \<longleftrightarrow> is_letter_ascii c \<or> is_digit c \<or> c = CHR ''-'' \<or> c = CHR ''_''"

lemma plain_char_facts:
  assumes "plain_char c"
  shows "printable c" "c \<noteq> CHR 0x22" "c \<noteq> CHR 0x27" "c \<noteq> CHR ''#''" "c \<noteq> CHR '':''" "c \<noteq> newline" "c \<noteq> CHR ''.''"
  using assms
  by (auto simp: plain_char_def printable_def is_letter_ascii_def is_upper_ascii_def is_lower_ascii_def is_digit_def)

lemma readable_plain:
  assumes "list_all plain_char raw" "raw \<noteq> []" "length raw < 65100"
  shows "readable raw raw"
proof -
  have all: "\<forall>c \<in> set raw. printable c \<and> c \<noteq> CHR 0x22 \<and> c \<noteq> CHR 0x27 \<and> c \<noteq> CHR ''#'' \<and> c \<noteq> CHR '':'' \<and> c \<noteq> newline"
    using assms(1) plain_char_facts by (auto simp: list_all_iff)
  have ends: "hd raw \<in> set raw" "last raw \<in> set raw" using assms(2) by simp_all
  have "strip_comment raw = raw"
    using strip_from_plain [of raw False False "[]"] all by (simp add: strip_comment_def)
  moreover have "unquote raw = raw" using all ends by (auto simp: unquote_def)
  ultimately show ?thesis using all ends assms(2,3) by (auto simp: readable_def)
qed

lemma readable_bool: "readable (bool_text b) (bool_text b)"
  by (rule readable_plain) (simp_all add: bool_text_def plain_char_def is_letter_ascii_def is_lower_ascii_def)

lemma itoa_length: "length (itoa n) \<le> n + 1"
proof (induction n rule: itoa.induct)
  case (1 n)
  show ?case
  proof (cases "n < 10")
    case False
    with 1 have "length (itoa (n div 10)) \<le> n div 10 + 1" by simp
    then show ?thesis using False by (simp add: itoa.simps [of n])
  qed (simp add: itoa.simps [of n])
qed

lemma itoa_length_power: "n < 10 ^ k \<Longrightarrow> length (itoa n) \<le> max 1 k"
proof (induction k arbitrary: n)
  case (Suc k)
  show ?case
  proof (cases "n < 10")
    case False
    then have "n div 10 < 10 ^ k" using Suc.prems by auto
    from Suc.IH [OF this] False show ?thesis
      using Suc.prems by (cases k) (simp_all add: itoa.simps [of n])
  qed (simp add: itoa.simps [of n])
qed (simp add: itoa.simps)

lemma itoa_plain: "list_all plain_char (itoa n)"
  using itoa_digits [of n] by (auto simp: list_all_iff plain_char_def)

lemma readable_uint: "readable (uint_text n) (uint_text n)"
proof (rule readable_plain)
  have "unat n < 10 ^ 10" using unsigned_less [of n, where ?'a = nat] by simp
  from itoa_length_power [OF this] show "length (uint_text n) < 65100" by (simp add: uint_text_def)
qed (simp_all add: uint_text_def itoa_plain itoa_not_Nil)

definition int64 :: "int \<Rightarrow> bool" where
  "int64 i \<longleftrightarrow> - (2 ^ 63) \<le> i \<and> i < 2 ^ 63"

lemma int_text_facts:
  assumes "int64 i"
  shows "readable (int_text i) (int_text i)" "atoi (int_text i) = Some i"
proof -
  have small: "length (itoa n) < 65000" if "n \<le> 2 ^ 63" for n
    using itoa_length_power [of n 20] that by simp
  have "nat (- i) \<le> 2 ^ 63" "nat i \<le> 2 ^ 63" using assms by (simp_all add: int64_def nat_le_iff)
  from small [OF this(1)] small [OF this(2)] show "readable (int_text i) (int_text i)"
    by (intro readable_plain) (auto simp: int_text_def itoa_plain itoa_not_Nil plain_char_def [of "CHR ''-''"])
  have first: "\<exists>c cs. itoa n = c # cs \<and> c \<noteq> CHR ''-'' \<and> c \<noteq> CHR ''+''" for n
    using itoa_digits [of n] itoa_not_Nil [of n] by (cases "itoa n") (auto simp: is_digit_def)
  have pd: "parse_digits (itoa n) = Some n" for n by simp
  show "atoi (int_text i) = Some i"
  proof (cases "i < 0")
    case True
    then show ?thesis using assms pd [of "nat (- i)"] by (simp add: atoi_def int_text_def int64_def)
  next
    case False
    from first [of "nat i"] obtain c cs where "itoa (nat i) = c # cs" "c \<noteq> CHR ''-''" "c \<noteq> CHR ''+''" by blast
    then show ?thesis
      using False assms pd [of "nat i"] by (simp add: atoi_def int_text_def int64_def)
  qed
qed

lemma parse_bool_text [simp]: "parse_bool (bool_text b) = Some b"
  by (cases b) (simp_all add: parse_bool_def bool_text_def)

subsection \<open>Lists\<close>

definition list_item :: "string \<Rightarrow> bool" where
  "list_item x \<longleftrightarrow> x \<noteq> [] \<and> printable (hd x) \<and> printable (last x) \<and> CHR '','' \<notin> set x"

lemma join_ends:
  assumes "xs \<noteq> []" "\<forall>x \<in> set xs. list_item x"
  shows "join '','' xs \<noteq> [] \<and> printable (hd (join '','' xs)) \<and> printable (last (join '','' xs))"
  using assms by (induction "'',''" xs rule: join.induct) (auto simp: list_item_def)

lemma split_comma_join:
  assumes "\<forall>x \<in> set xs. list_item x"
  shows "split_comma (join '','' xs) = xs"
proof (cases "xs = []")
  case False
  have "trim_space (join '','' xs) = join '','' xs" "join '','' xs \<noteq> []"
    using join_ends [OF False assms] by (auto intro: trim_space_ends)
  moreover have "map trim_space xs = xs" "filter (\<lambda>p. p \<noteq> []) xs = xs"
    using assms by (auto simp: list_item_def intro!: map_idI trim_space_ends filter_True)
  moreover have "split_on CHR '','' (join '','' xs) = xs"
    using assms False by (intro split_on_join) (auto simp: list_item_def)
  ultimately show ?thesis by (simp add: split_comma_def)
qed (simp add: split_comma_def)

lemma read_upstream_entry: "CHR ''|'' \<notin> set (up_address u) \<Longrightarrow> read_upstream (upstream_entry u) = u"
  using cut_append [of "CHR ''|''" "up_address u" "up_bootstrap u"] cut_None_iff [of "CHR ''|''" "up_address u"]
  by (auto simp: read_upstream_def upstream_entry_def)

definition storable_list :: "(nat \<Rightarrow> bool) \<Rightarrow> string list \<Rightarrow> bool" where
  "storable_list wide xs \<longleftrightarrow> storable wide (join '','' xs) \<and> (\<forall>x \<in> set xs. list_item x)"

definition storable_upstreams :: "(nat \<Rightarrow> bool) \<Rightarrow> resolver_upstream list \<Rightarrow> bool" where
  "storable_upstreams wide us \<longleftrightarrow>
     storable_list wide (map upstream_entry us) \<and> (\<forall>u \<in> set us. CHR ''|'' \<notin> set (up_address u))"

lemma render_upstreams_read:
  assumes "\<forall>u \<in> set us. list_item (upstream_entry u)" "\<forall>u \<in> set us. CHR ''|'' \<notin> set (up_address u)"
  shows "map read_upstream (split_comma (render_upstreams us)) = us"
  using assms split_comma_join [of "map upstream_entry us"]
  by (auto simp: render_upstreams_def intro!: map_idI read_upstream_entry)

lemma storable_upstreams_text: "storable_upstreams wide us \<Longrightarrow> storable wide (render_upstreams us)"
  by (simp add: storable_upstreams_def storable_list_def render_upstreams_def)

subsection \<open>Lines\<close>

definition key_word :: "string \<Rightarrow> bool" where
  "key_word k \<longleftrightarrow> k \<noteq> [] \<and> list_all plain_char k \<and> length k < 100"

lemma key_word_facts:
  assumes "key_word k"
  shows "k \<noteq> []" "printable (hd k)" "trim_space k = k" "CHR '':'' \<notin> set k" "newline \<notin> set k"
    "strip_comment (k @ r) = k @ strip_comment r" "last k \<noteq> CHR '':''"
proof -
  have k: "k \<noteq> []" "\<forall>c \<in> set k. plain_char c" using assms by (auto simp: key_word_def list_all_iff)
  then have ends: "plain_char (hd k)" "plain_char (last k)" by simp_all
  show "k \<noteq> []" by (rule k(1))
  show "printable (hd k)" by (rule plain_char_facts(1) [OF ends(1)])
  show "last k \<noteq> CHR '':''" by (rule plain_char_facts(5) [OF ends(2)])
  show "trim_space k = k" by (rule trim_space_ends [OF k(1) plain_char_facts(1) [OF ends(1)] plain_char_facts(1) [OF ends(2)]])
  have "\<not> plain_char (CHR '':'')" "\<not> plain_char newline" by (metis plain_char_facts(5), metis plain_char_facts(6))
  then show "CHR '':'' \<notin> set k" "newline \<notin> set k" using k(2) by fastforce+
  show "strip_comment (k @ r) = k @ strip_comment r"
    unfolding strip_comment_def
  proof (rule strip_from_plain, rule ballI)
    fix c assume "c \<in> set k"
    then have "plain_char c" by (rule bspec [OF k(2)])
    from plain_char_facts [OF this] show "c \<noteq> CHR 0x22 \<and> c \<noteq> CHR 0x27 \<and> c \<noteq> CHR ''#''" by simp
  qed
qed

lemma strip_comment_entry:
  assumes "key_word k"
  shows "strip_comment (entry_line (k, raw)) = entry_line (k, strip_comment raw)"
proof -
  have a: "strip_comment (''  '' @ r) = ''  '' @ strip_comment r" for r by (simp add: strip_comment_def)
  have b: "strip_comment ('': '' @ r) = '': '' @ strip_comment r" for r by (simp add: strip_comment_def)
  have "strip_comment (entry_line (k, raw)) = ''  '' @ k @ strip_comment ('': '' @ raw)"
    unfolding entry_line_def fst_conv snd_conv a key_word_facts(6) [OF assms] ..
  then show ?thesis unfolding b by (simp add: entry_line_def)
qed

lemma config_line_entry:
  assumes k: "key_word k" and v: "readable raw v"
  shows "config_line (entry_line (k, raw)) (sec, cfg) = rbind (apply_value cfg sec k v) (\<lambda>c. Inr (sec, c))"
proof -
  note key = key_word_facts [OF k]
  from v have raw: "raw \<noteq> []" "printable (hd raw)" "printable (last raw)" "last raw \<noteq> CHR '':''"
    "strip_comment raw = raw" "unquote raw = v"
    by (simp_all add: readable_def)
  let ?body = "k @ CHR '':'' # CHR '' '' # raw"
  have "trim_space (strip_comment (entry_line (k, raw))) = trim_space ?body"
    unfolding strip_comment_entry [OF k] raw(5) by (simp add: entry_line_def trim_space_blank)
  also have "\<dots> = ?body"
    using key(1,2) raw(1,3) by (intro trim_space_ends) simp_all
  finally have t: "trim_space (strip_comment (entry_line (k, raw))) = ?body" .
  have suffix: "\<not> has_suffix ?body '':''"
  proof
    assume "has_suffix ?body '':''"
    then obtain r where "?body = r @ '':''" by (auto simp only: has_suffix_iff)
    then have "last ?body = CHR '':''" by (metis last_snoc)
    with raw(1,4) show False by simp
  qed
  have "cut (CHR '':'') ?body = Some (k, CHR '' '' # raw)"
    by (rule cut_append [OF key(4)])
  moreover have "trim_space (CHR '' '' # raw) = raw"
    using raw(1-3) by (simp add: trim_space_blank trim_space_ends)
  ultimately show ?thesis
    using suffix key(3) raw(6) by (simp add: config_line_def t Let_def)
qed

lemma config_line_header:
  assumes "key_word name"
  shows "config_line (name @ '':'') (sec, cfg) = Inr (name, cfg)"
proof -
  note key = key_word_facts [OF assms]
  have "strip_comment (name @ '':'') = name @ '':''"
    by (simp add: key(6)) (simp add: strip_comment_def)
  moreover have "trim_space (name @ '':'') = name @ '':''"
    using key(1,2) by (intro trim_space_ends) (simp_all add: printable_def)
  ultimately show ?thesis
    by (simp add: config_line_def has_suffix_def trim_suffix_def)
qed

lemma config_line_blank: "config_line [] st = Inr st"
  by (cases st) (simp add: config_line_def strip_comment_def)

text \<open>Lines the scanner passes on unchanged.\<close>

definition scannable :: "string \<Rightarrow> bool" where
  "scannable l \<longleftrightarrow> length l < 65536 \<and> newline \<notin> set l \<and> drop_cr l = l"

lemma config_lines_Cons:
  "scannable l \<Longrightarrow> config_line l st = Inr st' \<Longrightarrow> config_lines n (l # ls) st = config_lines (n + 1) ls st'"
  by (simp add: scannable_def)

lemma scannable_entry: "key_word k \<Longrightarrow> readable raw v \<Longrightarrow> scannable (entry_line (k, raw))"
  using key_word_facts(5) [of k]
  by (auto simp: scannable_def entry_line_def readable_def key_word_def drop_cr_def printable_def)

lemma scannable_header: "key_word name \<Longrightarrow> scannable (name @ '':'')"
  using key_word_facts(5) [of name] by (auto simp: scannable_def key_word_def drop_cr_def)

lemma scannable_blank: "scannable []"
  by (simp add: scannable_def drop_cr_def)

subsection \<open>Sections\<close>

definition reads_entry :: "string \<times> string \<Rightarrow> string \<times> string \<Rightarrow> bool" where
  "reads_entry e kv \<longleftrightarrow> fst e = fst kv \<and> key_word (fst kv) \<and> readable (snd e) (snd kv)"

definition apply_entries :: "string \<Rightarrow> entries \<Rightarrow> config \<Rightarrow> line_error + config" where
  "apply_entries sec kvs cfg = rfold (\<lambda>c kv. apply_value c sec (fst kv) (snd kv)) cfg kvs"

lemma config_lines_entries:
  assumes "list_all2 reads_entry es kvs" "apply_entries sec kvs cfg = Inr cfg'"
  shows "config_lines n (map entry_line es @ ls) (sec, cfg) = config_lines (n + length es) ls (sec, cfg')"
  using assms
proof (induction es kvs arbitrary: n cfg rule: list_all2_induct)
  case (Cons e es kv kvs)
  obtain k raw where e: "e = (k, raw)" by (cases e)
  with Cons.hyps have k: "key_word k" and v: "readable raw (snd kv)" "fst kv = k" by (auto simp: reads_entry_def)
  from Cons.prems obtain cfg1 where step: "apply_value cfg sec k (snd kv) = Inr cfg1"
    and rest: "apply_entries sec kvs cfg1 = Inr cfg'"
    by (auto simp: apply_entries_def rbind_eq_Inr_iff v(2))
  have "config_line (entry_line e) (sec, cfg) = Inr (sec, cfg1)"
    using config_line_entry [OF k v(1)] step by (simp add: e)
  from config_lines_Cons [OF scannable_entry [OF k v(1), folded e] this] Cons.IH [OF rest]
  show ?case by simp
qed (simp add: apply_entries_def)

definition reads_section :: "string \<times> entries \<Rightarrow> string \<times> entries \<Rightarrow> bool" where
  "reads_section s t \<longleftrightarrow> fst s = fst t \<and> key_word (fst t) \<and> list_all2 reads_entry (snd s) (snd t)"

fun apply_sections :: "(string \<times> entries) list \<Rightarrow> config \<Rightarrow> line_error + config" where
  "apply_sections [] cfg = Inr cfg"
| "apply_sections (s # ss) cfg = rbind (apply_entries (fst s) (snd s) cfg) (apply_sections ss)"

fun document_lines :: "(string \<times> entries) list \<Rightarrow> string list" where
  "document_lines [] = []"
| "document_lines [s] = section_lines s"
| "document_lines (s # t # ss) = section_lines s @ [] # document_lines (t # ss)"

lemma config_lines_section:
  assumes "reads_section s t" "apply_entries (fst t) (snd t) cfg = Inr cfg'"
  shows "config_lines n (section_lines s @ ls) (sec, cfg) = config_lines (n + 1 + length (snd s)) ls (fst t, cfg')"
proof -
  have t: "key_word (fst t)" "fst s = fst t" "list_all2 reads_entry (snd s) (snd t)"
    using assms(1) by (auto simp: reads_section_def)
  have "config_lines n (section_lines s @ ls) (sec, cfg)
      = config_lines (n + 1) (map entry_line (snd s) @ ls) (fst t, cfg)"
    using config_lines_Cons [OF scannable_header [OF t(1)] config_line_header [OF t(1)]] t(2)
    by (simp add: section_lines_def)
  with config_lines_entries [OF t(3) assms(2)] show ?thesis by simp
qed

lemma config_lines_document:
  assumes "list_all2 reads_section ss ts" "apply_sections ts cfg = Inr cfg'"
  shows "\<exists>sec'. config_lines n (document_lines ss) (sec, cfg) = Inr (sec', cfg')"
  using assms
proof (induction ss arbitrary: ts n sec cfg rule: document_lines.induct)
  case 1
  then show ?case by simp
next
  case (2 s)
  then obtain t where t: "ts = [t]" "reads_section s t" by (auto simp: list_all2_Cons1)
  with 2 have "apply_entries (fst t) (snd t) cfg = Inr cfg'" by (auto simp: rbind_eq_Inr_iff)
  from config_lines_section [OF t(2) this, of n "[]"] show ?case by simp
next
  case (3 s s' ss)
  then obtain t ts' where t: "ts = t # ts'" "reads_section s t" "list_all2 reads_section (s' # ss) ts'"
    by (auto simp: list_all2_Cons1)
  with 3 obtain cfg1 where step: "apply_entries (fst t) (snd t) cfg = Inr cfg1" "apply_sections ts' cfg1 = Inr cfg'"
    by (auto simp: rbind_eq_Inr_iff)
  from config_lines_section [OF t(2) step(1)]
  have "config_lines n (document_lines (s # s' # ss)) (sec, cfg)
      = config_lines (n + 1 + length (snd s) + 1) (document_lines (s' # ss)) (fst t, cfg1)"
    using config_lines_Cons [OF scannable_blank config_line_blank] by simp
  with 3(1) [OF t(3) step(2)] show ?case by metis
qed

subsection \<open>The text\<close>

lemma text_of_document: "ss \<noteq> [] \<Longrightarrow> join [newline] (map (\<lambda>s. text_of_lines (section_lines s)) ss) = text_of_lines (document_lines ss)"
  by (induction ss rule: document_lines.induct) (simp_all add: text_of_lines_def)

lemma split_text_of_lines:
  "\<forall>l \<in> set ls. newline \<notin> set l \<Longrightarrow> split_on newline (text_of_lines ls) = ls @ [[]]"
  unfolding split_on_def text_of_lines_def
  by (induction ls) (simp_all add: split_aux_append)

lemma raw_text_of_lines: "\<forall>l \<in> set ls. newline \<notin> set l \<Longrightarrow> raw_lines (text_of_lines ls) = ls"
  by (simp add: raw_lines_def split_text_of_lines)

lemma document_lines_plain:
  assumes "list_all2 reads_section ss ts" "l \<in> set (document_lines ss)"
  shows "newline \<notin> set l"
proof -
  have one: "newline \<notin> set l" if "reads_section s t" "l \<in> set (section_lines s)" for s t l
  proof -
    from that have s: "key_word (fst s)" "list_all2 reads_entry (snd s) (snd t)" by (auto simp: reads_section_def)
    have "newline \<notin> set (entry_line e)" if e: "e \<in> set (snd s)" for e
    proof -
      from e s(2) obtain kv where "reads_entry e kv" by (metis in_set_conv_nth list_all2_nthD)
      then have "scannable (entry_line (fst e, snd e))"
        by (intro scannable_entry [where v = "snd kv"]) (simp_all add: reads_entry_def)
      then show ?thesis by (simp add: scannable_def)
    qed
    with that(2) scannable_header [OF s(1)] show ?thesis by (auto simp: section_lines_def scannable_def)
  qed
  from assms show ?thesis
    by (induction ss arbitrary: ts rule: document_lines.induct) (auto simp: list_all2_Cons1 dest: one)
qed

end
