(* ===== verification/ConfigDocument.thy ===== *)
theory ConfigDocument
  imports ConfigRoundtrip
begin

text \<open>
  The round trip of a whole configuration: each section \<open>Render\<close> writes is read back by the keys of
  \<open>applyValue\<close>, and the sections make up the document.
\<close>

subsection \<open>Lookup of a key\<close>

lemma map_of_prefixed: "\<forall>k \<in> set (map fst t). has_prefix k p \<Longrightarrow> \<not> has_prefix x p \<Longrightarrow> map_of t x = None"
  by (auto simp: map_of_eq_None_iff)

lemma foreign_section:
  "\<not> has_prefix x ''gateway.'' \<Longrightarrow> map_of gateway_keys x = None"
  "\<not> has_prefix x ''dhcp.'' \<Longrightarrow> map_of dhcp_keys x = None"
  "\<not> has_prefix x ''device_policy.'' \<Longrightarrow> map_of policy_keys x = None"
  "\<not> has_prefix x ''dns.'' \<Longrightarrow> map_of dns_keys x = None"
  "\<not> has_prefix x ''mihomo.'' \<Longrightarrow> map_of mihomo_keys x = None"
  "\<not> has_prefix x ''tailscale.'' \<Longrightarrow> map_of tailscale_keys x = None"
  "\<not> has_prefix x ''nftables.'' \<Longrightarrow> map_of nftables_keys x = None"
  "\<not> has_prefix x ''transparent.'' \<Longrightarrow> map_of transparent_keys x = None"
  by (erule map_of_prefixed [rotated], simp add: gateway_keys_def dhcp_keys_def policy_keys_def
      dns_keys_def mihomo_keys_def tailscale_keys_def nftables_keys_def transparent_keys_def)+

lemma map_of_append_cases:
  "map_of (xs @ ys) k = (case map_of xs k of Some f \<Rightarrow> Some f | None \<Rightarrow> map_of ys k)"
  by (simp add: map_add_def split: option.split)

lemmas key_lookup = apply_value_def config_keys_def map_of_append_cases foreign_section
lemmas key_setters = text_key_def lower_key_def list_key_def bool_key_def int_key_def uint_key_def upstreams_key_def
lemmas entry_run = apply_entries_def rfold.simps fst_conv snd_conv

lemma rbind_assoc: "rbind (rbind m f) g = rbind m (\<lambda>x. rbind (f x) g)"
  by (cases m) simp_all

lemmas key_word_eval = key_word_def plain_char_def is_letter_ascii_def is_upper_ascii_def is_lower_ascii_def is_digit_def

subsection \<open>The sections\<close>

definition storable_word :: "(nat \<Rightarrow> bool) \<Rightarrow> string \<Rightarrow> bool" where
  "storable_word wide s \<longleftrightarrow> storable wide s \<and> to_lower s = s"

definition storable_gateway :: "(nat \<Rightarrow> bool) \<Rightarrow> gateway_section \<Rightarrow> bool" where
  "storable_gateway wide g \<longleftrightarrow>
     storable_word wide (ga_mode g) \<and> storable wide (ga_interface g) \<and> storable wide (ga_lan_ip g)
     \<and> int64 (ga_prefix_len g) \<and> storable wide (ga_upstream_interface g) \<and> storable wide (ga_upstream_gateway g)"

lemma int64_prefix: "int64 n \<Longrightarrow> int64 (prefix_len_or_default n)"
  by (simp add: int64_def prefix_len_or_default_def default_prefix_len_def)

lemma gateway_reads:
  assumes "storable_gateway wide g"
  shows "reads_section (''gateway'', gateway_entries (quote_text wide) g) (''gateway'', gateway_entries (\<lambda>s. s) g)"
  using assms
  by (simp add: reads_section_def gateway_entries_def reads_entry_def key_word_eval storable_gateway_def storable_word_def
      readable_quoted int_text_facts int64_prefix)

lemma gateway_applies:
  assumes "storable_gateway wide g"
  shows "apply_entries ''gateway'' (gateway_entries (\<lambda>s. s) g) c
    = Inr (c\<lparr>cf_gateway := g\<lparr>ga_prefix_len := prefix_len_or_default (ga_prefix_len g), ga_lan_cidr := ga_lan_cidr (cf_gateway c)\<rparr>\<rparr>)"
  using assms
  by (simp add: gateway_entries_def entry_run key_lookup gateway_keys_def key_setters storable_gateway_def
      storable_word_def int_text_facts int64_prefix del: map_of_append)

definition storable_dhcp :: "(nat \<Rightarrow> bool) \<Rightarrow> dhcp_section \<Rightarrow> bool" where
  "storable_dhcp wide d \<longleftrightarrow>
     storable wide (dh_binary d) \<and> storable wide (dh_range_start d) \<and> storable wide (dh_range_end d)
     \<and> storable wide (dh_lease_time d) \<and> storable wide (dh_domain d) \<and> storable wide (dh_bypass_gateway d)
     \<and> storable_list wide (dh_bypass_dns d)"

lemma dhcp_reads:
  assumes "storable_dhcp wide d"
  shows "reads_section (''dhcp'', dhcp_entries (quote_text wide) d) (''dhcp'', dhcp_entries (\<lambda>s. s) d)"
  using assms
  by (simp add: reads_section_def dhcp_entries_def reads_entry_def key_word_eval storable_dhcp_def storable_word_def
      readable_quoted readable_bool readable_uint int_text_facts storable_list_def storable_upstreams_text)

lemma dhcp_applies:
  assumes "storable_dhcp wide d"
  shows "apply_entries ''dhcp'' (dhcp_entries (\<lambda>s. s) d) c = Inr (c\<lparr>cf_dhcp := d\<rparr>)"
  using assms
  by (simp add: dhcp_entries_def entry_run key_lookup dhcp_keys_def key_setters storable_dhcp_def
      storable_word_def int_text_facts storable_list_def storable_upstreams_def split_comma_join render_upstreams_read parse_uint0_text
      del: map_of_append)

definition storable_policy :: "(nat \<Rightarrow> bool) \<Rightarrow> policy_section \<Rightarrow> bool" where
  "storable_policy wide p \<longleftrightarrow>
     storable wide (dp_path p) \<and> storable_list wide (dp_protected p)"

lemma policy_reads:
  assumes "storable_policy wide p"
  shows "reads_section (''device_policy'', policy_entries (quote_text wide) p) (''device_policy'', policy_entries (\<lambda>s. s) p)"
  using assms
  by (simp add: reads_section_def policy_entries_def reads_entry_def key_word_eval storable_policy_def storable_word_def
      readable_quoted readable_bool readable_uint int_text_facts storable_list_def storable_upstreams_text)

lemma policy_applies:
  assumes "storable_policy wide p"
  shows "apply_entries ''device_policy'' (policy_entries (\<lambda>s. s) p) c = Inr (c\<lparr>cf_policy := (cf_policy c)\<lparr>dp_path := dp_path p, dp_protected := dp_protected p\<rparr>\<rparr>)"
  using assms
  by (simp add: policy_entries_def entry_run key_lookup policy_keys_def key_setters storable_policy_def
      storable_word_def int_text_facts storable_list_def storable_upstreams_def split_comma_join render_upstreams_read parse_uint0_text
      del: map_of_append)

definition storable_dns :: "(nat \<Rightarrow> bool) \<Rightarrow> dns_section \<Rightarrow> bool" where
  "storable_dns wide d \<longleftrightarrow>
     storable wide (dn_listen d) \<and> int64 (dn_port d) \<and> storable wide (dn_upstream d) \<and> storable wide (dn_mode d)
     \<and> storable_upstreams wide (dn_upstreams d) \<and> storable_upstreams wide (dn_node_upstreams d)
     \<and> storable wide (dn_proxy_target d)"

lemma dns_reads:
  assumes "storable_dns wide d"
  shows "reads_section (''dns'', dns_entries (quote_text wide) d) (''dns'', dns_entries (\<lambda>s. s) d)"
  using assms
  by (simp add: reads_section_def dns_entries_def reads_entry_def key_word_eval storable_dns_def storable_word_def
      readable_quoted readable_bool readable_uint int_text_facts storable_list_def storable_upstreams_text)

lemma dns_applies:
  assumes "storable_dns wide d"
  shows "apply_entries ''dns'' (dns_entries (\<lambda>s. s) d) c = Inr (c\<lparr>cf_dns := d\<rparr>)"
  using assms
  by (simp add: dns_entries_def entry_run key_lookup dns_keys_def key_setters storable_dns_def
      storable_word_def int_text_facts storable_list_def storable_upstreams_def split_comma_join render_upstreams_read parse_uint0_text
      del: map_of_append)

definition storable_mihomo :: "(nat \<Rightarrow> bool) \<Rightarrow> mihomo_section \<Rightarrow> bool" where
  "storable_mihomo wide m \<longleftrightarrow>
     storable wide (mi_binary m) \<and> storable wide (mi_config m) \<and> storable_word wide (mi_profile_mode m)
     \<and> storable wide (mi_profile m) \<and> storable wide (mi_source_digest m) \<and> storable wide (mi_overlay_digest m)
     \<and> int64 (mi_mixed_port m) \<and> int64 (mi_redir_port m) \<and> storable wide (mi_api_addr m) \<and> storable wide (mi_secret m)"

lemma mihomo_reads:
  assumes "storable_mihomo wide m"
  shows "reads_section (''mihomo'', mihomo_entries (quote_text wide) m) (''mihomo'', mihomo_entries (\<lambda>s. s) m)"
  using assms
  by (simp add: reads_section_def mihomo_entries_def reads_entry_def key_word_eval storable_mihomo_def storable_word_def
      readable_quoted readable_bool readable_uint int_text_facts storable_list_def storable_upstreams_text)

lemma mihomo_applies:
  assumes "storable_mihomo wide m"
  shows "apply_entries ''mihomo'' (mihomo_entries (\<lambda>s. s) m) c = Inr (c\<lparr>cf_mihomo := m\<rparr>)"
  using assms
  by (simp add: mihomo_entries_def entry_run key_lookup mihomo_keys_def key_setters storable_mihomo_def
      storable_word_def int_text_facts storable_list_def storable_upstreams_def split_comma_join render_upstreams_read parse_uint0_text
      del: map_of_append)

definition storable_tailscale :: "(nat \<Rightarrow> bool) \<Rightarrow> tailscale_section \<Rightarrow> bool" where
  "storable_tailscale wide t \<longleftrightarrow>
     storable wide (ts_display_name t) \<and> storable_word wide (ts_hostname t) \<and> storable wide (ts_control_url t)
     \<and> storable wide (ts_auth_key_file t) \<and> storable wide (ts_state_dir t) \<and> storable_list wide (ts_suffixes t)
     \<and> to_lower (join '','' (ts_suffixes t)) = join '','' (ts_suffixes t)
     \<and> storable_list wide (ts_peer_cidrs t) \<and> storable_list wide (ts_subnet_routes t)
     \<and> storable_list wide (ts_allowed_devices t) \<and> storable wide (ts_exit_node t)"

lemma tailscale_reads:
  assumes "storable_tailscale wide t"
  shows "reads_section (''tailscale'', tailscale_entries (quote_text wide) t) (''tailscale'', tailscale_entries (\<lambda>s. s) t)"
  using assms
  by (simp add: reads_section_def tailscale_entries_def reads_entry_def key_word_eval storable_tailscale_def storable_word_def
      readable_quoted readable_bool readable_uint int_text_facts storable_list_def storable_upstreams_text)

lemma tailscale_applies:
  assumes "storable_tailscale wide t"
  shows "apply_entries ''tailscale'' (tailscale_entries (\<lambda>s. s) t) c = Inr (c\<lparr>cf_tailscale := t\<rparr>)"
  using assms
  by (simp add: tailscale_entries_def entry_run key_lookup tailscale_keys_def key_setters storable_tailscale_def
      storable_word_def int_text_facts storable_list_def storable_upstreams_def split_comma_join render_upstreams_read parse_uint0_text
      del: map_of_append)

definition storable_nftables :: "(nat \<Rightarrow> bool) \<Rightarrow> transparent_section \<Rightarrow> bool" where
  "storable_nftables wide t \<longleftrightarrow>
     storable wide (tr_nft_table t)"

lemma nftables_reads:
  assumes "storable_nftables wide t"
  shows "reads_section (''nftables'', nftables_entries (quote_text wide) t) (''nftables'', nftables_entries (\<lambda>s. s) t)"
  using assms
  by (simp add: reads_section_def nftables_entries_def reads_entry_def key_word_eval storable_nftables_def storable_word_def
      readable_quoted readable_bool readable_uint int_text_facts storable_list_def storable_upstreams_text)

lemma nftables_applies:
  assumes "storable_nftables wide t"
  shows "apply_entries ''nftables'' (nftables_entries (\<lambda>s. s) t) c = Inr (c\<lparr>cf_transparent := (cf_transparent c)\<lparr>tr_nft_table := tr_nft_table t, tr_fw_mark := tr_fw_mark t,
      tr_route_table := tr_route_table t, tr_rule_priority := tr_rule_priority t\<rparr>\<rparr>)"
  using assms
  by (simp add: nftables_entries_def entry_run key_lookup nftables_keys_def key_setters storable_nftables_def
      storable_word_def int_text_facts storable_list_def storable_upstreams_def split_comma_join render_upstreams_read parse_uint0_text
      del: map_of_append)

definition storable_transparent :: "(nat \<Rightarrow> bool) \<Rightarrow> transparent_section \<Rightarrow> bool" where
  "storable_transparent wide t \<longleftrightarrow>
     storable_word wide (tr_mode t) \<and> storable wide (tr_tun_device t) \<and> storable_word wide (tr_tun_stack t)
     \<and> storable_word wide (tr_tun_ipv6 t) \<and> storable wide (tr_broker_binary t) \<and> int64 (tr_packet_mtu t)"

lemma transparent_reads:
  assumes "storable_transparent wide t"
  shows "reads_section (''transparent'', transparent_entries (quote_text wide) t) (''transparent'', transparent_entries (\<lambda>s. s) t)"
  using assms
  by (simp add: reads_section_def transparent_entries_def reads_entry_def key_word_eval storable_transparent_def storable_word_def
      readable_quoted readable_bool readable_uint int_text_facts storable_list_def storable_upstreams_text)

lemma transparent_applies:
  assumes "storable_transparent wide t"
  shows "apply_entries ''transparent'' (transparent_entries (\<lambda>s. s) t) c = Inr (c\<lparr>cf_transparent := t\<lparr>tr_nft_table := tr_nft_table (cf_transparent c), tr_fw_mark := tr_fw_mark (cf_transparent c),
      tr_route_table := tr_route_table (cf_transparent c), tr_rule_priority := tr_rule_priority (cf_transparent c)\<rparr>\<rparr>)"
  using assms
  by (simp add: transparent_entries_def entry_run key_lookup transparent_keys_def key_setters storable_transparent_def
      storable_word_def int_text_facts storable_list_def storable_upstreams_def split_comma_join render_upstreams_read parse_uint0_text
      del: map_of_append)

definition storable_upstream :: "(nat \<Rightarrow> bool) \<Rightarrow> upstream_section \<Rightarrow> bool" where
  "storable_upstream wide p \<longleftrightarrow>
     storable wide (px_name p) \<and> storable_word wide (px_type p) \<and> storable wide (px_server p) \<and> int64 (px_port p)
     \<and> storable wide (px_username p) \<and> storable wide (px_password p) \<and> storable_word wide (px_match_domain p)"

lemma upstream_reads:
  assumes "storable_upstream wide p"
  shows "reads_section (''upstream_proxy'', upstream_entries (quote_text wide) p) (''upstream_proxy'', upstream_entries (\<lambda>s. s) p)"
  using assms
  by (simp add: reads_section_def upstream_entries_def reads_entry_def key_word_eval storable_upstream_def storable_word_def
      readable_quoted readable_bool readable_uint int_text_facts storable_list_def storable_upstreams_text)

lemma upstream_applies:
  assumes "storable_upstream wide p"
  shows "apply_entries ''upstream_proxy'' (upstream_entries (\<lambda>s. s) p) c = Inr (c\<lparr>cf_upstream := p\<rparr>)"
  using assms
  by (simp add: upstream_entries_def entry_run key_lookup proxy_keys_def key_setters storable_upstream_def
      storable_word_def int_text_facts storable_list_def storable_upstreams_def split_comma_join render_upstreams_read parse_uint0_text
      del: map_of_append)

subsection \<open>The document\<close>

definition storable_config :: "(nat \<Rightarrow> bool) \<Rightarrow> config \<Rightarrow> bool" where
  "storable_config wide cfg \<longleftrightarrow>
     storable_gateway wide (cf_gateway cfg) \<and> storable_dhcp wide (cf_dhcp cfg) \<and> storable_policy wide (cf_policy cfg)
     \<and> storable_dns wide (cf_dns cfg) \<and> storable_mihomo wide (cf_mihomo cfg) \<and> storable_tailscale wide (cf_tailscale cfg)
     \<and> storable_nftables wide (cf_transparent cfg) \<and> storable_transparent wide (cf_transparent cfg)
     \<and> int64 (lp_socks_port (cf_lan_proxy cfg)) \<and> storable_upstream wide (cf_upstream cfg)
     \<and> storable wide (cf_runtime_dir cfg)"

text \<open>What a written configuration keeps: everything but the LAN CIDR and the policy prepared in memory.\<close>

definition reread :: "config \<Rightarrow> config" where
  "reread cfg =
     cfg\<lparr>cf_gateway := (cf_gateway cfg)\<lparr>ga_prefix_len := prefix_len_or_default (ga_prefix_len (cf_gateway cfg)),
           ga_lan_cidr := []\<rparr>,
         cf_policy := (cf_policy cfg)\<lparr>dp_bundle := None, dp_selection_cache := []\<rparr>\<rparr>"

lemma config_reads:
  assumes "storable_config wide cfg"
  shows "list_all2 reads_section (config_sections (quote_text wide) cfg) (config_sections (\<lambda>s. s) cfg)"
  unfolding config_sections_def
  using assms gateway_reads dhcp_reads policy_reads dns_reads mihomo_reads tailscale_reads nftables_reads
    transparent_reads upstream_reads
  by (simp add: storable_config_def)
    (simp add: reads_section_def reads_entry_def key_word_eval readable_bool readable_quoted int_text_facts)

lemma proxy_applies:
  "apply_entries ''local_system_proxy'' [(''enabled'', bool_text b)] c = Inr (c\<lparr>cf_local_proxy := b\<rparr>)"
  "int64 n \<Longrightarrow> apply_entries ''lan_proxy'' [(''enabled'', bool_text b), (''socks_port'', int_text n)] c
     = Inr (c\<lparr>cf_lan_proxy := \<lparr>lp_enabled = b, lp_socks_port = n\<rparr>\<rparr>)"
  "apply_entries ''runtime'' [(''dir'', v)] c = Inr (c\<lparr>cf_runtime_dir := v\<rparr>)"
  by (simp_all add: entry_run key_lookup proxy_keys_def key_setters int_text_facts del: map_of_append)

lemma config_applies:
  assumes "storable_config wide cfg"
  shows "apply_sections (config_sections (\<lambda>s. s) cfg) default_config = Inr (reread cfg)"
  using assms unfolding storable_config_def config_sections_def
  by (simp add: gateway_applies [of wide] dhcp_applies [of wide] policy_applies [of wide] dns_applies [of wide]
      mihomo_applies [of wide] tailscale_applies [of wide] nftables_applies [of wide] transparent_applies [of wide]
      upstream_applies [of wide] proxy_applies)
    (simp add: reread_def default_config_def)

lemma parse_rendered:
  assumes "storable_config wide cfg"
  shows "parse_config (render_config wide cfg) = Inr (reread cfg)"
proof -
  let ?ss = "config_sections (quote_text wide) cfg"
  note reads = config_reads [OF assms]
  have "render_config wide cfg = text_of_lines (document_lines ?ss)"
    unfolding render_config_def by (rule text_of_document) (simp add: config_sections_def)
  moreover have "raw_lines (text_of_lines (document_lines ?ss)) = document_lines ?ss"
    by (rule raw_text_of_lines) (use document_lines_plain [OF reads] in blast)
  moreover obtain sec where "config_lines 1 (document_lines ?ss) ([], default_config) = Inr (sec, reread cfg)"
    using config_lines_document [OF reads config_applies [OF assms]] by blast
  ultimately show ?thesis by (simp add: parse_config_def)
qed

end
