(* ===== verification/ConfigReload.thy ===== *)
theory ConfigReload
  imports ConfigDocument
begin

text \<open>
  Loading what was saved: the facts that let \<open>Load\<close>, \<open>Render\<close> and \<open>Load\<close> again be compared, from the parsed
  document over path resolution and normalisation to validation.
\<close>

subsection \<open>What a file cannot set\<close>

definition fresh_policy :: "config \<Rightarrow> bool" where
  "fresh_policy c \<longleftrightarrow> dp_bundle (cf_policy c) = None \<and> dp_selection_cache (cf_policy c) = []"

lemma config_keys_fresh: "\<forall>f \<in> set (map snd config_keys). \<forall>v c c'. f v c = Inr c' \<longrightarrow> fresh_policy c \<longrightarrow> fresh_policy c'"
  by (simp add: config_keys_def gateway_keys_def dhcp_keys_def policy_keys_def dns_keys_def mihomo_keys_def
      tailscale_keys_def nftables_keys_def transparent_keys_def proxy_keys_def key_setters fresh_policy_def
      split: option.split)

lemma apply_value_fresh: "apply_value c sec k v = Inr c' \<Longrightarrow> fresh_policy c \<Longrightarrow> fresh_policy c'"
  using config_keys_fresh by (force simp: apply_value_def split: option.splits dest: map_of_SomeD)

lemma config_line_fresh: "config_line l st = Inr st' \<Longrightarrow> fresh_policy (snd st) \<Longrightarrow> fresh_policy (snd st')"
  by (cases st, cases st')
    (auto simp: config_line_def Let_def rbind_eq_Inr_iff split: if_splits option.splits intro: apply_value_fresh)

lemma config_lines_fresh: "config_lines n ls st = Inr st' \<Longrightarrow> fresh_policy (snd st) \<Longrightarrow> fresh_policy (snd st')"
  by (induction n ls st rule: config_lines.induct) (auto dest: config_line_fresh split: if_splits sum.splits)

lemma parse_config_fresh: "parse_config text = Inr c \<Longrightarrow> fresh_policy c"
  by (auto simp: parse_config_def rbind_eq_Inr_iff fresh_policy_def default_config_def dest!: config_lines_fresh)

subsection \<open>The LAN a configuration describes\<close>

lemma ipv4_text_ends:
  assumes "length a = 4"
  shows "list_all printable (ipv4_string a)" "ipv4_string a \<noteq> []"
proof -
  from assms obtain p q r s where a: "a = [p, q, r, s]" by (rule length4E)
  have "list_all printable (itoa n)" for n using itoa_digits [of n] digit_printable by (auto simp: list_all_iff)
  then show "list_all printable (ipv4_string a)" "ipv4_string a \<noteq> []"
    by (simp_all add: a ipv4_string_def printable_def itoa_not_Nil)
qed

lemma scope_network_text:
  assumes "wf_scope n s"
  shows "network_text (sc_network s) = scope_string s"
proof -
  note f = wf_scope_facts [OF assms]
  have n: "8 \<le> n" "n \<le> 30" using assms by (auto simp: wf_scope_def)
  have "simple_mask_len (cidr_mask n 32) \<noteq> None"
    using mask_size_cidr_mask [OF n] n by (auto simp: mask_size_def split: option.splits)
  from network_text_ipv4 [OF f(5) f(1,3) this] show ?thesis by (simp add: scope_string_def)
qed

lemma trim_scope_string:
  assumes "wf_scope n s"
  shows "trim_space (scope_string s) = scope_string s"
proof -
  note f = wf_scope_facts [OF assms]
  have n: "8 \<le> n" "n \<le> 30" using assms by (auto simp: wf_scope_def)
  have ne: "net_ip (sc_network s) \<noteq> []" "cidr_mask n 32 \<noteq> []" using f(1,3) by auto
  have str: "scope_string s = ipv4_string (net_ip (sc_network s)) @ ''/'' @ itoa n"
    using n ne by (simp add: scope_string_def ipnet_string_def f(5) mask_size_cidr_mask)
  have "list_all printable (itoa n)" using itoa_digits [of n] digit_printable by (auto simp: list_all_iff)
  then have "list_all printable (scope_string s)"
    using ipv4_text_ends(1) [OF f(1)] by (simp add: str printable_def)
  then show ?thesis by (rule trim_space_printable)
qed

subsection \<open>A change of the LAN CIDR and of the spelling of the prefix\<close>

definition respell :: "string \<Rightarrow> config \<Rightarrow> config" where
  "respell cidr c = c\<lparr>cf_gateway := (cf_gateway c)\<lparr>ga_prefix_len := prefix_len_or_default (ga_prefix_len (cf_gateway c)),
     ga_lan_cidr := cidr\<rparr>\<rparr>"

lemma respell_simps [simp]:
  "cf_dhcp (respell x c) = cf_dhcp c" "cf_policy (respell x c) = cf_policy c" "cf_dns (respell x c) = cf_dns c"
  "cf_mihomo (respell x c) = cf_mihomo c" "cf_tailscale (respell x c) = cf_tailscale c"
  "cf_transparent (respell x c) = cf_transparent c" "cf_local_proxy (respell x c) = cf_local_proxy c"
  "cf_lan_proxy (respell x c) = cf_lan_proxy c" "cf_upstream (respell x c) = cf_upstream c"
  "cf_runtime_dir (respell x c) = cf_runtime_dir c" "ga_mode (cf_gateway (respell x c)) = ga_mode (cf_gateway c)"
  "ga_interface (cf_gateway (respell x c)) = ga_interface (cf_gateway c)"
  "ga_upstream_interface (cf_gateway (respell x c)) = ga_upstream_interface (cf_gateway c)"
  "ga_lan_ip (cf_gateway (respell x c)) = ga_lan_ip (cf_gateway c)"
  "ga_lan_cidr (cf_gateway (respell x c)) = x"
  "ga_prefix_len (cf_gateway (respell x c)) = prefix_len_or_default (ga_prefix_len (cf_gateway c))"
  by (simp_all add: respell_def)

lemma prefix_len_or_default_idem: "prefix_len_or_default (prefix_len_or_default n) = prefix_len_or_default n"
  by (simp add: prefix_len_or_default_def default_prefix_len_def)

lemma lan_scope_respell [simp]: "lan_scope (respell x c) = lan_scope c"
  by (simp add: lan_scope_def new_scope_def prefix_len_or_default_idem Let_def)

lemma with_policy_respell: "with_policy f (respell x c) = respell x (with_policy f c)"
  by (simp add: with_policy_def respell_def)

lemma shares_lan_respell [simp]: "shares_lan (cf_gateway (respell x c)) = shares_lan (cf_gateway c)"
  by (simp add: shares_lan_def)

lemma prepare_respell:
  "prepare_device_policy env (respell x c) = map_sum id (respell x) (prepare_device_policy env c)"
  by (simp add: prepare_device_policy_def set_selection_cache_def ip_only_devices_active_def Let_def
      with_policy_respell split: sum.split option.split)

text \<open>The parts of a configuration the DNS checks read.\<close>

definition same_dns_inputs :: "config \<Rightarrow> config \<Rightarrow> bool" where
  "same_dns_inputs c d \<longleftrightarrow>
     cf_dns c = cf_dns d \<and> ga_lan_ip (cf_gateway c) = ga_lan_ip (cf_gateway d) \<and> cf_mihomo c = cf_mihomo d
     \<and> cf_lan_proxy c = cf_lan_proxy d"

lemma resolver_inputs:
  assumes "same_dns_inputs c d"
  shows "validate_resolver_config url c = validate_resolver_config url d"
proof -
  have eq: "cf_dns c = cf_dns d" "ga_lan_ip (cf_gateway c) = ga_lan_ip (cf_gateway d)" "cf_mihomo c = cf_mihomo d"
    "cf_lan_proxy c = cf_lan_proxy d"
    using assms by (simp_all add: same_dns_inputs_def)
  have address: "check_endpoint_address c = check_endpoint_address d"
    unfolding fun_eq_iff check_endpoint_address_def valid_resolver_ipv4_def eq by simp
  have parse: "parse_resolver_upstream url up c = parse_resolver_upstream url up d" for up
    unfolding parse_resolver_upstream_def address ..
  have checks: "upstream_key url c = upstream_key url d" "check_view_upstream url c = check_view_upstream url d"
    "check_node_upstream url c = check_node_upstream url d" "check_reserved_port c = check_reserved_port d"
    "encrypted_upstream url c = encrypted_upstream url d"
    unfolding fun_eq_iff upstream_key_def check_view_upstream_def check_node_upstream_def check_reserved_port_def
      encrypted_upstream_def parse eq
    by simp_all
  show ?thesis
    unfolding validate_resolver_config_def node_upstreams_def proxy_node_resolver_upstreams_def checks eq ..
qed

lemma resolver_respell: "validate_resolver_config url (respell x c) = validate_resolver_config url c"
  by (rule resolver_inputs) (simp add: same_dns_inputs_def)

lemma stages_respell:
  "validate_dns env (respell x c) = validate_dns env c"
  "validate_ipv6_topology (respell x c) = validate_ipv6_topology c"
  "validate_lan_proxy (respell x c) = validate_lan_proxy c"
  "validate_topology_mode (respell x c) = validate_topology_mode c"
  by (simp_all only: validate_dns_def validate_ipv6_topology_def validate_lan_proxy_def validate_topology_mode_def
      resolver_respell respell_simps shares_lan_respell Let_def)

lemma services_respell:
  assumes "validate_services env b s c = None" "parse_cidr (trim_space x) \<noteq> None" "\<not> blank x"
  shows "validate_services env b s (respell x c) = None"
proof -
  have "validate_lan_cidr (cf_gateway (respell x c)) s = None"
    using assms(2,3) by (simp add: validate_lan_cidr_def)
  with assms(1) show ?thesis by (simp add: validate_services_def stages_respell)
qed

lemma device_policy_respell: "validate_device_policy env (respell x c) = validate_device_policy env c"
  unfolding fun_eq_iff validate_device_policy_def check_device_policy_def validate_router_bypass_def
    ip_only_devices_active_def respell_simps by simp

lemma policy_stage_respell:
  "validate_policy_stage env b s (respell x c) = map_sum id (respell x) (validate_policy_stage env b s c)"
  by (cases "prepare_device_policy env c")
    (simp_all add: validate_policy_stage_def prepare_respell device_policy_respell split: option.split)

lemma validate_respell:
  assumes "validate_config env b c = None" "parse_cidr (trim_space x) \<noteq> None" "\<not> blank x"
  shows "validate_config env b (respell x c) = None"
proof -
  from assms(1) obtain s where s: "lan_scope c = Inr s" "validate_gateway (cf_gateway c) = None"
    by (auto simp: validate_config_def split: sum.splits)
  have "validate_gateway (cf_gateway (respell x c)) = None"
    using s(2) by (auto simp: validate_gateway_def prefix_len_or_default_def default_prefix_len_def valid_prefix_len_def
        min_prefix_len_def max_prefix_len_def)
  with assms s(1) show ?thesis
    by (auto simp: validate_config_def policy_stage_respell split: sum.splits intro!: services_respell)
qed

subsection \<open>Normal forms\<close>

definition normal_form :: "config \<Rightarrow> bool" where
  "normal_form c \<longleftrightarrow>
     default_priority (cf_transparent c) = cf_transparent c \<and> retire_ipv6 (cf_transparent c) = cf_transparent c
     \<and> normalize_dns (cf_dns c) = cf_dns c \<and> \<not> tr_auto_route (cf_transparent c)"

lemma normalize_dns_idem: "normalize_dns (normalize_dns d) = normalize_dns d"
  by (simp add: normalize_dns_def trim_upstream_def o_def)

lemma transparent_normal:
  "default_priority (retire_ipv6 (default_priority t)) = retire_ipv6 (default_priority t)"
  "retire_ipv6 (retire_ipv6 t) = retire_ipv6 t" "tr_auto_route (retire_ipv6 t) = tr_auto_route t"
  by (simp_all add: default_priority_def retire_ipv6_def)

lemma normalize_shape:
  assumes "normalize c = Inr c'"
  shows "\<exists>cidr. normalize_cidr c = Inr cidr \<and> \<not> tr_auto_route (default_priority (cf_transparent c))
    \<and> c' = c\<lparr>cf_gateway := (cf_gateway c)\<lparr>ga_lan_cidr := cidr\<rparr>, cf_dns := normalize_dns (cf_dns c),
              cf_transparent := retire_ipv6 (default_priority (cf_transparent c))\<rparr>"
  using assms
  by (auto simp: normalize_def Let_def rbind_eq_Inr_iff normalize_cidr_def lan_scope_def split: if_splits sum.splits)

lemma normalize_normal_form: "normalize c = Inr c' \<Longrightarrow> normal_form c'"
  by (drule normalize_shape)
    (auto simp: normal_form_def normalize_dns_idem transparent_normal)

lemma normalize_blank_cidr:
  assumes "normal_form c" "lan_scope c = Inr s" "wf_scope n s"
  shows "normalize (respell [] c) = Inr (respell (scope_string s) c)"
proof -
  have "normalize_cidr (respell [] c) = Inr (scope_string s)"
    using assms(2) by (simp add: normalize_cidr_def scope_network_text [OF assms(3)])
  then have "normalize_cidr (respell [] c\<lparr>cf_transparent := cf_transparent c\<rparr>) = Inr (scope_string s)"
    by (simp add: respell_def)
  then show ?thesis
    using assms(1) by (simp add: normalize_def normal_form_def) (simp add: respell_def)
qed

lemma normalize_fresh: "normalize c = Inr c' \<Longrightarrow> cf_policy c' = cf_policy c \<and> lan_scope c' = lan_scope c
    \<and> cf_mihomo c' = cf_mihomo c \<and> cf_tailscale c' = cf_tailscale c"
  by (drule normalize_shape) (auto simp: lan_scope_def)

subsection \<open>Paths\<close>

definition resolved_paths :: "config \<Rightarrow> bool" where
  "resolved_paths c \<longleftrightarrow>
     (\<forall>p \<in> {mi_profile (cf_mihomo c), dp_path (cf_policy c), ts_auth_key_file (cf_tailscale c), ts_state_dir (cf_tailscale c)}.
        p = [] \<or> is_abs_path p)"

lemma absolute_from_abs: "is_abs_path config_path \<Longrightarrow> absolute_from config_path p = [] \<or> is_abs_path (absolute_from config_path p)"
  by (auto simp: absolute_from_def intro!: path_join_abs path_dir_abs)

lemma resolve_resolved: "is_abs_path config_path \<Longrightarrow> resolved_paths (resolve_relative_paths config_path c)"
  using absolute_from_abs by (simp add: resolved_paths_def resolve_relative_paths_def)

lemma resolve_again: "resolved_paths c \<Longrightarrow> resolve_relative_paths config_path c = c"
  by (auto simp: resolved_paths_def resolve_relative_paths_def absolute_from_def)

subsection \<open>The prepared policy\<close>

lemma prepare_changes_policy:
  assumes "prepare_device_policy env c = Inr c'"
  shows "c' = c\<lparr>cf_policy := cf_policy c'\<rparr>" "dp_path (cf_policy c') = dp_path (cf_policy c)"
    "dp_protected (cf_policy c') = dp_protected (cf_policy c)"
  using assms
  by (auto simp: prepare_device_policy_def set_selection_cache_def with_policy_def Let_def
      split: if_splits sum.splits option.splits)

lemma reread_prepared:
  assumes "fresh_policy c"
  shows "reread (c\<lparr>cf_policy := (cf_policy c)\<lparr>dp_bundle := bundle, dp_selection_cache := cache\<rparr>\<rparr>) = respell [] c"
  using assms by (simp add: reread_def respell_def fresh_policy_def)

lemma policy_section_eq:
  "dp_path p = dp_path q \<Longrightarrow> dp_protected p = dp_protected q \<Longrightarrow>
     p = (q :: policy_section)\<lparr>dp_bundle := dp_bundle p, dp_selection_cache := dp_selection_cache p\<rparr>"
  by (cases p; cases q) simp

subsection \<open>The other files stay as they are\<close>

lemma env_with_text:
  "ce_url (env\<lparr>ce_text_at := f\<rparr>) = ce_url env" "ce_lib (env\<lparr>ce_text_at := f\<rparr>) = ce_lib env"
  "ce_policy_at (env\<lparr>ce_text_at := f\<rparr>) = ce_policy_at env"
  by simp_all

lemmas policy_of_env = load_device_policy_bundle_def load_policy_set_def compiled_bundle_def prepare_device_policy_def

lemma prepare_same_files: "prepare_device_policy (env\<lparr>ce_text_at := f\<rparr>) c = prepare_device_policy env c"
  unfolding policy_of_env env_with_text ..

lemma validate_same_files: "validate_config (env\<lparr>ce_text_at := f\<rparr>) b c = validate_config env b c"
  unfolding validate_config_def validate_services_def validate_dns_def validate_policy_stage_def
    validate_device_policy_def check_device_policy_def policy_of_env env_with_text ..

subsection \<open>The round trip\<close>

lemma load_config_eq:
  "load_config env path b = Inr cfg \<longleftrightarrow>
     (\<exists>text cfg0 cfg1. ce_text_at env path = Some text \<and> parse_config text = Inr cfg0
       \<and> normalize (resolve_relative_paths path cfg0) = Inr cfg1
       \<and> (if b then prepare_device_policy env cfg1 else Inr cfg1) = Inr cfg \<and> validate_config env b cfg = None)"
proof -
  have sum: "(case r of Inl e \<Rightarrow> Inl (f e) | Inr x \<Rightarrow> g x) = Inr z \<longleftrightarrow> (\<exists>x. r = Inr x \<and> g x = Inr z)"
    for r :: "'e1 + config" and f :: "'e1 \<Rightarrow> load_error" and g z
    by (cases r) auto
  have opt: "(case r of None \<Rightarrow> Inr x | Some e \<Rightarrow> Inl (f e)) = Inr z \<longleftrightarrow> r = None \<and> x = z"
    for r :: "config_error option" and f :: "config_error \<Rightarrow> load_error" and x z :: config
    by (cases r) auto
  show ?thesis
    unfolding load_config_def by (cases "ce_text_at env path") (auto simp: rbind_eq_Inr_iff sum opt)
qed

lemma reload_respelled:
  assumes load: "load_config env path b = Inr cfg" and path: "is_abs_path path" and store: "storable_config wide cfg"
    and scope: "lan_scope cfg = Inr s"
  shows "load_config (env\<lparr>ce_text_at := (ce_text_at env)(path' \<mapsto> render_config wide cfg)\<rparr>) path' b
    = Inr (respell (scope_string s) cfg)"
proof -
  from load obtain t cfg0 cfg1 where parsed: "parse_config t = Inr cfg0"
    and normal: "normalize (resolve_relative_paths path cfg0) = Inr cfg1"
    and prepared: "(if b then prepare_device_policy env cfg1 else Inr cfg1) = Inr cfg"
    and valid: "validate_config env b cfg = None"
    unfolding load_config_eq by blast
  have fresh: "fresh_policy cfg1" and paths: "resolved_paths cfg1"
    using parse_config_fresh [OF parsed] resolve_resolved [OF path, of cfg0] normalize_fresh [OF normal]
    by (simp_all add: fresh_policy_def resolve_relative_paths_def resolved_paths_def)
  have cfg: "cfg = cfg1\<lparr>cf_policy := cf_policy cfg\<rparr>" "dp_path (cf_policy cfg) = dp_path (cf_policy cfg1)"
    "dp_protected (cf_policy cfg) = dp_protected (cf_policy cfg1)"
    using prepared prepare_changes_policy [of env cfg1 cfg] by (auto split: if_splits)
  have reread: "reread cfg = respell [] cfg1"
    using reread_prepared [OF fresh] policy_section_eq [OF cfg(2,3)] cfg(1) by metis
  have "lan_scope cfg1 = lan_scope cfg" using cfg(1) by (metis lan_scope_def config.select_convs(1) config.surjective config.update_convs(3))
  with scope have scope1: "lan_scope cfg1 = Inr s" by simp
  obtain n where wf: "wf_scope n s" using scope new_scope_wf unfolding lan_scope_def by blast
  have "resolved_paths (respell [] cfg1)" using paths by (simp add: resolved_paths_def)
  then have "normalize (resolve_relative_paths path' (reread cfg)) = Inr (respell (scope_string s) cfg1)"
    using normalize_blank_cidr [OF normalize_normal_form [OF normal] scope1 wf] by (simp add: reread resolve_again)
  moreover have "(if b then prepare_device_policy env (respell (scope_string s) cfg1) else Inr (respell (scope_string s) cfg1))
      = Inr (respell (scope_string s) cfg)"
    using prepared by (cases b) (simp_all add: prepare_respell)
  moreover have "validate_config env b (respell (scope_string s) cfg) = None"
    using validate_respell [OF valid] parse_cidr_scope_string [OF wf] scope_string_nonempty [OF wf]
    by (simp add: trim_scope_string [OF wf] blank_def)
  ultimately show ?thesis
    unfolding load_config_eq prepare_same_files validate_same_files using parse_rendered [OF store] by simp
qed

end
