(* ===== verification/ConfigFacts.thy ===== *)
theory ConfigFacts
  imports ConfigReload
begin

text \<open>
  What the checks of the configuration amount to: the order of addresses as numbers, what lies between
  the ends of the DHCP pool, prefixes that meet the LAN, the effect of quoting, and the parts of
  \<open>validate\<close> that hold once it has returned no error.
\<close>

subsection \<open>The DHCP pool\<close>

lemma unat_high_byte:
  fixes x :: byte and v :: "32 word"
  assumes v: "unat v < 2 ^ k" and k: "k \<le> 24"
  shows "unat (push_bit k (ucast x) OR v) = unat x * 2 ^ k + unat v"
    and "unat (push_bit k (ucast x) OR v) < 2 ^ (k + 8)"
proof -
  have x: "unat x < 2 ^ 8" using unsigned_less [of x, where ?'a = nat] by simp
  have prod: "unat x * 2 ^ k + unat v < 2 ^ (k + 8)"
  proof -
    have "unat x * 2 ^ k + unat v < (unat x + 1) * 2 ^ k" using v by simp
    also have "\<dots> \<le> 2 ^ 8 * 2 ^ k" using x by (intro mult_right_mono) simp_all
    finally show ?thesis by (simp add: power_add mult.commute)
  qed
  have top: "(2 :: nat) ^ (k + 8) \<le> 2 ^ 32" using k by (intro power_increasing) simp_all
  have hi: "unat (push_bit k (ucast x) :: 32 word) = unat x * 2 ^ k"
  proof -
    have "push_bit k (ucast x) = (word_of_nat (unat x * 2 ^ k) :: 32 word)"
      by (simp add: push_bit_eq_mult unsigned_ucast_eq)
    moreover have "unat x * 2 ^ k < 2 ^ 32" using prod top by linarith
    moreover have "unat (word_of_nat n :: 32 word) = n" if "n < 2 ^ 32" for n
      using that by (simp add: unsigned_of_nat take_bit_nat_eq_self)
    ultimately show ?thesis by metis
  qed
  have "push_bit k (ucast x) AND v = 0"
  proof (rule bit_word_eqI)
    fix i assume "i < LENGTH(32)"
    have "take_bit k v = v"
      using v by (simp add: word_unat_eq_iff unsigned_take_bit_eq take_bit_nat_eq_self)
    then have "\<not> bit v i" if "k \<le> i"
      using that by (metis bit_take_bit_iff not_le)
    then show "bit (push_bit k (ucast x) AND v) i = bit (0 :: 32 word) i"
      by (auto simp: bit_simps)
  qed
  then have "push_bit k (ucast x) OR v = push_bit k (ucast x) + v"
    by (rule disjunctive_add_eq_or [symmetric])
  moreover have "unat (push_bit k (ucast x) + v) = unat x * 2 ^ k + unat v"
    using prod top hi by (subst unat_word_ariths(1)) simp
  ultimately show "unat (push_bit k (ucast x) OR v) = unat x * 2 ^ k + unat v" by simp
  with prod show "unat (push_bit k (ucast x) OR v) < 2 ^ (k + 8)" by simp
qed

lemma unat_to_uint32:
  "unat (to_uint32 [a, b, c, d]) = unat a * 2 ^ 24 + (unat b * 2 ^ 16 + (unat c * 2 ^ 8 + unat d))"
proof -
  have d: "unat (ucast d :: 32 word) = unat d" "unat (ucast d :: 32 word) < 2 ^ 8"
    using unsigned_less [of d, where ?'a = nat] by (simp_all add: unsigned_ucast_eq take_bit_nat_eq_self)
  note c = unat_high_byte [OF d(2), of c]
  have "unat (push_bit 8 (ucast c) OR ucast d :: 32 word) < 2 ^ 16" using c(2) by simp
  note b = unat_high_byte [OF this, of b]
  have "unat (push_bit 16 (ucast b) OR (push_bit 8 (ucast c) OR ucast d) :: 32 word) < 2 ^ 24" using b(2) by simp
  note a = unat_high_byte [OF this, of a]
  show ?thesis
    using a(1) b(1) c(1) d(1) by (simp add: to_uint32_def or.assoc)
qed

lemma compare_ipv4_words:
  assumes "length a = 4" "length b = 4"
  shows "compare_ipv4 a b \<le> 0 \<longleftrightarrow> to_uint32 a \<le> to_uint32 b" "compare_ipv4 a b \<ge> 0 \<longleftrightarrow> to_uint32 b \<le> to_uint32 a"
    "compare_ipv4 a b > 0 \<longleftrightarrow> to_uint32 b < to_uint32 a"
proof -
  from assms obtain p q r s p' q' r' s' where a: "a = [p, q, r, s]" and b: "b = [p', q', r', s']"
    using length4E by metis
  have le: "unat x \<le> 255" for x :: byte by (rule unat_byte_le)
  note bounds = le [of p] le [of q] le [of r] le [of s] le [of p'] le [of q'] le [of r'] le [of s']
  have lt: "x < y \<longleftrightarrow> unat x < unat y" for x y :: byte by (rule word_less_nat_alt)
  show "compare_ipv4 a b \<le> 0 \<longleftrightarrow> to_uint32 a \<le> to_uint32 b" "compare_ipv4 a b \<ge> 0 \<longleftrightarrow> to_uint32 b \<le> to_uint32 a"
    "compare_ipv4 a b > 0 \<longleftrightarrow> to_uint32 b < to_uint32 a"
    unfolding word_le_nat_alt word_less_nat_alt a b unat_to_uint32
    using bounds by (auto simp: lt)
qed

text \<open>Between two usable hosts there are only usable hosts.\<close>

lemma net_part_div:
  fixes v w :: "32 word"
  shows "v AND NOT (mask k) = w AND NOT (mask k) \<longleftrightarrow> unat v div 2 ^ k = unat w div 2 ^ k"
proof -
  have "unat (drop_bit k x) = unat x div 2 ^ k" for x :: "32 word"
  proof -
    have "unat (drop_bit k x) = drop_bit k (take_bit LENGTH(32) (unat x))" by (rule unsigned_drop_bit_eq)
    also have "\<dots> = unat x div 2 ^ k"
      using unsigned_less [of x, where ?'a = nat] by (simp add: drop_bit_eq_div take_bit_nat_eq_self)
    finally show ?thesis .
  qed
  then show ?thesis by (metis net_part_iff_drop_bit word_unat_eq_iff)
qed

lemma host_part_mod: "host_part n v = unat v mod 2 ^ (32 - n)"
proof -
  have "unat (take_bit k x) = unat x mod 2 ^ k" for k and x :: "32 word"
    unfolding unsigned_take_bit_eq by (rule take_bit_eq_mod)
  then show ?thesis by (simp add: host_part_def take_bit_eq_mask)
qed

lemma scope_between:
  assumes wf: "wf_scope n s" and len: "length a = 4" "length b = 4" "length x = 4"
    and usable: "usable_host s a" "usable_host s b"
    and between: "to_uint32 a \<le> to_uint32 x" "to_uint32 x \<le> to_uint32 b"
  shows "usable_host s x"
proof -
  define P :: nat where "P = 2 ^ (32 - n)"
  define q where "q = unat (net_word s) div P"
  have four: "to4 y = y" "to4 y \<noteq> []" if "length y = 4" for y using that by (auto simp: to4_id)
  have contains: "scope_contains s y \<longleftrightarrow> unat (to_uint32 y) div P = q" if "length y = 4" for y
    unfolding scope_contains_word [OF wf four(2) [OF that]] four(1) [OF that] P_def q_def
    by (subst net_word_aligned [OF wf]) (rule net_part_div)
  have host: "usable_host s y \<longleftrightarrow> unat (to_uint32 y) div P = q \<and> unat (to_uint32 y) mod P \<noteq> 0
      \<and> unat (to_uint32 y) mod P \<noteq> P - 1" if "length y = 4" for y
    unfolding usable_host_word [OF wf four(2) [OF that]] four(1) [OF that] contains [OF that] host_part_mod P_def ..
  define u v w where "u = unat (to_uint32 a)" and "v = unat (to_uint32 x)" and "w = unat (to_uint32 b)"
  have uvw: "u \<le> v" "v \<le> w" using between by (simp_all add: u_def v_def w_def word_le_nat_alt)
  have ends: "u div P = q" "u mod P \<noteq> 0" "w div P = q" "w mod P \<noteq> P - 1"
    using usable host len by (simp_all add: u_def w_def)
  have q: "v div P = q" using uvw ends(1,3) div_le_mono [of u v P] div_le_mono [of v w P] by simp
  have "u = q * P + u mod P" "v = q * P + v mod P" "w = q * P + w mod P"
    using ends(1,3) q div_mult_mod_eq by metis+
  moreover have "w mod P < P" by (simp add: P_def)
  ultimately have "v mod P \<noteq> 0 \<and> v mod P \<noteq> P - 1"
    using uvw ends(2,4) by linarith
  with q show ?thesis by (simp add: host [OF len(3)] v_def)
qed

subsection \<open>Quoting\<close>

text \<open>Every quote and backslash of a printable text grows by one character.\<close>

definition ascii_printable :: "char \<Rightarrow> bool" where
  "ascii_printable c \<longleftrightarrow> 32 \<le> byte_of c \<and> byte_of c < 127"

definition escaped :: "char \<Rightarrow> bool" where
  "escaped c \<longleftrightarrow> c = CHR 0x22 \<or> c = CHR 0x5C"

lemma quote_body_printable:
  assumes "list_all ascii_printable s"
  shows "quote_body wide s = concat (map (\<lambda>c. if escaped c then [CHR 0x5C, c] else [c]) s)"
  using assms
proof (induction s)
  case (Cons c s)
  then have c: "32 \<le> byte_of c" "byte_of c < 127" by (auto simp: ascii_printable_def)
  have eq: "byte_of c = 0x22 \<longleftrightarrow> c = CHR 0x22" "byte_of c = 0x5C \<longleftrightarrow> c = CHR 0x5C"
    using of_char_eq_iff [of c "CHR 0x22"] of_char_eq_iff [of c "CHR 0x5C"] by simp_all
  have "escape_rune wide (byte_of c) = (if escaped c then [CHR 0x5C, c] else [c])"
    using c by (simp add: escape_rune_def is_print_def encode_rune_def escaped_def eq)
  moreover have "decode_rune (c # s) = (byte_of c, 1)" using c(2) by (simp add: decode_rune_def)
  ultimately show ?case
    using Cons c(2) by (simp add: quote_body.simps [of _ "c # s"] rune_error_def)
qed (simp add: quote_body.simps)

lemma unquote_quote: "unquote (quote_text wide s) = quote_body wide s"
  by (simp add: unquote_def quote_text_def)

lemma quote_body_length:
  "list_all ascii_printable s \<Longrightarrow> length (quote_body wide s) = length s + length (filter escaped s)"
  by (simp add: quote_body_printable) (induction s; simp)

subsection \<open>Prefixes and the LAN\<close>

lemma full_byte: "(255 :: byte) = mask 8"
  by (simp add: mask_eq_decr_exp)

lemma and_full_byte: "b AND 255 = (b :: byte)"
  unfolding full_byte by (rule bit_word_eqI) (simp only: bit_and_iff bit_mask_iff, simp)

lemma unat_masked_byte:
  fixes b :: byte
  assumes "n < 8"
  shows "unat (b AND NOT (drop_bit n 255)) = unat b div 2 ^ (8 - n) * 2 ^ (8 - n)"
proof -
  let ?k = "8 - n"
  have "drop_bit n (255 :: byte) = mask ?k"
  proof (rule bit_word_eqI)
    fix i assume "i < LENGTH(8)"
    then show "bit (drop_bit n (255 :: byte)) i = bit (mask ?k :: byte) i"
      unfolding full_byte bit_drop_bit_eq bit_mask_iff using assms by auto
  qed
  then have "b AND NOT (drop_bit n 255) = push_bit ?k (drop_bit ?k b)"
    by (intro bit_word_eqI) (auto simp: bit_simps)
  moreover have "unat (push_bit ?k (drop_bit ?k b)) = unat b div 2 ^ ?k * 2 ^ ?k"
  proof -
    have b: "unat b < 2 ^ 8" using unsigned_less [of b, where ?'a = nat] by simp
    have "unat (push_bit ?k (drop_bit ?k b)) = take_bit LENGTH(8) (push_bit ?k (unat (drop_bit ?k b)))"
      by (rule unsigned_push_bit_eq)
    also have "unat (drop_bit ?k b) = drop_bit ?k (take_bit LENGTH(8) (unat b))" by (rule unsigned_drop_bit_eq)
    also have "take_bit LENGTH(8) (unat b) = unat b" using b by (simp add: take_bit_nat_eq_self)
    finally have "unat (push_bit ?k (drop_bit ?k b)) = take_bit 8 (unat b div 2 ^ ?k * 2 ^ ?k)"
      by (simp add: drop_bit_eq_div push_bit_eq_mult)
    moreover have "unat b div 2 ^ ?k * 2 ^ ?k < 2 ^ 8" using b div_times_less_eq_dividend le_less_trans by blast
    ultimately show ?thesis by (simp add: take_bit_nat_eq_self)
  qed
  ultimately show ?thesis by simp
qed

lemma mask_octets_bytes:
  "mask_octets n (map unat bs) = map unat (map2 (AND) bs (mask_bytes (length bs) n))"
proof (induction bs arbitrary: n)
  case (Cons b bs)
  show ?case using Cons.IH unat_masked_byte by (simp add: and_full_byte)
qed simp

definition lan_prefix :: "nat \<Rightarrow> scope \<Rightarrow> prefix" where
  "lan_prefix n s = (Addr4 (map unat (net_ip (sc_network s))), n)"

lemma atoi_itoa: "n < 2 ^ 63 \<Longrightarrow> atoi (itoa n) = Some (int n)"
  using int_text_facts(2) [of "int n"] by (simp add: int_text_def int64_def)

lemma parse_prefix_scope_string:
  assumes "wf_scope n s"
  shows "parse_prefix (scope_string s) = Some (lan_prefix n s)"
proof -
  note f = wf_scope_facts [OF assms]
  have n: "8 \<le> n" "n \<le> 30" using assms by (auto simp: wf_scope_def)
  have ne: "net_ip (sc_network s) \<noteq> []" "cidr_mask n 32 \<noteq> []" using f(1,3) by auto
  obtain p q r t where nn: "net_ip (sc_network s) = [p, q, r, t]" using f(1) by (rule length4E)
  have str: "scope_string s = ipv4_string [p, q, r, t] @ CHR ''/'' # itoa n"
    using n ne by (simp add: scope_string_def ipnet_string_def f(5) mask_size_cidr_mask nn)
  have "CHR ''/'' \<notin> set (itoa n)" using itoa_digits [of n] by (auto simp: is_digit_def)
  then have c: "cut (CHR ''/'') (rev (scope_string s)) = Some (rev (itoa n), rev (ipv4_string [p, q, r, t]))"
    by (simp add: str cut_append)
  have lead: "is_digit (hd (itoa n)) \<and> hd (itoa n) \<noteq> CHR ''0''" if "1 < length (itoa n)"
  proof -
    have "10 \<le> n" using that by (cases "n < 10") (simp_all add: itoa.simps [of n])
    from itoa_first [OF this] show ?thesis by (auto simp: digit_val_def)
  qed
  have "atoi (itoa n) = Some (int n)" using n by (intro atoi_itoa) simp
  then show ?thesis
    using lead n by (simp add: parse_prefix_def c parse_addr_ipv4_string addr_bits_def Let_def lan_prefix_def nn)
qed

lemma lan_prefix_contains:
  assumes "wf_scope n s" "scope_contains s a"
  shows "prefix_contains (lan_prefix n s) (Addr4 (map unat (to4 a)))"
proof -
  note f = wf_scope_facts [OF assms(1)]
  have n: "8 \<le> n" "n \<le> 30" using assms(1) by (auto simp: wf_scope_def)
  have ne: "to4 a \<noteq> []" "net_contains (sc_network s) (to4 a)" using assms(2) by (auto simp: scope_contains_def Let_def)
  then have len: "length (to4 a) = 4" by (simp add: to4_nonempty_length)
  have m: "cidr_mask n 32 = mask_bytes 4 n" using n by (simp add: cidr_mask_def)
  have "map2 (AND) (net_ip (sc_network s)) (cidr_mask n 32) = map2 (AND) (to4 a) (cidr_mask n 32)"
    using ne f len by (simp add: net_contains_def zip3_and_iff Let_def)
  then show ?thesis
    using mask_octets_bytes [of n "net_ip (sc_network s)"] mask_octets_bytes [of n "to4 a"] f(1) len
    by (simp add: prefix_contains_def lan_prefix_def is_addr4_def mask_addr_def m)
qed

lemma check_cidr_ok:
  assumes "check_cidr field private lan v = None"
  obtains p where "parse_prefix (trim_space v) = Some p" "prefix_masked p = p" "prefix_text p = trim_space v"
    "addr_global_unicast (fst p)" "private \<longrightarrow> addr_private (fst p)" "field = ''peer_cidrs'' \<longrightarrow> \<not> needs_exact_host p"
    "is_addr4 (fst p) \<longrightarrow> \<not> prefix_overlaps p lan"
  using assms by (auto simp: check_cidr_def split: option.splits)

subsection \<open>What a validated configuration satisfies\<close>

lemma policy_stage_keeps:
  assumes "validate_policy_stage env b s cfg = Inr cfg1"
  shows "cfg1 = cfg\<lparr>cf_policy := cf_policy cfg1\<rparr>"
  using assms prepare_changes_policy(1) [of env cfg]
  by (auto simp: validate_policy_stage_def rbind_eq_Inr_iff split: if_splits option.splits)

lemma validate_parts:
  assumes "validate_config env b cfg = None"
  obtains s p where "lan_scope cfg = Inr s" "usable_host s (sc_gateway s)" "validate_gateway (cf_gateway cfg) = None"
    "validate_dhcp (cf_dhcp cfg) s = None" "validate_services env b s (cfg\<lparr>cf_policy := p\<rparr>) = None"
proof -
  from assms obtain s cfg1 where parts: "lan_scope cfg = Inr s" "usable_host s (sc_gateway s)"
    "validate_gateway (cf_gateway cfg) = None" "validate_dhcp (cf_dhcp cfg) s = None"
    "validate_policy_stage env b s cfg = Inr cfg1" "validate_services env b s cfg1 = None"
    by (auto simp: validate_config_def split: sum.splits)
  from policy_stage_keeps [OF parts(5)] parts(6)
  have "validate_services env b s (cfg\<lparr>cf_policy := cf_policy cfg1\<rparr>) = None" by simp
  with parts(1-4) that show ?thesis by blast
qed

lemma validated_scope:
  "lan_scope cfg = Inr s \<Longrightarrow> wf_scope (nat (prefix_len_or_default (ga_prefix_len (cf_gateway cfg)))) s"
  using new_scope_wf unfolding lan_scope_def by blast

lemma resolver_policy: "validate_resolver_config url (cfg\<lparr>cf_policy := p\<rparr>) = validate_resolver_config url cfg"
  by (rule resolver_inputs) (simp add: same_dns_inputs_def)

end
