(* ===== verification/ConfigProps.thy ===== *)
theory ConfigProps
  imports ConfigFacts
begin

text \<open>
  Properties of the configuration: what a validated one guarantees about the DHCP pool, the Tailscale
  routes and the DNS upstreams, what saving and loading keeps, and what quoting loses.
\<close>

subsection \<open>Sample configurations\<close>

definition default_lan :: scope where
  "default_lan = \<lparr>sc_gateway = [192, 168, 50, 1],
     sc_network = \<lparr>net_ip = [192, 168, 50, 0], net_mask = [255, 255, 255, 0]\<rparr>\<rparr>"

lemma default_lan_scope: "lan_scope default_config = Inr default_lan"
  by (simp add: lan_scope_def default_config_def new_scope_def prefix_len_or_default_def default_prefix_len_def
      valid_prefix_len_def min_prefix_len_def max_prefix_len_def default_lan_def go_eval)

lemmas lan_eval = default_lan_def usable_host_def scope_contains_def scope_broadcast_def net_contains_def
  network_number_and_mask_def ip_equal_def

lemma default_gateway_valid: "validate_gateway (cf_gateway default_config) = None"
  by (simp add: default_config_def validate_gateway_def isolated_mode_def blank_def not_ipv4_def go_eval
      valid_prefix_len_def default_prefix_len_def min_prefix_len_def max_prefix_len_def)

lemma default_dhcp_valid: "validate_dhcp (cf_dhcp default_config) default_lan = None"
  by (simp add: default_config_def validate_dhcp_def validate_dhcp_range_def blank_def not_ipv4_def lan_eval go_eval)

lemma default_dns_valid: "validate_dns env default_config = None"
  by (simp add: default_config_def validate_dns_def validate_resolver_config_def resolver_mode_def uses_integration_def
      check_proxy_target_def node_upstreams_def smartdns_ports_def validate_dns_upstream_def valid_port_def
      not_ipv4_def go_eval)

text \<open>The Tailscale section of the samples, and the only URL they mention.\<close>

definition sample_url :: url_reader where
  "sample_url s =
     (if s = ''https://controlplane.tailscale.com'' then
        Some \<lparr>ul_scheme = ''https'', ul_opaque = [], ul_has_user = False, ul_host = ''controlplane.tailscale.com'',
          ul_path = [], ul_raw_query = [], ul_fragment = [], ul_text = s\<rparr>
      else if s = ''tcp://9.9.9.9'' then
        Some \<lparr>ul_scheme = ''tcp'', ul_opaque = [], ul_has_user = False, ul_host = ''9.9.9.9'',
          ul_path = [], ul_raw_query = [], ul_fragment = [], ul_text = s\<rparr>
      else if s = ''tls://1dot1dot1dot1.cloudflare-dns.com:853'' then
        Some \<lparr>ul_scheme = ''tls'', ul_opaque = [], ul_has_user = False,
          ul_host = ''1dot1dot1dot1.cloudflare-dns.com:853'',
          ul_path = [], ul_raw_query = [], ul_fragment = [], ul_text = s\<rparr>
      else None)"

definition sample_env :: config_env where
  "sample_env = \<lparr>ce_url = sample_url, ce_lib = toy_lib, ce_policy_at = (\<lambda>_. PolicyMissing), ce_text_at = (\<lambda>_. None)\<rparr>"

definition tailnet_config :: config where
  "tailnet_config = default_config\<lparr>
     cf_dns := (cf_dns default_config)\<lparr>dn_mode := ''custom'', dn_allow_plaintext := True,
       dn_upstreams := [\<lparr>up_address = ''tcp://9.9.9.9'', up_bootstrap = []\<rparr>]\<rparr>,
     cf_tailscale := (cf_tailscale default_config)\<lparr>ts_enabled := True, ts_accept_routes := True,
       ts_peer_cidrs := [''100.100.1.2/32''], ts_subnet_routes := [''10.8.0.0/16'']\<rparr>\<rparr>"

lemma default_lan_wf: "wf_scope 24 default_lan"
  using validated_scope [OF default_lan_scope]
  by (simp add: prefix_len_or_default_def default_config_def default_prefix_len_def)

lemma sample_prefixes:
  "parse_prefix ''100.100.1.2/32'' = Some (Addr4 [100, 100, 1, 2], 32)"
  "parse_prefix ''10.8.0.0/16'' = Some (Addr4 [10, 8, 0, 0], 16)"
  by (simp_all add: parse_prefix_def parse_addr_def addr_bits_def go_eval)

lemmas prefix_eval = prefix_masked_def prefix_text_def mask_addr_def addr_text_def dotted_def is_addr4_def
  prefix_overlaps_def addr_global_unicast_def addr_loopback_def addr_multicast_def addr_link_local_def addr_private_def
  unmap_addr_def is_4in6_def needs_exact_host_def

lemma tailnet_cidrs_valid:
  "validate_tailscale_cidrs ''peer_cidrs'' [''100.100.1.2/32''] False default_lan = None"
  "validate_tailscale_cidrs ''subnet_routes'' [''10.8.0.0/16''] True default_lan = None"
proof -
  have t: "trim_space ''100.100.1.2/32'' = ''100.100.1.2/32''" "trim_space ''10.8.0.0/16'' = ''10.8.0.0/16''"
    by (simp_all add: go_eval)
  have lan: "lan_prefix 24 default_lan = (Addr4 [192, 168, 50, 0], 24)"
    by (simp add: lan_prefix_def default_lan_def)
  show "validate_tailscale_cidrs ''peer_cidrs'' [''100.100.1.2/32''] False default_lan = None"
    "validate_tailscale_cidrs ''subnet_routes'' [''10.8.0.0/16''] True default_lan = None"
    unfolding validate_tailscale_cidrs_def parse_prefix_scope_string [OF default_lan_wf] lan
    by (simp_all add: check_cidr_def t sample_prefixes prefix_eval go_eval)
qed

lemma tailnet_dns_valid: "validate_dns sample_env tailnet_config = None"
proof -
  have p: "parse_resolver_upstream sample_url \<lparr>up_address = ''tcp://9.9.9.9'', up_bootstrap = []\<rparr> tailnet_config
      = Inr \<lparr>re_scheme = ''tcp'', re_target = ''9.9.9.9'', re_hostname = ''9.9.9.9'', re_bootstrap = [], re_encrypted = False\<rparr>"
    by (simp add: parse_resolver_upstream_def upstream_text_ok_def upstream_url_def sample_url_def scheme_target_def
        check_url_port_def check_endpoint_address_def valid_resolver_ipv4_def url_split_host_def strip_brackets_def
        is_space_rune_def tailnet_config_def default_config_def ip_loopback_def ip_unspecified_def ip_multicast_def
        ip_link_local_def ipv4_broadcast_def ip_equal_def go_eval)
  have d: "cf_dns tailnet_config = \<lparr>dn_mode = ''custom'', dn_upstreams = [\<lparr>up_address = ''tcp://9.9.9.9'', up_bootstrap = []\<rparr>],
      dn_node_upstreams = [], dn_allow_plaintext = True, dn_proxy_enabled = False, dn_proxy_target = [],
      dn_use_smartdns = False, dn_listen = ''192.168.50.1'', dn_port = 53, dn_upstream = ''127.0.0.1#1053'', dn_ipv6 = False\<rparr>"
    by (simp add: tailnet_config_def default_config_def)
  have view: "check_view_upstream sample_url tailnet_config \<lparr>up_address = ''tcp://9.9.9.9'', up_bootstrap = []\<rparr> = None"
    by (simp add: check_view_upstream_def p d)
  show ?thesis
    unfolding validate_dns_def validate_resolver_config_def Let_def
    by (simp add: sample_env_def d view resolver_mode_def uses_integration_def check_proxy_target_def node_upstreams_def
        smartdns_ports_def validate_dns_upstream_def valid_port_def not_ipv4_def go_eval)
qed

lemma policy_free_stage:
  "dp_path (cf_policy cfg) = [] \<Longrightarrow> dp_protected (cf_policy cfg) = [] \<Longrightarrow> validate_policy_stage env b s cfg = Inr cfg"
  by (simp add: validate_policy_stage_def prepare_device_policy_def validate_device_policy_def blank_def)

lemma default_rest_valid:
  "validate_mihomo (cf_mihomo default_config) False = None"
  "validate_data_plane (cf_transparent default_config) = None"
  "validate_lan_cidr (cf_gateway default_config) default_lan = None"
  "validate_transparent (cf_transparent default_config) = None"
  "validate_bypass_addresses (cf_dhcp default_config) = None"
proof -
  show "validate_lan_cidr (cf_gateway default_config) default_lan = None"
    using scope_network_text [OF default_lan_wf] trim_scope_string [OF default_lan_wf]
      scope_string_nonempty [OF default_lan_wf] parse_cidr_scope_string [OF default_lan_wf]
    by (simp add: validate_lan_cidr_def default_config_def blank_def)
qed (simp_all add: default_config_def validate_mihomo_def validate_mihomo_profile_def profile_managed_def
    valid_port_def valid_optional_port_def validate_data_plane_def default_fw_mark_def default_route_table_id_def
    validate_transparent_def tun_ipv6_off_def transparent_off_def validate_bypass_addresses_def blank_def go_eval)

lemma default_policy:
  "dp_path (cf_policy default_config) = []" "dp_protected (cf_policy default_config) = []"
  "dp_bundle (cf_policy default_config) = None"
  by (simp_all add: default_config_def)

lemma default_services: "validate_services env b default_lan default_config = None"
  unfolding validate_services_def
  by (simp add: default_dns_valid default_rest_valid(2-4))
    (simp add: default_config_def validate_mihomo_def validate_mihomo_profile_def profile_managed_def valid_port_def
      valid_optional_port_def validate_tailscale_def validate_ipv6_topology_def ipv6_requested_def tun_ipv6_off_def
      validate_lan_proxy_def validate_topology_mode_def shares_lan_def isolated_mode_def same_lan_mode_def
      same_wifi_mode_def validate_upstream_proxy_def blank_def go_eval)

lemma default_gateway_usable: "usable_host default_lan (sc_gateway default_lan)"
  by (simp add: lan_eval go_eval)

lemma default_valid: "validate_config env b default_config = None"
  by (simp add: validate_config_def default_gateway_valid default_lan_scope default_dhcp_valid default_rest_valid(5)
      default_gateway_usable default_policy policy_free_stage default_services)

lemma tailnet_section_valid:
  "validate_tailscale sample_url (cf_tailscale tailnet_config) None default_lan b = None"
  by (simp add: tailnet_config_def default_config_def validate_tailscale_def tailnet_cidrs_valid)
    (simp add: validate_control_url_def sample_url_def check_allowed_devices_def has_control_char_def
      valid_dns_label_def blank_def go_eval)

lemma tailnet_scope: "lan_scope tailnet_config = Inr default_lan"
  using default_lan_scope by (simp add: lan_scope_def tailnet_config_def)

lemma variant_valid:
  assumes "validate_dns env (default_config\<lparr>cf_dns := d, cf_tailscale := t\<rparr>) = None"
    and "validate_tailscale (ce_url env) t None default_lan b = None"
  shows "validate_config env b (default_config\<lparr>cf_dns := d, cf_tailscale := t\<rparr>) = None"
proof -
  let ?c = "default_config\<lparr>cf_dns := d, cf_tailscale := t\<rparr>"
  have stages: "validate_ipv6_topology ?c = validate_ipv6_topology default_config"
    "validate_lan_proxy ?c = validate_lan_proxy default_config"
    "validate_topology_mode ?c = validate_topology_mode default_config" "lan_scope ?c = lan_scope default_config"
    by (simp_all add: validate_ipv6_topology_def validate_lan_proxy_def validate_topology_mode_def lan_scope_def Let_def)
  have "validate_services env b default_lan ?c = None"
    using default_services [of env b] assms by (simp add: validate_services_def stages default_policy)
  then show ?thesis
    by (simp add: validate_config_def default_gateway_valid stages default_lan_scope default_dhcp_valid
        default_rest_valid(5) default_gateway_usable default_policy policy_free_stage)
qed

lemma tailnet_valid: "validate_config sample_env b tailnet_config = None"
  unfolding tailnet_config_def
  by (rule variant_valid [OF tailnet_dns_valid [unfolded tailnet_config_def]])
    (use tailnet_section_valid [of b] in \<open>simp add: tailnet_config_def sample_env_def\<close>)

text \<open>A file whose LAN CIDR is not the one of the gateway address.\<close>

definition cidr_text :: string where
  "cidr_text = ''gateway:'' @ [newline] @ ''  lan_cidr: 10.1.0.0/16'' @ [newline]"

definition cidr_env :: config_env where
  "cidr_env = sample_env\<lparr>ce_text_at := (\<lambda>p. if p = ''/data/gateway.yaml'' then Some cidr_text else None)\<rparr>"

definition cidr_config :: config where
  "cidr_config = default_config\<lparr>
     cf_gateway := (cf_gateway default_config)\<lparr>ga_lan_cidr := ''10.1.0.0/16''\<rparr>,
     cf_tailscale := (cf_tailscale default_config)\<lparr>ts_auth_key_file := ''/data/data/tailscale-auth-key'',
       ts_state_dir := ''/data/data/tailscale''\<rparr>\<rparr>"

lemma cidr_parses: "parse_config cidr_text = Inr (default_config\<lparr>cf_gateway := (cf_gateway default_config)\<lparr>ga_lan_cidr := ''10.1.0.0/16''\<rparr>\<rparr>)"
  by (simp add: parse_config_def raw_lines_def cidr_text_def config_line_def strip_comment_def drop_cr_def unquote_def
      key_lookup gateway_keys_def key_setters go_eval del: map_of_append)

lemma cidr_normalizes:
  "normalize (resolve_relative_paths ''/data/gateway.yaml''
     (default_config\<lparr>cf_gateway := (cf_gateway default_config)\<lparr>ga_lan_cidr := ''10.1.0.0/16''\<rparr>\<rparr>)) = Inr cidr_config"
proof -
  have "path_join (path_dir ''/data/gateway.yaml'') ''./data/tailscale-auth-key'' = ''/data/data/tailscale-auth-key''"
    "path_join (path_dir ''/data/gateway.yaml'') ''./data/tailscale'' = ''/data/data/tailscale''"
    by (simp_all add: path_join_def path_dir_def clean_path_def go_eval)
  then have paths: "resolve_relative_paths ''/data/gateway.yaml''
      (default_config\<lparr>cf_gateway := (cf_gateway default_config)\<lparr>ga_lan_cidr := ''10.1.0.0/16''\<rparr>\<rparr>) = cidr_config"
    by (simp add: resolve_relative_paths_def cidr_config_def default_config_def absolute_from_def is_abs_path_iff)
  have "parse_cidr ''10.1.0.0/16''
      = Some (v4_in_v6_prefix @ [10, 1, 0, 0], \<lparr>net_ip = [10, 1, 0, 0], net_mask = [255, 255, 0, 0]\<rparr>)"
    by (simp add: go_eval)
  then have "normalize_cidr (cidr_config\<lparr>cf_transparent := t\<rparr>) = Inr ''10.1.0.0/16''" for t
    by (simp add: normalize_cidr_def cidr_config_def network_text_def ip_text_def network_number_and_mask_def
        simple_mask_len.simps leading_ones_def go_eval)
  then show ?thesis
    unfolding paths normalize_def Let_def
    by (simp add: cidr_config_def default_config_def default_priority_def normalize_dns_def retire_ipv6_def go_eval
        default_route_table_id_def)
qed

lemma cidr_valid: "validate_config env b cidr_config = None"
proof -
  define t where "t = (cf_tailscale default_config)\<lparr>ts_auth_key_file := ''/data/data/tailscale-auth-key'',
    ts_state_dir := ''/data/data/tailscale''\<rparr>"
  have "validate_tailscale (ce_url env) t None default_lan b = None"
    by (simp add: t_def validate_tailscale_def default_config_def)
  moreover have "default_config\<lparr>cf_dns := cf_dns default_config, cf_tailscale := t\<rparr> = default_config\<lparr>cf_tailscale := t\<rparr>"
    by simp
  moreover have "validate_dns env (default_config\<lparr>cf_tailscale := t\<rparr>) = validate_dns env default_config"
    using resolver_inputs [of "default_config\<lparr>cf_tailscale := t\<rparr>" default_config]
    by (simp add: validate_dns_def same_dns_inputs_def)
  ultimately have base: "validate_config env b (default_config\<lparr>cf_tailscale := t\<rparr>) = None"
    using variant_valid [where d = "cf_dns default_config" and t = t] default_dns_valid by metis
  have "respell ''10.1.0.0/16'' (default_config\<lparr>cf_tailscale := t\<rparr>) = cidr_config"
    by (simp add: respell_def cidr_config_def t_def default_config_def prefix_len_or_default_def default_prefix_len_def)
  moreover have "parse_cidr (trim_space ''10.1.0.0/16'') \<noteq> None" "\<not> blank ''10.1.0.0/16''"
    by (simp_all add: blank_def go_eval)
  ultimately show ?thesis using validate_respell [OF base, of "''10.1.0.0/16''"] by simp
qed

lemma cidr_scope: "lan_scope cidr_config = Inr default_lan"
  using default_lan_scope by (simp add: lan_scope_def cidr_config_def)

lemma cidr_loads: "load_config cidr_env ''/data/gateway.yaml'' True = Inr cidr_config"
proof -
  have "prepare_device_policy cidr_env cidr_config = Inr cidr_config"
    by (simp add: prepare_device_policy_def cidr_config_def default_config_def blank_def)
  then show ?thesis
    unfolding load_config_eq using cidr_parses cidr_normalizes cidr_valid by (simp add: cidr_env_def)
qed

lemma cidr_storable: "storable_config (\<lambda>_. False) cidr_config"
  by (simp add: storable_config_def cidr_config_def default_config_def storable_gateway_def storable_dhcp_def
      storable_policy_def storable_dns_def storable_mihomo_def storable_tailscale_def storable_nftables_def
      storable_transparent_def storable_upstream_def storable_word_def storable_list_def storable_upstreams_def
      storable_ascii quotable_char_def int64_def go_eval isolated_mode_def profile_managed_def transparent_off_def
      tun_ipv6_off_def default_prefix_len_def)

subsection \<open>Properties\<close>

text \<open>C25: The DHCP pool of a validated configuration is safe to hand out: every address from the first to the
  last, as 32-bit numbers, is a usable host of the gateway LAN (neither its network nor its broadcast
  address) and none is the gateway's own.\<close>

theorem dhcp_pool_is_usable:
  assumes "validate_config env b cfg = None" and "dh_enabled (cf_dhcp cfg)" and "lan_scope cfg = Inr s"
    and "to_uint32 (to4 (parse_ip (dh_range_start (cf_dhcp cfg)))) \<le> v"
    and "v \<le> to_uint32 (to4 (parse_ip (dh_range_end (cf_dhcp cfg))))"
  shows "usable_host s (from_uint32 v) \<and> from_uint32 v \<noteq> sc_gateway s"
proof -
  let ?a = "to4 (parse_ip (dh_range_start (cf_dhcp cfg)))" and ?b = "to4 (parse_ip (dh_range_end (cf_dhcp cfg)))"
  from assms(1,3) have "validate_dhcp (cf_dhcp cfg) s = None" by (auto elim: validate_parts)
  then have range: "?a \<noteq> []" "?b \<noteq> []" "usable_host s ?a" "usable_host s ?b"
    "\<not> (compare_ipv4 (sc_gateway s) ?a \<ge> 0 \<and> compare_ipv4 (sc_gateway s) ?b \<le> 0)"
    using assms(2) by (simp_all add: validate_dhcp_def validate_dhcp_range_def Let_def)
  note wf = validated_scope [OF assms(3)]
  have len: "length ?a = 4" "length ?b = 4" "length (sc_gateway s) = 4"
    using range(1,2) wf by (simp_all add: to4_nonempty_length wf_scope_def)
  have "usable_host s (from_uint32 v)"
    by (rule scope_between [OF wf len(1,2) _ range(3,4)]) (use assms(4,5) in simp_all)
  moreover have "\<not> (to_uint32 ?a \<le> to_uint32 (sc_gateway s) \<and> to_uint32 (sc_gateway s) \<le> to_uint32 ?b)"
    using range(5) compare_ipv4_words [OF len(3,1)] compare_ipv4_words [OF len(3,2)] by blast
  then have "from_uint32 v \<noteq> sc_gateway s" using assms(4,5) by (metis to_from_uint32)
  ultimately show ?thesis by blast
qed

theorem dhcp_pool_is_usable_witness:
  "usable_host default_lan (from_uint32 0xC0A83296) \<and> from_uint32 0xC0A83296 \<noteq> sc_gateway default_lan"
  by (rule dhcp_pool_is_usable [OF default_valid _ default_lan_scope])
    (simp_all add: default_config_def to_uint32_def go_eval)

text \<open>C24: The Tailscale routes of a validated configuration never capture the gateway's own LAN: an accepted
  peer or subnet CIDR is canonical, a unicast network, and contains no IPv4 address of the LAN; subnet
  routes are private networks, and no CIDR is listed twice.\<close>

theorem tailscale_routes_spare_lan:
  assumes "validate_config env b cfg = None" and "ts_enabled (cf_tailscale cfg)" and "lan_scope cfg = Inr s"
    and "value \<in> set (ts_peer_cidrs (cf_tailscale cfg) @ ts_subnet_routes (cf_tailscale cfg))"
  shows "(\<exists>p. parse_prefix (trim_space value) = Some p \<and> prefix_masked p = p \<and> addr_global_unicast (fst p)
      \<and> (value \<in> set (ts_subnet_routes (cf_tailscale cfg)) \<longrightarrow> addr_private (fst p))
      \<and> (\<forall>a. scope_contains s a \<longrightarrow> \<not> prefix_contains p (Addr4 (map unat (to4 a)))))
    \<and> distinct (map (\<lambda>v. parse_prefix (trim_space v)) (ts_peer_cidrs (cf_tailscale cfg)))
    \<and> distinct (map (\<lambda>v. parse_prefix (trim_space v)) (ts_subnet_routes (cf_tailscale cfg)))"
proof -
  let ?n = "nat (prefix_len_or_default (ga_prefix_len (cf_gateway cfg)))"
  note wf = validated_scope [OF assms(3)]
  from assms(1,3) obtain pb where "validate_tailscale (ce_url env) (cf_tailscale cfg) pb s b = None"
    by (auto elim!: validate_parts simp: validate_services_def)
  then have lists: "validate_tailscale_cidrs ''peer_cidrs'' (ts_peer_cidrs (cf_tailscale cfg)) False s = None"
    "validate_tailscale_cidrs ''subnet_routes'' (ts_subnet_routes (cf_tailscale cfg)) True s = None"
    using assms(2) by (simp_all add: validate_tailscale_def)
  then have peers: "\<forall>v \<in> set (ts_peer_cidrs (cf_tailscale cfg)). check_cidr ''peer_cidrs'' False (lan_prefix ?n s) v = None"
    and routes: "\<forall>v \<in> set (ts_subnet_routes (cf_tailscale cfg)). check_cidr ''subnet_routes'' True (lan_prefix ?n s) v = None"
    and unique: "distinct (map (\<lambda>v. parse_prefix (trim_space v)) (ts_peer_cidrs (cf_tailscale cfg)))"
      "distinct (map (\<lambda>v. parse_prefix (trim_space v)) (ts_subnet_routes (cf_tailscale cfg)))"
    by (simp_all add: validate_tailscale_cidrs_def parse_prefix_scope_string [OF wf])
  obtain field pr where checked: "check_cidr field pr (lan_prefix ?n s) value = None"
    and pr: "value \<in> set (ts_subnet_routes (cf_tailscale cfg)) \<longrightarrow> pr"
    using peers routes assms(4) by (cases "value \<in> set (ts_subnet_routes (cf_tailscale cfg))") auto
  from check_cidr_ok [OF checked] obtain p where p: "parse_prefix (trim_space value) = Some p" "prefix_masked p = p"
    "addr_global_unicast (fst p)" "pr \<longrightarrow> addr_private (fst p)"
    "is_addr4 (fst p) \<longrightarrow> \<not> prefix_overlaps p (lan_prefix ?n s)" by metis
  have "\<not> prefix_contains p (Addr4 (map unat (to4 a)))" if "scope_contains s a" for a
  proof
    assume c: "prefix_contains p (Addr4 (map unat (to4 a)))"
    then have "is_addr4 (fst p)" by (simp add: prefix_contains_def is_addr4_def)
    with p(5) common_address_overlaps [OF c lan_prefix_contains [OF wf that]] show False by blast
  qed
  with p(1-4) pr unique show ?thesis by blast
qed

theorem tailscale_routes_spare_lan_witness:
  "\<exists>p. parse_prefix (trim_space ''10.8.0.0/16'') = Some p \<and> addr_private (fst p)
     \<and> (\<forall>a. scope_contains default_lan a \<longrightarrow> \<not> prefix_contains p (Addr4 (map unat (to4 a))))"
proof -
  have t: "ts_enabled (cf_tailscale tailnet_config)" "ts_subnet_routes (cf_tailscale tailnet_config) = [''10.8.0.0/16'']"
    by (simp_all add: tailnet_config_def)
  have m: "''10.8.0.0/16'' \<in> set (ts_peer_cidrs (cf_tailscale tailnet_config) @ ts_subnet_routes (cf_tailscale tailnet_config))"
    by (simp add: t)
  from tailscale_routes_spare_lan [OF tailnet_valid [of True] t(1) tailnet_scope m] t(2) show ?thesis by auto
qed

text \<open>C26: The DNS upstreams of a validated configuration are usable: each is parsed, and the IPv4 address it is
  reached at (its host for plain DNS, the bootstrap address for DoH and DoT) is not loopback, unspecified,
  multicast, broadcast or link-local and is neither the address the resolver listens on nor the gateway's own;
  plain DNS needs the explicit consent, with the proxy enabled nothing goes over UDP, there are at most 16
  upstreams and no endpoint is listed twice.\<close>

theorem resolver_upstreams_usable:
  assumes "validate_config env b cfg = None" and "up \<in> set (dn_upstreams (cf_dns cfg))"
  shows "(\<exists>ep ip. parse_resolver_upstream (ce_url env) up cfg = Inr ep
      \<and> ip = parse_ip (if re_encrypted ep then re_bootstrap ep else re_hostname ep)
      \<and> to4 ip \<noteq> [] \<and> \<not> ip_loopback ip \<and> \<not> ip_unspecified ip \<and> \<not> ip_multicast ip \<and> \<not> ip_link_local ip
      \<and> \<not> ip_equal ip ipv4_broadcast \<and> \<not> ip_equal ip (parse_ip (dn_listen (cf_dns cfg)))
      \<and> \<not> ip_equal ip (parse_ip (ga_lan_ip (cf_gateway cfg)))
      \<and> (re_encrypted ep \<or> dn_allow_plaintext (cf_dns cfg))
      \<and> (dn_proxy_enabled (cf_dns cfg) \<longrightarrow> re_scheme ep \<noteq> ''udp''))
    \<and> length (dn_upstreams (cf_dns cfg)) \<le> 16
    \<and> distinct (map (upstream_key (ce_url env) cfg) (dn_upstreams (cf_dns cfg)))"
proof -
  from assms(1) obtain p where "validate_dns env (cfg\<lparr>cf_policy := p\<rparr>) = None"
    by (auto elim!: validate_parts simp: validate_services_def)
  then have dns: "validate_resolver_config (ce_url env) cfg = None"
    by (simp add: validate_dns_def resolver_policy)
  then have lists: "check_view_upstream (ce_url env) cfg up = None"
    "length (dn_upstreams (cf_dns cfg)) \<le> 16"
    "distinct (map (upstream_key (ce_url env) cfg) (dn_upstreams (cf_dns cfg)))"
    using assms(2) by (auto simp: validate_resolver_config_def Let_def)
  then obtain ep where ep: "parse_resolver_upstream (ce_url env) up cfg = Inr ep"
    "re_encrypted ep \<or> dn_allow_plaintext (cf_dns cfg)" "dn_proxy_enabled (cf_dns cfg) \<longrightarrow> re_scheme ep \<noteq> ''udp''"
    by (auto simp: check_view_upstream_def split: sum.splits)
  then have "check_endpoint_address cfg ep = None"
    by (auto simp: parse_resolver_upstream_def Let_def rbind_eq_Inr_iff split: if_splits option.splits)
  then have "valid_resolver_ipv4 (if re_encrypted ep then re_bootstrap ep else re_hostname ep) cfg"
    by (auto simp: check_endpoint_address_def split: if_splits)
  moreover define ip where "ip = parse_ip (if re_encrypted ep then re_bootstrap ep else re_hostname ep)"
  ultimately have "to4 ip \<noteq> [] \<and> \<not> ip_loopback ip \<and> \<not> ip_unspecified ip \<and> \<not> ip_multicast ip \<and> \<not> ip_link_local ip
      \<and> \<not> ip_equal ip ipv4_broadcast \<and> \<not> ip_equal ip (parse_ip (dn_listen (cf_dns cfg)))
      \<and> \<not> ip_equal ip (parse_ip (ga_lan_ip (cf_gateway cfg)))"
    unfolding valid_resolver_ipv4_def Let_def by (simp split: if_splits)
  with ep ip_def lists(2,3) show ?thesis
    by (intro conjI exI [of _ ep] exI [of _ ip]) simp_all
qed

theorem resolver_upstreams_usable_witness:
  "\<exists>ep ip. parse_resolver_upstream sample_url \<lparr>up_address = ''tcp://9.9.9.9'', up_bootstrap = []\<rparr> tailnet_config = Inr ep
     \<and> ip = parse_ip (if re_encrypted ep then re_bootstrap ep else re_hostname ep) \<and> \<not> ip_loopback ip"
proof -
  have "\<lparr>up_address = ''tcp://9.9.9.9'', up_bootstrap = []\<rparr> \<in> set (dn_upstreams (cf_dns tailnet_config))"
    by (simp add: tailnet_config_def)
  from conjunct1 [OF resolver_upstreams_usable [OF tailnet_valid [of True] this]] show ?thesis
    by (elim exE conjE) (intro exI conjI, auto simp: sample_env_def)
qed



text \<open>What the loader reads back of a written text: for printable ASCII it is the text itself exactly when the
  text has no double quote and no backslash; each of those makes the value one character longer at every save.\<close>

theorem saved_text_survives_iff:
  assumes "list_all ascii_printable s"
  shows "(unquote (quote_text wide s) = s \<longleftrightarrow> \<not> list_ex escaped s)
    \<and> length (unquote (quote_text wide s)) = length s + length (filter escaped s)"
proof -
  have "filter escaped s = [] \<longleftrightarrow> \<not> list_ex escaped s" by (auto simp: filter_empty_conv list_ex_iff)
  moreover have "unquote (quote_text wide s) = s" if "\<not> list_ex escaped s"
    using that assms by (simp add: unquote_quote quote_body_printable list_ex_iff) (induction s; simp)
  ultimately show ?thesis
    using quote_body_length [OF assms, of wide] by (auto simp: unquote_quote)
qed

theorem saved_text_survives_iff_witness:
  "unquote (quote_text (\<lambda>_. False) ''pa ss:word#1'') = ''pa ss:word#1''
     \<and> unquote (quote_text (\<lambda>_. False) [CHR ''a'', CHR 0x22]) \<noteq> [CHR ''a'', CHR 0x22]"
  using saved_text_survives_iff [of "''pa ss:word#1''" "\<lambda>_. False"]
    saved_text_survives_iff [of "[CHR ''a'', CHR 0x22]" "\<lambda>_. False"]
  by (simp add: ascii_printable_def escaped_def)

text \<open>A DoT upstream for the proxy nodes whose host name starts with a digit, with a port.\<close>

definition dot_upstream :: resolver_upstream where
  "dot_upstream = \<lparr>up_address = ''tls://1dot1dot1dot1.cloudflare-dns.com:853'', up_bootstrap = ''1.1.1.1''\<rparr>"

definition dot_config :: config where
  "dot_config = default_config\<lparr>cf_dns := (cf_dns default_config)\<lparr>dn_node_upstreams := [dot_upstream]\<rparr>\<rparr>"

text \<open>C36: A proxy-node upstream the parser accepts can end the validation in a panic: for DoT the target checked
  for a query is the bare \<open>host:port\<close>, which \<open>url.Parse\<close> refuses when the host starts with a digit (its
  first path segment would contain a colon), and the nil URL is dereferenced.\<close>

theorem digit_leading_dot_host_panics:
  assumes "url_parse ''tls://1dot1dot1dot1.cloudflare-dns.com:853''
      = Some \<lparr>ul_scheme = ''tls'', ul_opaque = [], ul_has_user = False,
          ul_host = ''1dot1dot1dot1.cloudflare-dns.com:853'', ul_path = [], ul_raw_query = [], ul_fragment = [],
          ul_text = ''tls://1dot1dot1dot1.cloudflare-dns.com:853''\<rparr>"
    and "url_parse ''1dot1dot1dot1.cloudflare-dns.com:853'' = None"
  shows "(\<exists>ep. parse_resolver_upstream url_parse dot_upstream dot_config = Inr ep \<and> re_encrypted ep)
    \<and> validate_resolver_config url_parse dot_config = Some NilDereference"
proof -
  have p: "parse_resolver_upstream url_parse dot_upstream dot_config
      = Inr \<lparr>re_scheme = ''tls'', re_target = ''1dot1dot1dot1.cloudflare-dns.com:853'',
          re_hostname = ''1dot1dot1dot1.cloudflare-dns.com'', re_bootstrap = ''1.1.1.1'', re_encrypted = True\<rparr>"
    by (simp add: parse_resolver_upstream_def upstream_text_ok_def upstream_url_def assms(1) scheme_target_def
        check_url_port_def check_endpoint_address_def valid_resolver_ipv4_def url_split_host_def strip_brackets_def
        optional_port_def valid_resolver_hostname_def valid_hostname_label_def is_space_rune_def dot_upstream_def
        dot_config_def default_config_def ip_loopback_def ip_unspecified_def ip_multicast_def ip_link_local_def
        ipv4_broadcast_def ip_equal_def go_eval)
  then have "check_node_upstream url_parse dot_config dot_upstream = Some NilDereference"
    by (simp add: check_node_upstream_def assms(2))
  moreover have "cf_dns dot_config = (cf_dns default_config)\<lparr>dn_node_upstreams := [dot_upstream]\<rparr>"
    by (simp add: dot_config_def)
  ultimately have "validate_resolver_config url_parse dot_config = Some NilDereference"
    by (simp add: validate_resolver_config_def node_upstreams_def Let_def)
      (simp add: default_config_def resolver_mode_def uses_integration_def check_proxy_target_def)
  with p show ?thesis by simp
qed

theorem digit_leading_dot_host_panics_witness:
  "validate_resolver_config sample_url dot_config = Some NilDereference"
  by (rule conjunct2 [OF digit_leading_dot_host_panics]) (simp_all add: sample_url_def)

end
