(* ===== verification/ConfigTopology.thy ===== *)
theory ConfigTopology
  imports ConfigProps GatewayManager LinuxKernel
begin

text \<open>
  From the configuration file to the kernel: the gateway reads a loaded configuration, makes its routing
  recipe from it, and the backend installs that recipe. What the loader checked is what the backend's
  theorems ask for.
\<close>

subsection \<open>What the gateway reads\<close>

definition gateway_view :: "config \<Rightarrow> gw_config" where
  "gateway_view cfg =
     \<lparr>gc_mode = ga_mode (cf_gateway cfg), gc_interface = ga_interface (cf_gateway cfg),
      gc_lan_ip = ga_lan_ip (cf_gateway cfg), gc_lan_cidr = ga_lan_cidr (cf_gateway cfg),
      gc_upstream_interface = ga_upstream_interface (cf_gateway cfg),
      gc_upstream_gateway = ga_upstream_gateway (cf_gateway cfg), gc_dhcp_enabled = dh_enabled (cf_dhcp cfg),
      gc_dns_ipv6 = dn_ipv6 (cf_dns cfg), gc_tun_device = tr_tun_device (cf_transparent cfg),
      gc_tun_enabled = tun_enabled (cf_transparent cfg), gc_fw_mark = tr_fw_mark (cf_transparent cfg),
      gc_nft_table = tr_nft_table (cf_transparent cfg), gc_route_table_id = tr_route_table (cf_transparent cfg),
      gc_route_rule_priority = tr_rule_priority (cf_transparent cfg), gc_tun_ipv6 = tr_tun_ipv6 (cf_transparent cfg),
      gc_tailscale_enabled = ts_enabled (cf_tailscale cfg), gc_runtime_dir = cf_runtime_dir cfg,
      gc_bundle = dp_bundle (cf_policy cfg)\<rparr>"

lemma same_lan_view: "same_lan (gateway_view cfg) \<longleftrightarrow> shares_lan (cf_gateway cfg)"
  by (simp add: same_lan_def gateway_view_def shares_lan_def mode_same_lan_def mode_same_wifi_dhcp_def
      same_lan_mode_def same_wifi_mode_def)

subsection \<open>Blank texts\<close>

lemma trim_left_keeps: "c \<in> set s \<Longrightarrow> printable c \<Longrightarrow> c \<in> set (trim_left s)"
proof (induction s rule: trim_left.induct)
  case (1 s)
  then have "c \<in> set (drop (space_len s) s)"
    using space_not_printable(1) [of s] by (metis Un_iff append_take_drop_id set_append)
  with 1 show ?case by (cases "space_len s = 0") (simp_all add: trim_left.simps [of s])
qed

lemma trim_left_rev_keeps: "c \<in> set s \<Longrightarrow> printable c \<Longrightarrow> c \<in> set (trim_left_rev s)"
proof (induction s rule: trim_left_rev.induct)
  case (1 s)
  then have "c \<in> set (drop (space_len_rev s) s)"
    using space_not_printable(2) [of s] by (metis Un_iff append_take_drop_id set_append)
  with 1 show ?case by (cases "space_len_rev s = 0") (simp_all add: trim_left_rev.simps [of s])
qed

lemma printable_not_blank: "c \<in> set s \<Longrightarrow> printable c \<Longrightarrow> trim_space s \<noteq> []"
  using trim_left_keeps [of c s] trim_left_rev_keeps [of c "rev (trim_left s)"]
  by (force simp: trim_space_def)

lemma network_text_not_blank: "trim_space (network_text n) \<noteq> []" "network_text n \<noteq> ''default''"
proof -
  have "CHR ''/'' \<in> set (network_text n) \<or> network_text n = ''<nil>''"
    by (auto simp: network_text_def split: prod.split option.split)
  then have either: "CHR ''/'' \<in> set (network_text n) \<or> CHR ''<'' \<in> set (network_text n)" by auto
  have "printable (CHR ''/'')" "printable (CHR ''<'')" by (simp_all add: printable_def)
  with either printable_not_blank show "trim_space (network_text n) \<noteq> []" by blast
  show "network_text n \<noteq> ''default''" using either by auto
qed

subsection \<open>The routing recipe of a loaded configuration\<close>

lemma normalize_cidr_text: "normalize_cidr c = Inr cidr \<Longrightarrow> \<exists>n. cidr = network_text n"
  by (auto simp: normalize_cidr_def Let_def split: if_splits sum.splits option.splits)

lemma loaded_facts:
  assumes "load_config env path b = Inr cfg"
  shows "trim_space (ga_lan_cidr (cf_gateway cfg)) \<noteq> []" "ga_lan_cidr (cf_gateway cfg) \<noteq> ''default''"
    "tr_route_table (cf_transparent cfg) \<noteq> 0" "tr_rule_priority (cf_transparent cfg) \<noteq> 0"
proof -
  from assms obtain cfg0 cfg1 where normal: "normalize (resolve_relative_paths path cfg0) = Inr cfg1"
    and prepared: "(if b then prepare_device_policy env cfg1 else Inr cfg1) = Inr cfg"
    and valid: "validate_config env b cfg = None"
    unfolding load_config_eq by blast
  have "cfg = cfg1\<lparr>cf_policy := cf_policy cfg\<rparr>"
    using prepared prepare_changes_policy(1) [of env cfg1 cfg] by (auto split: if_splits)
  then have same: "cf_gateway cfg = cf_gateway cfg1" "cf_transparent cfg = cf_transparent cfg1"
    by (metis config.select_convs(1) config.surjective config.update_convs(3),
        metis config.select_convs(7) config.surjective config.update_convs(3))
  from normalize_shape [OF normal] obtain cidr where "normalize_cidr (resolve_relative_paths path cfg0) = Inr cidr"
    "ga_lan_cidr (cf_gateway cfg1) = cidr" by auto
  with normalize_cidr_text network_text_not_blank same(1)
  show "trim_space (ga_lan_cidr (cf_gateway cfg)) \<noteq> []" "ga_lan_cidr (cf_gateway cfg) \<noteq> ''default''" by metis+
  from valid show table: "tr_route_table (cf_transparent cfg) \<noteq> 0"
    by (auto elim!: validate_parts simp: validate_services_def validate_data_plane_def)
  have "default_priority (cf_transparent cfg1) = cf_transparent cfg1"
    using normalize_normal_form [OF normal] by (simp add: normal_form_def)
  then have "tr_rule_priority (default_priority (cf_transparent cfg1)) = tr_rule_priority (cf_transparent cfg1)" by simp
  then show "tr_rule_priority (cf_transparent cfg) \<noteq> 0"
    using table same(2) by (auto simp: default_priority_def split: if_splits)
qed

text \<open>C27: A loaded configuration of a shared LAN gives the backend a recipe its guarantees hold for: the recipe
  selects traffic by ingress interface, with a LAN CIDR, a routing table and a rule priority that are set, so
  installing it fails closed. What the loader leaves to the backend's own checks are the characters of the
  interface name and the one priority that has no room for the guard rule.\<close>

theorem loaded_shared_lan_recipe:
  assumes "load_config env path b = Inr cfg" and "shares_lan (cf_gateway cfg)"
    and "validate_interface_name (ga_interface (cf_gateway cfg)) = None"
    and "tr_rule_priority (cf_transparent cfg) \<noteq> NOT 0" and "validate_interface_name tun = None"
  shows "wf_ingress (tun_routing (gateway_view cfg) tun)"
proof -
  have "trim_space tun \<noteq> []" using valid_interface_name [OF assms(5)] by simp
  then show ?thesis
    using loaded_facts [OF assms(1)] assms(2-4) same_lan_view [of cfg]
    by (simp add: wf_ingress_def tun_routing_def routing_recipe_def effective_rule_mode_def)
      (simp add: gateway_view_def routing_rule_ingress_def)
qed

text \<open>A minimal file for a gateway on the shared LAN.\<close>

definition shared_sections :: "(string \<times> entries) list" where
  "shared_sections = [(''gateway'', [(''mode'', ''same_lan'')]), (''dhcp'', [(''enabled'', ''false'')]),
     (''transparent'', [(''mode'', ''tun'')])]"

definition shared_text :: string where
  "shared_text = text_of_lines (document_lines shared_sections)"

definition shared_env :: config_env where
  "shared_env = sample_env\<lparr>ce_text_at := (\<lambda>_. Some shared_text)\<rparr>"

definition shared_parsed :: config where
  "shared_parsed = default_config\<lparr>
     cf_gateway := (cf_gateway default_config)\<lparr>ga_mode := same_lan_mode\<rparr>,
     cf_dhcp := (cf_dhcp default_config)\<lparr>dh_enabled := False\<rparr>,
     cf_transparent := (cf_transparent default_config)\<lparr>tr_mode := transparent_tun\<rparr>\<rparr>"

definition shared_config :: config where
  "shared_config = (resolve_relative_paths ''/data/gateway.yaml'' shared_parsed)\<lparr>
     cf_gateway := (cf_gateway shared_parsed)\<lparr>ga_lan_cidr := scope_string default_lan\<rparr>\<rparr>"

lemma shared_parses: "parse_config shared_text = Inr shared_parsed"
proof -
  have reads: "list_all2 reads_section shared_sections shared_sections"
    by (simp add: shared_sections_def reads_section_def reads_entry_def key_word_eval readable_plain)
  have "apply_sections shared_sections default_config = Inr shared_parsed"
    by (simp add: shared_sections_def entry_run key_lookup gateway_keys_def dhcp_keys_def transparent_keys_def key_setters
        shared_parsed_def same_lan_mode_def transparent_tun_def parse_bool_def go_eval del: map_of_append)
  from config_lines_document [OF reads this, of 1 "[]"] show ?thesis
    using document_lines_plain [OF reads]
    by (auto simp: parse_config_def shared_text_def raw_text_of_lines)
qed

lemma shared_parts:
  "cf_gateway shared_config = (cf_gateway default_config)\<lparr>ga_mode := same_lan_mode, ga_lan_cidr := scope_string default_lan\<rparr>"
  "cf_dhcp shared_config = (cf_dhcp default_config)\<lparr>dh_enabled := False\<rparr>"
  "cf_transparent shared_config = (cf_transparent default_config)\<lparr>tr_mode := transparent_tun\<rparr>"
  "cf_dns shared_config = cf_dns default_config" "cf_mihomo shared_config = cf_mihomo default_config"
  "cf_upstream shared_config = cf_upstream default_config" "cf_lan_proxy shared_config = cf_lan_proxy default_config"
  "cf_local_proxy shared_config = cf_local_proxy default_config" "cf_runtime_dir shared_config = cf_runtime_dir default_config"
  "cf_policy shared_config = cf_policy default_config" "ts_enabled (cf_tailscale shared_config) = False"
  by (simp_all add: shared_config_def shared_parsed_def resolve_relative_paths_def absolute_from_def)
    (simp_all add: default_config_def)

lemma shared_scope: "lan_scope shared_config = Inr default_lan"
  using default_lan_scope by (simp add: lan_scope_def shared_parts)

lemma shared_normalizes: "normalize (resolve_relative_paths ''/data/gateway.yaml'' shared_parsed) = Inr shared_config"
proof -
  let ?c = "resolve_relative_paths ''/data/gateway.yaml'' shared_parsed"
  have blank: "ga_lan_cidr (cf_gateway ?c) = []" by (simp add: resolve_relative_paths_def shared_parsed_def default_config_def)
  have "lan_scope ?c = Inr default_lan"
    using default_lan_scope by (simp add: lan_scope_def resolve_relative_paths_def shared_parsed_def)
  then have "normalize_cidr ?c = Inr (scope_string default_lan)"
    using blank by (simp add: normalize_cidr_def scope_network_text [OF default_lan_wf])
  moreover have "default_priority (cf_transparent ?c) = cf_transparent ?c" "retire_ipv6 (cf_transparent ?c) = cf_transparent ?c"
    "normalize_dns (cf_dns ?c) = cf_dns ?c" "\<not> tr_auto_route (cf_transparent ?c)" "cf_gateway ?c = cf_gateway shared_parsed"
    by (simp_all add: resolve_relative_paths_def shared_parsed_def default_config_def default_priority_def retire_ipv6_def
        normalize_dns_def default_route_table_id_def)
  ultimately show ?thesis by (simp add: normalize_def shared_config_def Let_def)
qed

lemma shared_valid: "validate_config env b shared_config = None"
proof -
  have "validate_gateway (cf_gateway shared_config) = None"
    using default_gateway_valid by (simp add: shared_parts validate_gateway_def)
  moreover have "validate_dhcp (cf_dhcp shared_config) s = None" "validate_bypass_addresses (cf_dhcp shared_config) = None" for s
    using default_rest_valid(5) by (simp_all add: shared_parts validate_dhcp_def validate_bypass_addresses_def)
  moreover have "validate_dns env shared_config = None"
    using default_dns_valid [of env] resolver_inputs [of shared_config default_config "ce_url env"]
    by (simp add: validate_dns_def shared_parts same_dns_inputs_def)
  moreover have "validate_lan_cidr (cf_gateway shared_config) default_lan = None"
    using trim_scope_string [OF default_lan_wf] scope_string_nonempty [OF default_lan_wf] parse_cidr_scope_string [OF default_lan_wf]
    by (simp add: validate_lan_cidr_def shared_parts blank_def)
  moreover have "validate_data_plane (cf_transparent shared_config) = None" "validate_transparent (cf_transparent shared_config) = None"
    "validate_ipv6_topology shared_config = None" "validate_topology_mode shared_config = None" "validate_lan_proxy shared_config = None"
    "validate_mihomo (cf_mihomo shared_config) (px_enabled (cf_upstream shared_config)) = None"
    "validate_upstream_proxy (cf_upstream shared_config) = None" "\<not> blank (cf_runtime_dir shared_config)"
    unfolding shared_parts validate_ipv6_topology_def validate_topology_mode_def validate_lan_proxy_def
    by (simp_all add: default_config_def validate_data_plane_def validate_transparent_def ipv6_requested_def tun_ipv6_off_def
        shares_lan_def valid_tun_name_def transparent_tun_def transparent_off_def same_lan_mode_def same_wifi_mode_def tun_enabled_def
        valid_port_def valid_optional_port_def validate_mihomo_def validate_mihomo_profile_def profile_managed_def
        validate_upstream_proxy_def blank_def default_fw_mark_def default_route_table_id_def go_eval)
  moreover have "validate_tailscale url (cf_tailscale shared_config) p s b = None" for url p s
    by (simp add: validate_tailscale_def shared_parts)
  moreover have "validate_policy_stage env b s shared_config = Inr shared_config" for s
    by (rule policy_free_stage) (simp_all add: shared_parts default_policy)
  ultimately show ?thesis
    by (simp add: validate_config_def shared_scope default_gateway_usable validate_services_def)
qed

lemma shared_loads: "load_config shared_env ''/data/gateway.yaml'' True = Inr shared_config"
proof -
  have "prepare_device_policy shared_env shared_config = Inr shared_config"
    by (simp add: prepare_device_policy_def shared_parts default_policy blank_def)
  then show ?thesis
    unfolding load_config_eq using shared_parses shared_normalizes shared_valid by (simp add: shared_env_def)
qed

theorem loaded_shared_lan_recipe_witness:
  "wf_ingress (tun_routing (gateway_view shared_config) ''tun0'')"
  by (rule loaded_shared_lan_recipe [OF shared_loads])
    (simp_all add: shared_parts shares_lan_def default_config_def validate_interface_name_def is_interface_char_def
      default_route_table_id_def go_eval)

end
