(* ===== verification/GoEncoding.thy ===== *)
theory GoEncoding
  imports GoNetip
begin

text \<open>
  What the web gateway uses of \<open>encoding/hex\<close>, \<open>encoding/base64\<close> (\<open>RawStdEncoding\<close>), \<open>strings.Trim\<close>,
  \<open>net.IP.IsPrivate\<close> and \<open>time\<close>, with the round trips of both encodings.
\<close>

subsection \<open>Hexadecimal\<close>

primrec hex_encode :: "string \<Rightarrow> string" where
  "hex_encode [] = []"
| "hex_encode (c # cs) = hex_digit (byte_of c div 16) # hex_digit (byte_of c mod 16) # hex_encode cs"

fun hex_decode :: "string \<Rightarrow> string option" where
  "hex_decode [] = Some []"
| "hex_decode [a] = None"
| "hex_decode (a # b # r) =
     (if is_hex a \<and> is_hex b then map_option ((#) (chr_of (hex_val a * 16 + hex_val b))) (hex_decode r) else None)"

lemma byte_parts: "byte_of c div 4 < 64" "byte_of c div 16 < 16" "byte_of c div 64 < 4"
  by (rule less_mult_imp_div_less, simp)+

lemma hex_decode_encode: "hex_decode (hex_encode s) = Some s"
proof (induction s)
  case (Cons c s)
  have "byte_of c div 16 < 16" by (rule byte_parts)
  with Cons show ?case by (simp add: hex_digit_facts)
qed simp

subsection \<open>Base64 without padding\<close>

definition b64_char :: "nat \<Rightarrow> char" where
  "b64_char n =
     (if n < 26 then chr_of (65 + n) else if n < 52 then chr_of (71 + n) else if n < 62 then chr_of (n - 4)
      else if n = 62 then CHR ''+'' else CHR ''/'')"

definition b64_val :: "char \<Rightarrow> nat option" where
  "b64_val c =
     (if is_upper_ascii c then Some (byte_of c - 65) else if is_lower_ascii c then Some (byte_of c - 71)
      else if is_digit c then Some (byte_of c + 4) else if c = CHR ''+'' then Some 62
      else if c = CHR ''/'' then Some 63 else None)"

fun b64_encode :: "string \<Rightarrow> string" where
  "b64_encode [] = []"
| "b64_encode [a] = [b64_char (byte_of a div 4), b64_char (byte_of a mod 4 * 16)]"
| "b64_encode [a, b] =
     [b64_char (byte_of a div 4), b64_char (byte_of a mod 4 * 16 + byte_of b div 16), b64_char (byte_of b mod 16 * 4)]"
| "b64_encode (a # b # c # r) =
     b64_char (byte_of a div 4) # b64_char (byte_of a mod 4 * 16 + byte_of b div 16)
     # b64_char (byte_of b mod 16 * 4 + byte_of c div 64) # b64_char (byte_of c mod 64) # b64_encode r"

text \<open>The decoder skips line breaks and ignores the bits of the last character that carry no data.\<close>

fun b64_bytes :: "nat list \<Rightarrow> string option" where
  "b64_bytes [] = Some []"
| "b64_bytes [a] = None"
| "b64_bytes [a, b] = Some [chr_of (a * 4 + b div 16)]"
| "b64_bytes [a, b, c] = Some [chr_of (a * 4 + b div 16), chr_of (b mod 16 * 16 + c div 4)]"
| "b64_bytes (a # b # c # d # r) =
     map_option (\<lambda>s. chr_of (a * 4 + b div 16) # chr_of (b mod 16 * 16 + c div 4) # chr_of (c mod 4 * 64 + d) # s)
       (b64_bytes r)"

definition b64_decode :: "string \<Rightarrow> string option" where
  "b64_decode s =
     (let cs = filter (\<lambda>c. c \<notin> {CHR 0x0A, CHR 0x0D}) s in
      if list_all (\<lambda>c. b64_val c \<noteq> None) cs then b64_bytes (map (the \<circ> b64_val) cs) else None)"

lemma b64_char_facts:
  assumes "n < 64"
  shows "b64_val (b64_char n) = Some n" "b64_char n \<notin> {CHR 0x0A, CHR 0x0D}"
proof -
  consider "n < 26" | "26 \<le> n" "n < 52" | "52 \<le> n" "n < 62" | "n = 62" | "n = 63"
    using assms by linarith
  then show v: "b64_val (b64_char n) = Some n"
    by cases (auto simp: b64_val_def b64_char_def is_upper_ascii_def is_lower_ascii_def is_digit_def)
  have "b64_val (CHR 0x0A) = None" "b64_val (CHR 0x0D) = None"
    by (simp_all add: b64_val_def is_upper_ascii_def is_lower_ascii_def is_digit_def)
  with v show "b64_char n \<notin> {CHR 0x0A, CHR 0x0D}" by auto
qed

fun sextets :: "string \<Rightarrow> nat list" where
  "sextets [] = []"
| "sextets [a] = [byte_of a div 4, byte_of a mod 4 * 16]"
| "sextets [a, b] = [byte_of a div 4, byte_of a mod 4 * 16 + byte_of b div 16, byte_of b mod 16 * 4]"
| "sextets (a # b # c # r) =
     (byte_of a div 4) # (byte_of a mod 4 * 16 + byte_of b div 16)
     # (byte_of b mod 16 * 4 + byte_of c div 64) # (byte_of c mod 64) # sextets r"

lemma b64_encode_sextets: "b64_encode s = map b64_char (sextets s)"
  by (induction s rule: sextets.induct) simp_all

lemma sextets_below: "\<forall>n \<in> set (sextets s). n < 64"
proof (induction s rule: sextets.induct)
  case (4 a b c r)
  have "byte_of a mod 4 * 16 + byte_of b div 16 < 64" "byte_of b mod 16 * 4 + byte_of c div 64 < 64"
    using byte_parts(2) [of b] byte_parts(3) [of c] mod_less_divisor [of 4 "byte_of a"]
      mod_less_divisor [of 16 "byte_of b"] by linarith+
  with 4 show ?case using byte_parts(1) [of a] by simp
next
  case (3 a b)
  have "byte_of a mod 4 * 16 + byte_of b div 16 < 64" "byte_of b mod 16 * 4 < 64"
    using byte_parts(2) [of b] mod_less_divisor [of 4 "byte_of a"] mod_less_divisor [of 16 "byte_of b"] by linarith+
  then show ?case using byte_parts(1) [of a] by simp
next
  case (2 a)
  have "byte_of a mod 4 * 16 < 64" using mod_less_divisor [of 4 "byte_of a"] by linarith
  then show ?case using byte_parts(1) [of a] by simp
qed simp

lemma b64_bytes_sextets: "b64_bytes (sextets s) = Some s"
proof (induction s rule: sextets.induct)
  case (4 a b c r)
  then show ?case using byte_parts(2) [of b] byte_parts(3) [of c] by simp
qed (use byte_parts in simp_all)

lemma b64_decode_encode: "b64_decode (b64_encode s) = Some s"
proof -
  have b: "\<forall>n \<in> set (sextets s). n < 64" by (rule sextets_below)
  then have "filter (\<lambda>c. c \<notin> {CHR 0x0A, CHR 0x0D}) (b64_encode s) = b64_encode s"
    unfolding b64_encode_sextets by (intro filter_True) (auto dest: b64_char_facts)
  moreover have "map (the \<circ> b64_val) (b64_encode s) = sextets s"
    using b unfolding b64_encode_sextets by (simp add: map_idI b64_char_facts)
  moreover have "list_all (\<lambda>c. b64_val c \<noteq> None) (b64_encode s)"
    using b unfolding b64_encode_sextets by (simp add: list_all_iff b64_char_facts)
  ultimately show ?thesis by (simp add: b64_decode_def b64_bytes_sextets)
qed

subsection \<open>Texts, addresses, time\<close>

text \<open>\<open>strings.Trim\<close> with an ASCII cutset\<close>

definition trim_set :: "string \<Rightarrow> string \<Rightarrow> string" where
  "trim_set s cutset =
     rev (dropWhile (\<lambda>c. c \<in> set cutset) (rev (dropWhile (\<lambda>c. c \<in> set cutset) s)))"

text \<open>\<open>net.IP.IsPrivate\<close>\<close>

definition ip_private :: "ip \<Rightarrow> bool" where
  "ip_private ip =
     (case to4 ip of
        a # b # _ \<Rightarrow> a = 10 \<or> (a = 172 \<and> b AND 0xF0 = 16) \<or> (a = 192 \<and> b = 168)
      | _ \<Rightarrow> length ip = 16 \<and> hd ip AND 0xFE = 0xFC)"

text \<open>
  An instant is the number of nanoseconds since the zero \<open>time.Time\<close>, a duration a number of nanoseconds
  in 64 bits; \<open>Sub\<close> saturates.
\<close>

type_synonym time = int

definition time_sub :: "time \<Rightarrow> time \<Rightarrow> int" where
  "time_sub t u = max (- (2 ^ 63)) (min (2 ^ 63 - 1) (t - u))"

definition seconds :: int where "seconds = 1000000000"
definition minutes :: int where "minutes = 60 * seconds"
definition hours :: int where "hours = 60 * minutes"

lemma time_sub_less: "u \<le> t \<Longrightarrow> d \<le> 2 ^ 63 - 1 \<Longrightarrow> d \<le> time_sub t u \<longleftrightarrow> u + d \<le> t"
  by (auto simp: time_sub_def)

end
