(* ===== verification/WebStores.thy ===== *)
theory WebStores
  imports GoEncoding ConfigResolver
begin

text \<open>
  \<open>internal/webgateway/auth.go\<close> and the store of \<open>remote_management.go\<close>: the administrator's credential file
  and the remote management token's file. A file is what reading it gives, its JSON decoded; Argon2 and
  SHA-256 are parameters. \<open>crypto/rand\<close> never fails in the Go version used, its bytes are arguments.
\<close>

subsection \<open>Files\<close>

datatype 'a stored =
    Absent
  | Unstatable
  | Unreadable
  | Undecodable
  | Stored 'a

text \<open>
  How \<open>writeDurableAtomic\<close> ends: nothing written, renamed in place but the directory not synced (an error
  all the same), or written.
\<close>

datatype write_outcome = WriteFails | WriteUnsynced | WriteDone

definition write_durable_atomic :: "write_outcome \<Rightarrow> 'a \<Rightarrow> 'a stored \<Rightarrow> bool \<times> 'a stored" where
  "write_durable_atomic out x f =
     (case out of WriteFails \<Rightarrow> (False, f) | WriteUnsynced \<Rightarrow> (False, Stored x) | WriteDone \<Rightarrow> (True, Stored x))"

text \<open>\<open>os.Remove\<close>, \<open>ErrNotExist\<close> counting as success.\<close>

definition remove_stored :: "bool \<Rightarrow> 'a stored \<Rightarrow> bool \<times> 'a stored" where
  "remove_stored ok f = (if f = Absent then (True, f) else if ok then (True, Absent) else (False, f))"

record web_lib =
  wl_url :: url_reader
  wl_argon :: "string \<Rightarrow> string \<Rightarrow> 32 word \<Rightarrow> 32 word \<Rightarrow> 8 word \<Rightarrow> 32 word \<Rightarrow> string"
  wl_sha :: "string \<Rightarrow> string"

subsection \<open>The administrator account\<close>

record credential =
  cr_schema :: int
  cr_username :: string
  cr_salt :: string
  cr_hash :: string
  cr_time :: "32 word"
  cr_memory :: "32 word"
  cr_threads :: "8 word"
  cr_key_len :: "32 word"
  cr_created :: time

definition argon_time :: "32 word" where "argon_time = 3"
definition argon_memory :: "32 word" where "argon_memory = 64 * 1024"
definition argon_threads :: "8 word" where "argon_threads = 2"
definition argon_key_len :: "32 word" where "argon_key_len = 32"
definition auth_schema_version :: int where "auth_schema_version = 1"

datatype setup_error =
    AlreadySetup
  | SetupStateUnknown
  | UsernameLength
  | UsernameControl
  | PasswordLength
  | AccountNotWritten

datatype login_error =
    SetupRequired
  | AccountUnreadable
  | AccountInvalid
  | SaltUndecodable
  | HashUndecodable
  | InvalidLogin

text \<open>\<open>SetupRequired\<close>: whether the file is missing; \<open>None\<close> when \<open>os.Stat\<close> fails otherwise.\<close>

definition setup_required :: "credential stored \<Rightarrow> bool option" where
  "setup_required f = (case f of Absent \<Rightarrow> Some True | Unstatable \<Rightarrow> None | _ \<Rightarrow> Some False)"

definition check_setup :: "string \<Rightarrow> string \<Rightarrow> setup_error option" where
  "check_setup username password =
     (let name = trim_space username in
      vthen (fail_if (length name < 3 \<or> length name > 64) UsernameLength)
     (vthen (fail_if (contains_any name [CHR 0x0D, CHR 0x0A, CHR 0x09]) UsernameControl)
       (fail_if (length password < 12 \<or> length password > 1024) PasswordLength)))"

definition new_credential :: "web_lib \<Rightarrow> string \<Rightarrow> string \<Rightarrow> string \<Rightarrow> time \<Rightarrow> credential" where
  "new_credential lib username password salt now =
     \<lparr>cr_schema = auth_schema_version, cr_username = trim_space username, cr_salt = b64_encode salt,
      cr_hash = b64_encode (wl_argon lib password salt argon_time argon_memory argon_threads argon_key_len),
      cr_time = argon_time, cr_memory = argon_memory, cr_threads = argon_threads, cr_key_len = argon_key_len,
      cr_created = now\<rparr>"

definition setup_account ::
  "web_lib \<Rightarrow> string \<Rightarrow> string \<Rightarrow> string \<Rightarrow> time \<Rightarrow> write_outcome \<Rightarrow> credential stored
     \<Rightarrow> setup_error option \<times> credential stored" where
  "setup_account lib username password salt now out f =
     (case setup_required f of
        Some False \<Rightarrow> (Some AlreadySetup, f)
      | None \<Rightarrow> (Some SetupStateUnknown, f)
      | Some True \<Rightarrow>
          (case check_setup username password of
             Some e \<Rightarrow> (Some e, f)
           | None \<Rightarrow>
               (case write_durable_atomic out (new_credential lib username password salt now) f of
                  (ok, f') \<Rightarrow> (fail_if (\<not> ok) AccountNotWritten, f'))))"

definition load_credential :: "credential stored \<Rightarrow> login_error + credential" where
  "load_credential f =
     (case f of
        Absent \<Rightarrow> Inl SetupRequired
      | Stored c \<Rightarrow>
          if cr_schema c \<noteq> auth_schema_version \<or> cr_username c = [] \<or> cr_salt c = [] \<or> cr_hash c = []
          then Inl AccountInvalid
          else if cr_time c = 0 \<or> cr_memory c < 8 * 1024 \<or> cr_threads c = 0 \<or> cr_key_len c < 16
          then Inl AccountInvalid
          else Inr c
      | _ \<Rightarrow> Inl AccountUnreadable)"

definition verify_login :: "web_lib \<Rightarrow> string \<Rightarrow> string \<Rightarrow> credential stored \<Rightarrow> login_error option" where
  "verify_login lib username password f =
     (case load_credential f of
        Inl e \<Rightarrow> Some e
      | Inr c \<Rightarrow>
          (case b64_decode (cr_salt c) of
             None \<Rightarrow> Some SaltUndecodable
           | Some salt \<Rightarrow>
               (case b64_decode (cr_hash c) of
                  None \<Rightarrow> Some HashUndecodable
                | Some want \<Rightarrow>
                    let got = wl_argon lib password salt (cr_time c) (cr_memory c) (cr_threads c) (cr_key_len c) in
                    fail_if (trim_space username \<noteq> cr_username c \<or> got \<noteq> want) InvalidLogin)))"

text \<open>The account just created accepts a login exactly with its user name and the same password hash.\<close>

lemma b64_encode_eq_Nil [simp]: "b64_encode s = [] \<longleftrightarrow> s = []"
  by (cases s rule: b64_encode.cases) simp_all

lemma setup_then_login:
  assumes "setup_account lib u p salt now out Absent = (None, f)" and "salt \<noteq> []"
    and "\<forall>p s t m n l. wl_argon lib p s t m n l \<noteq> []"
  shows "verify_login lib u' p' f = None \<longleftrightarrow>
    trim_space u' = trim_space u
    \<and> wl_argon lib p' salt argon_time argon_memory argon_threads argon_key_len
        = wl_argon lib p salt argon_time argon_memory argon_threads argon_key_len"
proof -
  from assms(1) have f: "f = Stored (new_credential lib u p salt now)" and c: "check_setup u p = None"
    by (auto simp: setup_account_def setup_required_def write_durable_atomic_def
        split: option.splits write_outcome.splits)
  from c have "trim_space u \<noteq> []" by (auto simp: check_setup_def Let_def)
  then have "load_credential f = Inr (new_credential lib u p salt now)"
    using assms(2,3) by (simp add: f load_credential_def new_credential_def auth_schema_version_def
        argon_time_def argon_memory_def argon_threads_def argon_key_len_def)
  then show ?thesis
    by (simp add: verify_login_def) (simp add: new_credential_def b64_decode_encode Let_def)
qed

subsection \<open>The remote management token\<close>

record remote_record =
  rm_schema :: int
  rm_hash :: string
  rm_prefix :: string
  rm_created :: time

definition remote_token_prefix :: string where "remote_token_prefix = ''osr_''"
definition remote_schema_version :: int where "remote_schema_version = 1"

text \<open>\<open>randomToken\<close> on the bytes drawn\<close>

definition random_token :: "string \<Rightarrow> string" where
  "random_token bytes = hex_encode bytes"

definition new_remote_token :: "string \<Rightarrow> string" where
  "new_remote_token bytes = remote_token_prefix @ random_token bytes"

definition new_remote_record :: "web_lib \<Rightarrow> string \<Rightarrow> time \<Rightarrow> remote_record" where
  "new_remote_record lib token now =
     \<lparr>rm_schema = remote_schema_version, rm_hash = hex_encode (wl_sha lib token), rm_prefix = take 16 token,
      rm_created = now\<rparr>"

text \<open>\<open>Rotate\<close>: the token on success; a write that was not synced is an error, yet the old token is gone.\<close>

definition rotate_remote ::
  "web_lib \<Rightarrow> string \<Rightarrow> time \<Rightarrow> write_outcome \<Rightarrow> remote_record stored
     \<Rightarrow> string option \<times> remote_record stored" where
  "rotate_remote lib bytes now out f =
     (let token = new_remote_token bytes in
      case write_durable_atomic out (new_remote_record lib token now) f of
        (ok, f') \<Rightarrow> (if ok then Some token else None, f'))"

definition load_remote :: "remote_record stored \<Rightarrow> remote_record option" where
  "load_remote f =
     (case f of
        Stored r \<Rightarrow>
          if rm_schema r \<noteq> remote_schema_version \<or> rm_hash r = [] \<or> rm_prefix r = [] \<or> rm_created r = 0
          then None else Some r
      | _ \<Rightarrow> None)"

text \<open>\<open>Status\<close>: \<open>None\<close> is its error; \<open>Some None\<close> says no token is set.\<close>

definition remote_status :: "remote_record stored \<Rightarrow> remote_record option option" where
  "remote_status f = (if f = Absent then Some None else map_option Some (load_remote f))"

definition verify_remote :: "web_lib \<Rightarrow> string \<Rightarrow> remote_record stored \<Rightarrow> bool" where
  "verify_remote lib raw f =
     (let value = trim_space raw in
      if \<not> has_prefix value remote_token_prefix \<or> length value < length remote_token_prefix + 32 then False
      else
        (case load_remote f of
           None \<Rightarrow> False
         | Some r \<Rightarrow>
             (case hex_decode (rm_hash r) of
                None \<Rightarrow> False
              | Some want \<Rightarrow> length want = 32 \<and> wl_sha lib value = want)))"

end
