(* ===== verification/WebServer.thy ===== *)
theory WebServer
  imports WebStores "HOL-Library.AList"
begin

text \<open>
  \<open>internal/webgateway/server.go\<close>, \<open>product.go\<close> and the handlers of \<open>remote_management.go\<close>: the state behind
  the web gateway, the route of a request and every handler. A request is what \<open>net/http\<close> hands to
  \<open>ServeMux\<close>, with the path as its unescaped segments; the redirects \<open>ServeMux\<close> answers itself for paths
  that are not clean never reach a handler. A handler takes what the outside contributes to one request:
  the clock at its start and when it stores something, random bytes, the outcome of writing and removing
  a file, the control API's reply.
\<close>

subsection \<open>Server, state, requests, answers\<close>

definition session_lifetime :: int where "session_lifetime = 12 * hours"
definition login_window :: int where "login_window = 15 * minutes"
definition max_login_failures :: int where "max_login_failures = 6"

record web_server =
  sv_upstream_host :: string
  sv_control_token :: string
  sv_hosts :: "string list"
  sv_disable_auth :: bool
  sv_require_bootstrap :: bool
  sv_secure_cookies :: bool
  sv_qnap_only :: bool
  sv_platform :: string

record login_bucket =
  lb_start :: time
  lb_failures :: int

record web_state =
  ws_sessions :: "(string \<times> time) list"
  ws_failures :: "(string \<times> login_bucket) list"
  ws_account :: "credential stored"
  ws_remote :: "remote_record stored"
  ws_bootstrap :: "string stored"

record web_request =
  rq_method :: string
  rq_segments :: "string list"
  rq_host :: string
  rq_origin :: string
  rq_authorization :: string
  rq_cookie :: "string option"
  rq_remote_header :: string
  rq_addr :: string
  rq_setup_body :: "(string \<times> string \<times> string) option"
  rq_login_body :: "(string \<times> string) option"

record overview =
  ov_gateway :: string
  ov_runtime :: string
  ov_desired :: bool

datatype control_reply = NoReply | Reply nat "overview option"

record web_input =
  wi_now :: time
  wi_later :: time
  wi_random :: string
  wi_salt :: string
  wi_write :: write_outcome
  wi_removed :: bool
  wi_overview :: control_reply

datatype payload =
    NoPayload
  | Live
  | NotReady string
  | Ready overview
  | AuthState bool bool bool
  | Authenticated bool
  | LoginPage string
  | Product string string string bool bool
  | TokenStatus "remote_record option"
  | TokenIssued string
  | Capabilities string bool
  | Failed string
  | SetupFailed setup_error

datatype cookie_change = CookieKept | CookieSet string | CookieCleared

record forwarded =
  fw_method :: string
  fw_path :: string
  fw_host :: string
  fw_authorization :: string
  fw_remote :: string

record web_answer =
  wa_status :: nat
  wa_payload :: payload
  wa_cookie :: cookie_change
  wa_retry :: "int option"
  wa_location :: string
  wa_forward :: "forwarded option"

definition answer :: "nat \<Rightarrow> payload \<Rightarrow> web_answer" where
  "answer status p = \<lparr>wa_status = status, wa_payload = p, wa_cookie = CookieKept, wa_retry = None,
     wa_location = [], wa_forward = None\<rparr>"

definition redirect :: "string \<Rightarrow> web_answer" where
  "redirect target = (answer 302 NoPayload)\<lparr>wa_location := target\<rparr>"

definition not_found :: web_answer where
  "not_found = answer 404 NoPayload"

definition url_path :: "web_request \<Rightarrow> string" where
  "url_path r = concat (map (\<lambda>s. CHR ''/'' # s) (rq_segments r))"

subsection \<open>Start\<close>

record server_options =
  so_upstream :: string
  so_control_token :: string
  so_auth_dir :: string
  so_hosts :: "string list"
  so_disable_auth :: bool
  so_require_bootstrap :: bool
  so_secure_cookies :: bool
  so_qnap_only :: bool
  so_platform :: string

datatype server_error =
    PlatformUnsupported
  | ControlTokenMissing
  | AuthDirMissing
  | UpstreamInvalid
  | UpstreamNotLoopback
  | SetupStateFails
  | BootstrapNotRemoved
  | BootstrapUnreadable
  | BootstrapNotCreated

definition parse_platform :: "string \<Rightarrow> server_error + string" where
  "parse_platform value =
     (let v = (if value = [] then ''qnap'' else value) in
      if v \<in> {''qnap'', ''synology'', ''fnos'', ''generic''} then Inr v else Inl PlatformUnsupported)"

definition product_name :: "string \<Rightarrow> string" where
  "product_name p =
     (if p = ''qnap'' then ''OpenSurge for QNAP'' else if p = ''synology'' then ''OpenSurge for Synology''
      else if p = ''fnos'' then ''OpenSurge for fnOS'' else ''OpenSurge for NAS'')"

definition normalise_host :: "string \<Rightarrow> string" where
  "normalise_host raw =
     (let value = trim_space (to_lower raw) in
      case split_host_port value of
        Some (host, _) \<Rightarrow> trim_set host ''[]''
      | None \<Rightarrow> trim_set value ''[]'')"

definition new_server :: "web_lib \<Rightarrow> server_options \<Rightarrow> server_error + web_server" where
  "new_server lib o1 =
     rbind (parse_platform (so_platform o1)) (\<lambda>platform.
       let up = (if trim_space (so_upstream o1) = [] then ''http://127.0.0.1:61767'' else so_upstream o1) in
       if trim_space (so_control_token o1) = [] then Inl ControlTokenMissing
       else if trim_space (so_auth_dir o1) = [] then Inl AuthDirMissing
       else
         (case wl_url lib up of
            None \<Rightarrow> Inl UpstreamInvalid
          | Some u \<Rightarrow>
              let name = fst (url_split_host (ul_host u)); ip = parse_ip name in
              if ul_scheme u \<noteq> ''http'' \<or> name = [] then Inl UpstreamInvalid
              else if name \<noteq> ''localhost'' \<and> (ip = [] \<or> \<not> ip_loopback ip) then Inl UpstreamNotLoopback
              else Inr \<lparr>sv_upstream_host = ul_host u, sv_control_token = so_control_token o1,
                sv_hosts = filter (\<lambda>h. h \<noteq> []) (map normalise_host (so_hosts o1)),
                sv_disable_auth = so_disable_auth o1, sv_require_bootstrap = so_require_bootstrap o1,
                sv_secure_cookies = so_secure_cookies o1, sv_qnap_only = so_qnap_only o1,
                sv_platform = platform\<rparr>))"

definition stored_text :: "string stored \<Rightarrow> string option" where
  "stored_text f = (case f of Stored t \<Rightarrow> Some t | _ \<Rightarrow> None)"

definition ensure_bootstrap_token :: "web_server \<Rightarrow> web_input \<Rightarrow> web_state \<Rightarrow> server_error option \<times> web_state" where
  "ensure_bootstrap_token sv i st =
     (if sv_disable_auth sv \<or> \<not> sv_require_bootstrap sv then (None, st)
      else
        (case setup_required (ws_account st) of
           None \<Rightarrow> (Some SetupStateFails, st)
         | Some False \<Rightarrow>
             (case remove_stored (wi_removed i) (ws_bootstrap st) of
                (ok, f) \<Rightarrow> (fail_if (\<not> ok) BootstrapNotRemoved, st\<lparr>ws_bootstrap := f\<rparr>))
         | Some True \<Rightarrow>
             if ws_bootstrap st \<noteq> Absent \<and> stored_text (ws_bootstrap st) = None then (Some BootstrapUnreadable, st)
             else if (case stored_text (ws_bootstrap st) of None \<Rightarrow> False | Some t \<Rightarrow> trim_space t \<noteq> []) then (None, st)
             else
               (case write_durable_atomic (wi_write i) (random_token (wi_random i) @ [CHR 0x0A]) (ws_bootstrap st) of
                  (ok, f) \<Rightarrow> (fail_if (\<not> ok) BootstrapNotCreated, st\<lparr>ws_bootstrap := f\<rparr>))))"

definition verify_bootstrap_token :: "web_server \<Rightarrow> string \<Rightarrow> string stored \<Rightarrow> bool" where
  "verify_bootstrap_token sv value f =
     (if \<not> sv_require_bootstrap sv then True
      else
        (case stored_text f of
           None \<Rightarrow> False
         | Some t \<Rightarrow> trim_space t \<noteq> [] \<and> trim_space value = trim_space t))"

definition clear_bootstrap_token :: "web_server \<Rightarrow> bool \<Rightarrow> web_state \<Rightarrow> web_state" where
  "clear_bootstrap_token sv ok st =
     (if \<not> sv_require_bootstrap sv then st
      else st\<lparr>ws_bootstrap := snd (remove_stored ok (ws_bootstrap st))\<rparr>)"

subsection \<open>Sessions\<close>

definition authenticated :: "web_server \<Rightarrow> time \<Rightarrow> web_request \<Rightarrow> web_state \<Rightarrow> bool \<times> web_state" where
  "authenticated sv now r st =
     (if sv_disable_auth sv then (True, st)
      else
        (case rq_cookie r of
           None \<Rightarrow> (False, st)
         | Some token \<Rightarrow>
             if token = [] then (False, st)
             else
               (case map_of (ws_sessions st) token of
                  None \<Rightarrow> (False, st\<lparr>ws_sessions := AList.delete token (ws_sessions st)\<rparr>)
                | Some expires \<Rightarrow>
                    if \<not> now < expires then (False, st\<lparr>ws_sessions := AList.delete token (ws_sessions st)\<rparr>)
                    else (True, st\<lparr>ws_sessions := AList.update token (now + session_lifetime) (ws_sessions st)\<rparr>))))"

definition live_sessions :: "time \<Rightarrow> (string \<times> time) list \<Rightarrow> (string \<times> time) list" where
  "live_sessions now ss = (if length ss \<ge> 256 then filter (\<lambda>(_, expires). now < expires) ss else ss)"

definition issue_session :: "web_input \<Rightarrow> web_state \<Rightarrow> string \<times> web_state" where
  "issue_session i st =
     (let token = random_token (wi_random i) in
      (token, st\<lparr>ws_sessions := AList.update token (wi_later i + session_lifetime)
                   (live_sessions (wi_later i) (ws_sessions st))\<rparr>))"

subsection \<open>Origins and addresses\<close>

definition host_allowed :: "web_server \<Rightarrow> string \<Rightarrow> bool" where
  "host_allowed sv value =
     (let host = normalise_host value; ip = parse_ip host in
      host = ''localhost'' \<or> host \<in> set (sv_hosts sv)
      \<or> (ip \<noteq> [] \<and> (ip_loopback ip \<or> ip_private ip \<or> ip_link_local ip)))"

definition same_origin :: "web_lib \<Rightarrow> web_request \<Rightarrow> bool" where
  "same_origin lib r =
     (let origin = trim_space (rq_origin r) in
      if origin = [] then False
      else
        (case wl_url lib origin of
           None \<Rightarrow> False
         | Some u \<Rightarrow> ul_host u \<noteq> [] \<and> equal_fold (ul_host u) (rq_host r)))"

definition client_address :: "web_request \<Rightarrow> string" where
  "client_address r = (case split_host_port (rq_addr r) of Some (host, _) \<Rightarrow> host | None \<Rightarrow> rq_addr r)"

subsection \<open>Failed logins\<close>

text \<open>\<open>loginBlocked\<close>: how long the client has to wait.\<close>

definition login_blocked :: "time \<Rightarrow> string \<Rightarrow> web_state \<Rightarrow> int option" where
  "login_blocked now client st =
     (case map_of (ws_failures st) client of
        None \<Rightarrow> None
      | Some b \<Rightarrow>
          if time_sub now (lb_start b) \<ge> login_window then None
          else if lb_failures b < max_login_failures then None
          else Some (login_window - time_sub now (lb_start b)))"

definition record_login_failure :: "time \<Rightarrow> string \<Rightarrow> web_state \<Rightarrow> web_state" where
  "record_login_failure now client st =
     (let b0 = (case map_of (ws_failures st) client of None \<Rightarrow> \<lparr>lb_start = 0, lb_failures = 0\<rparr> | Some b \<Rightarrow> b);
          b = (if lb_start b0 = 0 \<or> time_sub now (lb_start b0) \<ge> login_window
               then \<lparr>lb_start = now, lb_failures = 0\<rparr> else b0) in
      st\<lparr>ws_failures := AList.update client (b\<lparr>lb_failures := lb_failures b + 1\<rparr>) (ws_failures st)\<rparr>)"

definition clear_login_failures :: "string \<Rightarrow> web_state \<Rightarrow> web_state" where
  "clear_login_failures client st = st\<lparr>ws_failures := AList.delete client (ws_failures st)\<rparr>"

subsection \<open>Handlers of the account\<close>

definition handle_auth_state :: "web_server \<Rightarrow> web_state \<Rightarrow> web_answer" where
  "handle_auth_state sv st =
     (if sv_disable_auth sv then answer 200 (AuthState False False False)
      else
        (case setup_required (ws_account st) of
           None \<Rightarrow> answer 500 (Failed ''auth_state_failed'')
         | Some required \<Rightarrow> answer 200 (AuthState True required (required \<and> sv_require_bootstrap sv))))"

definition handle_setup :: "web_lib \<Rightarrow> web_server \<Rightarrow> web_input \<Rightarrow> web_request \<Rightarrow> web_state \<Rightarrow> web_answer \<times> web_state" where
  "handle_setup lib sv i r st =
     (if \<not> same_origin lib r then (answer 403 (Failed ''origin_rejected''), st)
      else
        (case rq_setup_body r of
           None \<Rightarrow> (answer 400 (Failed ''invalid_request''), st)
         | Some (username, password, bootstrap) \<Rightarrow>
             if \<not> verify_bootstrap_token sv bootstrap (ws_bootstrap st)
             then (answer 403 (Failed ''invalid_bootstrap_token''), st)
             else
               (case setup_account lib username password (wi_salt i) (wi_now i) (wi_write i) (ws_account st) of
                  (Some e, f) \<Rightarrow> (answer (if e = AlreadySetup then 409 else 422) (SetupFailed e), st\<lparr>ws_account := f\<rparr>)
                | (None, f) \<Rightarrow>
                    (case issue_session i (clear_bootstrap_token sv (wi_removed i) (st\<lparr>ws_account := f\<rparr>)) of
                       (token, st') \<Rightarrow> ((answer 201 (Authenticated True))\<lparr>wa_cookie := CookieSet token\<rparr>, st')))))"

definition handle_login :: "web_lib \<Rightarrow> web_input \<Rightarrow> web_request \<Rightarrow> web_state \<Rightarrow> web_answer \<times> web_state" where
  "handle_login lib i r st =
     (if \<not> same_origin lib r then (answer 403 (Failed ''origin_rejected''), st)
      else
        let client = client_address r in
        case login_blocked (wi_now i) client st of
          Some retry_after \<Rightarrow>
            ((answer 429 (Failed ''too_many_attempts''))\<lparr>wa_retry := Some (retry_after div seconds + 1)\<rparr>, st)
        | None \<Rightarrow>
            (case rq_login_body r of
               None \<Rightarrow> (answer 400 (Failed ''invalid_request''), st)
             | Some (username, password) \<Rightarrow>
                 (case verify_login lib username password (ws_account st) of
                    Some e \<Rightarrow> (answer 401 (Failed ''invalid_credentials''), record_login_failure (wi_later i) client st)
                  | None \<Rightarrow>
                      (case issue_session i (clear_login_failures client st) of
                         (token, st') \<Rightarrow> ((answer 200 (Authenticated True))\<lparr>wa_cookie := CookieSet token\<rparr>, st')))))"

definition handle_logout :: "web_lib \<Rightarrow> web_request \<Rightarrow> web_state \<Rightarrow> web_answer \<times> web_state" where
  "handle_logout lib r st =
     (if \<not> same_origin lib r then (answer 403 (Failed ''origin_rejected''), st)
      else
        ((answer 200 (Authenticated False))\<lparr>wa_cookie := CookieCleared\<rparr>,
         case rq_cookie r of
           None \<Rightarrow> st
         | Some token \<Rightarrow> st\<lparr>ws_sessions := AList.delete token (ws_sessions st)\<rparr>))"

definition handle_login_page :: "web_server \<Rightarrow> web_input \<Rightarrow> web_request \<Rightarrow> web_state \<Rightarrow> web_answer \<times> web_state" where
  "handle_login_page sv i r st =
     (case authenticated sv (wi_now i) r st of
        (True, st') \<Rightarrow> (redirect ''/'', st')
      | (False, st') \<Rightarrow> (answer 200 (LoginPage (product_name (sv_platform sv))), st'))"

subsection \<open>Readiness and product\<close>

definition handle_ready :: "web_input \<Rightarrow> web_answer" where
  "handle_ready i =
     (case wi_overview i of
        NoReply \<Rightarrow> answer 503 (NotReady ''control_unavailable'')
      | Reply status body \<Rightarrow>
          if status < 200 \<or> status \<ge> 300 then answer 503 (NotReady ''control_unhealthy'')
          else
            (case body of
               None \<Rightarrow> answer 503 (NotReady ''control_readiness_invalid'')
             | Some ov \<Rightarrow>
                 let up = ov_gateway ov = ''running'' \<and> ov_runtime ov = ''active'';
                     down = ov_gateway ov = ''stopped'' \<and> ov_runtime ov = ''none'' in
                 if (ov_desired ov \<and> \<not> up) \<or> (\<not> ov_desired ov \<and> \<not> down)
                 then answer 503 (NotReady ''gateway_data_plane_not_ready'')
                 else answer 200 (Ready ov)))"

definition handle_product :: "web_server \<Rightarrow> web_answer" where
  "handle_product sv =
     (let p = sv_platform sv in
      answer 200 (Product p (product_name p) (if p = ''qnap'' then ''qnet'' else ''macvlan'') (p = ''qnap'') (p \<noteq> ''qnap'')))"

subsection \<open>Forwarding\<close>

definition qnap_path_blocked :: "string \<Rightarrow> bool" where
  "qnap_path_blocked path \<longleftrightarrow>
     path \<in> {''/api/v1/menubar'', ''/api/v1/sleep-prevention'', ''/api/v1/network/apply-static'',
             ''/api/v1/network/restore-dhcp''}
     \<or> (has_prefix path ''/api/v1/sources/'' \<and> has_suffix path ''/reveal'')"

definition platform_path_blocked :: "web_server \<Rightarrow> string \<Rightarrow> bool" where
  "platform_path_blocked sv path \<longleftrightarrow> sv_platform sv \<noteq> ''qnap'' \<and> path = ''/api/v1/qnap-host-routing''"

definition remote_path_blocked :: "string \<Rightarrow> bool" where
  "remote_path_blocked path \<longleftrightarrow> qnap_path_blocked path \<or> path = ''/api/v1/session/bootstrap''"

text \<open>
  The reverse proxy's director: the control token replaces whatever the client sent as authorization; the
  header that marks remote management is the client's own on the session path.
\<close>

definition forward :: "web_server \<Rightarrow> string \<Rightarrow> string \<Rightarrow> string \<Rightarrow> web_answer" where
  "forward sv meth path remote =
     (answer 200 NoPayload)\<lparr>wa_forward := Some \<lparr>fw_method = meth, fw_path = path, fw_host = sv_upstream_host sv,
        fw_authorization = ''Bearer '' @ sv_control_token sv, fw_remote = remote\<rparr>\<rparr>"

definition handle_proxy :: "web_lib \<Rightarrow> web_server \<Rightarrow> web_input \<Rightarrow> web_request \<Rightarrow> web_state \<Rightarrow> web_answer \<times> web_state" where
  "handle_proxy lib sv i r st =
     (let path = url_path r in
      if path = ''/bootstrap'' \<or> path = ''/api/v1/session/bootstrap'' then (not_found, st)
      else
        (case authenticated sv (wi_now i) r st of
           (False, st') \<Rightarrow>
             (if has_prefix path ''/api/'' then answer 401 (Failed ''authentication_required'') else redirect ''/auth/'', st')
         | (True, st') \<Rightarrow>
             if platform_path_blocked sv path \<or> (sv_qnap_only sv \<and> qnap_path_blocked path) then (not_found, st')
             else if rq_method r \<notin> {''GET'', ''HEAD'', ''OPTIONS''} \<and> \<not> same_origin lib r
             then (answer 403 (Failed ''origin_rejected''), st')
             else (forward sv (rq_method r) path (rq_remote_header r), st')))"

subsection \<open>Remote management\<close>

definition bearer_token :: "web_request \<Rightarrow> string" where
  "bearer_token r =
     (let header = trim_space (rq_authorization r) in
      if length header < 8 \<or> \<not> equal_fold (take 7 header) ''Bearer '' then [] else trim_space (drop 7 header))"

definition require_admin_session ::
  "web_lib \<Rightarrow> web_server \<Rightarrow> web_input \<Rightarrow> web_request \<Rightarrow> bool \<Rightarrow> web_state \<Rightarrow> web_answer option \<times> web_state" where
  "require_admin_session lib sv i r mutation st =
     (case authenticated sv (wi_now i) r st of
        (False, st') \<Rightarrow> (Some (answer 401 (Failed ''authentication_required'')), st')
      | (True, st') \<Rightarrow>
          (if mutation \<and> \<not> same_origin lib r then Some (answer 403 (Failed ''origin_rejected'')) else None, st'))"

definition handle_token_status ::
  "web_lib \<Rightarrow> web_server \<Rightarrow> web_input \<Rightarrow> web_request \<Rightarrow> web_state \<Rightarrow> web_answer \<times> web_state" where
  "handle_token_status lib sv i r st =
     (case require_admin_session lib sv i r False st of
        (Some a, st') \<Rightarrow> (a, st')
      | (None, st') \<Rightarrow>
          (case remote_status (ws_remote st') of
             None \<Rightarrow> (answer 500 (Failed ''remote_token_state_failed''), st')
           | Some s \<Rightarrow> (answer 200 (TokenStatus s), st')))"

definition handle_token_rotate ::
  "web_lib \<Rightarrow> web_server \<Rightarrow> web_input \<Rightarrow> web_request \<Rightarrow> web_state \<Rightarrow> web_answer \<times> web_state" where
  "handle_token_rotate lib sv i r st =
     (case require_admin_session lib sv i r True st of
        (Some a, st') \<Rightarrow> (a, st')
      | (None, st') \<Rightarrow>
          (case rotate_remote lib (wi_random i) (wi_later i) (wi_write i) (ws_remote st') of
             (None, f) \<Rightarrow> (answer 500 (Failed ''remote_token_rotate_failed''), st'\<lparr>ws_remote := f\<rparr>)
           | (Some token, f) \<Rightarrow> (answer 201 (TokenIssued token), st'\<lparr>ws_remote := f\<rparr>)))"

definition handle_token_revoke ::
  "web_lib \<Rightarrow> web_server \<Rightarrow> web_input \<Rightarrow> web_request \<Rightarrow> web_state \<Rightarrow> web_answer \<times> web_state" where
  "handle_token_revoke lib sv i r st =
     (case require_admin_session lib sv i r True st of
        (Some a, st') \<Rightarrow> (a, st')
      | (None, st') \<Rightarrow>
          (case remove_stored (wi_removed i) (ws_remote st') of
             (ok, f) \<Rightarrow>
               (if ok then answer 200 (TokenStatus None) else answer 500 (Failed ''remote_token_revoke_failed''),
                st'\<lparr>ws_remote := f\<rparr>)))"

definition remote_api_prefix :: string where "remote_api_prefix = ''/api/remote/v1''"

definition handle_remote :: "web_lib \<Rightarrow> web_server \<Rightarrow> web_request \<Rightarrow> web_state \<Rightarrow> web_answer" where
  "handle_remote lib sv r st =
     (let path = url_path r; suffix = trim_prefix path remote_api_prefix; target = ''/api/v1'' @ suffix in
      if \<not> verify_remote lib (bearer_token r) (ws_remote st) then answer 401 (Failed ''remote_token_required'')
      else if path = remote_api_prefix \<or> path = remote_api_prefix @ ''/'' \<or> path = remote_api_prefix @ ''/capabilities''
      then answer 200 (Capabilities (product_name (sv_platform sv)) (sv_platform sv = ''qnap''))
      else if suffix = path \<or> \<not> has_prefix suffix ''/'' then not_found
      else if remote_path_blocked target \<or> platform_path_blocked sv target then not_found
      else forward sv (rq_method r) target ''token'')"

subsection \<open>The handler of the server\<close>

datatype route =
    ToLive
  | ToReady
  | ToLoginPage
  | ToLoginRedirect
  | ToAuthState
  | ToProduct
  | ToAuthDisabled
  | ToSetup
  | ToLogin
  | ToLogout
  | ToTokenStatus
  | ToTokenRotate
  | ToTokenRevoke
  | ToRemote
  | ToProxy

text \<open>
  The patterns of \<open>Handler\<close>. A pattern for \<open>GET\<close> also takes \<open>HEAD\<close>; a known path with another method goes to
  the pattern \<open>/\<close>. \<open>ServeMux\<close> redirects \<open>/auth\<close> to \<open>/auth/\<close>.
\<close>

definition route_of :: "web_server \<Rightarrow> string \<Rightarrow> string list \<Rightarrow> route" where
  "route_of sv meth segs =
     (let get = meth = ''GET'' \<or> meth = ''HEAD''; post = meth = ''POST''; off = sv_disable_auth sv in
      if get \<and> segs = [''health'', ''live''] then ToLive
      else if get \<and> segs = [''health'', ''ready''] then ToReady
      else if get \<and> segs = [''auth''] then ToLoginRedirect
      else if get \<and> take 1 segs = [''auth''] then ToLoginPage
      else if get \<and> segs = [''api'', ''auth'', ''state''] then ToAuthState
      else if get \<and> segs = [''api'', ''product''] then ToProduct
      else if off \<and> segs \<in> {[''api'', ''auth'', ''setup''], [''api'', ''auth'', ''login''], [''api'', ''auth'', ''logout'']}
      then ToAuthDisabled
      else if post \<and> segs = [''api'', ''auth'', ''setup''] then ToSetup
      else if post \<and> segs = [''api'', ''auth'', ''login''] then ToLogin
      else if post \<and> segs = [''api'', ''auth'', ''logout''] then ToLogout
      else if get \<and> segs = [''api'', ''auth'', ''remote-token''] then ToTokenStatus
      else if post \<and> segs = [''api'', ''auth'', ''remote-token''] then ToTokenRotate
      else if meth = ''DELETE'' \<and> segs = [''api'', ''auth'', ''remote-token''] then ToTokenRevoke
      else if take 3 segs = [''api'', ''remote'', ''v1''] then ToRemote
      else ToProxy)"

definition dispatch ::
  "web_lib \<Rightarrow> web_server \<Rightarrow> web_input \<Rightarrow> web_request \<Rightarrow> web_state \<Rightarrow> route \<Rightarrow> web_answer \<times> web_state" where
  "dispatch lib sv i r st x =
     (case x of
        ToLive \<Rightarrow> (answer 200 Live, st)
      | ToReady \<Rightarrow> (handle_ready i, st)
      | ToLoginPage \<Rightarrow> handle_login_page sv i r st
      | ToLoginRedirect \<Rightarrow> ((redirect ''/auth/'')\<lparr>wa_status := 307\<rparr>, st)
      | ToAuthState \<Rightarrow> (handle_auth_state sv st, st)
      | ToProduct \<Rightarrow> (handle_product sv, st)
      | ToAuthDisabled \<Rightarrow> (answer 404 (Failed ''authentication_disabled''), st)
      | ToSetup \<Rightarrow> handle_setup lib sv i r st
      | ToLogin \<Rightarrow> handle_login lib i r st
      | ToLogout \<Rightarrow> handle_logout lib r st
      | ToTokenStatus \<Rightarrow> handle_token_status lib sv i r st
      | ToTokenRotate \<Rightarrow> handle_token_rotate lib sv i r st
      | ToTokenRevoke \<Rightarrow> handle_token_revoke lib sv i r st
      | ToRemote \<Rightarrow> (handle_remote lib sv r st, st)
      | ToProxy \<Rightarrow> handle_proxy lib sv i r st)"

definition serve :: "web_lib \<Rightarrow> web_server \<Rightarrow> web_input \<Rightarrow> web_request \<Rightarrow> web_state \<Rightarrow> web_answer \<times> web_state" where
  "serve lib sv i r st =
     (if \<not> host_allowed sv (rq_host r) then (answer 403 (Failed ''invalid_host''), st)
      else dispatch lib sv i r st (route_of sv (rq_method r) (rq_segments r)))"

end
