(* ===== verification/WebHistory.thy ===== *)
theory WebHistory
  imports WebServer
begin

text \<open>
  Runs of the web gateway: a history of requests served one after the other (newest first), what the
  history says about a session, the administrator's account and the remote token, and the effect of one
  request on each part of the state.
\<close>

record exchange =
  ex_input :: web_input
  ex_request :: web_request
  ex_before :: web_state
  ex_answer :: web_answer

text \<open>The clock is monotonic and past the zero time.\<close>

definition timely :: "exchange list \<Rightarrow> web_input \<Rightarrow> bool" where
  "timely h i \<longleftrightarrow> 0 < wi_now i \<and> wi_now i \<le> wi_later i \<and> (\<forall>x \<in> set h. wi_later (ex_input x) \<le> wi_now i)"

inductive web_run :: "web_lib \<Rightarrow> web_server \<Rightarrow> web_state \<Rightarrow> exchange list \<Rightarrow> web_state \<Rightarrow> bool"
  for lib sv st0 where
  web_start: "web_run lib sv st0 [] st0"
| web_step: "web_run lib sv st0 (\<lparr>ex_input = i, ex_request = r, ex_before = st, ex_answer = a\<rparr> # h) st'"
    if "web_run lib sv st0 h st" and "timely h i" and "serve lib sv i r st = (a, st')"

inductive_cases web_run_ConsE: "web_run lib sv st0 (x # h) st'"

subsection \<open>What one request does to the sessions\<close>

definition checks_session :: "web_server \<Rightarrow> web_request \<Rightarrow> bool" where
  "checks_session sv r \<longleftrightarrow>
     host_allowed sv (rq_host r)
     \<and> (case route_of sv (rq_method r) (rq_segments r) of
          ToLoginPage \<Rightarrow> True
        | ToTokenStatus \<Rightarrow> True
        | ToTokenRotate \<Rightarrow> True
        | ToTokenRevoke \<Rightarrow> True
        | ToProxy \<Rightarrow> url_path r \<noteq> ''/bootstrap'' \<and> url_path r \<noteq> ''/api/v1/session/bootstrap''
        | _ \<Rightarrow> False)"

definition logs_out :: "web_lib \<Rightarrow> web_server \<Rightarrow> web_request \<Rightarrow> bool" where
  "logs_out lib sv r \<longleftrightarrow>
     host_allowed sv (rq_host r) \<and> route_of sv (rq_method r) (rq_segments r) = ToLogout \<and> same_origin lib r"

lemma authenticated_frame [simp]:
  "ws_failures (snd (authenticated sv now r st)) = ws_failures st"
  "ws_account (snd (authenticated sv now r st)) = ws_account st"
  "ws_remote (snd (authenticated sv now r st)) = ws_remote st"
  "ws_bootstrap (snd (authenticated sv now r st)) = ws_bootstrap st"
  by (simp_all add: authenticated_def split: option.split)

lemma authenticated_frameD:
  "authenticated sv now r st = (b, st') \<Longrightarrow>
     ws_failures st' = ws_failures st \<and> ws_account st' = ws_account st \<and> ws_remote st' = ws_remote st
     \<and> ws_bootstrap st' = ws_bootstrap st"
  using authenticated_frame [of sv now r st] by simp

lemma issue_session_frame [simp]:
  "ws_failures (snd (issue_session i st)) = ws_failures st"
  "ws_account (snd (issue_session i st)) = ws_account st"
  "ws_remote (snd (issue_session i st)) = ws_remote st"
  "ws_bootstrap (snd (issue_session i st)) = ws_bootstrap st"
  "fst (issue_session i st) = random_token (wi_random i)"
  "ws_sessions (snd (issue_session i st)) =
     AList.update (random_token (wi_random i)) (wi_later i + session_lifetime)
       (live_sessions (wi_later i) (ws_sessions st))"
  by (simp_all add: issue_session_def Let_def)

lemma clear_bootstrap_frame [simp]:
  "ws_sessions (clear_bootstrap_token sv ok st) = ws_sessions st"
  "ws_failures (clear_bootstrap_token sv ok st) = ws_failures st"
  "ws_account (clear_bootstrap_token sv ok st) = ws_account st"
  "ws_remote (clear_bootstrap_token sv ok st) = ws_remote st"
  by (simp_all add: clear_bootstrap_token_def)

lemma login_failures_frame [simp]:
  "ws_sessions (record_login_failure now c st) = ws_sessions st"
  "ws_account (record_login_failure now c st) = ws_account st"
  "ws_remote (record_login_failure now c st) = ws_remote st"
  "ws_bootstrap (record_login_failure now c st) = ws_bootstrap st"
  "ws_sessions (clear_login_failures c st) = ws_sessions st"
  "ws_account (clear_login_failures c st) = ws_account st"
  "ws_remote (clear_login_failures c st) = ws_remote st"
  "ws_bootstrap (clear_login_failures c st) = ws_bootstrap st"
  by (simp_all add: record_login_failure_def clear_login_failures_def Let_def)

lemma answer_fields [simp]:
  "wa_cookie (answer n p) = CookieKept" "wa_forward (answer n p) = None" "wa_status (answer n p) = n"
  "wa_payload (answer n p) = p" "wa_retry (answer n p) = None"
  "wa_cookie (redirect u) = CookieKept" "wa_forward (redirect u) = None"
  "wa_cookie not_found = CookieKept" "wa_forward not_found = None"
  "wa_cookie (forward sv m w x) = CookieKept"
  "wa_forward (forward sv m w x) = Some \<lparr>fw_method = m, fw_path = w, fw_host = sv_upstream_host sv,
     fw_authorization = ''Bearer '' @ sv_control_token sv, fw_remote = x\<rparr>"
  by (simp_all add: answer_def redirect_def not_found_def forward_def)

lemmas handler_defs = handle_login_page_def handle_token_status_def handle_token_rotate_def
  handle_token_revoke_def handle_proxy_def require_admin_session_def
lemmas handler_splits = prod.splits option.splits bool.splits if_splits

lemma quiet_answers [simp]:
  "wa_cookie (handle_ready i) = CookieKept" "wa_cookie (handle_auth_state sv st) = CookieKept"
  "wa_cookie (handle_product sv) = CookieKept" "wa_cookie (handle_remote lib sv r st) = CookieKept"
  "wa_forward (handle_ready i) = None" "wa_forward (handle_auth_state sv st) = None"
  "wa_forward (handle_product sv) = None"
  by (simp_all add: handle_ready_def handle_auth_state_def handle_product_def handle_remote_def Let_def
      split: control_reply.split option.split)

definition after_sessions ::
  "web_lib \<Rightarrow> web_server \<Rightarrow> web_input \<Rightarrow> web_request \<Rightarrow> cookie_change \<Rightarrow> web_state \<Rightarrow> (string \<times> time) list" where
  "after_sessions lib sv i r c st =
     (case c of
        CookieSet token \<Rightarrow>
          AList.update token (wi_later i + session_lifetime) (live_sessions (wi_later i) (ws_sessions st))
      | _ \<Rightarrow>
          if logs_out lib sv r then
            (case rq_cookie r of None \<Rightarrow> ws_sessions st | Some t \<Rightarrow> AList.delete t (ws_sessions st))
          else if checks_session sv r then ws_sessions (snd (authenticated sv (wi_now i) r st))
          else ws_sessions st)"

lemma checking_handlers:
  "ws_sessions (snd (handle_login_page sv i r st)) = ws_sessions (snd (authenticated sv (wi_now i) r st))"
  "ws_sessions (snd (handle_token_status lib sv i r st)) = ws_sessions (snd (authenticated sv (wi_now i) r st))"
  "ws_sessions (snd (handle_token_rotate lib sv i r st)) = ws_sessions (snd (authenticated sv (wi_now i) r st))"
  "ws_sessions (snd (handle_token_revoke lib sv i r st)) = ws_sessions (snd (authenticated sv (wi_now i) r st))"
  "ws_sessions (snd (handle_proxy lib sv i r st)) =
     (if url_path r = ''/bootstrap'' \<or> url_path r = ''/api/v1/session/bootstrap'' then ws_sessions st
      else ws_sessions (snd (authenticated sv (wi_now i) r st)))"
  "wa_cookie (fst (handle_login_page sv i r st)) = CookieKept"
  "wa_cookie (fst (handle_token_status lib sv i r st)) = CookieKept"
  "wa_cookie (fst (handle_token_rotate lib sv i r st)) = CookieKept"
  "wa_cookie (fst (handle_token_revoke lib sv i r st)) = CookieKept"
  "wa_cookie (fst (handle_proxy lib sv i r st)) = CookieKept"
  by (auto simp: handler_defs Let_def split: handler_splits)

lemma login_sessions:
  assumes "handle_login lib i r st = (a, st')"
  shows "(wa_cookie a = CookieKept \<and> ws_sessions st' = ws_sessions st)
    \<or> (\<exists>t. wa_cookie a = CookieSet t \<and> ws_sessions st' =
        AList.update t (wi_later i + session_lifetime) (live_sessions (wi_later i) (ws_sessions st)))"
  using assms by (auto simp: handle_login_def issue_session_def Let_def split: handler_splits)

lemma setup_sessions:
  assumes "handle_setup lib sv i r st = (a, st')"
  shows "(wa_cookie a = CookieKept \<and> ws_sessions st' = ws_sessions st)
    \<or> (\<exists>t. wa_cookie a = CookieSet t \<and> ws_sessions st' =
        AList.update t (wi_later i + session_lifetime) (live_sessions (wi_later i) (ws_sessions st)))"
  using assms by (auto simp: handle_setup_def issue_session_def Let_def split: handler_splits)

lemma serve_sessions:
  assumes "serve lib sv i r st = (a, st')"
  shows "ws_sessions st' = after_sessions lib sv i r (wa_cookie a) st"
proof (cases "host_allowed sv (rq_host r)")
  case True
  let ?x = "route_of sv (rq_method r) (rq_segments r)"
  from True assms have d: "dispatch lib sv i r st ?x = (a, st')" by (simp add: serve_def)
  then have e: "a = fst (dispatch lib sv i r st ?x)" "st' = snd (dispatch lib sv i r st ?x)" by simp_all
  show ?thesis
  proof (cases ?x)
    case ToSetup
    with d setup_sessions [of lib sv i r st a st'] True show ?thesis
      by (auto simp: dispatch_def after_sessions_def logs_out_def checks_session_def)
  next
    case ToLogin
    with d login_sessions [of lib i r st a st'] True show ?thesis
      by (auto simp: dispatch_def after_sessions_def logs_out_def checks_session_def)
  next
    case ToLogout
    with d True show ?thesis
      by (auto simp: dispatch_def handle_logout_def after_sessions_def logs_out_def checks_session_def
          split: handler_splits)
  qed (use True in \<open>simp_all add: e dispatch_def checking_handlers after_sessions_def logs_out_def checks_session_def\<close>)
next
  case False
  with assms show ?thesis by (auto simp: serve_def after_sessions_def logs_out_def checks_session_def)
qed

text \<open>A session cookie is handed out by a setup that created the account or a login with the right password.\<close>

definition signs_in :: "web_lib \<Rightarrow> web_server \<Rightarrow> web_input \<Rightarrow> web_request \<Rightarrow> web_state \<Rightarrow> bool" where
  "signs_in lib sv i r st \<longleftrightarrow>
     host_allowed sv (rq_host r) \<and> same_origin lib r \<and> \<not> sv_disable_auth sv
     \<and> ((route_of sv (rq_method r) (rq_segments r) = ToLogin
          \<and> (\<exists>u p. rq_login_body r = Some (u, p) \<and> verify_login lib u p (ws_account st) = None)
          \<and> login_blocked (wi_now i) (client_address r) st = None)
       \<or> (route_of sv (rq_method r) (rq_segments r) = ToSetup \<and> ws_account st = Absent
          \<and> (\<exists>u p b. rq_setup_body r = Some (u, p, b) \<and> verify_bootstrap_token sv b (ws_bootstrap st))))"

lemma route_signs_in:
  "route_of sv m s = ToLogin \<Longrightarrow> \<not> sv_disable_auth sv" "route_of sv m s = ToSetup \<Longrightarrow> \<not> sv_disable_auth sv"
  by (auto simp: route_of_def Let_def split: if_splits)

lemma setup_account_None:
  "setup_account lib u p salt now out f = (None, f') \<Longrightarrow>
     f = Absent \<and> check_setup u p = None \<and> f' = Stored (new_credential lib u p salt now)"
  by (auto simp: setup_account_def setup_required_def write_durable_atomic_def
      split: option.splits bool.splits stored.splits write_outcome.splits)

lemma serve_grants:
  assumes "serve lib sv i r st = (a, st')" and "wa_cookie a = CookieSet k"
  shows "signs_in lib sv i r st \<and> k = random_token (wi_random i)"
proof -
  let ?x = "route_of sv (rq_method r) (rq_segments r)"
  from assms have h: "host_allowed sv (rq_host r)" and d: "dispatch lib sv i r st ?x = (a, st')"
    by (auto simp: serve_def split: if_splits)
  then have e: "a = fst (dispatch lib sv i r st ?x)" by simp
  show ?thesis
  proof (cases ?x)
    case ToSetup
    with d assms(2) h show ?thesis
      by (auto simp: dispatch_def handle_setup_def issue_session_def Let_def signs_in_def route_signs_in
          split: handler_splits dest: setup_account_None)
  next
    case ToLogin
    with d assms(2) h show ?thesis
      by (auto simp: dispatch_def handle_login_def issue_session_def Let_def signs_in_def route_signs_in
          split: handler_splits)
  qed (use assms(2) in \<open>simp_all add: e dispatch_def checking_handlers handle_logout_def split: if_splits\<close>)
qed

subsection \<open>What a request shows\<close>

text \<open>The conditions of the properties, in terms of requests and files alone. A host name of this machine or of its
  networks: \<open>localhost\<close>, a configured name, or an address that is loopback, private or link-local.\<close>

definition local_host_name :: "web_server \<Rightarrow> string \<Rightarrow> bool" where
  "local_host_name sv value \<longleftrightarrow>
     (let name = normalise_host value; ip = parse_ip name in
      name = ''localhost'' \<or> name \<in> set (sv_hosts sv)
      \<or> (\<exists>a b c d. to4 ip = [a, b, c, d]
           \<and> (a = 127 \<or> a = 10 \<or> (a = 172 \<and> b AND 0xF0 = 16) \<or> (a = 192 \<and> b = 168) \<or> (a = 169 \<and> b = 254)))
      \<or> (length ip = 16
           \<and> (ip = replicate 15 0 @ [1] \<or> ip ! 0 AND 0xFE = 0xFC \<or> (ip ! 0 = 0xFE \<and> ip ! 1 AND 0xC0 = 0x80))))"

text \<open>The request comes from a page of this gateway.\<close>

definition own_page :: "web_lib \<Rightarrow> web_request \<Rightarrow> bool" where
  "own_page lib r \<longleftrightarrow>
     (\<exists>u. wl_url lib (trim_space (rq_origin r)) = Some u \<and> ul_host u \<noteq> [] \<and> equal_fold (ul_host u) (rq_host r))"

text \<open>User name and password are those of the account on file.\<close>

definition proves_login :: "web_lib \<Rightarrow> credential stored \<Rightarrow> string \<Rightarrow> string \<Rightarrow> bool" where
  "proves_login lib f u p \<longleftrightarrow>
     (\<exists>c salt. f = Stored c \<and> trim_space u = cr_username c \<and> b64_decode (cr_salt c) = Some salt
        \<and> b64_decode (cr_hash c) = Some (wl_argon lib p salt (cr_time c) (cr_memory c) (cr_threads c) (cr_key_len c)))"

definition holds_bootstrap :: "web_server \<Rightarrow> string stored \<Rightarrow> string \<Rightarrow> bool" where
  "holds_bootstrap sv f b \<longleftrightarrow>
     (sv_require_bootstrap sv \<longrightarrow> (\<exists>t. f = Stored t \<and> trim_space t \<noteq> [] \<and> trim_space b = trim_space t))"

lemma host_allowed_local:
  assumes "host_allowed sv value"
  shows "local_host_name sv value"
proof -
  let ?ip = "parse_ip (normalise_host value)"
  consider "normalise_host value = ''localhost'' \<or> normalise_host value \<in> set (sv_hosts sv)"
    | "ip_loopback ?ip \<or> ip_private ?ip \<or> ip_link_local ?ip"
    using assms by (auto simp: host_allowed_def Let_def)
  then show ?thesis
  proof cases
    case 2
    consider "to4 ?ip = []" | a b c d where "to4 ?ip = [a, b, c, d]"
      using length_to4 [of ?ip] by (auto simp: numeral_eq_Suc length_Suc_conv)
    then show ?thesis
    proof cases
      case 1
      with 2 have "length ?ip = 16 \<and> (?ip = replicate 15 0 @ [1] \<or> ?ip ! 0 AND 0xFE = 0xFC
          \<or> (?ip ! 0 = 0xFE \<and> ?ip ! 1 AND 0xC0 = 0x80))"
        by (auto simp: ip_loopback_def ip_private_def ip_link_local_def hd_conv_nth simp flip: length_greater_0_conv)
      then show ?thesis by (simp add: local_host_name_def Let_def)
    next
      case (2 a b c d)
      note four = 2
      from \<open>ip_loopback ?ip \<or> ip_private ?ip \<or> ip_link_local ?ip\<close> four
      have "a = 127 \<or> a = 10 \<or> (a = 172 \<and> b AND 0xF0 = 16) \<or> (a = 192 \<and> b = 168) \<or> (a = 169 \<and> b = 254)"
        by (auto simp: ip_loopback_def ip_private_def ip_link_local_def)
      then show ?thesis using four by (simp add: local_host_name_def Let_def)
    qed
  next
    case 1
    then show ?thesis unfolding local_host_name_def Let_def by blast
  qed
qed

lemma same_origin_own: "same_origin lib r \<Longrightarrow> own_page lib r"
  by (auto simp: same_origin_def own_page_def Let_def split: if_splits option.splits)

lemma verify_login_proves: "verify_login lib u p f = None \<Longrightarrow> proves_login lib f u p"
  by (auto simp: verify_login_def proves_login_def load_credential_def fail_if_def Let_def
      split: sum.splits option.splits stored.splits if_splits)

lemma verify_bootstrap_holds: "verify_bootstrap_token sv b f \<Longrightarrow> holds_bootstrap sv f b"
  by (auto simp: verify_bootstrap_token_def holds_bootstrap_def stored_text_def split: option.splits stored.splits if_splits)

end
