(* ===== verification/WebSessions.thy ===== *)
theory WebSessions
  imports WebHistory
begin

text \<open>
  The session table against its specification: whether a cookie is accepted is a matter of the history
  alone, when the cookie was handed out, that no logout ended it, and that no twelve hours passed without
  a use. The table with its refreshes, its lazy deletions and its sweep implements that.
\<close>

subsection \<open>The specification\<close>

definition presents :: "web_server \<Rightarrow> exchange \<Rightarrow> string \<Rightarrow> bool" where
  "presents sv x t \<longleftrightarrow>
     checks_session sv (ex_request x) \<and> \<not> sv_disable_auth sv \<and> rq_cookie (ex_request x) = Some t \<and> t \<noteq> []"

definition revokes :: "web_lib \<Rightarrow> web_server \<Rightarrow> exchange \<Rightarrow> string \<Rightarrow> bool" where
  "revokes lib sv x t \<longleftrightarrow> logs_out lib sv (ex_request x) \<and> rq_cookie (ex_request x) = Some t"

primrec last_use :: "web_lib \<Rightarrow> web_server \<Rightarrow> exchange list \<Rightarrow> string \<Rightarrow> time option" where
  "last_use lib sv [] t = None"
| "last_use lib sv (x # h) t =
     (if wa_cookie (ex_answer x) = CookieSet t then Some (wi_later (ex_input x))
      else if revokes lib sv x t then None
      else
        (case last_use lib sv h t of
           None \<Rightarrow> None
         | Some u \<Rightarrow>
             if presents sv x t \<and> wi_now (ex_input x) < u + session_lifetime
             then Some (wi_now (ex_input x)) else Some u))"

definition session_open :: "web_lib \<Rightarrow> web_server \<Rightarrow> exchange list \<Rightarrow> time \<Rightarrow> string \<Rightarrow> bool" where
  "session_open lib sv h now t \<longleftrightarrow>
     (case last_use lib sv h t of None \<Rightarrow> False | Some u \<Rightarrow> now < u + session_lifetime)"

subsection \<open>The table implements it\<close>

lemma map_of_update: "map_of (AList.update k v al) x = (if x = k then Some v else map_of al x)"
  by (simp add: AList.update_conv')

lemma map_of_delete: "map_of (AList.delete k al) x = (if x = k then None else map_of al x)"
  by (simp add: AList.delete_conv')

lemma map_of_filter:
  "distinct (map fst al) \<Longrightarrow> map_of (filter (\<lambda>(_, e). P e) al) x = (case map_of al x of None \<Rightarrow> None | Some e \<Rightarrow> if P e then Some e else None)"
  by (induction al) (auto simp: map_of_eq_None_iff split: option.split dest: map_of_SomeD)

definition known_until :: "exchange list \<Rightarrow> time \<Rightarrow> bool" where
  "known_until h now \<longleftrightarrow> (\<forall>x \<in> set h. wi_later (ex_input x) \<le> now)"

text \<open>
  The abstraction: an entry says when the token was last used; a token without an entry that the history
  still knows has expired.
\<close>

definition table_rep :: "web_lib \<Rightarrow> web_server \<Rightarrow> exchange list \<Rightarrow> (string \<times> time) list \<Rightarrow> bool" where
  "table_rep lib sv h ss \<longleftrightarrow>
     distinct (map fst ss)
     \<and> (\<forall>t e. map_of ss t = Some e \<longrightarrow> last_use lib sv h t = Some (e - session_lifetime))
     \<and> (\<forall>t u now. map_of ss t = None \<longrightarrow> last_use lib sv h t = Some u \<longrightarrow> known_until h now \<longrightarrow> u + session_lifetime \<le> now)"

lemma table_rep_decides:
  assumes "table_rep lib sv h ss" and "known_until h now"
  shows "session_open lib sv h now t \<longleftrightarrow> (case map_of ss t of None \<Rightarrow> False | Some e \<Rightarrow> now < e)"
  using assms by (fastforce simp: table_rep_def session_open_def split: option.splits)

lemma live_sessions_rep:
  assumes "table_rep lib sv h ss" and "known_until h now"
  shows "distinct (map fst (live_sessions now ss))"
    and "map_of (live_sessions now ss) t = Some e \<Longrightarrow> map_of ss t = Some e"
    and "map_of (live_sessions now ss) t = None \<Longrightarrow> last_use lib sv h t = Some u \<Longrightarrow> u + session_lifetime \<le> now"
proof -
  from assms(1) have d: "distinct (map fst ss)" by (simp add: table_rep_def)
  show "distinct (map fst (live_sessions now ss))"
    using d by (simp add: live_sessions_def distinct_map_filter)
  show "map_of ss t = Some e" if "map_of (live_sessions now ss) t = Some e"
    using that d by (auto simp: live_sessions_def map_of_filter split: if_splits option.splits)
  show "u + session_lifetime \<le> now"
    if n: "map_of (live_sessions now ss) t = None" and u: "last_use lib sv h t = Some u"
  proof (cases "map_of ss t")
    case None
    with assms u show ?thesis by (auto simp: table_rep_def)
  next
    case (Some e)
    with n d have "\<not> now < e" by (auto simp: live_sessions_def map_of_filter split: if_splits)
    with Some assms(1) u show ?thesis by (auto simp: table_rep_def)
  qed
qed

lemma known_until_mono: "known_until h now \<Longrightarrow> now \<le> now' \<Longrightarrow> known_until h now'"
  by (force simp: known_until_def)

lemma table_rep_intro:
  assumes "distinct (map fst ss)"
    and "\<And>t e. map_of ss t = Some e \<Longrightarrow> last_use lib sv h t = Some (e - session_lifetime)"
    and "\<And>t u m. map_of ss t = None \<Longrightarrow> last_use lib sv h t = Some u \<Longrightarrow> known_until h m \<Longrightarrow> u + session_lifetime \<le> m"
  shows "table_rep lib sv h ss"
  using assms by (simp add: table_rep_def)

lemma table_repD:
  assumes "table_rep lib sv h ss"
  shows "distinct (map fst ss)"
    and "map_of ss t = Some e \<Longrightarrow> last_use lib sv h t = Some (e - session_lifetime)"
    and "map_of ss t = None \<Longrightarrow> last_use lib sv h t = Some u \<Longrightarrow> known_until h m \<Longrightarrow> u + session_lifetime \<le> m"
  using assms by (simp_all add: table_rep_def)

lemma known_until_Cons:
  "known_until (x # h) m \<longleftrightarrow> wi_later (ex_input x) \<le> m \<and> known_until h m"
  by (simp add: known_until_def)

text \<open>The four things a request may do to the table.\<close>

lemma table_rep_grant:
  assumes rep: "table_rep lib sv h ss" and known: "known_until h (wi_later (ex_input x))"
    and set: "wa_cookie (ex_answer x) = CookieSet k"
    and others: "\<And>t. \<not> presents sv x t" "\<And>t. \<not> revokes lib sv x t"
  shows "table_rep lib sv (x # h)
    (AList.update k (wi_later (ex_input x) + session_lifetime) (live_sessions (wi_later (ex_input x)) ss))"
proof (rule table_rep_intro)
  note live = live_sessions_rep [OF rep known] and d = table_repD [OF rep]
  show "distinct (map fst (AList.update k (wi_later (ex_input x) + session_lifetime)
      (live_sessions (wi_later (ex_input x)) ss)))" by (rule AList.distinct_update [OF live(1)])
  show "last_use lib sv (x # h) t = Some (e - session_lifetime)"
    if "map_of (AList.update k (wi_later (ex_input x) + session_lifetime) (live_sessions (wi_later (ex_input x)) ss)) t = Some e"
    for t e using that set others by (auto simp: map_of_update d(2) split: if_splits dest!: live(2))
  show "u + session_lifetime \<le> m"
    if "map_of (AList.update k (wi_later (ex_input x) + session_lifetime) (live_sessions (wi_later (ex_input x)) ss)) t = None"
      "last_use lib sv (x # h) t = Some u" "known_until (x # h) m" for t u m
    using that set others live(3) [of t u]
    by (auto simp: map_of_update known_until_Cons split: if_splits option.splits)
qed

lemma table_rep_logout:
  assumes rep: "table_rep lib sv h ss" and set: "\<And>k. wa_cookie (ex_answer x) \<noteq> CookieSet k"
    and rev: "\<And>t. revokes lib sv x t \<longleftrightarrow> t = k" and others: "\<And>t. \<not> presents sv x t"
  shows "table_rep lib sv (x # h) (AList.delete k ss)"
proof (rule table_rep_intro)
  note d = table_repD [OF rep]
  show "distinct (map fst (AList.delete k ss))" by (rule AList.distinct_delete [OF d(1)])
  show "last_use lib sv (x # h) t = Some (e - session_lifetime)" if "map_of (AList.delete k ss) t = Some e" for t e
    using that set rev others by (auto simp: map_of_delete d(2) split: if_splits)
  show "u + session_lifetime \<le> m"
    if "map_of (AList.delete k ss) t = None" "last_use lib sv (x # h) t = Some u" "known_until (x # h) m" for t u m
    using that set rev others d(3) [of t u m]
    by (auto simp: map_of_delete known_until_Cons split: if_splits option.splits)
qed

lemma table_rep_idle:
  assumes rep: "table_rep lib sv h ss" and set: "\<And>k. wa_cookie (ex_answer x) \<noteq> CookieSet k"
    and others: "\<And>t. \<not> revokes lib sv x t" "\<And>t. \<not> presents sv x t"
  shows "table_rep lib sv (x # h) ss"
  using table_repD [OF rep] set others
  by (intro table_rep_intro) (auto simp: known_until_Cons split: option.splits)

lemma table_rep_use:
  assumes rep: "table_rep lib sv h ss" and known: "known_until h (wi_now (ex_input x))"
    and le: "wi_now (ex_input x) \<le> wi_later (ex_input x)"
    and set: "\<And>k. wa_cookie (ex_answer x) \<noteq> CookieSet k"
    and rev: "\<And>t. \<not> revokes lib sv x t" and pres: "\<And>t. presents sv x t \<longleftrightarrow> t = k"
  shows "table_rep lib sv (x # h)
    (case map_of ss k of
       None \<Rightarrow> AList.delete k ss
     | Some e \<Rightarrow> if wi_now (ex_input x) < e then AList.update k (wi_now (ex_input x) + session_lifetime) ss
                 else AList.delete k ss)"
proof -
  note d = table_repD [OF rep]
  have idle: "table_rep lib sv (x # h) (AList.delete k ss)"
    if stale: "\<And>u. last_use lib sv h k = Some u \<Longrightarrow> u + session_lifetime \<le> wi_now (ex_input x)"
  proof (rule table_rep_intro)
    show "distinct (map fst (AList.delete k ss))" by (rule AList.distinct_delete [OF d(1)])
    show "last_use lib sv (x # h) t = Some (e - session_lifetime)" if "map_of (AList.delete k ss) t = Some e" for t e
      using that set rev pres by (auto simp: map_of_delete d(2) split: if_splits)
    show "u + session_lifetime \<le> m"
      if "map_of (AList.delete k ss) t = None" "last_use lib sv (x # h) t = Some u" "known_until (x # h) m" for t u m
      using that set rev pres stale le d(3) [of t u m]
      by (fastforce simp: map_of_delete known_until_Cons split: if_splits option.splits)
  qed
  show ?thesis
  proof (cases "map_of ss k")
    case None
    with idle d(3) [OF None _ known] show ?thesis by simp
  next
    case (Some e)
    note u = d(2) [OF Some]
    show ?thesis
    proof (cases "wi_now (ex_input x) < e")
      case True
      have "table_rep lib sv (x # h) (AList.update k (wi_now (ex_input x) + session_lifetime) ss)"
      proof (rule table_rep_intro)
        show "distinct (map fst (AList.update k (wi_now (ex_input x) + session_lifetime) ss))"
          by (rule AList.distinct_update [OF d(1)])
        show "last_use lib sv (x # h) t = Some (v - session_lifetime)"
          if "map_of (AList.update k (wi_now (ex_input x) + session_lifetime) ss) t = Some v" for t v
          using that set rev pres u True by (auto simp: map_of_update d(2) split: if_splits)
        show "v + session_lifetime \<le> m"
          if "map_of (AList.update k (wi_now (ex_input x) + session_lifetime) ss) t = None"
            "last_use lib sv (x # h) t = Some v" "known_until (x # h) m" for t v m
          using that set rev pres d(3) [of t v m]
          by (auto simp: map_of_update known_until_Cons split: if_splits option.splits)
      qed
      with Some True show ?thesis by simp
    next
      case False
      with Some u idle show ?thesis by simp
    qed
  qed
qed

lemma table_rep_step:
  assumes rep: "table_rep lib sv h (ws_sessions st)" and t: "timely h i"
    and serve: "serve lib sv i r st = (a, st')"
    and x: "x = \<lparr>ex_input = i, ex_request = r, ex_before = st, ex_answer = a\<rparr>"
  shows "table_rep lib sv (x # h) (ws_sessions st')"
proof -
  from t have now: "known_until h (wi_now i)" and later: "known_until h (wi_later i)" and le: "wi_now i \<le> wi_later i"
    by (auto simp: timely_def known_until_def intro: order_trans)
  note ss = serve_sessions [OF serve, unfolded after_sessions_def]
  have lo: "logs_out lib sv r \<Longrightarrow> \<not> checks_session sv r" by (simp add: logs_out_def checks_session_def)
  show ?thesis
  proof (cases "\<exists>k. wa_cookie a = CookieSet k")
    case True
    then obtain k where k: "wa_cookie a = CookieSet k" by blast
    have "\<not> checks_session sv r \<and> \<not> logs_out lib sv r" using serve_grants [OF serve k]
      by (auto simp: signs_in_def checks_session_def logs_out_def)
    with table_rep_grant [OF rep, of x k] later k show ?thesis
      by (simp add: x ss presents_def revokes_def)
  next
    case False
    then have c: "wa_cookie (ex_answer x) \<noteq> CookieSet k" for k by (simp add: x)
    consider "logs_out lib sv r" | "checks_session sv r" "\<not> logs_out lib sv r" | "\<not> checks_session sv r" "\<not> logs_out lib sv r"
      using lo by blast
    then show ?thesis
    proof cases
      case 1
      show ?thesis
      proof (cases "rq_cookie r")
        case None
        with 1 lo False show ?thesis
          by (auto simp: x ss presents_def revokes_def split: cookie_change.split intro!: table_rep_idle [OF rep])
      next
        case (Some k)
        have "table_rep lib sv (x # h) (AList.delete k (ws_sessions st))"
          by (rule table_rep_logout [OF rep c]) (use 1 lo Some in \<open>auto simp: x presents_def revokes_def\<close>)
        with 1 Some False show ?thesis by (simp add: ss split: cookie_change.split)
      qed
    next
      case 2
      show ?thesis
      proof (cases "sv_disable_auth sv \<or> rq_cookie r = None \<or> rq_cookie r = Some []")
        case True
        then have "ws_sessions (snd (authenticated sv (wi_now i) r st)) = ws_sessions st"
          by (auto simp: authenticated_def)
        moreover have "table_rep lib sv (x # h) (ws_sessions st)"
          by (rule table_rep_idle [OF rep c]) (use 2 True in \<open>auto simp: x presents_def revokes_def\<close>)
        ultimately show ?thesis using 2 False by (simp add: ss split: cookie_change.split)
      next
        case other: False
        then obtain k where k: "rq_cookie r = Some k" "k \<noteq> []" "\<not> sv_disable_auth sv" by auto
        have e: "ex_input x = i" by (simp add: x)
        have "table_rep lib sv (x # h)
          (case map_of (ws_sessions st) k of
             None \<Rightarrow> AList.delete k (ws_sessions st)
           | Some e \<Rightarrow> if wi_now i < e then AList.update k (wi_now i + session_lifetime) (ws_sessions st)
                       else AList.delete k (ws_sessions st))"
          by (rule table_rep_use [OF rep _ _ c, of k, unfolded e]) (use 2 k now le in \<open>auto simp: x presents_def revokes_def\<close>)
        moreover have "ws_sessions (snd (authenticated sv (wi_now i) r st)) =
          (case map_of (ws_sessions st) k of
             None \<Rightarrow> AList.delete k (ws_sessions st)
           | Some e \<Rightarrow> if wi_now i < e then AList.update k (wi_now i + session_lifetime) (ws_sessions st)
                       else AList.delete k (ws_sessions st))"
          using k by (simp add: authenticated_def split: option.split)
        ultimately show ?thesis using 2 False by (simp add: ss split: cookie_change.split)
      qed
    next
      case 3
      have "table_rep lib sv (x # h) (ws_sessions st)"
        by (rule table_rep_idle [OF rep c]) (use 3 in \<open>auto simp: x presents_def revokes_def\<close>)
      with 3 False show ?thesis by (simp add: ss split: cookie_change.split)
    qed
  qed
qed

lemma run_table_rep:
  assumes "web_run lib sv st0 h st" and "ws_sessions st0 = []"
  shows "table_rep lib sv h (ws_sessions st)"
  using assms
proof (induction rule: web_run.induct)
  case web_start
  then show ?case by (simp add: table_rep_def)
next
  case (web_step h st i r a st')
  then show ?case using table_rep_step [OF _ web_step.hyps(2,3) refl] by simp
qed

end
