(* ===== verification/WebProps.thy ===== *)
theory WebProps
  imports WebSessions
begin

text \<open>
  Who may do what through the web gateway: the effects of one request on the administrator's account and
  the remote token, and the properties of whole runs: sessions follow the history, whatever is forwarded
  was authorised, the account is created once, only the last remote token counts.
\<close>

subsection \<open>The account\<close>

text \<open>The one request that makes an account: a \<open>POST\<close> of the setup route from a page of the gateway under a name of
  this machine or its networks, with the bootstrap token on file where one is required; what it makes holds the
  user name and the Argon2 hash of the password.\<close>

definition creates_account :: "web_lib \<Rightarrow> web_server \<Rightarrow> exchange \<Rightarrow> credential \<Rightarrow> bool" where
  "creates_account lib sv x c \<longleftrightarrow>
     rq_method (ex_request x) = ''POST'' \<and> rq_segments (ex_request x) = [''api'', ''auth'', ''setup'']
     \<and> \<not> sv_disable_auth sv \<and> ws_account (ex_before x) = Absent
     \<and> local_host_name sv (rq_host (ex_request x)) \<and> own_page lib (ex_request x)
     \<and> (\<exists>u p b. rq_setup_body (ex_request x) = Some (u, p, b)
          \<and> (sv_require_bootstrap sv \<longrightarrow>
               (\<exists>t. ws_bootstrap (ex_before x) = Stored t \<and> trim_space t \<noteq> [] \<and> trim_space b = trim_space t))
          \<and> 3 \<le> length (trim_space u) \<and> length (trim_space u) \<le> 64
          \<and> set (trim_space u) \<inter> {CHR 0x0D, CHR 0x0A, CHR 0x09} = {}
          \<and> 12 \<le> length p \<and> length p \<le> 1024
          \<and> cr_username c = trim_space u
          \<and> cr_hash c = b64_encode (wl_argon lib p (wi_salt (ex_input x)) 3 65536 2 32)
          \<and> cr_salt c = b64_encode (wi_salt (ex_input x)))"

lemma route_setup: "route_of sv m s = ToSetup \<Longrightarrow> m = ''POST'' \<and> s = [''api'', ''auth'', ''setup''] \<and> \<not> sv_disable_auth sv"
  and route_login: "route_of sv m s = ToLogin \<Longrightarrow> m = ''POST'' \<and> s = [''api'', ''auth'', ''login''] \<and> \<not> sv_disable_auth sv"
  by (auto simp: route_of_def Let_def split: if_splits)

lemma check_setup_limits:
  "check_setup u p = None \<Longrightarrow> 3 \<le> length (trim_space u) \<and> length (trim_space u) \<le> 64
     \<and> set (trim_space u) \<inter> {CHR 0x0D, CHR 0x0A, CHR 0x09} = {} \<and> 12 \<le> length p \<and> length p \<le> 1024"
  by (auto simp: check_setup_def Let_def vthen_def fail_if_def contains_any_def list_ex_iff split: if_splits option.splits)

lemma new_credential_fields:
  "cr_username (new_credential lib u p salt now) = trim_space u" "cr_salt (new_credential lib u p salt now) = b64_encode salt"
  "cr_hash (new_credential lib u p salt now) = b64_encode (wl_argon lib p salt 3 65536 2 32)"
  by (simp_all add: new_credential_def argon_time_def argon_memory_def argon_threads_def argon_key_len_def)

lemma setup_account_cases:
  assumes "setup_account lib u p salt now out f = (e, f')"
  shows "f' = f \<or> (f = Absent \<and> check_setup u p = None \<and> f' = Stored (new_credential lib u p salt now))"
  using assms by (auto simp: setup_account_def setup_required_def write_durable_atomic_def
      split: option.splits bool.splits stored.splits write_outcome.splits)

lemma checking_account:
  "ws_account (snd (handle_login_page sv i r st)) = ws_account st"
  "ws_account (snd (handle_token_status lib sv i r st)) = ws_account st"
  "ws_account (snd (handle_token_rotate lib sv i r st)) = ws_account st"
  "ws_account (snd (handle_token_revoke lib sv i r st)) = ws_account st"
  "ws_account (snd (handle_proxy lib sv i r st)) = ws_account st"
  "ws_account (snd (handle_logout lib r st)) = ws_account st"
  "ws_account (snd (handle_login lib i r st)) = ws_account st"
  by (auto simp: handler_defs handle_logout_def handle_login_def issue_session_def Let_def
      split: prod.splits option.splits bool.splits dest!: authenticated_frameD)

lemma serve_account:
  assumes "serve lib sv i r st = (a, st')"
  shows "ws_account st' = ws_account st
    \<or> (\<exists>c. ws_account st' = Stored c
        \<and> creates_account lib sv \<lparr>ex_input = i, ex_request = r, ex_before = st, ex_answer = a\<rparr> c)"
proof (cases "host_allowed sv (rq_host r)")
  case True
  let ?x = "route_of sv (rq_method r) (rq_segments r)"
  from True assms have d: "dispatch lib sv i r st ?x = (a, st')" by (simp add: serve_def)
  then have e: "st' = snd (dispatch lib sv i r st ?x)" by simp
  show ?thesis
  proof (cases ?x)
    case ToSetup
    show ?thesis
    proof (cases "ws_account st' = ws_account st")
      case False
      from ToSetup d have "handle_setup lib sv i r st = (a, st')" by (simp add: dispatch_def)
      with False obtain u p b e f where body: "rq_setup_body r = Some (u, p, b)" "same_origin lib r"
          "verify_bootstrap_token sv b (ws_bootstrap st)"
          "setup_account lib u p (wi_salt i) (wi_now i) (wi_write i) (ws_account st) = (e, f)" "ws_account st' = f"
        by (auto simp: handle_setup_def issue_session_def Let_def split: handler_splits)
      with False setup_account_cases [OF body(4)] have made: "ws_account st = Absent" "check_setup u p = None"
          "ws_account st' = Stored (new_credential lib u p (wi_salt i) (wi_now i))" by auto
      have "creates_account lib sv \<lparr>ex_input = i, ex_request = r, ex_before = st, ex_answer = a\<rparr>
          (new_credential lib u p (wi_salt i) (wi_now i))"
        using True route_setup [OF ToSetup] body(1) made(1) same_origin_own [OF body(2)] host_allowed_local
          check_setup_limits [OF made(2)] verify_bootstrap_holds [OF body(3)]
        by (simp add: creates_account_def new_credential_fields holds_bootstrap_def)
      with made(3) show ?thesis by blast
    qed simp
  qed (simp_all add: e dispatch_def checking_account)
qed (use assms in \<open>auto simp: serve_def\<close>)

subsection \<open>The remote token\<close>

definition admitted :: "web_lib \<Rightarrow> web_server \<Rightarrow> exchange \<Rightarrow> bool" where
  "admitted lib sv x \<longleftrightarrow>
     host_allowed sv (rq_host (ex_request x)) \<and> same_origin lib (ex_request x)
     \<and> fst (authenticated sv (wi_now (ex_input x)) (ex_request x) (ex_before x))"

definition route_to :: "web_server \<Rightarrow> exchange \<Rightarrow> route" where
  "route_to sv x = route_of sv (rq_method (ex_request x)) (rq_segments (ex_request x))"

text \<open>The token in force: drawn by the last rotation that reached the disk, unless revoked since.\<close>

primrec current_token :: "web_lib \<Rightarrow> web_server \<Rightarrow> exchange list \<Rightarrow> string option" where
  "current_token lib sv [] = None"
| "current_token lib sv (x # h) =
     (if admitted lib sv x \<and> route_to sv x = ToTokenRotate \<and> wi_write (ex_input x) \<noteq> WriteFails
      then Some (new_remote_token (wi_random (ex_input x)))
      else if admitted lib sv x \<and> route_to sv x = ToTokenRevoke \<and> wi_removed (ex_input x) then None
      else current_token lib sv h)"

lemma checking_remote:
  "ws_remote (snd (handle_login_page sv i r st)) = ws_remote st"
  "ws_remote (snd (handle_token_status lib sv i r st)) = ws_remote st"
  "ws_remote (snd (handle_proxy lib sv i r st)) = ws_remote st"
  by (auto simp: handler_defs Let_def split: prod.splits option.splits bool.splits dest!: authenticated_frameD)

lemma account_handlers_remote:
  "ws_remote (snd (handle_logout lib r st)) = ws_remote st"
  "ws_remote (snd (handle_login lib i r st)) = ws_remote st"
  "ws_remote (snd (handle_setup lib sv i r st)) = ws_remote st"
  by (simp_all add: handle_logout_def handle_login_def handle_setup_def Let_def split_def split: option.split)

lemma token_handlers_remote:
  "ws_remote (snd (handle_token_rotate lib sv i r st)) =
     (if fst (authenticated sv (wi_now i) r st) \<and> same_origin lib r \<and> wi_write i \<noteq> WriteFails
      then Stored (new_remote_record lib (new_remote_token (wi_random i)) (wi_later i)) else ws_remote st)"
  "ws_remote (snd (handle_token_revoke lib sv i r st)) =
     (if fst (authenticated sv (wi_now i) r st) \<and> same_origin lib r \<and> wi_removed i then Absent else ws_remote st)"
  by (cases "authenticated sv (wi_now i) r st"; cases "wi_write i";
      auto simp: handle_token_rotate_def handle_token_revoke_def require_admin_session_def rotate_remote_def
        write_durable_atomic_def remove_stored_def Let_def split: bool.splits dest: authenticated_frameD)+

lemma serve_remote:
  assumes serve: "serve lib sv i r st = (a, st')"
    and x: "x = \<lparr>ex_input = i, ex_request = r, ex_before = st, ex_answer = a\<rparr>"
  shows "ws_remote st' =
    (if admitted lib sv x \<and> route_to sv x = ToTokenRotate \<and> wi_write i \<noteq> WriteFails
     then Stored (new_remote_record lib (new_remote_token (wi_random i)) (wi_later i))
     else if admitted lib sv x \<and> route_to sv x = ToTokenRevoke \<and> wi_removed i then Absent
     else ws_remote st)"
proof (cases "host_allowed sv (rq_host r)")
  case True
  let ?x = "route_of sv (rq_method r) (rq_segments r)"
  from True serve have d: "dispatch lib sv i r st ?x = (a, st')" by (simp add: serve_def)
  then have e: "st' = snd (dispatch lib sv i r st ?x)" by simp
  show ?thesis
    using True by (cases ?x)
      (simp_all add: e x dispatch_def checking_remote account_handlers_remote token_handlers_remote
        admitted_def route_to_def)
qed (use serve in \<open>auto simp: serve_def admitted_def x\<close>)

definition remote_rep :: "web_lib \<Rightarrow> string option \<Rightarrow> remote_record stored \<Rightarrow> bool" where
  "remote_rep lib tok f \<longleftrightarrow>
     (case tok of
        None \<Rightarrow> f = Absent
      | Some t \<Rightarrow> \<exists>bytes now. 0 < now \<and> t = new_remote_token bytes \<and> f = Stored (new_remote_record lib t now))"

lemma run_remote_rep:
  assumes "web_run lib sv st0 h st" and "ws_remote st0 = Absent"
  shows "remote_rep lib (current_token lib sv h) (ws_remote st)"
  using assms
proof (induction rule: web_run.induct)
  case web_start
  then show ?case by (simp add: remote_rep_def)
next
  case (web_step h st i r a st')
  then have "0 < wi_later i" by (auto simp: timely_def)
  with web_step serve_remote [OF web_step.hyps(3) refl] show ?case
    by (auto simp: remote_rep_def split: option.splits)
qed

lemma hex_encode_eq_Nil [simp]: "hex_encode s = [] \<longleftrightarrow> s = []"
  by (cases s) simp_all

lemma verify_remote_rep:
  assumes "remote_rep lib tok f" and "\<forall>s. length (wl_sha lib s) = 32"
  shows "verify_remote lib v f \<longleftrightarrow>
    (\<exists>t. tok = Some t \<and> wl_sha lib (trim_space v) = wl_sha lib t
       \<and> has_prefix (trim_space v) remote_token_prefix \<and> 36 \<le> length (trim_space v))"
proof (cases tok)
  case None
  with assms show ?thesis by (auto simp: remote_rep_def verify_remote_def load_remote_def Let_def)
next
  case (Some t)
  with assms(1) obtain bytes now where t: "0 < now" "t = new_remote_token bytes"
      "f = Stored (new_remote_record lib t now)"
    by (auto simp: remote_rep_def)
  have "wl_sha lib t \<noteq> []" using assms(2) by (metis length_0_conv zero_neq_numeral)
  then have "load_remote f = Some (new_remote_record lib t now)"
    using t by (simp add: load_remote_def new_remote_record_def remote_schema_version_def
        new_remote_token_def remote_token_prefix_def)
  with Some assms(2) show ?thesis
    by (auto simp: verify_remote_def Let_def new_remote_record_def hex_decode_encode remote_token_prefix_def)
qed

subsection \<open>Histories\<close>

lemma web_run_split:
  assumes "web_run lib sv st0 (h1 @ x # h2) st"
  shows "\<exists>st'. web_run lib sv st0 h2 (ex_before x) \<and> timely h2 (ex_input x)
    \<and> serve lib sv (ex_input x) (ex_request x) (ex_before x) = (ex_answer x, st')"
  using assms
proof (induction h1 arbitrary: st)
  case Nil
  then show ?case by (auto elim!: web_run_ConsE)
next
  case (Cons y h1)
  from Cons.prems obtain st'' where "web_run lib sv st0 (h1 @ x # h2) st''" by (auto elim!: web_run_ConsE)
  from Cons.IH [OF this] show ?case .
qed

lemma last_use_origin:
  "last_use lib sv h t = Some u \<Longrightarrow>
     \<exists>h1 x h2. h = h1 @ x # h2 \<and> wa_cookie (ex_answer x) = CookieSet t \<and> (\<forall>y \<in> set h1. \<not> revokes lib sv y t)"
proof (induction h arbitrary: u)
  case (Cons x h)
  show ?case
  proof (cases "wa_cookie (ex_answer x) = CookieSet t")
    case True
    then show ?thesis by (intro exI [of _ "[]"]) auto
  next
    case False
    with Cons.prems obtain v where "\<not> revokes lib sv x t" "last_use lib sv h t = Some v"
      by (auto split: if_splits option.splits)
    with Cons.IH obtain h1 y h2 where "h = h1 @ y # h2" "wa_cookie (ex_answer y) = CookieSet t"
        "\<forall>z \<in> set (x # h1). \<not> revokes lib sv z t" by fastforce
    then show ?thesis by (metis append_Cons)
  qed
qed simp

text \<open>The exchange that opened the session a cookie belongs to.\<close>

definition opened_by :: "web_lib \<Rightarrow> web_server \<Rightarrow> exchange list \<Rightarrow> string \<Rightarrow> exchange \<Rightarrow> bool" where
  "opened_by lib sv h t x \<longleftrightarrow>
     (\<exists>h1 h2. h = h1 @ x # h2 \<and> (\<forall>y \<in> set h1. \<not> revokes lib sv y t))
     \<and> wa_cookie (ex_answer x) = CookieSet t
     \<and> local_host_name sv (rq_host (ex_request x)) \<and> own_page lib (ex_request x) \<and> rq_method (ex_request x) = ''POST''
     \<and> ((rq_segments (ex_request x) = [''api'', ''auth'', ''login'']
          \<and> (\<exists>u p. rq_login_body (ex_request x) = Some (u, p) \<and> proves_login lib (ws_account (ex_before x)) u p))
       \<or> (rq_segments (ex_request x) = [''api'', ''auth'', ''setup''] \<and> ws_account (ex_before x) = Absent
          \<and> (\<exists>u p b. rq_setup_body (ex_request x) = Some (u, p, b) \<and> holds_bootstrap sv (ws_bootstrap (ex_before x)) b)))"

lemma signs_in_shows:
  assumes "signs_in lib sv i r st"
  shows "local_host_name sv (rq_host r) \<and> own_page lib r \<and> rq_method r = ''POST''
     \<and> ((rq_segments r = [''api'', ''auth'', ''login'']
          \<and> (\<exists>u p. rq_login_body r = Some (u, p) \<and> proves_login lib (ws_account st) u p))
       \<or> (rq_segments r = [''api'', ''auth'', ''setup''] \<and> ws_account st = Absent
          \<and> (\<exists>u p b. rq_setup_body r = Some (u, p, b) \<and> holds_bootstrap sv (ws_bootstrap st) b)))"
  using assms host_allowed_local [of sv "rq_host r"] same_origin_own [of lib r]
    route_login [of sv "rq_method r" "rq_segments r"] route_setup [of sv "rq_method r" "rq_segments r"]
    verify_login_proves verify_bootstrap_holds
  unfolding signs_in_def by blast

lemma session_opened:
  assumes "web_run lib sv st0 h st" and "session_open lib sv h now t"
  shows "\<exists>x. opened_by lib sv h t x"
proof -
  from assms(2) obtain u where "last_use lib sv h t = Some u" by (auto simp: session_open_def split: option.splits)
  from last_use_origin [OF this] obtain h1 x h2 where x: "h = h1 @ x # h2"
      "wa_cookie (ex_answer x) = CookieSet t" "\<forall>y \<in> set h1. \<not> revokes lib sv y t" by blast
  from web_run_split [of lib sv st0 h1 x h2 st] assms(1) x(1) obtain st'
    where "serve lib sv (ex_input x) (ex_request x) (ex_before x) = (ex_answer x, st')" by blast
  from serve_grants [OF this x(2)] have "signs_in lib sv (ex_input x) (ex_request x) (ex_before x)" by blast
  from signs_in_shows [OF this] x show ?thesis unfolding opened_by_def by blast
qed

subsection \<open>Properties of runs\<close>

text \<open>C8: With authentication on, the session table implements its specification: at any time after a run, a cookie is accepted exactly when
  the history opened a session with it (the answer that handed it out), no logout with it came later, and it
  was used at least every twelve hours since, refreshes, lazy deletion and the sweep of a full table included.\<close>

theorem session_table_refines_history:
  assumes "web_run lib sv st0 h st" and "ws_sessions st0 = []" and "known_until h now" and "\<not> sv_disable_auth sv"
  shows "fst (authenticated sv now r st) \<longleftrightarrow>
    (\<exists>t. rq_cookie r = Some t \<and> t \<noteq> [] \<and> session_open lib sv h now t)"
  using table_rep_decides [OF run_table_rep [OF assms(1,2)] assms(3)] assms(4)
  by (auto simp: authenticated_def split: option.splits)

lemma forward_cases:
  assumes "serve lib sv i r st = (a, st')" and "wa_forward a = Some f"
  shows "host_allowed sv (rq_host r) \<and> fw_host f = sv_upstream_host sv
    \<and> fw_authorization f = ''Bearer '' @ sv_control_token sv \<and> fw_path f \<noteq> ''/api/v1/session/bootstrap''
    \<and> \<not> platform_path_blocked sv (fw_path f) \<and> (sv_qnap_only sv \<longrightarrow> \<not> qnap_path_blocked (fw_path f))
    \<and> (fst (authenticated sv (wi_now i) r st) \<and> (rq_method r \<notin> {''GET'', ''HEAD'', ''OPTIONS''} \<longrightarrow> same_origin lib r)
       \<or> verify_remote lib (bearer_token r) (ws_remote st))"
proof -
  let ?x = "route_of sv (rq_method r) (rq_segments r)"
  from assms have h: "host_allowed sv (rq_host r)" and d: "dispatch lib sv i r st ?x = (a, st')"
    by (auto simp: serve_def split: if_splits)
  then have e: "a = fst (dispatch lib sv i r st ?x)" by simp
  show ?thesis
  proof (cases ?x)
    case ToProxy
    with d assms(2) h show ?thesis
      by (cases "authenticated sv (wi_now i) r st")
         (auto simp: dispatch_def handle_proxy_def Let_def split: if_splits bool.splits)
  next
    case ToRemote
    with d assms(2) h show ?thesis
      by (auto simp: dispatch_def handle_remote_def remote_path_blocked_def Let_def split: if_splits)
  qed (use assms(2) in \<open>auto simp: e dispatch_def handler_defs handle_setup_def handle_login_def handle_logout_def
        Let_def split_def split: option.splits bool.splits if_splits\<close>)
qed


text \<open>C15: the administrator's account is created at most once, and only by someone who could read the container log:
  if a run started without an account and there is one, a single \<open>POST\<close> of the setup route made it when there was
  none, from the gateway's own pages under a name of this machine or its networks, with the bootstrap token on file
  (where the server requires one), a user name of 3 to 64 bytes and a password of 12 to 1024; the account has that
  user name and the Argon2 hash of that password, and no later request has changed it.\<close>

theorem administrator_created_once:
  assumes "web_run lib sv st0 h st" and "ws_account st0 = Absent" and "ws_account st \<noteq> Absent"
  shows "\<exists>h1 x h2 c. h = h1 @ x # h2 \<and> creates_account lib sv x c \<and> ws_account st = Stored c
    \<and> (\<forall>y \<in> set h1. ws_account (ex_before y) = Stored c)"
  using assms
proof (induction rule: web_run.induct)
  case web_start
  then show ?case by simp
next
  case (web_step h st i r a st')
  let ?x = "\<lparr>ex_input = i, ex_request = r, ex_before = st, ex_answer = a\<rparr>"
  from serve_account [OF web_step.hyps(3)] show ?case
  proof (elim disjE exE conjE)
    assume same: "ws_account st' = ws_account st"
    with web_step obtain h1 x h2 c where "h = h1 @ x # h2" "creates_account lib sv x c"
        "ws_account st = Stored c" "\<forall>y \<in> set h1. ws_account (ex_before y) = Stored c" by auto
    with same show ?thesis by (intro exI [of _ "?x # h1"]) auto
  next
    fix c assume "ws_account st' = Stored c" "creates_account lib sv ?x c"
    then show ?thesis by (intro exI [of _ "[]"]) auto
  qed
qed

text \<open>C16: Only the last remote token counts: after a run from a gateway with no token on file, a bearer token is accepted exactly when it has the form of one and its
  digest is that of the token drawn by the last rotation whose file reached the disk (even one answered with
  an error because the directory was not synced), with no revocation since; so rotating or revoking ends every
  earlier token.\<close>

theorem only_last_remote_token:
  assumes "web_run lib sv st0 h st" and "ws_remote st0 = Absent" and "\<forall>s. length (wl_sha lib s) = 32"
  shows "verify_remote lib v (ws_remote st) \<longleftrightarrow>
    (\<exists>t. current_token lib sv h = Some t \<and> wl_sha lib (trim_space v) = wl_sha lib t
       \<and> has_prefix (trim_space v) remote_token_prefix \<and> 36 \<le> length (trim_space v))"
  by (rule verify_remote_rep [OF run_remote_rep [OF assms(1,2)] assms(3)])

end
