(* ===== verification/WebRuns.thy ===== *)
theory WebRuns
  imports WebProps
begin

text \<open>
  A day of one web gateway: the administrator's account is set up with the token from the container log, a
  remote token is drawn in the new session, and the overview is read.
\<close>

definition day_lib :: web_lib where
  "day_lib =
     \<lparr>wl_url = (\<lambda>s. if s = ''http://localhost''
        then Some \<lparr>ul_scheme = ''http'', ul_opaque = [], ul_has_user = False, ul_host = ''localhost'', ul_path = [],
          ul_raw_query = [], ul_fragment = [], ul_text = ''http://localhost''\<rparr>
        else None),
      wl_argon = (\<lambda>p s t m n l. p @ s),
      wl_sha = (\<lambda>s. take 32 (s @ replicate 32 (CHR ''x'')))\<rparr>"

definition day_server :: web_server where
  "day_server =
     \<lparr>sv_upstream_host = ''127.0.0.1:61767'', sv_control_token = ''control'', sv_hosts = [], sv_disable_auth = False,
      sv_require_bootstrap = True, sv_secure_cookies = False, sv_qnap_only = True, sv_platform = ''qnap''\<rparr>"

definition day_state :: web_state where
  "day_state = \<lparr>ws_sessions = [], ws_failures = [], ws_account = Absent, ws_remote = Absent, ws_bootstrap = Stored ''first-run''\<rparr>"

definition day_input :: "time \<Rightarrow> web_input" where
  "day_input now = \<lparr>wi_now = now, wi_later = now + 1, wi_random = replicate 32 (CHR ''r''), wi_salt = ''salt'',
     wi_write = WriteDone, wi_removed = True, wi_overview = NoReply\<rparr>"

definition day_request :: "string \<Rightarrow> string list \<Rightarrow> web_request" where
  "day_request meth segs =
     \<lparr>rq_method = meth, rq_segments = segs, rq_host = ''localhost'', rq_origin = ''http://localhost'',
      rq_authorization = [], rq_cookie = Some (random_token (replicate 32 (CHR ''r''))), rq_remote_header = [],
      rq_addr = ''10.0.0.7:51000'', rq_setup_body = Some (''admin'', ''correct horse'', ''first-run''),
      rq_login_body = Some (''admin'', ''correct horse'')\<rparr>"

lemma day_host: "host_allowed sv ''localhost''"
proof -
  have "normalise_host ''localhost'' = ''localhost''" by code_simp
  then show ?thesis by (simp add: host_allowed_def Let_def)
qed

lemma day_origin: "same_origin day_lib (day_request m s)"
proof -
  have "trim_space ''http://localhost'' = ''http://localhost''" by code_simp
  then show ?thesis by (simp add: same_origin_def day_request_def day_lib_def Let_def)
qed

definition day_setup :: "web_answer \<times> web_state" where
  "day_setup = serve day_lib day_server (day_input 1) (day_request ''POST'' [''api'', ''auth'', ''setup'']) day_state"

lemma day_setup_done:
  "fst day_setup = (answer 201 (Authenticated True))\<lparr>wa_cookie := CookieSet (random_token (replicate 32 (CHR ''r'')))\<rparr>"
  "snd day_setup =
     \<lparr>ws_sessions = [(random_token (replicate 32 (CHR ''r'')), 2 + session_lifetime)], ws_failures = [],
      ws_account = Stored (new_credential day_lib ''admin'' ''correct horse'' ''salt'' 1), ws_remote = Absent,
      ws_bootstrap = Absent\<rparr>"
proof -
  have r: "route_of day_server ''POST'' [''api'', ''auth'', ''setup''] = ToSetup" by (simp add: route_of_def day_server_def)
  have t: "trim_space ''first-run'' = ''first-run''" "check_setup ''admin'' ''correct horse'' = None" by code_simp+
  have o1: "same_origin day_lib (day_request ''POST'' [''api'', ''auth'', ''setup''])" by (rule day_origin)
  have "day_setup = ((answer 201 (Authenticated True))\<lparr>wa_cookie := CookieSet (random_token (replicate 32 (CHR ''r'')))\<rparr>,
     \<lparr>ws_sessions = [(random_token (replicate 32 (CHR ''r'')), 2 + session_lifetime)], ws_failures = [],
      ws_account = Stored (new_credential day_lib ''admin'' ''correct horse'' ''salt'' 1), ws_remote = Absent,
      ws_bootstrap = Absent\<rparr>)"
    using o1 by (simp add: day_setup_def serve_def dispatch_def handle_setup_def day_request_def r day_host)
       (simp add: t verify_bootstrap_token_def day_server_def day_state_def stored_text_def setup_account_def
         setup_required_def write_durable_atomic_def day_input_def issue_session_def live_sessions_def
         clear_bootstrap_token_def remove_stored_def Let_def)
  note done_eq = this
  show "fst day_setup = (answer 201 (Authenticated True))\<lparr>wa_cookie := CookieSet (random_token (replicate 32 (CHR ''r'')))\<rparr>"
    "snd day_setup =
     \<lparr>ws_sessions = [(random_token (replicate 32 (CHR ''r'')), 2 + session_lifetime)], ws_failures = [],
      ws_account = Stored (new_credential day_lib ''admin'' ''correct horse'' ''salt'' 1), ws_remote = Absent,
      ws_bootstrap = Absent\<rparr>" by (simp_all add: done_eq)
qed

definition day_rotate :: "web_answer \<times> web_state" where
  "day_rotate = serve day_lib day_server (day_input 3) (day_request ''POST'' [''api'', ''auth'', ''remote-token'']) (snd day_setup)"

lemma day_rotate_done:
  "day_rotate =
     (answer 201 (TokenIssued (new_remote_token (replicate 32 (CHR ''r'')))),
      (snd day_setup)\<lparr>ws_sessions := [(random_token (replicate 32 (CHR ''r'')), 3 + session_lifetime)],
        ws_remote := Stored (new_remote_record day_lib (new_remote_token (replicate 32 (CHR ''r''))) 4)\<rparr>)"
proof -
  have r: "route_of day_server ''POST'' [''api'', ''auth'', ''remote-token''] = ToTokenRotate"
    by (simp add: route_of_def day_server_def)
  have n: "random_token (replicate 32 (CHR ''r'')) \<noteq> []" by (simp add: random_token_def)
  have "authenticated day_server 3 (day_request ''POST'' [''api'', ''auth'', ''remote-token'']) (snd day_setup)
    = (True, (snd day_setup)\<lparr>ws_sessions := [(random_token (replicate 32 (CHR ''r'')), 3 + session_lifetime)]\<rparr>)"
    using n by (simp add: authenticated_def day_request_def day_server_def day_setup_done session_lifetime_def
        hours_def minutes_def seconds_def)
  moreover have "rq_host (day_request m s) = ''localhost''" "rq_method (day_request m s) = m"
    "rq_segments (day_request m s) = s" for m s by (simp_all add: day_request_def)
  ultimately show ?thesis
    by (simp add: day_rotate_def serve_def dispatch_def handle_token_rotate_def require_admin_session_def r day_host
        day_origin day_input_def rotate_remote_def write_durable_atomic_def Let_def day_setup_done)
qed

definition day_history :: "exchange list" where
  "day_history =
     [\<lparr>ex_input = day_input 3, ex_request = day_request ''POST'' [''api'', ''auth'', ''remote-token''],
       ex_before = snd day_setup, ex_answer = fst day_rotate\<rparr>,
      \<lparr>ex_input = day_input 1, ex_request = day_request ''POST'' [''api'', ''auth'', ''setup''],
       ex_before = day_state, ex_answer = fst day_setup\<rparr>]"

lemma day_run: "web_run day_lib day_server day_state day_history (snd day_rotate)"
  unfolding day_history_def
  by (intro web_step web_start) (simp_all add: timely_def day_input_def day_setup_def day_rotate_def prod.expand)

lemma day_known: "5 \<le> now \<Longrightarrow> known_until day_history now"
  by (simp add: known_until_def day_history_def day_input_def)

definition day_overview :: web_request where
  "day_overview = day_request ''GET'' [''api'', ''v1'', ''overview'']"

lemma day_overview_forwarded:
  "wa_forward (fst (serve day_lib day_server (day_input 5) day_overview (snd day_rotate))) =
     Some \<lparr>fw_method = ''GET'', fw_path = ''/api/v1/overview'', fw_host = ''127.0.0.1:61767'',
       fw_authorization = ''Bearer control'', fw_remote = []\<rparr>"
proof -
  have r: "route_of day_server ''GET'' [''api'', ''v1'', ''overview''] = ToProxy" by (simp add: route_of_def day_server_def)
  have n: "random_token (replicate 32 (CHR ''r'')) \<noteq> []" by (simp add: random_token_def)
  have p: "url_path day_overview = ''/api/v1/overview''" by (simp add: url_path_def day_overview_def day_request_def)
  have "fst (authenticated day_server 5 day_overview (snd day_rotate))"
    using n by (simp add: authenticated_def day_overview_def day_request_def day_server_def day_rotate_done day_setup_done
        session_lifetime_def hours_def minutes_def seconds_def)
  then obtain st where "authenticated day_server 5 day_overview (snd day_rotate) = (True, st)"
    by (cases "authenticated day_server 5 day_overview (snd day_rotate)") simp
  moreover have "\<not> platform_path_blocked day_server ''/api/v1/overview''" "\<not> qnap_path_blocked ''/api/v1/overview''"
    by code_simp+
  moreover have "rq_host day_overview = ''localhost''" "rq_method day_overview = ''GET''"
    "rq_segments day_overview = [''api'', ''v1'', ''overview'']" "rq_remote_header day_overview = []"
    by (simp_all add: day_overview_def day_request_def)
  ultimately show ?thesis
    by (simp add: serve_def dispatch_def handle_proxy_def r day_host p day_input_def)
       (simp add: day_server_def)
qed

subsection \<open>The properties on this run\<close>

lemma day_start:
  "ws_sessions day_state = []" "ws_failures day_state = []" "ws_account day_state = Absent"
  "ws_remote day_state = Absent" "\<not> sv_disable_auth day_server" "\<forall>s. length (wl_sha day_lib s) = 32"
  by (simp_all add: day_state_def day_server_def day_lib_def min_def)

lemma day_timely: "timely day_history (day_input 5)"
  by (simp add: timely_def day_history_def day_input_def)

lemma session_table_refines_history_witness:
  "fst (authenticated day_server 5 day_overview (snd day_rotate)) \<longleftrightarrow>
    (\<exists>t. rq_cookie day_overview = Some t \<and> t \<noteq> [] \<and> session_open day_lib day_server day_history 5 t)"
  by (rule session_table_refines_history [OF day_run day_start(1) day_known day_start(5)]) simp


lemma administrator_created_once_witness:
  "\<exists>h1 x h2 c. day_history = h1 @ x # h2 \<and> creates_account day_lib day_server x c
    \<and> ws_account (snd day_rotate) = Stored c \<and> (\<forall>y \<in> set h1. ws_account (ex_before y) = Stored c)"
  by (rule administrator_created_once [OF day_run day_start(3)]) (simp add: day_rotate_done day_setup_done)

lemma only_last_remote_token_witness:
  "verify_remote day_lib ''osr_guess'' (ws_remote (snd day_rotate)) \<longleftrightarrow>
    (\<exists>t. current_token day_lib day_server day_history = Some t
       \<and> wl_sha day_lib (trim_space ''osr_guess'') = wl_sha day_lib t
       \<and> has_prefix (trim_space ''osr_guess'') remote_token_prefix \<and> 36 \<le> length (trim_space ''osr_guess''))"
  by (rule only_last_remote_token [OF day_run day_start(4,6)])

end
