(* ===== verification/WebThrottle.thy ===== *)
theory WebThrottle
  imports WebRuns
begin

text \<open>
  Failed logins. Served one after the other, a client that does not know the password gets at most twelve
  guesses in any fifteen minutes, and the one who does gets in once the window is over. Served at the same
  time, the check and the record of a failure are separate critical sections, and the limit does not hold.
\<close>

subsection \<open>Attempts\<close>

definition wrong_login :: "web_server \<Rightarrow> string \<Rightarrow> exchange \<Rightarrow> bool" where
  "wrong_login sv c x \<longleftrightarrow>
     route_to sv x = ToLogin \<and> client_address (ex_request x) = c \<and> wa_status (ex_answer x) = 401"

definition good_login :: "web_server \<Rightarrow> string \<Rightarrow> exchange \<Rightarrow> bool" where
  "good_login sv c x \<longleftrightarrow>
     route_to sv x = ToLogin \<and> client_address (ex_request x) = c \<and> wa_status (ex_answer x) = 200"

lemma checking_failures:
  "ws_failures (snd (handle_login_page sv i r st)) = ws_failures st"
  "ws_failures (snd (handle_token_status lib sv i r st)) = ws_failures st"
  "ws_failures (snd (handle_token_rotate lib sv i r st)) = ws_failures st"
  "ws_failures (snd (handle_token_revoke lib sv i r st)) = ws_failures st"
  "ws_failures (snd (handle_proxy lib sv i r st)) = ws_failures st"
  by (auto simp: handler_defs Let_def split: prod.splits option.splits bool.splits dest!: authenticated_frameD)

lemma account_handlers_failures:
  "ws_failures (snd (handle_logout lib r st)) = ws_failures st"
  "ws_failures (snd (handle_setup lib sv i r st)) = ws_failures st"
  by (simp_all add: handle_logout_def handle_setup_def Let_def split_def split: option.split)

lemma login_failures:
  assumes "handle_login lib i r st = (a, st')"
  shows "(wa_status a = 401 \<and> login_blocked (wi_now i) (client_address r) st = None
      \<and> st' = record_login_failure (wi_later i) (client_address r) st)
    \<or> (wa_status a = 200 \<and> ws_failures st' = AList.delete (client_address r) (ws_failures st))
    \<or> (wa_status a \<noteq> 401 \<and> wa_status a \<noteq> 200 \<and> st' = st)"
  using assms by (auto simp: handle_login_def issue_session_def clear_login_failures_def Let_def
      split: prod.splits option.splits if_splits)

lemma serve_failures:
  assumes serve: "serve lib sv i r st = (a, st')"
    and x: "x = \<lparr>ex_input = i, ex_request = r, ex_before = st, ex_answer = a\<rparr>"
  shows "(wrong_login sv (client_address r) x \<and> login_blocked (wi_now i) (client_address r) st = None
      \<and> st' = record_login_failure (wi_later i) (client_address r) st)
    \<or> (good_login sv (client_address r) x \<and> ws_failures st' = AList.delete (client_address r) (ws_failures st))
    \<or> ((\<forall>c. \<not> wrong_login sv c x) \<and> ws_failures st' = ws_failures st)"
proof (cases "host_allowed sv (rq_host r)")
  case True
  let ?x = "route_of sv (rq_method r) (rq_segments r)"
  from True serve have d: "dispatch lib sv i r st ?x = (a, st')" by (simp add: serve_def)
  then have e: "st' = snd (dispatch lib sv i r st ?x)" by simp
  show ?thesis
  proof (cases ?x)
    case ToLogin
    with d login_failures [of lib i r st a st'] show ?thesis
      by (auto simp: dispatch_def wrong_login_def good_login_def route_to_def x)
  qed (simp_all add: e x dispatch_def checking_failures account_handlers_failures wrong_login_def route_to_def)
qed (use serve in \<open>auto simp: serve_def x wrong_login_def\<close>)

subsection \<open>Counting guesses\<close>

definition guesses :: "web_server \<Rightarrow> string \<Rightarrow> (time \<Rightarrow> bool) \<Rightarrow> exchange list \<Rightarrow> nat" where
  "guesses sv c P h = length (filter (\<lambda>x. wrong_login sv c x \<and> P (wi_later (ex_input x))) h)"

lemma guesses_Nil [simp]: "guesses sv c P [] = 0"
  by (simp add: guesses_def)

lemma guesses_Cons:
  "guesses sv c P (x # h) = (if wrong_login sv c x \<and> P (wi_later (ex_input x)) then 1 else 0) + guesses sv c P h"
  by (simp add: guesses_def)

lemma guesses_mono: "(\<And>t. P t \<Longrightarrow> Q t) \<Longrightarrow> guesses sv c P h \<le> guesses sv c Q h"
  by (induction h) (auto simp: guesses_Cons)

lemma guesses_split: "guesses sv c P h = guesses sv c (\<lambda>t. P t \<and> t < s) h + guesses sv c (\<lambda>t. P t \<and> s \<le> t) h"
  by (induction h) (auto simp: guesses_Cons)

lemma guesses_none: "\<forall>x \<in> set h. \<not> wrong_login sv c x \<Longrightarrow> guesses sv c P h = 0"
  by (auto simp: guesses_def filter_empty_conv)

definition in_window :: "time \<Rightarrow> time \<Rightarrow> bool" where
  "in_window t u \<longleftrightarrow> t \<le> u \<and> u < t + login_window"

text \<open>
  The bucket counts the guesses since it was opened, at most six; the guesses of the fifteen minutes before
  it was opened are at most six as well, because they fell into one earlier bucket.
\<close>

definition bucket_rep :: "web_server \<Rightarrow> string \<Rightarrow> exchange list \<Rightarrow> login_bucket option \<Rightarrow> bool" where
  "bucket_rep sv c h ob \<longleftrightarrow>
     (case ob of
        None \<Rightarrow> \<forall>x \<in> set h. \<not> wrong_login sv c x
      | Some b \<Rightarrow>
          0 < lb_start b \<and> (\<forall>now. known_until h now \<longrightarrow> lb_start b \<le> now)
          \<and> (\<forall>x \<in> set h. wrong_login sv c x \<longrightarrow> wi_later (ex_input x) < lb_start b + login_window)
          \<and> lb_failures b = int (guesses sv c (\<lambda>u. lb_start b \<le> u) h) \<and> lb_failures b \<le> max_login_failures
          \<and> (\<forall>t. lb_start b - login_window < t \<longrightarrow> guesses sv c (\<lambda>u. t \<le> u \<and> u < lb_start b) h \<le> 6))
     \<and> (\<forall>t. guesses sv c (in_window t) h \<le> 12)"

lemma window_facts: "0 < login_window" "login_window \<le> 2 ^ 63 - 1"
  by (simp_all add: login_window_def minutes_def seconds_def)

lemma bucket_rep_None: "bucket_rep sv c h None \<longleftrightarrow> (\<forall>x \<in> set h. \<not> wrong_login sv c x)"
  by (auto simp: bucket_rep_def guesses_none)

lemma bucket_rep_Some:
  "bucket_rep sv c h (Some b) \<longleftrightarrow>
     0 < lb_start b \<and> (\<forall>now. known_until h now \<longrightarrow> lb_start b \<le> now)
     \<and> (\<forall>x \<in> set h. wrong_login sv c x \<longrightarrow> wi_later (ex_input x) < lb_start b + login_window)
     \<and> lb_failures b = int (guesses sv c (\<lambda>u. lb_start b \<le> u) h) \<and> lb_failures b \<le> max_login_failures
     \<and> (\<forall>t. lb_start b - login_window < t \<longrightarrow> guesses sv c (\<lambda>u. t \<le> u \<and> u < lb_start b) h \<le> 6)
     \<and> (\<forall>t. guesses sv c (in_window t) h \<le> 12)"
  by (simp add: bucket_rep_def)

lemma bucket_rep_quiet:
  assumes "bucket_rep sv c h ob" and "\<not> wrong_login sv c x"
  shows "bucket_rep sv c (x # h) ob"
  using assms by (auto simp: bucket_rep_def guesses_Cons known_until_Cons split: option.splits)

text \<open>A guess opens a bucket when there was none or its window is over, \<open>L\<close> being the time of the record.\<close>

lemma bucket_rep_open:
  assumes rep: "bucket_rep sv c h ob" and wrong: "wrong_login sv c x" and L: "L = wi_later (ex_input x)" "0 < L"
    and old: "\<And>b. ob = Some b \<Longrightarrow> lb_start b + login_window \<le> L"
  shows "bucket_rep sv c (x # h) (Some \<lparr>lb_start = L, lb_failures = 1\<rparr>)"
proof -
  have early: "\<not> L \<le> wi_later (ex_input y)" if "y \<in> set h" "wrong_login sv c y" for y
  proof (cases ob)
    case None
    with that rep show ?thesis by (simp add: bucket_rep_None)
  next
    case (Some b)
    with rep have "bucket_rep sv c h (Some b)" by simp
    with that have "wi_later (ex_input y) < lb_start b + login_window" unfolding bucket_rep_Some by blast
    with old [OF Some] show ?thesis by linarith
  qed
  then have none: "guesses sv c (\<lambda>u. L \<le> u) h = 0" by (auto simp: guesses_def filter_empty_conv)
  have six: "guesses sv c P h \<le> 6" if P: "\<And>u. P u \<Longrightarrow> L - login_window < u" for P
  proof (cases ob)
    case None
    with rep show ?thesis by (simp add: bucket_rep_None guesses_none)
  next
    case (Some b)
    have "guesses sv c P h \<le> guesses sv c (\<lambda>u. lb_start b \<le> u) h"
      using P old [OF Some] by (intro guesses_mono) fastforce
    also have "\<dots> \<le> 6" using rep Some by (simp add: bucket_rep_Some max_login_failures_def)
    finally show ?thesis .
  qed
  have twelve: "guesses sv c (in_window t) (x # h) \<le> 12" for t
  proof (cases "in_window t L")
    case True
    then have "guesses sv c (in_window t) h \<le> 6" by (intro six) (auto simp: in_window_def)
    then show ?thesis by (simp add: guesses_Cons)
  next
    case False
    then show ?thesis using rep L(1) by (simp add: guesses_Cons bucket_rep_def)
  qed
  have before: "wi_later (ex_input y) < L + login_window" if "y \<in> set h" "wrong_login sv c y" for y
    using early [OF that] window_facts(1) by linarith
  have prior: "guesses sv c (\<lambda>u. t \<le> u \<and> u < L) h \<le> 6" if "L - login_window < t" for t
    using that by (intro six) linarith
  show ?thesis
    using wrong L none prior twelve before window_facts(1)
    by (auto simp: bucket_rep_Some guesses_Cons known_until_Cons max_login_failures_def)
qed

text \<open>Within the window a guess is counted, and the check before it had found fewer than six.\<close>

lemma bucket_rep_count:
  assumes rep: "bucket_rep sv c h (Some b)" and wrong: "wrong_login sv c x"
    and L: "L = wi_later (ex_input x)" "lb_start b \<le> L" "L < lb_start b + login_window"
    and free: "lb_failures b < max_login_failures"
  shows "bucket_rep sv c (x # h) (Some (b\<lparr>lb_failures := lb_failures b + 1\<rparr>))"
proof -
  let ?s = "lb_start b"
  note r = rep [unfolded bucket_rep_Some]
  have now: "guesses sv c (\<lambda>u. ?s \<le> u) (x # h) = Suc (guesses sv c (\<lambda>u. ?s \<le> u) h)"
    using wrong L by (simp add: guesses_Cons)
  have twelve: "guesses sv c (in_window t) (x # h) \<le> 12" for t
  proof (cases "in_window t L")
    case True
    then have t: "?s - login_window < t" using L by (auto simp: in_window_def)
    have "guesses sv c (\<lambda>u. in_window t u \<and> u < ?s) (x # h) \<le> guesses sv c (\<lambda>u. t \<le> u \<and> u < ?s) (x # h)"
      by (rule guesses_mono) (simp add: in_window_def)
    also have "\<dots> = guesses sv c (\<lambda>u. t \<le> u \<and> u < ?s) h" using L by (simp add: guesses_Cons)
    also have "\<dots> \<le> 6" using r t by blast
    finally have a: "guesses sv c (\<lambda>u. in_window t u \<and> u < ?s) (x # h) \<le> 6" .
    have "guesses sv c (\<lambda>u. in_window t u \<and> ?s \<le> u) (x # h) \<le> guesses sv c (\<lambda>u. ?s \<le> u) (x # h)"
      by (rule guesses_mono) simp
    also have "\<dots> \<le> 6" using now r free by (simp add: max_login_failures_def)
    finally show ?thesis using a guesses_split [of sv c "in_window t" "x # h" ?s] by simp
  next
    case False
    then show ?thesis using r L(1) by (simp add: guesses_Cons)
  qed
  show ?thesis
    using r wrong L now twelve free by (auto simp: bucket_rep_Some guesses_Cons known_until_Cons max_login_failures_def)
qed

lemma bucket_rep_guess:
  assumes rep: "bucket_rep sv c h (map_of (ws_failures st) c)" and wrong: "wrong_login sv c x"
    and free: "login_blocked (wi_now (ex_input x)) c st = None" and t: "timely h (ex_input x)"
  shows "bucket_rep sv c (x # h) (map_of (ws_failures (record_login_failure (wi_later (ex_input x)) c st)) c)"
proof -
  let ?L = "wi_later (ex_input x)" and ?N = "wi_now (ex_input x)"
  from t have L: "0 < ?L" "?N \<le> ?L" and kn: "known_until h ?N"
    by (auto simp: timely_def known_until_def)
  show ?thesis
  proof (cases "map_of (ws_failures st) c")
    case None
    with bucket_rep_open [OF rep wrong refl L(1)] show ?thesis
      by (simp add: record_login_failure_def map_of_update)
  next
    case (Some b)
    from rep Some kn have s: "0 < lb_start b" "lb_start b \<le> ?N" by (auto simp: bucket_rep_Some)
    have sub: "login_window \<le> time_sub u (lb_start b) \<longleftrightarrow> lb_start b + login_window \<le> u" if "lb_start b \<le> u" for u
      by (rule time_sub_less [OF that window_facts(2)])
    show ?thesis
    proof (cases "lb_start b + login_window \<le> ?L")
      case True
      with bucket_rep_open [OF rep wrong refl L(1)] Some s L sub [of ?L] show ?thesis
        by (simp add: record_login_failure_def map_of_update)
    next
      case False
      with s L sub [of ?N] Some free have "lb_failures b < max_login_failures"
        by (simp add: login_blocked_def split: if_splits)
      with bucket_rep_count [OF rep [unfolded Some] wrong refl] False Some s L sub [of ?L] show ?thesis
        by (simp add: record_login_failure_def map_of_update Let_def)
    qed
  qed
qed

lemma run_bucket_rep:
  assumes "web_run lib sv st0 h st" and "ws_failures st0 = []" and "\<forall>x \<in> set h. \<not> good_login sv c x"
  shows "bucket_rep sv c h (map_of (ws_failures st) c)"
  using assms
proof (induction rule: web_run.induct)
  case web_start
  then show ?case by (simp add: bucket_rep_None)
next
  case (web_step h st i r a st')
  let ?x = "\<lparr>ex_input = i, ex_request = r, ex_before = st, ex_answer = a\<rparr>"
  from web_step have IH: "bucket_rep sv c h (map_of (ws_failures st) c)" by simp
  show ?case
  proof (cases "client_address r = c")
    case True
    with serve_failures [OF web_step.hyps(3) refl] web_step.prems(2)
    consider "wrong_login sv c ?x" "login_blocked (wi_now i) c st = None" "st' = record_login_failure (wi_later i) c st"
      | "\<not> wrong_login sv c ?x" "ws_failures st' = ws_failures st" by auto
    then show ?thesis
    proof cases
      case 1
      with bucket_rep_guess [OF IH, of ?x] web_step.hyps(2) show ?thesis by simp
    next
      case 2
      with bucket_rep_quiet [OF IH] show ?thesis by simp
    qed
  next
    case False
    then have "\<not> wrong_login sv c ?x" by (simp add: wrong_login_def)
    moreover from False serve_failures [OF web_step.hyps(3) refl]
    have "map_of (ws_failures st') c = map_of (ws_failures st) c"
      by (auto simp: record_login_failure_def map_of_update map_of_delete Let_def)
    ultimately show ?thesis using bucket_rep_quiet [OF IH] by simp
  qed
qed

text \<open>C14: Guessing is slow when requests are served one after the other: a client that never logs in successfully gets at
  most twelve passwords checked in any stretch of fifteen minutes, and never a seventh in one window of the
  limiter.\<close>

theorem guesses_are_limited:
  assumes "web_run lib sv st0 h st" and "ws_failures st0 = []" and "\<forall>x \<in> set h. \<not> good_login sv c x"
  shows "guesses sv c (in_window t) h \<le> 12
    \<and> (\<forall>b. map_of (ws_failures st) c = Some b \<longrightarrow>
         guesses sv c (\<lambda>u. lb_start b \<le> u) h \<le> 6 \<and> lb_failures b = int (guesses sv c (\<lambda>u. lb_start b \<le> u) h))"
  using run_bucket_rep [OF assms] by (auto simp: bucket_rep_def max_login_failures_def split: option.splits)

subsection \<open>Logging in at all\<close>

lemma login_when_blocked:
  assumes "route_of sv (rq_method r) (rq_segments r) = ToLogin" and "host_allowed sv (rq_host r)" and "same_origin lib r"
    and "login_blocked (wi_now i) (client_address r) st = Some w"
  shows "serve lib sv i r st = ((answer 429 (Failed ''too_many_attempts''))\<lparr>wa_retry := Some (w div seconds + 1)\<rparr>, st)"
  using assms by (simp add: serve_def dispatch_def handle_login_def Let_def)

lemma login_when_free:
  assumes "route_of sv (rq_method r) (rq_segments r) = ToLogin" and "host_allowed sv (rq_host r)" and "same_origin lib r"
    and "rq_login_body r = Some (u, p)" and "verify_login lib u p (ws_account st) = None"
    and "login_blocked (wi_now i) (client_address r) st = None"
  shows "wa_status (fst (serve lib sv i r st)) = 200"
    and "wa_cookie (fst (serve lib sv i r st)) = CookieSet (random_token (wi_random i))"
    and "map_of (ws_sessions (snd (serve lib sv i r st))) (random_token (wi_random i)) = Some (wi_later i + session_lifetime)"
  using assms by (simp_all add: serve_def dispatch_def handle_login_def map_of_update issue_session_def Let_def)

lemma blocked_bucket:
  assumes "login_blocked now c st = Some w" and "\<forall>b. map_of (ws_failures st) c = Some b \<longrightarrow> lb_start b \<le> now"
  shows "\<exists>b. map_of (ws_failures st) c = Some b \<and> 6 \<le> lb_failures b \<and> lb_start b \<le> now
    \<and> now < lb_start b + login_window \<and> w = lb_start b + login_window - now"
proof -
  from assms(1) obtain b where b: "map_of (ws_failures st) c = Some b" "6 \<le> lb_failures b"
      "\<not> login_window \<le> time_sub now (lb_start b)" "w = login_window - time_sub now (lb_start b)"
    by (auto simp: login_blocked_def max_login_failures_def split: option.splits if_splits)
  from assms(2) b(1) have le: "lb_start b \<le> now" by simp
  from time_sub_less [OF le window_facts(2)] b(3) have young: "now < lb_start b + login_window" by simp
  with le window_facts have "time_sub now (lb_start b) = now - lb_start b" by (simp add: time_sub_def)
  with b le young show ?thesis by simp
qed

lemma free_after_window:
  assumes "map_of (ws_failures st) c = Some b" and "lb_start b + login_window \<le> now" and "lb_start b \<le> now"
  shows "login_blocked now c st = None"
  using assms time_sub_less [OF assms(3) window_facts(2)] by (simp add: login_blocked_def)

text \<open>C17: the limiter never locks the administrator out for good: a login with the right name and password from the
  gateway's own pages is refused only while a bucket of six failures of that address is younger than fifteen
  minutes. The refusal says how long to wait, the rest of the fifteen minutes in whole seconds and at most one
  more, and the same login after that wait gets in; every login that is not refused opens a session that is
  accepted for the next twelve hours.\<close>

theorem right_password_gets_in:
  assumes "serve lib sv i r st = (a, st')" and "route_of sv (rq_method r) (rq_segments r) = ToLogin"
    and "host_allowed sv (rq_host r)" and "same_origin lib r" and "rq_login_body r = Some (u, p)"
    and "verify_login lib u p (ws_account st) = None"
    and "\<forall>b. map_of (ws_failures st) (client_address r) = Some b \<longrightarrow> lb_start b \<le> wi_now i"
  shows "(wa_status a = 429 \<and> st' = st
      \<and> (\<exists>b w. map_of (ws_failures st) (client_address r) = Some b \<and> 6 \<le> lb_failures b
           \<and> wa_retry a = Some w
           \<and> wi_now i < lb_start b + 900000000000
           \<and> lb_start b + 900000000000 < wi_now i + w * 1000000000
           \<and> wi_now i + (w - 1) * 1000000000 \<le> lb_start b + 900000000000
           \<and> (\<forall>i'. wi_now i + w * 1000000000 \<le> wi_now i' \<longrightarrow> wa_status (fst (serve lib sv i' r st')) = 200)))
    \<or> (wa_status a = 200
      \<and> (\<exists>t. wa_cookie a = CookieSet t \<and> t = random_token (wi_random i)
           \<and> (t \<noteq> [] \<longrightarrow> (\<forall>r' now. rq_cookie r' = Some t \<longrightarrow> now < wi_later i + 43200000000000 \<longrightarrow>
                fst (authenticated sv now r' st')))))"
proof (cases "login_blocked (wi_now i) (client_address r) st")
  case None
  from login_when_free [OF assms(2-6) None] assms(1)
  have "wa_status a = 200" "wa_cookie a = CookieSet (random_token (wi_random i))"
    "map_of (ws_sessions st') (random_token (wi_random i)) = Some (wi_later i + 43200000000000)"
    by (simp_all add: session_lifetime_def hours_def minutes_def seconds_def)
  then show ?thesis by (auto simp: authenticated_def)
next
  case (Some w)
  have a: "a = (answer 429 (Failed ''too_many_attempts''))\<lparr>wa_retry := Some (w div seconds + 1)\<rparr>" "st' = st"
    using login_when_blocked [OF assms(2-4) Some] assms(1) by simp_all
  from blocked_bucket [OF Some assms(7)] obtain b where
    b: "map_of (ws_failures st) (client_address r) = Some b" "6 \<le> lb_failures b" "lb_start b \<le> wi_now i"
      "wi_now i < lb_start b + login_window" "w = lb_start b + login_window - wi_now i" by blast
  have whole: "w < (w div seconds + 1) * seconds" "(w div seconds + 1 - 1) * seconds \<le> w"
    using pos_mod_bound [of seconds w] pos_mod_sign [of seconds w] mult_div_mod_eq [of seconds w]
    by (simp_all add: seconds_def algebra_simps)
  have later: "wa_status (fst (serve lib sv i' r st)) = 200" if "wi_now i + (w div seconds + 1) * seconds \<le> wi_now i'" for i'
  proof -
    have "lb_start b + login_window \<le> wi_now i'" using that whole(1) b(5) by linarith
    moreover from this have "lb_start b \<le> wi_now i'" using window_facts(1) by linarith
    ultimately show ?thesis using login_when_free(1) [OF assms(2-6)] free_after_window [OF b(1)] by simp
  qed
  have units: "login_window = 900000000000" "seconds = 1000000000" by (simp_all add: login_window_def minutes_def seconds_def)
  show ?thesis
  proof (intro disjI1 conjI exI)
    show "map_of (ws_failures st) (client_address r) = Some b" "6 \<le> lb_failures b" "st' = st" by (fact b a)+
    show "wa_status a = 429" "wa_retry a = Some (w div 1000000000 + 1)" by (simp_all add: a units)
    show "wi_now i < lb_start b + 900000000000" using b(4) by (simp add: units)
    show "lb_start b + 900000000000 < wi_now i + (w div 1000000000 + 1) * 1000000000"
      "wi_now i + (w div 1000000000 + 1 - 1) * 1000000000 \<le> lb_start b + 900000000000"
      using whole b(5) unfolding units by linarith+
    show "\<forall>i'. wi_now i + (w div 1000000000 + 1) * 1000000000 \<le> wi_now i' \<longrightarrow> wa_status (fst (serve lib sv i' r st')) = 200"
      using later unfolding a(2) units by blast
  qed
qed

subsection \<open>Logins at the same time\<close>

text \<open>
  The critical sections of \<open>handleLogin\<close> as separate steps of concurrent requests under one clock that never
  goes back: the check of the limiter, then \<open>Verify\<close> with what follows. The state has, beside that of the
  server, the requests between the two, the clock, and the passwords verified and found wrong, each with its
  client and the time.
\<close>

record login_state =
  ls_server :: web_state
  ls_waiting :: "web_request list"
  ls_clock :: time
  ls_wrong :: "(string \<times> time) list"

inductive login_step :: "web_lib \<Rightarrow> login_state \<Rightarrow> login_state \<Rightarrow> bool" for lib where
  time_passes: "login_step lib s (s\<lparr>ls_clock := now\<rparr>)"
    if "ls_clock s \<le> now"
| check_passes: "login_step lib s (s\<lparr>ls_waiting := r # ls_waiting s\<rparr>)"
    if "same_origin lib r" and "login_blocked (ls_clock s) (client_address r) (ls_server s) = None"
| verify_fails: "login_step lib s
      (s\<lparr>ls_server := record_login_failure (ls_clock s) (client_address r) (ls_server s),
         ls_waiting := remove1 r (ls_waiting s), ls_wrong := (client_address r, ls_clock s) # ls_wrong s\<rparr>)"
    if "r \<in> set (ls_waiting s)" and "rq_login_body r = Some (u, p)"
      and "verify_login lib u p (ws_account (ls_server s)) = Some e"
| verify_succeeds: "login_step lib s
      (s\<lparr>ls_server := snd (issue_session i (clear_login_failures (client_address r) (ls_server s))),
         ls_waiting := remove1 r (ls_waiting s)\<rparr>)"
    if "r \<in> set (ls_waiting s)" and "rq_login_body r = Some (u, p)" and "wi_later i = ls_clock s"
      and "verify_login lib u p (ws_account (ls_server s)) = None"

text \<open>One request alone goes through these sections in \<open>handle_login\<close>.\<close>

lemma handle_login_sections:
  assumes "same_origin lib r" and "rq_login_body r = Some (u, p)"
    and "login_blocked (wi_now i) (client_address r) (ls_server s) = None"
    and "ls_clock s = wi_now i" and "wi_now i \<le> wi_later i"
  shows "\<exists>ws. (login_step lib)\<^sup>*\<^sup>* s (s\<lparr>ls_server := snd (handle_login lib i r (ls_server s)), ls_clock := wi_later i, ls_wrong := ws\<rparr>)
    \<and> ws = (if wa_status (fst (handle_login lib i r (ls_server s))) = 401
            then (client_address r, wi_later i) # ls_wrong s else ls_wrong s)"
proof -
  let ?s1 = "s\<lparr>ls_waiting := r # ls_waiting s\<rparr>"
  let ?s2 = "?s1\<lparr>ls_clock := wi_later i\<rparr>"
  have one: "login_step lib s ?s1" "login_step lib ?s1 ?s2"
    using assms by (auto intro: check_passes time_passes)
  show ?thesis
  proof (cases "verify_login lib u p (ws_account (ls_server s))")
    case None
    have "login_step lib ?s2 (?s2\<lparr>ls_server := snd (issue_session i (clear_login_failures (client_address r) (ls_server ?s2))),
         ls_waiting := remove1 r (ls_waiting ?s2)\<rparr>)"
      using assms None by (intro verify_succeeds) simp_all
    with one have "(login_step lib)\<^sup>*\<^sup>* s (?s2\<lparr>ls_server := snd (issue_session i (clear_login_failures (client_address r) (ls_server ?s2))),
         ls_waiting := remove1 r (ls_waiting ?s2)\<rparr>)" by (meson converse_rtranclp_into_rtranclp rtranclp.rtrancl_refl)
    with assms None show ?thesis by (cases s) (simp add: handle_login_def Let_def split_def)
  next
    case (Some e)
    have "login_step lib ?s2 (?s2\<lparr>ls_server := record_login_failure (ls_clock ?s2) (client_address r) (ls_server ?s2),
         ls_waiting := remove1 r (ls_waiting ?s2), ls_wrong := (client_address r, ls_clock ?s2) # ls_wrong ?s2\<rparr>)"
      using assms Some by (intro verify_fails) simp_all
    with one have "(login_step lib)\<^sup>*\<^sup>* s (?s2\<lparr>ls_server := record_login_failure (ls_clock ?s2) (client_address r) (ls_server ?s2),
         ls_waiting := remove1 r (ls_waiting ?s2), ls_wrong := (client_address r, ls_clock ?s2) # ls_wrong ?s2\<rparr>)"
      by (meson converse_rtranclp_into_rtranclp rtranclp.rtrancl_refl)
    with assms Some show ?thesis by (cases s) (simp add: handle_login_def Let_def)
  qed
qed

lemma checks_pile_up:
  assumes "same_origin lib r" and "login_blocked (ls_clock s) (client_address r) (ls_server s) = None"
  shows "(login_step lib)\<^sup>*\<^sup>* (s\<lparr>ls_waiting := []\<rparr>) (s\<lparr>ls_waiting := replicate k r\<rparr>)"
proof (induction k)
  case (Suc k)
  have "login_step lib (s\<lparr>ls_waiting := replicate k r\<rparr>) (s\<lparr>ls_waiting := replicate (Suc k) r\<rparr>)"
    using check_passes [of lib r "s\<lparr>ls_waiting := replicate k r\<rparr>"] assms by simp
  with Suc show ?case by (rule rtranclp.rtrancl_into_rtrancl)
qed simp

lemma all_are_verified:
  assumes "rq_login_body r = Some (u, p)" and "verify_login lib u p (ws_account (ls_server s)) = Some e"
    and "ls_waiting s = replicate k r"
  shows "\<exists>s'. (login_step lib)\<^sup>*\<^sup>* s s' \<and> ls_waiting s' = [] \<and> ls_clock s' = ls_clock s
    \<and> ls_wrong s' = replicate k (client_address r, ls_clock s) @ ls_wrong s"
  using assms(2,3)
proof (induction k arbitrary: s)
  case (Suc k)
  let ?s = "s\<lparr>ls_server := record_login_failure (ls_clock s) (client_address r) (ls_server s),
    ls_waiting := remove1 r (ls_waiting s), ls_wrong := (client_address r, ls_clock s) # ls_wrong s\<rparr>"
  have step: "login_step lib s ?s" using Suc.prems assms(1) by (intro verify_fails) simp_all
  from Suc.IH [of ?s] Suc.prems obtain s' where "(login_step lib)\<^sup>*\<^sup>* ?s s'" "ls_waiting s' = []" "ls_clock s' = ls_clock s"
    "ls_wrong s' = replicate k (client_address r, ls_clock s) @ (client_address r, ls_clock s) # ls_wrong s" by auto
  with step show ?case
    by (intro exI [of _ s']) (auto simp: replicate_app_Cons_same intro: converse_rtranclp_into_rtranclp)
qed auto

text \<open>C37: the limit does not hold for simultaneous requests. From any state in which an address may try once, any
  number \<open>n\<close> of its logins with wrong passwords can pass the check of the limiter before the first failure is
  recorded, and then every one has its password verified: \<open>n\<close> guesses of one client at one reading of the clock,
  against the six of the limiter's window (and the at most twelve in fifteen minutes when requests are served one
  after the other). The clock of the steps never goes back, so that none of this is waiting for a new window.\<close>

theorem simultaneous_logins_escape_limit:
  assumes "same_origin lib r" and "login_blocked now (client_address r) st = None"
    and "rq_login_body r = Some (u, p)" and "verify_login lib u p (ws_account st) = Some e"
  shows "\<exists>s'. (login_step lib)\<^sup>*\<^sup>* \<lparr>ls_server = st, ls_waiting = [], ls_clock = now, ls_wrong = []\<rparr> s'
    \<and> ls_waiting s' = [] \<and> ls_clock s' = now \<and> ls_wrong s' = replicate n (client_address r, now)"
proof -
  let ?s = "\<lparr>ls_server = st, ls_waiting = [], ls_clock = now, ls_wrong = []\<rparr>"
  have "(login_step lib)\<^sup>*\<^sup>* ?s (?s\<lparr>ls_waiting := replicate n r\<rparr>)"
    using checks_pile_up [of lib r ?s n] assms(1,2) by simp
  with all_are_verified [of r u p lib "?s\<lparr>ls_waiting := replicate n r\<rparr>" e n] assms(3,4)
  show ?thesis by (auto dest: rtranclp_trans)
qed

subsection \<open>The properties on the sample run\<close>

lemma day_login_route: "route_of day_server ''POST'' [''api'', ''auth'', ''login''] = ToLogin"
  by (simp add: route_of_def day_server_def)

lemma day_no_login: "\<forall>x \<in> set day_history. \<not> good_login day_server c x"
  by (simp add: good_login_def route_to_def route_of_def day_server_def day_history_def day_request_def)

definition day_login :: "string \<Rightarrow> web_request" where
  "day_login p = (day_request ''POST'' [''api'', ''auth'', ''login''])\<lparr>rq_login_body := Some (''admin'', p)\<rparr>"

lemma day_login_fields:
  "rq_host (day_login p) = ''localhost''" "rq_method (day_login p) = ''POST''"
  "rq_segments (day_login p) = [''api'', ''auth'', ''login'']" "rq_login_body (day_login p) = Some (''admin'', p)"
  "same_origin day_lib (day_login p)"
proof -
  have t: "trim_space ''http://localhost'' = ''http://localhost''" by code_simp
  show "rq_host (day_login p) = ''localhost''" "rq_method (day_login p) = ''POST''"
    "rq_segments (day_login p) = [''api'', ''auth'', ''login'']" "rq_login_body (day_login p) = Some (''admin'', p)"
    by (simp_all add: day_login_def day_request_def)
  show "same_origin day_lib (day_login p)"
    by (simp add: same_origin_def day_login_def day_request_def day_lib_def t Let_def)
qed

lemma verify_new_credential:
  assumes "trim_space u = u" and "u \<noteq> []" and "s \<noteq> []"
  shows "verify_login day_lib u p (Stored (new_credential day_lib u w s now)) = (if p = w then None else Some InvalidLogin)"
proof -
  let ?c = "new_credential day_lib u w s now"
  have "load_credential (Stored ?c) = Inr ?c"
    using assms by (simp add: load_credential_def new_credential_def auth_schema_version_def argon_time_def
        argon_memory_def argon_threads_def argon_key_len_def day_lib_def)
  then show ?thesis
    using assms by (simp add: verify_login_def) (simp add: new_credential_def b64_decode_encode day_lib_def)
qed

lemma day_verifies:
  "verify_login day_lib ''admin'' p (ws_account (snd day_setup)) = (if p = ''correct horse'' then None else Some InvalidLogin)"
proof -
  have "trim_space ''admin'' = ''admin''" by code_simp
  from verify_new_credential [OF this, of "''salt''"] show ?thesis by (simp add: day_setup_done)
qed

text \<open>The day goes on with two wrong guesses.\<close>

lemma day_client: "client_address (day_login p) = ''10.0.0.7''"
proof -
  have "split_host_port ''10.0.0.7:51000'' = Some (''10.0.0.7'', ''51000'')" by code_simp
  then show ?thesis by (simp add: client_address_def day_login_def day_request_def)
qed

lemma day_wrong_login:
  assumes "p \<noteq> ''correct horse''" and "ws_account st = ws_account (snd day_setup)"
    and "login_blocked now ''10.0.0.7'' st = None"
  shows "serve day_lib day_server (day_input now) (day_login p) st
    = (answer 401 (Failed ''invalid_credentials''), record_login_failure (now + 1) ''10.0.0.7'' st)"
proof -
  have "wi_now (day_input now) = now" "wi_later (day_input now) = now + 1" by (simp_all add: day_input_def)
  with assms show ?thesis
    by (simp add: serve_def dispatch_def handle_login_def day_login_fields day_login_route day_host day_verifies day_client Let_def)
qed

definition first_guess :: "web_answer \<times> web_state" where
  "first_guess = serve day_lib day_server (day_input 5) (day_login ''guess'') (snd day_rotate)"

definition second_guess :: "web_answer \<times> web_state" where
  "second_guess = serve day_lib day_server (day_input 7) (day_login ''a guess'') (snd first_guess)"

definition guess_history :: "exchange list" where
  "guess_history =
     [\<lparr>ex_input = day_input 7, ex_request = day_login ''a guess'', ex_before = snd first_guess, ex_answer = fst second_guess\<rparr>,
      \<lparr>ex_input = day_input 5, ex_request = day_login ''guess'', ex_before = snd day_rotate, ex_answer = fst first_guess\<rparr>]
     @ day_history"

lemma guess_run: "web_run day_lib day_server day_state guess_history (snd second_guess)"
  unfolding guess_history_def append_Cons append_Nil
  by (intro web_step day_run)
    (simp_all add: timely_def day_input_def day_history_def first_guess_def second_guess_def prod.expand)

lemma guess_answers: "fst first_guess = answer 401 (Failed ''invalid_credentials'')"
  "fst second_guess = answer 401 (Failed ''invalid_credentials'')"
proof -
  have before: "ws_account (snd day_rotate) = ws_account (snd day_setup)" "ws_failures (snd day_rotate) = []"
    by (simp_all add: day_rotate_done day_setup_done)
  have one: "first_guess = (answer 401 (Failed ''invalid_credentials''), record_login_failure 6 ''10.0.0.7'' (snd day_rotate))"
    unfolding first_guess_def by (subst day_wrong_login) (simp_all add: before login_blocked_def)
  show "fst first_guess = answer 401 (Failed ''invalid_credentials'')" by (simp only: one fst_conv)
  have two: "ws_account (snd first_guess) = ws_account (snd day_setup)" "login_blocked 7 ''10.0.0.7'' (snd first_guess) = None"
    using before by (simp_all add: one record_login_failure_def login_blocked_def max_login_failures_def Let_def)
  show "fst second_guess = answer 401 (Failed ''invalid_credentials'')"
    unfolding second_guess_def by (subst day_wrong_login) (simp_all add: two)
qed

lemma no_guess_before: "guesses day_server ''10.0.0.7'' P day_history = 0"
  by (rule guesses_none) (simp add: wrong_login_def route_to_def route_of_def day_server_def day_history_def day_request_def)

lemma two_guesses: "guesses day_server ''10.0.0.7'' (in_window 6) guess_history = 2"
proof -
  have "in_window 6 6" "in_window 6 8" by (simp_all add: in_window_def login_window_def minutes_def seconds_def)
  moreover have "wi_later (day_input n) = n + 1" for n by (simp add: day_input_def)
  ultimately show ?thesis
    unfolding guess_history_def append_Cons append_Nil guesses_Cons
    by (simp add: no_guess_before wrong_login_def route_to_def guess_answers day_client day_login_fields day_login_route)
qed

lemma guess_no_login: "\<forall>x \<in> set guess_history. \<not> good_login day_server c x"
  using day_no_login by (auto simp: guess_history_def good_login_def guess_answers)

lemma guesses_are_limited_witness:
  "guesses day_server ''10.0.0.7'' (in_window 6) guess_history = 2
   \<and> (\<forall>t. guesses day_server ''10.0.0.7'' (in_window t) guess_history \<le> 12)"
  using guesses_are_limited [OF guess_run day_start(2) guess_no_login, of "''10.0.0.7''"] two_guesses by simp

lemma right_password_gets_in_witness:
  "wa_status (fst (serve day_lib day_server (day_input 5) (day_login ''correct horse'') (snd day_setup))) = 200"
proof -
  let ?r = "day_login ''correct horse''"
  have v: "verify_login day_lib ''admin'' ''correct horse'' (ws_account (snd day_setup)) = None"
    by (simp add: day_verifies)
  have f: "ws_failures (snd day_setup) = []" by (simp add: day_setup_done)
  obtain a st' where s: "serve day_lib day_server (day_input 5) ?r (snd day_setup) = (a, st')"
    by (cases "serve day_lib day_server (day_input 5) ?r (snd day_setup)")
  from right_password_gets_in [OF s _ _ _ _ v]
  show ?thesis by (auto simp: s f day_login_fields day_login_route day_host)
qed

lemma simultaneous_logins_escape_limit_witness:
  "\<exists>s'. (login_step day_lib)\<^sup>*\<^sup>* \<lparr>ls_server = snd day_setup, ls_waiting = [], ls_clock = 5, ls_wrong = []\<rparr> s'
    \<and> ls_waiting s' = [] \<and> ls_clock s' = 5 \<and> ls_wrong s' = replicate 100 (client_address (day_login ''guess''), 5)"
  by (rule simultaneous_logins_escape_limit [of day_lib "day_login ''guess''" 5 _ "''admin''" "''guess''" InvalidLogin])
     (simp_all add: day_login_fields day_verifies, simp add: login_blocked_def day_setup_done)

end
