(* ===== verification/WatchModel.thy ===== *)
theory WatchModel
  imports GatewayStatus WebStores
begin

text \<open>
  The watchdogs of the control API: \<open>internal/controlapi/mihomo_recovery.go\<close>, \<open>dnsmasq_recovery.go\<close> and
  \<open>dns_probe.go\<close>. Every method of a controller is one critical section of its mutex. An error is what the
  code asks about it; the clock is an argument.
\<close>

subsection \<open>Errors of an operation\<close>

record op_error =
  oe_text :: string
  oe_deadline :: bool
  oe_net_timeout :: bool
  oe_busy :: bool
  oe_unhealthy :: bool

definition confirmed_unhealthy :: op_error where
  "confirmed_unhealthy =
     \<lparr>oe_text = ''confirmed gateway failure after recovery'', oe_deadline = False, oe_net_timeout = False,
      oe_busy = False, oe_unhealthy = True\<rparr>"

definition recovery_permanent_failure :: "op_error option \<Rightarrow> bool" where
  "recovery_permanent_failure e =
     (case e of
        None \<Rightarrow> False
      | Some x \<Rightarrow>
          list_ex (contains_sub (to_lower (oe_text x)))
            [''identity changed'', ''refusing to'', ''permission denied'', ''operation not permitted'',
             ''config revision conflict'', ''invalid config''])"

definition recovery_timeout :: "op_error option \<Rightarrow> bool" where
  "recovery_timeout e =
     (case e of
        None \<Rightarrow> False
      | Some x \<Rightarrow>
          if recovery_permanent_failure e then False
          else if oe_deadline x then True
          else if oe_net_timeout x then True
          else contains_sub (to_lower (oe_text x)) ''context deadline exceeded''
            \<or> contains_sub (to_lower (oe_text x)) '' timed out after '')"

subsection \<open>The controller of the gateway's recovery\<close>

datatype watch_phase = WatchIdle | WatchObserving | WatchRecovering | WatchFailed

datatype failure_reason =
    NoReason
  | ProcessMissing
  | ControllerRefused
  | DNSMissing
  | GatewayIncomplete
  | DataPlaneMissing
  | DNSUnresponsive
  | NASControllerRefused

datatype watch_error = NoWatchError | OperationError op_error | EngineUnhealthy | GatewayUnhealthy | HealthUnconfirmed

definition auto_mihomo_recovery_interval :: int where "auto_mihomo_recovery_interval = 5 * seconds"
definition healthy_confirmations :: int where "healthy_confirmations = 2"
definition unknown_limit :: int where "unknown_limit = 6"

definition nas_recovery_reason :: "failure_reason \<Rightarrow> bool" where
  "nas_recovery_reason r \<longleftrightarrow>
     r = GatewayIncomplete \<or> r = DNSMissing \<or> r = DataPlaneMissing \<or> r = DNSUnresponsive \<or> r = NASControllerRefused"

record recovery_ctl =
  mc_phase :: watch_phase
  mc_reason :: failure_reason
  mc_error :: watch_error
  mc_refused :: int
  mc_healthy :: int
  mc_unknown :: int
  mc_attempted :: bool
  mc_active :: bool
  mc_awaiting :: bool
  mc_retry_at :: time
  mc_retries :: int

definition new_recovery_ctl :: recovery_ctl where
  "new_recovery_ctl =
     \<lparr>mc_phase = WatchIdle, mc_reason = NoReason, mc_error = NoWatchError, mc_refused = 0, mc_healthy = 0,
      mc_unknown = 0, mc_attempted = False, mc_active = False, mc_awaiting = False, mc_retry_at = 0, mc_retries = 0\<rparr>"

record recovery_report =
  rr_phase :: watch_phase
  rr_reason :: failure_reason
  rr_error :: watch_error
  rr_retries :: int
  rr_next :: "time option"

definition recovery_snapshot :: "recovery_ctl \<Rightarrow> recovery_report" where
  "recovery_snapshot c =
     \<lparr>rr_phase = mc_phase c,
      rr_reason = (if mc_reason c = NASControllerRefused then GatewayIncomplete else mc_reason c),
      rr_error = mc_error c, rr_retries = mc_retries c,
      rr_next = (if mc_retry_at c = 0 then None else Some (mc_retry_at c))\<rparr>"

definition observe_healthy :: "recovery_ctl \<Rightarrow> recovery_ctl" where
  "observe_healthy c =
     (if mc_active c then c
      else
        let c1 = c\<lparr>mc_unknown := 0\<rparr>;
            c2 = (if mc_attempted c1
                  then c1\<lparr>mc_healthy := mc_healthy c1 + 1, mc_phase := WatchRecovering, mc_error := NoWatchError\<rparr>
                  else c1) in
        if mc_attempted c2 \<and> mc_healthy c2 < healthy_confirmations then c2
        else c2\<lparr>mc_phase := WatchIdle, mc_reason := NoReason, mc_error := NoWatchError, mc_refused := 0,
               mc_healthy := 0, mc_attempted := False, mc_awaiting := False, mc_retry_at := 0, mc_retries := 0\<rparr>)"

definition observe_unknown :: "recovery_ctl \<Rightarrow> recovery_ctl" where
  "observe_unknown c =
     (if mc_active c then c
      else
        let c1 = c\<lparr>mc_healthy := 0, mc_refused := 0\<rparr> in
        if mc_attempted c1 \<and> mc_phase c1 = WatchRecovering then
          let c2 = c1\<lparr>mc_unknown := mc_unknown c1 + 1\<rparr> in
          if mc_unknown c2 \<ge> unknown_limit then c2\<lparr>mc_phase := WatchFailed, mc_error := HealthUnconfirmed\<rparr> else c2
        else c1)"

definition observe_pending :: "recovery_ctl \<Rightarrow> recovery_ctl" where
  "observe_pending c = (if mc_active c then c else c\<lparr>mc_healthy := 0, mc_refused := 0\<rparr>)"

definition observe_stopped :: "recovery_ctl \<Rightarrow> recovery_ctl" where
  "observe_stopped c =
     (if mc_active c then c
      else c\<lparr>mc_phase := WatchIdle, mc_reason := NoReason, mc_error := NoWatchError, mc_attempted := False,
             mc_awaiting := False, mc_retry_at := 0, mc_retries := 0, mc_healthy := 0, mc_unknown := 0, mc_refused := 0\<rparr>)"

text \<open>The loop of \<open>scheduleTimeoutRetry\<close>, from the second attempt on.\<close>

function retry_backoff :: "int \<Rightarrow> int \<Rightarrow> int \<Rightarrow> int" where
  "retry_backoff n i d = (if i < n \<and> d < 15 * minutes then retry_backoff n (i + 1) (d * 2) else d)"
  by pat_completeness auto
termination by (relation "measure (\<lambda>(n, i, d). nat (n - i))") auto

declare retry_backoff.simps [simp del]

definition retry_delay :: "int \<Rightarrow> int" where
  "retry_delay n =
     (let d = retry_backoff n 1 (30 * seconds) in if d > 15 * minutes then 15 * minutes else d)"

definition schedule_retry :: "time \<Rightarrow> op_error \<Rightarrow> recovery_ctl \<Rightarrow> recovery_ctl" where
  "schedule_retry now e c =
     (if \<not> nas_recovery_reason (mc_reason c) then c
      else if \<not> recovery_timeout (Some e) \<and> \<not> oe_unhealthy e then c
      else
        let c1 = c\<lparr>mc_retries := mc_retries c + 1\<rparr> in
        c1\<lparr>mc_retry_at := now + retry_delay (mc_retries c1)\<rparr>)"

text \<open>\<open>observeFailure\<close>: whether the caller may begin a recovery.\<close>

definition observe_failure :: "time \<Rightarrow> failure_reason \<Rightarrow> recovery_ctl \<Rightarrow> bool \<times> recovery_ctl" where
  "observe_failure now reason c =
     (if mc_active c then (False, c)
      else
        let c1 = c\<lparr>mc_healthy := 0, mc_unknown := 0\<rparr> in
        if mc_phase c1 = WatchFailed \<and> mc_awaiting c1 \<and> mc_retry_at c1 = 0 \<and> nas_recovery_reason (mc_reason c1)
            \<and> nas_recovery_reason reason
        then (False, schedule_retry now confirmed_unhealthy (c1\<lparr>mc_reason := reason, mc_error := GatewayUnhealthy\<rparr>))
        else
          let c2 = (if mc_phase c1 = WatchFailed \<and> mc_retry_at c1 \<noteq> 0 \<and> \<not> now < mc_retry_at c1
                    then c1\<lparr>mc_attempted := False, mc_phase := WatchObserving\<rparr> else c1) in
          if mc_attempted c2 \<and> mc_phase c2 = WatchRecovering then
            let c3 = c2\<lparr>mc_phase := WatchFailed, mc_reason := reason, mc_error := EngineUnhealthy\<rparr> in
            (False, if nas_recovery_reason reason
                    then schedule_retry now confirmed_unhealthy (c3\<lparr>mc_error := GatewayUnhealthy\<rparr>) else c3)
          else if mc_attempted c2 \<or> mc_phase c2 = WatchFailed then (False, c2)
          else
            let c3 = (if mc_reason c2 \<noteq> reason then c2\<lparr>mc_reason := reason, mc_refused := 0\<rparr> else c2);
                c4 = c3\<lparr>mc_phase := WatchObserving, mc_error := NoWatchError\<rparr> in
            if reason = ProcessMissing \<or> reason = DNSMissing \<or> reason = GatewayIncomplete \<or> reason = DataPlaneMissing
                \<or> reason = DNSUnresponsive
            then (True, c4)
            else if reason = ControllerRefused \<or> reason = NASControllerRefused then
              let c5 = c4\<lparr>mc_refused := mc_refused c4 + 1\<rparr> in (mc_refused c5 \<ge> 2, c5)
            else (False, c4))"

definition begin_recovery :: "failure_reason \<Rightarrow> recovery_ctl \<Rightarrow> bool \<times> recovery_ctl" where
  "begin_recovery reason c =
     (if mc_attempted c \<or> mc_phase c = WatchRecovering \<or> mc_phase c = WatchFailed then (False, c)
      else (True, c\<lparr>mc_phase := WatchRecovering, mc_reason := reason, mc_error := NoWatchError, mc_attempted := True,
             mc_healthy := 0, mc_unknown := 0, mc_active := True, mc_awaiting := False, mc_retry_at := 0\<rparr>))"

definition begin_manual :: "failure_reason option \<Rightarrow> recovery_ctl \<Rightarrow> recovery_ctl" where
  "begin_manual reason c =
     (let c1 = c\<lparr>mc_phase := WatchRecovering, mc_error := NoWatchError, mc_attempted := True, mc_healthy := 0,
                mc_unknown := 0, mc_active := True, mc_awaiting := False, mc_retry_at := 0, mc_retries := 0\<rparr> in
      case reason of None \<Rightarrow> c1 | Some r \<Rightarrow> c1\<lparr>mc_reason := r\<rparr>)"

definition defer_contention :: "op_error option \<Rightarrow> recovery_ctl \<Rightarrow> bool \<times> recovery_ctl" where
  "defer_contention e c =
     (if \<not> nas_recovery_reason (mc_reason c) \<or> \<not> (case e of None \<Rightarrow> False | Some x \<Rightarrow> oe_busy x) \<or> recovery_permanent_failure e
      then (False, c)
      else (True, c\<lparr>mc_phase := WatchObserving, mc_error := NoWatchError, mc_attempted := False, mc_refused := 0,
             mc_healthy := 0, mc_unknown := 0, mc_retry_at := 0\<rparr>))"

text \<open>What both finishing methods do after the error of the operation is known.\<close>

definition conclude :: "time \<Rightarrow> op_error option \<Rightarrow> recovery_ctl \<Rightarrow> recovery_ctl" where
  "conclude now e c =
     (case defer_contention e c of
        (True, c1) \<Rightarrow> c1
      | (False, _) \<Rightarrow>
          (case e of
             Some x \<Rightarrow> schedule_retry now x (c\<lparr>mc_phase := WatchFailed, mc_error := OperationError x\<rparr>)
           | None \<Rightarrow> c\<lparr>mc_phase := WatchRecovering, mc_error := NoWatchError\<rparr>))"

definition finish_automatic :: "time \<Rightarrow> op_error option \<Rightarrow> recovery_ctl \<Rightarrow> recovery_ctl" where
  "finish_automatic now e c = conclude now e (c\<lparr>mc_active := False, mc_awaiting := (e = None)\<rparr>)"

definition finish_manual :: "time \<Rightarrow> op_error option \<Rightarrow> recovery_ctl \<Rightarrow> recovery_ctl" where
  "finish_manual now e c =
     conclude now e (c\<lparr>mc_active := False, mc_awaiting := (e = None), mc_attempted := True, mc_refused := 0\<rparr>)"

end
