(* ===== verification/WatchEvaluate.thy ===== *)
theory WatchEvaluate
  imports WatchModel
begin

text \<open>
  The rest of the watchdogs of the control API: dnsmasq's controller (\<open>dnsmasq_recovery.go\<close>), the DNS probe
  (\<open>dns_probe.go\<close>), what a status of the gateway says about its health, and one round of each watchdog up to
  the point where it takes the lifecycle lock (\<open>mihomo_recovery.go\<close>).
\<close>

subsection \<open>The controller of dnsmasq's recovery\<close>

record dnsmasq_ctl =
  dc_phase :: watch_phase
  dc_error :: "op_error option"
  dc_unhealthy :: bool
  dc_healthy :: int
  dc_attempted :: bool
  dc_active :: bool

text \<open>\<open>dc_unhealthy\<close>: the error says that dnsmasq stayed unhealthy; \<open>dc_error\<close>: it is the operation's.\<close>

definition new_dnsmasq_ctl :: dnsmasq_ctl where
  "new_dnsmasq_ctl =
     \<lparr>dc_phase = WatchIdle, dc_error = None, dc_unhealthy = False, dc_healthy = 0, dc_attempted = False, dc_active = False\<rparr>"

definition dnsmasq_healthy :: "dnsmasq_ctl \<Rightarrow> dnsmasq_ctl" where
  "dnsmasq_healthy c =
     (if dc_active c then c
      else
        let c1 = (if dc_attempted c
                  then c\<lparr>dc_healthy := dc_healthy c + 1, dc_phase := WatchRecovering, dc_error := None, dc_unhealthy := False\<rparr>
                  else c) in
        if dc_attempted c1 \<and> dc_healthy c1 < healthy_confirmations then c1
        else c1\<lparr>dc_phase := WatchIdle, dc_error := None, dc_unhealthy := False, dc_healthy := 0, dc_attempted := False\<rparr>)"

definition dnsmasq_unknown :: "dnsmasq_ctl \<Rightarrow> dnsmasq_ctl" where
  "dnsmasq_unknown c = (if dc_active c then c else c\<lparr>dc_healthy := 0\<rparr>)"

definition dnsmasq_missing :: "dnsmasq_ctl \<Rightarrow> bool \<times> dnsmasq_ctl" where
  "dnsmasq_missing c =
     (if dc_active c then (False, c)
      else
        let c1 = c\<lparr>dc_healthy := 0\<rparr> in
        if dc_attempted c1 \<and> dc_phase c1 = WatchRecovering
        then (False, c1\<lparr>dc_phase := WatchFailed, dc_error := None, dc_unhealthy := True\<rparr>)
        else if dc_attempted c1 \<or> dc_phase c1 = WatchFailed then (False, c1)
        else (True, c1\<lparr>dc_phase := WatchObserving, dc_error := None, dc_unhealthy := False\<rparr>))"

definition dnsmasq_begin :: "dnsmasq_ctl \<Rightarrow> bool \<times> dnsmasq_ctl" where
  "dnsmasq_begin c =
     (if dc_attempted c \<or> dc_phase c = WatchRecovering \<or> dc_phase c = WatchFailed then (False, c)
      else (True, c\<lparr>dc_phase := WatchRecovering, dc_error := None, dc_unhealthy := False, dc_attempted := True,
             dc_healthy := 0, dc_active := True\<rparr>))"

definition dnsmasq_finish :: "op_error option \<Rightarrow> dnsmasq_ctl \<Rightarrow> dnsmasq_ctl" where
  "dnsmasq_finish e c =
     (case e of
        Some x \<Rightarrow> c\<lparr>dc_active := False, dc_phase := WatchFailed, dc_error := Some x, dc_unhealthy := False\<rparr>
      | None \<Rightarrow> c\<lparr>dc_active := False, dc_phase := WatchRecovering, dc_error := None, dc_unhealthy := False\<rparr>)"

subsection \<open>The DNS probe\<close>

datatype probe_result = ProbeHealthy | ProbeUnknown | ProbeUnavailable

definition dns_probe_interval :: int where "dns_probe_interval = 30 * seconds"
definition dns_probe_failures_required :: int where "dns_probe_failures_required = 2"

record dns_probe =
  dp_next :: time
  dp_in_flight :: bool
  dp_failures :: int
  dp_result :: probe_result

definition new_dns_probe :: dns_probe where
  "new_dns_probe = \<lparr>dp_next = 0, dp_in_flight = False, dp_failures = 0, dp_result = ProbeUnknown\<rparr>"

definition probe_reset :: "dns_probe \<Rightarrow> dns_probe" where
  "probe_reset p = p\<lparr>dp_failures := 0, dp_next := 0, dp_result := ProbeUnknown\<rparr>"

text \<open>\<open>sample\<close> before the check (\<open>Inl\<close>: answered without one) and after it\<close>

definition probe_start :: "time \<Rightarrow> time \<Rightarrow> dns_probe \<Rightarrow> probe_result + dns_probe" where
  "probe_start now later p =
     (if dp_in_flight p then Inl ProbeUnknown
      else if now < dp_next p then Inl (dp_result p)
      else Inr (p\<lparr>dp_in_flight := True, dp_next := later + dns_probe_interval\<rparr>))"

definition probe_finish :: "probe_result \<Rightarrow> dns_probe \<Rightarrow> dns_probe" where
  "probe_finish r p =
     (let p1 = p\<lparr>dp_in_flight := False\<rparr> in
      case r of
        ProbeHealthy \<Rightarrow> p1\<lparr>dp_failures := 0, dp_result := ProbeHealthy\<rparr>
      | ProbeUnavailable \<Rightarrow>
          let p2 = p1\<lparr>dp_failures := dp_failures p1 + 1\<rparr> in
          if dp_failures p2 \<ge> dns_probe_failures_required then p2\<lparr>dp_result := ProbeUnavailable\<rparr>
          else p2\<lparr>dp_result := ProbeUnknown\<rparr>
      | ProbeUnknown \<Rightarrow> p1\<lparr>dp_failures := 0, dp_result := ProbeUnknown\<rparr>)"

definition probe_sample :: "time \<Rightarrow> time \<Rightarrow> probe_result \<Rightarrow> dns_probe \<Rightarrow> probe_result \<times> dns_probe" where
  "probe_sample now later r p =
     (case probe_start now later p of
        Inl x \<Rightarrow> (x, p)
      | Inr p1 \<Rightarrow> (dp_result (probe_finish r p1), probe_finish r p1))"

text \<open>
  \<open>checkDNSDependencies\<close>: \<open>query network target name\<close> is the response code of a DNS query, \<open>None\<close> when there
  was no valid reply; \<open>name_ok\<close> is \<open>dnsmessage.NewName\<close>.
\<close>

datatype rcode = RCodeServerFailure | RCodeRefused | RCodeOther

fun query_all :: "(string \<Rightarrow> string \<Rightarrow> rcode option) \<Rightarrow> probe_result \<Rightarrow> (string \<times> string) list \<Rightarrow> probe_result" where
  "query_all query acc [] = acc"
| "query_all query acc ((target, network) # rest) =
     (case query network target of
        None \<Rightarrow> ProbeUnavailable
      | Some rc \<Rightarrow>
          query_all query (if rc = RCodeServerFailure \<or> rc = RCodeRefused then ProbeUnknown else acc) rest)"

definition check_dns_dependencies ::
  "(string \<Rightarrow> bool) \<Rightarrow> (string \<Rightarrow> string \<Rightarrow> string \<Rightarrow> rcode option) \<Rightarrow> string \<Rightarrow> string \<Rightarrow> int \<Rightarrow> string \<Rightarrow> bool \<Rightarrow> probe_result" where
  "check_dns_dependencies name_ok query dns_listen lan_ip port dhcp_domain should_run =
     (let lan = (if trim_space dns_listen = [] then trim_space lan_ip else trim_space dns_listen) in
      if parse_ip lan = [] \<or> port \<le> 0 \<or> port > 65535 then ProbeUnknown
      else
        let domain = trim_set (trim_space dhcp_domain) ''.'';
            name = (if domain \<noteq> [] then ''opensurge-health-check.'' @ domain @ ''.'' else ''example.com.'') in
        if \<not> name_ok name then ProbeUnknown
        else
          let host = (if CHR '':'' \<in> set lan then ''['' @ lan @ '']'' else lan);
              targets = (host @ '':'' @ itoa (nat port)) # (if should_run then [''127.0.0.1:5353''] else []) in
          query_all (\<lambda>network target. query network target name) ProbeHealthy
            (concat (map (\<lambda>t. [(t, ''udp''), (t, ''tcp'')]) targets)))"

subsection \<open>What a status says\<close>

text \<open>\<open>text_of\<close> is the text of an error in a status.\<close>

definition connection_refused :: "(gerr \<Rightarrow> string) \<Rightarrow> gerr option \<Rightarrow> bool" where
  "connection_refused text_of e \<longleftrightarrow>
     contains_sub (to_lower (case e of None \<Rightarrow> [] | Some x \<Rightarrow> text_of x)) ''connection refused''"

definition mihomo_failure_reason :: "(gerr \<Rightarrow> string) \<Rightarrow> gateway_status \<Rightarrow> failure_reason" where
  "mihomo_failure_reason text_of gs =
     (if \<not> has_prefix (gs_mihomo gs) ''running'' then ProcessMissing
      else if connection_refused text_of (gs_mihomo_error gs) \<or> connection_refused text_of (gs_tun_error gs)
      then ControllerRefused
      else NoReason)"

definition automatic_recovery_action ::
  "(gerr \<Rightarrow> string) \<Rightarrow> bool \<Rightarrow> gateway_status \<Rightarrow> string \<times> failure_reason" where
  "automatic_recovery_action text_of container gs =
     (if \<not> container then (''restart-mihomo'', mihomo_failure_reason text_of gs)
      else if \<not> gs_desired_running gs then ([], NoReason)
      else if gs_runtime_state gs \<in> {''none'', ''incomplete'', ''interrupted''} then (''recover-gateway'', GatewayIncomplete)
      else if gs_runtime_state gs \<noteq> ''active'' then ([], NoReason)
      else if gs_dns gs = ''stopped'' \<or> gs_local_dns gs = ''stopped'' \<or> gs_dhcp gs = ''stopped''
      then (''recover-gateway'', DNSMissing)
      else if gs_routing gs = ''missing'' \<or> gs_tun gs = ''failed'' \<or> gs_nftables gs = ''missing''
        \<or> gs_forwarding gs = ''disabled''
      then (''recover-gateway'', DataPlaneMissing)
      else if gs_dns gs \<noteq> ''running'' \<and> gs_dns gs \<noteq> ''legacy-dnsmasq'' then ([], NoReason)
      else if mihomo_failure_reason text_of gs = NoReason \<and> gs_gateway gs \<noteq> ''running'' then ([], NoReason)
      else
        (case mihomo_failure_reason text_of gs of
           ProcessMissing \<Rightarrow> (''recover-gateway'', GatewayIncomplete)
         | ControllerRefused \<Rightarrow> (''recover-gateway'', NASControllerRefused)
         | r \<Rightarrow> (''restart-mihomo'', r)))"

subsection \<open>One round of each watchdog\<close>

datatype recovery_stage =
    StNone
  | StIdle
  | StPrepared
  | StMacStatic
  | StRouterDHCPDisabled
  | StGatewayActive
  | StClientValidated
  | StValidationSkipped
  | StGatewayStopped
  | StRouterDHCPRestored
  | StComplete
  | StCompleteStatic

definition recovery_stage_allowed :: "string \<Rightarrow> recovery_stage \<Rightarrow> bool" where
  "recovery_stage_allowed topology stage \<longleftrightarrow>
     topology \<noteq> same_wifi_mode \<or> stage = StGatewayActive \<or> stage = StClientValidated \<or> stage = StValidationSkipped"

text \<open>
  What the outside answers in one round, \<open>None\<close> being an error: the gateway mode of the configuration, whether
  a lifecycle operation is in progress (asked twice), the status, the DNS check, the stage on file.
\<close>

record round_input =
  ri_now :: time
  ri_later :: time
  ri_mode :: "string option"
  ri_busy :: "bool option"
  ri_status :: "gateway_status option"
  ri_check :: probe_result
  ri_still_busy :: "bool option"
  ri_stage :: "recovery_stage option"

text \<open>
  Every path of a round ends in one observation of the controller: what a round saw, then the observation.
  \<open>dnsHealth\<close> is never nil.
\<close>

datatype sample = SawHealthy | SawUnknown | SawPending | SawStopped | SawFailure string failure_reason

definition mihomo_round :: "(gerr \<Rightarrow> string) \<Rightarrow> bool \<Rightarrow> round_input \<Rightarrow> dns_probe \<Rightarrow> sample \<times> dns_probe" where
  "mihomo_round text_of container i p =
     (case ri_mode i of None \<Rightarrow> (SawUnknown, p) | Some topology \<Rightarrow>
      if ri_busy i \<noteq> Some False then (SawUnknown, p)
      else
        (case ri_status i of None \<Rightarrow> (SawUnknown, p) | Some gs \<Rightarrow>
         if \<not> container \<and> gs_runtime_state gs \<noteq> ''active'' then (SawUnknown, p)
         else if container \<and> \<not> gs_desired_running gs then (SawStopped, p)
         else
           let (action0, reason0) = automatic_recovery_action text_of container gs;
               probing = container \<and> action0 = ''restart-mihomo'' \<and> reason0 = NoReason
                 \<and> gs_runtime_state gs = ''active'' \<and> gs_gateway gs = ''running'' \<and> gs_dns gs = ''running''
                 \<and> (gs_local_dns gs = ''running'' \<or> gs_local_dns gs = ''disabled'');
               (sampled, p1) = (if probing then probe_sample (ri_now i) (ri_later i) (ri_check i) p else (ProbeHealthy, p)) in
           if probing \<and> sampled = ProbeUnknown then (SawPending, p1)
           else
             let (action, reason) = (if probing \<and> sampled = ProbeUnavailable then (''recover-gateway'', DNSUnresponsive)
                                     else (action0, reason0)) in
             if action = [] then (SawUnknown, p1)
             else if reason = NoReason then (SawHealthy, p1)
             else if ri_still_busy i \<noteq> Some False then (SawUnknown, p1)
             else
               (case ri_stage i of
                  None \<Rightarrow> (SawUnknown, p1)
                | Some stage \<Rightarrow>
                    if \<not> recovery_stage_allowed topology stage then (SawUnknown, p1)
                    else (SawFailure action reason, p1))))"

definition observe :: "time \<Rightarrow> sample \<Rightarrow> recovery_ctl \<Rightarrow> (string \<times> failure_reason) option \<times> recovery_ctl" where
  "observe now s c =
     (case s of
        SawHealthy \<Rightarrow> (None, observe_healthy c)
      | SawUnknown \<Rightarrow> (None, observe_unknown c)
      | SawPending \<Rightarrow> (None, observe_pending c)
      | SawStopped \<Rightarrow> (None, observe_stopped c)
      | SawFailure a r \<Rightarrow>
          (case observe_failure now r c of (b, c') \<Rightarrow> (if b then Some (a, r) else None, c')))"

text \<open>\<open>evaluateMihomoRecovery\<close> up to the lifecycle lock: the action to begin, if any\<close>

definition evaluate_mihomo ::
  "(gerr \<Rightarrow> string) \<Rightarrow> bool \<Rightarrow> round_input \<Rightarrow> recovery_ctl \<Rightarrow> dns_probe
     \<Rightarrow> (string \<times> failure_reason) option \<times> recovery_ctl \<times> dns_probe" where
  "evaluate_mihomo text_of container i c p =
     (case mihomo_round text_of container i p of (s, p1) \<Rightarrow>
      case observe (ri_later i) s c of (act, c1) \<Rightarrow> (act, c1, p1))"

datatype dnsmasq_sample = DNSMasqHealthy | DNSMasqUnknown | DNSMasqMissing

definition dnsmasq_round :: "bool \<Rightarrow> round_input \<Rightarrow> dnsmasq_sample" where
  "dnsmasq_round container i =
     (if \<not> container then DNSMasqUnknown
      else
        (case ri_mode i of None \<Rightarrow> DNSMasqUnknown | Some topology \<Rightarrow>
         if ri_busy i \<noteq> Some False then DNSMasqUnknown
         else
           (case ri_status i of None \<Rightarrow> DNSMasqUnknown | Some gs \<Rightarrow>
            if gs_runtime_state gs \<noteq> ''active'' \<or> \<not> gs_desired_running gs \<or> gs_dns gs = ''stopped''
              \<or> gs_local_dns gs = ''stopped''
            then DNSMasqUnknown
            else if gs_dhcp gs = ''running'' then DNSMasqHealthy
            else if gs_dhcp gs \<noteq> ''stopped'' then DNSMasqUnknown
            else if ri_still_busy i \<noteq> Some False then DNSMasqUnknown
            else
              (case ri_stage i of
                 None \<Rightarrow> DNSMasqUnknown
               | Some stage \<Rightarrow> if \<not> recovery_stage_allowed topology stage then DNSMasqUnknown else DNSMasqMissing))))"

definition observe_dnsmasq :: "dnsmasq_sample \<Rightarrow> dnsmasq_ctl \<Rightarrow> bool \<times> dnsmasq_ctl" where
  "observe_dnsmasq s c =
     (case s of
        DNSMasqHealthy \<Rightarrow> (False, dnsmasq_healthy c)
      | DNSMasqUnknown \<Rightarrow> (False, dnsmasq_unknown c)
      | DNSMasqMissing \<Rightarrow> dnsmasq_missing c)"

definition evaluate_dnsmasq :: "bool \<Rightarrow> round_input \<Rightarrow> dnsmasq_ctl \<Rightarrow> bool \<times> dnsmasq_ctl" where
  "evaluate_dnsmasq container i c = observe_dnsmasq (dnsmasq_round container i) c"

end
