(* ===== verification/WatchRuns.thy ===== *)
theory WatchRuns
  imports WatchEvaluate
begin

text \<open>
  Runs of the gateway watchdog: the monitor's rounds, the operations it starts, manual operations and other
  holders of the lifecycle lock, in any order. The history lists what matters of a run, newest first.
\<close>

subsection \<open>The backoff in closed form\<close>

lemma retry_backoff_min:
  "0 < d \<Longrightarrow> min (15 * minutes) (retry_backoff n i d) = min (15 * minutes) (d * 2 ^ nat (n - i))"
proof (induction n i d rule: retry_backoff.induct)
  case (1 n i d)
  show ?case
  proof (cases "i < n \<and> d < 15 * minutes")
    case True
    then have "nat (n - i) = Suc (nat (n - (i + 1)))" by linarith
    with True 1 show ?thesis by (simp add: retry_backoff.simps [of n i d] algebra_simps)
  next
    case False
    have "d \<le> d * 2 ^ nat (n - i)" using 1(2) by (simp add: mult_le_cancel_left1)
    with False show ?thesis by (auto simp: retry_backoff.simps [of n i d])
  qed
qed

lemma retry_delay_eq: "retry_delay n = min (15 * minutes) (30 * seconds * 2 ^ nat (n - 1))"
proof -
  have "retry_delay n = min (15 * minutes) (retry_backoff n 1 (30 * seconds))" by (auto simp: retry_delay_def Let_def)
  also have "\<dots> = min (15 * minutes) (30 * seconds * 2 ^ nat (n - 1))"
    by (rule retry_backoff_min) (simp add: seconds_def)
  finally show ?thesis .
qed

lemma retry_delay_mono: "m \<le> n \<Longrightarrow> retry_delay m \<le> retry_delay n"
proof -
  assume "m \<le> n"
  then have "(2::int) ^ nat (m - 1) \<le> 2 ^ nat (n - 1)" by (intro power_increasing nat_mono) auto
  then have "30 * seconds * 2 ^ nat (m - 1) \<le> 30 * seconds * 2 ^ nat (n - 1)" by (simp add: seconds_def)
  then show ?thesis unfolding retry_delay_eq by (rule min.mono [OF order_refl])
qed

lemma retry_delay_bounds: "30 * seconds \<le> retry_delay n" "retry_delay n \<le> 15 * minutes"
  by (auto simp: retry_delay_eq seconds_def minutes_def)

subsection \<open>The watchdog and the lifecycle lock\<close>

datatype holder = LockFree | HeldAuto string | HeldManual | HeldOther

record watch_world =
  ww_ctl :: recovery_ctl
  ww_probe :: dns_probe
  ww_lock :: holder
  ww_next :: "(string \<times> failure_reason) option"
  ww_clock :: time

definition new_watch :: "time \<Rightarrow> watch_world" where
  "new_watch now = \<lparr>ww_ctl = new_recovery_ctl, ww_probe = new_dns_probe, ww_lock = LockFree, ww_next = None, ww_clock = now\<rparr>"

text \<open>
  An automatic or manual attempt began; its operation did not run because the lifecycle was busy elsewhere;
  the controller is idle again.
\<close>

datatype watch_event = EvBegan time | EvManual time | EvContention | EvSettled

definition idle_event :: "recovery_ctl \<Rightarrow> watch_event list" where
  "idle_event c = (if mc_phase c = WatchIdle then [EvSettled] else [])"

definition contention_event :: "op_error option \<Rightarrow> recovery_ctl \<Rightarrow> watch_event list" where
  "contention_event e c = (if fst (defer_contention e c) then [EvContention] else [])"

definition try_begin ::
  "time \<Rightarrow> op_error option \<Rightarrow> watch_world \<Rightarrow> watch_event list \<times> watch_world" where
  "try_begin now created w =
     (case ww_next w of
        None \<Rightarrow> ([], w)
      | Some (action, reason) \<Rightarrow>
          let w1 = w\<lparr>ww_next := None, ww_clock := now\<rparr> in
          if ww_lock w1 \<noteq> LockFree then ([], w1)
          else
            (case begin_recovery reason (ww_ctl w1) of
               (False, _) \<Rightarrow> ([], w1)
             | (True, c) \<Rightarrow>
                 (case created of
                    Some e \<Rightarrow>
                      (contention_event created c @ [EvBegan now], w1\<lparr>ww_ctl := finish_automatic now created c\<rparr>)
                  | None \<Rightarrow>
                      ([EvBegan now], w1\<lparr>ww_ctl := c, ww_probe := probe_reset (ww_probe w1), ww_lock := HeldAuto action\<rparr>))))"

text \<open>The end of \<open>runOperationLocked\<close>; the lock is released by a step of its own.\<close>

definition operation_probe :: "string \<Rightarrow> dns_probe \<Rightarrow> dns_probe" where
  "operation_probe kind p =
     (if kind \<in> {''start'', ''stop'', ''reload'', ''recover-gateway''} then probe_reset p else p)"

inductive watch_run :: "(gerr \<Rightarrow> string) \<Rightarrow> bool \<Rightarrow> time \<Rightarrow> watch_event list \<Rightarrow> watch_world \<Rightarrow> bool"
  for text_of container t0 where
  watch_start: "watch_run text_of container t0 [] (new_watch t0)"
| watch_round: "watch_run text_of container t0 (idle_event c @ h) (w\<lparr>ww_ctl := c, ww_probe := p, ww_next := act, ww_clock := ri_later i\<rparr>)"
    if "watch_run text_of container t0 h w" and "ww_next w = None" and "ww_clock w \<le> ri_now i" and "ri_now i \<le> ri_later i"
      and "\<not> mc_active (ww_ctl w)" and "evaluate_mihomo text_of container i (ww_ctl w) (ww_probe w) = (act, c, p)"
| watch_round_active: "watch_run text_of container t0 h (w\<lparr>ww_ctl := c, ww_probe := p, ww_next := act, ww_clock := ri_later i\<rparr>)"
    if "watch_run text_of container t0 h w" and "ww_next w = None" and "ww_clock w \<le> ri_now i" and "ri_now i \<le> ri_later i"
      and "mc_active (ww_ctl w)" and "evaluate_mihomo text_of container i (ww_ctl w) (ww_probe w) = (act, c, p)"
| watch_begin: "watch_run text_of container t0 (es @ h) w'"
    if "watch_run text_of container t0 h w" and "ww_clock w \<le> now" and "try_begin now created w = (es, w')"
| watch_done: "watch_run text_of container t0 (contention_event e (ww_ctl w) @ h)
      (w\<lparr>ww_ctl := finish_automatic now e (ww_ctl w), ww_probe := operation_probe kind (ww_probe w), ww_lock := HeldOther,
         ww_clock := now\<rparr>)"
    if "watch_run text_of container t0 h w" and "ww_clock w \<le> now" and "ww_lock w = HeldAuto kind"
| watch_manual: "watch_run text_of container t0 (EvManual now # h)
      (w\<lparr>ww_ctl := begin_manual r (ww_ctl w), ww_probe := probe_reset (ww_probe w), ww_lock := HeldManual, ww_clock := now\<rparr>)"
    if "watch_run text_of container t0 h w" and "ww_clock w \<le> now" and "ww_lock w = LockFree"
| watch_manual_done: "watch_run text_of container t0 (contention_event e (ww_ctl w) @ h)
      (w\<lparr>ww_ctl := finish_manual now e (ww_ctl w), ww_probe := operation_probe kind (ww_probe w), ww_lock := HeldOther,
         ww_clock := now\<rparr>)"
    if "watch_run text_of container t0 h w" and "ww_clock w \<le> now" and "ww_lock w = HeldManual"
| watch_other: "watch_run text_of container t0 h (w\<lparr>ww_lock := HeldOther\<rparr>)"
    if "watch_run text_of container t0 h w" and "ww_lock w = LockFree"
| watch_release: "watch_run text_of container t0 h (w\<lparr>ww_lock := LockFree, ww_probe := operation_probe kind (ww_probe w)\<rparr>)"
    if "watch_run text_of container t0 h w" and "ww_lock w = HeldOther"

text \<open>The attempts of the incident under way that ran, newest first\<close>

primrec attempts :: "watch_event list \<Rightarrow> time list" where
  "attempts [] = []"
| "attempts (e # h) =
     (case e of
        EvBegan t \<Rightarrow> t # attempts h
      | EvManual t \<Rightarrow> [t]
      | EvContention \<Rightarrow> tl (attempts h)
      | EvSettled \<Rightarrow> [])"

subsection \<open>The invariant\<close>

text \<open>\<open>spaced n ts u\<close>: \<open>u\<close> is late enough for another attempt after those of \<open>ts\<close>, \<open>n\<close> retries being scheduled.\<close>

definition spaced :: "int \<Rightarrow> time list \<Rightarrow> time \<Rightarrow> bool" where
  "spaced n ts u \<longleftrightarrow> (ts \<noteq> [] \<longrightarrow> int (length ts) \<le> n \<and> hd ts + retry_delay (int (length ts)) \<le> u)"

definition watch_inv :: "watch_event list \<Rightarrow> watch_world \<Rightarrow> bool" where
  "watch_inv h w \<longleftrightarrow>
     (let c = ww_ctl w; ts = attempts h in
      0 < ww_clock w \<and> 0 \<le> mc_retries c \<and> list_all (\<lambda>t. t \<le> ww_clock w) ts
      \<and> (mc_attempted c \<longrightarrow> ts \<noteq> [] \<and> int (length ts) \<le> mc_retries c + 1)
      \<and> (\<not> mc_attempted c \<longrightarrow> spaced (mc_retries c) ts (ww_clock w))
      \<and> (mc_attempted c \<and> mc_retry_at c \<noteq> 0 \<longrightarrow> spaced (mc_retries c) ts (mc_retry_at c))
      \<and> (mc_active c \<longrightarrow> mc_attempted c \<and> mc_retry_at c = 0 \<and> spaced (mc_retries c) (tl ts) (ww_clock w))
      \<and> (mc_active c \<longleftrightarrow> ww_lock w = HeldManual \<or> (\<exists>k. ww_lock w = HeldAuto k))
      \<and> (mc_phase c = WatchIdle \<longrightarrow> \<not> mc_attempted c))"

text \<open>What an observation does to the attempt, by its effect.\<close>

lemma observe_active: "mc_active c \<Longrightarrow> observe now s c = (None, c)"
  by (simp add: observe_def observe_healthy_def observe_unknown_def observe_pending_def observe_stopped_def
      observe_failure_def split: sample.split)

lemma schedule_retry_unhealthy:
  "nas_recovery_reason (mc_reason c) \<Longrightarrow>
     schedule_retry now confirmed_unhealthy c =
       c\<lparr>mc_retries := mc_retries c + 1, mc_retry_at := now + retry_delay (mc_retries c + 1)\<rparr>"
  by (simp add: schedule_retry_def confirmed_unhealthy_def Let_def)

definition observed :: "time \<Rightarrow> recovery_ctl \<Rightarrow> recovery_ctl \<Rightarrow> bool" where
  "observed now c c' \<longleftrightarrow>
     \<not> mc_active c'
     \<and> ((mc_attempted c' = mc_attempted c \<and> mc_retries c' = mc_retries c \<and> mc_retry_at c' = mc_retry_at c
          \<and> (mc_phase c' = WatchIdle \<longrightarrow> mc_phase c = WatchIdle))
       \<or> (mc_phase c' = WatchIdle \<and> \<not> mc_attempted c' \<and> mc_retries c' = 0 \<and> mc_retry_at c' = 0)
       \<or> (mc_attempted c' = mc_attempted c \<and> mc_retries c' = mc_retries c + 1
          \<and> mc_retry_at c' = now + retry_delay (mc_retries c + 1) \<and> mc_phase c' \<noteq> WatchIdle)
       \<or> (\<not> mc_attempted c' \<and> mc_retries c' = mc_retries c \<and> mc_retry_at c' = mc_retry_at c
          \<and> mc_phase c' \<noteq> WatchIdle \<and> mc_retry_at c \<noteq> 0 \<and> mc_retry_at c \<le> now))"

lemma observed_quiet:
  "\<not> mc_active c' \<Longrightarrow> mc_attempted c' = mc_attempted c \<Longrightarrow> mc_retries c' = mc_retries c
    \<Longrightarrow> mc_retry_at c' = mc_retry_at c \<Longrightarrow> (mc_phase c' = WatchIdle \<longrightarrow> mc_phase c = WatchIdle) \<Longrightarrow> observed now c c'"
  by (simp add: observed_def)

lemma observed_failure:
  assumes "\<not> mc_active c"
  shows "observed now c (snd (observe_failure now r c))"
proof -
  let ?c1 = "c\<lparr>mc_healthy := 0, mc_unknown := 0\<rparr>"
  let ?strand = "mc_phase c = WatchFailed \<and> mc_awaiting c \<and> mc_retry_at c = 0 \<and> nas_recovery_reason (mc_reason c)
    \<and> nas_recovery_reason r"
  let ?due = "mc_phase c = WatchFailed \<and> mc_retry_at c \<noteq> 0 \<and> \<not> now < mc_retry_at c"
  consider "?strand" | "\<not> ?strand" "?due"
    | "\<not> ?strand" "\<not> ?due" "mc_attempted c" "mc_phase c = WatchRecovering" "nas_recovery_reason r"
    | "\<not> ?strand" "\<not> ?due" "mc_attempted c" "mc_phase c = WatchRecovering" "\<not> nas_recovery_reason r"
    | "\<not> ?strand" "\<not> ?due" "mc_attempted c \<and> mc_phase c \<noteq> WatchRecovering \<or> \<not> mc_attempted c \<and> mc_phase c = WatchFailed"
    | "\<not> ?strand" "\<not> ?due" "\<not> mc_attempted c" "mc_phase c \<noteq> WatchFailed" by blast
  then show ?thesis
  proof cases
    case 1
    with assms show ?thesis by (simp add: observe_failure_def schedule_retry_unhealthy observed_def)
  next
    case 2
    have "mc_retry_at c' = mc_retry_at c \<and> mc_retries c' = mc_retries c \<and> \<not> mc_attempted c' \<and> \<not> mc_active c'
        \<and> mc_phase c' = WatchObserving" if "c' = snd (observe_failure now r c)" for c'
      using that 2 assms by (cases r) (simp_all add: observe_failure_def nas_recovery_reason_def Let_def)
    with 2 show ?thesis by (simp add: observed_def)
  next
    case 3
    with assms show ?thesis by (simp add: observe_failure_def schedule_retry_unhealthy observed_def)
  next
    case 4
    with assms show ?thesis by (intro observed_quiet) (simp_all add: observe_failure_def)
  next
    case 5
    with assms show ?thesis by (intro observed_quiet) (auto simp: observe_failure_def)
  next
    case 6
    have "mc_retry_at c' = mc_retry_at c \<and> mc_retries c' = mc_retries c \<and> \<not> mc_attempted c' \<and> \<not> mc_active c'
        \<and> mc_phase c' = WatchObserving" if "c' = snd (observe_failure now r c)" for c'
      using that 6 assms by (cases r) (simp_all add: observe_failure_def Let_def)
    with 6 show ?thesis by (intro observed_quiet) simp_all
  qed
qed

lemma observe_cases:
  assumes "\<not> mc_active c"
  shows "observed now c (snd (observe now s c))"
proof (cases s)
  case SawHealthy
  with assms show ?thesis by (auto simp: observe_def observe_healthy_def observed_def Let_def)
next
  case SawUnknown
  with assms show ?thesis by (auto simp: observe_def observe_unknown_def observed_def Let_def)
next
  case SawPending
  with assms show ?thesis by (auto simp: observe_def observe_pending_def observed_def)
next
  case SawStopped
  with assms show ?thesis by (auto simp: observe_def observe_stopped_def observed_def)
next
  case (SawFailure a r)
  with observed_failure [OF assms, of now r] show ?thesis
    by (cases "observe_failure now r c") (simp add: observe_def)
qed

subsection \<open>Every step keeps the invariant\<close>

lemma spaced_mono: "spaced n ts u \<Longrightarrow> n \<le> n' \<Longrightarrow> u \<le> u' \<Longrightarrow> spaced n' ts u'"
  by (auto simp: spaced_def)

lemma spaced_Nil [simp]: "spaced n [] u"
  by (simp add: spaced_def)

lemma spaced_schedule:
  assumes "int (length ts) \<le> n" and "list_all (\<lambda>t. t \<le> now) ts"
  shows "spaced n ts (now + retry_delay n)"
proof (cases ts)
  case (Cons t ts')
  with assms retry_delay_mono [of "int (length ts)" n] show ?thesis by (simp add: spaced_def)
qed simp

lemma attempts_idle [simp]:
  "attempts (idle_event c @ h) = (if mc_phase c = WatchIdle then [] else attempts h)"
  by (simp add: idle_event_def)

lemma attempts_contention [simp]:
  "attempts (contention_event e c @ h) = (if fst (defer_contention e c) then tl (attempts h) else attempts h)"
  by (simp add: contention_event_def)

lemma watch_inv_round:
  assumes inv: "watch_inv h w" and idle: "\<not> mc_active (ww_ctl w)" and later: "ww_clock w \<le> now"
    and c: "c = snd (observe now s (ww_ctl w))"
  shows "watch_inv (idle_event c @ h) (w\<lparr>ww_ctl := c, ww_probe := p, ww_next := act, ww_clock := now\<rparr>)"
proof -
  let ?c = "ww_ctl w" and ?ts = "attempts h"
  from inv have i: "0 < ww_clock w" "0 \<le> mc_retries ?c" "list_all (\<lambda>t. t \<le> ww_clock w) ?ts"
      "mc_attempted ?c \<Longrightarrow> ?ts \<noteq> [] \<and> int (length ?ts) \<le> mc_retries ?c + 1"
      "\<not> mc_attempted ?c \<Longrightarrow> spaced (mc_retries ?c) ?ts (ww_clock w)"
      "mc_attempted ?c \<Longrightarrow> mc_retry_at ?c \<noteq> 0 \<Longrightarrow> spaced (mc_retries ?c) ?ts (mc_retry_at ?c)"
      "\<not> (ww_lock w = HeldManual \<or> (\<exists>k. ww_lock w = HeldAuto k))"
      "mc_phase ?c = WatchIdle \<Longrightarrow> \<not> mc_attempted ?c"
    using idle by (auto simp: watch_inv_def Let_def)
  from i(3) later have all: "list_all (\<lambda>t. t \<le> now) ?ts" by (auto simp: list_all_iff)
  from observe_cases [OF idle, of now s] have "observed now ?c c" by (simp add: c)
  then consider (same) "\<not> mc_active c" "mc_attempted c = mc_attempted ?c" "mc_retries c = mc_retries ?c"
        "mc_retry_at c = mc_retry_at ?c" "mc_phase c = WatchIdle \<Longrightarrow> mc_phase ?c = WatchIdle"
    | (settled) "\<not> mc_active c" "mc_phase c = WatchIdle" "\<not> mc_attempted c" "mc_retries c = 0"
    | (scheduled) "\<not> mc_active c" "mc_attempted c = mc_attempted ?c" "mc_retries c = mc_retries ?c + 1"
        "mc_retry_at c = now + retry_delay (mc_retries ?c + 1)" "mc_phase c \<noteq> WatchIdle"
    | (due) "\<not> mc_active c" "\<not> mc_attempted c" "mc_retries c = mc_retries ?c" "mc_phase c \<noteq> WatchIdle"
        "mc_retry_at ?c \<noteq> 0" "mc_retry_at ?c \<le> now"
    unfolding observed_def by blast
  then show ?thesis
  proof cases
    case same
    with i all later spaced_mono [OF _ order_refl later] show ?thesis
      by (auto simp: watch_inv_def Let_def)
  next
    case settled
    with i later show ?thesis by (auto simp: watch_inv_def Let_def)
  next
    case scheduled
    have "spaced (mc_retries ?c + 1) ?ts now" if "\<not> mc_attempted ?c"
      using spaced_mono [OF i(5) [OF that]] later by simp
    moreover have "spaced (mc_retries ?c + 1) ?ts (now + retry_delay (mc_retries ?c + 1))" if "mc_attempted ?c"
      using spaced_schedule [OF _ all] i(4) [OF that] by simp
    ultimately show ?thesis using scheduled i all later by (auto simp: watch_inv_def Let_def)
  next
    case due
    have "spaced (mc_retries ?c) ?ts now"
    proof (cases "mc_attempted ?c")
      case True
      from spaced_mono [OF i(6) [OF True due(5)] order_refl due(6)] show ?thesis .
    next
      case False
      from spaced_mono [OF i(5) [OF False] order_refl later] show ?thesis .
    qed
    with due i all later show ?thesis by (auto simp: watch_inv_def Let_def)
  qed
qed

lemma watch_inv_conclude:
  assumes inv: "watch_inv h w" and active: "mc_active (ww_ctl w)" and later: "ww_clock w \<le> now"
    and c: "\<not> mc_active c" "mc_attempted c" "mc_reason c = mc_reason (ww_ctl w)" "mc_retries c = mc_retries (ww_ctl w)"
      "mc_retry_at c = 0"
    and l: "l = LockFree \<or> l = HeldOther"
  shows "watch_inv (contention_event e (ww_ctl w) @ h)
    (w\<lparr>ww_ctl := conclude now e c, ww_probe := p, ww_lock := l, ww_clock := now\<rparr>)"
proof -
  let ?ts = "attempts h"
  from inv active have i: "0 < ww_clock w" "0 \<le> mc_retries c" "list_all (\<lambda>t. t \<le> ww_clock w) ?ts"
      "?ts \<noteq> [] \<and> int (length ?ts) \<le> mc_retries c + 1" "spaced (mc_retries c) (tl ?ts) (ww_clock w)"
    using c by (auto simp: watch_inv_def Let_def)
  from i(3) later have all: "list_all (\<lambda>t. t \<le> now) ?ts" by (auto simp: list_all_iff)
  then have all_tl: "list_all (\<lambda>t. t \<le> now) (tl ?ts)" by (cases ?ts) auto
  have d: "fst (defer_contention e c) = fst (defer_contention e (ww_ctl w))"
    using c(3) by (simp add: defer_contention_def)
  have sp: "spaced (mc_retries c) (tl ?ts) now" by (rule spaced_mono [OF i(5) order_refl later])
  have sch: "spaced (mc_retries c + 1) ?ts (now + retry_delay (mc_retries c + 1))"
    using spaced_schedule [OF _ all] i(4) by simp
  show ?thesis
  proof (cases "fst (defer_contention e (ww_ctl w))")
    case True
    with d have "defer_contention e c = (True, snd (defer_contention e c))" by (simp add: prod_eq_iff)
    then have "conclude now e c = snd (defer_contention e c)"
      by (cases "defer_contention e c") (simp add: conclude_def)
    moreover have "snd (defer_contention e c) = c\<lparr>mc_phase := WatchObserving, mc_error := NoWatchError,
        mc_attempted := False, mc_refused := 0, mc_healthy := 0, mc_unknown := 0, mc_retry_at := 0\<rparr>"
      using True d by (simp add: defer_contention_def split: if_splits)
    ultimately show ?thesis using True i all_tl sp later c(1) l by (auto simp: watch_inv_def Let_def)
  next
    case False
    with d have f: "\<not> fst (defer_contention e c)" by simp
    show ?thesis
    proof (cases e)
      case None
      with f have "conclude now e c = c\<lparr>mc_phase := WatchRecovering, mc_error := NoWatchError\<rparr>"
        by (auto simp: conclude_def split: prod.splits bool.splits)
      with False i all later c l show ?thesis by (auto simp: watch_inv_def Let_def)
    next
      case (Some x)
      with f have "conclude now e c = schedule_retry now x (c\<lparr>mc_phase := WatchFailed, mc_error := OperationError x\<rparr>)"
        by (auto simp: conclude_def split: prod.splits bool.splits)
      with False i all later c l sch show ?thesis by (auto simp: watch_inv_def schedule_retry_def Let_def)
    qed
  qed
qed

lemma watch_inv_begin:
  assumes inv: "watch_inv h w" and later: "ww_clock w \<le> now" and free: "ww_lock w = LockFree"
    and c: "mc_active c" "mc_attempted c" "mc_retry_at c = 0" "mc_phase c \<noteq> WatchIdle"
    and old: "\<not> mc_attempted (ww_ctl w) \<and> mc_retries c = mc_retries (ww_ctl w) \<and> ev = EvBegan now
      \<or> mc_retries c = 0 \<and> ev = EvManual now"
    and l: "l = HeldManual \<or> l = HeldAuto k"
  shows "watch_inv (ev # h) (w\<lparr>ww_ctl := c, ww_probe := p, ww_lock := l, ww_next := act, ww_clock := now\<rparr>)"
proof -
  from inv later have i: "0 < now" "0 \<le> mc_retries (ww_ctl w)" "list_all (\<lambda>t. t \<le> now) (attempts h)"
    by (auto simp: watch_inv_def Let_def list_all_iff)
  from old show ?thesis
  proof (elim disjE conjE)
    assume o1: "\<not> mc_attempted (ww_ctl w)" "mc_retries c = mc_retries (ww_ctl w)" "ev = EvBegan now"
    with inv have sp: "spaced (mc_retries c) (attempts h) (ww_clock w)" by (auto simp: watch_inv_def Let_def)
    then have "int (length (attempts h)) \<le> mc_retries c" using o1 i by (cases "attempts h") (auto simp: spaced_def)
    with o1 i c l spaced_mono [OF sp order_refl later] show ?thesis by (auto simp: watch_inv_def Let_def)
  next
    assume "mc_retries c = 0" "ev = EvManual now"
    with i c l show ?thesis by (auto simp: watch_inv_def Let_def)
  qed
qed

theorem watch_run_inv: "watch_run text_of container t0 h w \<Longrightarrow> 0 < t0 \<Longrightarrow> watch_inv h w"
proof (induction rule: watch_run.induct)
  case watch_start
  then show ?case by (simp add: watch_inv_def new_watch_def new_recovery_ctl_def Let_def)
next
  case (watch_round h w i act c p)
  then have "c = snd (observe (ri_later i) (fst (mihomo_round text_of container i (ww_probe w))) (ww_ctl w))"
    by (auto simp: evaluate_mihomo_def split: prod.splits)
  with watch_round show ?case by (intro watch_inv_round) auto
next
  case (watch_round_active h w i act c p)
  then have "c = ww_ctl w" by (auto simp: evaluate_mihomo_def observe_active split: prod.splits)
  with watch_round_active show ?case
    by (auto simp: watch_inv_def Let_def list_all_iff intro: spaced_mono)
next
  case (watch_begin h w now created es w')
  have quiet: "watch_inv h (w\<lparr>ww_next := None, ww_clock := now\<rparr>)"
    using watch_begin.IH watch_begin.prems watch_begin.hyps(2)
    by (auto simp: watch_inv_def Let_def list_all_iff intro: spaced_mono)
  show ?case
  proof (cases "ww_next w")
    case None
    with watch_begin show ?thesis by (simp add: try_begin_def)
  next
    case (Some ar)
    obtain action reason where ar: "ar = (action, reason)" by (cases ar)
    show ?thesis
    proof (cases "ww_lock w = LockFree \<and> fst (begin_recovery reason (ww_ctl w))")
      case False
      with Some ar watch_begin.hyps(3) have "es = [] \<and> w' = w\<lparr>ww_next := None, ww_clock := now\<rparr>"
        by (auto simp: try_begin_def Let_def split: prod.splits bool.splits if_splits)
      with quiet show ?thesis by simp
    next
      case True
      let ?c = "snd (begin_recovery reason (ww_ctl w))"
      from True have c: "mc_active ?c" "mc_attempted ?c" "mc_retry_at ?c = 0" "mc_phase ?c \<noteq> WatchIdle"
          "\<not> mc_attempted (ww_ctl w)" "mc_retries ?c = mc_retries (ww_ctl w)"
        by (auto simp: begin_recovery_def split: if_splits)
      from watch_inv_begin [OF watch_begin.IH [OF watch_begin.prems] watch_begin.hyps(2) _ c(1-4)] True c(5,6)
      have began: "watch_inv (EvBegan now # h)
          (w\<lparr>ww_ctl := ?c, ww_probe := p, ww_lock := HeldAuto action, ww_next := None, ww_clock := now\<rparr>)" for p
        by simp
      show ?thesis
      proof (cases created)
        case None
        with True Some ar watch_begin.hyps(3) have "es = [EvBegan now]"
            "w' = w\<lparr>ww_ctl := ?c, ww_probe := probe_reset (ww_probe w), ww_lock := HeldAuto action, ww_next := None,
               ww_clock := now\<rparr>"
          by (auto simp: try_begin_def Let_def prod_eq_iff split: prod.splits bool.splits if_splits)
        with began show ?thesis by simp
      next
        case (Some e)
        with True \<open>ww_next w = Some ar\<close> ar watch_begin.hyps(3)
        have "es = contention_event created ?c @ [EvBegan now]"
            "w' = w\<lparr>ww_ctl := finish_automatic now created ?c, ww_next := None, ww_clock := now\<rparr>"
          by (auto simp: try_begin_def Let_def prod_eq_iff split: prod.splits bool.splits if_splits)
        moreover have "watch_inv (contention_event created ?c @ EvBegan now # h)
            (w\<lparr>ww_ctl := finish_automatic now created ?c, ww_next := None, ww_clock := now\<rparr>)"
        proof -
          let ?w = "w\<lparr>ww_ctl := ?c, ww_probe := ww_probe w, ww_lock := HeldAuto action, ww_next := None, ww_clock := now\<rparr>"
          have "watch_inv (contention_event created (ww_ctl ?w) @ EvBegan now # h)
              (?w\<lparr>ww_ctl := conclude now created (?c\<lparr>mc_active := False, mc_awaiting := (created = None)\<rparr>),
                 ww_probe := ww_probe w, ww_lock := LockFree, ww_clock := now\<rparr>)"
            by (rule watch_inv_conclude [OF began]) (use c in simp_all)
          moreover have "?w\<lparr>ww_ctl := d, ww_probe := ww_probe w, ww_lock := LockFree, ww_clock := now\<rparr>
              = w\<lparr>ww_ctl := d, ww_next := None, ww_clock := now\<rparr>" for d
            using True by (cases w) simp
          ultimately show ?thesis by (simp add: finish_automatic_def)
        qed
        ultimately show ?thesis by simp
      qed
    qed
  qed
next
  case (watch_done h w now kind e)
  then have "mc_active (ww_ctl w)" "mc_attempted (ww_ctl w)" "mc_retry_at (ww_ctl w) = 0"
    by (auto simp: watch_inv_def Let_def)
  with watch_done show ?case unfolding finish_automatic_def by (intro watch_inv_conclude) auto
next
  case (watch_manual h w now r)
  have c: "mc_active (begin_manual r d)" "mc_attempted (begin_manual r d)" "mc_retry_at (begin_manual r d) = 0"
      "mc_phase (begin_manual r d) \<noteq> WatchIdle" "mc_retries (begin_manual r d) = 0" for d
    by (simp_all add: begin_manual_def Let_def split: option.split)
  have "watch_inv (EvManual now # h)
      (w\<lparr>ww_ctl := begin_manual r (ww_ctl w), ww_probe := probe_reset (ww_probe w), ww_lock := HeldManual,
         ww_next := ww_next w, ww_clock := now\<rparr>)"
    using watch_manual by (intro watch_inv_begin) (auto simp: c)
  moreover have "w\<lparr>ww_ctl := x, ww_probe := y, ww_lock := z, ww_next := ww_next w, ww_clock := now\<rparr>
      = w\<lparr>ww_ctl := x, ww_probe := y, ww_lock := z, ww_clock := now\<rparr>" for x y z by (cases w) simp
  ultimately show ?case by simp
next
  case (watch_manual_done h w now e kind)
  then have "mc_active (ww_ctl w)" "mc_retry_at (ww_ctl w) = 0"
    by (auto simp: watch_inv_def Let_def)
  with watch_manual_done show ?case unfolding finish_manual_def by (intro watch_inv_conclude) auto
next
  case (watch_other h w)
  then show ?case by (auto simp: watch_inv_def Let_def)
next
  case (watch_release h w kind)
  then show ?case by (auto simp: watch_inv_def Let_def)
qed

end
