(* ===== verification/WatchProps.thy ===== *)
theory WatchProps
  imports WatchRuns
begin

text \<open>
  What the watchdogs promise: automatic recoveries are spaced out, need evidence, are repeated as long as the
  failure lasts, and dnsmasq is restarted once per incident.
\<close>

subsection \<open>Throttling\<close>

lemma try_begin_events:
  assumes "try_begin now out w = (es, w')" and "es \<noteq> []"
  shows "\<not> mc_attempted (ww_ctl w) \<and> (\<exists>es'. es = es' @ [EvBegan now] \<and> set es' \<subseteq> {EvContention})"
  using assms
  by (auto simp: try_begin_def begin_recovery_def contention_event_def Let_def
      split: option.splits prod.splits bool.splits if_splits)

definition spaced_out :: "watch_event list \<Rightarrow> bool" where
  "spaced_out h \<longleftrightarrow>
     (\<forall>h1 t h2 t1 ts. h = h1 @ EvBegan t # h2 \<longrightarrow> attempts h2 = t1 # ts
        \<longrightarrow> t1 + min (15 * minutes) (30 * seconds * 2 ^ length ts) \<le> t)"

lemma spaced_out_Cons:
  "spaced_out (e # h) \<longleftrightarrow>
     spaced_out h \<and> (\<forall>t t1 ts. e = EvBegan t \<longrightarrow> attempts h = t1 # ts
        \<longrightarrow> t1 + min (15 * minutes) (30 * seconds * 2 ^ length ts) \<le> t)"
  unfolding spaced_out_def by (auto simp: Cons_eq_append_conv) blast+

lemma spaced_out_quiet: "set es \<subseteq> {EvContention, EvSettled} \<Longrightarrow> spaced_out h \<Longrightarrow> spaced_out (es @ h)"
  by (induction es) (auto simp: spaced_out_Cons)

lemma quiet_events: "set (idle_event c) \<subseteq> {EvContention, EvSettled}" "set (contention_event e c) \<subseteq> {EvContention, EvSettled}"
  by (auto simp: idle_event_def contention_event_def)

lemma watch_run_spaced_out: "watch_run text_of container t0 h w \<Longrightarrow> 0 < t0 \<Longrightarrow> spaced_out h"
proof (induction rule: watch_run.induct)
  case watch_start
  then show ?case by (simp add: spaced_out_def)
next
  case (watch_begin h w now out es w')
  show ?case
  proof (cases "es = []")
    case False
    from try_begin_events [OF watch_begin.hyps(3) False] obtain es' where
      e: "\<not> mc_attempted (ww_ctl w)" "es = es' @ [EvBegan now]" "set es' \<subseteq> {EvContention}" by blast
    from watch_run_inv [OF watch_begin.hyps(1) watch_begin.prems] e(1)
    have "spaced (mc_retries (ww_ctl w)) (attempts h) (ww_clock w)" by (auto simp: watch_inv_def Let_def)
    then have "t1 + min (15 * minutes) (30 * seconds * 2 ^ length ts) \<le> now" if "attempts h = t1 # ts" for t1 ts
      using that watch_begin.hyps(2) by (simp add: spaced_def retry_delay_eq)
    with watch_begin have "spaced_out (EvBegan now # h)" by (simp add: spaced_out_Cons)
    with e(2,3) show ?thesis by (auto intro: spaced_out_quiet)
  qed (use watch_begin in simp)
qed (auto simp: spaced_out_Cons intro: spaced_out_quiet [OF quiet_events(1)] spaced_out_quiet [OF quiet_events(2)])

text \<open>C18: Automatic recoveries, which tear the gateway down and start it again, are throttled: however the monitor's
  rounds, the operations, manual recoveries and other lifecycle operations interleave, an automatic attempt
  begins no earlier than 30 seconds after the last attempt of the same incident began, doubling with every
  attempt of the incident up to 15 minutes; an incident ends when the controller is idle again (health
  confirmed or the gateway stopped on purpose), and only attempts whose operation ran count.\<close>

theorem recoveries_are_throttled:
  assumes "watch_run text_of container t0 (h1 @ EvBegan t # h2) w" and "0 < t0" and "attempts h2 = t1 # ts"
  shows "t1 + min (15 * minutes) (30 * seconds * 2 ^ length ts) \<le> t"
  using watch_run_spaced_out [OF assms(1,2)] assms(3) by (auto simp: spaced_out_def)

subsection \<open>Evidence\<close>

definition probe_ok :: "dns_probe \<Rightarrow> bool" where
  "probe_ok p \<longleftrightarrow> (dp_result p = ProbeUnavailable \<longrightarrow> 2 \<le> dp_failures p)"

lemma probe_sample_ok: "probe_sample now later r p = (x, p') \<Longrightarrow> probe_ok p \<Longrightarrow> probe_ok p' \<and> (x = ProbeUnavailable \<longrightarrow> 2 \<le> dp_failures p')"
  by (auto simp: probe_sample_def probe_start_def probe_finish_def probe_ok_def dns_probe_failures_required_def Let_def
      split: sum.splits probe_result.splits if_splits)

lemma mihomo_round_probe:
  assumes "mihomo_round text_of container i p = (s, p')" and "probe_ok p"
  shows "probe_ok p'"
  using assms probe_sample_ok [of "ri_now i" "ri_later i" "ri_check i" p]
  by (auto simp: mihomo_round_def Let_def split: option.splits if_splits prod.splits)

lemma watch_run_probe_ok: "watch_run text_of container t0 h w \<Longrightarrow> probe_ok (ww_probe w)"
proof (induction rule: watch_run.induct)
  case watch_start
  then show ?case by (simp add: new_watch_def new_dns_probe_def probe_ok_def)
next
  case (watch_round h w i act c p)
  then show ?case
    by (cases "mihomo_round text_of container i (ww_probe w)")
       (auto simp: evaluate_mihomo_def split: prod.splits dest: mihomo_round_probe)
next
  case (watch_round_active h w i act c p)
  then show ?case
    by (cases "mihomo_round text_of container i (ww_probe w)")
       (auto simp: evaluate_mihomo_def split: prod.splits dest: mihomo_round_probe)
next
  case (watch_begin h w now out es w')
  then show ?case
    by (auto simp: try_begin_def probe_reset_def probe_ok_def Let_def split: option.splits prod.splits bool.splits if_splits)
qed (auto simp: operation_probe_def probe_reset_def probe_ok_def)

text \<open>What a status must show for each reason.\<close>

definition shows_failure :: "(gerr \<Rightarrow> string) \<Rightarrow> gateway_status \<Rightarrow> failure_reason \<Rightarrow> bool" where
  "shows_failure text_of gs r \<longleftrightarrow>
     (case r of
        GatewayIncomplete \<Rightarrow>
          gs_runtime_state gs \<in> {''none'', ''incomplete'', ''interrupted''} \<or> \<not> has_prefix (gs_mihomo gs) ''running''
      | DNSMissing \<Rightarrow> gs_dns gs = ''stopped'' \<or> gs_local_dns gs = ''stopped'' \<or> gs_dhcp gs = ''stopped''
      | DataPlaneMissing \<Rightarrow>
          gs_routing gs = ''missing'' \<or> gs_tun gs = ''failed'' \<or> gs_nftables gs = ''missing'' \<or> gs_forwarding gs = ''disabled''
      | DNSUnresponsive \<Rightarrow> True
      | ProcessMissing \<Rightarrow> \<not> has_prefix (gs_mihomo gs) ''running''
      | NoReason \<Rightarrow> False
      | _ \<Rightarrow> connection_refused text_of (gs_mihomo_error gs) \<or> connection_refused text_of (gs_tun_error gs))"

lemma recovery_action_evidence:
  "automatic_recovery_action text_of container gs = (a, r) \<Longrightarrow> r \<noteq> NoReason \<Longrightarrow> shows_failure text_of gs r \<and> r \<noteq> DNSUnresponsive
    \<and> (if container then a = ''recover-gateway'' \<and> nas_recovery_reason r \<and> gs_desired_running gs
       else a = ''restart-mihomo'')"
  by (auto simp: automatic_recovery_action_def shows_failure_def mihomo_failure_reason_def nas_recovery_reason_def
      split: if_splits failure_reason.splits)

lemma observe_failure_refused:
  "observe_failure now r c = (True, c') \<Longrightarrow> r = ControllerRefused \<or> r = NASControllerRefused
    \<Longrightarrow> 1 \<le> mc_refused c \<and> mc_reason c = r"
  by (auto simp: observe_failure_def Let_def split: if_splits)

lemma mihomo_round_failure:
  assumes "mihomo_round text_of container i p = (SawFailure a r, p')" and "probe_ok p"
  shows "\<exists>topology gs stage.
      ri_mode i = Some topology \<and> ri_busy i = Some False \<and> ri_still_busy i = Some False
      \<and> ri_status i = Some gs \<and> ri_stage i = Some stage \<and> recovery_stage_allowed topology stage
      \<and> (if container then a = ''recover-gateway'' \<and> nas_recovery_reason r \<and> gs_desired_running gs
         else a = ''restart-mihomo'' \<and> gs_runtime_state gs = ''active'')
      \<and> shows_failure text_of gs r \<and> (r = DNSUnresponsive \<longrightarrow> 2 \<le> dp_failures p')"
proof -
  from assms(1) obtain topology gs where g: "ri_mode i = Some topology" "ri_busy i = Some False" "ri_status i = Some gs"
      "container \<or> gs_runtime_state gs = ''active''" "\<not> container \<or> gs_desired_running gs"
    by (auto simp: mihomo_round_def Let_def split: option.splits if_splits)
  obtain a0 r0 where act: "automatic_recovery_action text_of container gs = (a0, r0)"
    by (cases "automatic_recovery_action text_of container gs")
  obtain x q where pr: "probe_sample (ri_now i) (ri_later i) (ri_check i) p = (x, q)"
    by (cases "probe_sample (ri_now i) (ri_later i) (ri_check i) p")
  from assms(1) g act pr have r: "r \<noteq> NoReason" "ri_still_busy i = Some False"
      "\<exists>stage. ri_stage i = Some stage \<and> recovery_stage_allowed topology stage"
      "(a, r) = (a0, r0) \<or> container \<and> x = ProbeUnavailable \<and> p' = q \<and> (a, r) = (''recover-gateway'', DNSUnresponsive)"
    by (auto simp: mihomo_round_def Let_def split: option.splits if_splits)
  from probe_sample_ok [OF pr assms(2)] recovery_action_evidence [OF act] r g show ?thesis
    by (auto simp: shows_failure_def nas_recovery_reason_def automatic_recovery_action_def split: if_splits)
qed

text \<open>C19: A recovery needs evidence. A round of the monitor leads to one only when the configuration loads, no lifecycle
  operation was in progress before and after the status was taken, the status shows the failure given as the
  reason and the stage of the takeover allows it; in the container the gateway must be meant to run and the
  whole of it is recovered; a refused controller must have been seen before, and an unresponsive DNS must
  have failed two probes.\<close>

theorem recovery_needs_evidence:
  assumes "watch_run text_of container t0 h w"
    and "evaluate_mihomo text_of container i (ww_ctl w) (ww_probe w) = (Some (a, r), c', p')"
  shows "\<exists>topology gs stage.
      ri_mode i = Some topology \<and> ri_busy i = Some False \<and> ri_still_busy i = Some False
      \<and> ri_status i = Some gs \<and> ri_stage i = Some stage \<and> recovery_stage_allowed topology stage
      \<and> (if container then a = ''recover-gateway'' \<and> nas_recovery_reason r \<and> gs_desired_running gs
         else a = ''restart-mihomo'' \<and> gs_runtime_state gs = ''active'')
      \<and> shows_failure text_of gs r \<and> (r = DNSUnresponsive \<longrightarrow> 2 \<le> dp_failures p')
      \<and> (r = ControllerRefused \<or> r = NASControllerRefused \<longrightarrow> 1 \<le> mc_refused (ww_ctl w) \<and> mc_reason (ww_ctl w) = r)"
proof -
  obtain s q where rnd: "mihomo_round text_of container i (ww_probe w) = (s, q)"
    by (cases "mihomo_round text_of container i (ww_probe w)")
  with assms(2) have "s = SawFailure a r" "q = p'" and f: "fst (observe_failure (ri_later i) r (ww_ctl w))"
    by (cases s; auto simp: evaluate_mihomo_def observe_def split: prod.splits if_splits)+
  with mihomo_round_failure [OF rnd [unfolded this] watch_run_probe_ok [OF assms(1)]]
    observe_failure_refused [of "ri_later i" r "ww_ctl w" "snd (observe_failure (ri_later i) r (ww_ctl w))"]
  show ?thesis by (auto simp: prod_eq_iff)
qed

subsection \<open>Recovery is tried again\<close>

definition immediate_reason :: "failure_reason \<Rightarrow> bool" where
  "immediate_reason r \<longleftrightarrow> nas_recovery_reason r \<and> r \<noteq> NASControllerRefused"

text \<open>The controller waits for the time of the next attempt.\<close>

definition waiting :: "time \<Rightarrow> recovery_ctl \<Rightarrow> bool" where
  "waiting u c \<longleftrightarrow>
     \<not> mc_active c \<and> mc_attempted c \<and> mc_phase c = WatchFailed \<and> mc_retry_at c = u \<and> u \<noteq> 0"

definition inconclusive :: "time \<Rightarrow> time \<times> sample \<Rightarrow> bool" where
  "inconclusive u x \<longleftrightarrow>
     snd x = SawUnknown \<or> snd x = SawPending \<or> (\<exists>a r. snd x = SawFailure a r \<and> fst x < u)"

lemma waiting_observe: "waiting u c \<Longrightarrow> inconclusive u (t, s) \<Longrightarrow> waiting u (snd (observe t s c))"
  by (auto simp: waiting_def inconclusive_def observe_def observe_unknown_def observe_pending_def observe_failure_def
      Let_def)

lemma waiting_observes:
  "waiting u c \<Longrightarrow> \<forall>x \<in> set obs. inconclusive u x \<Longrightarrow> waiting u (foldl (\<lambda>c (t, s). snd (observe t s c)) c obs)"
  by (induction obs arbitrary: c) (auto simp: waiting_observe)

lemma waiting_begins:
  assumes "waiting u c" and "u \<le> now" and "immediate_reason r"
  shows "fst (observe_failure now r c) \<and> fst (begin_recovery r (snd (observe_failure now r c)))"
  using assms by (auto simp: waiting_def immediate_reason_def nas_recovery_reason_def observe_failure_def
      begin_recovery_def Let_def)

lemma waiting_begins_refused:
  assumes "waiting u c" and "u \<le> now" and "c1 = snd (observe_failure now NASControllerRefused c)" and "0 \<le> mc_refused c"
  shows "fst (observe_failure now' NASControllerRefused c1)
    \<and> fst (begin_recovery NASControllerRefused (snd (observe_failure now' NASControllerRefused c1)))"
  using assms by (auto simp: waiting_def nas_recovery_reason_def observe_failure_def begin_recovery_def Let_def)

lemma timed_out_waits:
  assumes "nas_recovery_reason (mc_reason c)" and "recovery_timeout (Some e)" and "\<not> oe_busy e"
    and "mc_attempted c" and "0 < now"
  shows "\<exists>u. waiting u (finish_automatic now (Some e) c) \<and> u \<le> now + 15 * minutes"
  using assms retry_delay_bounds [of "mc_retries c + 1"]
  by (auto simp: finish_automatic_def conclude_def defer_contention_def schedule_retry_def waiting_def Let_def seconds_def)

text \<open>After a recovery that completed, until two healthy rounds in a row or a failure: in recovery, or given up on for
  the time being because too many rounds were unreadable.\<close>

definition unsettled :: "bool \<Rightarrow> recovery_ctl \<Rightarrow> bool" where
  "unsettled healthy c \<longleftrightarrow>
     \<not> mc_active c \<and> mc_attempted c \<and> mc_awaiting c \<and> mc_retry_at c = 0 \<and> mc_phase c \<in> {WatchRecovering, WatchFailed}
     \<and> nas_recovery_reason (mc_reason c) \<and> mc_healthy c = (if healthy then 1 else 0)"

lemma unsettled_unread: "unsettled b c \<Longrightarrow> s \<in> {SawUnknown, SawPending} \<Longrightarrow> unsettled False (snd (observe t s c))"
  by (auto simp: unsettled_def observe_def observe_unknown_def observe_pending_def Let_def split: if_splits)

lemma unsettled_healthy: "unsettled False c \<Longrightarrow> unsettled True (snd (observe t SawHealthy c))"
  by (auto simp: unsettled_def observe_def observe_healthy_def healthy_confirmations_def Let_def)

lemma unsettled_fails:
  assumes "unsettled b c" and "nas_recovery_reason r" and "0 < now"
  shows "\<exists>u. waiting u (snd (observe_failure now r c)) \<and> u \<le> now + 15 * minutes"
  using assms retry_delay_bounds [of "mc_retries c + 1"]
  by (auto simp: unsettled_def schedule_retry_unhealthy observe_failure_def waiting_def Let_def seconds_def)

text \<open>Rounds that confirm nothing: unreadable or healthy ones, no two healthy ones in a row.\<close>

fun confirms_nothing :: "bool \<Rightarrow> sample list \<Rightarrow> bool" where
  "confirms_nothing healthy [] = True"
| "confirms_nothing healthy (s # ss) =
     ((s \<in> {SawUnknown, SawPending} \<and> confirms_nothing False ss)
      \<or> (s = SawHealthy \<and> \<not> healthy \<and> confirms_nothing True ss))"

abbreviation observes :: "(time \<times> sample) list \<Rightarrow> recovery_ctl \<Rightarrow> recovery_ctl" where
  "observes obs c \<equiv> foldl (\<lambda>c (t, s). snd (observe t s c)) c obs"

lemma unsettled_observes:
  "unsettled b c \<Longrightarrow> confirms_nothing b (map snd obs) \<Longrightarrow> \<exists>b'. unsettled b' (observes obs c)"
proof (induction obs arbitrary: b c)
  case (Cons x obs)
  obtain t s where x: "x = (t, s)" by (cases x)
  consider "s \<in> {SawUnknown, SawPending}" "confirms_nothing False (map snd obs)"
    | "s = SawHealthy" "b = False" "confirms_nothing True (map snd obs)"
    using Cons.prems(2) x by auto
  then show ?case
  proof cases
    case 1
    from Cons.IH [OF unsettled_unread [OF Cons.prems(1) 1(1)] 1(2)] x show ?thesis by simp
  next
    case 2
    with Cons.prems(1) have "unsettled False c" by simp
    from Cons.IH [OF unsettled_healthy [OF this] 2(3)] x 2(1) show ?thesis by simp
  qed
qed auto

lemma completed_unsettled:
  "begin_recovery reason c = (True, c') \<Longrightarrow> nas_recovery_reason reason \<Longrightarrow> unsettled False (finish_automatic t None c')"
  by (auto simp: begin_recovery_def unsettled_def finish_automatic_def conclude_def defer_contention_def split: if_splits)

text \<open>The count of refusals is never negative.\<close>

lemma refused_kept:
  assumes "0 \<le> mc_refused c"
  shows "0 \<le> mc_refused (snd (observe t s c))" "0 \<le> mc_refused (finish_automatic t e c)"
    "0 \<le> mc_refused (snd (observe_failure t r c))"
proof -
  show f: "0 \<le> mc_refused (snd (observe_failure t r c))" for r
    using assms by (auto simp: observe_failure_def schedule_retry_def Let_def)
  have failing: "0 \<le> mc_refused (snd (observe t (SawFailure a r) c))" for a r
    using f [of r] by (simp add: observe_def split_def)
  show "0 \<le> mc_refused (snd (observe t s c))"
    using assms failing by (cases s) (simp_all add: observe_def observe_healthy_def observe_unknown_def observe_pending_def
        observe_stopped_def Let_def)
  show "0 \<le> mc_refused (finish_automatic t e c)"
    using assms by (auto simp: finish_automatic_def conclude_def defer_contention_def schedule_retry_def Let_def
        split: option.split)
qed

lemma refused_observes: "0 \<le> mc_refused c \<Longrightarrow> 0 \<le> mc_refused (observes obs c)"
  by (induction obs arbitrary: c) (auto simp: refused_kept)

text \<open>C20: a failing gateway is not given up. Let a full recovery begin, and time out; or complete, after which the
  rounds confirm nothing, in any number (six unreadable ones end the confirmation, and the controller is left
  failed with nothing scheduled), and then a round finds the gateway failing. Either way a next attempt is
  scheduled within 15 minutes, and however many rounds stay inconclusive, the first failing round at or after that
  time begins the recovery; of a controller that refuses connections, which is confirmed by two rounds, the second.\<close>

theorem failed_recovery_is_retried:
  assumes "begin_recovery reason b = (True, c)" and "nas_recovery_reason reason" and "0 \<le> mc_refused b" and "0 < now"
    and "(recovery_timeout (Some e) \<and> \<not> oe_busy e \<and> c0 = finish_automatic now (Some e) c)
      \<or> (confirms_nothing False (map snd unsure) \<and> nas_recovery_reason r0
         \<and> c0 = snd (observe_failure now r0 (observes unsure (finish_automatic t None c))))"
    and "\<forall>x \<in> set obs. inconclusive (mc_retry_at c0) x"
    and "c1 = observes obs c0"
    and "nas_recovery_reason r" and "mc_retry_at c0 \<le> later" and "c2 = snd (observe_failure later r c1)"
  shows "mc_retry_at c0 \<le> now + 15 * minutes
    \<and> (r \<noteq> NASControllerRefused \<longrightarrow> fst (observe_failure later r c1) \<and> fst (begin_recovery r c2))
    \<and> (r = NASControllerRefused \<longrightarrow>
         fst (observe_failure later' r c2) \<and> fst (begin_recovery r (snd (observe_failure later' r c2))))"
proof -
  have begun: "mc_attempted c" "mc_reason c = reason" "mc_refused c = mc_refused b"
    using assms(1) by (auto simp: begin_recovery_def split: if_splits)
  have "\<exists>u. waiting u c0 \<and> u \<le> now + 15 * minutes"
    using assms(5)
  proof (elim disjE conjE)
    assume "confirms_nothing False (map snd unsure)" "nas_recovery_reason r0"
      "c0 = snd (observe_failure now r0 (observes unsure (finish_automatic t None c)))"
    with unsettled_observes [OF completed_unsettled [OF assms(1,2)]] unsettled_fails [OF _ _ assms(4)]
    show ?thesis by blast
  qed (use timed_out_waits [of c e now] begun assms(2,4) in simp)
  then obtain u where u: "waiting u c0" "u \<le> now + 15 * minutes" by blast
  then have at: "mc_retry_at c0 = u" by (simp add: waiting_def)
  with waiting_observes [OF u(1)] assms(6,7) have w: "waiting u c1" by simp
  have "0 \<le> mc_refused c0" using assms(3,5) begun by (auto simp: refused_kept refused_observes)
  then have "0 \<le> mc_refused c1" using assms(7) refused_observes by simp
  with waiting_begins [OF w] waiting_begins_refused [OF w] assms(8-10) at u(2) show ?thesis
    by (auto simp: immediate_reason_def)
qed

subsection \<open>dnsmasq\<close>

datatype dnsmasq_event = DNSMasqBegan | DNSMasqDone | DNSMasqSaw dnsmasq_sample

text \<open>Runs of dnsmasq's controller; samples taken while its operation runs are ignored.\<close>

inductive dnsmasq_run :: "dnsmasq_event list \<Rightarrow> dnsmasq_ctl \<Rightarrow> bool" where
  dnsmasq_start: "dnsmasq_run [] new_dnsmasq_ctl"
| dnsmasq_saw: "dnsmasq_run (DNSMasqSaw s # h) (snd (observe_dnsmasq s c))"
    if "dnsmasq_run h c" and "\<not> dc_active c"
| dnsmasq_ignored: "dnsmasq_run h (snd (observe_dnsmasq s c))" if "dnsmasq_run h c" and "dc_active c"
| dnsmasq_began: "dnsmasq_run (DNSMasqBegan # h) c'" if "dnsmasq_run h c" and "dnsmasq_begin c = (True, c')"
| dnsmasq_done: "dnsmasq_run (DNSMasqDone # h) (dnsmasq_finish e c)" if "dnsmasq_run h c" and "dc_active c"

primrec incident_open :: "dnsmasq_event list \<Rightarrow> bool" where
  "incident_open [] = False"
| "incident_open (e # h) =
     (case e of
        DNSMasqBegan \<Rightarrow> True
      | DNSMasqSaw DNSMasqHealthy \<Rightarrow> incident_open h \<and> take 1 h \<noteq> [DNSMasqSaw DNSMasqHealthy]
      | _ \<Rightarrow> incident_open h)"

definition dnsmasq_inv :: "dnsmasq_event list \<Rightarrow> dnsmasq_ctl \<Rightarrow> bool" where
  "dnsmasq_inv h c \<longleftrightarrow>
     (dc_attempted c \<longleftrightarrow> incident_open h) \<and> (dc_active c \<longrightarrow> dc_attempted c \<and> dc_healthy c = 0)
     \<and> (dc_attempted c \<longrightarrow> dc_healthy c = (if take 1 h = [DNSMasqSaw DNSMasqHealthy] then 1 else 0))"

lemma dnsmasq_run_inv: "dnsmasq_run h c \<Longrightarrow> dnsmasq_inv h c"
proof (induction rule: dnsmasq_run.induct)
  case dnsmasq_start
  then show ?case by (simp add: dnsmasq_inv_def new_dnsmasq_ctl_def)
next
  case (dnsmasq_saw h c s)
  then show ?case
    by (cases s) (auto simp: dnsmasq_inv_def observe_dnsmasq_def dnsmasq_healthy_def dnsmasq_unknown_def
        dnsmasq_missing_def healthy_confirmations_def Let_def)
next
  case (dnsmasq_ignored h c s)
  then show ?case
    by (cases s) (auto simp: dnsmasq_inv_def observe_dnsmasq_def dnsmasq_healthy_def dnsmasq_unknown_def dnsmasq_missing_def)
next
  case (dnsmasq_began h c c')
  then show ?case by (auto simp: dnsmasq_inv_def dnsmasq_begin_def split: if_splits)
next
  case (dnsmasq_done h c e)
  then show ?case by (auto simp: dnsmasq_inv_def dnsmasq_finish_def split: option.splits)
qed

lemma dnsmasq_begins_closed: "dnsmasq_run h' c' \<Longrightarrow> h' = h1 @ DNSMasqBegan # h \<Longrightarrow> \<not> incident_open h"
proof (induction arbitrary: h1 rule: dnsmasq_run.induct)
  case (dnsmasq_began h0 c c')
  show ?case
  proof (cases h1)
    case Nil
    with dnsmasq_began dnsmasq_run_inv [OF dnsmasq_began.hyps(1)] show ?thesis
      by (auto simp: dnsmasq_inv_def dnsmasq_begin_def split: if_splits)
  next
    case (Cons x h1')
    with dnsmasq_began show ?thesis by simp
  qed
qed (auto simp: Cons_eq_append_conv)

lemma incident_closed:
  "\<not> incident_open (h @ DNSMasqBegan # h') \<Longrightarrow>
     \<exists>g1 g2. h = g1 @ DNSMasqSaw DNSMasqHealthy # DNSMasqSaw DNSMasqHealthy # g2"
proof (induction h)
  case (Cons e h)
  show ?case
  proof (cases "incident_open (h @ DNSMasqBegan # h')")
    case True
    with Cons.prems have "e = DNSMasqSaw DNSMasqHealthy" "take 1 (h @ DNSMasqBegan # h') = [DNSMasqSaw DNSMasqHealthy]"
      by (auto split: dnsmasq_event.splits dnsmasq_sample.splits)
    then show ?thesis by (cases h) (auto intro: exI [of _ "[]"])
  next
    case False
    with Cons.IH show ?thesis by (metis append_Cons)
  qed
qed simp

text \<open>C21: dnsmasq is restarted automatically once per incident: between two automatic restarts its DHCP service was seen
  healthy twice in a row, samples taken while a restart runs not counted.\<close>

theorem dnsmasq_restarted_once_per_incident:
  assumes "dnsmasq_run (h1 @ DNSMasqBegan # h2 @ DNSMasqBegan # h3) c"
  shows "\<exists>g1 g2. h2 = g1 @ DNSMasqSaw DNSMasqHealthy # DNSMasqSaw DNSMasqHealthy # g2"
  using dnsmasq_begins_closed [OF assms refl] by (rule incident_closed)

subsection \<open>The properties on a sample run\<close>

text \<open>A gateway that is meant to run and has no runtime state, its recovery timing out once.\<close>

definition down_status :: gateway_status where
  "down_status =
     \<lparr>gs_gateway = ''stopped'', gs_runtime_state = ''none'', gs_desired_running = True, gs_interface = ''eth0'',
      gs_lan_ip = ''192.168.2.2'', gs_data_plane = ''tun-iif-route'', gs_routing = ''not_applied'', gs_routing_error = None,
      gs_dhcp = ''stopped'', gs_dhcp_enabled = True, gs_dns = ''stopped'', gs_local_dns = ''stopped'', gs_mihomo = ''stopped'',
      gs_mihomo_error = None, gs_tun = ''stopped'', gs_tun_interface = [], gs_tun_error = None, gs_nftables = ''not_required'',
      gs_forwarding = ''unknown'', gs_client_count = 0, gs_dns_ipv6 = False, gs_tun_ipv6_requested = ''off'',
      gs_ipv6_takeover = ''unsupported''\<rparr>"

definition down_round :: "time \<Rightarrow> round_input" where
  "down_round t = \<lparr>ri_now = t, ri_later = t, ri_mode = Some ''same_lan'', ri_busy = Some False, ri_status = Some down_status,
     ri_check = ProbeUnknown, ri_still_busy = Some False, ri_stage = Some StIdle\<rparr>"

definition timed_out :: op_error where
  "timed_out = \<lparr>oe_text = ''stop smartdns'', oe_deadline = True, oe_net_timeout = False, oe_busy = False, oe_unhealthy = False\<rparr>"

lemma down_round_fails: "mihomo_round text_of True (down_round t) p = (SawFailure ''recover-gateway'' GatewayIncomplete, p)"
  by (simp add: mihomo_round_def down_round_def down_status_def automatic_recovery_action_def recovery_stage_allowed_def
      same_wifi_mode_def Let_def)

lemma timed_out_timeout: "recovery_timeout (Some timed_out)" "\<not> oe_busy timed_out"
proof -
  show "recovery_timeout (Some timed_out)" by code_simp
qed (simp add: timed_out_def)

definition down_ctl :: "recovery_ctl" where
  "down_ctl = new_recovery_ctl\<lparr>mc_phase := WatchObserving, mc_reason := GatewayIncomplete\<rparr>"

definition tried_ctl :: recovery_ctl where
  "tried_ctl = snd (begin_recovery GatewayIncomplete down_ctl)"

definition failed_ctl :: recovery_ctl where
  "failed_ctl = finish_automatic 12 (Some timed_out) tried_ctl"

lemma tried_ctl_fields:
  "begin_recovery GatewayIncomplete down_ctl = (True, tried_ctl)" "mc_attempted tried_ctl" "mc_active tried_ctl"
  "mc_reason tried_ctl = GatewayIncomplete" "mc_retries tried_ctl = 0"
  by (simp_all add: tried_ctl_def down_ctl_def new_recovery_ctl_def begin_recovery_def)

lemma retry_delay_1: "retry_delay 1 = 30 * seconds"
  by (simp add: retry_delay_eq seconds_def minutes_def)

lemma failed_ctl_eq:
  "failed_ctl = tried_ctl\<lparr>mc_active := False, mc_awaiting := False, mc_phase := WatchFailed,
     mc_error := OperationError timed_out, mc_retries := 1, mc_retry_at := 12 + 30 * seconds\<rparr>"
  using timed_out_timeout tried_ctl_fields
  by (simp add: failed_ctl_def finish_automatic_def conclude_def defer_contention_def schedule_retry_def
      nas_recovery_reason_def retry_delay_1 Let_def)

lemma first_attempt:
  "watch_run text_of True 1 [EvBegan 11]
     \<lparr>ww_ctl = tried_ctl, ww_probe = new_dns_probe, ww_lock = HeldAuto ''recover-gateway'', ww_next = None, ww_clock = 11\<rparr>"
proof -
  have "evaluate_mihomo text_of True (down_round 10) (ww_ctl (new_watch 1)) (ww_probe (new_watch 1))
      = (Some (''recover-gateway'', GatewayIncomplete), down_ctl, new_dns_probe)"
    by (simp add: evaluate_mihomo_def down_round_fails observe_def observe_failure_def new_watch_def new_recovery_ctl_def
        down_ctl_def Let_def)
  from watch_round [OF watch_start _ _ _ _ this]
  have r: "watch_run text_of True 1 []
      \<lparr>ww_ctl = down_ctl, ww_probe = new_dns_probe, ww_lock = LockFree,
       ww_next = Some (''recover-gateway'', GatewayIncomplete), ww_clock = 10\<rparr>"
    by (simp add: new_watch_def new_recovery_ctl_def down_round_def idle_event_def down_ctl_def)
  have "probe_reset new_dns_probe = new_dns_probe" by (simp add: probe_reset_def new_dns_probe_def)
  then have "try_begin 11 None
      \<lparr>ww_ctl = down_ctl, ww_probe = new_dns_probe, ww_lock = LockFree,
       ww_next = Some (''recover-gateway'', GatewayIncomplete), ww_clock = 10\<rparr>
      = ([EvBegan 11], \<lparr>ww_ctl = tried_ctl, ww_probe = new_dns_probe, ww_lock = HeldAuto ''recover-gateway'',
           ww_next = None, ww_clock = 11\<rparr>)"
    by (simp add: try_begin_def tried_ctl_fields Let_def)
  from watch_begin [OF r _ this] show ?thesis by simp
qed

lemma second_attempt: "\<exists>w. watch_run text_of True 1 [EvBegan (40 * seconds), EvBegan 11] w"
proof -
  let ?t = "40 * seconds" and ?w = "\<lambda>l. \<lparr>ww_ctl = failed_ctl, ww_probe = new_dns_probe, ww_lock = l, ww_next = None, ww_clock = 12\<rparr>"
  have "operation_probe k new_dns_probe = new_dns_probe" for k
    by (simp add: operation_probe_def probe_reset_def new_dns_probe_def)
  then have "watch_run text_of True 1 [EvBegan 11] (?w HeldOther)"
    using watch_done [OF first_attempt, where now = 12 and kind = "''recover-gateway''" and e = "Some timed_out"] timed_out_timeout(2)
    by (simp add: failed_ctl_def contention_event_def defer_contention_def)
  from watch_release [OF this, where kind = "''restart-mihomo''"] have f: "watch_run text_of True 1 [EvBegan 11] (?w LockFree)"
    by (simp add: operation_probe_def)
  let ?c = "snd (observe_failure ?t GatewayIncomplete failed_ctl)"
  have w: "waiting (12 + 30 * seconds) failed_ctl"
    using tried_ctl_fields by (simp add: waiting_def failed_ctl_eq seconds_def)
  from waiting_begins [OF w, of ?t GatewayIncomplete]
  have b: "fst (observe_failure ?t GatewayIncomplete failed_ctl)" "fst (begin_recovery GatewayIncomplete ?c)"
    by (simp_all add: immediate_reason_def nas_recovery_reason_def seconds_def)
  then have "evaluate_mihomo text_of True (down_round ?t) failed_ctl new_dns_probe
      = (Some (''recover-gateway'', GatewayIncomplete), ?c, new_dns_probe)"
    by (cases "observe_failure ?t GatewayIncomplete failed_ctl")
       (simp add: evaluate_mihomo_def down_round_fails observe_def, simp add: down_round_def)
  then have r: "watch_run text_of True 1 (idle_event ?c @ [EvBegan 11])
      \<lparr>ww_ctl = ?c, ww_probe = new_dns_probe, ww_lock = LockFree,
       ww_next = Some (''recover-gateway'', GatewayIncomplete), ww_clock = ?t\<rparr>"
    using watch_round [OF f, where i = "down_round ?t" and act = "Some (''recover-gateway'', GatewayIncomplete)" and c = ?c
        and p = new_dns_probe] w
    by (simp add: down_round_def waiting_def seconds_def)
  have "mc_phase ?c = WatchObserving"
    using w by (simp add: observe_failure_def waiting_def seconds_def Let_def)
  with r have r: "watch_run text_of True 1 [EvBegan 11]
      \<lparr>ww_ctl = ?c, ww_probe = new_dns_probe, ww_lock = LockFree,
       ww_next = Some (''recover-gateway'', GatewayIncomplete), ww_clock = ?t\<rparr>"
    by (simp add: idle_event_def)
  obtain d where "begin_recovery GatewayIncomplete ?c = (True, d)"
    using b(2) by (cases "begin_recovery GatewayIncomplete ?c") auto
  then have "\<exists>w'. try_begin ?t None
      \<lparr>ww_ctl = ?c, ww_probe = new_dns_probe, ww_lock = LockFree,
       ww_next = Some (''recover-gateway'', GatewayIncomplete), ww_clock = ?t\<rparr> = ([EvBegan ?t], w')"
    by (simp add: try_begin_def Let_def)
  with watch_begin [OF r] show ?thesis by fastforce
qed

lemma recoveries_are_throttled_witness: "(11::int) + min (15 * minutes) (30 * seconds * 2 ^ length ([] :: int list)) \<le> 40 * seconds"
proof -
  obtain w where "watch_run (\<lambda>_. []) True 1 ([] @ EvBegan (40 * seconds) # [EvBegan 11]) w" using second_attempt by auto
  from recoveries_are_throttled [OF this] show ?thesis by simp
qed

lemma recovery_needs_evidence_witness: "shows_failure (\<lambda>_. []) down_status GatewayIncomplete"
proof -
  have "evaluate_mihomo (\<lambda>_. []) True (down_round 10) (ww_ctl (new_watch 1)) (ww_probe (new_watch 1))
      = (Some (''recover-gateway'', GatewayIncomplete), down_ctl, new_dns_probe)"
    by (simp add: evaluate_mihomo_def down_round_fails observe_def observe_failure_def new_watch_def new_recovery_ctl_def
        down_ctl_def Let_def)
  from recovery_needs_evidence [OF watch_start this] show ?thesis by (auto simp: down_round_def)
qed

text \<open>A recovery that completed, six unreadable rounds, and a gateway that is then seen failing.\<close>

definition blind_rounds :: "(time \<times> sample) list" where
  "blind_rounds = map (\<lambda>t. (t, SawUnknown)) [20, 30, 40, 50, 60, 70]"

lemma blind_stranded:
  "mc_phase (observes blind_rounds (finish_automatic 12 None tried_ctl)) = WatchFailed"
  "mc_retry_at (observes blind_rounds (finish_automatic 12 None tried_ctl)) = 0"
  by (simp_all add: blind_rounds_def observe_def observe_unknown_def finish_automatic_def conclude_def defer_contention_def
      tried_ctl_def down_ctl_def new_recovery_ctl_def begin_recovery_def unknown_limit_def nas_recovery_reason_def)

lemma failed_recovery_is_retried_witness:
  "fst (begin_recovery DNSMissing (snd (observe_failure (12 + 15 * minutes) DNSMissing
     (snd (observe 20 SawUnknown failed_ctl)))))
   \<and> fst (begin_recovery DNSMissing (snd (observe_failure (80 + 15 * minutes) DNSMissing
       (snd (observe_failure 80 GatewayIncomplete (observes blind_rounds (finish_automatic 12 None tried_ctl)))))))"
proof -
  have nas: "nas_recovery_reason GatewayIncomplete" "nas_recovery_reason DNSMissing" "0 \<le> mc_refused down_ctl"
    by (simp_all add: nas_recovery_reason_def down_ctl_def new_recovery_ctl_def)
  let ?c0 = "snd (observe_failure 80 GatewayIncomplete (observes blind_rounds (finish_automatic 12 None tried_ctl)))"
  have due: "mc_retry_at failed_ctl \<le> 12 + 15 * minutes"
    by (simp add: failed_ctl_eq seconds_def minutes_def)
  have quiet: "confirms_nothing False (map snd blind_rounds)" by (simp add: blind_rounds_def)
  obtain u where "waiting u ?c0" "u \<le> 80 + 15 * minutes"
    using unsettled_observes [OF completed_unsettled [OF tried_ctl_fields(1) nas(1)] quiet, of 12] unsettled_fails [OF _ nas(1), of _ _ 80]
    by force
  then have soon: "mc_retry_at ?c0 \<le> 80 + 15 * minutes" by (simp add: waiting_def)
  have "fst (begin_recovery DNSMissing (snd (observe_failure (12 + 15 * minutes) DNSMissing
      (observes [(20, SawUnknown)] failed_ctl))))"
    by (rule failed_recovery_is_retried [where e = timed_out, OF tried_ctl_fields(1) nas(1,3) _ disjI1 _ refl nas(2) due refl,
          THEN conjunct2, THEN conjunct1, THEN mp, THEN conjunct2])
      (simp_all add: timed_out_timeout failed_ctl_def inconclusive_def)
  moreover have "fst (begin_recovery DNSMissing (snd (observe_failure (80 + 15 * minutes) DNSMissing (observes [] ?c0))))"
    by (rule failed_recovery_is_retried [where now = 80 and t = 12 and unsure = blind_rounds and ?r0.0 = GatewayIncomplete,
          OF tried_ctl_fields(1) nas(1,3) _ disjI2 _ refl nas(2) soon refl,
          THEN conjunct2, THEN conjunct1, THEN mp, THEN conjunct2])
      (simp_all add: quiet nas)
  ultimately show ?thesis by simp
qed

lemma dnsmasq_restarted_once_per_incident_witness:
  "\<exists>g1 g2. [DNSMasqSaw DNSMasqHealthy, DNSMasqSaw DNSMasqHealthy, DNSMasqDone]
     = g1 @ DNSMasqSaw DNSMasqHealthy # DNSMasqSaw DNSMasqHealthy # g2"
proof -
  let ?c1 = "snd (dnsmasq_begin new_dnsmasq_ctl)"
  let ?c2 = "dnsmasq_finish None ?c1"
  let ?c3 = "snd (observe_dnsmasq DNSMasqHealthy ?c2)"
  let ?c4 = "snd (observe_dnsmasq DNSMasqHealthy ?c3)"
  have b: "dnsmasq_begin new_dnsmasq_ctl = (True, ?c1)" "dc_active ?c1" "\<not> dc_active ?c2" "\<not> dc_active ?c3"
      "dnsmasq_begin ?c4 = (True, snd (dnsmasq_begin ?c4))"
    by code_simp+
  have "dnsmasq_run [DNSMasqBegan, DNSMasqSaw DNSMasqHealthy, DNSMasqSaw DNSMasqHealthy, DNSMasqDone, DNSMasqBegan]
      (snd (dnsmasq_begin ?c4))"
    by (rule dnsmasq_began [OF dnsmasq_saw [OF dnsmasq_saw [OF dnsmasq_done [OF dnsmasq_began [OF dnsmasq_start b(1)] b(2)]
          b(3)] b(4)] b(5)])
  from dnsmasq_restarted_once_per_incident [of "[]" "[DNSMasqSaw DNSMasqHealthy, DNSMasqSaw DNSMasqHealthy, DNSMasqDone]" "[]"]
    this show ?thesis by simp
qed

end
