(* ===== verification/DnsRender.thy ===== *)
theory DnsRender
  imports GoEncoding ConfigReload
begin

text \<open>
  \<open>internal/smartdns/config.go\<close>: the configuration of the LAN's DNS server, and
  \<open>internal/controlapi/dns_runtime.go\<close>, which reads it back for the control API. A text is its list of lines,
  a line its words. The rendered mihomo configuration, YAML, SHA-256 and the URL parser are parameters.
  \<open>sort.Slice\<close> leaves open the order of devices with equal addresses and of hosts with equal domains; they
  stay in their order here.
\<close>

subsection \<open>Parameters\<close>

text \<open>A YAML node as far as the code looks into it\<close>

datatype yaml_node =
    YScalar string
  | YSequence "yaml_node list"
  | YMapping "(yaml_node \<times> yaml_node) list"
  | YAlias string

record smartdns_lib =
  sd_url :: url_reader
  sd_mihomo :: "config \<Rightarrow> string option"
  sd_yaml :: "string \<Rightarrow> yaml_node option"
  sd_sha :: "string \<Rightarrow> string"
  sd_wide :: "nat \<Rightarrow> bool"

datatype smartdns_error =
    ListenNotIPv4
  | ListenPortInvalid
  | ResolverConfigInvalid dns_error
  | NoRealUpstream
  | ResolverListUnreadable
  | MihomoNotRendered
  | HostsUnparsable
  | ConfigNotMapping
  | HostsNotMapping

definition gateway_group :: string where "gateway_group = ''opensurge-gateway''"
definition resolver_group :: string where "resolver_group = ''opensurge-resolver''"
definition local_group :: string where "local_group = ''opensurge-local''"
definition mihomo_dns :: string where "mihomo_dns = ''127.0.0.1:1053''"
definition smartdns_resolver_addr :: string where "smartdns_resolver_addr = ''127.0.0.1:5354''"
definition smartdns_proxy_port :: int where "smartdns_proxy_port = 7854"
definition local_dns_port :: int where "local_dns_port = 5353"

abbreviation words :: "string list \<Rightarrow> string" where "words \<equiv> join '' ''"

text \<open>\<open>net.JoinHostPort\<close>\<close>

definition join_host_port :: "string \<Rightarrow> string \<Rightarrow> string" where
  "join_host_port host port =
     (if CHR '':'' \<in> set host then ''['' @ host @ '']:'' @ port else host @ '':'' @ port)"

subsection \<open>Resolvers\<close>

definition real_resolver :: "config \<Rightarrow> string \<Rightarrow> string option" where
  "real_resolver cfg raw =
     (let ip = parse_ip (trim_space raw); value = ipv4_string (to4 ip) in
      if ip = [] \<or> to4 ip = [] then None
      else if ip_loopback ip \<or> ip_unspecified ip \<or> ip_multicast ip \<or> value = ''100.100.100.100''
        \<or> value = trim_space (dn_listen (cf_dns cfg)) \<or> value = trim_space (ga_lan_ip (cf_gateway cfg))
      then None else Some value)"

definition normalize_resolvers :: "string list \<Rightarrow> config \<Rightarrow> string list" where
  "normalize_resolvers values cfg = sort (remdups (List.map_filter (real_resolver cfg) values))"

definition system_resolvers :: "string \<Rightarrow> config \<Rightarrow> string list" where
  "system_resolvers content cfg =
     normalize_resolvers
       (List.map_filter
          (\<lambda>raw. case split_fields raw of [a, b] \<Rightarrow> if a = ''nameserver'' then Some b else None | _ \<Rightarrow> None)
          (split_on newline content)) cfg"

definition upstream_fallback :: "config \<Rightarrow> string \<Rightarrow> string list" where
  "upstream_fallback cfg listen =
     (let ip = parse_ip (trim_space (ga_upstream_gateway (cf_gateway cfg))) in
      if ip \<noteq> [] \<and> to4 ip \<noteq> [] \<and> ip_text ip \<noteq> listen \<and> ip_text ip \<noteq> ''100.100.100.100''
      then [ipv4_string (to4 ip)] else [])"

definition parsed_endpoint :: "smartdns_lib \<Rightarrow> config \<Rightarrow> resolver_upstream \<Rightarrow> resolver_endpoint" where
  "parsed_endpoint lib cfg up =
     (case parse_resolver_upstream (sd_url lib) up cfg of
        Inl _ \<Rightarrow> \<lparr>re_scheme = [], re_target = [], re_hostname = [], re_bootstrap = [], re_encrypted = False\<rparr>
      | Inr ep \<Rightarrow> ep)"

subsection \<open>The parts of the text\<close>

definition gateway_options :: "string list" where
  "gateway_options =
     [''-group'', gateway_group, ''-no-speed-check'', ''-no-cache'', ''-no-dualstack-selection'', ''-force-aaaa-soa'',
      ''-no-serve-expired'']"

definition resolver_options :: "string list" where
  "resolver_options = [''-group'', resolver_group, ''-force-aaaa-soa'']"

definition view_options :: "string \<Rightarrow> string list" where
  "view_options view = (if view = dns_view_gateway then gateway_options else resolver_options)"

definition default_view :: "config \<Rightarrow> string" where
  "default_view cfg =
     (if ga_mode (cf_gateway cfg) = isolated_mode \<or> ga_mode (cf_gateway cfg) = same_wifi_mode
      then dns_view_gateway else dns_view_resolver)"

definition custom_mode :: "config \<Rightarrow> bool" where
  "custom_mode cfg \<longleftrightarrow> dn_mode (cf_dns cfg) = ''custom''"

definition head_lines :: "smartdns_lib \<Rightarrow> config \<Rightarrow> string list" where
  "head_lines lib cfg =
     (let d = cf_dns cfg in
      [words [''server-name'', ''opensurge'']]
      @ (if dn_proxy_enabled d
         then [words [''proxy-server'', ''socks5://127.0.0.1:'' @ int_text smartdns_proxy_port, ''-name'', ''opensurge-dns'']]
         else [])
      @ (if custom_mode cfg \<and> list_ex (\<lambda>u. re_encrypted (parsed_endpoint lib cfg u)) (dn_upstreams d)
         then [words [''ca-file'', ''/etc/ssl/certs/ca-certificates.crt'']] else []))"

definition group_lines :: "config \<Rightarrow> string list" where
  "group_lines cfg =
     [words [''log-level'', ''info''],
      words [''log-console'', ''yes''],
      words [''cache-size'', ''32768''],
      words [''max-reply-ip-num'', ''8''],
      words [''group-begin'', gateway_group, ''-inherit'', ''none''],
      words [''speed-check-mode'', ''none''],
      words [''dualstack-ip-selection'', ''no''],
      words [''serve-expired'', ''no''],
      ''group-end'',
      words [''group-begin'', local_group, ''-inherit'', ''none''],
      words [''speed-check-mode'', ''none''],
      words [''dualstack-ip-selection'', ''no''],
      words [''serve-expired'', ''no''],
      ''group-end'',
      words [''group-begin'', resolver_group, ''-inherit'', ''none''],
      words [''prefetch-domain'', ''yes''],
      words [''serve-expired'', ''yes''],
      words [''serve-expired-ttl'', ''600''],
      words [''serve-expired-reply-ttl'', ''3'']]
     @ (if dn_proxy_enabled (cf_dns cfg)
        then [words [''speed-check-mode'', ''none''], words [''response-mode'', ''fastest-response'']]
        else [words [''speed-check-mode'', ''tcp:443,tcp:80''], words [''response-mode'', ''fastest-ip'']])
     @ [words [''dualstack-ip-selection'', ''no''], ''group-end'']"

definition listen_address :: "config \<Rightarrow> string" where
  "listen_address cfg =
     (let l = trim_space (dn_listen (cf_dns cfg)) in if l = [] then trim_space (ga_lan_ip (cf_gateway cfg)) else l)"

definition listen_target :: "config \<Rightarrow> string" where
  "listen_target cfg = join_host_port (listen_address cfg) (int_text (dn_port (cf_dns cfg)))"

definition bind_lines :: "config \<Rightarrow> string list" where
  "bind_lines cfg =
     [words ([''bind'', listen_target cfg] @ view_options (default_view cfg)),
      words ([''bind-tcp'', listen_target cfg] @ view_options (default_view cfg))]
     @ (if dn_use_smartdns (cf_dns cfg)
        then [words ([''bind'', smartdns_resolver_addr] @ resolver_options),
              words ([''bind-tcp'', smartdns_resolver_addr] @ resolver_options)]
        else [])"

definition server_directive :: "string \<Rightarrow> string" where
  "server_directive scheme =
     (if scheme = ''https'' then ''server-https'' else if scheme = ''tls'' then ''server-tls''
      else if scheme = ''udp'' then ''server'' else if scheme = ''tcp'' then ''server-tcp'' else [])"

definition upstream_line :: "smartdns_lib \<Rightarrow> config \<Rightarrow> bool \<Rightarrow> resolver_upstream \<Rightarrow> string" where
  "upstream_line lib cfg has_encrypted up =
     (let ep = parsed_endpoint lib cfg up in
      words ([server_directive (re_scheme ep), re_target ep, ''-group'', resolver_group, ''-exclude-default-group'']
        @ (if re_encrypted ep
           then [''-host-ip'', re_bootstrap ep, ''-host-name'', re_hostname ep, ''-tls-host-verify'', re_hostname ep]
           else if has_encrypted then [''-fallback''] else [])
        @ (if dn_proxy_enabled (cf_dns cfg) then [''-proxy'', ''opensurge-dns''] else [])))"

definition server_line :: "string \<Rightarrow> string \<Rightarrow> string" where
  "server_line target grp = words [''server'', target, ''-group'', grp, ''-exclude-default-group'']"

definition server_lines :: "smartdns_lib \<Rightarrow> config \<Rightarrow> string list \<Rightarrow> string list" where
  "server_lines lib cfg resolvers =
     (let ups = dn_upstreams (cf_dns cfg);
          has_encrypted = list_ex (\<lambda>u. re_encrypted (parsed_endpoint lib cfg u)) ups in
      server_line mihomo_dns gateway_group
      # (if custom_mode cfg then map (upstream_line lib cfg has_encrypted) ups
         else map (\<lambda>r. server_line r resolver_group) resolvers))"

definition dhcp_should_serve :: "config \<Rightarrow> bool" where
  "dhcp_should_serve cfg \<longleftrightarrow> dh_enabled (cf_dhcp cfg) \<or> shares_lan (cf_gateway cfg)"

definition local_domain :: "config \<Rightarrow> string" where
  "local_domain cfg = trim_set (to_lower (trim_space (dh_domain (cf_dhcp cfg)))) ''.''"

definition local_lines :: "config \<Rightarrow> string list" where
  "local_lines cfg =
     (if dhcp_should_serve cfg then
        server_line (join_host_port ''127.0.0.1'' (int_text local_dns_port)) local_group
        # (if local_domain cfg \<noteq> [] then
             map (\<lambda>g. words [''domain-rules'', ''/'' @ local_domain cfg @ ''/'', ''-nameserver'', local_group, ''-no-cache'',
                             ''-no-serve-expired'', ''-group'', g]) [gateway_group, resolver_group]
           else [])
      else [])"

definition device_view :: "compiled_device \<Rightarrow> string" where
  "device_view d =
     (if cd_dns_view d = [] \<or> cd_dns_view d = dns_view_auto then
        (if cd_gateway_target d = target_upstream_router then dns_view_resolver else dns_view_gateway)
      else cd_dns_view d)"

definition client_line :: "compiled_device \<Rightarrow> string" where
  "client_line d = words ([''client-rules'', cd_ipv4 d @ ''/32''] @ view_options (device_view d))"

definition sanitize_local_name :: "string \<Rightarrow> string" where
  "sanitize_local_name raw =
     (let value = to_lower (trim_space raw) in
      if value = [] \<or> contains_any value ('' /'' @ [CHR 0x5C, CHR 0x09, CHR 0x0D, CHR 0x0A])
        \<or> has_prefix value ''.'' \<or> has_suffix value ''.''
      then [] else value)"

definition name_lines :: "config \<Rightarrow> managed_device \<Rightarrow> string list" where
  "name_lines cfg md =
     (let ip = parse_ip (trim_space (md_ipv4 md));
          own = sanitize_local_name (md_name md);
          name = (if own = [] then sanitize_local_name (md_id md) else own);
          address = ipv4_string (to4 ip) in
      if ip = [] \<or> to4 ip = [] \<or> name = [] then []
      else
        concat (map (\<lambda>g.
            words [''domain-rules'', ''/'' @ name @ ''/'', ''-address'', address, ''-group'', g]
            # (if local_domain cfg \<noteq> []
               then [words [''domain-rules'', ''/'' @ name @ ''.'' @ local_domain cfg @ ''/'', ''-address'', address, ''-group'', g]]
               else []))
          [gateway_group, resolver_group]))"

definition device_lines :: "config \<Rightarrow> string list" where
  "device_lines cfg =
     (case dp_bundle (cf_policy cfg) of
        None \<Rightarrow> []
      | Some b \<Rightarrow>
          map client_line (sort_key cd_ipv4 (cp_devices (pb_compiled b)))
          @ concat (map (name_lines cfg) (ps_devices (pb_policy b))))"

subsection \<open>Hosts of the mihomo configuration\<close>

text \<open>\<open>Value\<close> of a node\<close>

definition node_text :: "yaml_node \<Rightarrow> string" where
  "node_text n = (case n of YScalar s \<Rightarrow> s | YAlias s \<Rightarrow> s | _ \<Rightarrow> [])"

definition exact_host_domain :: "string \<Rightarrow> bool" where
  "exact_host_domain v \<longleftrightarrow>
     \<not> (v = [] \<or> has_prefix v ''*.'' \<or> has_prefix v ''+.''
        \<or> contains_any v ('' /'' @ [CHR 0x5C, CHR 0x09, CHR 0x0D, CHR 0x0A]))"

definition host_address :: "yaml_node \<Rightarrow> string option" where
  "host_address n =
     (case n of
        YScalar s \<Rightarrow>
          let ip = parse_ip (trim_space s) in
          if ip = [] \<or> to4 ip = [] then None else Some (ipv4_string (to4 ip))
      | _ \<Rightarrow> None)"

fun host_addresses :: "yaml_node list \<Rightarrow> string list option" where
  "host_addresses [] = Some []"
| "host_addresses (n # ns) =
     (case host_address n of
        None \<Rightarrow> None
      | Some a \<Rightarrow> map_option (\<lambda>as. a # as) (host_addresses ns))"

definition host_rule :: "yaml_node \<times> yaml_node \<Rightarrow> (string \<times> string list) option" where
  "host_rule e =
     (let domain = to_lower (trim_space (node_text (fst e)));
          values = (case snd e of YSequence ns \<Rightarrow> ns | n \<Rightarrow> [n]) in
      if \<not> exact_host_domain domain then None
      else
        (case host_addresses values of
           None \<Rightarrow> None
         | Some ips \<Rightarrow> if ips = [] then None else Some (domain, rev (remdups (rev ips)))))"

definition compatible_resolver_hosts :: "smartdns_lib \<Rightarrow> string \<Rightarrow> smartdns_error + (string \<times> string list) list" where
  "compatible_resolver_hosts lib rendered =
     (case sd_yaml lib rendered of
        None \<Rightarrow> Inl HostsUnparsable
      | Some (YMapping entries) \<Rightarrow>
          (case List.find (\<lambda>e. node_text (fst e) = ''hosts'') entries of
             None \<Rightarrow> Inr []
           | Some (_, YMapping hosts) \<Rightarrow> Inr (sort_key fst (List.map_filter host_rule hosts))
           | Some _ \<Rightarrow> Inl HostsNotMapping)
      | Some _ \<Rightarrow> Inl ConfigNotMapping)"

definition host_line :: "string \<times> string list \<Rightarrow> string" where
  "host_line r = words [''domain-rules'', ''/'' @ fst r @ ''/'', ''-address'', join '','' (snd r), ''-group'', resolver_group]"

subsection \<open>The whole text\<close>

definition cache_lines :: "smartdns_lib \<Rightarrow> config \<Rightarrow> string \<Rightarrow> string \<Rightarrow> string list" where
  "cache_lines lib cfg policy rendered =
     (let hashed = (if dn_proxy_enabled (cf_dns cfg) then policy @ [newline] @ rendered else policy);
          file = path_join (path_join (cf_runtime_dir cfg) ''smartdns-cache'')
                   (''resolver-'' @ hex_encode (sd_sha lib hashed) @ ''.cache'') in
      words [''cache-file'', quote_text (sd_wide lib) file]
      # (if custom_mode cfg \<and> \<not> dn_allow_plaintext (cf_dns cfg)
         then [words [''cache-persist'', ''yes''], words [''cache-checkpoint-time'', ''3600'']]
         else [words [''cache-persist'', ''no'']]))"

definition chosen_resolvers :: "config \<Rightarrow> string list \<Rightarrow> string list" where
  "chosen_resolvers cfg resolvers =
     (let rs = normalize_resolvers resolvers cfg in
      if \<not> custom_mode cfg \<and> rs = [] then upstream_fallback cfg (listen_address cfg) else rs)"

definition render_smartdns_with :: "smartdns_lib \<Rightarrow> config \<Rightarrow> string list \<Rightarrow> smartdns_error + string list" where
  "render_smartdns_with lib cfg resolvers =
     (let listen = parse_ip (listen_address cfg); rs = chosen_resolvers cfg resolvers in
      if listen = [] \<or> to4 listen = [] then Inl ListenNotIPv4
      else if dn_port (cf_dns cfg) \<le> 0 \<or> dn_port (cf_dns cfg) > 65535 then Inl ListenPortInvalid
      else
        (case validate_resolver_config (sd_url lib) cfg of
           Some e \<Rightarrow> Inl (ResolverConfigInvalid e)
         | None \<Rightarrow>
             if \<not> custom_mode cfg \<and> rs = [] then Inl NoRealUpstream
             else
               (case sd_mihomo lib cfg of
                  None \<Rightarrow> Inl MihomoNotRendered
                | Some rendered \<Rightarrow>
                    rbind (compatible_resolver_hosts lib rendered) (\<lambda>hosts.
                      let policy = head_lines lib cfg @ group_lines cfg @ bind_lines cfg @ server_lines lib cfg rs
                            @ local_lines cfg @ device_lines cfg @ map host_line hosts in
                      Inr (policy @ cache_lines lib cfg (text_of_lines policy) rendered)))))"

text \<open>\<open>RenderConfig\<close>, \<open>resolv_conf\<close> being the content of \<open>/etc/resolv.conf\<close>\<close>

definition render_smartdns :: "smartdns_lib \<Rightarrow> config \<Rightarrow> string option \<Rightarrow> smartdns_error + string list" where
  "render_smartdns lib cfg resolv_conf =
     (if custom_mode cfg then render_smartdns_with lib cfg []
      else
        (case resolv_conf of
           None \<Rightarrow> Inl ResolverListUnreadable
         | Some content \<Rightarrow> render_smartdns_with lib cfg (system_resolvers content cfg)))"

subsection \<open>Reading it back\<close>

record dns_runtime =
  nr_configured :: bool
  nr_listen :: string
  nr_view :: string
  nr_gateway :: string
  nr_resolvers :: "string list"
  nr_proxy :: string
  nr_mihomo :: string

definition empty_runtime :: dns_runtime where
  "empty_runtime = \<lparr>nr_configured = False, nr_listen = [], nr_view = [], nr_gateway = [], nr_resolvers = [],
     nr_proxy = [], nr_mihomo = []\<rparr>"

fun contains_group :: "string list \<Rightarrow> string \<Rightarrow> bool" where
  "contains_group (a # b # rest) g \<longleftrightarrow> (a = ''-group'' \<and> b = g) \<or> contains_group (b # rest) g"
| "contains_group _ g \<longleftrightarrow> False"

definition runtime_fields :: "string list \<Rightarrow> dns_runtime \<Rightarrow> dns_runtime" where
  "runtime_fields parts s =
     (case parts of
        k # a # rest \<Rightarrow>
          if has_prefix k ''#'' then s
          else if k = ''bind'' then
            (if a = smartdns_resolver_addr then s\<lparr>nr_mihomo := a\<rparr>
             else
               let s1 = s\<lparr>nr_listen := a\<rparr>;
                   s2 = (if contains_group parts resolver_group then s1\<lparr>nr_view := ''resolver''\<rparr> else s1) in
               if contains_group parts gateway_group then s2\<lparr>nr_view := ''gateway''\<rparr> else s2)
          else if k \<in> {''server'', ''server-tcp'', ''server-tls'', ''server-https''} then
            (if contains_group parts gateway_group then s\<lparr>nr_gateway := a\<rparr>
             else if contains_group parts resolver_group then
               s\<lparr>nr_resolvers := nr_resolvers s @
                   [if k = ''server-tcp'' then ''tcp://'' @ a else if k = ''server-tls'' then ''tls://'' @ a else a]\<rparr>
             else s)
          else if k = ''proxy-server'' \<and> length parts = 4 \<and> parts ! 2 = ''-name'' \<and> parts ! 3 = ''opensurge-dns''
          then s\<lparr>nr_proxy := a\<rparr>
          else s
      | _ \<Rightarrow> s)"

definition runtime_line :: "string \<Rightarrow> dns_runtime \<Rightarrow> dns_runtime" where
  "runtime_line line = runtime_fields (split_fields (trim_space line))"

definition parse_dns_runtime :: "string \<Rightarrow> dns_runtime" where
  "parse_dns_runtime content =
     (let s = fold runtime_line (split_on newline content) empty_runtime in
      s\<lparr>nr_configured := nr_listen s \<noteq> [] \<and> nr_view s \<noteq> [] \<and> nr_gateway s \<noteq> [] \<and> nr_resolvers s \<noteq> []\<rparr>)"

end
