(* ===== verification/DnsRuntime.thy ===== *)
theory DnsRuntime
  imports DnsRender
begin

text \<open>
  What the control API reads back from the DNS configuration that was rendered: line by line, the fold of
  \<open>parseDNSRuntime\<close> over the parts of the text.
\<close>

subsection \<open>Words of a line\<close>

abbreviation solid :: "string \<Rightarrow> bool" where
  "solid w \<equiv> w \<noteq> [] \<and> list_all printable w"

lemma fields_from_printable: "list_all printable w \<Longrightarrow> fields_from acc (w @ t) = fields_from (rev w @ acc) t"
proof (induction w arbitrary: acc)
  case (Cons c w)
  then have "space_len (c # w @ t) = 0" using space_len_printable [of "c # w @ t"] by simp
  with Cons show ?case by (simp add: fields_from_eval)
qed simp

lemma space_len_blank: "space_len (CHR '' '' # s) = 1"
  by (simp add: space_len_def is_space_ascii_def)

lemma fields_from_word: "solid w \<Longrightarrow> fields_from [] (w @ CHR '' '' # t) = w # fields_from [] t"
  by (simp add: fields_from_printable fields_from_eval space_len_blank)

lemma split_fields_words: "list_all solid ws \<Longrightarrow> split_fields (words ws) = ws"
proof (induction ws rule: induct_list012)
  case (2 w)
  then show ?case
    using fields_from_printable [of w "[]" "[]"] by (simp add: split_fields_def fields_from_eval)
next
  case (3 v w ws)
  then show ?case using fields_from_word [of v] by (simp add: split_fields_def)
qed (simp add: split_fields_def fields_from_eval)

lemma words_ends: "ws \<noteq> [] \<Longrightarrow> list_all solid ws \<Longrightarrow> words ws \<noteq> [] \<and> printable (hd (words ws)) \<and> printable (last (words ws))"
proof (induction ws rule: induct_list012)
  case (2 w)
  then show ?case by (auto simp: list_all_iff)
next
  case (3 v w ws)
  then have "words (w # ws) \<noteq> [] \<and> printable (hd (words (w # ws))) \<and> printable (last (words (w # ws)))" by simp
  moreover have "v \<noteq> []" "printable (hd v)" using 3(4) by (auto simp: list_all_iff)
  ultimately show ?case by simp
qed simp

lemma fields_of_words: "list_all solid ws \<Longrightarrow> split_fields (trim_space (words ws)) = ws"
  using split_fields_words [of ws] words_ends [of ws] trim_space_ends [of "words ws"]
  by (cases "ws = []") simp_all

lemma newline_not_printable [simp]: "\<not> printable newline"
  by (simp add: printable_def)

lemma newline_not_in_words: "list_all (\<lambda>w. newline \<notin> set w) ws \<Longrightarrow> newline \<notin> set (words ws)"
  by (induction ws rule: induct_list012) auto

lemma newline_not_solid: "list_all printable w \<Longrightarrow> newline \<notin> set w"
  by (auto simp: list_all_iff)

text \<open>The first word of a line is read whatever follows.\<close>

lemma trim_left_rev_stops: "t \<noteq> [] \<Longrightarrow> printable (hd t) \<Longrightarrow> \<exists>s'. trim_left_rev (s @ t) = s' @ t"
proof (induction s rule: length_induct)
  case (1 s)
  let ?n = "space_len_rev (s @ t)"
  show ?case
  proof (cases "?n = 0")
    case False
    have "?n \<le> length s"
    proof (rule ccontr)
      assume "\<not> ?n \<le> length s"
      then have "hd t \<in> set (take ?n (s @ t))" using 1(2) by (cases t; cases "?n - length s") auto
      with space_not_printable(2) [of "s @ t"] 1(3) show False by blast
    qed
    then have "trim_left_rev (s @ t) = trim_left_rev (drop ?n s @ t)"
      using False by (subst trim_left_rev.simps) simp
    moreover have "length (drop ?n s) < length s" using False \<open>?n \<le> length s\<close> by simp
    ultimately show ?thesis using 1 by simp
  qed (auto simp: trim_left_rev_id)
qed

lemma first_word:
  assumes "solid w"
  shows "\<exists>fs. split_fields (trim_space (words (w # ws))) = w # fs"
proof (cases ws)
  case Nil
  with assms fields_of_words [of "[w]"] show ?thesis by simp
next
  case (Cons v vs)
  define r where "r = words ws"
  have l: "words (w # ws) = w @ CHR '' '' # r" by (simp add: r_def Cons)
  have "trim_left (w @ CHR '' '' # r) = w @ CHR '' '' # r"
    using assms space_len_printable [of "w @ CHR '' '' # r"] by (cases w) (auto simp: trim_left_id)
  moreover have "rev w \<noteq> []" "printable (hd (rev w))" using assms by (auto simp: hd_rev list_all_iff)
  ultimately obtain s where t: "trim_space (words (w # ws)) = w @ rev s" and s: "trim_left_rev (rev r @ '' '' @ rev w) = s @ rev w"
    using trim_left_rev_stops [of "rev w" "rev r @ '' ''"] by (auto simp: trim_space_def l)
  have "\<exists>p. rev (trim_left_rev x) @ p = rev x" for x
  proof (induction x rule: trim_left_rev.induct)
    case (1 x)
    show ?case
    proof (cases "space_len_rev x = 0")
      case False
      with 1 obtain p where "rev (trim_left_rev x) @ p = rev (drop (space_len_rev x) x)"
        by (metis trim_left_rev.simps)
      then have "rev (trim_left_rev x) @ p @ rev (take (space_len_rev x) x) = rev x"
        by (metis append.assoc append_take_drop_id rev_append)
      then show ?thesis by blast
    qed (auto simp: trim_left_rev_id)
  qed
  from this [of "rev r @ '' '' @ rev w"] s obtain p where "w @ rev s @ p = w @ CHR '' '' # r" by auto
  then have "rev s = [] \<or> (\<exists>q. rev s = CHR '' '' # q)" by (cases "rev s") auto
  with assms t fields_from_word [of w] fields_from_printable [of w "[]" "[]"] show ?thesis
    by (auto simp: split_fields_def fields_from_eval)
qed

subsection \<open>Printable parts\<close>

lemma digits_printable: "list_all is_digit s \<Longrightarrow> list_all printable s"
  using digit_printable by (auto simp: list_all_iff)

lemma int_text_solid: "0 \<le> n \<Longrightarrow> solid (int_text n)"
  using itoa_digits [of "nat n"] by (auto simp: int_text_def itoa_not_Nil list_all_iff digit_printable)

lemma separators_printable: "printable (CHR ''.'')" "printable (CHR '':'')"
  by (simp_all add: printable_def)

lemma ipv4_fields_printable: "ipv4_fields v d fs s = Some r \<Longrightarrow> list_all printable s"
  by (induction v d fs s rule: ipv4_fields.induct)
     (auto simp: Let_def digit_printable separators_printable split: if_splits)

lemma hex_printable: "is_hex c \<Longrightarrow> printable c"
  by (auto simp: is_hex_def is_digit_def printable_def)

lemma ipv6_loop_printable: "ipv6_loop bs el s = Some (bs', el', []) \<Longrightarrow> list_all printable s"
proof (induction bs el s rule: ipv6_loop.induct)
  case (1 bs el s)
  let ?h = "takeWhile is_hex s"
  note loop = 1(3) [unfolded ipv6_loop.simps [of bs el s] Let_def]
  have h: "list_all printable ?h" using hex_printable by (auto simp: list_all_iff dest: set_takeWhileD)
  show ?case
  proof (cases "16 \<le> length bs")
    case True
    with loop show ?thesis by simp
  next
    case False
    with loop have ok: "\<not> (?h = [] \<or> length ?h > 4)" by (auto split: if_splits)
    show ?thesis
    proof (cases "dropWhile is_hex s")
      case Nil
      with h show ?thesis by (metis append_Nil2 takeWhile_dropWhile_id)
    next
      case (Cons c r)
      show ?thesis
      proof (cases "c = CHR ''.''")
        case True
        with loop False ok Cons ipv4_fields_printable show ?thesis by (auto split: if_splits option.splits)
      next
        case dot: False
        with loop False ok Cons have c: "c = CHR '':'' \<and> r \<noteq> []" by (auto split: if_splits)
        then have cond: "\<not> (c \<noteq> CHR '':'' \<or> r = [])" by simp
        have "list_all printable r"
        proof (cases "hd r = CHR '':''")
          case True
          then have r: "r = CHR '':'' # tl r" using c by (cases r) auto
          have "el = None" using loop False ok Cons dot c True by (auto split: if_splits)
          then have "list_all printable (tl r)"
            using loop 1(1) [OF False refl refl refl ok Cons dot cond True] False ok Cons dot c True
            by (cases "tl r = []") auto
          then have "list_all printable (CHR '':'' # tl r)" by (simp add: separators_printable)
          with r show ?thesis by simp
        next
          case f: False
          with loop 1(2) [OF False refl refl refl ok Cons dot cond f] False ok Cons dot c show ?thesis by auto
        qed
        with h c Cons separators_printable(2) have "list_all printable (?h @ c # r)" by simp
        with Cons show ?thesis by (metis takeWhile_dropWhile_id)
      qed
    qed
  qed
qed

lemma parse_ip_solid:
  assumes "parse_ip s \<noteq> []"
  shows "solid s"
proof -
  have "list_all printable s" if b: "ipv6_bytes s = Some f" for f
  proof (cases "has_prefix s ''::''")
    case True
    then have s: "s = ''::'' @ drop 2 s" by (cases s; cases "tl s") auto
    have "list_all printable (drop 2 s)"
      using b True ipv6_loop_printable
      by (auto simp: ipv6_bytes_def Let_def split: if_splits option.splits prod.splits)
    then have "list_all printable (''::'' @ drop 2 s)" by (simp add: separators_printable)
    with s show ?thesis by simp
  next
    case False
    with b ipv6_loop_printable show ?thesis
      by (auto simp: ipv6_bytes_def Let_def split: if_splits option.splits prod.splits)
  qed
  with assms ipv4_fields_printable show ?thesis
    by (auto simp: parse_ip_def parse_addr_def split: option.splits list.splits if_splits)
qed

lemma valid_hostname_solid: "valid_resolver_hostname h \<Longrightarrow> solid h"
proof -
  assume h: "valid_resolver_hostname h"
  have "list_all printable l" if "valid_hostname_label l" for l
    using that by (auto simp: valid_hostname_label_def list_all_iff is_letter_ascii_def is_upper_ascii_def
        is_lower_ascii_def is_digit_def printable_def)
  then have "\<forall>l \<in> set (split_on (CHR ''.'') h). list_all printable l"
    using h by (auto simp: valid_resolver_hostname_def list_all_iff)
  moreover have "list_all printable (join ''.'' ls)" if "\<forall>l \<in> set ls. list_all printable l" for ls
    using that by (induction ls rule: induct_list012) (auto simp: separators_printable)
  ultimately have "list_all printable (join ''.'' (split_on (CHR ''.'') h))" by blast
  with h show ?thesis by (auto simp: join_split_on valid_resolver_hostname_def)
qed

subsection \<open>What a line says\<close>

definition quiet :: "string \<Rightarrow> bool" where
  "quiet l \<longleftrightarrow> (\<forall>s. runtime_line l s = s)"

lemma fold_quiet: "list_all quiet ls \<Longrightarrow> fold runtime_line ls s = s"
  by (induction ls) (simp_all add: quiet_def)

definition speaking :: "string list" where
  "speaking = [''bind'', ''server'', ''server-tcp'', ''server-tls'', ''server-https'', ''proxy-server'']"

lemma quiet_word: "solid w \<Longrightarrow> w \<notin> set speaking \<Longrightarrow> quiet (words (w # ws))"
proof -
  assume w: "solid w" "w \<notin> set speaking"
  obtain fs where fs: "split_fields (trim_space (words (w # ws))) = w # fs" using first_word [OF w(1)] by blast
  show ?thesis
    using w(2) by (cases fs) (simp_all add: quiet_def runtime_line_def fs runtime_fields_def speaking_def)
qed

definition directives :: "string list" where
  "directives =
     [''server-name'', ''ca-file'', ''log-level'', ''log-console'', ''cache-size'', ''max-reply-ip-num'', ''group-begin'',
      ''speed-check-mode'', ''dualstack-ip-selection'', ''serve-expired'', ''group-end'', ''prefetch-domain'',
      ''serve-expired-ttl'', ''serve-expired-reply-ttl'', ''response-mode'', ''bind-tcp'', ''domain-rules'',
      ''client-rules'', ''cache-file'', ''cache-persist'', ''cache-checkpoint-time'']"

lemma directives_quiet: "list_all (\<lambda>w. w \<noteq> [] \<and> list_all printable w \<and> w \<notin> set speaking) directives"
  by code_simp

definition directive_line :: "string \<Rightarrow> bool" where
  "directive_line l \<longleftrightarrow> (\<exists>w \<in> set directives. \<exists>ws. l = words (w # ws))"

lemma directive_quiet: "directive_line l \<Longrightarrow> quiet l"
  using directives_quiet by (auto simp: directive_line_def list_all_iff intro!: quiet_word)

lemma directive_words: "w \<in> set directives \<Longrightarrow> directive_line (words (w # ws))"
  by (auto simp: directive_line_def)

lemma directive_group_end: "directive_line ''group-end''"
  using directive_words [of "''group-end''" "[]"] by (simp add: directives_def)

lemmas directive_lines = directive_words [unfolded directives_def, simplified] directive_group_end

lemmas quiet_lines = directive_lines [THEN directive_quiet]

lemma fold_directives: "list_all directive_line ls \<Longrightarrow> fold runtime_line ls s = s"
  by (rule fold_quiet, erule list.pred_mono_strong) (rule directive_quiet)

lemma runtime_words: "list_all solid ws \<Longrightarrow> runtime_line (words ws) s = runtime_fields ws s"
  by (simp add: runtime_line_def fields_of_words)

lemma group_names_solid: "list_all solid [gateway_group, resolver_group, local_group, mihomo_dns, smartdns_resolver_addr]"
  by code_simp

lemma view_options_solid: "list_all solid (view_options v)" "list_all solid resolver_options"
proof -
  have "list_all solid gateway_options" "list_all solid resolver_options" by code_simp+
  then show "list_all solid (view_options v)" "list_all solid resolver_options" by (simp_all add: view_options_def)
qed

lemma read_head:
  "fold runtime_line (head_lines lib cfg) s =
     (if dn_proxy_enabled (cf_dns cfg) then s\<lparr>nr_proxy := ''socks5://127.0.0.1:7854''\<rparr> else s)"
proof -
  have port: "int_text smartdns_proxy_port = ''7854''"
    by (simp add: int_text_def smartdns_proxy_port_def itoa.simps) (simp add: go_eval)
  have "list_all solid [''proxy-server'', ''socks5://127.0.0.1:7854'', ''-name'', ''opensurge-dns'']" by code_simp
  from runtime_words [OF this] have "runtime_line (words [''proxy-server'', ''socks5://127.0.0.1:7854'', ''-name'', ''opensurge-dns'']) r
      = r\<lparr>nr_proxy := ''socks5://127.0.0.1:7854''\<rparr>" for r
    by (simp add: runtime_fields_def)
  then show ?thesis
    using quiet_lines(1,2) by (simp add: head_lines_def Let_def port quiet_def del: join.simps)
qed

lemma groups_directive: "list_all directive_line (group_lines cfg)"
  by (simp add: group_lines_def directive_lines del: join.simps)

lemma bind_groups:
  "contains_group (''bind'' # a # gateway_options) gateway_group" "contains_group (''bind'' # a # resolver_options) resolver_group"
  "\<not> contains_group (''bind'' # a # gateway_options) resolver_group" "\<not> contains_group (''bind'' # a # resolver_options) gateway_group"
  by (simp_all add: gateway_options_def resolver_options_def gateway_group_def resolver_group_def)

lemma read_binds:
  assumes "solid (listen_target cfg)" and "listen_target cfg \<noteq> smartdns_resolver_addr"
  shows "fold runtime_line (bind_lines cfg) s =
    (let s1 = s\<lparr>nr_listen := listen_target cfg, nr_view := default_view cfg\<rparr> in
     if dn_use_smartdns (cf_dns cfg) then s1\<lparr>nr_mihomo := smartdns_resolver_addr\<rparr> else s1)"
proof -
  have bind: "solid ''bind''" by (simp add: printable_def)
  have l: "list_all solid ([''bind'', listen_target cfg] @ view_options (default_view cfg))"
    "list_all solid ([''bind'', smartdns_resolver_addr] @ resolver_options)"
    using bind assms(1) view_options_solid group_names_solid by simp_all
  have v: "default_view cfg = dns_view_gateway \<or> default_view cfg = dns_view_resolver" "dns_view_gateway \<noteq> dns_view_resolver"
    by (simp_all add: default_view_def dns_view_gateway_def dns_view_resolver_def)
  have "runtime_line (words ([''bind'', listen_target cfg] @ view_options (default_view cfg))) s =
      s\<lparr>nr_listen := listen_target cfg, nr_view := default_view cfg\<rparr>"
    using v(1)
  proof
    assume "default_view cfg = dns_view_gateway"
    then show ?thesis
      using runtime_words [OF l(1)] assms(2)
      by (simp add: view_options_def runtime_fields_def bind_groups Let_def del: contains_group.simps join.simps) (simp add: dns_view_gateway_def)
  next
    assume "default_view cfg = dns_view_resolver"
    then show ?thesis
      using runtime_words [OF l(1)] assms(2) v(2)
      by (simp add: view_options_def runtime_fields_def bind_groups Let_def del: contains_group.simps join.simps) (simp add: dns_view_resolver_def)
  qed
  moreover have "runtime_line (words ([''bind'', smartdns_resolver_addr] @ resolver_options)) r = r\<lparr>nr_mihomo := smartdns_resolver_addr\<rparr>" for r
    by (subst runtime_words [OF l(2)]) (simp add: runtime_fields_def)
  moreover have "runtime_line (words ([''bind-tcp''] @ ws)) r = r" for ws r
    using quiet_lines by (simp add: quiet_def del: join.simps)
  ultimately show ?thesis by (simp add: bind_lines_def Let_def del: join.simps)
qed

text \<open>The resolvers as the control API shows them\<close>

definition shown_upstream :: "smartdns_lib \<Rightarrow> config \<Rightarrow> resolver_upstream \<Rightarrow> string" where
  "shown_upstream lib cfg up =
     (let ep = parsed_endpoint lib cfg up in
      if re_scheme ep = ''tcp'' then ''tcp://'' @ re_target ep
      else if re_scheme ep = ''tls'' then ''tls://'' @ re_target ep else re_target ep)"

lemma read_gateway_server: "runtime_line (server_line mihomo_dns gateway_group) s = s\<lparr>nr_gateway := mihomo_dns\<rparr>"
proof -
  have "list_all solid [''server'', mihomo_dns, ''-group'', gateway_group, ''-exclude-default-group'']" by code_simp
  from runtime_words [OF this] show ?thesis
    by (simp add: server_line_def runtime_fields_def del: join.simps)
qed

lemma server_words_solid: "list_all solid [''server'', ''-group'', resolver_group, local_group, ''-exclude-default-group'']"
  by code_simp

lemma server_groups:
  "contains_group [''server'', t, ''-group'', resolver_group, ''-exclude-default-group''] resolver_group"
  "\<not> contains_group [''server'', t, ''-group'', resolver_group, ''-exclude-default-group''] gateway_group"
  "\<not> contains_group [''server'', t, ''-group'', local_group, ''-exclude-default-group''] resolver_group"
  "\<not> contains_group [''server'', t, ''-group'', local_group, ''-exclude-default-group''] gateway_group"
  by (simp_all add: gateway_group_def resolver_group_def local_group_def)

lemma read_plain_server:
  assumes "solid t"
  shows "runtime_line (server_line t resolver_group) s = s\<lparr>nr_resolvers := nr_resolvers s @ [t]\<rparr>"
    and "quiet (server_line t local_group)"
proof -
  have "list_all solid [''server'', t, ''-group'', resolver_group, ''-exclude-default-group'']"
    "list_all solid [''server'', t, ''-group'', local_group, ''-exclude-default-group'']"
    using assms server_words_solid by simp_all
  note r = this [THEN runtime_words]
  show "runtime_line (server_line t resolver_group) s = s\<lparr>nr_resolvers := nr_resolvers s @ [t]\<rparr>"
    by (simp add: server_line_def r runtime_fields_def server_groups del: join.simps contains_group.simps)
  show "quiet (server_line t local_group)"
    by (simp add: quiet_def server_line_def r runtime_fields_def server_groups del: join.simps contains_group.simps)
qed

lemma upstream_usable:
  assumes "validate_resolver_config (sd_url lib) cfg = None" and "up \<in> set (dn_upstreams (cf_dns cfg))"
  obtains ep where "parsed_endpoint lib cfg up = ep" "re_scheme ep \<in> {''https'', ''tls'', ''udp'', ''tcp''}"
    "re_encrypted ep \<longleftrightarrow> re_scheme ep \<in> {''https'', ''tls''}" "re_encrypted ep \<or> dn_allow_plaintext (cf_dns cfg)"
    "re_encrypted ep \<Longrightarrow> solid (re_bootstrap ep) \<and> solid (re_hostname ep)"
    "re_encrypted ep \<Longrightarrow> valid_resolver_hostname (re_hostname ep) \<and> valid_resolver_ipv4 (re_bootstrap ep) cfg"
proof -
  from assms have "check_view_upstream (sd_url lib) cfg up = None" by (auto simp: validate_resolver_config_def Let_def)
  then obtain ep where ep: "parse_resolver_upstream (sd_url lib) up cfg = Inr ep"
      "re_encrypted ep \<or> dn_allow_plaintext (cf_dns cfg)"
    by (auto simp: check_view_upstream_def split: sum.splits)
  from ep(1) have a: "check_endpoint_address cfg ep = None"
      "re_scheme ep \<in> {''https'', ''tls'', ''udp'', ''tcp''}" "re_encrypted ep \<longleftrightarrow> re_scheme ep \<in> {''https'', ''tls''}"
    by (auto simp: parse_resolver_upstream_def Let_def rbind_eq_Inr_iff scheme_target_def split: if_splits option.splits)
  then have v: "re_encrypted ep \<Longrightarrow> valid_resolver_hostname (re_hostname ep) \<and> valid_resolver_ipv4 (re_bootstrap ep) cfg"
    by (auto simp: check_endpoint_address_def)
  then have "re_encrypted ep \<Longrightarrow> solid (re_bootstrap ep) \<and> solid (re_hostname ep)"
    using valid_hostname_solid parse_ip_solid by (auto simp: valid_resolver_ipv4_def Let_def split: if_splits)
  with that a v ep show thesis by (simp add: parsed_endpoint_def)
qed

lemma upstream_options_solid:
  "list_all solid [''server-https'', ''server-tls'', ''server'', ''server-tcp'', ''-group'', resolver_group, ''-exclude-default-group'',
     ''-host-ip'', ''-host-name'', ''-tls-host-verify'', ''-fallback'', ''-proxy'', ''opensurge-dns'']"
  by code_simp

definition upstream_words :: "config \<Rightarrow> bool \<Rightarrow> resolver_endpoint \<Rightarrow> string list" where
  "upstream_words cfg has_encrypted ep =
     [server_directive (re_scheme ep), re_target ep, ''-group'', resolver_group, ''-exclude-default-group'']
        @ (if re_encrypted ep
           then [''-host-ip'', re_bootstrap ep, ''-host-name'', re_hostname ep, ''-tls-host-verify'', re_hostname ep]
           else if has_encrypted then [''-fallback''] else [])
        @ (if dn_proxy_enabled (cf_dns cfg) then [''-proxy'', ''opensurge-dns''] else [])"

lemma upstream_line_words: "upstream_line lib cfg e up = words (upstream_words cfg e (parsed_endpoint lib cfg up))"
  by (simp only: upstream_line_def upstream_words_def Let_def)

lemma upstream_words_groups:
  "\<not> contains_group (upstream_words cfg e ep) gateway_group" "contains_group (upstream_words cfg e ep) resolver_group"
  by (auto simp: upstream_words_def gateway_group_def resolver_group_def server_directive_def)

lemma upstream_words_solid:
  assumes "validate_resolver_config (sd_url lib) cfg = None" and "up \<in> set (dn_upstreams (cf_dns cfg))"
    and "solid (re_target (parsed_endpoint lib cfg up))"
  shows "list_all solid (upstream_words cfg e (parsed_endpoint lib cfg up))"
proof -
  obtain ep where ep: "parsed_endpoint lib cfg up = ep" "re_scheme ep \<in> {''https'', ''tls'', ''udp'', ''tcp''}"
    "re_encrypted ep \<Longrightarrow> solid (re_bootstrap ep) \<and> solid (re_hostname ep)"
    using upstream_usable [OF assms(1,2)] by metis
  have "server_directive (re_scheme ep) \<in> set [''server-https'', ''server-tls'', ''server'', ''server-tcp'']"
    using ep(2) by (auto simp: server_directive_def)
  then have "solid (server_directive (re_scheme ep))" using upstream_options_solid by auto
  then show ?thesis using ep(1,3) assms(3) upstream_options_solid by (simp add: upstream_words_def)
qed

lemma read_upstream:
  assumes "validate_resolver_config (sd_url lib) cfg = None" and "up \<in> set (dn_upstreams (cf_dns cfg))"
    and "solid (re_target (parsed_endpoint lib cfg up))"
  shows "runtime_line (upstream_line lib cfg e up) s = s\<lparr>nr_resolvers := nr_resolvers s @ [shown_upstream lib cfg up]\<rparr>"
proof -
  obtain ep where ep: "parsed_endpoint lib cfg up = ep" "re_scheme ep \<in> {''https'', ''tls'', ''udp'', ''tcp''}"
    using upstream_usable [OF assms(1,2)] by metis
  obtain rest where w: "upstream_words cfg e ep = server_directive (re_scheme ep) # re_target ep # rest"
    by (simp add: upstream_words_def)
  have "runtime_line (upstream_line lib cfg e up) s = runtime_fields (upstream_words cfg e ep) s"
    using runtime_words [OF upstream_words_solid [OF assms]] ep(1) by (simp add: upstream_line_words)
  also have "\<dots> = s\<lparr>nr_resolvers := nr_resolvers s @ [shown_upstream lib cfg up]\<rparr>"
    using ep(2) upstream_words_groups [of cfg e ep] unfolding w
    by (elim insertE emptyE)
       (simp_all add: runtime_fields_def server_directive_def shown_upstream_def ep(1) del: contains_group.simps)
  finally show ?thesis .
qed

lemma read_resolver_list:
  assumes "\<And>x s. x \<in> set xs \<Longrightarrow> runtime_line (f x) s = s\<lparr>nr_resolvers := nr_resolvers s @ [g x]\<rparr>"
  shows "fold runtime_line (map f xs) s = s\<lparr>nr_resolvers := nr_resolvers s @ map g xs\<rparr>"
  using assms by (induction xs arbitrary: s) simp_all

definition shown_resolvers :: "smartdns_lib \<Rightarrow> config \<Rightarrow> string list \<Rightarrow> string list" where
  "shown_resolvers lib cfg rs =
     (if custom_mode cfg then map (shown_upstream lib cfg) (dn_upstreams (cf_dns cfg)) else rs)"

lemma read_servers:
  assumes "validate_resolver_config (sd_url lib) cfg = None"
    and "\<forall>up \<in> set (dn_upstreams (cf_dns cfg)). solid (re_target (parsed_endpoint lib cfg up))" and "list_all solid rs"
  shows "fold runtime_line (server_lines lib cfg rs) s =
    s\<lparr>nr_gateway := mihomo_dns, nr_resolvers := nr_resolvers s @ shown_resolvers lib cfg rs\<rparr>"
proof -
  let ?e = "list_ex (\<lambda>u. re_encrypted (parsed_endpoint lib cfg u)) (dn_upstreams (cf_dns cfg))"
  have "fold runtime_line (map (upstream_line lib cfg ?e) (dn_upstreams (cf_dns cfg))) t
      = t\<lparr>nr_resolvers := nr_resolvers t @ map (shown_upstream lib cfg) (dn_upstreams (cf_dns cfg))\<rparr>" for t
    by (rule read_resolver_list, rule read_upstream) (use assms in auto)
  moreover have "fold runtime_line (map (\<lambda>r. server_line r resolver_group) rs) t
      = t\<lparr>nr_resolvers := nr_resolvers t @ map (\<lambda>r. r) rs\<rparr>" for t
    by (rule read_resolver_list, rule read_plain_server) (use assms(3) in \<open>auto simp: list_all_iff\<close>)
  ultimately show ?thesis
    by (simp add: server_lines_def shown_resolvers_def read_gateway_server Let_def)
qed

lemma join_host_port_solid: "solid h \<Longrightarrow> solid p \<Longrightarrow> solid (join_host_port h p)"
  by (simp add: join_host_port_def printable_def)

lemma local_target_solid: "solid (join_host_port ''127.0.0.1'' (int_text local_dns_port))"
  by (intro join_host_port_solid int_text_solid) (simp_all add: local_dns_port_def printable_def)

lemma read_local: "fold runtime_line (local_lines cfg) s = s"
  by (rule fold_quiet)
     (simp add: local_lines_def read_plain_server(2) [OF local_target_solid] quiet_lines del: join.simps)

lemma devices_directive: "list_all directive_line (device_lines cfg)"
proof -
  have "list_all directive_line (name_lines cfg md)" for md
    by (simp add: name_lines_def Let_def directive_lines del: join.simps)
  moreover have "directive_line (client_line d)" for d
    using directive_lines by (simp add: client_line_def del: join.simps)
  ultimately show ?thesis by (auto simp: device_lines_def list_all_iff split: option.split)
qed

lemma hosts_directive: "list_all directive_line (map host_line hosts)"
  by (simp add: host_line_def list_all_iff directive_lines del: join.simps)

lemma cache_directive: "list_all directive_line (cache_lines lib cfg policy rendered)"
  by (simp add: cache_lines_def Let_def directive_lines del: join.simps)

lemmas read_directives =
  groups_directive [THEN fold_directives] devices_directive [THEN fold_directives] hosts_directive [THEN fold_directives]
  cache_directive [THEN fold_directives]

subsection \<open>No part breaks a line\<close>

lemma newline_not_in_ipv4_string: "length a = 4 \<Longrightarrow> newline \<notin> set (ipv4_string a)"
  by (rule newline_not_solid [OF ipv4_text_ends(1)])

lemma decode_rune_bound: "fst (decode_rune s) < 2097152"
proof -
  have cont: "byte_of c - 128 < (64 :: nat)" if "is_cont c" for c using that unfolding is_cont_def by linarith
  have two: "(b - 192) * 64 + i < 2097152" if "b \<le> 223" "i < 64" for b i :: nat using that by linarith
  have three: "(b - 224) * 4096 + j * 64 + i < 2097152" if "b \<le> 239" "i < 64" "j < 64" for b i j :: nat using that by linarith
  have four: "(b - 240) * 262144 + k * 4096 + j * 64 + i < 2097152" if "b \<le> 244" "i < 64" "j < 64" "k < 64" for b i j k :: nat
    using that by linarith
  show ?thesis
    by (simp add: decode_rune_def rune_error_def Let_def two three four cont split: list.split)
qed

lemma chr_of_newline: "n < 256 \<Longrightarrow> chr_of n = newline \<longleftrightarrow> n = 10"
proof
  assume n: "n < 256" and "chr_of n = newline"
  then have "byte_of (chr_of n) = byte_of newline" by simp
  with n show "n = 10" by simp
next
  have "byte_of newline = (10 :: nat)" by simp
  moreover assume "n = 10"
  ultimately show "chr_of n = newline" by (metis char_of_char)
qed

lemma encode_rune_newline:
  assumes "r < 2097152" and "r \<noteq> 10"
  shows "newline \<notin> set (encode_rune r)"
proof -
  have no: "newline \<noteq> chr_of n" if "n < 256" "n \<noteq> 10" for n
    using chr_of_newline [OF that(1)] that(2) by metis
  have "r div 262144 < 8" using assms(1) by (simp add: less_mult_imp_div_less)
  then show ?thesis
    using assms(2) by (simp add: encode_rune_def no less_mult_imp_div_less)
qed

lemma newline_not_in_quoted: "newline \<notin> set (quote_text wide s)"
proof -
  have digit: "newline \<noteq> hex_digit n" if "n < 16" for n
    using that chr_of_newline [of "48 + n"] chr_of_newline [of "87 + n"] by (auto simp: hex_digit_def)
  have "newline \<noteq> hex_digit (n div 16 ^ i mod 16)" for n i by (rule digit) simp
  then have padded: "newline \<notin> set (hex_padded k n)" for k n by (auto simp: hex_padded_def)
  have rune: "newline \<notin> set (escape_rune wide r)" if "r < 2097152" for wide r
    using padded encode_rune_newline [OF that] chr_of_newline [of 34] chr_of_newline [of 92]
    by (auto simp: escape_rune_def is_print_def)
  have "newline \<notin> set (quote_body wide s)"
  proof (induction wide s rule: quote_body.induct)
    case (1 wide s)
    show ?case
    proof (cases "s = []")
      case False
      obtain r w where d: "decode_rune s = (r, w)" by fastforce
      with decode_rune_bound [of s] have "r < 2097152" by simp
      with 1 [OF False d [symmetric]] d padded rune show ?thesis
        by (subst quote_body.simps) (simp add: False)
    qed (simp add: quote_body.simps)
  qed
  then show ?thesis by (simp add: quote_text_def)
qed

definition unbroken :: "string list \<Rightarrow> bool" where
  "unbroken ls \<longleftrightarrow> (\<forall>l \<in> set ls. newline \<notin> set l)"

lemma unbroken_append [simp]: "unbroken (xs @ ys) \<longleftrightarrow> unbroken xs \<and> unbroken ys"
  by (auto simp: unbroken_def)

lemma unbroken_Cons [simp]: "unbroken (x # xs) \<longleftrightarrow> newline \<notin> set x \<and> unbroken xs" "unbroken []"
  by (simp_all add: unbroken_def)

lemma unbroken_groups: "unbroken (group_lines cfg)"
  by (simp add: group_lines_def gateway_group_def resolver_group_def local_group_def)

lemma unbroken_solid: "list_all solid ws \<Longrightarrow> list_all (\<lambda>w. newline \<notin> set w) ws"
  by (erule list.pred_mono_strong) (simp add: newline_not_solid)

lemma option_words_unbroken:
  "list_all (\<lambda>w. newline \<notin> set w) (view_options v)" "list_all (\<lambda>w. newline \<notin> set w) resolver_options"
  by (intro unbroken_solid view_options_solid)+

lemma group_names_unbroken: "newline \<notin> set gateway_group" "newline \<notin> set resolver_group" "newline \<notin> set local_group"
    "newline \<notin> set mihomo_dns" "newline \<notin> set smartdns_resolver_addr"
  using group_names_solid by (auto simp: list_all_iff)

lemma unbroken_head: "unbroken (head_lines lib cfg)"
  using newline_not_solid [OF conjunct2 [OF int_text_solid [of smartdns_proxy_port]]]
  by (simp add: head_lines_def Let_def) (simp add: smartdns_proxy_port_def)

lemma unbroken_binds: "solid (listen_target cfg) \<Longrightarrow> unbroken (bind_lines cfg)"
  using option_words_unbroken group_names_unbroken newline_not_solid [of "listen_target cfg"]
  by (simp add: bind_lines_def newline_not_in_words del: join.simps)

lemma unbroken_servers:
  assumes "validate_resolver_config (sd_url lib) cfg = None"
    and "\<forall>up \<in> set (dn_upstreams (cf_dns cfg)). solid (re_target (parsed_endpoint lib cfg up))" and "list_all solid rs"
  shows "unbroken (server_lines lib cfg rs)"
proof -
  have "newline \<notin> set (upstream_line lib cfg e up)" if "up \<in> set (dn_upstreams (cf_dns cfg))" for up e
    using upstream_words_solid [OF assms(1) that bspec [OF assms(2) that]]
    unfolding upstream_line_words by (intro newline_not_in_words unbroken_solid)
  moreover have "newline \<notin> set (server_line r g)" if "newline \<notin> set r" "newline \<notin> set g" for r g
    unfolding server_line_def using that by (intro newline_not_in_words) simp
  ultimately show ?thesis
    using assms(3) group_names_unbroken newline_not_solid by (auto simp: server_lines_def unbroken_def Let_def list_all_iff)
qed

lemma unbroken_local: "newline \<notin> set (local_domain cfg) \<Longrightarrow> unbroken (local_lines cfg)"
  using group_names_unbroken newline_not_solid [OF conjunct2 [OF local_target_solid]]
  by (auto simp: local_lines_def server_line_def)

lemma unbroken_devices:
  assumes "newline \<notin> set (local_domain cfg)"
    and "\<And>b d. dp_bundle (cf_policy cfg) = Some b \<Longrightarrow> d \<in> set (cp_devices (pb_compiled b)) \<Longrightarrow> newline \<notin> set (cd_ipv4 d)"
  shows "unbroken (device_lines cfg)"
proof -
  have name: "newline \<notin> set (sanitize_local_name raw)" for raw
    by (auto simp: sanitize_local_name_def contains_any_def Let_def list_ex_iff)
  have "unbroken (name_lines cfg md)" for md
  proof -
    have "length (to4 ip) = 4" if "to4 ip \<noteq> []" for ip using that by (simp add: to4_nonempty_length)
    then show ?thesis
      using name assms(1) group_names_unbroken newline_not_in_ipv4_string
      by (simp add: name_lines_def Let_def newline_not_in_words del: join.simps)
  qed
  moreover have "newline \<notin> set (client_line d)" if "newline \<notin> set (cd_ipv4 d)" for d
    unfolding client_line_def using that option_words_unbroken by (intro newline_not_in_words) simp
  ultimately show ?thesis
    using assms(2) by (cases "dp_bundle (cf_policy cfg)") (force simp: device_lines_def unbroken_def)+
qed

lemma unbroken_hosts:
  assumes "compatible_resolver_hosts lib rendered = Inr hosts"
  shows "unbroken (map host_line hosts)"
proof -
  have addresses: "list_all (\<lambda>a. newline \<notin> set a) ips" if "host_addresses ns = Some ips" for ns ips
    using that newline_not_in_ipv4_string
    by (induction ns arbitrary: ips)
       (auto simp: host_address_def to4_nonempty_length Let_def split: option.splits yaml_node.splits if_splits)
  have "newline \<notin> set (host_line (domain, ips))" if "host_rule e = Some (domain, ips)" for e domain ips
  proof -
    from that have "exact_host_domain domain" and "list_all (\<lambda>a. newline \<notin> set a) ips"
      using addresses by (auto simp: host_rule_def Let_def list_all_iff split: if_splits option.splits)
    moreover have "newline \<notin> set (join '','' ips)" if "list_all (\<lambda>a. newline \<notin> set a) ips" for ips
      using that by (induction ips rule: induct_list012) auto
    ultimately show ?thesis
      unfolding host_line_def using group_names_unbroken
      by (intro newline_not_in_words) (auto simp: exact_host_domain_def contains_any_def list_ex_iff)
  qed
  moreover have "\<exists>e. host_rule e = Some h" if "h \<in> set hosts" for h
    using assms that
    by (fastforce simp: compatible_resolver_hosts_def map_filter_def split: option.splits yaml_node.splits if_splits prod.splits)
  ultimately show ?thesis unfolding unbroken_def by fastforce
qed

lemma unbroken_cache: "unbroken (cache_lines lib cfg policy rendered)"
  using newline_not_in_quoted by (simp add: cache_lines_def Let_def)

subsection \<open>The whole text\<close>

lemma chosen_resolvers_solid: "list_all solid (chosen_resolvers cfg resolvers)"
proof -
  have v4: "solid (ipv4_string (to4 ip))" if "to4 ip \<noteq> []" for ip
    using that ipv4_text_ends [of "to4 ip"] by (simp add: to4_nonempty_length)
  have "list_all solid (normalize_resolvers resolvers cfg)"
    using v4 by (auto simp: normalize_resolvers_def real_resolver_def map_filter_def list_all_iff Let_def split: if_splits)
  then show ?thesis using v4 by (simp add: chosen_resolvers_def upstream_fallback_def Let_def)
qed

lemma rendered_parts:
  assumes "render_smartdns_with lib cfg resolvers = Inr ls"
  obtains hosts policy rendered where
    "ls = head_lines lib cfg @ group_lines cfg @ bind_lines cfg @ server_lines lib cfg (chosen_resolvers cfg resolvers)
       @ local_lines cfg @ device_lines cfg @ map host_line hosts @ cache_lines lib cfg policy rendered"
    "compatible_resolver_hosts lib rendered = Inr hosts" "solid (listen_target cfg)"
    "validate_resolver_config (sd_url lib) cfg = None" "\<not> custom_mode cfg \<Longrightarrow> chosen_resolvers cfg resolvers \<noteq> []"
proof -
  from assms obtain rendered hosts where r: "compatible_resolver_hosts lib rendered = Inr hosts"
      "parse_ip (listen_address cfg) \<noteq> []" "\<not> dn_port (cf_dns cfg) \<le> 0" "validate_resolver_config (sd_url lib) cfg = None"
      "\<not> custom_mode cfg \<Longrightarrow> chosen_resolvers cfg resolvers \<noteq> []"
      "ls = head_lines lib cfg @ group_lines cfg @ bind_lines cfg @ server_lines lib cfg (chosen_resolvers cfg resolvers)
       @ local_lines cfg @ device_lines cfg @ map host_line hosts @ cache_lines lib cfg
         (text_of_lines (head_lines lib cfg @ group_lines cfg @ bind_lines cfg
           @ server_lines lib cfg (chosen_resolvers cfg resolvers)
           @ local_lines cfg @ device_lines cfg @ map host_line hosts)) rendered"
    by (auto simp: render_smartdns_with_def Let_def rbind_eq_Inr_iff split: if_splits option.splits)
  have "solid (listen_target cfg)"
    unfolding listen_target_def using r(3) by (intro join_host_port_solid parse_ip_solid [OF r(2)] int_text_solid) simp
  with that r show thesis by blast
qed

text \<open>The lines of the file are the rendered lines, when no name or address brings a newline along.\<close>

lemma rendered_split:
  assumes "render_smartdns_with lib cfg resolvers = Inr ls"
    and "\<forall>up \<in> set (dn_upstreams (cf_dns cfg)). solid (re_target (parsed_endpoint lib cfg up))"
    and "newline \<notin> set (local_domain cfg)"
    and "\<forall>b d. dp_bundle (cf_policy cfg) = Some b \<and> d \<in> set (cp_devices (pb_compiled b)) \<longrightarrow> newline \<notin> set (cd_ipv4 d)"
  shows "split_on newline (text_of_lines ls) = ls @ [[]]"
proof -
  obtain hosts policy rendered where p:
    "ls = head_lines lib cfg @ group_lines cfg @ bind_lines cfg @ server_lines lib cfg (chosen_resolvers cfg resolvers)
       @ local_lines cfg @ device_lines cfg @ map host_line hosts @ cache_lines lib cfg policy rendered"
    "compatible_resolver_hosts lib rendered = Inr hosts" "solid (listen_target cfg)"
    "validate_resolver_config (sd_url lib) cfg = None"
    using rendered_parts [OF assms(1)] by blast
  note rs = chosen_resolvers_solid [of cfg resolvers]
  have "unbroken ls"
    using assms(3,4) by (simp add: p(1) unbroken_head unbroken_groups unbroken_binds p(3) unbroken_servers [OF p(4) assms(2) rs]
        unbroken_local unbroken_devices unbroken_hosts [OF p(2)] unbroken_cache)
  then show ?thesis by (intro split_text_of_lines) (simp add: unbroken_def)
qed

text \<open>C23: What the control API shows of the DNS is what was configured: reading back the SmartDNS configuration that was
  rendered gives the address it listens on, the default view of the gateway's mode, mihomo as the upstream of
  the gateway view, the resolvers of the resolver view in their order (in custom mode the configured upstreams
  with the scheme the page shows, otherwise the usable system resolvers or the router), the proxy of the
  resolvers and the private listener for mihomo, exactly when they are enabled. The upstreams have to be
  printable ASCII, no text may contain a newline, and the LAN listener may not be the private one.\<close>

theorem rendered_dns_reads_back:
  assumes "render_smartdns_with lib cfg resolvers = Inr ls" and "listen_target cfg \<noteq> smartdns_resolver_addr"
    and "\<forall>up \<in> set (dn_upstreams (cf_dns cfg)). solid (re_target (parsed_endpoint lib cfg up))"
    and "newline \<notin> set (local_domain cfg)"
    and "\<forall>b d. dp_bundle (cf_policy cfg) = Some b \<and> d \<in> set (cp_devices (pb_compiled b)) \<longrightarrow> newline \<notin> set (cd_ipv4 d)"
  shows "parse_dns_runtime (text_of_lines ls) =
    \<lparr>nr_configured = True, nr_listen = listen_target cfg, nr_view = default_view cfg, nr_gateway = mihomo_dns,
     nr_resolvers = (if custom_mode cfg then map (shown_upstream lib cfg) (dn_upstreams (cf_dns cfg))
                     else chosen_resolvers cfg resolvers),
     nr_proxy = (if dn_proxy_enabled (cf_dns cfg) then ''socks5://127.0.0.1:7854'' else []),
     nr_mihomo = (if dn_use_smartdns (cf_dns cfg) then smartdns_resolver_addr else [])\<rparr>"
proof -
  obtain hosts policy rendered where p:
    "ls = head_lines lib cfg @ group_lines cfg @ bind_lines cfg @ server_lines lib cfg (chosen_resolvers cfg resolvers)
       @ local_lines cfg @ device_lines cfg @ map host_line hosts @ cache_lines lib cfg policy rendered"
    "compatible_resolver_hosts lib rendered = Inr hosts" "solid (listen_target cfg)"
    "validate_resolver_config (sd_url lib) cfg = None" "\<not> custom_mode cfg \<Longrightarrow> chosen_resolvers cfg resolvers \<noteq> []"
    using rendered_parts [OF assms(1)] by blast
  note rs = chosen_resolvers_solid [of cfg resolvers]
  have "split_on newline (text_of_lines ls) = ls @ [[]]" by (rule rendered_split [OF assms(1,3-5)])
  moreover have "runtime_line [] s = s" for s by (simp add: runtime_line_def split_fields_def fields_from_eval runtime_fields_def)
  moreover have "shown_resolvers lib cfg (chosen_resolvers cfg resolvers) \<noteq> []"
    using p(4,5) by (auto simp: shown_resolvers_def custom_mode_def validate_resolver_config_def resolver_mode_def Let_def)
  moreover have "default_view cfg \<noteq> []" by (simp add: default_view_def dns_view_gateway_def dns_view_resolver_def)
  moreover have "mihomo_dns \<noteq> []" by (simp add: mihomo_dns_def)
  ultimately show ?thesis
    using p(3) by (simp add: parse_dns_runtime_def p(1) read_head read_binds [OF p(3) assms(2)]
        read_servers [OF p(4) assms(3) rs] read_local read_directives empty_runtime_def Let_def)
      (simp add: shown_resolvers_def)
qed

end
