(* ===== verification/DnsProps.thy ===== *)
theory DnsProps
  imports DnsRuntime ConfigProps
begin

text \<open>
  What the rendered DNS configuration keeps apart: which servers the gateway view, the resolver view and the
  local names may ask; and both properties of the DNS on the sample configuration.
\<close>

subsection \<open>Server directives\<close>

definition server_words :: "string list" where
  "server_words = [''server'', ''server-tcp'', ''server-tls'', ''server-https'']"

lemma first_of_directive:
  assumes "directive_line l" and "split_fields (trim_space l) = k # fs"
  shows "k \<notin> set server_words"
proof -
  from assms(1) obtain w ws where w: "w \<in> set directives" "l = words (w # ws)" by (auto simp: directive_line_def)
  then have "solid w" "w \<notin> set speaking" using directives_quiet by (auto simp: list_all_iff)
  with first_word [of w ws] assms(2) w(2) have "k = w" by auto
  with \<open>w \<notin> set speaking\<close> show ?thesis by (auto simp: server_words_def speaking_def)
qed

text \<open>The server directives are those of \<open>server_lines\<close> and the one for local names.\<close>

lemma server_lines_only:
  assumes "render_smartdns_with lib cfg resolvers = Inr ls" and "l \<in> set ls"
    and "split_fields (trim_space l) = k # fs" and "k \<in> set server_words"
  shows "l \<in> set (server_lines lib cfg (chosen_resolvers cfg resolvers))
    \<or> l = server_line (join_host_port ''127.0.0.1'' (int_text local_dns_port)) local_group"
proof -
  have d: "\<not> directive_line l" using first_of_directive [OF _ assms(3)] assms(4) by blast
  obtain hosts policy rendered where p:
    "ls = head_lines lib cfg @ group_lines cfg @ bind_lines cfg @ server_lines lib cfg (chosen_resolvers cfg resolvers)
       @ local_lines cfg @ device_lines cfg @ map host_line hosts @ cache_lines lib cfg policy rendered"
    "solid (listen_target cfg)"
    using rendered_parts [OF assms(1)] by blast
  have other: "l \<noteq> words (w # ws)" if "w \<in> {''bind'', ''proxy-server''}" for w ws
  proof
    assume "l = words (w # ws)"
    moreover have "solid w" using that by (auto simp: printable_def)
    ultimately have "k = w" using first_word [of w ws] assms(3) by auto
    with that assms(4) show False by (auto simp: server_words_def)
  qed
  have "l \<notin> set (head_lines lib cfg)"
    using d other directive_lines by (auto simp: head_lines_def Let_def simp del: join.simps)
  moreover have "l \<notin> set (bind_lines cfg)"
    using d other directive_lines by (auto simp: bind_lines_def simp del: join.simps)
  moreover have "l \<in> set (local_lines cfg) \<Longrightarrow> l = server_line (join_host_port ''127.0.0.1'' (int_text local_dns_port)) local_group"
    using d directive_lines by (auto simp: local_lines_def simp del: join.simps split: if_splits)
  moreover have "l \<notin> set (group_lines cfg @ device_lines cfg @ map host_line hosts @ cache_lines lib cfg policy rendered)"
    using d groups_directive devices_directive hosts_directive cache_directive unfolding list_all_iff by fastforce
  ultimately show ?thesis using assms(2) by (auto simp: p(1))
qed

text \<open>What a server directive may be, in terms of the configuration's own texts. An IPv4 address that is not loopback,
  multicast or unspecified; one that a resolver of the system may have; one an upstream may have.\<close>

definition outside_address :: "string \<Rightarrow> bool" where
  "outside_address s \<longleftrightarrow>
     (\<exists>a b c d. to4 (parse_ip s) = [a, b, c, d] \<and> a \<noteq> 127 \<and> a AND 0xF0 \<noteq> 0xE0 \<and> [a, b, c, d] \<noteq> [0, 0, 0, 0])"

definition real_dns :: "config \<Rightarrow> string \<Rightarrow> string \<Rightarrow> bool" where
  "real_dns cfg raw target \<longleftrightarrow>
     outside_address (trim_space raw) \<and> target = ipv4_string (to4 (parse_ip (trim_space raw)))
     \<and> target \<notin> {''100.100.100.100'', trim_space (dn_listen (cf_dns cfg)), trim_space (ga_lan_ip (cf_gateway cfg))}"

definition upstream_address :: "config \<Rightarrow> string \<Rightarrow> bool" where
  "upstream_address cfg s \<longleftrightarrow>
     outside_address s \<and> to4 (parse_ip s) \<noteq> [255, 255, 255, 255] \<and> take 2 (to4 (parse_ip s)) \<noteq> [169, 254]
     \<and> s \<noteq> ''100.100.100.100'' \<and> \<not> ip_equal (parse_ip s) (parse_ip (dn_listen (cf_dns cfg)))
     \<and> \<not> ip_equal (parse_ip s) (parse_ip (ga_lan_ip (cf_gateway cfg)))"

text \<open>A configured upstream: DoH and DoT to a named host at its bootstrap address, the name checked; plain DNS to an
  address, with consent; through the proxy where there is one.\<close>

definition configured_server :: "smartdns_lib \<Rightarrow> config \<Rightarrow> string \<Rightarrow> string \<Rightarrow> string list \<Rightarrow> bool" where
  "configured_server lib cfg k target options \<longleftrightarrow>
     (\<exists>up u. up \<in> set (dn_upstreams (cf_dns cfg)) \<and> sd_url lib (upstream_url (trim_space (up_address up))) = Some u
        \<and> (let host = fst (url_split_host (ul_host u)) in
             if ul_scheme u \<in> {''https'', ''tls''}
             then k = (if ul_scheme u = ''https'' then ''server-https'' else ''server-tls'')
               \<and> target = (if ul_scheme u = ''https'' then ul_text u else ul_host u)
               \<and> parse_ip host = [] \<and> upstream_address cfg (trim_space (up_bootstrap up))
               \<and> sublist [''-host-ip'', trim_space (up_bootstrap up)] options \<and> sublist [''-tls-host-verify'', host] options
             else ul_scheme u \<in> {''udp'', ''tcp''}
               \<and> k = (if ul_scheme u = ''udp'' then ''server'' else ''server-tcp'')
               \<and> target = ul_host u \<and> upstream_address cfg host \<and> dn_allow_plaintext (cf_dns cfg)))
     \<and> (dn_proxy_enabled (cf_dns cfg) \<longrightarrow> sublist [''-proxy'', ''opensurge-dns''] options \<and> k \<noteq> ''server'')"

text \<open>A resolver of the system, or the upstream router when none is usable.\<close>

definition system_server :: "config \<Rightarrow> string list \<Rightarrow> string \<Rightarrow> bool" where
  "system_server cfg resolvers target \<longleftrightarrow>
     (\<exists>r \<in> set resolvers. real_dns cfg r target)
     \<or> (\<forall>r \<in> set resolvers. \<forall>t. \<not> real_dns cfg r t)
        \<and> to4 (parse_ip (trim_space (ga_upstream_gateway (cf_gateway cfg)))) \<noteq> []
        \<and> target = ipv4_string (to4 (parse_ip (trim_space (ga_upstream_gateway (cf_gateway cfg)))))
        \<and> target \<notin> {''100.100.100.100'', listen_address cfg}"

definition server_allowed :: "smartdns_lib \<Rightarrow> config \<Rightarrow> string list \<Rightarrow> string \<Rightarrow> string \<Rightarrow> string list \<Rightarrow> bool" where
  "server_allowed lib cfg resolvers k target options \<longleftrightarrow>
     (let opts = k # target # options in
      ''-exclude-default-group'' \<in> set options
      \<and> (contains_group opts gateway_group \<longrightarrow> target = ''127.0.0.1:1053'')
      \<and> (contains_group opts local_group \<longrightarrow> target = ''127.0.0.1:5353'')
      \<and> (contains_group opts resolver_group \<longrightarrow>
           (k \<noteq> ''server-https'' \<longrightarrow> target \<noteq> ''127.0.0.1:1053'')
           \<and> (if custom_mode cfg then configured_server lib cfg k target options else system_server cfg resolvers target))
      \<and> (contains_group opts gateway_group \<or> contains_group opts resolver_group \<or> contains_group opts local_group))"

lemma v4_bytes:
  assumes "to4 ip \<noteq> []"
  obtains a b c d where "to4 ip = [a, b, c, d]" "ip = [a, b, c, d] \<or> ip = v4_in_v6_prefix @ [a, b, c, d]"
proof -
  from assms have "length (to4 ip) = 4" using to4_nonempty_length by blast
  then obtain a b c d where abcd: "to4 ip = [a, b, c, d]" by (auto simp: numeral_eq_Suc length_Suc_conv)
  have "ip = take 12 ip @ drop 12 ip" by simp
  with abcd have "ip = [a, b, c, d] \<or> ip = v4_in_v6_prefix @ [a, b, c, d]"
    unfolding to4_def by (metis list.distinct(1))
  with that abcd show thesis by blast
qed

lemma outside_address_iff:
  "outside_address s \<longleftrightarrow> to4 (parse_ip s) \<noteq> [] \<and> \<not> ip_loopback (parse_ip s) \<and> \<not> ip_unspecified (parse_ip s)
     \<and> \<not> ip_multicast (parse_ip s)"
proof (cases "to4 (parse_ip s) = []")
  case False
  then obtain a b c d where v: "to4 (parse_ip s) = [a, b, c, d]"
    "parse_ip s = [a, b, c, d] \<or> parse_ip s = v4_in_v6_prefix @ [a, b, c, d]" by (rule v4_bytes)
  have "ip_unspecified (parse_ip s) \<longleftrightarrow> [a, b, c, d] = [0, 0, 0, 0]"
    using v(2) by (auto simp: ip_unspecified_def ip_equal_def v4_in_v6_prefix_def eval_nat_numeral)
  then show ?thesis using v(1) by (auto simp: outside_address_def ip_loopback_def ip_multicast_def)
qed (simp add: outside_address_def)

lemma real_resolver_iff: "real_resolver cfg raw = Some t \<longleftrightarrow> real_dns cfg raw t"
  by (auto simp: real_resolver_def real_dns_def outside_address_iff Let_def to4_def)

lemma chosen_system:
  assumes "t \<in> set (chosen_resolvers cfg resolvers)" and "\<not> custom_mode cfg"
  shows "system_server cfg resolvers t"
proof -
  have member: "v \<in> set (normalize_resolvers resolvers cfg) \<longleftrightarrow> (\<exists>r \<in> set resolvers. real_dns cfg r v)" for v
    unfolding real_resolver_iff [symmetric] by (force simp: normalize_resolvers_def map_filter_def)
  show ?thesis
  proof (cases "normalize_resolvers resolvers cfg = []")
    case True
    then have "\<forall>r \<in> set resolvers. \<forall>t. \<not> real_dns cfg r t" using member by auto
    then show ?thesis
      using assms True by (auto simp: chosen_resolvers_def upstream_fallback_def ip_text_def system_server_def Let_def split: if_splits)
  next
    case False
    then show ?thesis using assms member by (auto simp: chosen_resolvers_def system_server_def Let_def)
  qed
qed

lemma colon_address: "parse_ip ''127.0.0.1:1053'' = []" "to4 (parse_ip ''127.0.0.1'') = [127, 0, 0, 1]"
  "fst (url_split_host ''127.0.0.1:1053'') = ''127.0.0.1''"
  by code_simp+

lemma system_not_mihomo:
  assumes "system_server cfg resolvers target"
  shows "target \<noteq> ''127.0.0.1:1053''"
proof
  assume t: "target = ''127.0.0.1:1053''"
  from assms obtain ip where ip: "to4 ip \<noteq> []" "target = ipv4_string (to4 ip)"
    by (auto simp: system_server_def real_dns_def outside_address_iff)
  then have "to4 (parse_ip target) = to4 ip" using parse_ip_ipv4_string to4_nonempty_length by metis
  with t ip(1) colon_address(1) show False by (simp add: to4_def)
qed

lemma valid_ipv4_upstream: "valid_resolver_ipv4 s cfg \<Longrightarrow> upstream_address cfg s"
proof -
  assume v: "valid_resolver_ipv4 s cfg"
  then have n: "to4 (parse_ip s) \<noteq> []" by (auto simp: valid_resolver_ipv4_def Let_def split: if_splits)
  then obtain a b c d where b: "to4 (parse_ip s) = [a, b, c, d]"
    "parse_ip s = [a, b, c, d] \<or> parse_ip s = v4_in_v6_prefix @ [a, b, c, d]" by (rule v4_bytes)
  have "ip_equal (parse_ip s) ipv4_broadcast \<longleftrightarrow> [a, b, c, d] = [255, 255, 255, 255]"
    using b(2) by (auto simp: ip_equal_def ipv4_broadcast_def v4_in_v6_prefix_def)
  with v n b(1) show ?thesis
    by (auto simp: valid_resolver_ipv4_def upstream_address_def outside_address_iff ip_link_local_def Let_def split: if_splits)
qed

lemma endpoint_url:
  assumes "parse_resolver_upstream url_parse up cfg = Inr ep"
  obtains u where "url_parse (upstream_url (trim_space (up_address up))) = Some u" "re_scheme ep = ul_scheme u"
    "re_hostname ep = fst (url_split_host (ul_host u))" "re_bootstrap ep = trim_space (up_bootstrap up)"
    "scheme_target u = Inr (re_encrypted ep, re_target ep)" "check_endpoint_address cfg ep = None"
  using assms by (auto simp: parse_resolver_upstream_def Let_def rbind_eq_Inr_iff split: if_splits option.splits)

lemma server_words_fields:
  "list_all solid [t, g] \<Longrightarrow> split_fields (trim_space (server_line t g)) = [''server'', t, ''-group'', g, ''-exclude-default-group'']"
  unfolding server_line_def using server_words_solid by (intro fields_of_words) simp

lemma view_names_distinct:
  "gateway_group \<noteq> resolver_group" "local_group \<noteq> gateway_group" "local_group \<noteq> resolver_group"
  by (simp_all add: gateway_group_def resolver_group_def local_group_def)

lemma server_line_groups:
  "contains_group [''server'', t, ''-group'', g, ''-exclude-default-group''] g' \<longleftrightarrow> g' = g \<or> (t = ''-group'' \<and> g' = ''-group'')
     \<or> (g = ''-group'' \<and> g' = ''-exclude-default-group'')"
  by auto

lemma upstream_configured:
  assumes v: "validate_resolver_config (sd_url lib) cfg = None" and up: "up \<in> set (dn_upstreams (cf_dns cfg))"
    and t: "solid (re_target (parsed_endpoint lib cfg up))"
    and l: "split_fields (trim_space (upstream_line lib cfg e up)) = k # target # options"
  shows "configured_server lib cfg k target options" and "k \<noteq> ''server-https'' \<longrightarrow> target \<noteq> ''127.0.0.1:1053''"
    and "''-exclude-default-group'' \<in> set options"
proof -
  from v up have view: "check_view_upstream (sd_url lib) cfg up = None" by (auto simp: validate_resolver_config_def Let_def)
  then obtain ep where ep: "parse_resolver_upstream (sd_url lib) up cfg = Inr ep"
      "re_encrypted ep \<or> dn_allow_plaintext (cf_dns cfg)" "dn_proxy_enabled (cf_dns cfg) \<Longrightarrow> re_scheme ep \<noteq> ''udp''"
    by (auto simp: check_view_upstream_def split: sum.splits)
  then have pe: "parsed_endpoint lib cfg up = ep" by (simp add: parsed_endpoint_def)
  obtain u where u: "sd_url lib (upstream_url (trim_space (up_address up))) = Some u" "re_scheme ep = ul_scheme u"
      "re_hostname ep = fst (url_split_host (ul_host u))" "re_bootstrap ep = trim_space (up_bootstrap up)"
      "scheme_target u = Inr (re_encrypted ep, re_target ep)" "check_endpoint_address cfg ep = None"
    using endpoint_url [OF ep(1)] by blast
  have target: "ul_scheme u \<in> {''https'', ''tls'', ''udp'', ''tcp''}" "re_encrypted ep \<longleftrightarrow> ul_scheme u \<in> {''https'', ''tls''}"
      "re_target ep = (if ul_scheme u = ''https'' then ul_text u else ul_host u)"
    using u(5) by (auto simp: scheme_target_def split: if_splits)
  have tls_host: "parse_ip (re_hostname ep) = []" "upstream_address cfg (re_bootstrap ep)" if "re_encrypted ep"
    using u(6) that valid_ipv4_upstream by (auto simp: check_endpoint_address_def valid_resolver_hostname_def)
  have plain_host: "upstream_address cfg (re_hostname ep)" if "\<not> re_encrypted ep"
    using u(6) that valid_ipv4_upstream by (auto simp: check_endpoint_address_def)
  have w: "upstream_words cfg e ep = k # target # options"
    using fields_of_words [OF upstream_words_solid [OF v up t, of e]] l pe by (simp add: upstream_line_words)
  define pre where "pre = [''-group'', resolver_group, ''-exclude-default-group'']"
  define tls where "tls = (if re_encrypted ep
     then [''-host-ip'', re_bootstrap ep, ''-host-name'', re_hostname ep, ''-tls-host-verify'', re_hostname ep]
     else if e then [''-fallback''] else [])"
  define px where "px = (if dn_proxy_enabled (cf_dns cfg) then [''-proxy'', ''opensurge-dns''] else [])"
  have o: "k = server_directive (re_scheme ep)" "target = re_target ep" "options = pre @ tls @ px"
    using w by (simp_all add: upstream_words_def pre_def tls_def px_def)
  then show "''-exclude-default-group'' \<in> set options" by (simp add: pre_def)
  have checked: "sublist [''-host-ip'', re_bootstrap ep] options \<and> sublist [''-tls-host-verify'', re_hostname ep] options"
    if "re_encrypted ep"
  proof -
    from that o(3) have
      "options = pre @ [''-host-ip'', re_bootstrap ep] @ [''-host-name'', re_hostname ep, ''-tls-host-verify'', re_hostname ep] @ px"
      "options = (pre @ [''-host-ip'', re_bootstrap ep, ''-host-name'', re_hostname ep]) @ [''-tls-host-verify'', re_hostname ep] @ px"
      by (simp_all add: tls_def)
    then show ?thesis by (metis sublist_appendI)
  qed
  have proxied: "dn_proxy_enabled (cf_dns cfg) \<longrightarrow> sublist [''-proxy'', ''opensurge-dns''] options \<and> k \<noteq> ''server''"
    using sublist_appendI [of _ "pre @ tls" "[]"] ep(3) target(1) u(2)
    by (auto simp: o(1,3) px_def server_directive_def)
  have key: "k = (if ul_scheme u = ''https'' then ''server-https'' else if ul_scheme u = ''tls'' then ''server-tls''
      else if ul_scheme u = ''udp'' then ''server'' else ''server-tcp'')"
    using target(1) u(2) by (auto simp: o(1) server_directive_def)
  show "configured_server lib cfg k target options"
    unfolding configured_server_def
  proof (intro conjI proxied exI)
    show "up \<in> set (dn_upstreams (cf_dns cfg))" by (rule up)
    show "sd_url lib (upstream_url (trim_space (up_address up))) = Some u" by (rule u(1))
    show "let host = fst (url_split_host (ul_host u)) in
             if ul_scheme u \<in> {''https'', ''tls''}
             then k = (if ul_scheme u = ''https'' then ''server-https'' else ''server-tls'')
               \<and> target = (if ul_scheme u = ''https'' then ul_text u else ul_host u)
               \<and> parse_ip host = [] \<and> upstream_address cfg (trim_space (up_bootstrap up))
               \<and> sublist [''-host-ip'', trim_space (up_bootstrap up)] options \<and> sublist [''-tls-host-verify'', host] options
             else ul_scheme u \<in> {''udp'', ''tcp''}
               \<and> k = (if ul_scheme u = ''udp'' then ''server'' else ''server-tcp'')
               \<and> target = ul_host u \<and> upstream_address cfg host \<and> dn_allow_plaintext (cf_dns cfg)"
    proof (cases "re_encrypted ep")
      case True
      with tls_host checked target key u(3,4) o(2) show ?thesis by (auto simp: Let_def)
    next
      case False
      with plain_host target key u(3) o(2) ep(2) show ?thesis by (auto simp: Let_def)
    qed
  qed
  show "k \<noteq> ''server-https'' \<longrightarrow> target \<noteq> ''127.0.0.1:1053''"
  proof (intro impI notI)
    assume k: "k \<noteq> ''server-https''" and t: "target = ''127.0.0.1:1053''"
    from k key have "ul_scheme u \<noteq> ''https''" by auto
    with t o(2) target(3) u(3) colon_address(3) have h: "re_hostname ep = ''127.0.0.1''" by simp
    show False
    proof (cases "re_encrypted ep")
      case True
      with tls_host(1) h colon_address(2) show False by (simp add: to4_def)
    next
      case False
      with plain_host h colon_address(2) show False by (auto simp: upstream_address_def outside_address_def)
    qed
  qed
qed

lemma upstream_words_not_local: "\<not> contains_group (upstream_words cfg e ep) local_group"
  by (auto simp: upstream_words_def local_group_def resolver_group_def server_directive_def)

lemma local_target: "join_host_port ''127.0.0.1'' (int_text local_dns_port) = ''127.0.0.1:5353''"
proof -
  have "chr_of 53 = CHR ''5''" "chr_of 51 = CHR ''3''" by code_simp+
  then have "int_text local_dns_port = ''5353''" by (simp add: int_text_def local_dns_port_def itoa.simps)
  then show ?thesis by (simp add: join_host_port_def)
qed

text \<open>C22: the views of the DNS stay apart. Of the lines of the file rendered for SmartDNS, every server directive is
  excluded from the default group and serves one of three groups. The gateway view, whose answers mihomo invents,
  asks mihomo only; local names go to the local server; the resolver view never asks mihomo. In custom mode it asks
  the configured upstreams alone: DoH and DoT of a host name at a bootstrap address with the name of the certificate
  checked, plain DNS with consent, through the proxy and not over UDP when one is enabled. Otherwise it asks the
  system's resolvers that are IPv4, not loopback, unspecified or multicast, nor MagicDNS, nor the gateway itself, or
  the upstream router when none is left. Upstreams have to be printable ASCII, and the DHCP domain and the devices'
  addresses free of newlines.\<close>

theorem dns_views_stay_apart:
  assumes "render_smartdns_with lib cfg resolvers = Inr ls"
    and "\<forall>up \<in> set (dn_upstreams (cf_dns cfg)). solid (re_target (parsed_endpoint lib cfg up))"
    and "newline \<notin> set (local_domain cfg)"
    and "\<forall>b d. dp_bundle (cf_policy cfg) = Some b \<and> d \<in> set (cp_devices (pb_compiled b)) \<longrightarrow> newline \<notin> set (cd_ipv4 d)"
    and "l \<in> set (split_on newline (text_of_lines ls))" and "split_fields (trim_space l) = k # target # options"
    and "k \<in> set [''server'', ''server-tcp'', ''server-tls'', ''server-https'']"
  shows "server_allowed lib cfg resolvers k target options"
proof -
  let ?rs = "chosen_resolvers cfg resolvers"
  have v: "validate_resolver_config (sd_url lib) cfg = None" using rendered_parts [OF assms(1)] by blast
  have "split_fields (trim_space []) = []" by (simp add: split_fields_def fields_from_eval)
  with assms(5,6) rendered_split [OF assms(1-4)] have l: "l \<in> set ls" by auto
  have plain: "server_allowed lib cfg resolvers k target options"
    if "l = server_line t g" "solid t" "g \<in> {gateway_group, resolver_group, local_group}"
      "g = gateway_group \<longrightarrow> t = ''127.0.0.1:1053''" "g = local_group \<longrightarrow> t = ''127.0.0.1:5353''"
      "g = resolver_group \<longrightarrow> \<not> custom_mode cfg \<and> system_server cfg resolvers t" for t g
  proof -
    have g: "solid g" using that(3) group_names_solid by auto
    have "[''server'', t, ''-group'', g, ''-exclude-default-group''] = k # target # options"
      using server_words_fields [of t g] that(1,2) g assms(6) by simp
    then have o: "k # target # options = [''server'', t, ''-group'', g, ''-exclude-default-group'']" "target = t"
      "options = [''-group'', g, ''-exclude-default-group'']" by simp_all
    have names: "gateway_group \<noteq> ''-group''" "resolver_group \<noteq> ''-group''" "local_group \<noteq> ''-group''"
      "gateway_group \<noteq> ''-exclude-default-group''" "resolver_group \<noteq> ''-exclude-default-group''" "local_group \<noteq> ''-exclude-default-group''"
      by (simp_all add: gateway_group_def resolver_group_def local_group_def)
    have "contains_group (k # target # options) g' \<longleftrightarrow> g' = g" if "g' \<in> {gateway_group, resolver_group, local_group}" for g'
      using that \<open>g \<in> _\<close> names unfolding o(1) server_line_groups by auto
    then show ?thesis
      using that(3-6) system_not_mihomo view_names_distinct unfolding server_allowed_def Let_def by (auto simp: o(2,3))
  qed
  have "k \<in> set server_words" using assms(7) by (simp add: server_words_def)
  from server_lines_only [OF assms(1) l assms(6) this] consider "l \<in> set (server_lines lib cfg ?rs)"
    | "l = server_line (join_host_port ''127.0.0.1'' (int_text local_dns_port)) local_group" by blast
  then show ?thesis
  proof cases
    case 1
    then consider "l = server_line mihomo_dns gateway_group"
      | up e where "custom_mode cfg" "up \<in> set (dn_upstreams (cf_dns cfg))" "l = upstream_line lib cfg e up"
      | r where "\<not> custom_mode cfg" "r \<in> set ?rs" "l = server_line r resolver_group"
      by (auto simp: server_lines_def Let_def split: if_splits)
    then show ?thesis
    proof cases
      case 1
      have "solid mihomo_dns" using group_names_solid by simp
      from plain [OF 1 this] show ?thesis by (simp add: view_names_distinct view_names_distinct [symmetric] mihomo_dns_def)
    next
      case 2
      have l': "split_fields (trim_space (upstream_line lib cfg e up)) = k # target # options" using 2(3) assms(6) by simp
      note up = upstream_configured [OF v 2(2) _ l']
      have w: "upstream_words cfg e (parsed_endpoint lib cfg up) = k # target # options"
        using fields_of_words [OF upstream_words_solid [OF v 2(2), of e]] l' assms(2) 2(2) by (simp add: upstream_line_words)
      have "\<not> contains_group (k # target # options) gateway_group" "\<not> contains_group (k # target # options) local_group"
          "contains_group (k # target # options) resolver_group"
        using upstream_words_groups [of cfg e "parsed_endpoint lib cfg up"] upstream_words_not_local w by metis+
      moreover have "''-exclude-default-group'' \<in> set options" "configured_server lib cfg k target options"
          "k \<noteq> ''server-https'' \<longrightarrow> target \<noteq> ''127.0.0.1:1053''"
        using up assms(2) 2(2) by blast+
      ultimately show ?thesis using 2(1) unfolding server_allowed_def Let_def by (simp only: simp_thms if_True)
    next
      case 3
      with plain [of r resolver_group] chosen_resolvers_solid [of cfg resolvers] view_names_distinct chosen_system [OF 3(2,1)]
      show ?thesis by (auto simp: list_all_iff)
    qed
  next
    case 2
    with plain [of _ local_group] local_target_solid view_names_distinct show ?thesis by (auto simp: local_target)
  qed
qed

subsection \<open>The properties on the sample configuration\<close>

definition sample_dns :: smartdns_lib where
  "sample_dns = \<lparr>sd_url = sample_url, sd_mihomo = (\<lambda>_. Some []), sd_yaml = (\<lambda>_. Some (YMapping [])), sd_sha = (\<lambda>s. s),
     sd_wide = (\<lambda>_. False)\<rparr>"

lemma sample_dns_fields:
  "cf_dns tailnet_config = \<lparr>dn_mode = ''custom'', dn_upstreams = [\<lparr>up_address = ''tcp://9.9.9.9'', up_bootstrap = []\<rparr>],
      dn_node_upstreams = [], dn_allow_plaintext = True, dn_proxy_enabled = False, dn_proxy_target = [],
      dn_use_smartdns = False, dn_listen = ''192.168.50.1'', dn_port = 53, dn_upstream = ''127.0.0.1#1053'', dn_ipv6 = False\<rparr>"
  "cf_policy tailnet_config = cf_policy default_config" "cf_dhcp tailnet_config = cf_dhcp default_config"
  "cf_gateway tailnet_config = cf_gateway default_config"
  by (simp_all add: tailnet_config_def default_config_def)

lemma sample_endpoint:
  "parsed_endpoint sample_dns tailnet_config \<lparr>up_address = ''tcp://9.9.9.9'', up_bootstrap = []\<rparr>
     = \<lparr>re_scheme = ''tcp'', re_target = ''9.9.9.9'', re_hostname = ''9.9.9.9'', re_bootstrap = [], re_encrypted = False\<rparr>"
  by (simp add: parsed_endpoint_def sample_dns_def parse_resolver_upstream_def upstream_text_ok_def upstream_url_def
      sample_url_def scheme_target_def check_url_port_def check_endpoint_address_def valid_resolver_ipv4_def
      url_split_host_def strip_brackets_def is_space_rune_def tailnet_config_def default_config_def ip_loopback_def
      ip_unspecified_def ip_multicast_def ip_link_local_def ipv4_broadcast_def ip_equal_def go_eval)

lemma sample_listen: "listen_address tailnet_config = ''192.168.50.1''" "listen_target tailnet_config = ''192.168.50.1:53''"
  "parse_ip ''192.168.50.1'' \<noteq> []" "to4 (parse_ip ''192.168.50.1'') \<noteq> []"
  by (simp_all add: listen_target_def listen_address_def sample_dns_fields join_host_port_def int_text_def go_eval
      parse_ip_def parse_addr_def addr_bytes_def to4_def v4_in_v6_prefix_def)

lemma sample_rendered: "\<exists>ls. render_smartdns_with sample_dns tailnet_config [] = Inr ls"
proof -
  have "validate_resolver_config sample_url tailnet_config = None"
    using tailnet_dns_valid by (simp add: validate_dns_def sample_env_def)
  then show ?thesis
    using sample_listen by (simp add: render_smartdns_with_def Let_def sample_dns_fields sample_dns_def custom_mode_def
        compatible_resolver_hosts_def)
qed

lemma sample_plain:
  "\<forall>up \<in> set (dn_upstreams (cf_dns tailnet_config)). solid (re_target (parsed_endpoint sample_dns tailnet_config up))"
  "newline \<notin> set (local_domain tailnet_config)" "dp_bundle (cf_policy tailnet_config) = None"
  "listen_target tailnet_config \<noteq> smartdns_resolver_addr"
  by (simp_all add: sample_dns_fields sample_endpoint printable_def local_domain_def default_config_def sample_listen
      smartdns_resolver_addr_def trim_set_def go_eval)

theorem rendered_dns_reads_back_witness:
  "\<exists>ls. render_smartdns_with sample_dns tailnet_config [] = Inr ls
     \<and> nr_resolvers (parse_dns_runtime (text_of_lines ls)) = [''tcp://9.9.9.9'']
     \<and> nr_listen (parse_dns_runtime (text_of_lines ls)) = ''192.168.50.1:53''"
proof -
  obtain ls where r: "render_smartdns_with sample_dns tailnet_config [] = Inr ls" using sample_rendered by blast
  have u: "shown_upstream sample_dns tailnet_config \<lparr>up_address = ''tcp://9.9.9.9'', up_bootstrap = []\<rparr> = ''tcp://9.9.9.9''"
    by (simp add: shown_upstream_def sample_endpoint)
  have c: "custom_mode tailnet_config" by (simp add: custom_mode_def sample_dns_fields)
  have d: "\<forall>b d. dp_bundle (cf_policy tailnet_config) = Some b \<and> d \<in> set (cp_devices (pb_compiled b)) \<longrightarrow> newline \<notin> set (cd_ipv4 d)"
    by (simp add: sample_plain(3))
  note eq = rendered_dns_reads_back [OF r sample_plain(4,1,2) d]
  have "nr_resolvers (parse_dns_runtime (text_of_lines ls)) = map (shown_upstream sample_dns tailnet_config) (dn_upstreams (cf_dns tailnet_config))"
    "nr_listen (parse_dns_runtime (text_of_lines ls)) = ''192.168.50.1:53''"
    unfolding eq by (simp_all only: c sample_listen(2) dns_runtime.select_convs if_True)
  then have "nr_resolvers (parse_dns_runtime (text_of_lines ls)) = [''tcp://9.9.9.9'']"
    "nr_listen (parse_dns_runtime (text_of_lines ls)) = ''192.168.50.1:53''"
    by (simp_all only: sample_dns_fields dns_section.select_convs list.map u)
  with r show ?thesis by blast
qed

lemma sample_line:
  assumes "render_smartdns_with sample_dns tailnet_config [] = Inr ls"
  shows "server_line mihomo_dns gateway_group \<in> set (split_on newline (text_of_lines ls))"
    and "\<forall>b d. dp_bundle (cf_policy tailnet_config) = Some b \<and> d \<in> set (cp_devices (pb_compiled b)) \<longrightarrow> newline \<notin> set (cd_ipv4 d)"
proof -
  show d: "\<forall>b d. dp_bundle (cf_policy tailnet_config) = Some b \<and> d \<in> set (cp_devices (pb_compiled b)) \<longrightarrow> newline \<notin> set (cd_ipv4 d)"
    by (simp add: sample_plain(3))
  obtain hosts policy rendered where
    "ls = head_lines sample_dns tailnet_config @ group_lines tailnet_config @ bind_lines tailnet_config
       @ server_lines sample_dns tailnet_config (chosen_resolvers tailnet_config [])
       @ local_lines tailnet_config @ device_lines tailnet_config @ map host_line hosts
       @ cache_lines sample_dns tailnet_config policy rendered"
    using rendered_parts [OF assms] by blast
  then have "server_line mihomo_dns gateway_group \<in> set ls" by (simp add: server_lines_def Let_def)
  then show "server_line mihomo_dns gateway_group \<in> set (split_on newline (text_of_lines ls))"
    by (simp add: rendered_split [OF assms sample_plain(1,2) d])
qed

theorem dns_views_stay_apart_witness:
  "server_allowed sample_dns tailnet_config [] ''server'' mihomo_dns [''-group'', gateway_group, ''-exclude-default-group'']"
proof -
  obtain ls where r: "render_smartdns_with sample_dns tailnet_config [] = Inr ls" using sample_rendered by blast
  have "split_fields (trim_space (server_line mihomo_dns gateway_group))
      = ''server'' # mihomo_dns # [''-group'', gateway_group, ''-exclude-default-group'']"
    by (rule server_words_fields) (use group_names_solid in simp)
  from dns_views_stay_apart [OF r sample_plain(1,2) sample_line(2) [OF r] sample_line(1) [OF r] this] show ?thesis by simp
qed

end
