(* ===== verification/Spec2Isabelle.thy ===== *)
theory Spec2Isabelle
  imports PolicyRuns PolicyBundle Leases GatewayLock GatewayRestart LinuxProps ConfigTopology WebThrottle WatchProps DnsProps
begin

text \<open>
  OpenSurge turns a NAS into the gateway of a LAN: it hands out addresses (dnsmasq), answers DNS, and routes
  the traffic of the LAN's devices into the proxy core (mihomo) by policy routing, nftables and a TUN
  device. This development models the core of its Go code under \<open>src/internal\<close> and proves what the parts
  promise to each other.

  \<^bold>\<open>The program's parts.\<close> A configuration file (\<open>config\<close>) and a device policy (\<open>device\<close>) are loaded, checked
  and compiled against the LAN (\<open>lan\<close>). The gateway (\<open>gateway\<close>) starts, stops, reloads, recovers and reports
  on that basis; it keeps a state file, a journal of what it did to the host, and a lifecycle lock
  (\<open>runtime\<close>), and it drives the host through the backend (\<open>platform/linux\<close>). Leases that contradict the
  policy are removed before dnsmasq starts (\<open>dhcp\<close>). People reach all of this through the web gateway
  (\<open>webgateway\<close>), which authenticates a browser or a remote client and forwards to the control API; the
  control API's watchdogs (\<open>controlapi\<close>) recover a gateway that fails while nobody looks.

  \<^bold>\<open>Layers and theories.\<close>

  \<^item> Prelude holds results (\<open>'e + 'a\<close> for \<open>(T, error)\<close>, \<open>'e option\<close> for \<open>error\<close>), the loops that stop at
    the first error, Go's 64-bit \<open>int\<close>, and the theorem collections. GoStrings, GoNumbers, GoNet, GoNetip,
    GoPath and GoEncoding translate what the program uses of the standard library: bytes and UTF-8, trimming,
    splitting, case mapping, numbers, IP addresses and prefixes as words and octets, paths, hex and base64.
  \<^item> Lan (\<open>lan/lan.go\<close>): the subnet as network, mask and gateway; containment is equality of the masked
    bits on 32-bit words, usable hosts are the offsets between network and broadcast address.
  \<^item> PolicyModel, PolicyCompile, PolicyBundle (\<open>device/policy.go\<close>, \<open>resolution.go\<close>, \<open>bundle.go\<close>): the policy
    document, its validation, the compiler, the immutable artifact. PolicySpec is a reference description of
    the compiled policy without the compiler's accumulator; PolicyFacts, PolicyProps and PolicyLan prove the
    compiler equal to it and derive isolation of devices, fail-closed rules, bounds and LAN scoping.
    PolicyRuns applies all of it to one concrete policy.
  \<^item> RuntimeState (\<open>runtime\<close>, \<open>platform/types.go\<close>): state, snapshots, boot sessions, the desired state, and
    the state file written step by step. Effects is the state-and-error monad of the gateway with its Hoare
    triples; GatewayEnv lists what the gateway asks and does, GatewayManager and GatewayTransitions
    (\<open>gateway/manager.go\<close>, \<open>dnsmasq_restart.go\<close>) and GatewayStatus (\<open>status.go\<close>, \<open>container_recovery.go\<close>,
    \<open>reservation_conflicts.go\<close>) are its operations with every early return. GatewayLogic is the interface
    between invariants and operations (locales \<open>quiet_invariant\<close>, \<open>call_invariant\<close>): an invariant of the log
    of events that every primitive call keeps is kept by every operation. GatewayJournal (the journal is
    written before the host is touched), GatewayStart, GatewayStop, GatewayRestart, GatewayRecovery and
    GatewayLock interpret it; GatewayRuns runs the definitions.
  \<^item> LinuxHost to LinuxReport (\<open>platform/linux\<close>): commands to \<open>ip\<close> and \<open>nft\<close> and files under \<open>/proc\<close> as
    events answered by a host. LinuxLogic gives the interface of invariants over these events (\<open>observer\<close>,
    \<open>operator\<close>); LinuxKernel states, as the locale \<open>ip_laws\<close>, what the backend relies on the kernel for,
    LinuxLab is a kernel that satisfies the laws, and LinuxCycle proves the life cycle of policy routing from
    them: fail-closed at every intermediate state, exact removal, install and remove as a round trip.
    LinuxProps has what needs no law of the kernel.
  \<^item> ConfigModel, ConfigResolver, ConfigChecks, ConfigValidate, ConfigLoad, ConfigRender (\<open>config\<close>): the
    configuration with its defaults, normalisation, validation, the line format and the text that is saved.
    ConfigRoundtrip, ConfigDocument and ConfigReload prove that what is saved loads again; ConfigFacts and
    ConfigProps what validation guarantees; ConfigTopology carries it to the backend: a loaded configuration
    gives a routing recipe the theorems of LinuxCycle apply to.
  \<^item> WebStores (\<open>webgateway/auth.go\<close>, the store of \<open>remote_management.go\<close>): the administrator's credential and the
    remote management token with the outcomes of reading and writing their files. WebServer (\<open>server.go\<close>,
    \<open>product.go\<close>, \<open>remote_management.go\<close>): start, sessions, the login limiter, every handler, and the routes.
    WebHistory runs requests one after the other (\<open>web_run\<close>) and gives the effect of each on the state;
    WebSessions states what the history says about a session, and the session table refines it; WebProps has
    the authority behind whatever is forwarded, the creation of the account and the life of the remote token;
    WebThrottle bounds the guesses of a client served sequentially and shows, in a step relation over the
    critical sections of the login (\<open>login_step\<close>), that simultaneous logins escape the bound. WebRuns is one
    day of a gateway.
  \<^item> WatchModel and WatchEvaluate (\<open>controlapi/mihomo_recovery.go\<close>, \<open>dnsmasq_recovery.go\<close>, \<open>dns_probe.go\<close>): the
    watchdogs of the control API, which read the gateway's status every five seconds and recover it. WatchRuns
    interleaves the rounds of the monitor with the operations it starts, manual ones and other holders of the
    lifecycle lock (\<open>watch_run\<close>) and keeps an invariant over the attempts of an incident; WatchProps has the
    throttling of recoveries, the evidence behind each, that a failed one is tried again, and that dnsmasq is
    restarted once per incident.
  \<^item> DnsRender (\<open>smartdns/config.go\<close>, \<open>controlapi/dns_runtime.go\<close>): the configuration of the LAN's DNS server as
    lines of words, and the reader that shows it in the control API. DnsRuntime proves that words are read back
    from a line and goes through the parts of the text: what was rendered reads back as what was configured.
    DnsProps says which servers each view of the DNS may ask, and runs both on a sample configuration.
  \<^item> Leases (\<open>dhcp/leases.go\<close>, \<open>device/scanner.go\<close>): the reconciliation of the lease file.

  \<^bold>\<open>State and effects.\<close> A record stands for each struct, with a prefix of its own on the fields; enumerations of
  error messages are datatypes, one constructor per message that a caller can tell apart. Operations on the
  gateway thread a world (files, processes, the log of calls) and ask an environment for the outcome of
  every call, so that each theorem speaks about all outcomes, failures included. Properties of the form
  "before" and "after" are about the log.

  \<^bold>\<open>Bounds and fuel.\<close> Machine integers are words where the code depends on the width (addresses, marks, table
  ids, Argon2 parameters) and integers with explicit wrap-around otherwise (\<open>wrap64\<close>). Loops are recursive
  functions with a measure. Only the wait for the TUN device polls without a bound of its own: \<open>poll_tun\<close> is a
  \<open>partial_function\<close> whose value \<open>None\<close> would be a wait without end, and from the deadline of its context and the
  pause between two looks it is proved to return, after how many looks at most.

  \<^bold>\<open>Parameters.\<close> Libraries outside the repository are arguments: \<open>url.Parse\<close>, JSON decoding (values are given
  decoded), SHA-256, Argon2, the tables of \<open>strconv.IsPrint\<close>, the kernel behind \<open>ip\<close> and \<open>nft\<close>, the process
  table and the file system. Hypotheses about them are documented behaviour, and witnesses instantiate them.

  \<^bold>\<open>Not modelled.\<close> Rendering of the YAML of mihomo and its HTTP client, the SmartDNS process, the control API's handlers,
  deployment on the NAS, the macOS backend, the doctor and the command line are outside the development:
  they are glue over the network, Docker or third-party YAML trees. Log texts, progress reports and the
  wording of errors are left out throughout. Of the web gateway the text of pages and of the capability list,
  response headers and the redirects \<open>ServeMux\<close> makes for paths that are not clean are left out; the bodies
  of requests are given decoded.
\<close>

end
